(* ===== verification/XvrPrelude.thy ===== *)
theory XvrPrelude
  imports Main "HOL-Library.Word" "HOL-Library.Sublist"
begin

text \<open>
  Prelude of the development: the collections the component theories fill, the view of a C
  string as a character list followed by NUL, and the list, option and word lemmas that more
  than one component uses.
\<close>

named_theorems cstr_simps \<open>evaluation of C string primitives\<close>
named_theorems lexer_defs \<open>definitions of the lexer primitives\<close>
named_theorems lexer_frame \<open>what the lexer loops leave unchanged\<close>

section \<open>C strings\<close>

text \<open>
  A C string of the source is a list of characters without the final NUL. Reading at or past
  the end of the list reads the terminator. A list that holds a NUL inside stands for a buffer
  whose C string ends there.
\<close>

abbreviation NUL :: char where "NUL \<equiv> CHR 0x00"
abbreviation LF :: char where "LF \<equiv> CHR 0x0A"
abbreviation CR :: char where "CR \<equiv> CHR 0x0D"
abbreviation TAB :: char where "TAB \<equiv> CHR 0x09"
abbreviation BACKSLASH :: char where "BACKSLASH \<equiv> CHR 0x5C"
abbreviation DQUOTE :: char where "DQUOTE \<equiv> CHR 0x22"

definition char_at :: "string \<Rightarrow> nat \<Rightarrow> char" where
  "char_at s i = (if i < length s then s ! i else NUL)"

abbreviation no_nul :: "string \<Rightarrow> bool" where
  "no_nul s \<equiv> NUL \<notin> set s"

lemma char_at_in [simp]: "i < length s \<Longrightarrow> char_at s i = s ! i"
  by (simp add: char_at_def)

lemma char_at_end [simp]: "length s \<le> i \<Longrightarrow> char_at s i = NUL"
  by (simp add: char_at_def)

lemma char_at_not_nul_less: "char_at s i \<noteq> NUL \<Longrightarrow> i < length s"
  by (simp add: char_at_def split: if_splits)

lemma char_at_eq_NUL_iff: "no_nul s \<Longrightarrow> char_at s i = NUL \<longleftrightarrow> length s \<le> i"
  by (metis char_at_def linorder_not_less nth_mem)

lemma char_at_Cons_Suc [simp]: "char_at (c # cs) (Suc i) = char_at cs i"
  by (simp add: char_at_def)

lemma char_at_Cons_0 [simp]: "char_at (c # cs) 0 = c"
  by (simp add: char_at_def)

lemma char_at_Nil [simp]: "char_at [] i = NUL"
  by (simp add: char_at_def)

lemma char_at_append: "char_at (xs @ ys) i = (if i < length xs then xs ! i else char_at ys (i - length xs))"
  by (auto simp: char_at_def nth_append)

lemma char_at_drop: "char_at (drop k s) i = char_at s (k + i)"
  by (auto simp: char_at_def)

text \<open>Character classes by code, as the C comparisons of the source do.\<close>

definition is_digit_char :: "char \<Rightarrow> bool" where
  "is_digit_char c \<longleftrightarrow> 48 \<le> (of_char c :: nat) \<and> (of_char c :: nat) \<le> 57"

definition is_alpha_char :: "char \<Rightarrow> bool" where
  "is_alpha_char c \<longleftrightarrow> (65 \<le> (of_char c :: nat) \<and> (of_char c :: nat) \<le> 90)
     \<or> (97 \<le> (of_char c :: nat) \<and> (of_char c :: nat) \<le> 122) \<or> c = CHR ''_''"

lemma is_digit_char_NUL [simp]: "\<not> is_digit_char NUL"
  by (simp add: is_digit_char_def)

lemma is_alpha_char_NUL [simp]: "\<not> is_alpha_char NUL"
  by (simp add: is_alpha_char_def)

lemma is_digit_char_LF [simp]: "\<not> is_digit_char LF"
  by (simp add: is_digit_char_def)

lemma is_alpha_char_LF [simp]: "\<not> is_alpha_char LF"
  by (simp add: is_alpha_char_def)

lemma digit_not_alpha: "is_digit_char c \<Longrightarrow> \<not> is_alpha_char c"
  by (auto simp: is_digit_char_def is_alpha_char_def)

section \<open>Lists\<close>

lemma count_list_replicate_other: "x \<noteq> y \<Longrightarrow> count_list (replicate n y) x = 0"
  by (induction n) auto

lemma takeWhile_eq_take_length: "takeWhile P xs = take (length (takeWhile P xs)) xs"
  by (metis takeWhile_eq_take)

lemma nth_length_takeWhile_char: "\<not> P NUL \<Longrightarrow> \<not> P (char_at s (length (takeWhile P s)))"
  by (metis char_at_def nth_length_takeWhile)

lemma length_takeWhile_drop_le:
  "k \<le> length s \<Longrightarrow> k + length (takeWhile P (drop k s)) \<le> length s"
  by (metis add_le_cancel_left le_add_diff_inverse length_drop length_takeWhile_le)

lemma foldl_option_None: "foldl (\<lambda>a x. Option.bind a (f x)) None xs = None"
  by (induction xs) simp_all

lemma length_filter_update:
  "i < length xs \<Longrightarrow> length (filter P (xs[i := x])) + (if P (xs ! i) then 1 else 0) =
     length (filter P xs) + (if P x then 1 else 0)"
proof (induction xs arbitrary: i)
  case Nil
  then show ?case by simp
next
  case (Cons y ys)
  then show ?case by (cases i) auto
qed

lemma length_filter_less_ex: "length (filter P xs) < length xs \<Longrightarrow> \<exists>i<length xs. \<not> P (xs ! i)"
  by (metis filter_True in_set_conv_nth less_irrefl)

end
