(* ===== verification/CStrings.thy ===== *)
theory CStrings
  imports XvrPrelude
begin

text \<open>
  The string utilities of src/src/xvr_string_utils.cpp and the standard library's
  \<open>strncmp\<close>, on C strings modelled as character lists (see XvrPrelude). A pointer that may be
  NULL is an option. Plain \<open>char\<close> is taken as signed, as on the x86-64 targets of the
  project.
\<close>

section \<open>Definitions\<close>

definition schar :: "char \<Rightarrow> int" where
  "schar c = (let n = (of_char c :: int) in if n < 128 then n else n - 256)"

fun cstr_scan :: "string \<Rightarrow> nat \<Rightarrow> nat" where
  "cstr_scan [] max_len = 0"
| "cstr_scan (c # cs) 0 = 0"
| "cstr_scan (c # cs) (Suc n) = (if c = NUL then 0 else Suc (cstr_scan cs n))"

definition xvr_safe_strlen :: "string option \<Rightarrow> nat \<Rightarrow> nat" where
  "xvr_safe_strlen str max_len = (case str of None \<Rightarrow> 0 | Some s \<Rightarrow> cstr_scan s max_len)"

definition xvr_safe_strlen_bounded :: "string option \<Rightarrow> nat \<Rightarrow> nat" where
  "xvr_safe_strlen_bounded str max_len = xvr_safe_strlen str max_len"

fun strcmp_loop :: "string \<Rightarrow> string \<Rightarrow> int" where
  "strcmp_loop [] [] = 0"
| "strcmp_loop [] (y # ys) = (if y = NUL then 0 else -1)"
| "strcmp_loop (x # xs) [] = (if x = NUL then 0 else 1)"
| "strcmp_loop (x # xs) (y # ys) =
     (if x \<noteq> NUL \<and> y \<noteq> NUL
      then (if x \<noteq> y then (if schar x < schar y then -1 else 1) else strcmp_loop xs ys)
      else if x = NUL \<and> y = NUL then 0 else if x = NUL then -1 else 1)"

definition xvr_safe_strcmp :: "string option \<Rightarrow> string option \<Rightarrow> int" where
  "xvr_safe_strcmp a b =
     (case (a, b) of
        (None, None) \<Rightarrow> 0
      | (None, Some _) \<Rightarrow> -1
      | (Some _, None) \<Rightarrow> 1
      | (Some s, Some t) \<Rightarrow> strcmp_loop s t)"

fun xvr_safe_strncmp :: "string \<Rightarrow> string \<Rightarrow> nat \<Rightarrow> int" where
  "xvr_safe_strncmp a b 0 = 0"
| "xvr_safe_strncmp a b (Suc n) =
     (let x = char_at a 0; y = char_at b 0
      in if x \<noteq> y then (if schar x < schar y then -1 else 1)
         else if x = NUL then 0
         else xvr_safe_strncmp (tl a) (tl b) n)"

definition xvr_safe_strdup :: "string option \<Rightarrow> nat \<Rightarrow> string option" where
  "xvr_safe_strdup str max_len =
     (case str of
        None \<Rightarrow> None
      | Some s \<Rightarrow>
          if max_len = 0 then None
          else let len = xvr_safe_strlen (Some s) max_len
               in if len = 0 \<or> len \<ge> max_len then None
                  else if len > 2 ^ 64 - 2 then None
                  else Some (take len s))"

text \<open>The standard \<open>strncmp\<close>, only ever compared with 0: equality of the first \<open>n\<close> bytes
  up to and including a terminator.\<close>

fun strncmp_eq :: "string \<Rightarrow> string \<Rightarrow> nat \<Rightarrow> bool" where
  "strncmp_eq a b 0 = True"
| "strncmp_eq a b (Suc n) =
     (let x = char_at a 0; y = char_at b 0
      in if x \<noteq> y then False else if x = NUL then True else strncmp_eq (tl a) (tl b) n)"

section \<open>Lemmas\<close>

lemma cstr_scan_le: "cstr_scan s n \<le> n \<and> cstr_scan s n \<le> length s"
  by (induction s n rule: cstr_scan.induct) auto

lemma cstr_scan_no_nul: "no_nul s \<Longrightarrow> cstr_scan s n = min n (length s)"
  by (induction s n rule: cstr_scan.induct) auto

lemma cstr_scan_take_no_nul: "no_nul (take (cstr_scan s n) s)"
  by (induction s n rule: cstr_scan.induct) auto

lemma strncmp_eq_take:
  assumes "no_nul a" "no_nul b" "n \<le> length a" "n \<le> length b"
  shows "strncmp_eq a b n \<longleftrightarrow> take n a = take n b"
  using assms
proof (induction n arbitrary: a b)
  case 0
  then show ?case by simp
next
  case (Suc n)
  then obtain x xs y ys where ab: "a = x # xs" "b = y # ys"
    by (metis Suc_le_length_iff)
  with Suc show ?case by (auto simp: Let_def)
qed

lemma strncmp_eq_prefix:
  assumes "no_nul b"
  shows "strncmp_eq a b (length b) \<longleftrightarrow> prefix b a"
  using assms
proof (induction b arbitrary: a)
  case Nil
  then show ?case by simp
next
  case (Cons y ys)
  then show ?case by (cases a) (auto simp: Let_def)
qed

lemma strncmp_eq_refl [simp]: "strncmp_eq a a n"
  by (induction n arbitrary: a) (simp_all add: Let_def)

lemma strncmp_eq_sym: "strncmp_eq a b n = strncmp_eq b a n"
  by (induction a b n rule: strncmp_eq.induct) (auto simp: Let_def)

lemma safe_strncmp_zero_iff: "xvr_safe_strncmp a b n = 0 \<longleftrightarrow> strncmp_eq a b n"
  by (induction a b n rule: xvr_safe_strncmp.induct) (auto simp: Let_def)

lemma strcmp_loop_refl: "strcmp_loop a a = 0"
  by (induction a) auto

lemma strcmp_loop_zero_iff:
  "no_nul a \<Longrightarrow> no_nul b \<Longrightarrow> strcmp_loop a b = 0 \<longleftrightarrow> a = b"
  by (induction a b rule: strcmp_loop.induct) auto

lemma schar_mod: "schar c mod 256 = (of_char c :: int)"
proof -
  have "int (of_char c) < 256" using nat_of_char_less_256 [of c] by linarith
  then have "(of_char c :: int) < 256" by (simp only: of_nat_of_char)
  moreover have "0 \<le> (of_char c :: int)"
    by (metis of_nat_of_char of_nat_0_le_iff)
  ultimately show ?thesis by (simp add: schar_def Let_def)
qed

lemma schar_eq_iff: "schar x = schar y \<longleftrightarrow> x = y"
  by (metis schar_mod of_char_eq_iff)

lemma strcmp_loop_antisym: "strcmp_loop b a = - strcmp_loop a b"
  by (induction a b rule: strcmp_loop.induct)
     (auto, metis schar_eq_iff linorder_neqE_linordered_idom)

lemma xvr_safe_strcmp_zero_iff:
  "no_nul a \<Longrightarrow> no_nul b \<Longrightarrow> xvr_safe_strcmp (Some a) (Some b) = 0 \<longleftrightarrow> a = b"
  by (simp add: xvr_safe_strcmp_def strcmp_loop_zero_iff)

end
