(* ===== verification/Tokens.thy ===== *)
theory Tokens
  imports CStrings
begin

text \<open>
  The token classification of src/src/xvr_token_types.h and the keyword table of
  src/src/xvr_keyword_types.cpp. The C enumeration is split into one datatype per group of the
  header's own comments; \<open>token_type\<close> is their sum and \<open>token_code\<close> gives the enumerator's
  value back.
\<close>

section \<open>Token types\<close>

datatype type_token =
    XVR_TOKEN_NULL | XVR_TOKEN_VOID | XVR_TOKEN_BOOLEAN | XVR_TOKEN_INTEGER
  | XVR_TOKEN_FLOAT | XVR_TOKEN_STRING | XVR_TOKEN_ARRAY | XVR_TOKEN_DICTIONARY
  | XVR_TOKEN_FUNCTION | XVR_TOKEN_OPAQUE | XVR_TOKEN_ANY | XVR_TOKEN_INT8
  | XVR_TOKEN_INT16 | XVR_TOKEN_INT32 | XVR_TOKEN_INT64 | XVR_TOKEN_UINT8
  | XVR_TOKEN_UINT16 | XVR_TOKEN_UINT32 | XVR_TOKEN_UINT64 | XVR_TOKEN_FLOAT16
  | XVR_TOKEN_FLOAT32 | XVR_TOKEN_FLOAT64

datatype keyword_token =
    XVR_TOKEN_AS | XVR_TOKEN_ASSERT | XVR_TOKEN_BREAK | XVR_TOKEN_CLASS
  | XVR_TOKEN_CONST | XVR_TOKEN_CONTINUE | XVR_TOKEN_DO | XVR_TOKEN_ELSE
  | XVR_TOKEN_EXPORT | XVR_TOKEN_FOR | XVR_TOKEN_FOREACH | XVR_TOKEN_IF
  | XVR_TOKEN_IMPORT | XVR_TOKEN_IN | XVR_TOKEN_OF | XVR_TOKEN_PRINT
  | XVR_TOKEN_RETURN | XVR_TOKEN_TYPE | XVR_TOKEN_ASTYPE | XVR_TOKEN_TYPEOF
  | XVR_TOKEN_VAR | XVR_TOKEN_WHILE

datatype literal_token =
    XVR_TOKEN_IDENTIFIER | XVR_TOKEN_LITERAL_TRUE | XVR_TOKEN_LITERAL_FALSE | XVR_TOKEN_LITERAL_INTEGER
  | XVR_TOKEN_LITERAL_FLOAT | XVR_TOKEN_LITERAL_STRING | XVR_TOKEN_LITERAL_INT8 | XVR_TOKEN_LITERAL_INT16
  | XVR_TOKEN_LITERAL_INT32 | XVR_TOKEN_LITERAL_INT64 | XVR_TOKEN_LITERAL_UINT8 | XVR_TOKEN_LITERAL_UINT16
  | XVR_TOKEN_LITERAL_UINT32 | XVR_TOKEN_LITERAL_UINT64 | XVR_TOKEN_LITERAL_FLOAT16 | XVR_TOKEN_LITERAL_FLOAT32
  | XVR_TOKEN_LITERAL_FLOAT64

datatype math_token =
    XVR_TOKEN_PLUS | XVR_TOKEN_MINUS | XVR_TOKEN_MULTIPLY | XVR_TOKEN_DIVIDE
  | XVR_TOKEN_MODULO | XVR_TOKEN_PLUS_ASSIGN | XVR_TOKEN_MINUS_ASSIGN | XVR_TOKEN_MULTIPLY_ASSIGN
  | XVR_TOKEN_DIVIDE_ASSIGN | XVR_TOKEN_MODULO_ASSIGN | XVR_TOKEN_PLUS_PLUS | XVR_TOKEN_MINUS_MINUS
  | XVR_TOKEN_ASSIGN

datatype logic_token =
    XVR_TOKEN_PAREN_LEFT | XVR_TOKEN_PAREN_RIGHT | XVR_TOKEN_BRACKET_LEFT | XVR_TOKEN_BRACKET_RIGHT
  | XVR_TOKEN_BRACE_LEFT | XVR_TOKEN_BRACE_RIGHT | XVR_TOKEN_NOT | XVR_TOKEN_NOT_EQUAL
  | XVR_TOKEN_EQUAL | XVR_TOKEN_LESS | XVR_TOKEN_GREATER | XVR_TOKEN_LESS_EQUAL
  | XVR_TOKEN_GREATER_EQUAL | XVR_TOKEN_AND | XVR_TOKEN_OR

datatype other_token =
    XVR_TOKEN_QUESTION | XVR_TOKEN_COLON | XVR_TOKEN_COLON_COLON | XVR_TOKEN_SEMICOLON
  | XVR_TOKEN_COMMA | XVR_TOKEN_DOT | XVR_TOKEN_PIPE | XVR_TOKEN_REST

datatype meta_token =
    XVR_TOKEN_PASS | XVR_TOKEN_ERROR | XVR_TOKEN_EOF

datatype token_type =
    TypeTok type_token
  | KeywordTok keyword_token
  | LiteralTok literal_token
  | MathTok math_token
  | LogicTok logic_token
  | OtherTok other_token
  | MetaTok meta_token

fun type_token_index :: "type_token \<Rightarrow> nat" where
    "type_token_index XVR_TOKEN_NULL = 0"
  | "type_token_index XVR_TOKEN_VOID = 1"
  | "type_token_index XVR_TOKEN_BOOLEAN = 2"
  | "type_token_index XVR_TOKEN_INTEGER = 3"
  | "type_token_index XVR_TOKEN_FLOAT = 4"
  | "type_token_index XVR_TOKEN_STRING = 5"
  | "type_token_index XVR_TOKEN_ARRAY = 6"
  | "type_token_index XVR_TOKEN_DICTIONARY = 7"
  | "type_token_index XVR_TOKEN_FUNCTION = 8"
  | "type_token_index XVR_TOKEN_OPAQUE = 9"
  | "type_token_index XVR_TOKEN_ANY = 10"
  | "type_token_index XVR_TOKEN_INT8 = 11"
  | "type_token_index XVR_TOKEN_INT16 = 12"
  | "type_token_index XVR_TOKEN_INT32 = 13"
  | "type_token_index XVR_TOKEN_INT64 = 14"
  | "type_token_index XVR_TOKEN_UINT8 = 15"
  | "type_token_index XVR_TOKEN_UINT16 = 16"
  | "type_token_index XVR_TOKEN_UINT32 = 17"
  | "type_token_index XVR_TOKEN_UINT64 = 18"
  | "type_token_index XVR_TOKEN_FLOAT16 = 19"
  | "type_token_index XVR_TOKEN_FLOAT32 = 20"
  | "type_token_index XVR_TOKEN_FLOAT64 = 21"

fun keyword_token_index :: "keyword_token \<Rightarrow> nat" where
    "keyword_token_index XVR_TOKEN_AS = 0"
  | "keyword_token_index XVR_TOKEN_ASSERT = 1"
  | "keyword_token_index XVR_TOKEN_BREAK = 2"
  | "keyword_token_index XVR_TOKEN_CLASS = 3"
  | "keyword_token_index XVR_TOKEN_CONST = 4"
  | "keyword_token_index XVR_TOKEN_CONTINUE = 5"
  | "keyword_token_index XVR_TOKEN_DO = 6"
  | "keyword_token_index XVR_TOKEN_ELSE = 7"
  | "keyword_token_index XVR_TOKEN_EXPORT = 8"
  | "keyword_token_index XVR_TOKEN_FOR = 9"
  | "keyword_token_index XVR_TOKEN_FOREACH = 10"
  | "keyword_token_index XVR_TOKEN_IF = 11"
  | "keyword_token_index XVR_TOKEN_IMPORT = 12"
  | "keyword_token_index XVR_TOKEN_IN = 13"
  | "keyword_token_index XVR_TOKEN_OF = 14"
  | "keyword_token_index XVR_TOKEN_PRINT = 15"
  | "keyword_token_index XVR_TOKEN_RETURN = 16"
  | "keyword_token_index XVR_TOKEN_TYPE = 17"
  | "keyword_token_index XVR_TOKEN_ASTYPE = 18"
  | "keyword_token_index XVR_TOKEN_TYPEOF = 19"
  | "keyword_token_index XVR_TOKEN_VAR = 20"
  | "keyword_token_index XVR_TOKEN_WHILE = 21"

fun literal_token_index :: "literal_token \<Rightarrow> nat" where
    "literal_token_index XVR_TOKEN_IDENTIFIER = 0"
  | "literal_token_index XVR_TOKEN_LITERAL_TRUE = 1"
  | "literal_token_index XVR_TOKEN_LITERAL_FALSE = 2"
  | "literal_token_index XVR_TOKEN_LITERAL_INTEGER = 3"
  | "literal_token_index XVR_TOKEN_LITERAL_FLOAT = 4"
  | "literal_token_index XVR_TOKEN_LITERAL_STRING = 5"
  | "literal_token_index XVR_TOKEN_LITERAL_INT8 = 6"
  | "literal_token_index XVR_TOKEN_LITERAL_INT16 = 7"
  | "literal_token_index XVR_TOKEN_LITERAL_INT32 = 8"
  | "literal_token_index XVR_TOKEN_LITERAL_INT64 = 9"
  | "literal_token_index XVR_TOKEN_LITERAL_UINT8 = 10"
  | "literal_token_index XVR_TOKEN_LITERAL_UINT16 = 11"
  | "literal_token_index XVR_TOKEN_LITERAL_UINT32 = 12"
  | "literal_token_index XVR_TOKEN_LITERAL_UINT64 = 13"
  | "literal_token_index XVR_TOKEN_LITERAL_FLOAT16 = 14"
  | "literal_token_index XVR_TOKEN_LITERAL_FLOAT32 = 15"
  | "literal_token_index XVR_TOKEN_LITERAL_FLOAT64 = 16"

fun math_token_index :: "math_token \<Rightarrow> nat" where
    "math_token_index XVR_TOKEN_PLUS = 0"
  | "math_token_index XVR_TOKEN_MINUS = 1"
  | "math_token_index XVR_TOKEN_MULTIPLY = 2"
  | "math_token_index XVR_TOKEN_DIVIDE = 3"
  | "math_token_index XVR_TOKEN_MODULO = 4"
  | "math_token_index XVR_TOKEN_PLUS_ASSIGN = 5"
  | "math_token_index XVR_TOKEN_MINUS_ASSIGN = 6"
  | "math_token_index XVR_TOKEN_MULTIPLY_ASSIGN = 7"
  | "math_token_index XVR_TOKEN_DIVIDE_ASSIGN = 8"
  | "math_token_index XVR_TOKEN_MODULO_ASSIGN = 9"
  | "math_token_index XVR_TOKEN_PLUS_PLUS = 10"
  | "math_token_index XVR_TOKEN_MINUS_MINUS = 11"
  | "math_token_index XVR_TOKEN_ASSIGN = 12"

fun logic_token_index :: "logic_token \<Rightarrow> nat" where
    "logic_token_index XVR_TOKEN_PAREN_LEFT = 0"
  | "logic_token_index XVR_TOKEN_PAREN_RIGHT = 1"
  | "logic_token_index XVR_TOKEN_BRACKET_LEFT = 2"
  | "logic_token_index XVR_TOKEN_BRACKET_RIGHT = 3"
  | "logic_token_index XVR_TOKEN_BRACE_LEFT = 4"
  | "logic_token_index XVR_TOKEN_BRACE_RIGHT = 5"
  | "logic_token_index XVR_TOKEN_NOT = 6"
  | "logic_token_index XVR_TOKEN_NOT_EQUAL = 7"
  | "logic_token_index XVR_TOKEN_EQUAL = 8"
  | "logic_token_index XVR_TOKEN_LESS = 9"
  | "logic_token_index XVR_TOKEN_GREATER = 10"
  | "logic_token_index XVR_TOKEN_LESS_EQUAL = 11"
  | "logic_token_index XVR_TOKEN_GREATER_EQUAL = 12"
  | "logic_token_index XVR_TOKEN_AND = 13"
  | "logic_token_index XVR_TOKEN_OR = 14"

fun other_token_index :: "other_token \<Rightarrow> nat" where
    "other_token_index XVR_TOKEN_QUESTION = 0"
  | "other_token_index XVR_TOKEN_COLON = 1"
  | "other_token_index XVR_TOKEN_COLON_COLON = 2"
  | "other_token_index XVR_TOKEN_SEMICOLON = 3"
  | "other_token_index XVR_TOKEN_COMMA = 4"
  | "other_token_index XVR_TOKEN_DOT = 5"
  | "other_token_index XVR_TOKEN_PIPE = 6"
  | "other_token_index XVR_TOKEN_REST = 7"

fun meta_token_index :: "meta_token \<Rightarrow> nat" where
    "meta_token_index XVR_TOKEN_PASS = 0"
  | "meta_token_index XVR_TOKEN_ERROR = 1"
  | "meta_token_index XVR_TOKEN_EOF = 2"

text \<open>The value of an enumerator in the C enumeration.\<close>

fun token_code :: "token_type \<Rightarrow> nat" where
    "token_code (TypeTok t) = 0 + type_token_index t"
  | "token_code (KeywordTok t) = 22 + keyword_token_index t"
  | "token_code (LiteralTok t) = 44 + literal_token_index t"
  | "token_code (MathTok t) = 61 + math_token_index t"
  | "token_code (LogicTok t) = 74 + logic_token_index t"
  | "token_code (OtherTok t) = 89 + other_token_index t"
  | "token_code (MetaTok t) = 97 + meta_token_index t"

section \<open>The keyword table\<close>

text \<open>The rows before the sentinel rows, whose keyword pointer is NULL and ends every scan of the table.\<close>

definition Xvr_keywordTypes :: "(token_type \<times> string) list" where
  "Xvr_keywordTypes =
    [(TypeTok XVR_TOKEN_NULL, ''null''),
     (TypeTok XVR_TOKEN_VOID, ''void''),
     (TypeTok XVR_TOKEN_BOOLEAN, ''bool''),
     (TypeTok XVR_TOKEN_INTEGER, ''int''),
     (TypeTok XVR_TOKEN_FLOAT, ''float''),
     (TypeTok XVR_TOKEN_STRING, ''string''),
     (TypeTok XVR_TOKEN_FUNCTION, ''proc''),
     (TypeTok XVR_TOKEN_OPAQUE, ''opaque''),
     (TypeTok XVR_TOKEN_ANY, ''any''),
     (TypeTok XVR_TOKEN_INT8, ''int8''),
     (TypeTok XVR_TOKEN_INT16, ''int16''),
     (TypeTok XVR_TOKEN_INT32, ''int32''),
     (TypeTok XVR_TOKEN_INT64, ''int64''),
     (TypeTok XVR_TOKEN_UINT8, ''uint8''),
     (TypeTok XVR_TOKEN_UINT16, ''uint16''),
     (TypeTok XVR_TOKEN_UINT32, ''uint32''),
     (TypeTok XVR_TOKEN_UINT64, ''uint64''),
     (TypeTok XVR_TOKEN_FLOAT16, ''float16''),
     (TypeTok XVR_TOKEN_FLOAT32, ''float32''),
     (TypeTok XVR_TOKEN_FLOAT64, ''float64''),
     (KeywordTok XVR_TOKEN_AS, ''as''),
     (KeywordTok XVR_TOKEN_ASSERT, ''assert''),
     (KeywordTok XVR_TOKEN_BREAK, ''break''),
     (KeywordTok XVR_TOKEN_CLASS, ''class''),
     (KeywordTok XVR_TOKEN_CONST, ''const''),
     (KeywordTok XVR_TOKEN_CONTINUE, ''continue''),
     (KeywordTok XVR_TOKEN_DO, ''do''),
     (KeywordTok XVR_TOKEN_ELSE, ''else''),
     (KeywordTok XVR_TOKEN_EXPORT, ''export''),
     (KeywordTok XVR_TOKEN_FOR, ''for''),
     (KeywordTok XVR_TOKEN_FOREACH, ''foreach''),
     (KeywordTok XVR_TOKEN_IF, ''if''),
     (KeywordTok XVR_TOKEN_IMPORT, ''import''),
     (KeywordTok XVR_TOKEN_IN, ''in''),
     (KeywordTok XVR_TOKEN_OF, ''of''),
     (KeywordTok XVR_TOKEN_PRINT, ''print''),
     (KeywordTok XVR_TOKEN_RETURN, ''return''),
     (KeywordTok XVR_TOKEN_TYPE, ''type''),
     (KeywordTok XVR_TOKEN_ASTYPE, ''astype''),
     (KeywordTok XVR_TOKEN_TYPEOF, ''typeof''),
     (KeywordTok XVR_TOKEN_VAR, ''var''),
     (KeywordTok XVR_TOKEN_WHILE, ''while''),
     (LiteralTok XVR_TOKEN_LITERAL_TRUE, ''true''),
     (LiteralTok XVR_TOKEN_LITERAL_FALSE, ''false'')]"

fun keyword_of_type :: "(token_type \<times> string) list \<Rightarrow> token_type \<Rightarrow> string option" where
  "keyword_of_type [] t = None"
| "keyword_of_type ((ty, kw) # rows) t = (if ty = t then Some kw else keyword_of_type rows t)"

definition Xvr_findKeywordByType :: "token_type \<Rightarrow> string option" where
  "Xvr_findKeywordByType t =
     (if t = MetaTok XVR_TOKEN_EOF then Some ''EOF'' else keyword_of_type Xvr_keywordTypes t)"

fun type_of_keyword_prefix :: "(token_type \<times> string) list \<Rightarrow> string \<Rightarrow> nat \<Rightarrow> token_type option" where
  "type_of_keyword_prefix [] k len = None"
| "type_of_keyword_prefix ((ty, kw) # rows) k len =
     (if strncmp_eq k kw len then Some ty else type_of_keyword_prefix rows k len)"

definition Xvr_findTypeByKeyword :: "string \<Rightarrow> token_type" where
  "Xvr_findTypeByKeyword keyword =
     (let len = xvr_safe_strlen (Some keyword) 64
      in case type_of_keyword_prefix Xvr_keywordTypes keyword len of
           Some t \<Rightarrow> t
         | None \<Rightarrow> MetaTok XVR_TOKEN_EOF)"

text \<open>The scan of the table in \<open>makeKeywordOrIdentifier\<close>: length first, then \<open>strncmp\<close> over it.\<close>

fun keyword_exact :: "(token_type \<times> string) list \<Rightarrow> string \<Rightarrow> nat \<Rightarrow> token_type option" where
  "keyword_exact [] text len = None"
| "keyword_exact ((ty, kw) # rows) text len =
     (if xvr_safe_strlen (Some kw) 64 = len \<and> strncmp_eq kw text len then Some ty
      else keyword_exact rows text len)"

section \<open>Lemmas\<close>

lemma type_token_index_inj: "type_token_index a = type_token_index b \<Longrightarrow> a = b"
  by (cases a; cases b; simp)

lemma keyword_token_index_inj: "keyword_token_index a = keyword_token_index b \<Longrightarrow> a = b"
  by (cases a; cases b; simp)

lemma literal_token_index_inj: "literal_token_index a = literal_token_index b \<Longrightarrow> a = b"
  by (cases a; cases b; simp)

lemma math_token_index_inj: "math_token_index a = math_token_index b \<Longrightarrow> a = b"
  by (cases a; cases b; simp)

lemma logic_token_index_inj: "logic_token_index a = logic_token_index b \<Longrightarrow> a = b"
  by (cases a; cases b; simp)

lemma other_token_index_inj: "other_token_index a = other_token_index b \<Longrightarrow> a = b"
  by (cases a; cases b; simp)

lemma meta_token_index_inj: "meta_token_index a = meta_token_index b \<Longrightarrow> a = b"
  by (cases a; cases b; simp)

lemma type_token_index_less: "type_token_index x < 22"
  by (cases x; simp)

lemma type_token_index_apart [simp]:
  "22 \<le> n \<Longrightarrow> type_token_index x \<noteq> n + m" "22 \<le> n \<Longrightarrow> n + m \<noteq> type_token_index x"
  "22 \<le> n \<Longrightarrow> type_token_index x < n"
  using type_token_index_less [of x] by linarith+

lemma keyword_token_index_less: "keyword_token_index x < 22"
  by (cases x; simp)

lemma keyword_token_index_apart [simp]:
  "22 \<le> n \<Longrightarrow> keyword_token_index x \<noteq> n + m" "22 \<le> n \<Longrightarrow> n + m \<noteq> keyword_token_index x"
  "22 \<le> n \<Longrightarrow> keyword_token_index x < n"
  using keyword_token_index_less [of x] by linarith+

lemma literal_token_index_less: "literal_token_index x < 17"
  by (cases x; simp)

lemma literal_token_index_apart [simp]:
  "17 \<le> n \<Longrightarrow> literal_token_index x \<noteq> n + m" "17 \<le> n \<Longrightarrow> n + m \<noteq> literal_token_index x"
  "17 \<le> n \<Longrightarrow> literal_token_index x < n"
  using literal_token_index_less [of x] by linarith+

lemma math_token_index_less: "math_token_index x < 13"
  by (cases x; simp)

lemma math_token_index_apart [simp]:
  "13 \<le> n \<Longrightarrow> math_token_index x \<noteq> n + m" "13 \<le> n \<Longrightarrow> n + m \<noteq> math_token_index x"
  "13 \<le> n \<Longrightarrow> math_token_index x < n"
  using math_token_index_less [of x] by linarith+

lemma logic_token_index_less: "logic_token_index x < 15"
  by (cases x; simp)

lemma logic_token_index_apart [simp]:
  "15 \<le> n \<Longrightarrow> logic_token_index x \<noteq> n + m" "15 \<le> n \<Longrightarrow> n + m \<noteq> logic_token_index x"
  "15 \<le> n \<Longrightarrow> logic_token_index x < n"
  using logic_token_index_less [of x] by linarith+

lemma other_token_index_less: "other_token_index x < 8"
  by (cases x; simp)

lemma other_token_index_apart [simp]:
  "8 \<le> n \<Longrightarrow> other_token_index x \<noteq> n + m" "8 \<le> n \<Longrightarrow> n + m \<noteq> other_token_index x"
  "8 \<le> n \<Longrightarrow> other_token_index x < n"
  using other_token_index_less [of x] by linarith+

lemma meta_token_index_less: "meta_token_index x < 3"
  by (cases x; simp)

lemma meta_token_index_apart [simp]:
  "3 \<le> n \<Longrightarrow> meta_token_index x \<noteq> n + m" "3 \<le> n \<Longrightarrow> n + m \<noteq> meta_token_index x"
  "3 \<le> n \<Longrightarrow> meta_token_index x < n"
  using meta_token_index_less [of x] by linarith+

lemma token_code_less: "token_code t < 100"
  by (cases t) simp_all

lemma token_code_inj: "token_code s = token_code t \<Longrightarrow> s = t"
  by (cases s; cases t)
     (simp_all add: type_token_index_inj keyword_token_index_inj literal_token_index_inj
        math_token_index_inj logic_token_index_inj other_token_index_inj meta_token_index_inj)

lemma token_code_eq_iff: "token_code s = token_code t \<longleftrightarrow> s = t"
  using token_code_inj by blast

text \<open>The enumeration order of the C type.\<close>

instantiation token_type :: linorder
begin

definition less_eq_token_type :: "token_type \<Rightarrow> token_type \<Rightarrow> bool" where
  "less_eq_token_type s t \<longleftrightarrow> token_code s \<le> token_code t"

definition less_token_type :: "token_type \<Rightarrow> token_type \<Rightarrow> bool" where
  "less_token_type s t \<longleftrightarrow> token_code s < token_code t"

instance
  by standard (auto simp: less_eq_token_type_def less_token_type_def dest: token_code_inj)

end

end
