(* ===== verification/Lexer.thy ===== *)
theory Lexer
  imports Tokens
begin

text \<open>
  The tokenizer of src/src/xvr_lexer.cpp: the state \<open>Xvr_Lexer\<close>, its cursor primitives, the
  whitespace and comment skipper, the token makers and \<open>Xvr_private_scanLexer\<close>. The skipper's
  block-comment loop has no end-of-input test, so it is a \<open>partial_function\<close> whose value None
  is a scan that never returns; everything else is total. Offsets and line numbers are \<open>nat\<close>:
  the bounds below keep them under the length of the source, so a source shorter than 2^31
  bytes never overflows the C \<open>int\<close> fields. The debug print under
  \<open>Xvr_commandLine.dumpTokens\<close> has no effect on the state and is left out.
\<close>

section \<open>State\<close>

record lexer =
  lx_source :: string
  lx_start :: nat
  lx_current :: nat
  lx_line :: nat

text \<open>
  What a token's \<open>lexeme\<close> pointer points to: an offset in the source, a string constant of the
  program, or a local buffer of a function that has returned.
\<close>

datatype lexeme =
    InSource nat
  | StaticText string
  | ExpiredBuffer string

record token =
  tok_type :: token_type
  tok_lexeme :: lexeme
  tok_length :: nat
  tok_line :: nat

section \<open>Cursor primitives\<close>

definition cleanLexer :: "lexer" where
  "cleanLexer = \<lparr>lx_source = [], lx_start = 0, lx_current = 0, lx_line = 1\<rparr>"

definition isAtEnd :: "lexer \<Rightarrow> bool" where
  "isAtEnd lx \<longleftrightarrow> char_at (lx_source lx) (lx_current lx) = NUL"

definition peek :: "lexer \<Rightarrow> char" where
  "peek lx = char_at (lx_source lx) (lx_current lx)"

definition peekNext :: "lexer \<Rightarrow> char" where
  "peekNext lx = (if isAtEnd lx then NUL else char_at (lx_source lx) (Suc (lx_current lx)))"

definition advance :: "lexer \<Rightarrow> char \<times> lexer" where
  "advance lx =
     (if isAtEnd lx then (NUL, lx)
      else let lx1 = (if peek lx = LF then lx\<lparr>lx_line := lx_line lx + 1\<rparr> else lx);
               lx2 = lx1\<lparr>lx_current := lx_current lx1 + 1\<rparr>
           in (char_at (lx_source lx2) (lx_current lx2 - 1), lx2))"

abbreviation adv :: "lexer \<Rightarrow> lexer" where "adv lx \<equiv> snd (advance lx)"

definition isDigit :: "lexer \<Rightarrow> bool" where
  "isDigit lx \<longleftrightarrow> is_digit_char (peek lx)"

definition isAlpha :: "lexer \<Rightarrow> bool" where
  "isAlpha lx \<longleftrightarrow> is_alpha_char (peek lx)"

fun match_loop :: "nat \<Rightarrow> lexer \<Rightarrow> bool \<times> lexer" where
  "match_loop 0 lx = (True, lx)"
| "match_loop (Suc n) lx = (if isAtEnd lx then (False, lx) else match_loop n (adv lx))"

definition match_chars :: "lexer \<Rightarrow> string \<Rightarrow> nat \<Rightarrow> bool \<times> lexer" where
  "match_chars lx expected len =
     (if isAtEnd lx then (False, lx)
      else if strncmp_eq (drop (lx_current lx) (lx_source lx)) expected len
      then match_loop len lx
      else (False, lx))"

section \<open>Loops\<close>

lemma isAtEnd_less: "\<not> isAtEnd lx \<Longrightarrow> lx_current lx < length (lx_source lx)"
  by (metis isAtEnd_def char_at_not_nul_less)

lemma advance_simps [simp]:
  "lx_source (adv lx) = lx_source lx"
  "lx_start (adv lx) = lx_start lx"
  "lx_current (adv lx) = (if isAtEnd lx then lx_current lx else Suc (lx_current lx))"
  "lx_line (adv lx) = (if peek lx = LF then Suc (lx_line lx) else lx_line lx)"
  "fst (advance lx) = peek lx"
  by (auto simp: advance_def Let_def isAtEnd_def peek_def)

text \<open>\<open>while (P(peek)) advance\<close> for a condition that the terminator does not satisfy.\<close>

function skipWhile :: "(char \<Rightarrow> bool) \<Rightarrow> lexer \<Rightarrow> lexer" where
  "skipWhile P lx = (if P (peek lx) \<and> \<not> isAtEnd lx then skipWhile P (adv lx) else lx)"
  by pat_completeness auto
termination
  by (relation "measure (\<lambda>(P, lx). length (lx_source lx) - lx_current lx)")
     (auto dest: isAtEnd_less)

declare skipWhile.simps [simp del]

definition eatShebangLine :: "lexer \<Rightarrow> lexer" where
  "eatShebangLine lx =
     (let lx' = skipWhile (\<lambda>c. c \<noteq> LF) lx in if peek lx' = LF then adv lx' else lx')"

function eatLine :: "lexer \<Rightarrow> lexer" where
  "eatLine lx =
     (let c = peek lx; lx' = adv lx
      in if c \<noteq> LF \<and> \<not> isAtEnd lx' then eatLine lx' else lx')"
  by pat_completeness auto
termination
proof (relation "measure (\<lambda>lx. length (lx_source lx) - lx_current lx)", goal_cases)
  case 1
  show ?case by simp
next
  case (2 lx x xa)
  then have "\<not> isAtEnd (adv lx)" by simp
  moreover have "isAtEnd lx \<Longrightarrow> isAtEnd (adv lx)" by (simp add: advance_def)
  ultimately have "\<not> isAtEnd lx" by blast
  with 2 show ?case by (auto dest: isAtEnd_less)
qed

declare eatLine.simps [simp del]

partial_function (option) eatBlock :: "lexer \<Rightarrow> lexer option" where
  "eatBlock lx =
     (if \<not> (peek lx = CHR ''*'' \<and> peekNext lx = CHR ''/'') then eatBlock (adv lx) else Some lx)"

partial_function (option) eatWhitespace :: "lexer \<Rightarrow> lexer option" where
  "eatWhitespace lx =
     (let c = peek lx
      in if c = CHR '' '' \<or> c = CR \<or> c = LF \<or> c = TAB then eatWhitespace (adv lx)
         else if c = CHR ''#'' then
           (if lx_start lx = 0 \<and> peekNext lx = CHR ''!''
            then eatWhitespace (eatShebangLine lx) else Some lx)
         else if c = CHR ''/'' then
           (if peekNext lx = CHR ''/'' then eatWhitespace (eatLine lx)
            else if peekNext lx = CHR ''*''
            then Option.bind (eatBlock (adv (adv lx))) (\<lambda>lx'. eatWhitespace (adv (adv lx')))
            else Some lx)
         else Some lx)"

declare eatBlock.simps [code] eatWhitespace.simps [code]

section \<open>Token makers\<close>

definition makeErrorToken :: "lexer \<Rightarrow> lexeme \<Rightarrow> string \<Rightarrow> token" where
  "makeErrorToken lx lexeme msg =
     \<lparr>tok_type = MetaTok XVR_TOKEN_ERROR, tok_lexeme = lexeme,
      tok_length = xvr_safe_strlen (Some msg) 256, tok_line = lx_line lx\<rparr>"

abbreviation errorToken :: "lexer \<Rightarrow> string \<Rightarrow> token" where
  "errorToken lx msg \<equiv> makeErrorToken lx (StaticText msg) msg"

definition makeToken :: "lexer \<Rightarrow> token_type \<Rightarrow> token" where
  "makeToken lx ty =
     (let len = lx_current lx - lx_start lx
      in \<lparr>tok_type = ty, tok_lexeme = InSource (lx_current lx - len),
          tok_length = len, tok_line = lx_line lx\<rparr>)"

definition tokenHere :: "lexer \<Rightarrow> token_type \<Rightarrow> token" where
  "tokenHere lx ty =
     \<lparr>tok_type = ty, tok_lexeme = InSource (lx_start lx),
      tok_length = lx_current lx - lx_start lx, tok_line = lx_line lx\<rparr>"

definition digit_or_underscore :: "char \<Rightarrow> bool" where
  "digit_or_underscore c \<longleftrightarrow> is_digit_char c \<or> c = CHR ''_''"

definition ident_char :: "char \<Rightarrow> bool" where
  "ident_char c \<longleftrightarrow> is_digit_char c \<or> is_alpha_char c"

text \<open>The accumulation of \<open>bit_width\<close>, a C \<open>int\<close>: 32 bits, overflow wrapping.\<close>

function scanBitWidth :: "32 word \<Rightarrow> lexer \<Rightarrow> 32 word \<times> lexer" where
  "scanBitWidth w lx =
     (if isDigit lx
      then scanBitWidth (w * 10 + word_of_nat (of_char (peek lx) - 48)) (adv lx)
      else (w, lx))"
  by pat_completeness auto
termination
proof (relation "measure (\<lambda>(w, lx). length (lx_source lx) - lx_current lx)", goal_cases)
  case 1
  show ?case by simp
next
  case (2 w lx)
  then have "\<not> isAtEnd lx" by (auto simp: isDigit_def isAtEnd_def peek_def)
  then show ?case by (auto dest: isAtEnd_less)
qed

declare scanBitWidth.simps [simp del]

fun suffix_type :: "char \<Rightarrow> 32 word \<Rightarrow> token_type \<Rightarrow> token_type option" where
  "suffix_type c w ty =
     (if c = CHR ''i'' then
        (if w = 8 then Some (LiteralTok XVR_TOKEN_LITERAL_INT8)
         else if w = 16 then Some (LiteralTok XVR_TOKEN_LITERAL_INT16)
         else if w = 32 then Some (LiteralTok XVR_TOKEN_LITERAL_INT32)
         else if w = 64 then Some (LiteralTok XVR_TOKEN_LITERAL_INT64)
         else Some ty)
      else if c = CHR ''u'' then
        (if w = 8 then Some (LiteralTok XVR_TOKEN_LITERAL_UINT8)
         else if w = 16 then Some (LiteralTok XVR_TOKEN_LITERAL_UINT16)
         else if w = 32 then Some (LiteralTok XVR_TOKEN_LITERAL_UINT32)
         else if w = 64 then Some (LiteralTok XVR_TOKEN_LITERAL_UINT64)
         else Some ty)
      else
        (if w = 16 then Some (LiteralTok XVR_TOKEN_LITERAL_FLOAT16)
         else if w = 32 then Some (LiteralTok XVR_TOKEN_LITERAL_FLOAT32)
         else if w = 64 then Some (LiteralTok XVR_TOKEN_LITERAL_FLOAT64)
         else None))"

definition numberSuffix :: "lexer \<Rightarrow> token_type \<Rightarrow> bool \<Rightarrow> token \<times> lexer" where
  "numberSuffix lx ty is_float =
     (let suffix = peek lx
      in if suffix = CHR ''f'' \<and> \<not> is_float
         then (errorToken lx ''Invalid float suffix without decimal'', lx)
         else let (bit_width, lx2) = scanBitWidth 0 (adv lx)
              in if bit_width \<noteq> 8 \<and> bit_width \<noteq> 16 \<and> bit_width \<noteq> 32 \<and> bit_width \<noteq> 64
                 then (if suffix = CHR ''f''
                       then (errorToken lx2 ''Invalid float bit width'', lx2)
                       else (errorToken lx2 ''Invalid integer bit width'', lx2))
                 else (case suffix_type suffix bit_width ty of
                         Some ty' \<Rightarrow> (tokenHere lx2 ty', lx2)
                       | None \<Rightarrow>
                           (errorToken lx2
                              ''Invalid float bit width (only 16, 32, 64 supported)'', lx2)))"

definition makeIntegerOrFloat :: "lexer \<Rightarrow> token \<times> lexer" where
  "makeIntegerOrFloat lx =
     (let lx1 = skipWhile digit_or_underscore lx;
          is_float = (peek lx1 = CHR ''.'' \<and> is_digit_char (peekNext lx1));
          ty = (if is_float then LiteralTok XVR_TOKEN_LITERAL_FLOAT
                else LiteralTok XVR_TOKEN_LITERAL_INTEGER);
          lx2 = (if is_float then skipWhile digit_or_underscore (adv lx1) else lx1)
      in if peek lx2 = CHR ''i'' \<or> peek lx2 = CHR ''u'' \<or> peek lx2 = CHR ''f''
         then numberSuffix lx2 ty is_float
         else (tokenHere lx2 ty, lx2))"

definition isEscapeableCharacter :: "char \<Rightarrow> bool" where
  "isEscapeableCharacter c \<longleftrightarrow> c = CHR ''n'' \<or> c = CHR ''t'' \<or> c = BACKSLASH \<or> c = DQUOTE"

function scanString :: "char \<Rightarrow> lexer \<Rightarrow> lexer" where
  "scanString terminator lx =
     (if isAtEnd lx then lx
      else if peek lx = terminator then adv lx
      else if peek lx = BACKSLASH \<and> isEscapeableCharacter (peekNext lx)
      then scanString terminator (adv (adv lx))
      else scanString terminator (adv lx))"
  by pat_completeness auto
termination
  by (relation "measure (\<lambda>(t, lx). length (lx_source lx) - lx_current lx)")
     (auto dest: isAtEnd_less)

declare scanString.simps [simp del]

definition makeString :: "lexer \<Rightarrow> char \<Rightarrow> token \<times> lexer" where
  "makeString lx terminator =
     (let lx' = scanString terminator lx
      in if isAtEnd lx' then (errorToken lx' ''Unterminated string'', lx')
         else (\<lparr>tok_type = LiteralTok XVR_TOKEN_LITERAL_STRING,
                tok_lexeme = InSource (lx_start lx' + 1),
                tok_length = lx_current lx' - lx_start lx' - 2,
                tok_line = lx_line lx'\<rparr>, lx'))"

definition makeKeywordOrIdentifier :: "lexer \<Rightarrow> token \<times> lexer" where
  "makeKeywordOrIdentifier lx =
     (let lx' = skipWhile ident_char (adv lx)
      in case keyword_exact Xvr_keywordTypes (drop (lx_start lx') (lx_source lx'))
                (lx_current lx' - lx_start lx') of
           Some ty \<Rightarrow> (tokenHere lx' ty, lx')
         | None \<Rightarrow> (tokenHere lx' (LiteralTok XVR_TOKEN_IDENTIFIER), lx'))"

section \<open>Entry points\<close>

definition Xvr_initLexer :: "string \<Rightarrow> lexer" where
  "Xvr_initLexer source = cleanLexer\<lparr>lx_source := source\<rparr>"

text \<open>\<open>makeToken(lexer, match(...) ? t1 : t2)\<close>\<close>

definition makeEither :: "lexer \<Rightarrow> string \<Rightarrow> token_type \<Rightarrow> token_type \<Rightarrow> token \<times> lexer" where
  "makeEither lx expected t1 t2 =
     (let (b, lx') = match_chars lx expected 1
      in (makeToken lx' (if b then t1 else t2), lx'))"

definition makeEither3 ::
    "lexer \<Rightarrow> string \<Rightarrow> token_type \<Rightarrow> string \<Rightarrow> token_type \<Rightarrow> token_type \<Rightarrow> token \<times> lexer" where
  "makeEither3 lx e1 t1 e2 t2 t3 =
     (let (b, lx') = match_chars lx e1 1
      in if b then (makeToken lx' t1, lx') else makeEither lx' e2 t2 t3)"

definition scanSymbol :: "char \<Rightarrow> lexer \<Rightarrow> token \<times> lexer" where
  "scanSymbol c lx =
     (if c = CHR ''('' then (makeToken lx (LogicTok XVR_TOKEN_PAREN_LEFT), lx)
      else if c = CHR '')'' then (makeToken lx (LogicTok XVR_TOKEN_PAREN_RIGHT), lx)
      else if c = CHR ''{'' then (makeToken lx (LogicTok XVR_TOKEN_BRACE_LEFT), lx)
      else if c = CHR ''}'' then (makeToken lx (LogicTok XVR_TOKEN_BRACE_RIGHT), lx)
      else if c = CHR ''['' then (makeToken lx (LogicTok XVR_TOKEN_BRACKET_LEFT), lx)
      else if c = CHR '']'' then (makeToken lx (LogicTok XVR_TOKEN_BRACKET_RIGHT), lx)
      else if c = CHR ''+'' then
        makeEither3 lx ''='' (MathTok XVR_TOKEN_PLUS_ASSIGN) ''+'' (MathTok XVR_TOKEN_PLUS_PLUS)
          (MathTok XVR_TOKEN_PLUS)
      else if c = CHR ''-'' then
        makeEither3 lx ''='' (MathTok XVR_TOKEN_MINUS_ASSIGN) ''-'' (MathTok XVR_TOKEN_MINUS_MINUS)
          (MathTok XVR_TOKEN_MINUS)
      else if c = CHR ''*'' then
        makeEither lx ''='' (MathTok XVR_TOKEN_MULTIPLY_ASSIGN) (MathTok XVR_TOKEN_MULTIPLY)
      else if c = CHR ''/'' then
        makeEither lx ''='' (MathTok XVR_TOKEN_DIVIDE_ASSIGN) (MathTok XVR_TOKEN_DIVIDE)
      else if c = CHR ''%'' then
        makeEither lx ''='' (MathTok XVR_TOKEN_MODULO_ASSIGN) (MathTok XVR_TOKEN_MODULO)
      else if c = CHR ''!'' then
        makeEither lx ''='' (LogicTok XVR_TOKEN_NOT_EQUAL) (LogicTok XVR_TOKEN_NOT)
      else if c = CHR ''='' then
        makeEither lx ''='' (LogicTok XVR_TOKEN_EQUAL) (MathTok XVR_TOKEN_ASSIGN)
      else if c = CHR ''<'' then
        makeEither lx ''='' (LogicTok XVR_TOKEN_LESS_EQUAL) (LogicTok XVR_TOKEN_LESS)
      else if c = CHR ''>'' then
        makeEither lx ''='' (LogicTok XVR_TOKEN_GREATER_EQUAL) (LogicTok XVR_TOKEN_GREATER)
      else if c = CHR ''&'' then
        (let (d, lx') = advance lx
         in if d \<noteq> CHR ''&'' then (errorToken lx' (''Unexpected '' @ [CHR 0x27, CHR ''&'', CHR 0x27]), lx')
            else (makeToken lx' (LogicTok XVR_TOKEN_AND), lx'))
      else if c = CHR ''|'' then
        makeEither lx ''|'' (LogicTok XVR_TOKEN_OR) (OtherTok XVR_TOKEN_PIPE)
      else if c = CHR ''?'' then (makeToken lx (OtherTok XVR_TOKEN_QUESTION), lx)
      else if c = CHR '':'' then
        makeEither lx '':'' (OtherTok XVR_TOKEN_COLON_COLON) (OtherTok XVR_TOKEN_COLON)
      else if c = CHR '';'' then (makeToken lx (OtherTok XVR_TOKEN_SEMICOLON), lx)
      else if c = CHR '','' then (makeToken lx (OtherTok XVR_TOKEN_COMMA), lx)
      else if c = CHR ''.'' then
        (if peek lx = CHR ''.'' \<and> peekNext lx = CHR ''.''
         then (makeToken (adv (adv lx)) (OtherTok XVR_TOKEN_REST), adv (adv lx))
         else (makeToken lx (OtherTok XVR_TOKEN_DOT), lx))
      else if c = DQUOTE then makeString lx c
      else (makeErrorToken lx (ExpiredBuffer (''Unexpected token: '' @ [c]))
              (''Unexpected token: '' @ [c]), lx))"

definition scanToken :: "lexer \<Rightarrow> token \<times> lexer" where
  "scanToken lx0 =
     (let lx = lx0\<lparr>lx_start := lx_current lx0\<rparr>
      in if isAtEnd lx then (makeToken lx (MetaTok XVR_TOKEN_EOF), lx)
         else if isDigit lx then makeIntegerOrFloat lx
         else if isAlpha lx then makeKeywordOrIdentifier lx
         else let (c, lx') = advance lx in scanSymbol c lx')"

definition Xvr_private_scanLexer :: "lexer \<Rightarrow> (token \<times> lexer) option" where
  "Xvr_private_scanLexer lx = Option.bind (eatWhitespace lx) (\<lambda>lx0. Some (scanToken lx0))"

end
