(* ===== verification/LexerProps.thy ===== *)
theory LexerProps
  imports Lexer
begin

text \<open>
  What the lexer of theory Lexer guarantees. Every loop moves the cursor by \<open>advance\<close> only:
  \<open>lex_steps\<close> is that relation, the locale \<open>cursor_op\<close> is the contract of an operation that
  keeps to it, and the loops of the lexer are its interpretations. The cursor invariant
  (bounds and line count), termination of the scan, and the classification of tokens follow.
\<close>

section \<open>Cursor steps\<close>

inductive lex_steps :: "lexer \<Rightarrow> lexer \<Rightarrow> bool" where
  here: "lex_steps lx lx"
| more: "lex_steps lx lx' \<Longrightarrow> lex_steps lx (adv lx')"

declare lex_steps.here [simp, intro]

lemma lex_steps_adv [intro]: "lex_steps lx (adv lx)"
  by (blast intro: lex_steps.intros)

lemma lex_steps_trans [trans]: "lex_steps b c \<Longrightarrow> lex_steps a b \<Longrightarrow> lex_steps a c"
  by (induction rule: lex_steps.induct) (auto intro: lex_steps.intros)

lemma lex_steps_adv2: "lex_steps lx (adv (adv lx))"
  by (rule lex_steps_trans [OF lex_steps_adv lex_steps_adv])

text \<open>The invariant of the cursor: inside the source, and the line is one more than the line
  feeds passed.\<close>

definition lx_inv :: "lexer \<Rightarrow> bool" where
  "lx_inv lx \<longleftrightarrow> lx_current lx \<le> length (lx_source lx) \<and>
     lx_line lx = Suc (count_list (take (lx_current lx) (lx_source lx)) LF)"

lemma lx_inv_adv: "lx_inv lx \<Longrightarrow> lx_inv (adv lx)"
proof (cases "isAtEnd lx")
  case True
  assume "lx_inv lx"
  with True show ?thesis by (simp add: advance_def)
next
  case False
  assume inv: "lx_inv lx"
  from False have "lx_current lx < length (lx_source lx)" by (rule isAtEnd_less)
  then show ?thesis
    using inv False by (auto simp: lx_inv_def take_Suc_conv_app_nth peek_def)
qed

lemma lex_steps_frame:
  "lex_steps lx lx' \<Longrightarrow> lx_source lx' = lx_source lx \<and> lx_start lx' = lx_start lx
     \<and> lx_current lx \<le> lx_current lx' \<and> lx_line lx \<le> lx_line lx'"
  by (induction rule: lex_steps.induct) auto

lemma lex_steps_inv: "lex_steps lx lx' \<Longrightarrow> lx_inv lx \<Longrightarrow> lx_inv lx'"
  by (induction rule: lex_steps.induct) (auto intro: lx_inv_adv)

text \<open>The contract of a cursor operation, and what follows from it.\<close>

locale cursor_op =
  fixes f :: "lexer \<Rightarrow> lexer"
  assumes moves: "lex_steps lx (f lx)"
begin

lemma source: "lx_source (f lx) = lx_source lx"
  using lex_steps_frame [OF moves] by blast

lemma start: "lx_start (f lx) = lx_start lx"
  using lex_steps_frame [OF moves] by blast

lemma forward: "lx_current lx \<le> lx_current (f lx)"
  using lex_steps_frame [OF moves] by blast

lemma keeps_inv: "lx_inv lx \<Longrightarrow> lx_inv (f lx)"
  using lex_steps_inv [OF moves] by blast

lemma steps: "lex_steps a lx \<Longrightarrow> lex_steps a (f lx)"
  using lex_steps_trans [OF moves] by blast

end

lemma skipWhile_steps: "lex_steps lx (skipWhile P lx)"
proof (induction P lx rule: skipWhile.induct)
  case (1 P lx)
  then show ?case
    by (subst skipWhile.simps) (auto intro: lex_steps_trans [OF _ lex_steps_adv])
qed

lemma eatLine_steps: "lex_steps lx (eatLine lx)"
proof (induction lx rule: eatLine.induct)
  case (1 lx)
  then show ?case
    by (subst eatLine.simps) (auto simp: Let_def intro: lex_steps_trans [OF _ lex_steps_adv])
qed

lemma scanString_steps: "lex_steps lx (scanString t lx)"
proof (induction t lx rule: scanString.induct)
  case (1 t lx)
  have two: "lex_steps (adv (adv lx)) x \<Longrightarrow> lex_steps lx x" for x
    by (blast intro: lex_steps_trans lex_steps_adv)
  from 1 two show ?case
    by (subst scanString.simps) (auto intro: lex_steps_trans [OF _ lex_steps_adv])
qed

lemma scanBitWidth_steps: "lex_steps lx (snd (scanBitWidth w lx))"
proof (induction w lx rule: scanBitWidth.induct)
  case (1 w lx)
  then show ?case
    by (subst scanBitWidth.simps) (auto intro: lex_steps_trans [OF _ lex_steps_adv])
qed

lemma match_loop_steps: "lex_steps lx (snd (match_loop n lx))"
  by (induction n lx rule: match_loop.induct) (auto intro: lex_steps_trans [OF _ lex_steps_adv])

interpretation adv_op: cursor_op adv
  by unfold_locales blast

interpretation skipWhile_op: cursor_op "skipWhile P" for P
  by unfold_locales (rule skipWhile_steps)

interpretation eatLine_op: cursor_op eatLine
  by unfold_locales (rule eatLine_steps)

interpretation eatShebang_op: cursor_op eatShebangLine
  by unfold_locales
     (auto simp: eatShebangLine_def Let_def intro: skipWhile_steps adv_op.steps)

interpretation scanString_op: cursor_op "scanString t" for t
  by unfold_locales (rule scanString_steps)

interpretation bitWidth_op: cursor_op "\<lambda>lx. snd (scanBitWidth w lx)" for w
  by unfold_locales (rule scanBitWidth_steps)

interpretation match_op: cursor_op "\<lambda>lx. snd (match_chars lx e n)" for e n
  by unfold_locales (auto simp: match_chars_def match_loop_steps)

lemmas cursor_steps = adv_op.steps skipWhile_op.steps eatLine_op.steps eatShebang_op.steps
  scanString_op.steps bitWidth_op.steps match_op.steps

section \<open>Whitespace and comments\<close>

definition two_at :: "string \<Rightarrow> nat \<Rightarrow> char \<Rightarrow> char \<Rightarrow> bool" where
  "two_at s i a b \<longleftrightarrow> char_at s i = a \<and> char_at s (Suc i) = b"

lemma eatBlock_Some:
  assumes "eatBlock lx = Some r"
  shows "lex_steps lx r \<and> peek r = CHR ''*'' \<and> peekNext r = CHR ''/''"
proof (rule eatBlock.raw_induct [where P = "\<lambda>lx r. lex_steps lx r \<and> peek r = CHR ''*'' \<and> peekNext r = CHR ''/''", OF _ assms])
  fix f lx r
  assume IH: "\<And>lx r. f lx = Some r \<Longrightarrow> lex_steps lx r \<and> peek r = CHR ''*'' \<and> peekNext r = CHR ''/''"
    and eq: "(if \<not> (peek lx = CHR ''*'' \<and> peekNext lx = CHR ''/'') then f (adv lx) else Some lx) = Some r"
  show "lex_steps lx r \<and> peek r = CHR ''*'' \<and> peekNext r = CHR ''/''"
    using eq IH [of "adv lx" r]
    by (auto split: if_splits intro: lex_steps_trans [OF _ lex_steps_adv])
qed

lemma eatWhitespace_Some:
  assumes "eatWhitespace lx = Some r"
  shows "lex_steps lx r"
proof (rule eatWhitespace.raw_induct [where P = lex_steps, OF _ assms])
  fix f lx r
  assume IH: "\<And>lx r. f lx = Some r \<Longrightarrow> lex_steps lx r"
    and eq: "(let c = peek lx
      in if c = CHR '' '' \<or> c = CR \<or> c = LF \<or> c = TAB then f (adv lx)
         else if c = CHR ''#'' then
           (if lx_start lx = 0 \<and> peekNext lx = CHR ''!'' then f (eatShebangLine lx) else Some lx)
         else if c = CHR ''/'' then
           (if peekNext lx = CHR ''/'' then f (eatLine lx)
            else if peekNext lx = CHR ''*''
            then Option.bind (eatBlock (adv (adv lx))) (\<lambda>lx'. f (adv (adv lx')))
            else Some lx)
         else Some lx) = Some r"
  have block: "lex_steps lx r"
    if b: "eatBlock (adv (adv lx)) = Some m" and f: "f (adv (adv m)) = Some r" for m
  proof -
    have "lex_steps lx (adv (adv m))"
      using eatBlock_Some [OF b] lex_steps_trans [OF _ lex_steps_adv2] by (blast intro: adv_op.steps)
    then show ?thesis using IH [OF f] lex_steps_trans by blast
  qed
  have via: "lex_steps lx r" if "f m = Some r" "lex_steps lx m" for m
    using that IH lex_steps_trans by blast
  note steps = via [OF _ adv_op.moves] via [OF _ eatLine_op.moves] via [OF _ eatShebang_op.moves]
  show "lex_steps lx r"
  proof (cases "peek lx = CHR ''/'' \<and> peekNext lx = CHR ''*''")
    case True
    with eq have "Option.bind (eatBlock (adv (adv lx))) (\<lambda>lx'. f (adv (adv lx'))) = Some r"
      by (simp add: Let_def)
    then show ?thesis using block by (auto simp: bind_eq_Some_conv)
  next
    case False
    with eq have "f (adv lx) = Some r \<or> f (eatShebangLine lx) = Some r \<or> f (eatLine lx) = Some r
        \<or> Some lx = Some r"
      by (simp only: Let_def split: if_split_asm) simp_all
    then show ?thesis using steps by auto
  qed
qed


text \<open>A block comment is left exactly when its end mark comes later.\<close>

lemma peekNext_not_end: "peek lx \<noteq> NUL \<Longrightarrow> peekNext lx = char_at (lx_source lx) (Suc (lx_current lx))"
  by (simp add: peekNext_def isAtEnd_def peek_def)

lemma comment_mark: "a \<noteq> NUL \<Longrightarrow> (peek lx = a \<and> peekNext lx = b) = two_at (lx_source lx) (lx_current lx) a b"
  by (auto simp: peekNext_def isAtEnd_def peek_def two_at_def)

lemma eatBlock_None:
  assumes "\<And>j. lx_current lx \<le> j \<Longrightarrow> \<not> two_at (lx_source lx) j (CHR ''*'') (CHR ''/'')"
  shows "eatBlock lx = None"
proof (cases "eatBlock lx")
  case (Some r)
  note r = eatBlock_Some [OF Some]
  then have "two_at (lx_source r) (lx_current r) (CHR ''*'') (CHR ''/'')"
    by (simp add: comment_mark [symmetric])
  moreover have "lx_source r = lx_source lx" "lx_current lx \<le> lx_current r"
    using r lex_steps_frame by blast+
  ultimately show ?thesis using assms by metis
qed

lemma not_at_end: "no_nul (lx_source lx) \<Longrightarrow> lx_current lx < length (lx_source lx) \<Longrightarrow> \<not> isAtEnd lx"
  by (metis isAtEnd_def char_at_eq_NUL_iff not_le)

lemma eatBlock_total:
  assumes "no_nul (lx_source lx)" "lx_current lx \<le> j"
    and "two_at (lx_source lx) j (CHR ''*'') (CHR ''/'')"
  shows "\<exists>r. eatBlock lx = Some r"
  using assms
proof (induction "j - lx_current lx" arbitrary: lx)
  case 0
  then have "peek lx = CHR ''*'' \<and> peekNext lx = CHR ''/''" by (simp add: comment_mark)
  then show ?case by (simp add: eatBlock.simps)
next
  case (Suc n)
  have "j < length (lx_source lx)" using Suc.prems(3) by (auto simp: two_at_def intro: char_at_not_nul_less)
  then have "\<not> isAtEnd lx" using Suc by (intro not_at_end) auto
  then have "\<exists>r. eatBlock (adv lx) = Some r" using Suc by (intro Suc.hyps(1)) auto
  then show ?case by (subst eatBlock.simps) auto
qed

definition closed_blocks :: "string \<Rightarrow> bool" where
  "closed_blocks s \<longleftrightarrow> list_all (\<lambda>i. two_at s i (CHR ''/'') (CHR ''*'') \<longrightarrow>
     list_ex (\<lambda>j. two_at s j (CHR ''*'') (CHR ''/'')) [i + 2..<length s]) [0..<length s]"

lemma eatWhitespace_total:
  assumes "no_nul (lx_source lx)" "closed_blocks (lx_source lx)"
  shows "\<exists>r. eatWhitespace lx = Some r"
  using assms
proof (induction "length (lx_source lx) - lx_current lx" arbitrary: lx rule: less_induct)
  case less
  have IH: "\<exists>r. eatWhitespace (f lx) = Some r" if "cursor_op f" "lx_current lx < lx_current (f lx)"
    "\<not> isAtEnd lx" for f
    using less.hyps [of "f lx"] less.prems that cursor_op.source [OF that(1)] isAtEnd_less [of lx] by simp
  have nonend: "\<not> isAtEnd lx" if "peek lx = c" "c \<noteq> NUL" for c
    using that by (simp add: isAtEnd_def peek_def)
  have adv1: "\<exists>r. eatWhitespace (adv lx) = Some r" if "\<not> isAtEnd lx"
    using IH [OF adv_op.cursor_op_axioms] that by simp
  have shebang: "\<exists>r. eatWhitespace (eatShebangLine lx) = Some r" if "peek lx = CHR ''#''"
  proof (rule IH [OF eatShebang_op.cursor_op_axioms _ nonend [OF that]])
    have "lx_current (adv lx) \<le> lx_current (skipWhile (\<lambda>c. c \<noteq> LF) (adv lx))"
      by (rule skipWhile_op.forward)
    then show "lx_current lx < lx_current (eatShebangLine lx)"
      using that nonend [OF that] by (simp add: eatShebangLine_def Let_def skipWhile.simps [of _ lx])
  qed simp
  have line: "\<exists>r. eatWhitespace (eatLine lx) = Some r" if "peek lx = CHR ''/''"
  proof (rule IH [OF eatLine_op.cursor_op_axioms _ nonend [OF that]])
    show "lx_current lx < lx_current (eatLine lx)"
      using that nonend [OF that] eatLine_op.forward [of "adv lx"]
      by (subst eatLine.simps) (simp add: Let_def)
  qed simp
  have block: "\<exists>r. Option.bind (eatBlock (adv (adv lx))) (\<lambda>m. eatWhitespace (adv (adv m))) = Some r"
    if c: "peek lx = CHR ''/''" "peekNext lx = CHR ''*''"
  proof -
    have two: "two_at (lx_source lx) (lx_current lx) (CHR ''/'') (CHR ''*'')"
      using c by (simp add: comment_mark [symmetric])
    then have l: "Suc (lx_current lx) < length (lx_source lx)"
      by (auto simp: two_at_def intro: char_at_not_nul_less)
    then obtain j where j: "lx_current lx + 2 \<le> j" "two_at (lx_source lx) j (CHR ''*'') (CHR ''/'')"
      using two less.prems by (auto simp: closed_blocks_def list_all_iff list_ex_iff dest!: bspec [of _ _ "lx_current lx"])
    have ne: "\<not> isAtEnd lx" using nonend [OF c(1)] by simp
    have "\<exists>m. eatBlock (adv (adv lx)) = Some m"
      using less.prems ne j by (intro eatBlock_total [of _ j]) auto
    then obtain m where m: "eatBlock (adv (adv lx)) = Some m" by blast
    have st: "lex_steps lx m"
      using eatBlock_Some [OF m] lex_steps_trans [OF _ lex_steps_adv2] by blast
    have "\<not> isAtEnd m" using eatBlock_Some [OF m] by (simp add: isAtEnd_def peek_def)
    then have "\<exists>r. eatWhitespace (adv (adv m)) = Some r"
      using lex_steps_frame [OF st] less.prems l by (intro less.hyps) auto
    then show ?thesis using m by simp
  qed
  show ?case
    by (subst eatWhitespace.simps)
       (use adv1 shebang line block nonend in \<open>auto simp: Let_def\<close>)
qed

section \<open>What a scan consumes\<close>

lemma skipWhile_current:
  "lx_current (skipWhile P lx) =
     lx_current lx + length (takeWhile (\<lambda>c. P c \<and> c \<noteq> NUL) (drop (lx_current lx) (lx_source lx)))"
proof (induction P lx rule: skipWhile.induct)
  case (1 P lx)
  show ?case
  proof (cases "P (peek lx) \<and> \<not> isAtEnd lx")
    case True
    then have l: "lx_current lx < length (lx_source lx)" by (simp add: isAtEnd_less)
    have c: "P (lx_source lx ! lx_current lx)" "lx_source lx ! lx_current lx \<noteq> NUL"
      using True l by (simp_all add: peek_def isAtEnd_def)
    have "drop (lx_current lx) (lx_source lx) =
        lx_source lx ! lx_current lx # drop (Suc (lx_current lx)) (lx_source lx)"
      using l by (simp add: Cons_nth_drop_Suc)
    then show ?thesis using True 1 c by (subst skipWhile.simps) simp
  next
    case False
    then have "takeWhile (\<lambda>c. P c \<and> c \<noteq> NUL) (drop (lx_current lx) (lx_source lx)) = []"
      by (cases "drop (lx_current lx) (lx_source lx)")
         (auto simp: peek_def isAtEnd_def char_at_def hd_drop_conv_nth split: if_splits
           dest: arg_cong [of _ _ hd])
    then show ?thesis using False by (subst skipWhile.simps) (auto simp del: takeWhile_eq_Nil_iff)
  qed
qed

text \<open>Shape of a token and of a scan: where the lexeme lies, which line it carries, and that
  the cursor moved by steps.\<close>

definition tok_ok :: "lexer \<Rightarrow> token \<Rightarrow> bool" where
  "tok_ok lx t \<longleftrightarrow> tok_line t = lx_line lx \<and>
     (case tok_lexeme t of
        InSource i \<Rightarrow> lx_start lx \<le> i \<and> i + tok_length t \<le> lx_current lx
      | _ \<Rightarrow> tok_type t = MetaTok XVR_TOKEN_ERROR)"

definition scan_ok :: "lexer \<Rightarrow> token \<times> lexer \<Rightarrow> bool" where
  "scan_ok a r \<longleftrightarrow> lex_steps a (snd r) \<and> tok_ok (snd r) (fst r)"

lemma scan_okI: "lex_steps a lx \<Longrightarrow> tok_ok lx t \<Longrightarrow> scan_ok a (t, lx)"
  by (simp add: scan_ok_def)

lemma tok_ok_error: "tok_ok lx (makeErrorToken lx (StaticText m) msg)"
  "tok_ok lx (makeErrorToken lx (ExpiredBuffer m) msg)"
  by (simp_all add: tok_ok_def makeErrorToken_def)

lemma tok_ok_here: "lx_start lx \<le> lx_current lx \<Longrightarrow> tok_ok lx (tokenHere lx ty)"
  by (simp add: tok_ok_def tokenHere_def)

lemma makeToken_here: "lx_start lx \<le> lx_current lx \<Longrightarrow> makeToken lx ty = tokenHere lx ty"
  by (simp add: makeToken_def tokenHere_def)

lemma started: "lex_steps a lx \<Longrightarrow> lx_start a \<le> lx_current a \<Longrightarrow> lx_start lx \<le> lx_current lx"
  using lex_steps_frame by fastforce

lemma scan_ok_here: "lex_steps a lx \<Longrightarrow> lx_start a \<le> lx_current a \<Longrightarrow> scan_ok a (tokenHere lx ty, lx)"
  by (simp add: scan_ok_def tok_ok_here started)

lemma scan_ok_make: "lex_steps a lx \<Longrightarrow> lx_start a \<le> lx_current a \<Longrightarrow> scan_ok a (makeToken lx ty, lx)"
  by (simp add: scan_ok_here makeToken_here started)

lemma scan_ok_error: "lex_steps a lx \<Longrightarrow> scan_ok a (errorToken lx msg, lx)"
  "lex_steps a lx \<Longrightarrow> scan_ok a (makeErrorToken lx (ExpiredBuffer m) msg, lx)"
  by (simp_all add: scan_ok_def tok_ok_error)

lemmas scan_ok_rules = scan_ok_here scan_ok_make scan_ok_error

lemma numberSuffix_ok:
  assumes a: "lex_steps a lx" and s: "lx_start a \<le> lx_current a"
  shows "scan_ok a (numberSuffix lx ty b)"
proof -
  obtain w lx2 where w: "scanBitWidth 0 (adv lx) = (w, lx2)" by fastforce
  then have "lex_steps (adv lx) lx2" using scanBitWidth_steps [of "adv lx" 0] by simp
  then have "lex_steps a lx2" using a by (blast intro: lex_steps_trans adv_op.steps)
  then show ?thesis using a s w
    by (simp add: numberSuffix_def Let_def scan_ok_rules split: option.split)
qed

lemma makeIntegerOrFloat_ok:
  "lx_start lx \<le> lx_current lx \<Longrightarrow> scan_ok lx (makeIntegerOrFloat lx)"
  by (auto simp: makeIntegerOrFloat_def Let_def intro!: numberSuffix_ok scan_ok_here cursor_steps)

lemma scanString_forward: "\<not> isAtEnd lx \<Longrightarrow> lx_current lx < lx_current (scanString t lx)"
  using scanString_op.forward [of "adv lx" t] scanString_op.forward [of "adv (adv lx)" t]
  by (subst scanString.simps) (auto split: if_splits)

lemma makeString_ok:
  assumes "lx_start lx < lx_current lx"
  shows "scan_ok lx (makeString lx t)"
proof (cases "isAtEnd (scanString t lx)")
  case True
  then show ?thesis by (simp add: makeString_def Let_def scan_ok_rules scanString_steps)
next
  case False
  then have "\<not> isAtEnd lx" by (subst (asm) scanString.simps) (auto split: if_splits)
  then have "lx_current lx < lx_current (scanString t lx)" by (rule scanString_forward)
  then show ?thesis using False assms
    by (simp add: makeString_def Let_def scan_ok_def tok_ok_def scanString_steps scanString_op.start)
qed

lemma makeKeywordOrIdentifier_ok:
  "lx_start lx \<le> lx_current lx \<Longrightarrow> scan_ok lx (makeKeywordOrIdentifier lx)"
  by (auto simp: makeKeywordOrIdentifier_def Let_def split: option.split
      intro!: scan_ok_here skipWhile_op.steps)

lemma makeEither_ok:
  assumes "lex_steps a lx" "lx_start a \<le> lx_current a"
  shows "scan_ok a (makeEither lx e t1 t2)"
proof -
  obtain b lx' where m: "match_chars lx e 1 = (b, lx')" by fastforce
  then have "lex_steps a lx'" using match_op.steps [OF assms(1), of e 1] by simp
  then show ?thesis using assms m by (simp add: makeEither_def scan_ok_rules)
qed

lemma makeEither3_ok:
  assumes "lx_start lx \<le> lx_current lx"
  shows "scan_ok lx (makeEither3 lx e1 t1 e2 t2 t3)"
proof -
  obtain b lx' where m: "match_chars lx e1 1 = (b, lx')" by fastforce
  then have "lex_steps lx lx'" using match_op.moves [of lx e1 1] by simp
  then show ?thesis using assms m by (simp add: makeEither3_def scan_ok_rules makeEither_ok)
qed

lemma scan_ok_if: "scan_ok a x \<Longrightarrow> scan_ok a y \<Longrightarrow> scan_ok a (if b then x else y)"
  by simp

lemma scanSymbol_ok:
  assumes "lx_start lx < lx_current lx"
  shows "scan_ok lx (scanSymbol c lx)"
  unfolding scanSymbol_def Let_def case_prod_beta
  using assms
  by (intro scan_ok_if scan_ok_rules makeEither_ok makeEither3_ok makeString_ok
      lex_steps_adv lex_steps_adv2 lex_steps.here less_imp_le)

abbreviation at_start :: "lexer \<Rightarrow> lexer" where
  "at_start lx \<equiv> lx\<lparr>lx_start := lx_current lx\<rparr>"

lemma scan_ok_trans: "lex_steps a b \<Longrightarrow> scan_ok b r \<Longrightarrow> scan_ok a r"
  unfolding scan_ok_def by (metis lex_steps_trans)

lemma scanToken_ok: "scan_ok (at_start lx) (scanToken lx)"
proof -
  let ?l = "at_start lx"
  have adv: "scan_ok ?l (scanSymbol c (adv ?l))" if "\<not> isAtEnd ?l" for c
    using that by (simp add: scan_ok_trans [OF lex_steps_adv scanSymbol_ok])
  show ?thesis
    using adv
    by (auto simp: scanToken_def Let_def case_prod_beta
        intro!: scan_ok_make makeIntegerOrFloat_ok makeKeywordOrIdentifier_ok)
qed

section \<open>Progress\<close>

lemma numberSuffix_steps: "lex_steps lx (snd (numberSuffix lx ty b))"
proof -
  let ?a = "lx\<lparr>lx_start := 0\<rparr>"
  obtain w lx2 where w: "scanBitWidth 0 (adv lx) = (w, lx2)" by fastforce
  then have "lex_steps (adv lx) lx2" using scanBitWidth_steps [of "adv lx" 0] by simp
  then have "lex_steps lx lx2" by (rule lex_steps_trans) (rule lex_steps_adv)
  then show ?thesis using w by (simp add: numberSuffix_def Let_def split: option.split)
qed

lemma makeIntegerOrFloat_forward:
  assumes "isDigit lx"
  shows "lx_current lx < lx_current (snd (makeIntegerOrFloat lx))"
proof -
  let ?l1 = "skipWhile digit_or_underscore lx"
  have "\<not> isAtEnd lx" using assms by (auto simp: isDigit_def isAtEnd_def peek_def)
  then have l1: "lx_current lx < lx_current ?l1"
    using assms skipWhile_op.forward [of "adv lx" digit_or_underscore]
    by (subst skipWhile.simps) (simp add: isDigit_def digit_or_underscore_def)
  have "lex_steps ?l1 (snd (makeIntegerOrFloat lx))"
    by (auto simp: makeIntegerOrFloat_def Let_def
        intro: cursor_steps lex_steps_trans [OF numberSuffix_steps])
  then show ?thesis using l1 lex_steps_frame by fastforce
qed

lemma makeKeywordOrIdentifier_forward:
  assumes "isAlpha lx"
  shows "lx_current lx < lx_current (snd (makeKeywordOrIdentifier lx))"
proof -
  have "\<not> isAtEnd lx" using assms by (auto simp: isAlpha_def isAtEnd_def peek_def)
  then show ?thesis using skipWhile_op.forward [of "adv lx" ident_char]
    by (simp add: makeKeywordOrIdentifier_def Let_def split: option.split)
qed

lemma scanToken_forward:
  assumes "\<not> isAtEnd lx"
  shows "lx_current lx < lx_current (snd (scanToken lx))"
proof -
  let ?l = "at_start lx"
  have e: "\<not> isAtEnd ?l" using assms by (simp add: isAtEnd_def)
  have "scan_ok (adv ?l) (scanSymbol c (adv ?l))" for c
    using e by (intro scanSymbol_ok) simp
  then have "lx_current (adv ?l) \<le> lx_current (snd (scanSymbol c (adv ?l)))" for c
    using lex_steps_frame unfolding scan_ok_def by blast
  then have "lx_current lx < lx_current (snd (scanSymbol c (adv ?l)))" for c
    using e by (simp add: Suc_le_eq)
  then show ?thesis
    using e makeIntegerOrFloat_forward [of ?l] makeKeywordOrIdentifier_forward [of ?l]
    by (simp add: scanToken_def Let_def case_prod_beta)
qed

lemma scanToken_end:
  "isAtEnd lx \<Longrightarrow> scanToken lx = (makeToken (at_start lx) (MetaTok XVR_TOKEN_EOF), at_start lx)"
  by (simp add: scanToken_def isAtEnd_def Let_def)

lemma scan_cases:
  assumes "Xvr_private_scanLexer lx = Some (t, lx')"
  obtains m where "eatWhitespace lx = Some m" "lex_steps lx m" "scanToken m = (t, lx')"
    "scan_ok (at_start m) (t, lx')"
  using assms scanToken_ok eatWhitespace_Some
  by (auto simp: Xvr_private_scanLexer_def bind_eq_Some_conv) metis

lemma at_start_inv: "lx_inv (at_start m) = lx_inv m"
  by (simp add: lx_inv_def)

text \<open>C19: A scan that returns keeps the source, keeps the cursor inside it and the line count equal
  to the line feeds passed, hands out a token whose line is the line the scan ended on and whose
  lexeme lies between the token start and the cursor (only an error token points elsewhere), and
  either moves the cursor forward or is at the end of the source with an EOF token.\<close>

theorem scan_well_formed:
  assumes "lx_inv lx" and "Xvr_private_scanLexer lx = Some (t, lx')"
  shows "lx_source lx' = lx_source lx \<and> lx_inv lx' \<and>
    lx_current lx \<le> lx_start lx' \<and> lx_start lx' \<le> lx_current lx' \<and>
    tok_line t = lx_line lx' \<and>
    (case tok_lexeme t of
       InSource i \<Rightarrow> lx_start lx' \<le> i \<and> i + tok_length t \<le> lx_current lx'
     | _ \<Rightarrow> tok_type t = MetaTok XVR_TOKEN_ERROR) \<and>
    (if lx_current lx' = lx_start lx' then tok_type t = MetaTok XVR_TOKEN_EOF \<and> isAtEnd lx'
     else lx_start lx' < lx_current lx')"
proof -
  obtain m where m: "lex_steps lx m" "scanToken m = (t, lx')" "scan_ok (at_start m) (t, lx')"
    using assms(2) by (rule scan_cases)
  have st: "lex_steps (at_start m) lx'" and ok: "tok_ok lx' t" using m(3) by (simp_all add: scan_ok_def)
  have fr: "lx_source lx' = lx_source m" "lx_start lx' = lx_current m" "lx_current m \<le> lx_current lx'"
    using lex_steps_frame [OF st] by simp_all
  have inv: "lx_inv lx'" using m(1) st assms(1) lex_steps_inv at_start_inv by blast
  have e: "tok_type t = MetaTok XVR_TOKEN_EOF \<and> isAtEnd lx'" if "lx_current lx' = lx_current m"
  proof -
    have "isAtEnd m" using scanToken_forward [of m] that m(2) by fastforce
    then show ?thesis using m(2) by (auto simp: scanToken_end makeToken_def isAtEnd_def)
  qed
  show ?thesis using fr inv ok e lex_steps_frame [OF m(1)] by (auto simp: tok_ok_def)
qed

lemma scan_well_formed_witness:
  "\<exists>t lx'. Xvr_private_scanLexer (Xvr_initLexer ''x=1'') = Some (t, lx') \<and> lx_inv lx' \<and> lx_start lx' = 0"
proof -
  have i: "lx_inv (Xvr_initLexer ''x=1'')" by code_simp
  have s: "Xvr_private_scanLexer (Xvr_initLexer ''x=1'') =
    Some (\<lparr>tok_type = LiteralTok XVR_TOKEN_IDENTIFIER, tok_lexeme = InSource 0, tok_length = 1, tok_line = 1\<rparr>,
     \<lparr>lx_source = ''x=1'', lx_start = 0, lx_current = 1, lx_line = 1\<rparr>)" by code_simp
  show ?thesis by (intro exI conjI, rule s) (use scan_well_formed [OF i s] in simp_all)
qed

text \<open>On a source in which every block comment that opens is closed, a scan returns.\<close>

theorem scan_returns:
  assumes "no_nul (lx_source lx)" "closed_blocks (lx_source lx)"
  shows "\<exists>t lx'. Xvr_private_scanLexer lx = Some (t, lx')"
  using eatWhitespace_total [OF assms] by (auto simp: Xvr_private_scanLexer_def)

lemma scan_returns_witness:
  "\<exists>t lx'. Xvr_private_scanLexer (Xvr_initLexer ''/*a*/x'') = Some (t, lx')"
  by (rule scan_returns) (code_simp, code_simp)

text \<open>C36: A scan whose cursor is at a block comment that is never closed does not return: the loop
  over the comment has no test for the end of the source.\<close>

theorem scan_hangs_on_open_block:
  assumes "peek lx = CHR ''/''" "peekNext lx = CHR ''*''"
    and "\<And>j. lx_current lx + 2 \<le> j \<Longrightarrow> \<not> two_at (lx_source lx) j (CHR ''*'') (CHR ''/'')"
  shows "Xvr_private_scanLexer lx = None"
proof -
  have two: "two_at (lx_source lx) (lx_current lx) (CHR ''/'') (CHR ''*'')"
    using assms by (simp add: comment_mark [symmetric])
  have ne: "\<not> isAtEnd lx" using assms(1) by (simp add: isAtEnd_def peek_def)
  have "\<not> isAtEnd (adv lx)" using two ne by (simp add: isAtEnd_def two_at_def)
  then have "lx_current (adv (adv lx)) = lx_current lx + 2" using ne by simp
  then have "eatBlock (adv (adv lx)) = None"
    using assms(3) by (intro eatBlock_None) simp
  then show ?thesis using assms
    by (simp add: Xvr_private_scanLexer_def eatWhitespace.simps [of lx])
qed

lemma scan_hangs_on_open_block_witness: "Xvr_private_scanLexer (Xvr_initLexer ''/* a'') = None"
proof (rule scan_hangs_on_open_block)
  fix j
  assume "lx_current (Xvr_initLexer ''/* a'') + 2 \<le> j"
  then obtain k where "j = Suc (Suc k)" by (metis add_2_eq_Suc' le_add2 le_Suc_ex le_trans add.commute)
  then show "\<not> two_at (lx_source (Xvr_initLexer ''/* a'')) j (CHR ''*'') (CHR ''/'')"
    by (cases k; cases "k - 1") (auto simp: two_at_def Xvr_initLexer_def cleanLexer_def char_at_def nth_Cons')
qed code_simp+

section \<open>The whole source\<close>

text \<open>The caller's loop: scan until EOF, at most \<open>n\<close> tokens.\<close>

fun lex_all :: "nat \<Rightarrow> lexer \<Rightarrow> token list option" where
  "lex_all 0 lx = None"
| "lex_all (Suc n) lx =
     (case Xvr_private_scanLexer lx of
        None \<Rightarrow> None
      | Some (t, lx') \<Rightarrow>
          if tok_type t = MetaTok XVR_TOKEN_EOF then Some [t]
          else map_option (Cons t) (lex_all n lx'))"

lemma lex_all_total:
  assumes "no_nul (lx_source lx)" "closed_blocks (lx_source lx)" "lx_inv lx"
    and "length (lx_source lx) - lx_current lx < n"
  shows "\<exists>ts t. lex_all n lx = Some (ts @ [t]) \<and> tok_type t = MetaTok XVR_TOKEN_EOF
    \<and> length ts + lx_current lx \<le> length (lx_source lx)"
  using assms
proof (induction n arbitrary: lx)
  case 0
  then show ?case by simp
next
  case (Suc n)
  obtain r where "eatWhitespace lx = Some r" using eatWhitespace_total Suc.prems by blast
  then obtain t lx' where sc: "Xvr_private_scanLexer lx = Some (t, lx')"
    by (auto simp: Xvr_private_scanLexer_def) (metis surj_pair)
  obtain m where m: "lex_steps lx m" "scanToken m = (t, lx')" "scan_ok (at_start m) (t, lx')"
    using sc by (rule scan_cases)
  have st: "lex_steps (at_start m) lx'" using m(3) by (simp add: scan_ok_def)
  have inv: "lx_inv lx'" using m(1) st Suc.prems(3) lex_steps_inv at_start_inv by blast
  have src: "lx_source lx' = lx_source lx" "lx_current lx \<le> lx_current m"
    using lex_steps_frame [OF st] lex_steps_frame [OF m(1)] by simp_all
  show ?case
  proof (cases "tok_type t = MetaTok XVR_TOKEN_EOF")
    case True
    then have "lex_all (Suc n) lx = Some ([] @ [t])" using sc by simp
    then show ?thesis using True Suc.prems(3) unfolding lx_inv_def by (metis add_0 list.size(3))
  next
    case False
    then have "\<not> isAtEnd m" using m(2) by (auto simp: scanToken_end makeToken_def)
    then have "lx_current m < lx_current lx'" using scanToken_forward [of m] m(2) by simp
    then have lt: "lx_current lx < lx_current lx'" using src by simp
    have "\<exists>ts u. lex_all n lx' = Some (ts @ [u]) \<and> tok_type u = MetaTok XVR_TOKEN_EOF
        \<and> length ts + lx_current lx' \<le> length (lx_source lx')"
      using lt inv src Suc.prems by (intro Suc.IH) (auto simp: lx_inv_def)
    then obtain ts u where "lex_all n lx' = Some (ts @ [u])" "tok_type u = MetaTok XVR_TOKEN_EOF"
      "length ts + lx_current lx' \<le> length (lx_source lx')" by blast
    then show ?thesis using sc False lt src by (intro exI [of _ "t # ts"] exI [of _ u]) simp
  qed
qed

text \<open>C15: Scanning a source whose block comments are closed, from its start until EOF, ends after at
  most as many tokens as the source has bytes, with an EOF token.\<close>

theorem lex_all_terminates:
  assumes "no_nul s" "closed_blocks s"
  shows "\<exists>ts t. lex_all (length s + 1) (Xvr_initLexer s) = Some (ts @ [t])
    \<and> tok_type t = MetaTok XVR_TOKEN_EOF \<and> length ts \<le> length s"
proof -
  have "lx_inv (Xvr_initLexer s)" "lx_source (Xvr_initLexer s) = s" "lx_current (Xvr_initLexer s) = 0"
    by (simp_all add: lx_inv_def Xvr_initLexer_def cleanLexer_def)
  then show ?thesis using lex_all_total [of "Xvr_initLexer s" "length s + 1"] assms by simp
qed

lemma lex_all_terminates_witness:
  "\<exists>ts t. lex_all (length ''x/*b*/y'' + 1) (Xvr_initLexer ''x/*b*/y'') = Some (ts @ [t])
    \<and> tok_type t = MetaTok XVR_TOKEN_EOF \<and> length ts \<le> length ''x/*b*/y''"
  by (rule lex_all_terminates) (code_simp, code_simp)

section \<open>Words\<close>

lemma skipWhile_line:
  "(\<And>c. P c \<Longrightarrow> c \<noteq> LF) \<Longrightarrow> lx_line (skipWhile P lx) = lx_line lx"
proof (induction P lx rule: skipWhile.induct)
  case (1 P lx)
  show ?case
  proof (cases "P (peek lx) \<and> \<not> isAtEnd lx")
    case True
    then have "peek lx \<noteq> LF" using 1(2) by blast
    then show ?thesis using True 1 by (subst skipWhile.simps) simp
  next
    case False
    then show ?thesis by (subst skipWhile.simps) auto
  qed
qed

lemma takeWhile_not_nul: "\<not> P NUL \<Longrightarrow> takeWhile (\<lambda>c. P c \<and> c \<noteq> NUL) xs = takeWhile P xs"
  by (induction xs) auto

lemma skipWhile_eq:
  assumes "\<And>c. P c \<Longrightarrow> c \<noteq> LF \<and> c \<noteq> NUL"
  shows "skipWhile P lx =
    lx\<lparr>lx_current := lx_current lx + length (takeWhile P (drop (lx_current lx) (lx_source lx)))\<rparr>"
proof -
  have "\<not> P NUL" using assms by blast
  then show ?thesis
    using assms skipWhile_op.source [of P lx] skipWhile_op.start [of P lx] skipWhile_current [of P lx]
      skipWhile_line [of P lx] takeWhile_not_nul [of P] by (intro lexer.equality) auto
qed

lemma digit_or_underscore_plain: "digit_or_underscore c \<Longrightarrow> c \<noteq> LF \<and> c \<noteq> NUL"
  by (auto simp: digit_or_underscore_def)

lemma ident_char_plain: "ident_char c \<Longrightarrow> c \<noteq> LF \<and> c \<noteq> NUL"
  by (auto simp: ident_char_def)

lemma keyword_exact_map_of:
  assumes "list_all (\<lambda>(ty, kw). no_nul kw \<and> length kw \<le> 64) rows" "n \<le> length s"
  shows "keyword_exact rows s n = map_of (map prod.swap rows) (take n s)"
  using assms
proof (induction rows)
  case Nil
  then show ?case by simp
next
  case (Cons r rows)
  obtain ty kw where r: "r = (ty, kw)" by fastforce
  have kw: "no_nul kw" "length kw \<le> 64" using Cons.prems r by simp_all
  have len: "xvr_safe_strlen (Some kw) 64 = length kw"
    using kw by (simp add: xvr_safe_strlen_def cstr_scan_no_nul)
  have "strncmp_eq kw s n \<longleftrightarrow> kw = take n s" if "length kw = n"
    using strncmp_eq_prefix [OF kw(1), of s] that by (simp add: strncmp_eq_sym [of kw] prefix_def take_is_prefix)
      (metis append_eq_conv_conj append_take_drop_id)
  moreover have "kw = take n s \<Longrightarrow> length kw = n" using Cons.prems(2) by simp
  ultimately have "xvr_safe_strlen (Some kw) 64 = n \<and> strncmp_eq kw s n \<longleftrightarrow> kw = take n s"
    using len by auto
  then show ?case using Cons r by (auto simp: prod.swap_def)
qed

definition keyword_of :: "string \<Rightarrow> token_type option" where
  "keyword_of = map_of (map prod.swap Xvr_keywordTypes)"

lemma keywordTypes_wf: "list_all (\<lambda>(ty, kw). no_nul kw \<and> length kw \<le> 64) Xvr_keywordTypes"
  by code_simp

lemma not_space_scan:
  assumes "\<not> (peek lx \<in> {CHR '' '', CR, LF, TAB, CHR ''#'', CHR ''/''})"
  shows "Xvr_private_scanLexer lx = Some (scanToken lx)"
  using assms by (subst Xvr_private_scanLexer_def, subst eatWhitespace.simps) (simp add: Let_def)

lemma alpha_not_space: "is_alpha_char c \<Longrightarrow> \<not> (c \<in> {CHR '' '', CR, LF, TAB, CHR ''#'', CHR ''/''})"
  by (auto simp: is_alpha_char_def)

lemma digit_not_space: "is_digit_char c \<Longrightarrow> \<not> (c \<in> {CHR '' '', CR, LF, TAB, CHR ''#'', CHR ''/''})"
  by (auto simp: is_digit_char_def)

lemma at_start_simps [simp]:
  "isAtEnd (at_start lx) = isAtEnd lx" "isDigit (at_start lx) = isDigit lx"
  "isAlpha (at_start lx) = isAlpha lx" "peek (at_start lx) = peek lx"
  by (simp_all add: isAtEnd_def isDigit_def isAlpha_def peek_def)

lemma scan_word_raw:
  assumes "isAlpha lx"
  shows "Xvr_private_scanLexer lx =
    (let word = takeWhile ident_char (drop (lx_current lx) (lx_source lx))
     in Some (\<lparr>tok_type = (case keyword_of word of Some ty \<Rightarrow> ty
                            | None \<Rightarrow> LiteralTok XVR_TOKEN_IDENTIFIER),
               tok_lexeme = InSource (lx_current lx), tok_length = length word,
               tok_line = lx_line lx\<rparr>,
             lx\<lparr>lx_start := lx_current lx, lx_current := lx_current lx + length word\<rparr>))"
proof -
  let ?w = "takeWhile ident_char (drop (lx_current lx) (lx_source lx))"
  let ?l = "at_start lx"
  let ?r = "lx\<lparr>lx_start := lx_current lx, lx_current := lx_current lx + length ?w\<rparr>"
  have a: "is_alpha_char (peek lx)" using assms by (simp add: isAlpha_def)
  then have nd: "\<not> isDigit lx" and ne: "\<not> isAtEnd lx"
    by (auto simp: isDigit_def isAtEnd_def peek_def dest: digit_not_alpha)
  have sp: "Xvr_private_scanLexer lx = Some (makeKeywordOrIdentifier ?l)"
    using not_space_scan [OF alpha_not_space [OF a]] assms nd ne by (simp add: scanToken_def)
  have "skipWhile ident_char (adv ?l) = skipWhile ident_char ?l"
    using a ne by (subst (2) skipWhile.simps) (simp add: ident_char_def)
  also have "\<dots> = ?r" by (subst skipWhile_eq) (use ident_char_plain in auto)
  finally have sk: "skipWhile ident_char (adv ?l) = ?r" .
  have "length ?w \<le> length (drop (lx_current lx) (lx_source lx))" by (rule length_takeWhile_le)
  then have "keyword_exact Xvr_keywordTypes (drop (lx_current lx) (lx_source lx)) (length ?w) = keyword_of ?w"
    using keyword_exact_map_of [OF keywordTypes_wf]
    by (simp add: keyword_of_def takeWhile_eq_take [symmetric])
  then show ?thesis using sp sk
    by (simp add: makeKeywordOrIdentifier_def tokenHere_def Let_def split: option.split)
qed

text \<open>At a letter or underscore, a scan returns the longest run of identifier characters, as the
  keyword that is spelled exactly so if there is one and as an identifier otherwise, and leaves the
  cursor after it on the same line.\<close>

theorem scan_word:
  assumes "isAlpha lx"
  shows "Xvr_private_scanLexer lx =
    (let word = takeWhile ident_char (drop (lx_current lx) (lx_source lx))
     in Some (\<lparr>tok_type = (case keyword_of word of Some ty \<Rightarrow> ty
                            | None \<Rightarrow> LiteralTok XVR_TOKEN_IDENTIFIER),
               tok_lexeme = InSource (lx_current lx), tok_length = length word,
               tok_line = lx_line lx\<rparr>,
             lx\<lparr>lx_start := lx_current lx, lx_current := lx_current lx + length word\<rparr>))"
  using assms by (rule scan_word_raw)

lemma scan_word_witness:
  "map_option (\<lambda>(t, l). (tok_type t, tok_length t)) (Xvr_private_scanLexer (Xvr_initLexer ''integer;''))
     = Some (LiteralTok XVR_TOKEN_IDENTIFIER, 7)"
proof -
  have a: "isAlpha (Xvr_initLexer ''integer;'')" by code_simp
  show ?thesis by (subst scan_word [OF a]) code_simp
qed

lemma keywords_are_words:
  "list_all (\<lambda>(ty, kw). kw \<noteq> [] \<and> list_all ident_char kw \<and> is_alpha_char (char_at kw 0)
     \<and> keyword_of kw = Some ty) Xvr_keywordTypes"
  by code_simp

text \<open>C38: Every keyword of the table, followed by anything that does not continue a word, is scanned as
  the token type of its row.\<close>

theorem scan_keyword:
  assumes "(ty, kw) \<in> set Xvr_keywordTypes" "\<not> ident_char (char_at rest 0)"
  shows "\<exists>lx'. Xvr_private_scanLexer (Xvr_initLexer (kw @ rest)) =
    Some (\<lparr>tok_type = ty, tok_lexeme = InSource 0, tok_length = length kw, tok_line = 1\<rparr>, lx')"
proof -
  have kw: "kw \<noteq> []" "list_all ident_char kw" "is_alpha_char (char_at kw 0)" "keyword_of kw = Some ty"
    using keywords_are_words assms(1) by (auto simp: list_all_iff)
  let ?l = "Xvr_initLexer (kw @ rest)"
  have "isAlpha ?l" using kw(1,3) by (simp add: isAlpha_def peek_def Xvr_initLexer_def cleanLexer_def char_at_append)
  note sc = scan_word_raw [OF this]
  have "takeWhile ident_char rest = []" using assms(2) by (cases rest) auto
  then have "takeWhile ident_char (kw @ rest) = kw"
    using kw(2) by (simp add: takeWhile_append2 list_all_iff)
  then show ?thesis using sc kw(4)
    by (simp add: Xvr_initLexer_def cleanLexer_def Let_def)
qed

lemma scan_keyword_witness:
  "\<exists>lx'. Xvr_private_scanLexer (Xvr_initLexer ''while(x)'') =
    Some (\<lparr>tok_type = KeywordTok XVR_TOKEN_WHILE, tok_lexeme = InSource 0, tok_length = 5, tok_line = 1\<rparr>, lx')"
proof -
  have "(KeywordTok XVR_TOKEN_WHILE, ''while'') \<in> set Xvr_keywordTypes" by code_simp
  moreover have "\<not> ident_char (char_at ''(x)'' 0)" by code_simp
  ultimately show ?thesis 
    using scan_keyword [of "KeywordTok XVR_TOKEN_WHILE" "''while''" "''(x)''"]
    by (simp add: numeral_eq_Suc)
qed

section \<open>Numbers\<close>

lemma scan_digit:
  assumes "isDigit lx"
  shows "Xvr_private_scanLexer lx = Some (makeIntegerOrFloat (at_start lx))"
proof -
  have d: "is_digit_char (peek lx)" using assms by (simp add: isDigit_def)
  then have "\<not> isAtEnd lx" by (auto simp: isAtEnd_def peek_def)
  then show ?thesis using not_space_scan [OF digit_not_space [OF d]] assms by (simp add: scanToken_def)
qed

lemma skipWhile_digits:
  "skipWhile digit_or_underscore lx = lx\<lparr>lx_current := lx_current lx +
     length (takeWhile digit_or_underscore (drop (lx_current lx) (lx_source lx)))\<rparr>"
  by (rule skipWhile_eq) (rule digit_or_underscore_plain)

text \<open>At a digit, a scan that finds neither a fraction nor a suffix letter after the longest run of
  digits and underscores returns that run as an integer literal.\<close>

theorem scan_plain_integer:
  assumes "isDigit lx"
    and "word = takeWhile digit_or_underscore (drop (lx_current lx) (lx_source lx))"
    and "next = lx_current lx + length word"
    and "char_at (lx_source lx) next \<notin> {CHR ''i'', CHR ''u'', CHR ''f''}"
    and "char_at (lx_source lx) next = CHR ''.'' \<Longrightarrow> \<not> is_digit_char (char_at (lx_source lx) (Suc next))"
  shows "Xvr_private_scanLexer lx =
    Some (\<lparr>tok_type = LiteralTok XVR_TOKEN_LITERAL_INTEGER, tok_lexeme = InSource (lx_current lx),
           tok_length = length word, tok_line = lx_line lx\<rparr>,
          lx\<lparr>lx_start := lx_current lx, lx_current := next\<rparr>)"
  using assms scan_digit [OF assms(1)]
  by (auto simp: makeIntegerOrFloat_def Let_def skipWhile_digits tokenHere_def peek_def peekNext_def
      isAtEnd_def)

lemma scan_plain_integer_witness:
  "map_option (\<lambda>(t, l). (tok_type t, tok_length t)) (Xvr_private_scanLexer (Xvr_initLexer ''1_000.x''))
     = Some (LiteralTok XVR_TOKEN_LITERAL_INTEGER, 5)"
proof -
  have a: "isDigit (Xvr_initLexer ''1_000.x'')" by code_simp
  show ?thesis by (subst scan_plain_integer [OF a refl refl]) code_simp+
qed

definition decimal :: "string \<Rightarrow> 32 word" where
  "decimal ds = foldl (\<lambda>w d. w * 10 + word_of_nat (of_char d - 48)) 0 ds"

lemma takeWhile_drop_Cons:
  "P (char_at s k) \<Longrightarrow> k < length s \<Longrightarrow>
   takeWhile P (drop k s) = char_at s k # takeWhile P (drop (Suc k) s)"
  by (simp add: Cons_nth_drop_Suc [symmetric])

lemma scanBitWidth_eq:
  "scanBitWidth w lx =
     (let ds = takeWhile is_digit_char (drop (lx_current lx) (lx_source lx))
      in (foldl (\<lambda>w d. w * 10 + word_of_nat (of_char d - 48)) w ds,
          lx\<lparr>lx_current := lx_current lx + length ds\<rparr>))"
proof (induction w lx rule: scanBitWidth.induct)
  case (1 w lx)
  show ?case
  proof (cases "isDigit lx")
    case True
    then have ne: "\<not> isAtEnd lx" by (auto simp: isDigit_def isAtEnd_def peek_def)
    have "peek lx \<noteq> LF" using True by (auto simp: isDigit_def)
    then have "adv lx = lx\<lparr>lx_current := Suc (lx_current lx)\<rparr>"
      using ne by (simp add: advance_def Let_def)
    then show ?thesis
      using True 1 ne isAtEnd_less [OF ne]
      by (subst scanBitWidth.simps) (simp add: isDigit_def peek_def takeWhile_drop_Cons Let_def)
  next
    case False
    then have "takeWhile is_digit_char (drop (lx_current lx) (lx_source lx)) = []"
      by (cases "lx_current lx < length (lx_source lx)")
         (auto simp: isDigit_def peek_def Cons_nth_drop_Suc [symmetric])
    then show ?thesis using False by (subst scanBitWidth.simps) (simp add: Let_def)
  qed
qed

definition integer_suffixes :: "((char \<times> 32 word) \<times> token_type) list" where
  "integer_suffixes =
    [((CHR ''i'', 8), LiteralTok XVR_TOKEN_LITERAL_INT8), ((CHR ''i'', 16), LiteralTok XVR_TOKEN_LITERAL_INT16),
     ((CHR ''i'', 32), LiteralTok XVR_TOKEN_LITERAL_INT32), ((CHR ''i'', 64), LiteralTok XVR_TOKEN_LITERAL_INT64),
     ((CHR ''u'', 8), LiteralTok XVR_TOKEN_LITERAL_UINT8), ((CHR ''u'', 16), LiteralTok XVR_TOKEN_LITERAL_UINT16),
     ((CHR ''u'', 32), LiteralTok XVR_TOKEN_LITERAL_UINT32), ((CHR ''u'', 64), LiteralTok XVR_TOKEN_LITERAL_UINT64)]"

text \<open>A digit run followed by \<open>i\<close> or \<open>u\<close> and a width is scanned as the sized integer literal of that
  width when the width, accumulated in 32 bits, is 8, 16, 32 or 64; every other width gives an error
  token. Either way the suffix and all its digits are consumed.\<close>

theorem scan_sized_integer:
  assumes "isDigit lx"
    and "word = takeWhile digit_or_underscore (drop (lx_current lx) (lx_source lx))"
    and "next = lx_current lx + length word"
    and "c = char_at (lx_source lx) next" "c \<in> {CHR ''i'', CHR ''u''}"
    and "width = takeWhile is_digit_char (drop (Suc next) (lx_source lx))"
    and "lx' = lx\<lparr>lx_start := lx_current lx, lx_current := Suc next + length width\<rparr>"
  shows "Xvr_private_scanLexer lx =
    Some (case map_of integer_suffixes (c, decimal width) of
            Some ty \<Rightarrow> \<lparr>tok_type = ty, tok_lexeme = InSource (lx_current lx),
                        tok_length = length word + 1 + length width, tok_line = lx_line lx\<rparr>
          | None \<Rightarrow> errorToken lx' ''Invalid integer bit width'', lx')"
proof -
  let ?l1 = "lx\<lparr>lx_start := lx_current lx, lx_current := next\<rparr>"
  have l1: "skipWhile digit_or_underscore (at_start lx) = ?l1"
    using assms(2,3) by (simp add: skipWhile_digits)
  have p: "peek ?l1 = c" using assms(4) by (simp add: peek_def)
  have "adv ?l1 = lx\<lparr>lx_start := lx_current lx, lx_current := Suc next\<rparr>"
    using p assms(4,5) by (auto simp: advance_def isAtEnd_def Let_def peek_def)
  then have bw: "scanBitWidth 0 (adv ?l1) = (decimal width, lx')"
    using assms(6,7) by (simp add: scanBitWidth_eq decimal_def Let_def)
  have "makeIntegerOrFloat (at_start lx) = numberSuffix ?l1 (LiteralTok XVR_TOKEN_LITERAL_INTEGER) False"
    using l1 p assms(5) by (auto simp: makeIntegerOrFloat_def Let_def)
  then have "Xvr_private_scanLexer lx =
      Some (numberSuffix ?l1 (LiteralTok XVR_TOKEN_LITERAL_INTEGER) False)"
    using scan_digit [OF assms(1)] by simp
  then show ?thesis
    using bw p assms(3,5,7) by (auto simp: numberSuffix_def integer_suffixes_def tokenHere_def Let_def)
qed

lemma scan_sized_integer_witness:
  "map_option (\<lambda>(t, l). (tok_type t, tok_length t, isAtEnd l)) (Xvr_private_scanLexer (Xvr_initLexer ''1i4294967304''))
     = Some (LiteralTok XVR_TOKEN_LITERAL_INT8, 12, True)"
proof -
  have a: "isDigit (Xvr_initLexer ''1i4294967304'')" by code_simp
  show ?thesis by (subst scan_sized_integer [OF a refl refl refl _ refl refl]) code_simp+
qed

section \<open>Strings\<close>

text \<open>The characters between the quotes of a string literal, as the scanner steps over them.\<close>

fun body_ok :: "string \<Rightarrow> bool" where
  "body_ok [] = True"
| "body_ok (c # cs) =
     (if c = NUL \<or> c = DQUOTE then False
      else if c = BACKSLASH
      then (case cs of [] \<Rightarrow> False | d # ds \<Rightarrow> if isEscapeableCharacter d then body_ok ds else body_ok cs)
      else body_ok cs)"

lemma escapeable_plain: "isEscapeableCharacter d \<Longrightarrow> d \<noteq> NUL \<and> d \<noteq> LF"
  by (auto simp: isEscapeableCharacter_def)

lemma adv_eq:
  "\<not> isAtEnd lx \<Longrightarrow> adv lx = lx\<lparr>lx_current := Suc (lx_current lx),
     lx_line := lx_line lx + (if peek lx = LF then 1 else 0)\<rparr>"
  by (simp add: advance_def Let_def)

lemma scanString_body:
  assumes "drop (lx_current lx) (lx_source lx) = body @ DQUOTE # rest" "body_ok body"
  shows "scanString DQUOTE lx = lx\<lparr>lx_current := lx_current lx + length body + 1,
           lx_line := lx_line lx + count_list body LF\<rparr>"
  using assms
proof (induction body arbitrary: lx rule: body_ok.induct)
  case 1
  then have "peek lx = DQUOTE" by (metis append_Nil char_at_Cons_0 char_at_drop add.right_neutral peek_def)
  moreover from this have "\<not> isAtEnd lx" by (simp add: isAtEnd_def peek_def)
  ultimately show ?case by (subst scanString.simps) (simp add: adv_eq)
next
  case (2 c cs)
  have p: "peek lx = c" using 2(4) by (metis append_Cons char_at_Cons_0 char_at_drop add.right_neutral peek_def)
  have c: "c \<noteq> NUL" "c \<noteq> DQUOTE" using 2(5) by (auto split: if_splits)
  have ne: "\<not> isAtEnd lx" using p c by (simp add: isAtEnd_def peek_def)
  have d1: "drop (Suc (lx_current lx)) (lx_source lx) = cs @ DQUOTE # rest"
    using 2(4) by (metis append_Cons drop_Suc list.sel(3) tl_drop)
  have pn: "peekNext lx = char_at (cs @ DQUOTE # rest) 0"
    using ne char_at_drop [of "Suc (lx_current lx)" "lx_source lx" 0] by (simp add: peekNext_def d1)
  have one: "scanString DQUOTE (adv lx) = lx\<lparr>lx_current := lx_current lx + length (c # cs) + 1,
      lx_line := lx_line lx + count_list (c # cs) LF\<rparr>"
    if "body_ok cs" "\<And>l. drop (lx_current l) (lx_source l) = cs @ DQUOTE # rest \<Longrightarrow>
      scanString DQUOTE l = l\<lparr>lx_current := lx_current l + length cs + 1,
        lx_line := lx_line l + count_list cs LF\<rparr>"
    using that(2) [of "adv lx"] d1 ne p by (simp add: adv_eq)
  show ?case
  proof (cases "c = BACKSLASH")
    case False
    then show ?thesis using one 2(3)[OF _ False] 2(5) c p ne
      by (subst scanString.simps) simp
  next
    case True
    then obtain d ds where cs: "cs = d # ds" using 2(5) by (cases cs) auto
    have pd: "peekNext lx = d" using pn cs by simp
    show ?thesis
    proof (cases "isEscapeableCharacter d")
      case False
      then have "body_ok cs" using 2(5) True cs by simp
      then show ?thesis using one 2(2) [OF _ True cs False] True False pd c p ne cs
        by (subst scanString.simps) simp
    next
      case esc: True
      have pa: "peek (adv lx) = d" using char_at_drop [of "Suc (lx_current lx)" "lx_source lx" 0] cs ne by (simp add: peek_def d1)
      have na: "\<not> isAtEnd (adv lx)" using pa escapeable_plain [OF esc] by (simp add: isAtEnd_def peek_def)
      have "drop (Suc (Suc (lx_current lx))) (lx_source lx) = ds @ DQUOTE # rest"
        using d1 cs by (metis append_Cons drop_Suc list.sel(3) tl_drop)
      then show ?thesis
        using 2(1) [OF _ True cs esc, of "adv (adv lx)"] 2(5) True cs esc pd c p ne na pa escapeable_plain [OF esc]
        by (subst scanString.simps) (simp add: adv_eq)
    qed
  qed
qed

lemma dquote_not_space:
  "peek lx = DQUOTE \<Longrightarrow> \<not> (peek lx \<in> {CHR '' '', CR, LF, TAB, CHR ''#'', CHR ''/''})"
  by simp

lemma scan_dquote:
  assumes "peek lx = DQUOTE"
  shows "Xvr_private_scanLexer lx =
    Some (makeString (lx\<lparr>lx_start := lx_current lx, lx_current := Suc (lx_current lx)\<rparr>) DQUOTE)"
proof -
  have "\<not> isAtEnd lx" using assms by (simp add: isAtEnd_def peek_def)
  then show ?thesis
    using not_space_scan [OF dquote_not_space [OF assms]] assms
    by (simp add: scanToken_def Let_def case_prod_beta adv_eq scanSymbol_def isDigit_def isAlpha_def
        is_digit_char_def is_alpha_char_def)
qed

text \<open>C37: A string literal with more source after its closing quote is one token holding exactly the
  characters between the quotes, escapes skipped as pairs, and its line is the line of the closing
  quote; a closing quote that is the last byte of the source is reported as unterminated.\<close>

theorem scan_string:
  assumes "peek lx = DQUOTE"
    and "drop (Suc (lx_current lx)) (lx_source lx) = body @ DQUOTE # rest" "body_ok body"
    and "lx' = lx\<lparr>lx_start := lx_current lx, lx_current := lx_current lx + length body + 2,
                   lx_line := lx_line lx + count_list body LF\<rparr>"
  shows "Xvr_private_scanLexer lx =
    Some (if char_at rest 0 = NUL then errorToken lx' ''Unterminated string''
          else \<lparr>tok_type = LiteralTok XVR_TOKEN_LITERAL_STRING, tok_lexeme = InSource (lx_current lx + 1),
                 tok_length = length body, tok_line = lx_line lx'\<rparr>, lx')"
proof -
  let ?l = "lx\<lparr>lx_start := lx_current lx, lx_current := Suc (lx_current lx)\<rparr>"
  have s: "scanString DQUOTE ?l = lx'"
    using scanString_body [of ?l body rest] assms(2,3,4) by simp
  have "char_at (lx_source lx) (Suc (lx_current lx) + (length body + 1)) = char_at (body @ DQUOTE # rest) (length body + 1)"
    by (simp only: assms(2) [symmetric] char_at_drop)
  then have "isAtEnd lx' \<longleftrightarrow> char_at rest 0 = NUL"
    using assms(4) by (simp add: isAtEnd_def char_at_append)
  then show ?thesis
    using s assms(4) by (simp add: scan_dquote [OF assms(1)] makeString_def Let_def)
qed

lemma scan_string_witness:
  "Xvr_private_scanLexer (Xvr_initLexer [DQUOTE, CHR ''a'', BACKSLASH, DQUOTE, LF, DQUOTE, CHR '';'']) =
     Some (\<lparr>tok_type = LiteralTok XVR_TOKEN_LITERAL_STRING, tok_lexeme = InSource 1, tok_length = 4, tok_line = 2\<rparr>,
       \<lparr>lx_source = [DQUOTE, CHR ''a'', BACKSLASH, DQUOTE, LF, DQUOTE, CHR '';''], lx_start = 0, lx_current = 6, lx_line = 2\<rparr>)"
proof -
  let ?l = "Xvr_initLexer [DQUOTE, CHR ''a'', BACKSLASH, DQUOTE, LF, DQUOTE, CHR '';'']"
  have a: "peek ?l = DQUOTE" by code_simp
  have b: "drop (Suc (lx_current ?l)) (lx_source ?l) = [CHR ''a'', BACKSLASH, DQUOTE, LF] @ DQUOTE # '';''" by code_simp
  have c: "body_ok [CHR ''a'', BACKSLASH, DQUOTE, LF]" by code_simp
  show ?thesis by (subst scan_string [OF a b c refl]) code_simp
qed

section \<open>Operators\<close>

text \<open>Each operator, the characters that may not follow it, and its token type.\<close>

definition operators :: "(string \<times> string \<times> token_type) list" where
  "operators =
    [(''('', '''', LogicTok XVR_TOKEN_PAREN_LEFT), ('')'', '''', LogicTok XVR_TOKEN_PAREN_RIGHT),
     (''{'', '''', LogicTok XVR_TOKEN_BRACE_LEFT), (''}'', '''', LogicTok XVR_TOKEN_BRACE_RIGHT),
     (''['', '''', LogicTok XVR_TOKEN_BRACKET_LEFT), ('']'', '''', LogicTok XVR_TOKEN_BRACKET_RIGHT),
     (''+'', ''=+'', MathTok XVR_TOKEN_PLUS), (''+='', '''', MathTok XVR_TOKEN_PLUS_ASSIGN),
     (''++'', '''', MathTok XVR_TOKEN_PLUS_PLUS),
     (''-'', ''=-'', MathTok XVR_TOKEN_MINUS), (''-='', '''', MathTok XVR_TOKEN_MINUS_ASSIGN),
     (''--'', '''', MathTok XVR_TOKEN_MINUS_MINUS),
     (''*'', ''='', MathTok XVR_TOKEN_MULTIPLY), (''*='', '''', MathTok XVR_TOKEN_MULTIPLY_ASSIGN),
     (''/'', ''=/*'', MathTok XVR_TOKEN_DIVIDE), (''/='', '''', MathTok XVR_TOKEN_DIVIDE_ASSIGN),
     (''%'', ''='', MathTok XVR_TOKEN_MODULO), (''%='', '''', MathTok XVR_TOKEN_MODULO_ASSIGN),
     (''!'', ''='', LogicTok XVR_TOKEN_NOT), (''!='', '''', LogicTok XVR_TOKEN_NOT_EQUAL),
     (''='', ''='', MathTok XVR_TOKEN_ASSIGN), (''=='', '''', LogicTok XVR_TOKEN_EQUAL),
     (''<'', ''='', LogicTok XVR_TOKEN_LESS), (''<='', '''', LogicTok XVR_TOKEN_LESS_EQUAL),
     (''>'', ''='', LogicTok XVR_TOKEN_GREATER), (''>='', '''', LogicTok XVR_TOKEN_GREATER_EQUAL),
     (''&&'', '''', LogicTok XVR_TOKEN_AND), (''||'', '''', LogicTok XVR_TOKEN_OR),
     (''|'', ''|'', OtherTok XVR_TOKEN_PIPE), (''?'', '''', OtherTok XVR_TOKEN_QUESTION),
     (''::'', '''', OtherTok XVR_TOKEN_COLON_COLON), ('':'', '':'', OtherTok XVR_TOKEN_COLON),
     ('';'', '''', OtherTok XVR_TOKEN_SEMICOLON), ('','', '''', OtherTok XVR_TOKEN_COMMA),
     (''.'', ''.'', OtherTok XVR_TOKEN_DOT), (''...'', '''', OtherTok XVR_TOKEN_REST)]"

text \<open>\<open>scanSymbol\<close> at its first character and the next two, with the cursor past the first.\<close>

definition op_scan :: "string \<Rightarrow> string \<Rightarrow> token_type \<Rightarrow> bool" where
  "op_scan sp rest ty \<longleftrightarrow>
     Xvr_private_scanLexer (Xvr_initLexer (sp @ rest)) =
       Some (\<lparr>tok_type = ty, tok_lexeme = InSource 0, tok_length = length sp, tok_line = 1\<rparr>,
         \<lparr>lx_source = sp @ rest, lx_start = 0, lx_current = length sp, lx_line = 1\<rparr>)"

lemma op1:
  assumes "c \<notin> {CHR '' '', CR, LF, TAB, CHR ''#'', NUL}" "\<not> is_digit_char c" "\<not> is_alpha_char c"
    "c \<noteq> CHR ''/'' \<or> char_at rest 0 \<noteq> CHR ''/'' \<and> char_at rest 0 \<noteq> CHR ''*''"
  shows "Xvr_private_scanLexer (Xvr_initLexer (c # rest)) =
    Some (scanSymbol c \<lparr>lx_source = c # rest, lx_start = 0, lx_current = Suc 0, lx_line = Suc 0\<rparr>)"
  using assms
  by (auto simp: Xvr_private_scanLexer_def Xvr_initLexer_def cleanLexer_def eatWhitespace.simps peek_def
      peekNext_def scanToken_def isAtEnd_def isDigit_def isAlpha_def Let_def advance_def)

lemma strncmp_eq_one: "strncmp_eq a b (Suc 0) \<longleftrightarrow> char_at a 0 = char_at b 0"
  by (simp add: Let_def)

lemma match_one:
  "c \<noteq> NUL \<Longrightarrow> match_chars lx [c] (Suc 0) = (if peek lx = c then (True, adv lx) else (False, lx))"
  by (simp add: match_chars_def isAtEnd_def peek_def char_at_drop strncmp_eq_one del: strncmp_eq.simps)

text \<open>Facts about the state after the first character, shared by the operator cases.\<close>

lemma cursor_at:
  "peek \<lparr>lx_source = s, lx_start = st, lx_current = k, lx_line = l\<rparr> = char_at s k"
  "isAtEnd \<lparr>lx_source = s, lx_start = st, lx_current = k, lx_line = l\<rparr> = (char_at s k = NUL)"
  "peekNext \<lparr>lx_source = s, lx_start = st, lx_current = k, lx_line = l\<rparr> =
     (if char_at s k = NUL then NUL else char_at s (Suc k))"
  "char_at s k \<noteq> NUL \<Longrightarrow> char_at s k \<noteq> LF \<Longrightarrow>
     advance \<lparr>lx_source = s, lx_start = st, lx_current = k, lx_line = l\<rparr> =
       (char_at s k, \<lparr>lx_source = s, lx_start = st, lx_current = Suc k, lx_line = l\<rparr>)"
  by (simp_all add: peek_def isAtEnd_def peekNext_def advance_def Let_def)

lemmas op_eval = op_scan_def op1 scanSymbol_def makeEither_def makeEither3_def match_one cursor_at
  makeToken_def is_digit_char_def is_alpha_char_def

lemma operator_rows:
  "list_all (\<lambda>(sp, follow, ty). char_at rest 0 \<notin> set follow \<longrightarrow> op_scan sp rest ty) operators"
  unfolding operators_def list.pred_inject(2) list.pred_inject(1) prod.case
  by (intro conjI impI TrueI; simp add: op_eval)

text \<open>Every operator is scanned as its token type with maximal munch: whatever follows it, unless the
  next character would make a longer operator or a comment of it.\<close>

theorem scan_operator:
  assumes "(sp, follow, ty) \<in> set operators" "char_at rest 0 \<notin> set follow"
  shows "Xvr_private_scanLexer (Xvr_initLexer (sp @ rest)) =
    Some (\<lparr>tok_type = ty, tok_lexeme = InSource 0, tok_length = length sp, tok_line = 1\<rparr>,
      \<lparr>lx_source = sp @ rest, lx_start = 0, lx_current = length sp, lx_line = 1\<rparr>)"
  using operator_rows [of rest] assms by (auto simp: list_all_iff op_scan_def)

lemma scan_operator_witness:
  "map_option (\<lambda>(t, l). (tok_type t, lx_current l)) (Xvr_private_scanLexer (Xvr_initLexer (''<'' @ ''-'')))
     = Some (LogicTok XVR_TOKEN_LESS, 1)"
  by (subst scan_operator [of _ "''=''" "LogicTok XVR_TOKEN_LESS"]) code_simp+

end
