(* ===== verification/RefStrings.thy ===== *)
theory RefStrings
  imports CStrings "HOL-Library.Multiset"
begin

text \<open>
  The reference-counted strings of src/src/xvr_refstring.cpp on an explicit heap: a pointer is an
  address or NULL (an option), the heap maps an address to the block there, and every operation
  that counts, allocates or frees returns the heap it leaves. An operation on a freed address is
  the error \<open>Inl DanglingPointer\<close>. The count is an \<open>int\<close> of C; a copy that would count past its last value,
  where the overflow is undefined, is the error \<open>Inl CountOverflow\<close>. The allocator (\<open>Xvr_reallocate\<close>, which exits when it
  cannot allocate) always yields the next fresh address. The last section runs the operations
  under arbitrary owners and shows that the counts are exact.
\<close>

section \<open>State\<close>

record refstring =
  rs_refCount :: int
  rs_data :: string

record heap =
  hp_block :: "nat \<Rightarrow> refstring option"
  hp_next :: nat

datatype heap_error = DanglingPointer | CountOverflow

definition INT_MAX :: int where "INT_MAX = 2147483647"

definition empty_heap :: heap where
  "empty_heap = \<lparr>hp_block = (\<lambda>_. None), hp_next = 0\<rparr>"

section \<open>Operations\<close>

text \<open>\<open>memcpy\<close> of \<open>length\<close> bytes of a buffer that holds at least that many. The field \<open>length\<close> of
  the block is the length of \<open>rs_data\<close>.\<close>

definition Xvr_createRefStringLength :: "string \<Rightarrow> nat \<Rightarrow> heap \<Rightarrow> nat \<times> heap" where
  "Xvr_createRefStringLength cstring len h =
     (hp_next h,
      h\<lparr>hp_block := (hp_block h)(hp_next h \<mapsto> \<lparr>rs_refCount = 1, rs_data = take len cstring\<rparr>),
        hp_next := Suc (hp_next h)\<rparr>)"


definition deref :: "nat \<Rightarrow> heap \<Rightarrow> heap_error + refstring" where
  "deref a h = (case hp_block h a of None \<Rightarrow> Inl DanglingPointer | Some r \<Rightarrow> Inr r)"

definition Xvr_deleteRefString :: "nat option \<Rightarrow> heap \<Rightarrow> heap_error + heap" where
  "Xvr_deleteRefString refString h =
     (case refString of
        None \<Rightarrow> Inr h
      | Some a \<Rightarrow>
          (case deref a h of
             Inl e \<Rightarrow> Inl e
           | Inr r \<Rightarrow>
               let r' = r\<lparr>rs_refCount := rs_refCount r - 1\<rparr>
               in if rs_refCount r' \<le> 0 then Inr (h\<lparr>hp_block := (hp_block h)(a := None)\<rparr>)
                  else Inr (h\<lparr>hp_block := (hp_block h)(a \<mapsto> r')\<rparr>)))"

definition Xvr_countRefString :: "nat option \<Rightarrow> heap \<Rightarrow> heap_error + int" where
  "Xvr_countRefString refString h =
     (case refString of None \<Rightarrow> Inr 0 | Some a \<Rightarrow> map_sum id rs_refCount (deref a h))"


definition Xvr_copyRefString :: "nat option \<Rightarrow> heap \<Rightarrow> heap_error + (nat option \<times> heap)" where
  "Xvr_copyRefString refString h =
     (case refString of
        None \<Rightarrow> Inr (None, h)
      | Some a \<Rightarrow>
          (case deref a h of
             Inl e \<Rightarrow> Inl e
           | Inr r \<Rightarrow>
               if rs_refCount r = INT_MAX then Inl CountOverflow
               else Inr (Some a, h\<lparr>hp_block := (hp_block h)(a \<mapsto> r\<lparr>rs_refCount := rs_refCount r + 1\<rparr>)\<rparr>)))"

definition Xvr_deepCopyRefString :: "nat option \<Rightarrow> heap \<Rightarrow> heap_error + (nat option \<times> heap)" where
  "Xvr_deepCopyRefString refString h =
     (case refString of
        None \<Rightarrow> Inr (None, h)
      | Some a \<Rightarrow>
          (case deref a h of
             Inl e \<Rightarrow> Inl e
           | Inr r \<Rightarrow>
               let (b, h') = Xvr_createRefStringLength (rs_data r) (length (rs_data r)) h
               in Inr (Some b, h')))"


text \<open>The comparison of two live strings by value, which the literals use too.\<close>

definition refstring_eq :: "string \<Rightarrow> string \<Rightarrow> bool" where
  "refstring_eq s t \<longleftrightarrow> length s = length t \<and> strncmp_eq s t (length s)"



section \<open>Value equality\<close>

lemma refstring_eq_refl [simp]: "refstring_eq s s"
  by (simp add: refstring_eq_def)

lemma refstring_eq_sym: "refstring_eq s t = refstring_eq t s"
  by (auto simp: refstring_eq_def strncmp_eq_sym [of s t])

lemma refstring_eq_iff: "no_nul s \<Longrightarrow> no_nul t \<Longrightarrow> refstring_eq s t \<longleftrightarrow> s = t"
  by (auto simp: refstring_eq_def strncmp_eq_take)

section \<open>Owners\<close>

text \<open>
  A client holds a multiset of references. It may create a string, copy a reference it holds,
  deep-copy one, or delete one it holds. The invariant: the count of every block is the number of
  references held, so a block is live exactly while somebody holds it.
\<close>

inductive client_step :: "heap \<times> nat multiset \<Rightarrow> heap \<times> nat multiset \<Rightarrow> bool" where
  create: "Xvr_createRefStringLength s n h = (a, h') \<Longrightarrow> client_step (h, M) (h', add_mset a M)"
| copy: "a \<in># M \<Longrightarrow> Xvr_copyRefString (Some a) h = Inr (Some b, h') \<Longrightarrow>
    client_step (h, M) (h', add_mset b M)"
| deep: "a \<in># M \<Longrightarrow> Xvr_deepCopyRefString (Some a) h = Inr (Some b, h') \<Longrightarrow>
    client_step (h, M) (h', add_mset b M)"
| delete: "a \<in># M \<Longrightarrow> Xvr_deleteRefString (Some a) h = Inr h' \<Longrightarrow>
    client_step (h, M) (h', M - {#a#})"

definition refs :: "heap \<Rightarrow> nat \<Rightarrow> int" where
  "refs h a = (case hp_block h a of None \<Rightarrow> 0 | Some r \<Rightarrow> rs_refCount r)"

definition owners_inv :: "heap \<times> nat multiset \<Rightarrow> bool" where
  "owners_inv hm \<longleftrightarrow>
     (\<forall>a. refs (fst hm) a = int (count (snd hm) a)) \<and>
     (\<forall>a r. hp_block (fst hm) a = Some r \<longrightarrow> 0 < rs_refCount r \<and> rs_refCount r \<le> INT_MAX) \<and>
     (\<forall>a. hp_next (fst hm) \<le> a \<longrightarrow> hp_block (fst hm) a = None)"

lemma owners_invD:
  assumes "owners_inv (h, M)"
  shows "refs h a = int (count M a)" "hp_block h a = Some r \<Longrightarrow> 0 < rs_refCount r \<and> rs_refCount r \<le> INT_MAX"
    "hp_next h \<le> a \<Longrightarrow> hp_block h a = None"
  using assms by (auto simp: owners_inv_def)

lemma owners_inv_empty: "owners_inv (empty_heap, {#})"
  by (simp add: owners_inv_def empty_heap_def refs_def)

lemma owners_inv_live:
  assumes "owners_inv (h, M)"
  shows "a \<in># M \<longleftrightarrow> hp_block h a \<noteq> None"
proof -
  have "refs h a = int (count M a)" using assms by (rule owners_invD)
  then show ?thesis using owners_invD(2) [OF assms, of a]
    by (cases "hp_block h a") (auto simp: refs_def simp flip: count_greater_zero_iff)
qed

lemma owners_inv_block:
  assumes "owners_inv (h, M)" "a \<in># M"
  obtains r where "hp_block h a = Some r" "rs_refCount r = int (count M a)" "0 < count M a" "int (count M a) \<le> INT_MAX"
  using owners_inv_live [OF assms(1), of a] owners_invD(1,2) [OF assms(1), of a] assms(2)
  by (auto simp: refs_def)

lemma owners_inv_create:
  assumes "owners_inv (h, M)" "Xvr_createRefStringLength s n h = (a, h')"
  shows "owners_inv (h', add_mset a M)"
proof -
  have n: "hp_block h (hp_next h) = None" using assms(1) by (rule owners_invD) simp
  then have "int (count M (hp_next h)) = 0"
    using owners_invD(1) [OF assms(1), of "hp_next h"] by (simp add: refs_def)
  moreover have "refs h b = int (count M b)" for b using assms(1) by (rule owners_invD)
  ultimately show ?thesis using assms(2) owners_invD(2,3) [OF assms(1)]
    by (auto simp: owners_inv_def refs_def Xvr_createRefStringLength_def INT_MAX_def split: if_splits)
qed

lemma owners_inv_set:
  assumes "owners_inv (h, M)" "hp_block h a = Some r" "rs_refCount r' = int (count M' a)" "0 < count M' a"
    "int (count M' a) \<le> INT_MAX" "\<And>b. b \<noteq> a \<Longrightarrow> count M' b = count M b"
  shows "owners_inv (h\<lparr>hp_block := (hp_block h)(a \<mapsto> r')\<rparr>, M')"
proof -
  have "\<not> hp_next h \<le> a" using owners_invD(3) [OF assms(1)] assms(2) by fastforce
  moreover have "refs h b = int (count M b)" for b using assms(1) by (rule owners_invD)
  ultimately show ?thesis using assms(3,4,5,6) owners_invD(2,3) [OF assms(1)]
    by (auto simp: owners_inv_def refs_def)
qed

lemma owners_inv_free:
  assumes "owners_inv (h, M)" "count M' a = 0" "\<And>b. b \<noteq> a \<Longrightarrow> count M' b = count M b"
  shows "owners_inv (h\<lparr>hp_block := (hp_block h)(a := None)\<rparr>, M')"
proof -
  have "refs h b = int (count M b)" for b using assms(1) by (rule owners_invD)
  then show ?thesis using assms(2,3) owners_invD(2,3) [OF assms(1)]
    by (auto simp: owners_inv_def refs_def simp del: count_eq_zero_iff)
qed

lemma owners_inv_step: "client_step x y \<Longrightarrow> owners_inv x \<Longrightarrow> owners_inv y"
proof (induction rule: client_step.induct)
  case (create s n h a h' M)
  then show ?case by (blast intro: owners_inv_create)
next
  case (copy a M h b h')
  obtain r where r: "hp_block h a = Some r" "rs_refCount r = int (count M a)" "int (count M a) \<le> INT_MAX"
    using owners_inv_block [OF copy(3,1)] .
  then show ?case using copy
    by (auto simp: Xvr_copyRefString_def deref_def intro!: owners_inv_set split: if_splits)
next
  case (deep a M h b h')
  obtain r where "hp_block h a = Some r" using owners_inv_block [OF deep(3,1)] .
  then have "Xvr_createRefStringLength (rs_data r) (length (rs_data r)) h = (b, h')"
    using deep by (auto simp: Xvr_deepCopyRefString_def deref_def split: prod.splits)
  then show ?case using deep owners_inv_create by blast
next
  case (delete a M h h')
  obtain r where r: "hp_block h a = Some r" "rs_refCount r = int (count M a)" "0 < count M a" "int (count M a) \<le> INT_MAX"
    using owners_inv_block [OF delete(3,1)] .
  show ?case
  proof (cases "count M a = 1")
    case True
    then have "h' = h\<lparr>hp_block := (hp_block h)(a := None)\<rparr>"
      using r delete(2) by (simp add: Xvr_deleteRefString_def deref_def Let_def)
    then show ?thesis using owners_inv_free [OF delete(3), of "M - {#a#}" a] True by simp
  next
    case False
    then have "\<not> count M a \<le> Suc 0" using r(3) by linarith
    then have "h' = h\<lparr>hp_block := (hp_block h)(a \<mapsto> r\<lparr>rs_refCount := rs_refCount r - 1\<rparr>)\<rparr>"
      using r delete(2) by (simp add: Xvr_deleteRefString_def deref_def Let_def)
    then show ?thesis using owners_inv_set [OF delete(3) r(1), of _ "M - {#a#}"] False r
      by (simp add: of_nat_diff)
  qed
qed

lemma owners_inv_reachable: "client_step\<^sup>*\<^sup>* x y \<Longrightarrow> owners_inv x \<Longrightarrow> owners_inv y"
  by (induction rule: rtranclp_induct) (auto intro: owners_inv_step)

text \<open>C8: Under any sequence of creations, copies, deep copies and deletions of references that are
  held, a string that somebody still holds is never freed, its count is the number of references
  held, and a string nobody holds is freed: there is neither a dangling reference nor a leak. A copy
  is made exactly while fewer than \<open>INT_MAX\<close> references are held; the next one overflows the count.\<close>

theorem refcount_exact:
  assumes "client_step\<^sup>*\<^sup>* (empty_heap, {#}) (h, M)"
  shows "(a \<in># M \<longleftrightarrow> hp_block h a \<noteq> None) \<and>
    (a \<in># M \<longrightarrow> Xvr_countRefString (Some a) h = Inr (int (count M a)) \<and> int (count M a) \<le> INT_MAX \<and>
       (if int (count M a) < INT_MAX
        then \<exists>h'. Xvr_copyRefString (Some a) h = Inr (Some a, h') \<and>
               Xvr_countRefString (Some a) h' = Inr (int (count M a) + 1)
        else Xvr_copyRefString (Some a) h = Inl CountOverflow))"
proof -
  have inv: "owners_inv (h, M)" using owners_inv_reachable [OF assms owners_inv_empty] .
  have "Xvr_countRefString (Some a) h = Inr (int (count M a)) \<and> int (count M a) \<le> INT_MAX \<and>
      (if int (count M a) < INT_MAX
       then \<exists>h'. Xvr_copyRefString (Some a) h = Inr (Some a, h') \<and>
              Xvr_countRefString (Some a) h' = Inr (int (count M a) + 1)
       else Xvr_copyRefString (Some a) h = Inl CountOverflow)" if held: "a \<in># M"
  proof -
    obtain r where "hp_block h a = Some r" "rs_refCount r = int (count M a)" "int (count M a) \<le> INT_MAX"
      using owners_inv_block [OF inv held] .
    then show ?thesis by (simp add: Xvr_countRefString_def Xvr_copyRefString_def deref_def)
  qed
  then show ?thesis using owners_inv_live [OF inv] by blast
qed

lemma refcount_exact_witness:
  "\<exists>h. client_step\<^sup>*\<^sup>* (empty_heap, {#}) (h, {#0, 0#}) \<and> Xvr_countRefString (Some 0) h = Inr 2"
proof -
  let ?h1 = "snd (Xvr_createRefStringLength ''ab'' 2 empty_heap)"
  let ?h2 = "?h1\<lparr>hp_block := (hp_block ?h1)(0 \<mapsto> \<lparr>rs_refCount = 2, rs_data = ''ab''\<rparr>)\<rparr>"
  have "Xvr_createRefStringLength ''ab'' 2 empty_heap = (0, ?h1)"
    by (simp add: Xvr_createRefStringLength_def empty_heap_def)
  then have s1: "client_step (empty_heap, {#}) (?h1, {#0#})"
    using client_step.create by blast
  have "Xvr_copyRefString (Some 0) ?h1 = Inr (Some 0, ?h2)"
    by (simp add: Xvr_copyRefString_def deref_def Xvr_createRefStringLength_def empty_heap_def INT_MAX_def)
  then have "client_step (?h1, {#0#}) (?h2, {#0, 0#})" by (intro client_step.copy) simp_all
  then have r: "client_step\<^sup>*\<^sup>* (empty_heap, {#}) (?h2, {#0, 0#})" using s1 by simp
  show ?thesis
    by (intro exI [of _ ?h2] conjI r) (use refcount_exact [OF r, of 0] in simp)
qed



end
