(* ===== verification/Literals.thy ===== *)
theory Literals
  imports RefStrings
begin

unbundle bit_operations_syntax

text \<open>
  The tagged literals of src/src/xvr_literal.h and the parts of src/src/xvr_literal.cpp that need
  no other literal operation: construction, truth, hashing and the width queries. A scalar literal
  is its tag and the eight bytes of the union (little-endian), so that reading a union member
  other than the one stored gives what the code reads; floats are their IEEE bit patterns. Strings
  are held by content (theory RefStrings has their sharing). No code of the repository makes a
  FUNCTION literal (bytecode with a scope), so there is no constructor for one; its tag exists.
\<close>

section \<open>Data\<close>

datatype literal_type =
    XVR_LITERAL_NULL | XVR_LITERAL_VOID | XVR_LITERAL_BOOLEAN | XVR_LITERAL_INTEGER
  | XVR_LITERAL_FLOAT | XVR_LITERAL_STRING | XVR_LITERAL_ARRAY | XVR_LITERAL_DICTIONARY
  | XVR_LITERAL_FUNCTION | XVR_LITERAL_IDENTIFIER | XVR_LITERAL_TYPE | XVR_LITERAL_OPAQUE
  | XVR_LITERAL_ANY
  | XVR_LITERAL_INT8 | XVR_LITERAL_INT16 | XVR_LITERAL_INT32 | XVR_LITERAL_INT64
  | XVR_LITERAL_UINT8 | XVR_LITERAL_UINT16 | XVR_LITERAL_UINT32 | XVR_LITERAL_UINT64
  | XVR_LITERAL_FLOAT16 | XVR_LITERAL_FLOAT32 | XVR_LITERAL_FLOAT64
  | XVR_LITERAL_TYPE_INTERMEDIATE | XVR_LITERAL_ARRAY_INTERMEDIATE
  | XVR_LITERAL_DICTIONARY_INTERMEDIATE | XVR_LITERAL_FUNCTION_INTERMEDIATE
  | XVR_LITERAL_FUNCTION_ARG_REST | XVR_LITERAL_FUNCTION_NATIVE | XVR_LITERAL_FUNCTION_HOOK
  | XVR_LITERAL_INDEX_BLANK

definition all_literal_types :: "literal_type list" where
  "all_literal_types =
    [XVR_LITERAL_NULL, XVR_LITERAL_VOID, XVR_LITERAL_BOOLEAN, XVR_LITERAL_INTEGER,
     XVR_LITERAL_FLOAT, XVR_LITERAL_STRING, XVR_LITERAL_ARRAY, XVR_LITERAL_DICTIONARY,
     XVR_LITERAL_FUNCTION, XVR_LITERAL_IDENTIFIER, XVR_LITERAL_TYPE, XVR_LITERAL_OPAQUE,
     XVR_LITERAL_ANY,
     XVR_LITERAL_INT8, XVR_LITERAL_INT16, XVR_LITERAL_INT32, XVR_LITERAL_INT64,
     XVR_LITERAL_UINT8, XVR_LITERAL_UINT16, XVR_LITERAL_UINT32, XVR_LITERAL_UINT64,
     XVR_LITERAL_FLOAT16, XVR_LITERAL_FLOAT32, XVR_LITERAL_FLOAT64,
     XVR_LITERAL_TYPE_INTERMEDIATE, XVR_LITERAL_ARRAY_INTERMEDIATE,
     XVR_LITERAL_DICTIONARY_INTERMEDIATE, XVR_LITERAL_FUNCTION_INTERMEDIATE,
     XVR_LITERAL_FUNCTION_ARG_REST, XVR_LITERAL_FUNCTION_NATIVE, XVR_LITERAL_FUNCTION_HOOK,
     XVR_LITERAL_INDEX_BLANK]"

text \<open>The value of an enumerator: its position.\<close>

fun position :: "'a \<Rightarrow> 'a list \<Rightarrow> nat" where
  "position x [] = 0"
| "position x (y # ys) = (if x = y then 0 else Suc (position x ys))"

definition literal_type_code :: "literal_type \<Rightarrow> nat" where
  "literal_type_code t = position t all_literal_types"

text \<open>
  \<open>Arr\<close> carries its tag: an array, or one of the three intermediates that share the member. Its
  number is the allocated capacity. \<open>Dict\<close> holds the slots of the hash table (keys and values,
  null where empty), \<open>contains\<close> and \<open>count\<close>. \<open>Type\<close> has the type described, the constness, the
  subtypes and the capacity of their array. \<open>Opaque\<close> is a pointer and a tag.
\<close>

datatype literal =
    Bits literal_type "64 word"
  | Str string
  | Arr literal_type "literal list" nat
  | Dict "entry list" nat int
  | Ident string "32 word"
  | Type literal_type bool "literal list" "8 word"
  | Opaque nat "32 word"
and entry = Entry (ent_key: literal) (ent_value: literal)

fun lit_type :: "literal \<Rightarrow> literal_type" where
  "lit_type (Bits t w) = t"
| "lit_type (Str s) = XVR_LITERAL_STRING"
| "lit_type (Arr t xs c) = t"
| "lit_type (Dict es c n) = XVR_LITERAL_DICTIONARY"
| "lit_type (Ident s h) = XVR_LITERAL_IDENTIFIER"
| "lit_type (Type t c ss k) = XVR_LITERAL_TYPE"
| "lit_type (Opaque p t) = XVR_LITERAL_OPAQUE"

abbreviation XVR_TO_NULL_LITERAL :: literal where "XVR_TO_NULL_LITERAL \<equiv> Bits XVR_LITERAL_NULL 0"

definition is_null :: "literal \<Rightarrow> bool" where
  "is_null l \<longleftrightarrow> lit_type l = XVR_LITERAL_NULL"

definition is_integer_type :: "literal_type \<Rightarrow> bool" where
  "is_integer_type t \<longleftrightarrow> t \<in>
    {XVR_LITERAL_INTEGER, XVR_LITERAL_INT8, XVR_LITERAL_INT16, XVR_LITERAL_INT32, XVR_LITERAL_INT64,
     XVR_LITERAL_UINT8, XVR_LITERAL_UINT16, XVR_LITERAL_UINT32, XVR_LITERAL_UINT64}"

definition is_float_type :: "literal_type \<Rightarrow> bool" where
  "is_float_type t \<longleftrightarrow> t \<in>
    {XVR_LITERAL_FLOAT, XVR_LITERAL_FLOAT16, XVR_LITERAL_FLOAT32, XVR_LITERAL_FLOAT64}"

definition is_function_type :: "literal_type \<Rightarrow> bool" where
  "is_function_type t \<longleftrightarrow> t \<in>
    {XVR_LITERAL_FUNCTION, XVR_LITERAL_FUNCTION_NATIVE, XVR_LITERAL_FUNCTION_HOOK}"

text \<open>The union read as bits: the member \<open>integer\<close>, \<open>number\<close>, \<open>int8_value\<close>, ...\<close>

fun as_bits :: "literal \<Rightarrow> 64 word" where
  "as_bits (Bits t w) = w"
| "as_bits _ = 0"

definition XVR_AS_BOOLEAN :: "literal \<Rightarrow> bool" where
  "XVR_AS_BOOLEAN l \<longleftrightarrow> (ucast (as_bits l) :: 8 word) \<noteq> 0"

definition XVR_AS_INTEGER :: "literal \<Rightarrow> 32 word" where
  "XVR_AS_INTEGER l = ucast (as_bits l)"

definition XVR_AS_FLOAT :: "literal \<Rightarrow> 32 word" where
  "XVR_AS_FLOAT l = ucast (as_bits l)"

section \<open>Construction\<close>

text \<open>The constructors clear the union and store the member at its width.\<close>

definition Xvr_toBoolLiteralCpp :: "bool \<Rightarrow> literal" where
  "Xvr_toBoolLiteralCpp b = Bits XVR_LITERAL_BOOLEAN (if b then 1 else 0)"

definition Xvr_toInt8LiteralCpp :: "8 word \<Rightarrow> literal" where
  "Xvr_toInt8LiteralCpp v = Bits XVR_LITERAL_INT8 (ucast v)"

definition Xvr_toInt16LiteralCpp :: "16 word \<Rightarrow> literal" where
  "Xvr_toInt16LiteralCpp v = Bits XVR_LITERAL_INT16 (ucast v)"

definition Xvr_toInt32LiteralCpp :: "32 word \<Rightarrow> literal" where
  "Xvr_toInt32LiteralCpp v = Bits XVR_LITERAL_INT32 (ucast v)"

definition Xvr_toInt64LiteralCpp :: "64 word \<Rightarrow> literal" where
  "Xvr_toInt64LiteralCpp v = Bits XVR_LITERAL_INT64 v"

definition Xvr_toUInt8LiteralCpp :: "8 word \<Rightarrow> literal" where
  "Xvr_toUInt8LiteralCpp v = Bits XVR_LITERAL_UINT8 (ucast v)"

definition Xvr_toUInt16LiteralCpp :: "16 word \<Rightarrow> literal" where
  "Xvr_toUInt16LiteralCpp v = Bits XVR_LITERAL_UINT16 (ucast v)"

definition Xvr_toUInt32LiteralCpp :: "32 word \<Rightarrow> literal" where
  "Xvr_toUInt32LiteralCpp v = Bits XVR_LITERAL_UINT32 (ucast v)"

definition Xvr_toUInt64LiteralCpp :: "64 word \<Rightarrow> literal" where
  "Xvr_toUInt64LiteralCpp v = Bits XVR_LITERAL_UINT64 v"

definition Xvr_toIntegerLiteralCpp :: "64 word \<Rightarrow> literal" where
  "Xvr_toIntegerLiteralCpp v = Bits XVR_LITERAL_INTEGER (ucast (ucast v :: 32 word))"

definition Xvr_toFloat16LiteralCpp :: "16 word \<Rightarrow> literal" where
  "Xvr_toFloat16LiteralCpp v = Bits XVR_LITERAL_FLOAT16 (ucast v)"

definition Xvr_toFloat32LiteralCpp :: "32 word \<Rightarrow> literal" where
  "Xvr_toFloat32LiteralCpp v = Bits XVR_LITERAL_FLOAT32 (ucast v)"

definition Xvr_toFloat64LiteralCpp :: "64 word \<Rightarrow> literal" where
  "Xvr_toFloat64LiteralCpp v = Bits XVR_LITERAL_FLOAT64 v"

definition Xvr_toTypeLiteralCpp :: "literal_type \<Rightarrow> bool \<Rightarrow> literal" where
  "Xvr_toTypeLiteralCpp value constant = Type value constant [] 0"

definition Xvr_toOpaqueLiteralCpp :: "nat \<Rightarrow> 32 word \<Rightarrow> literal" where
  "Xvr_toOpaqueLiteralCpp ptr tag = Opaque ptr tag"

definition Xvr_toVoidLiteralCpp :: "literal" where
  "Xvr_toVoidLiteralCpp = Bits XVR_LITERAL_VOID 0"

definition Xvr_toIndexBlankLiteralCpp :: "literal" where
  "Xvr_toIndexBlankLiteralCpp = Bits XVR_LITERAL_INDEX_BLANK 0"

definition Xvr_toFunctionNativeLiteralCpp :: "64 word \<Rightarrow> literal" where
  "Xvr_toFunctionNativeLiteralCpp fn = Bits XVR_LITERAL_FUNCTION_NATIVE fn"

definition Xvr_toFunctionHookLiteralCpp :: "64 word \<Rightarrow> literal" where
  "Xvr_toFunctionHookLiteralCpp fn = Bits XVR_LITERAL_FUNCTION_HOOK fn"

section \<open>Hashing\<close>

text \<open>\<open>hash *= string[i]\<close> converts the signed character to unsigned.\<close>

definition hashString :: "string \<Rightarrow> 32 word" where
  "hashString s = foldl (\<lambda>h c. (h * word_of_int (schar c)) XOR 16777619) 2166136261 s"

definition hashUInt :: "32 word \<Rightarrow> 32 word" where
  "hashUInt x0 =
     (let x1 = (drop_bit 16 x0 XOR x0) * 0x45d9f3b;
          x2 = (drop_bit 16 x1 XOR x1) * 0x45d9f3b
      in drop_bit 16 x2 XOR x2)"

definition Xvr_private_toStringLiteral :: "string \<Rightarrow> literal" where
  "Xvr_private_toStringLiteral s = Str s"

definition Xvr_private_toIdentifierLiteral :: "string \<Rightarrow> literal" where
  "Xvr_private_toIdentifierLiteral s = Ident s (hashString s)"

definition hash_bits :: "literal_type \<Rightarrow> 64 word \<Rightarrow> 32 word" where
  "hash_bits t w =
     (case t of
        XVR_LITERAL_NULL \<Rightarrow> 0
      | XVR_LITERAL_BOOLEAN \<Rightarrow> (if (ucast w :: 8 word) \<noteq> 0 then 1 else 0)
      | XVR_LITERAL_INTEGER \<Rightarrow> hashUInt (ucast w)
      | XVR_LITERAL_INT8 \<Rightarrow> hashUInt (scast (ucast w :: 8 word))
      | XVR_LITERAL_INT16 \<Rightarrow> hashUInt (scast (ucast w :: 16 word))
      | XVR_LITERAL_INT32 \<Rightarrow> hashUInt (ucast w)
      | XVR_LITERAL_INT64 \<Rightarrow> hashUInt (ucast (w XOR signed_drop_bit 32 w))
      | XVR_LITERAL_UINT8 \<Rightarrow> hashUInt (ucast (ucast w :: 8 word))
      | XVR_LITERAL_UINT16 \<Rightarrow> hashUInt (ucast (ucast w :: 16 word))
      | XVR_LITERAL_UINT32 \<Rightarrow> hashUInt (ucast w)
      | XVR_LITERAL_UINT64 \<Rightarrow> hashUInt (ucast (w XOR drop_bit 32 w))
      | XVR_LITERAL_FLOAT \<Rightarrow> hashUInt (ucast w)
      | XVR_LITERAL_FLOAT16 \<Rightarrow> hashUInt (ucast (ucast w :: 16 word))
      | XVR_LITERAL_FLOAT32 \<Rightarrow> hashUInt (ucast w)
      | XVR_LITERAL_FLOAT64 \<Rightarrow> hashUInt (ucast (w XOR drop_bit 32 w))
      | XVR_LITERAL_ANY \<Rightarrow> - 1
      | _ \<Rightarrow> 0)"

fun Xvr_hashLiteral :: "literal \<Rightarrow> 32 word"
  and hash_elements :: "literal list \<Rightarrow> 32 word"
  and hash_entries :: "entry list \<Rightarrow> 32 word" where
  "Xvr_hashLiteral (Bits t w) = hash_bits t w"
| "Xvr_hashLiteral (Str s) = hashString s"
| "Xvr_hashLiteral (Arr t xs cap) =
     (if t = XVR_LITERAL_ARRAY then hashUInt (hash_elements xs) else 0)"
| "Xvr_hashLiteral (Dict es contains n) = hashUInt (hash_entries es)"
| "Xvr_hashLiteral (Ident s h) = h"
| "Xvr_hashLiteral (Type t c ss cap) = of_nat (literal_type_code t)"
| "Xvr_hashLiteral (Opaque p tag) = - 1"
| "hash_elements [] = 0"
| "hash_elements (x # xs) = Xvr_hashLiteral x + hash_elements xs"
| "hash_entries [] = 0"
| "hash_entries (Entry k v # es) =
     (if is_null k then hash_entries es
      else Xvr_hashLiteral k + Xvr_hashLiteral v + hash_entries es)"

section \<open>Queries\<close>

definition Xvr_private_isTruthy :: "literal \<Rightarrow> bool" where
  "Xvr_private_isTruthy x =
     (if is_null x then False
      else if lit_type x = XVR_LITERAL_BOOLEAN then XVR_AS_BOOLEAN x
      else True)"

definition Xvr_getIntegerBitWidth :: "literal_type \<Rightarrow> nat" where
  "Xvr_getIntegerBitWidth t =
     (case t of
        XVR_LITERAL_INT8 \<Rightarrow> 8 | XVR_LITERAL_UINT8 \<Rightarrow> 8
      | XVR_LITERAL_INT16 \<Rightarrow> 16 | XVR_LITERAL_UINT16 \<Rightarrow> 16
      | XVR_LITERAL_INTEGER \<Rightarrow> 32 | XVR_LITERAL_INT32 \<Rightarrow> 32 | XVR_LITERAL_UINT32 \<Rightarrow> 32
      | XVR_LITERAL_INT64 \<Rightarrow> 64 | XVR_LITERAL_UINT64 \<Rightarrow> 64
      | _ \<Rightarrow> 0)"

definition Xvr_isIntegerSigned :: "literal_type \<Rightarrow> bool" where
  "Xvr_isIntegerSigned t \<longleftrightarrow> t \<in>
    {XVR_LITERAL_INTEGER, XVR_LITERAL_INT8, XVR_LITERAL_INT16, XVR_LITERAL_INT32, XVR_LITERAL_INT64}"

definition Xvr_isFixedSizeInteger :: "literal_type \<Rightarrow> bool" where
  "Xvr_isFixedSizeInteger t \<longleftrightarrow> Xvr_getIntegerBitWidth t > 0"

definition Xvr_getFloatBitWidth :: "literal_type \<Rightarrow> nat" where
  "Xvr_getFloatBitWidth t =
     (case t of XVR_LITERAL_FLOAT16 \<Rightarrow> 16 | XVR_LITERAL_FLOAT32 \<Rightarrow> 32 | XVR_LITERAL_FLOAT64 \<Rightarrow> 64
      | _ \<Rightarrow> 0)"

definition Xvr_isFixedSizeFloat :: "literal_type \<Rightarrow> bool" where
  "Xvr_isFixedSizeFloat t \<longleftrightarrow> Xvr_getFloatBitWidth t > 0"

section \<open>Float equality\<close>

text \<open>IEEE comparison on bit patterns: no NaN equals anything, the two zeros are equal.\<close>

definition f32_nan :: "32 word \<Rightarrow> bool" where
  "f32_nan w \<longleftrightarrow> w AND 0x7F800000 = 0x7F800000 \<and> w AND 0x7FFFFF \<noteq> 0"

definition f32_eq :: "32 word \<Rightarrow> 32 word \<Rightarrow> bool" where
  "f32_eq a b \<longleftrightarrow> \<not> f32_nan a \<and> \<not> f32_nan b \<and>
     (a = b \<or> a AND 0x7FFFFFFF = 0 \<and> b AND 0x7FFFFFFF = 0)"

definition f64_nan :: "64 word \<Rightarrow> bool" where
  "f64_nan w \<longleftrightarrow> w AND 0x7FF0000000000000 = 0x7FF0000000000000 \<and> w AND 0xFFFFFFFFFFFFF \<noteq> 0"

definition f64_eq :: "64 word \<Rightarrow> 64 word \<Rightarrow> bool" where
  "f64_eq a b \<longleftrightarrow> \<not> f64_nan a \<and> \<not> f64_nan b \<and>
     (a = b \<or> a AND 0x7FFFFFFFFFFFFFFF = 0 \<and> b AND 0x7FFFFFFFFFFFFFFF = 0)"

function bit_len :: "int \<Rightarrow> int" where
  "bit_len n = (if n \<le> 0 then 0 else 1 + bit_len (n div 2))"
  by pat_completeness auto
termination
  by (relation "measure nat") auto

declare bit_len.simps [simp del]

text \<open>\<open>(float)i\<close> for an \<open>int\<close>, rounding to nearest, ties to even.\<close>

definition int_to_f32 :: "32 word \<Rightarrow> 32 word" where
  "int_to_f32 i =
     (let n = \<bar>sint i\<bar>; sign = (if sint i < 0 then 0x80000000 else 0)
      in if n = 0 then 0
         else let e = bit_len n - 1;
                  m = (if e \<le> 23 then n * 2 ^ nat (23 - e)
                       else let q = n div 2 ^ nat (e - 23); r = n mod 2 ^ nat (e - 23);
                                half = 2 ^ nat (e - 24)
                            in if r > half \<or> r = half \<and> odd q then q + 1 else q)
              in word_of_int (sign + (e + 127) * 2 ^ 23 + (m - 2 ^ 23)))"

section \<open>Lemmas\<close>

lemma is_null_simps [simp]:
  "is_null (Bits t w) \<longleftrightarrow> t = XVR_LITERAL_NULL" "\<not> is_null (Str s)"
  "is_null (Arr t xs c) \<longleftrightarrow> t = XVR_LITERAL_NULL" "\<not> is_null (Dict es c' n)"
  "\<not> is_null (Ident s h)" "\<not> is_null (Type t' b ss k)" "\<not> is_null (Opaque p tag)"
  by (simp_all add: is_null_def)

lemma literal_type_code_inj: "literal_type_code s = literal_type_code t \<Longrightarrow> s = t"
proof -
  have inj: "position x ys = position y ys \<Longrightarrow> x \<in> set ys \<Longrightarrow> x = y" for x y :: literal_type and ys
    by (induction ys) (auto split: if_splits)
  have "s \<in> set all_literal_types" by (cases s) (simp_all add: all_literal_types_def)
  then show "literal_type_code s = literal_type_code t \<Longrightarrow> s = t"
    using inj by (simp add: literal_type_code_def)
qed

lemma f32_eq_sym: "f32_eq a b = f32_eq b a"
  by (auto simp: f32_eq_def)

lemma f64_eq_sym: "f64_eq a b = f64_eq b a"
  by (auto simp: f64_eq_def)

end
