(* ===== verification/LitDictionary.thy ===== *)
theory LitDictionary
  imports Literals
begin

text \<open>
  The open-addressing hash table of src/src/xvr_literal_dictionary.cpp. Equality and copying of
  literals are recursive through dictionaries, so the operations take them as arguments; theory
  LitOps ties the knot. An empty slot has a null key and a null value, a tombstone a null key and
  the value true. The locale \<open>keyed\<close> is what the table needs of its keys; under it the table is a
  finite map. The count, the number of entries ever used and the capacity are C \<open>int\<close>s; the doubling of the
  capacity leaves their range from 2^30 entries on, a table of more than 32 gigabytes, which the model leaves out.
\<close>

section \<open>Data\<close>

record literal_dictionary =
  ld_entries :: "entry list"
  ld_contains :: nat
  ld_count :: int

definition XVR_GROW_CAPACITY :: "nat \<Rightarrow> nat" where
  "XVR_GROW_CAPACITY capacity = (if capacity < 8 then 8 else capacity * 2)"

abbreviation empty_entry :: entry where
  "empty_entry \<equiv> Entry XVR_TO_NULL_LITERAL XVR_TO_NULL_LITERAL"

section \<open>Operations\<close>

text \<open>The do-while loop of \<open>getEntryArray\<close>: at most one round over the table.\<close>

fun probe :: "(literal \<Rightarrow> literal \<Rightarrow> bool) \<Rightarrow> entry list \<Rightarrow> literal \<Rightarrow> bool \<Rightarrow> nat \<Rightarrow> nat \<Rightarrow> nat option" where
  "probe eq es key mustExist index 0 = None"
| "probe eq es key mustExist index (Suc n) =
     (let e = es ! index
      in if is_null (ent_key e)
         then (if is_null (ent_value e) \<and> \<not> mustExist then Some index
               else probe eq es key mustExist ((index + 1) mod length es) n)
         else (if eq key (ent_key e) then Some index
               else probe eq es key mustExist ((index + 1) mod length es) n))"

definition getEntryArray ::
    "(literal \<Rightarrow> literal \<Rightarrow> bool) \<Rightarrow> entry list \<Rightarrow> literal \<Rightarrow> 32 word \<Rightarrow> bool \<Rightarrow> nat option" where
  "getEntryArray eq es key hash mustExist =
     probe eq es key mustExist (nat (uint hash mod int (length es))) (length es)"

text \<open>One step of the rehash. A NULL slot pointer would be dereferenced; the table keeps an empty
  slot, so there is none.\<close>

definition rehash_entry :: "(literal \<Rightarrow> literal \<Rightarrow> bool) \<Rightarrow> entry list \<Rightarrow> entry \<Rightarrow> entry list" where
  "rehash_entry eq es e =
     (if is_null (ent_key e) then es
      else case getEntryArray eq es XVR_TO_NULL_LITERAL (Xvr_hashLiteral (ent_key e)) False of
             None \<Rightarrow> es
           | Some i \<Rightarrow> es[i := e])"

definition adjustEntryCapacity ::
    "(literal \<Rightarrow> literal \<Rightarrow> bool) \<Rightarrow> entry list \<Rightarrow> nat \<Rightarrow> entry list" where
  "adjustEntryCapacity eq old capacity = foldl (rehash_entry eq) (replicate capacity empty_entry) old"

definition setEntryArray ::
    "(literal \<Rightarrow> literal \<Rightarrow> bool) \<Rightarrow> (literal \<Rightarrow> literal) \<Rightarrow> entry list \<Rightarrow> nat \<Rightarrow> literal \<Rightarrow> literal
       \<Rightarrow> 32 word \<Rightarrow> entry list \<times> bool" where
  "setEntryArray eq cp es0 contains key val hash =
     (let es = (if 4 * (contains + 1) > 3 * length es0
                then adjustEntryCapacity eq es0 (XVR_GROW_CAPACITY (length es0)) else es0)
      in case getEntryArray eq es key hash False of
           None \<Rightarrow> (es, False)
         | Some i \<Rightarrow> (es[i := Entry (cp key) (cp val)], is_null (ent_key (es ! i))))"

definition Xvr_initLiteralDictionary :: "literal_dictionary" where
  "Xvr_initLiteralDictionary =
     \<lparr>ld_entries = replicate (XVR_GROW_CAPACITY 0) empty_entry, ld_contains = 0, ld_count = 0\<rparr>"

definition bad_key :: "literal \<Rightarrow> bool" where
  "bad_key key \<longleftrightarrow> is_null key \<or> is_function_type (lit_type key) \<or> lit_type key = XVR_LITERAL_OPAQUE"

definition dictionary_set ::
    "(literal \<Rightarrow> literal \<Rightarrow> bool) \<Rightarrow> (literal \<Rightarrow> literal) \<Rightarrow> literal_dictionary \<Rightarrow> literal \<Rightarrow> literal
       \<Rightarrow> literal_dictionary" where
  "dictionary_set eq cp d key val =
     (if bad_key key then d
      else let (es, increment) =
                 setEntryArray eq cp (ld_entries d) (ld_contains d) key val (Xvr_hashLiteral key);
               d1 = d\<lparr>ld_entries := es\<rparr>
           in if increment then d1\<lparr>ld_contains := ld_contains d + 1, ld_count := ld_count d + 1\<rparr>
              else d1)"

definition dictionary_get ::
    "(literal \<Rightarrow> literal \<Rightarrow> bool) \<Rightarrow> (literal \<Rightarrow> literal) \<Rightarrow> literal_dictionary \<Rightarrow> literal \<Rightarrow> literal" where
  "dictionary_get eq cp d key =
     (if bad_key key then XVR_TO_NULL_LITERAL
      else case getEntryArray eq (ld_entries d) key (Xvr_hashLiteral key) True of
             Some i \<Rightarrow> cp (ent_value (ld_entries d ! i))
           | None \<Rightarrow> XVR_TO_NULL_LITERAL)"

definition dictionary_remove ::
    "(literal \<Rightarrow> literal \<Rightarrow> bool) \<Rightarrow> literal_dictionary \<Rightarrow> literal \<Rightarrow> literal_dictionary" where
  "dictionary_remove eq d key =
     (if bad_key key then d
      else case getEntryArray eq (ld_entries d) key (Xvr_hashLiteral key) True of
             Some i \<Rightarrow> d\<lparr>ld_entries := (ld_entries d)[i := Entry XVR_TO_NULL_LITERAL (Xvr_toBoolLiteralCpp True)],
                         ld_count := ld_count d - 1\<rparr>
           | None \<Rightarrow> d)"

text \<open>\<open>Xvr_existsLiteralDictionary\<close> dereferences the slot it finds.\<close>

definition dictionary_exists ::
    "(literal \<Rightarrow> literal \<Rightarrow> bool) \<Rightarrow> literal_dictionary \<Rightarrow> literal \<Rightarrow> bool" where
  "dictionary_exists eq d key =
     (case getEntryArray eq (ld_entries d) key (Xvr_hashLiteral key) False of
        None \<Rightarrow> False
      | Some i \<Rightarrow> \<not> (is_null (ent_key (ld_entries d ! i)) \<and> is_null (ent_value (ld_entries d ! i))))"

section \<open>Probing\<close>

lemma getEntryArray_home:
  "getEntryArray eq es key h me = probe eq es key me (unat h mod length es) (length es)"
proof -
  have "nat (uint h mod int (length es)) = unat h mod length es"
    unfolding unat_eq_nat_uint by (simp only: nat_mod_distrib uint_ge_0 of_nat_0_le_iff nat_int)
  then show ?thesis by (simp add: getEntryArray_def)
qed

definition empty_slot :: "entry \<Rightarrow> bool" where
  "empty_slot e \<longleftrightarrow> is_null (ent_key e) \<and> is_null (ent_value e)"

definition hit :: "(literal \<Rightarrow> literal \<Rightarrow> bool) \<Rightarrow> literal \<Rightarrow> bool \<Rightarrow> entry \<Rightarrow> bool" where
  "hit eq key mustExist e \<longleftrightarrow>
     (if is_null (ent_key e) then is_null (ent_value e) \<and> \<not> mustExist else eq key (ent_key e))"

lemma probe_step:
  "probe eq es key me i (Suc n) =
     (if hit eq key me (es ! i) then Some i else probe eq es key me ((i + 1) mod length es) n)"
  by (auto simp: hit_def Let_def)

lemma probe_cases:
  assumes "i < length es"
  shows "case probe eq es key me i n of
      Some j \<Rightarrow> j < length es \<and> hit eq key me (es ! j) \<and>
        (\<exists>t<n. j = (i + t) mod length es \<and> (\<forall>u<t. \<not> hit eq key me (es ! ((i + u) mod length es))))
    | None \<Rightarrow> \<forall>u<n. \<not> hit eq key me (es ! ((i + u) mod length es))"
  using assms
proof (induction n arbitrary: i)
  case 0
  then show ?case by simp
next
  case (Suc n)
  let ?i = "(i + 1) mod length es"
  have sh: "(Suc i mod length es + t) mod length es = Suc (i + t) mod length es" for t
    by (metis add_Suc mod_add_left_eq)
  have "?i < length es" using Suc.prems by (metis gr_zeroI mod_less_divisor not_less_zero)
  note IH = Suc.IH [OF this]
  show ?case
  proof (cases "hit eq key me (es ! i)")
    case True
    then show ?thesis using Suc.prems unfolding probe_step by auto
  next
    case False
    then have z: "\<not> hit eq key me (es ! ((i + 0) mod length es))" using Suc.prems by simp
    show ?thesis
    proof (cases "probe eq es key me ?i n")
      case None
      then show ?thesis using IH z False unfolding probe_step
        by (auto simp: sh less_Suc_eq_0_disj)
    next
      case (Some j)
      then obtain t where t: "t < n" "j = (i + Suc t) mod length es"
          "\<forall>u<t. \<not> hit eq key me (es ! ((i + Suc u) mod length es))"
        and j: "j < length es" "hit eq key me (es ! j)"
        using IH by (auto simp: sh)
      have "\<forall>u<Suc t. \<not> hit eq key me (es ! ((i + u) mod length es))"
        using t z by (auto simp: less_Suc_eq_0_disj)
      then show ?thesis using Some False t(1,2) j unfolding probe_step
        by (auto intro!: exI [of _ "Suc t"])
    qed
  qed
qed

lemma rotation:
  fixes s j n :: nat
  assumes "s < n" "j < n"
  obtains t where "t < n" "j = (s + t) mod n" "\<And>u. u < n \<Longrightarrow> j = (s + u) mod n \<Longrightarrow> u = t"
proof
  let ?t = "if s \<le> j then j - s else j + n - s"
  show "?t < n" using assms by auto
  show "j = (s + ?t) mod n" using assms by auto
  fix u assume "u < n" "j = (s + u) mod n"
  then show "u = ?t" using assms by (auto simp: mod_if split: if_splits)
qed

lemma getEntryArray_None:
  assumes "0 < length es" "getEntryArray eq es key h me = None" "j < length es"
  shows "\<not> hit eq key me (es ! j)"
proof -
  let ?s = "unat h mod length es"
  have s: "?s < length es" using assms(1) by simp
  obtain t where "t < length es" "j = (?s + t) mod length es"
    using rotation [OF s assms(3)] by metis
  then show ?thesis
    using probe_cases [OF s, where eq = eq and key = key and me = me and n = "length es"] assms(2) by (auto simp: getEntryArray_home)
qed

lemma getEntryArray_Some:
  assumes "0 < length es" "getEntryArray eq es key h me = Some j"
  shows "j < length es" "hit eq key me (es ! j)"
    and "\<exists>t<length es. j = (unat h mod length es + t) mod length es \<and>
      (\<forall>u<t. \<not> hit eq key me (es ! ((unat h mod length es + u) mod length es)))"
  using probe_cases [where i = "unat h mod length es" and es = es and eq = eq and key = key
      and me = me and n = "length es"] assms
  by (auto simp: getEntryArray_home)


section \<open>The table as a finite map\<close>

definition dict_lookup :: "entry list \<Rightarrow> literal \<Rightarrow> literal option" where
  "dict_lookup es k = map_option ent_value (find (\<lambda>e. \<not> is_null (ent_key e) \<and> ent_key e = k) es)"

text \<open>No empty slot between the home of a key and a position.\<close>

definition reachable :: "entry list \<Rightarrow> literal \<Rightarrow> nat \<Rightarrow> bool" where
  "reachable es k j \<longleftrightarrow>
     (\<exists>t<length es. j = (unat (Xvr_hashLiteral k) mod length es + t) mod length es \<and>
        (\<forall>u<t. \<not> empty_slot (es ! ((unat (Xvr_hashLiteral k) mod length es + u) mod length es))))"

definition table_inv :: "(literal \<Rightarrow> bool) \<Rightarrow> entry list \<Rightarrow> bool" where
  "table_inv ok es \<longleftrightarrow> 0 < length es \<and>
     (\<forall>i<length es. \<not> is_null (ent_key (es ! i)) \<longrightarrow>
        ok (ent_key (es ! i)) \<and> reachable es (ent_key (es ! i)) i) \<and>
     (\<forall>i<length es. \<forall>j<length es. \<not> is_null (ent_key (es ! i)) \<longrightarrow>
        ent_key (es ! i) = ent_key (es ! j) \<longrightarrow> i = j)"

abbreviation used_slots :: "entry list \<Rightarrow> nat" where
  "used_slots es \<equiv> length (filter (\<lambda>e. \<not> empty_slot e) es)"

abbreviation live_entries :: "entry list \<Rightarrow> nat" where
  "live_entries es \<equiv> length (filter (\<lambda>e. \<not> is_null (ent_key e)) es)"

definition dict_inv :: "(literal \<Rightarrow> bool) \<Rightarrow> literal_dictionary \<Rightarrow> bool" where
  "dict_inv ok d \<longleftrightarrow> table_inv ok (ld_entries d) \<and> 8 \<le> length (ld_entries d) \<and>
     used_slots (ld_entries d) \<le> ld_contains d \<and>
     4 * ld_contains d \<le> 3 * length (ld_entries d) \<and>
     ld_count d = int (live_entries (ld_entries d))"

definition absent :: "entry list \<Rightarrow> literal \<Rightarrow> bool" where
  "absent es k \<longleftrightarrow> (\<forall>i<length es. \<not> is_null (ent_key (es ! i)) \<longrightarrow> ent_key (es ! i) \<noteq> k)"

definition slot_for :: "entry list \<Rightarrow> literal \<Rightarrow> nat \<Rightarrow> bool" where
  "slot_for es k j \<longleftrightarrow> j < length es \<and> reachable es k j \<and>
     (ent_key (es ! j) = k \<or> empty_slot (es ! j) \<and> absent es k)"

lemma lookup_absent: "absent es k \<longleftrightarrow> dict_lookup es k = None"
  by (auto simp: absent_def dict_lookup_def find_None_iff in_set_conv_nth)

lemma lookup_at:
  assumes "table_inv ok es" "i < length es" "\<not> is_null (ent_key (es ! i))"
  shows "dict_lookup es (ent_key (es ! i)) = Some (ent_value (es ! i))"
proof (cases "find (\<lambda>e. \<not> is_null (ent_key e) \<and> ent_key e = ent_key (es ! i)) es")
  case None
  then show ?thesis using assms(2,3) by (auto simp: find_None_iff dest: nth_mem)
next
  case (Some e)
  then obtain j where j: "j < length es" "e = es ! j" "\<not> is_null (ent_key e)" "ent_key e = ent_key (es ! i)"
    by (auto simp: find_Some_iff)
  then have "j = i" using assms unfolding table_inv_def by metis
  then show ?thesis using Some j by (simp add: dict_lookup_def)
qed

lemma empty_slot_null: "empty_slot e \<Longrightarrow> is_null (ent_key e)"
  by (simp add: empty_slot_def)

lemma nonempty_update:
  "\<not> empty_slot (es ! m) \<Longrightarrow> \<not> empty_slot e \<Longrightarrow> \<not> empty_slot (es[j := e] ! m)"
  by (cases "j < length es"; cases "m = j") (simp_all add: list_update_beyond)

lemma reachable_update:
  assumes r: "reachable es k i" and e: "\<not> empty_slot e"
  shows "reachable (es[j := e]) k i"
proof -
  obtain t where t: "t < length es" "i = (unat (Xvr_hashLiteral k) mod length es + t) mod length es"
    "\<And>u. u < t \<Longrightarrow> \<not> empty_slot (es ! ((unat (Xvr_hashLiteral k) mod length es + u) mod length es))"
    using r unfolding reachable_def by auto
  show ?thesis
    unfolding reachable_def length_list_update
    by (intro exI [of _ t] conjI allI impI t(1,2) nonempty_update t(3) e)
qed

lemma slot_unique:
  assumes "table_inv ok es" "slot_for es k j" "\<not> is_null k" "i < length es" "i \<noteq> j"
  shows "ent_key (es ! i) \<noteq> k"
  using assms unfolding table_inv_def slot_for_def absent_def by metis

text \<open>Storing a key in its slot.\<close>

lemma table_inv_store:
  assumes inv: "table_inv ok es" and s: "slot_for es k j" and k: "ok k" "\<not> is_null k"
  shows "table_inv ok (es[j := Entry k v])"
proof -
  have ne: "\<not> empty_slot (Entry k v)" using k by (simp add: empty_slot_def)
  have j: "j < length es" "reachable (es[j := Entry k v]) k j"
    using s reachable_update [OF _ ne] by (auto simp: slot_for_def)
  note u = slot_unique [OF inv s k(2)]
  show ?thesis
    using inv j k u reachable_update [OF _ ne, of es _ _ j]
    unfolding table_inv_def by (auto simp: nth_list_update)
qed

lemma lookup_store:
  assumes inv: "table_inv ok es" and s: "slot_for es k j" and k: "ok k" "\<not> is_null k"
  shows "dict_lookup (es[j := Entry k v]) = (dict_lookup es)(k \<mapsto> v)"
proof
  fix k'
  let ?es = "es[j := Entry k v]"
  have inv': "table_inv ok ?es" using table_inv_store assms by blast
  have j: "j < length es" using s by (simp add: slot_for_def)
  show "dict_lookup ?es k' = ((dict_lookup es)(k \<mapsto> v)) k'"
  proof (cases "k' = k")
    case True
    then show ?thesis using lookup_at [OF inv', of j] j k by simp
  next
    case False
    show ?thesis
    proof (cases "dict_lookup es k'")
      case None
      then have "absent es k'" by (simp add: lookup_absent)
      then have "absent ?es k'" using False j by (auto simp: absent_def nth_list_update)
      then show ?thesis using None False by (simp add: lookup_absent)
    next
      case (Some w)
      then obtain i where i: "i < length es" "\<not> is_null (ent_key (es ! i))" "ent_key (es ! i) = k'" "ent_value (es ! i) = w"
        by (auto simp: dict_lookup_def find_Some_iff)
      then have "i \<noteq> j" using s False empty_slot_null by (auto simp: slot_for_def)
      then show ?thesis using lookup_at [OF inv', of i] i False Some by simp
    qed
  qed
qed

lemma used_store:
  assumes "slot_for es k j" "\<not> is_null k"
  shows "used_slots (es[j := Entry k v]) = used_slots es + (if empty_slot (es ! j) then 1 else 0)"
    "live_entries (es[j := Entry k v]) = live_entries es + (if is_null (ent_key (es ! j)) then 1 else 0)"
proof -
  have j: "j < length es" using assms by (simp add: slot_for_def)
  have ne: "\<not> empty_slot (Entry k v)" using assms by (simp add: empty_slot_def)
  show "used_slots (es[j := Entry k v]) = used_slots es + (if empty_slot (es ! j) then 1 else 0)"
    using length_filter_update [OF j, of "\<lambda>e. \<not> empty_slot e" "Entry k v"] ne by (simp split: if_splits)
  show "live_entries (es[j := Entry k v]) = live_entries es + (if is_null (ent_key (es ! j)) then 1 else 0)"
    using length_filter_update [OF j, of "\<lambda>e. \<not> is_null (ent_key e)" "Entry k v"] assms(2)
    by (simp split: if_splits)
qed

text \<open>Leaving a tombstone.\<close>

abbreviation tombstone :: entry where
  "tombstone \<equiv> Entry XVR_TO_NULL_LITERAL (Xvr_toBoolLiteralCpp True)"

lemma tombstone_not_empty: "\<not> empty_slot tombstone"
  by (simp add: empty_slot_def Xvr_toBoolLiteralCpp_def)

lemma table_inv_remove:
  assumes inv: "table_inv ok es" and j: "j < length es"
  shows "table_inv ok (es[j := tombstone])"
  using inv reachable_update [OF _ tombstone_not_empty, of es _ _ j]
  unfolding table_inv_def by (auto simp: nth_list_update j)

lemma lookup_remove:
  assumes inv: "table_inv ok es" and j: "j < length es" "\<not> is_null (ent_key (es ! j))"
  shows "dict_lookup (es[j := tombstone]) = (dict_lookup es)(ent_key (es ! j) := None)"
proof
  fix k'
  let ?es = "es[j := tombstone]" and ?k = "ent_key (es ! j)"
  have inv': "table_inv ok ?es" using table_inv_remove [OF inv j(1)] .
  have abs: "absent ?es ?k"
    using inv j unfolding absent_def table_inv_def by (auto simp: nth_list_update)
  show "dict_lookup ?es k' = ((dict_lookup es)(?k := None)) k'"
  proof (cases "k' = ?k")
    case True
    then show ?thesis using abs by (simp add: lookup_absent)
  next
    case False
    show ?thesis
    proof (cases "dict_lookup es k'")
      case None
      then have "absent es k'" by (simp add: lookup_absent)
      then have "absent ?es k'" using j(1) by (auto simp: absent_def nth_list_update)
      then show ?thesis using None False by (simp add: lookup_absent)
    next
      case (Some w)
      then obtain i where i: "i < length es" "\<not> is_null (ent_key (es ! i))" "ent_key (es ! i) = k'" "ent_value (es ! i) = w"
        by (auto simp: dict_lookup_def find_Some_iff)
      then have "i \<noteq> j" using False by auto
      then show ?thesis using lookup_at [OF inv', of i] i False Some by simp
    qed
  qed
qed


section \<open>The operations, for keys with a decidable equality\<close>

text \<open>
  What the table needs: on the keys it is used with, equality is identity, a copy is the key
  itself, and the null literal equals none of them. Function and opaque keys are refused by the
  code, so they are not among the keys.
\<close>

locale keyed =
  fixes eq :: "literal \<Rightarrow> literal \<Rightarrow> bool" and cp :: "literal \<Rightarrow> literal" and ok :: "literal \<Rightarrow> bool"
  assumes eq_iff: "ok k \<Longrightarrow> ok k' \<Longrightarrow> eq k k' \<longleftrightarrow> k = k'"
    and good: "ok k \<Longrightarrow> \<not> bad_key k"
    and cp_key: "ok k \<Longrightarrow> cp k = k"
    and eq_null: "ok k \<Longrightarrow> \<not> eq XVR_TO_NULL_LITERAL k"
begin

lemma not_null: "ok k \<Longrightarrow> \<not> is_null k"
  using good by (simp add: bad_key_def)

lemma key_ok: "table_inv ok es \<Longrightarrow> i < length es \<Longrightarrow> \<not> is_null (ent_key (es ! i)) \<Longrightarrow> ok (ent_key (es ! i))"
  unfolding table_inv_def by blast

lemma hit_iff:
  assumes "table_inv ok es" "ok k" "i < length es"
  shows "hit eq k me (es ! i) \<longleftrightarrow> ent_key (es ! i) = k \<or> empty_slot (es ! i) \<and> \<not> me"
proof (cases "is_null (ent_key (es ! i))")
  case True
  then show ?thesis using not_null [OF assms(2)] by (auto simp: hit_def empty_slot_def)
next
  case False
  then have "ok (ent_key (es ! i))" using key_ok assms by blast
  then show ?thesis using eq_iff [OF assms(2)] False by (auto simp: hit_def empty_slot_def)
qed

lemma hit_null_iff:
  assumes "table_inv ok es" "i < length es"
  shows "hit eq XVR_TO_NULL_LITERAL False (es ! i) \<longleftrightarrow> empty_slot (es ! i)"
  using key_ok [OF assms] eq_null by (auto simp: hit_def empty_slot_def)

lemma some_empty: "used_slots es < length es \<Longrightarrow> \<exists>i<length es. empty_slot (es ! i)"
  using length_filter_less_ex by blast

text \<open>The search with \<open>mustExist\<close> false, for the key itself or, in the rehash, for null.\<close>

lemma find_slot:
  assumes inv: "table_inv ok es" and k: "ok k" and u: "used_slots es < length es"
    and q: "q = k \<or> q = XVR_TO_NULL_LITERAL \<and> absent es k"
  shows "\<exists>j. getEntryArray eq es q (Xvr_hashLiteral k) False = Some j \<and> slot_for es k j"
proof -
  let ?n = "length es" and ?s = "unat (Xvr_hashLiteral k) mod length es"
  have pos: "0 < ?n" using inv by (simp add: table_inv_def)
  have hit: "hit eq q False (es ! i) \<longleftrightarrow> ent_key (es ! i) = k \<or> empty_slot (es ! i)" if "i < ?n" for i
    using hit_iff [OF inv k that] hit_null_iff [OF inv that] q that not_null [OF k]
    by (metis absent_def)
  obtain i where "i < ?n" "empty_slot (es ! i)" using some_empty [OF u] by blast
  then obtain j where j: "getEntryArray eq es q (Xvr_hashLiteral k) False = Some j"
    using getEntryArray_None [OF pos] hit by blast
  note js = getEntryArray_Some [OF pos j]
  obtain t where t: "t < ?n" "j = (?s + t) mod ?n" "\<And>u. u < t \<Longrightarrow> \<not> hit eq q False (es ! ((?s + u) mod ?n))"
    using js(3) by blast
  have "\<not> empty_slot (es ! ((?s + u) mod ?n))" if "u < t" for u
    using t(3) [OF that] hit pos by simp
  then have r: "reachable es k j" using t(1,2) unfolding reachable_def by blast
  have "ent_key (es ! j) = k \<or> empty_slot (es ! j) \<and> absent es k"
  proof (cases "ent_key (es ! j) = k")
    case False
    then have e: "empty_slot (es ! j)" using hit js(1,2) by blast
    have "absent es k"
      unfolding absent_def
    proof (intro allI impI notI)
      fix i assume i: "i < ?n" "\<not> is_null (ent_key (es ! i))" "ent_key (es ! i) = k"
      then have "reachable es k i" using inv unfolding table_inv_def by blast
      then obtain t' where t': "t' < ?n" "i = (?s + t') mod ?n"
        "\<And>u. u < t' \<Longrightarrow> \<not> empty_slot (es ! ((?s + u) mod ?n))"
        unfolding reachable_def by blast
      have "\<not> t' < t" using t(3) [of t'] t'(2) hit i by blast
      moreover have "\<not> t < t'" using t'(3) [of t] t(2) e by blast
      ultimately have "i = j" using t(2) t'(2) by simp
      then show False using i e empty_slot_null by blast
    qed
    then show ?thesis using e by blast
  qed blast
  then show ?thesis using j js(1) r unfolding slot_for_def by blast
qed

text \<open>The search with \<open>mustExist\<close> true: the whole table is searched.\<close>

lemma find_exact:
  assumes inv: "table_inv ok es" and k: "ok k"
  shows "case getEntryArray eq es k (Xvr_hashLiteral k) True of
      None \<Rightarrow> dict_lookup es k = None
    | Some j \<Rightarrow> j < length es \<and> ent_key (es ! j) = k \<and> dict_lookup es k = Some (ent_value (es ! j))"
proof -
  have pos: "0 < length es" using inv by (simp add: table_inv_def)
  show ?thesis
  proof (cases "getEntryArray eq es k (Xvr_hashLiteral k) True")
    case None
    then have "absent es k" using getEntryArray_None [OF pos None] hit_iff [OF inv k]
      by (auto simp: absent_def)
    then show ?thesis using None by (simp add: lookup_absent)
  next
    case (Some j)
    note js = getEntryArray_Some [OF pos Some]
    have "ent_key (es ! j) = k" using hit_iff [OF inv k js(1), of True] js(2) by simp
    then show ?thesis using Some js(1) lookup_at [OF inv js(1)] not_null [OF k] by simp
  qed
qed

text \<open>Rehashing into a larger table keeps the map.\<close>

lemma replicate_inv: "0 < n \<Longrightarrow> table_inv ok (replicate n empty_entry)"
  by (auto simp: table_inv_def)

lemma rehash_fold:
  assumes "table_inv ok es" "length es = cap" "used_slots es = live_entries es"
    and "distinct (map ent_key (filter (\<lambda>e. \<not> is_null (ent_key e)) old))"
    and "\<And>e. e \<in> set old \<Longrightarrow> \<not> is_null (ent_key e) \<Longrightarrow> ok (ent_key e) \<and> absent es (ent_key e)"
    and "used_slots es + live_entries old < cap"
  shows "table_inv ok (foldl (rehash_entry eq) es old) \<and>
    length (foldl (rehash_entry eq) es old) = cap \<and>
    used_slots (foldl (rehash_entry eq) es old) = used_slots es + live_entries old \<and>
    live_entries (foldl (rehash_entry eq) es old) = live_entries es + live_entries old \<and>
    (\<forall>k. dict_lookup (foldl (rehash_entry eq) es old) k =
       (case dict_lookup old k of None \<Rightarrow> dict_lookup es k | Some v \<Rightarrow> Some v))"
  using assms
proof (induction old arbitrary: es)
  case Nil
  then show ?case by (simp add: dict_lookup_def)
next
  case (Cons e old)
  show ?case
  proof (cases "is_null (ent_key e)")
    case True
    then have "dict_lookup (e # old) = dict_lookup old" by (auto simp: dict_lookup_def)
    then show ?thesis using Cons True by (simp add: rehash_entry_def)
  next
    case False
    let ?k = "ent_key e" and ?v = "ent_value e"
    have ok: "ok ?k" and ab: "absent es ?k" using Cons.prems(5) [of e] False by simp_all
    have "used_slots es < length es" using Cons.prems(2,6) by simp
    then obtain j where j: "getEntryArray eq es XVR_TO_NULL_LITERAL (Xvr_hashLiteral ?k) False = Some j"
        "slot_for es ?k j"
      using find_slot [OF Cons.prems(1) ok, of XVR_TO_NULL_LITERAL] ab by blast
    have es: "es[j := e] = es[j := Entry ?k ?v]" by simp
    let ?es = "es[j := Entry ?k ?v]"
    have "ent_key (es ! j) \<noteq> ?k"
      using j(2) ab False by (auto simp: slot_for_def absent_def)
    then have "empty_slot (es ! j)" using j(2) by (simp add: slot_for_def)
    moreover from this have "is_null (ent_key (es ! j))" by (rule empty_slot_null)
    ultimately have "is_null (ent_key (es ! j))" "empty_slot (es ! j)" by simp_all
    then have u: "used_slots ?es = Suc (used_slots es)" "live_entries ?es = Suc (live_entries es)"
      using used_store [OF j(2) False, of ?v] by simp_all
    have inv': "table_inv ok ?es" using table_inv_store [OF Cons.prems(1) j(2) ok False] .
    have lk: "dict_lookup ?es = (dict_lookup es)(?k \<mapsto> ?v)" using lookup_store [OF Cons.prems(1) j(2) ok False] .
    have kn: "?k \<notin> ent_key ` set (filter (\<lambda>e. \<not> is_null (ent_key e)) old)" using Cons.prems(4) False by simp
    have fresh: "ok (ent_key e') \<and> absent ?es (ent_key e')"
      if "e' \<in> set old" "\<not> is_null (ent_key e')" for e'
    proof -
      have "ent_key e' \<noteq> ?k" using kn that by (auto simp: image_iff)
      then show ?thesis using Cons.prems(5) [of e'] that lk by (simp add: lookup_absent)
    qed
    have step: "rehash_entry eq es e = ?es" using j(1) False by (simp add: rehash_entry_def)
    have IH: "table_inv ok (foldl (rehash_entry eq) ?es old) \<and>
        length (foldl (rehash_entry eq) ?es old) = cap \<and>
        used_slots (foldl (rehash_entry eq) ?es old) = used_slots ?es + live_entries old \<and>
        live_entries (foldl (rehash_entry eq) ?es old) = live_entries ?es + live_entries old \<and>
        (\<forall>k. dict_lookup (foldl (rehash_entry eq) ?es old) k =
           (case dict_lookup old k of None \<Rightarrow> dict_lookup ?es k | Some v \<Rightarrow> Some v))"
      using Cons.prems False u fresh inv' by (intro Cons.IH) auto
    have no: "dict_lookup old ?k = None"
      using kn False by (simp add: dict_lookup_def find_None_iff image_iff) metis
    have hd: "dict_lookup (e # old) k = (if k = ?k then Some ?v else dict_lookup old k)" for k
      using False by (auto simp: dict_lookup_def)
    show ?thesis
      using IH lk no u False by (auto simp: step hd split: option.split)
  qed
qed


lemma live_distinct:
  assumes "table_inv ok es"
  shows "distinct (map ent_key (filter (\<lambda>e. \<not> is_null (ent_key e)) es))"
proof -
  have "distinct (map ent_key (filter (\<lambda>e. \<not> is_null (ent_key e)) xs))"
    if "\<And>i j. i < length xs \<Longrightarrow> j < length xs \<Longrightarrow> \<not> is_null (ent_key (xs ! i)) \<Longrightarrow>
      ent_key (xs ! i) = ent_key (xs ! j) \<Longrightarrow> i = j" for xs
    using that
  proof (induction xs)
    case Nil
    then show ?case by simp
  next
    case (Cons x xs)
    have "distinct (map ent_key (filter (\<lambda>e. \<not> is_null (ent_key e)) xs))"
    proof (rule Cons.IH)
      fix i j
      assume "i < length xs" "j < length xs" "\<not> is_null (ent_key (xs ! i))" "ent_key (xs ! i) = ent_key (xs ! j)"
      then show "i = j" using Cons.prems [of "Suc i" "Suc j"] by simp
    qed
    moreover have "ent_key x \<notin> ent_key ` set (filter (\<lambda>e. \<not> is_null (ent_key e)) xs)" if "\<not> is_null (ent_key x)"
    proof
      assume "ent_key x \<in> ent_key ` set (filter (\<lambda>e. \<not> is_null (ent_key e)) xs)"
      then obtain j where "j < length xs" "ent_key x = ent_key (xs ! j)" by (auto simp: in_set_conv_nth)
      then show False using Cons.prems [of 0 "Suc j"] that by simp
    qed
    ultimately show ?case by simp
  qed
  then show ?thesis using assms unfolding table_inv_def by blast
qed

lemma live_le_used: "live_entries es \<le> used_slots es"
  by (induction es) (auto dest: empty_slot_null)

lemma lookup_replicate: "dict_lookup (replicate n empty_entry) k = None"
  by (induction n) (auto simp: dict_lookup_def)

lemma grow_inv:
  assumes inv: "table_inv ok es" and l: "live_entries es < cap" "0 < cap"
  shows "table_inv ok (adjustEntryCapacity eq es cap) \<and>
    length (adjustEntryCapacity eq es cap) = cap \<and>
    used_slots (adjustEntryCapacity eq es cap) = live_entries es \<and>
    live_entries (adjustEntryCapacity eq es cap) = live_entries es \<and>
    dict_lookup (adjustEntryCapacity eq es cap) = dict_lookup es"
proof -
  let ?r = "replicate cap empty_entry"
  have z: "used_slots ?r = 0" "live_entries ?r = 0" by (simp_all add: empty_slot_def)
  have "ok (ent_key e) \<and> absent ?r (ent_key e)" if "e \<in> set es" "\<not> is_null (ent_key e)" for e
    using that key_ok [OF inv] by (auto simp: in_set_conv_nth lookup_absent lookup_replicate)
  then have "table_inv ok (foldl (rehash_entry eq) ?r es) \<and>
    length (foldl (rehash_entry eq) ?r es) = cap \<and>
    used_slots (foldl (rehash_entry eq) ?r es) = used_slots ?r + live_entries es \<and>
    live_entries (foldl (rehash_entry eq) ?r es) = live_entries ?r + live_entries es \<and>
    (\<forall>k. dict_lookup (foldl (rehash_entry eq) ?r es) k =
       (case dict_lookup es k of None \<Rightarrow> dict_lookup ?r k | Some v \<Rightarrow> Some v))"
    using l z live_distinct [OF inv] replicate_inv [OF l(2)] by (intro rehash_fold) simp_all
  then show ?thesis
    using z by (auto simp: adjustEntryCapacity_def lookup_replicate fun_eq_iff split: option.split)
qed

lemma init_inv: "dict_inv ok Xvr_initLiteralDictionary"
  "dict_lookup (ld_entries Xvr_initLiteralDictionary) k = None"
  by (auto simp: dict_inv_def Xvr_initLiteralDictionary_def XVR_GROW_CAPACITY_def replicate_inv
      empty_slot_def lookup_replicate)

lemma set_correct:
  assumes inv: "dict_inv ok d" and k: "ok key"
  shows "dict_inv ok (dictionary_set eq cp d key val) \<and>
    dict_lookup (ld_entries (dictionary_set eq cp d key val)) = (dict_lookup (ld_entries d))(key \<mapsto> cp val)"
proof -
  let ?es0 = "ld_entries d" and ?c = "ld_contains d"
  note d = inv [unfolded dict_inv_def]
  define es where "es = (if 4 * (?c + 1) > 3 * length ?es0
    then adjustEntryCapacity eq ?es0 (XVR_GROW_CAPACITY (length ?es0)) else ?es0)"
  have nk: "\<not> is_null key" using not_null [OF k] .
  have t: "table_inv ok es \<and> 8 \<le> length es \<and> used_slots es \<le> ?c \<and> 4 * (?c + 1) \<le> 3 * length es \<and>
      ld_count d = int (live_entries es) \<and> dict_lookup es = dict_lookup ?es0"
  proof (cases "4 * (?c + 1) > 3 * length ?es0")
    case True
    have cap: "XVR_GROW_CAPACITY (length ?es0) = 2 * length ?es0" using d by (simp add: XVR_GROW_CAPACITY_def)
    have t0: "table_inv ok ?es0" and live: "live_entries ?es0 \<le> ?c" "?c < 2 * length ?es0" "0 < 2 * length ?es0"
      using d live_le_used [of ?es0] by auto
    note g = grow_inv [OF t0 le_less_trans [OF live(1,2)] live(3)]
    have es: "es = adjustEntryCapacity eq ?es0 (2 * length ?es0)" using True cap by (simp add: es_def)
    obtain A where A: "A = adjustEntryCapacity eq ?es0 (2 * length ?es0)" by blast
    have g': "table_inv ok A" "length A = 2 * length ?es0" "used_slots A = live_entries ?es0"
      "live_entries A = live_entries ?es0" "dict_lookup A = dict_lookup ?es0"
      using g unfolding A by blast+
    show ?thesis unfolding es A [symmetric] using g' d live(1) by simp
  next
    case False
    then show ?thesis using d by (simp add: es_def)
  qed
  then have "used_slots es < length es" by simp
  then obtain j where j: "getEntryArray eq es key (Xvr_hashLiteral key) False = Some j" "slot_for es key j"
    using find_slot [of es key key] t k by blast
  have jl: "ent_key (es ! j) = key \<or> empty_slot (es ! j)" "j < length es" using j(2) by (auto simp: slot_for_def)
  let ?es' = "es[j := Entry key (cp val)]"
  have "setEntryArray eq cp ?es0 ?c key val (Xvr_hashLiteral key) = (?es', is_null (ent_key (es ! j)))"
    by (simp only: setEntryArray_def Let_def es_def [symmetric] j(1) option.case cp_key [OF k])
  then have res: "dictionary_set eq cp d key val =
      (if is_null (ent_key (es ! j))
       then d\<lparr>ld_entries := ?es', ld_contains := ?c + 1, ld_count := ld_count d + 1\<rparr>
       else d\<lparr>ld_entries := ?es'\<rparr>)"
    using good [OF k] by (simp add: dictionary_set_def)
  have inv': "table_inv ok es" using t by blast
  note store = table_inv_store [where ok = ok, OF inv' j(2) k nk, of "cp val"]
    lookup_store [where ok = ok, OF inv' j(2) k nk, of "cp val"]
    used_store [OF j(2) nk, of "cp val"]
  show ?thesis
  proof (cases "is_null (ent_key (es ! j))")
    case True
    then show ?thesis using res store t by (auto simp: dict_inv_def split: if_splits)
  next
    case False
    then have "\<not> empty_slot (es ! j)" using empty_slot_null by blast
    then show ?thesis using res store t False by (simp add: dict_inv_def)
  qed
qed

lemma get_correct:
  assumes inv: "dict_inv ok d" and k: "ok key"
  shows "dictionary_get eq cp d key =
    (case dict_lookup (ld_entries d) key of None \<Rightarrow> XVR_TO_NULL_LITERAL | Some v \<Rightarrow> cp v)"
  using find_exact [of "ld_entries d" key] inv k good [OF k]
  by (auto simp: dict_inv_def dictionary_get_def split: option.splits)

lemma exists_correct:
  assumes inv: "dict_inv ok d" and k: "ok key"
  shows "dictionary_exists eq d key \<longleftrightarrow> dict_lookup (ld_entries d) key \<noteq> None"
proof -
  let ?es = "ld_entries d"
  have t: "table_inv ok ?es" and "used_slots ?es < length ?es" using inv unfolding dict_inv_def by auto
  then obtain j where j: "getEntryArray eq ?es key (Xvr_hashLiteral key) False = Some j" "slot_for ?es key j"
    using find_slot k by blast
  show ?thesis
  proof (cases "ent_key (?es ! j) = key")
    case True
    then show ?thesis using j lookup_at [OF t, of j] not_null [OF k]
      by (simp add: dictionary_exists_def slot_for_def)
  next
    case False
    then show ?thesis using j by (simp add: dictionary_exists_def slot_for_def empty_slot_def lookup_absent)
  qed
qed

lemma remove_correct:
  assumes inv: "dict_inv ok d" and k: "ok key"
  shows "dict_inv ok (dictionary_remove eq d key) \<and>
    dict_lookup (ld_entries (dictionary_remove eq d key)) = (dict_lookup (ld_entries d))(key := None)"
proof (cases "getEntryArray eq (ld_entries d) key (Xvr_hashLiteral key) True")
  case None
  then have "dict_lookup (ld_entries d) key = None" "dictionary_remove eq d key = d"
    using find_exact [of "ld_entries d" key] inv k by (auto simp: dict_inv_def dictionary_remove_def)
  then show ?thesis using inv by (metis fun_upd_idem)
next
  case (Some j)
  let ?es = "ld_entries d"
  have t: "table_inv ok ?es" using inv by (simp add: dict_inv_def)
  have j: "j < length ?es" "ent_key (?es ! j) = key" using find_exact [OF t k] Some by auto
  have nn: "\<not> is_null (ent_key (?es ! j))" using j not_null [OF k] by simp
  then have "\<not> empty_slot (?es ! j)" using empty_slot_null by blast
  then have u: "used_slots (?es[j := tombstone]) = used_slots ?es"
    "live_entries (?es[j := tombstone]) + 1 = live_entries ?es"
    using length_filter_update [OF j(1), of "\<lambda>e. \<not> empty_slot e" tombstone]
      length_filter_update [OF j(1), of "\<lambda>e. \<not> is_null (ent_key e)" tombstone] tombstone_not_empty nn
    by simp_all
  have r: "dictionary_remove eq d key = d\<lparr>ld_entries := ?es[j := tombstone], ld_count := ld_count d - 1\<rparr>"
    using good [OF k] Some by (simp add: dictionary_remove_def)
  show ?thesis
    using table_inv_remove [OF t j(1)] lookup_remove [OF t j(1) nn] j(2) inv u r
    by (auto simp: dict_inv_def)
qed

end

end
