(* ===== verification/LitOps.thy ===== *)
theory LitOps
  imports LitDictionary
begin

text \<open>
  Copying and comparing literals (src/src/xvr_literal.cpp), which recurse through arrays, types and
  dictionaries, and the array and dictionary operations of src/src/xvr_literal_array.cpp and
  src/src/xvr_literal_dictionary.cpp on them. Copying a dictionary compares keys and comparing
  dictionaries copies values, so the two recurse together, on the nesting depth of their
  arguments; \<open>copy_unfold\<close> and \<open>equal_unfold\<close> show that the depth is enough: both functions
  satisfy the equations of the code, in which no depth occurs. Counts and capacities of arrays are
  numbers, as those of dictionaries (theory LitDictionary).
\<close>

section \<open>Nesting depth\<close>

fun lit_depth :: "literal \<Rightarrow> nat" and lits_depth :: "literal list \<Rightarrow> nat"
  and ents_depth :: "entry list \<Rightarrow> nat" where
  "lit_depth (Bits t w) = 0"
| "lit_depth (Str s) = 0"
| "lit_depth (Arr t xs cap) = Suc (lits_depth xs)"
| "lit_depth (Dict es c n) = Suc (ents_depth es)"
| "lit_depth (Ident s h) = 0"
| "lit_depth (Type t c ss cap) = Suc (lits_depth ss)"
| "lit_depth (Opaque p tag) = 0"
| "lits_depth [] = 0"
| "lits_depth (x # xs) = max (lit_depth x) (lits_depth xs)"
| "ents_depth [] = 0"
| "ents_depth (Entry k v # es) = max (max (lit_depth k) (lit_depth v)) (ents_depth es)"

section \<open>One level of the operations\<close>

text \<open>The array structure: elements and capacity.\<close>

type_synonym literal_array = "literal list \<times> nat"

definition Xvr_initLiteralArray :: literal_array where
  "Xvr_initLiteralArray = ([], 0)"

definition array_push :: "(literal \<Rightarrow> literal) \<Rightarrow> literal_array \<Rightarrow> literal \<Rightarrow> literal_array \<times> nat" where
  "array_push cp array l =
     ((fst array @ [cp l],
       if snd array < length (fst array) + 1 then XVR_GROW_CAPACITY (snd array) else snd array),
      length (fst array))"

text \<open>The capacity of the subtypes is an unsigned char: growing it wraps at 256.\<close>

fun Xvr_private_typePushSubtype :: "literal \<Rightarrow> literal \<Rightarrow> literal" where
  "Xvr_private_typePushSubtype (Type t c ss cap) subtype =
     Type t c (ss @ [subtype])
       (if length ss + 1 > unat cap then (if cap < 8 then 8 else cap * 2) else cap)"
| "Xvr_private_typePushSubtype l subtype = l"

definition copied_types :: "literal_type list" where
  "copied_types =
    [XVR_LITERAL_NULL, XVR_LITERAL_BOOLEAN, XVR_LITERAL_INTEGER, XVR_LITERAL_FLOAT,
     XVR_LITERAL_INT8, XVR_LITERAL_INT16, XVR_LITERAL_INT32, XVR_LITERAL_INT64,
     XVR_LITERAL_UINT8, XVR_LITERAL_UINT16, XVR_LITERAL_UINT32, XVR_LITERAL_UINT64,
     XVR_LITERAL_FUNCTION_INTERMEDIATE, XVR_LITERAL_FUNCTION_NATIVE, XVR_LITERAL_FUNCTION_HOOK,
     XVR_LITERAL_INDEX_BLANK, XVR_LITERAL_FLOAT16, XVR_LITERAL_FLOAT32, XVR_LITERAL_FLOAT64]"

fun to_dict :: "literal_dictionary \<Rightarrow> literal" where
  "to_dict d = Dict (ld_entries d) (ld_contains d) (ld_count d)"

fun copy_step :: "(literal \<Rightarrow> literal \<Rightarrow> bool) \<Rightarrow> (literal \<Rightarrow> literal) \<Rightarrow> literal \<Rightarrow> literal" where
  "copy_step eq cp (Bits t w) =
     (if t \<in> set copied_types then Bits t w else XVR_TO_NULL_LITERAL)"
| "copy_step eq cp (Str s) = Xvr_private_toStringLiteral s"
| "copy_step eq cp (Arr t xs cap) =
     (if t = XVR_LITERAL_ARRAY
      then let a = foldl (\<lambda>a x. fst (array_push cp a x)) Xvr_initLiteralArray xs in Arr t (fst a) (snd a)
      else let a = foldl (\<lambda>a x. fst (array_push cp a (cp x))) Xvr_initLiteralArray xs
           in Arr t (fst a) (snd a))"
| "copy_step eq cp (Dict es contains n) =
     to_dict (foldl (\<lambda>d e. if is_null (ent_key e) then d
                           else dictionary_set eq cp d (ent_key e) (ent_value e))
                Xvr_initLiteralDictionary es)"
| "copy_step eq cp (Ident s h) = Xvr_private_toIdentifierLiteral s"
| "copy_step eq cp (Type t c ss cap) =
     foldl (\<lambda>l s. Xvr_private_typePushSubtype l (cp s)) (Xvr_toTypeLiteralCpp t c) ss"
| "copy_step eq cp (Opaque p tag) = Opaque p tag"

definition number_value :: "literal \<Rightarrow> 32 word" where
  "number_value l =
     (if is_integer_type (lit_type l) then int_to_f32 (XVR_AS_INTEGER l) else XVR_AS_FLOAT l)"

definition bits_eq :: "literal_type \<Rightarrow> 64 word \<Rightarrow> 64 word \<Rightarrow> bool" where
  "bits_eq t a b \<longleftrightarrow>
     (case t of
        XVR_LITERAL_NULL \<Rightarrow> True
      | XVR_LITERAL_BOOLEAN \<Rightarrow> ((ucast a :: 8 word) \<noteq> 0) = ((ucast b :: 8 word) \<noteq> 0)
      | XVR_LITERAL_INTEGER \<Rightarrow> (ucast a :: 32 word) = ucast b
      | XVR_LITERAL_INT8 \<Rightarrow> (ucast a :: 8 word) = ucast b
      | XVR_LITERAL_INT16 \<Rightarrow> (ucast a :: 16 word) = ucast b
      | XVR_LITERAL_INT32 \<Rightarrow> (ucast a :: 32 word) = ucast b
      | XVR_LITERAL_INT64 \<Rightarrow> a = b
      | XVR_LITERAL_UINT8 \<Rightarrow> (ucast a :: 8 word) = ucast b
      | XVR_LITERAL_UINT16 \<Rightarrow> (ucast a :: 16 word) = ucast b
      | XVR_LITERAL_UINT32 \<Rightarrow> (ucast a :: 32 word) = ucast b
      | XVR_LITERAL_UINT64 \<Rightarrow> a = b
      | XVR_LITERAL_FLOAT \<Rightarrow> f32_eq (ucast a) (ucast b)
      | XVR_LITERAL_FLOAT16 \<Rightarrow> (ucast a :: 16 word) = ucast b
      | XVR_LITERAL_FLOAT32 \<Rightarrow> f32_eq (ucast a) (ucast b)
      | XVR_LITERAL_FLOAT64 \<Rightarrow> f64_eq a b
      | XVR_LITERAL_ANY \<Rightarrow> True
      | _ \<Rightarrow> False)"

fun same_type_eq :: "(literal \<Rightarrow> literal \<Rightarrow> bool) \<Rightarrow> (literal \<Rightarrow> literal) \<Rightarrow> literal \<Rightarrow> literal \<Rightarrow> bool" where
  "same_type_eq eq cp (Bits t a) (Bits t' b) = bits_eq t a b"
| "same_type_eq eq cp (Str s) (Str s') = refstring_eq s s'"
| "same_type_eq eq cp (Arr t xs c) (Arr t' ys c') =
     (length xs = length ys \<and> list_all (\<lambda>(x, y). eq x y) (zip xs ys))"
| "same_type_eq eq cp (Dict es c n) (Dict es' c' n') =
     (let rhs = \<lparr>ld_entries = es', ld_contains = c', ld_count = n'\<rparr>
      in list_all (\<lambda>e. is_null (ent_key e) \<or>
           dictionary_exists eq rhs (ent_key e) \<and>
           eq (ent_value e) (dictionary_get eq cp rhs (ent_key e))) es)"
| "same_type_eq eq cp (Ident s h) (Ident s' h') = (h = h' \<and> refstring_eq s s')"
| "same_type_eq eq cp (Type t c ss k) (Type t' c' ss' k') =
     (t = t' \<and> c = c' \<and> length ss = length ss' \<and>
      (t = XVR_LITERAL_ARRAY \<or> t = XVR_LITERAL_DICTIONARY \<longrightarrow>
       list_all (\<lambda>(x, y). eq x y) (zip ss ss')))"
| "same_type_eq eq cp _ _ = False"

definition eq_step :: "(literal \<Rightarrow> literal \<Rightarrow> bool) \<Rightarrow> (literal \<Rightarrow> literal) \<Rightarrow> literal \<Rightarrow> literal \<Rightarrow> bool" where
  "eq_step eq cp lhs rhs =
     (if lit_type lhs \<noteq> lit_type rhs
      then (if (is_integer_type (lit_type lhs) \<or> is_float_type (lit_type lhs)) \<and>
               (is_integer_type (lit_type rhs) \<or> is_float_type (lit_type rhs))
            then f32_eq (number_value lhs) (number_value rhs)
            else False)
      else same_type_eq eq cp lhs rhs)"

section \<open>The recursive operations\<close>

fun lit_copy :: "nat \<Rightarrow> literal \<Rightarrow> literal" and lit_eq :: "nat \<Rightarrow> literal \<Rightarrow> literal \<Rightarrow> bool" where
  "lit_copy 0 = (\<lambda>l. l)"
| "lit_copy (Suc n) = copy_step (lit_eq n) (lit_copy n)"
| "lit_eq 0 = (\<lambda>l r. False)"
| "lit_eq (Suc n) = eq_step (lit_eq n) (lit_copy n)"

definition Xvr_copyLiteral :: "literal \<Rightarrow> literal" where
  "Xvr_copyLiteral l = lit_copy (Suc (lit_depth l)) l"

definition Xvr_literalsAreEqual :: "literal \<Rightarrow> literal \<Rightarrow> bool" where
  "Xvr_literalsAreEqual l r = lit_eq (Suc (max (lit_depth l) (lit_depth r))) l r"

definition Xvr_setLiteralDictionary :: "literal_dictionary \<Rightarrow> literal \<Rightarrow> literal \<Rightarrow> literal_dictionary" where
  "Xvr_setLiteralDictionary = dictionary_set Xvr_literalsAreEqual Xvr_copyLiteral"

definition Xvr_getLiteralDictionary :: "literal_dictionary \<Rightarrow> literal \<Rightarrow> literal" where
  "Xvr_getLiteralDictionary = dictionary_get Xvr_literalsAreEqual Xvr_copyLiteral"

definition Xvr_removeLiteralDictionary :: "literal_dictionary \<Rightarrow> literal \<Rightarrow> literal_dictionary" where
  "Xvr_removeLiteralDictionary = dictionary_remove Xvr_literalsAreEqual"

definition Xvr_existsLiteralDictionary :: "literal_dictionary \<Rightarrow> literal \<Rightarrow> bool" where
  "Xvr_existsLiteralDictionary = dictionary_exists Xvr_literalsAreEqual"

definition Xvr_pushLiteralArray :: "literal_array \<Rightarrow> literal \<Rightarrow> literal_array \<times> nat" where
  "Xvr_pushLiteralArray = array_push Xvr_copyLiteral"

definition Xvr_popLiteralArray :: "literal_array \<Rightarrow> literal \<times> literal_array" where
  "Xvr_popLiteralArray array =
     (if fst array = [] then (XVR_TO_NULL_LITERAL, array)
      else (last (fst array), (butlast (fst array), snd array)))"

fun find_from :: "nat \<Rightarrow> literal list \<Rightarrow> literal \<Rightarrow> int" where
  "find_from i [] l = -1"
| "find_from i (x # xs) l =
     (if lit_type x \<noteq> lit_type l then find_from (Suc i) xs l
      else if Xvr_literalsAreEqual x l then int i
      else find_from (Suc i) xs l)"

definition Xvr_findLiteralIndex :: "literal_array \<Rightarrow> literal \<Rightarrow> int" where
  "Xvr_findLiteralIndex array l = find_from 0 (fst array) l"

definition Xvr_setLiteralArray :: "literal_array \<Rightarrow> literal \<Rightarrow> literal \<Rightarrow> bool \<times> literal_array" where
  "Xvr_setLiteralArray array index val =
     (if \<not> is_integer_type (lit_type index) then (False, array)
      else let idx = sint (XVR_AS_INTEGER index)
           in if idx < 0 \<or> idx \<ge> int (length (fst array)) then (False, array)
              else (True, ((fst array)[nat idx := Xvr_copyLiteral val], snd array)))"

definition Xvr_getLiteralArray :: "literal_array \<Rightarrow> literal \<Rightarrow> literal" where
  "Xvr_getLiteralArray array index =
     (if \<not> is_integer_type (lit_type index) then XVR_TO_NULL_LITERAL
      else let idx = sint (XVR_AS_INTEGER index)
           in if idx < 0 \<or> idx \<ge> int (length (fst array)) then XVR_TO_NULL_LITERAL
              else Xvr_copyLiteral (fst array ! nat idx))"


section \<open>The depth is enough\<close>

lemma lits_depth_less: "0 < d \<Longrightarrow> lits_depth xs < d \<longleftrightarrow> (\<forall>x\<in>set xs. lit_depth x < d)"
  by (induction xs) auto

definition bounded :: "nat \<Rightarrow> entry list \<Rightarrow> bool" where
  "bounded d es \<longleftrightarrow> 0 < d \<and> (\<forall>e\<in>set es. lit_depth (ent_key e) < d \<and> lit_depth (ent_value e) < d)"

lemma ents_depth_less: "0 < d \<Longrightarrow> ents_depth es < d \<longleftrightarrow> bounded d es"
proof (induction es)
  case (Cons e es)
  then show ?case by (cases e) (auto simp: bounded_def)
qed (simp add: bounded_def)

text \<open>Two pairs of operations that agree below a depth.\<close>

definition agree ::
    "nat \<Rightarrow> (literal \<Rightarrow> literal \<Rightarrow> bool) \<Rightarrow> (literal \<Rightarrow> literal) \<Rightarrow> (literal \<Rightarrow> literal \<Rightarrow> bool)
       \<Rightarrow> (literal \<Rightarrow> literal) \<Rightarrow> bool" where
  "agree d eq cp eq' cp' \<longleftrightarrow>
     (\<forall>x. lit_depth x < d \<longrightarrow> cp x = cp' x \<and> lit_depth (cp x) \<le> lit_depth x) \<and>
     (\<forall>x y. lit_depth x < d \<longrightarrow> lit_depth y < d \<longrightarrow> eq x y = eq' x y)"

lemma agreeD:
  assumes "agree d eq cp eq' cp'"
  shows "lit_depth x < d \<Longrightarrow> cp x = cp' x" "lit_depth x < d \<Longrightarrow> lit_depth (cp x) < d"
    "lit_depth x < d \<Longrightarrow> lit_depth y < d \<Longrightarrow> eq x y = eq' x y"
  using assms unfolding agree_def by (auto intro: le_less_trans)

lemma probe_agree:
  assumes "agree d eq cp eq' cp'" "bounded d es" "lit_depth k < d" "i < length es"
  shows "probe eq es k me i n = probe eq' es k me i n"
  using assms(4)
proof (induction n arbitrary: i)
  case (Suc n)
  have "(i + 1) mod length es < length es" using Suc.prems by (intro mod_less_divisor) auto
  then have IH: "probe eq es k me ((i + 1) mod length es) n = probe eq' es k me ((i + 1) mod length es) n"
    by (rule Suc.IH)
  have "eq k (ent_key (es ! i)) = eq' k (ent_key (es ! i))"
    using assms Suc.prems by (intro agreeD(3)) (auto simp: bounded_def)
  then show ?case using IH unfolding probe_step by (simp add: hit_def)
qed simp

lemma getEntryArray_agree:
  assumes "agree d eq cp eq' cp'" "bounded d es" "lit_depth k < d"
  shows "getEntryArray eq es k h me = getEntryArray eq' es k h me"
  using probe_agree [OF assms] by (cases "es = []") (simp_all add: getEntryArray_home)

lemma getEntryArray_less: "getEntryArray eq es k h me = Some i \<Longrightarrow> i < length es"
  using getEntryArray_Some(1) by (cases "es = []") (auto simp: getEntryArray_home)

lemma bounded_update: "bounded d es \<Longrightarrow> lit_depth k < d \<Longrightarrow> lit_depth v < d \<Longrightarrow> bounded d (es[i := Entry k v])"
  by (auto simp: bounded_def dest!: set_update_subset_insert [THEN subsetD])

lemma rehash_agree:
  assumes "agree d eq cp eq' cp'" "bounded d es" "bounded d old"
  shows "foldl (rehash_entry eq) es old = foldl (rehash_entry eq') es old \<and>
    bounded d (foldl (rehash_entry eq) es old)"
  using assms(2,3)
proof (induction old arbitrary: es)
  case (Cons e old)
  have e: "lit_depth (ent_key e) < d" "lit_depth (ent_value e) < d" and o: "bounded d old" and "0 < d"
    using Cons.prems(2) by (auto simp: bounded_def)
  have g: "getEntryArray eq es XVR_TO_NULL_LITERAL h me = getEntryArray eq' es XVR_TO_NULL_LITERAL h me" for h me
    using \<open>0 < d\<close> by (intro getEntryArray_agree [OF assms(1) Cons.prems(1)]) simp
  have r: "rehash_entry eq es e = rehash_entry eq' es e" by (simp add: rehash_entry_def g)
  have "bounded d (rehash_entry eq es e)"
    using bounded_update [OF Cons.prems(1) e] Cons.prems(1)
    by (auto simp: rehash_entry_def split: option.split)
  then show ?case using Cons.IH [OF _ o, of "rehash_entry eq es e"] r by auto
qed simp

lemma dictionary_set_agree:
  assumes a: "agree d eq cp eq' cp'" and b: "bounded d (ld_entries D)"
    and k: "lit_depth key < d" "lit_depth val < d"
  shows "dictionary_set eq cp D key val = dictionary_set eq' cp' D key val \<and>
    bounded d (ld_entries (dictionary_set eq cp D key val))"
proof -
  have "0 < d" using b by (simp add: bounded_def)
  then have rep: "bounded d (replicate n empty_entry)" for n by (auto simp: bounded_def)
  note adj = rehash_agree [OF a rep b, folded adjustEntryCapacity_def]
  have adjb: "bounded d (adjustEntryCapacity eq (ld_entries D) n)" for n using adj by blast
  have adjq: "adjustEntryCapacity eq (ld_entries D) n = adjustEntryCapacity eq' (ld_entries D) n" for n
    using adj by blast
  have b': "bounded d (if c then adjustEntryCapacity eq (ld_entries D) n else ld_entries D)" for c n
    using adjb b by simp
  have g: "bounded d es \<Longrightarrow> getEntryArray eq es key h me = getEntryArray eq' es key h me" for es h me
    by (rule getEntryArray_agree [OF a _ k(1)])
  have c: "cp key = cp' key" "cp val = cp' val" "lit_depth (cp key) < d" "lit_depth (cp val) < d"
    using agreeD(1,2) [OF a] k by auto
  have s: "setEntryArray eq cp (ld_entries D) n key val h = setEntryArray eq' cp' (ld_entries D) n key val h" for n h
    unfolding setEntryArray_def Let_def c(1,2) adjq
    by (simp only: g [OF b' [unfolded adjq]])
  have "bounded d (fst (case r of None \<Rightarrow> (es, False)
      | Some i \<Rightarrow> (es[i := Entry (cp key) (cp val)], f i)))" if "bounded d es" for r es and f :: "nat \<Rightarrow> bool"
    using that bounded_update [OF that c(3,4)] by (cases r) simp_all
  note res = this
  have s2: "bounded d (fst (setEntryArray eq cp (ld_entries D) n key val h))" for n h
    unfolding setEntryArray_def Let_def by (rule res [OF b'])
  show ?thesis using b s2 by (auto simp: dictionary_set_def Let_def case_prod_beta s [symmetric])
qed


lemma foldl_push:
  "fst (foldl (\<lambda>a x. fst (array_push cp a (f x))) a xs) = fst a @ map (\<lambda>x. cp (f x)) xs"
  by (induction xs arbitrary: a) (simp_all add: array_push_def)

lemma foldl_cong_bounded:
  assumes "\<And>a x. P a \<Longrightarrow> x \<in> set xs \<Longrightarrow> f a x = g a x \<and> P (f a x)" "P a"
  shows "foldl f a xs = foldl g a xs \<and> P (foldl f a xs)"
  using assms
proof (induction xs arbitrary: a)
  case (Cons x xs)
  have "f a x = g a x \<and> P (f a x)" by (rule Cons.prems) (simp_all add: Cons.prems(2))
  then have "f a x = g a x" "P (f a x)" by blast+
  then show ?case using Cons.IH [of "f a x"] Cons.prems(1) by (metis foldl_Cons list.set_intros(2))
qed simp

lemma push_subtype_depth:
  assumes "lit_depth l \<le> Suc n" "lit_depth s \<le> n"
  shows "lit_depth (Xvr_private_typePushSubtype l s) \<le> Suc n"
proof -
  have *: "lits_depth (ss @ [s]) = max (lits_depth ss) (lit_depth s)" for ss by (induction ss) auto
  show ?thesis using assms by (cases l) (auto simp: *)
qed

lemma init_bounded: "0 < d \<Longrightarrow> bounded d (ld_entries Xvr_initLiteralDictionary)"
  by (auto simp: bounded_def Xvr_initLiteralDictionary_def)

lemma copy_step_agree:
  assumes "agree (lit_depth l) eq cp eq' cp'"
  shows "copy_step eq cp l = copy_step eq' cp' l \<and> lit_depth (copy_step eq cp l) \<le> lit_depth l"
proof (cases l)
  case (Bits t w)
  then show ?thesis by simp
next
  case (Str s)
  then show ?thesis by (simp add: Xvr_private_toStringLiteral_def)
next
  case (Ident s h)
  then show ?thesis by (simp add: Xvr_private_toIdentifierLiteral_def)
next
  case (Opaque p tag)
  then show ?thesis by simp
next
  case (Arr t xs cap)
  let ?d = "Suc (lits_depth xs)"
  have a: "agree ?d eq cp eq' cp'" using assms Arr by simp
  have x: "lit_depth x < ?d" if "x \<in> set xs" for x using lits_depth_less [of ?d xs] that by simp
  have one: "array_push cp a x = array_push cp' a x" "array_push cp a (cp x) = array_push cp' a (cp' x)"
    if "x \<in> set xs" for a x
    using agreeD(1,2) [OF a] x [OF that] by (auto simp: array_push_def)
  have m: "foldl (\<lambda>a x. fst (array_push cp a x)) Xvr_initLiteralArray xs =
      foldl (\<lambda>a x. fst (array_push cp' a x)) Xvr_initLiteralArray xs"
    "foldl (\<lambda>a x. fst (array_push cp a (cp x))) Xvr_initLiteralArray xs =
      foldl (\<lambda>a x. fst (array_push cp' a (cp' x))) Xvr_initLiteralArray xs"
    using one by (auto intro!: foldl_cong)
  have "lits_depth (map cp xs) < ?d" "lits_depth (map (\<lambda>x. cp (cp x)) xs) < ?d"
    using agreeD(2) [OF a] x by (auto simp: lits_depth_less)
  then show ?thesis
    using Arr m(1) m(2) foldl_push [where cp = cp and f = "\<lambda>x. x" and a = Xvr_initLiteralArray and xs = xs]
      foldl_push [where cp = cp and f = cp and a = Xvr_initLiteralArray and xs = xs]
    by (simp add: Let_def less_Suc_eq_le) (simp add: Xvr_initLiteralArray_def)
next
  case (Type t c ss cap)
  let ?n = "lits_depth ss"
  have a: "agree (Suc ?n) eq cp eq' cp'" using assms Type by simp
  have "foldl (\<lambda>l s. Xvr_private_typePushSubtype l (cp s)) (Xvr_toTypeLiteralCpp t c) ss =
      foldl (\<lambda>l s. Xvr_private_typePushSubtype l (cp' s)) (Xvr_toTypeLiteralCpp t c) ss \<and>
    lit_depth (foldl (\<lambda>l s. Xvr_private_typePushSubtype l (cp s)) (Xvr_toTypeLiteralCpp t c) ss) \<le> Suc ?n"
  proof (rule foldl_cong_bounded [where P = "\<lambda>l. lit_depth l \<le> Suc ?n"])
    fix l x assume l: "lit_depth l \<le> Suc ?n" and "x \<in> set ss"
    then have "lit_depth x < Suc ?n" using lits_depth_less [of "Suc ?n" ss] by simp
    then show "Xvr_private_typePushSubtype l (cp x) = Xvr_private_typePushSubtype l (cp' x) \<and>
        lit_depth (Xvr_private_typePushSubtype l (cp x)) \<le> Suc ?n"
      using agreeD(1,2) [OF a, of x] push_subtype_depth [OF l, of "cp x"] by (simp add: less_Suc_eq_le)
  qed (simp add: Xvr_toTypeLiteralCpp_def)
  then show ?thesis using Type by auto
next
  case (Dict es c n)
  let ?d = "Suc (ents_depth es)"
  have a: "agree ?d eq cp eq' cp'" using assms Dict by simp
  have b: "bounded ?d es" using ents_depth_less [of ?d es] by simp
  let ?f = "\<lambda>eq cp d e. if is_null (ent_key e) then d else dictionary_set eq cp d (ent_key e) (ent_value e)"
  have "foldl (?f eq cp) Xvr_initLiteralDictionary es = foldl (?f eq' cp') Xvr_initLiteralDictionary es \<and>
      bounded ?d (ld_entries (foldl (?f eq cp) Xvr_initLiteralDictionary es))"
  proof (rule foldl_cong_bounded [where P = "\<lambda>d. bounded ?d (ld_entries d)"])
    fix D :: literal_dictionary and e assume D: "bounded ?d (ld_entries D)" and "e \<in> set es"
    then have e: "lit_depth (ent_key e) < ?d" "lit_depth (ent_value e) < ?d"
      using b by (auto simp: bounded_def)
    show "?f eq cp D e = ?f eq' cp' D e \<and> bounded ?d (ld_entries (?f eq cp D e))"
      using dictionary_set_agree [OF a D e] D by auto
  qed (simp add: init_bounded)
  then have q: "foldl (?f eq cp) Xvr_initLiteralDictionary es = foldl (?f eq' cp') Xvr_initLiteralDictionary es"
    and d: "bounded ?d (ld_entries (foldl (?f eq cp) Xvr_initLiteralDictionary es))"
    by blast+
  have "ents_depth (ld_entries (foldl (?f eq cp) Xvr_initLiteralDictionary es)) < ?d"
    using d ents_depth_less [OF zero_less_Suc] by blast
  then have "lit_depth (copy_step eq cp l) \<le> lit_depth l" using Dict by simp
  then show ?thesis using Dict q by simp
qed


lemma list_all_zip_cong:
  assumes "\<And>x y. x \<in> set xs \<Longrightarrow> y \<in> set ys \<Longrightarrow> eq x y = eq' x y"
  shows "list_all (\<lambda>(x, y). eq x y) (zip xs ys) = list_all (\<lambda>(x, y). eq' x y) (zip xs ys)"
  by (rule list.pred_cong) (use assms in \<open>auto dest: set_zip_leftD set_zip_rightD\<close>)

lemma same_type_eq_agree:
  assumes "agree d eq cp eq' cp'" "lit_depth l \<le> d" "lit_depth r \<le> d"
  shows "same_type_eq eq cp l r = same_type_eq eq' cp' l r"
proof -
  have lists: "list_all (\<lambda>(x, y). eq x y) (zip xs ys) = list_all (\<lambda>(x, y). eq' x y) (zip xs ys)"
    if "lits_depth xs < d" "lits_depth ys < d" for xs ys
  proof (rule list_all_zip_cong)
    fix x y assume "x \<in> set xs" "y \<in> set ys"
    moreover have "0 < d" using that by simp
    ultimately have "lit_depth x < d" "lit_depth y < d"
      using that lits_depth_less [of d xs] lits_depth_less [of d ys] by blast+
    then show "eq x y = eq' x y" by (rule agreeD(3) [OF assms(1)])
  qed
  have dict: "(is_null (ent_key e) \<or> dictionary_exists eq R (ent_key e) \<and>
        eq (ent_value e) (dictionary_get eq cp R (ent_key e))) =
      (is_null (ent_key e) \<or> dictionary_exists eq' R (ent_key e) \<and>
        eq' (ent_value e) (dictionary_get eq' cp' R (ent_key e)))"
    if R: "bounded d (ld_entries R)" and e: "lit_depth (ent_key e) < d" "lit_depth (ent_value e) < d"
    for e and R :: literal_dictionary
  proof -
    note g = getEntryArray_agree [OF assms(1) R e(1)]
    have v: "lit_depth (ent_value (ld_entries R ! i)) < d" if "i < length (ld_entries R)" for i
      using R that by (auto simp: bounded_def)
    have get: "dictionary_get eq cp R (ent_key e) = dictionary_get eq' cp' R (ent_key e) \<and>
        lit_depth (dictionary_get eq cp R (ent_key e)) < d"
      using v agreeD(1,2) [OF assms(1)] getEntryArray_less R
      by (auto simp: dictionary_get_def g bounded_def split: option.split)
    then have "eq (ent_value e) (dictionary_get eq cp R (ent_key e)) =
        eq' (ent_value e) (dictionary_get eq' cp' R (ent_key e))"
      using agreeD(3) [OF assms(1) e(2)] by metis
    then show ?thesis by (simp add: dictionary_exists_def g)
  qed
  show ?thesis
  proof (cases "(eq, cp, l, r)" rule: same_type_eq.cases)
    case (4 eqx cpx es c n es' c' n')
    let ?R = "\<lparr>ld_entries = es', ld_contains = c', ld_count = n'\<rparr>"
    have "0 < d" using assms(2) 4 by simp
    have lt: "ents_depth es < d" "ents_depth es' < d" using assms(2,3) 4 by (simp_all add: Suc_le_eq)
    have b: "bounded d es" "bounded d (ld_entries ?R)"
      using lt ents_depth_less [OF \<open>0 < d\<close>] by simp_all
    have "list_all (\<lambda>e. is_null (ent_key e) \<or> dictionary_exists eq ?R (ent_key e) \<and>
          eq (ent_value e) (dictionary_get eq cp ?R (ent_key e))) es =
        list_all (\<lambda>e. is_null (ent_key e) \<or> dictionary_exists eq' ?R (ent_key e) \<and>
          eq' (ent_value e) (dictionary_get eq' cp' ?R (ent_key e))) es"
    proof (rule list.pred_cong [OF refl])
      fix e assume "e \<in> set es"
      then have "lit_depth (ent_key e) < d" "lit_depth (ent_value e) < d" using b(1) by (auto simp: bounded_def)
      then show "(is_null (ent_key e) \<or> dictionary_exists eq ?R (ent_key e) \<and>
          eq (ent_value e) (dictionary_get eq cp ?R (ent_key e))) =
        (is_null (ent_key e) \<or> dictionary_exists eq' ?R (ent_key e) \<and>
          eq' (ent_value e) (dictionary_get eq' cp' ?R (ent_key e)))" by (rule dict [OF b(2)])
    qed
    moreover have "l = Dict es c n" "r = Dict es' c' n'" using 4 by simp_all
    ultimately show ?thesis by (simp only: same_type_eq.simps Let_def)
  qed (use assms(2,3) lists in \<open>auto simp: Suc_le_eq\<close>)
qed

lemma eq_step_agree:
  assumes "agree d eq cp eq' cp'" "lit_depth l \<le> d" "lit_depth r \<le> d"
  shows "eq_step eq cp l r = eq_step eq' cp' l r"
  using same_type_eq_agree [OF assms] by (simp add: eq_step_def)

lemma agree_mono: "agree n eq cp eq' cp' \<Longrightarrow> m \<le> n \<Longrightarrow> agree m eq cp eq' cp'"
  unfolding agree_def by (meson less_le_trans)

lemma fuel_step: "agree n (lit_eq n) (lit_copy n) (lit_eq (Suc n)) (lit_copy (Suc n))"
proof (induction n)
  case 0
  then show ?case by (simp add: agree_def)
next
  case (Suc n)
  have sub: "agree (lit_depth l) (lit_eq n) (lit_copy n) (lit_eq (Suc n)) (lit_copy (Suc n))"
    if "lit_depth l < Suc n" for l using agree_mono [OF Suc] that by simp
  have "lit_copy (Suc n) l = lit_copy (Suc (Suc n)) l \<and> lit_depth (lit_copy (Suc n) l) \<le> lit_depth l"
    if "lit_depth l < Suc n" for l
    using copy_step_agree [OF sub [OF that]] by (metis lit_copy.simps(2))
  moreover have "lit_eq (Suc n) l r = lit_eq (Suc (Suc n)) l r"
    if "lit_depth l < Suc n" "lit_depth r < Suc n" for l r
    using eq_step_agree [OF Suc, of l r] that by (metis less_Suc_eq_le lit_eq.simps(2))
  ultimately show ?case unfolding agree_def by blast
qed

lemma fuel_enough:
  assumes "n \<le> m"
  shows "agree n (lit_eq n) (lit_copy n) (lit_eq m) (lit_copy m)"
  using assms
proof (induction m rule: dec_induct)
  case base
  then show ?case using fuel_step [of n] unfolding agree_def by metis
next
  case (step m)
  then show ?case using fuel_step [of m] unfolding agree_def by (metis order.strict_trans2)
qed

lemma copy_fuel: "lit_depth l < n \<Longrightarrow> lit_copy n l = Xvr_copyLiteral l"
  using fuel_enough [of "Suc (lit_depth l)" n] unfolding agree_def Xvr_copyLiteral_def by auto

lemma equal_fuel:
  "lit_depth l < n \<Longrightarrow> lit_depth r < n \<Longrightarrow> lit_eq n l r = Xvr_literalsAreEqual l r"
  using fuel_enough [of "Suc (max (lit_depth l) (lit_depth r))" n]
  unfolding agree_def Xvr_literalsAreEqual_def by auto

lemma copy_depth: "lit_depth (Xvr_copyLiteral l) \<le> lit_depth l"
  using fuel_step [of "Suc (lit_depth l)"] unfolding agree_def Xvr_copyLiteral_def by auto

lemma agree_code: "agree n (lit_eq n) (lit_copy n) Xvr_literalsAreEqual Xvr_copyLiteral"
  using copy_fuel equal_fuel copy_depth by (auto simp: agree_def)

text \<open>The equations of the code.\<close>

lemma copy_unfold_raw: "Xvr_copyLiteral l = copy_step Xvr_literalsAreEqual Xvr_copyLiteral l"
  using copy_step_agree [OF agree_code [of "lit_depth l"]] by (simp add: Xvr_copyLiteral_def)

lemma equal_unfold_raw:
  "Xvr_literalsAreEqual l r = eq_step Xvr_literalsAreEqual Xvr_copyLiteral l r"
  using eq_step_agree [OF agree_code [of "max (lit_depth l) (lit_depth r)"], of l r]
  by (simp add: Xvr_literalsAreEqual_def)

text \<open>Copying and comparing literals terminate on every literal, however deeply arrays, types and
  dictionaries are nested and used as keys: the recursion bounded by the nesting depth satisfies
  the unbounded equations of the code.\<close>

theorem literal_recursion_well_founded:
  "Xvr_copyLiteral l = copy_step Xvr_literalsAreEqual Xvr_copyLiteral l \<and>
   Xvr_literalsAreEqual l r = eq_step Xvr_literalsAreEqual Xvr_copyLiteral l r"
  by (intro conjI copy_unfold_raw equal_unfold_raw)

end
