(* ===== verification/LitProps.thy ===== *)
theory LitProps
  imports LitOps
begin

text \<open>
  What literals and their dictionaries guarantee. On plain keys (booleans, ints, strings and
  identifiers without an embedded NUL) equality is identity and a copy is the same literal, so the
  locale \<open>keyed\<close> of theory LitDictionary has its interpretation on the code's own operations and
  the dictionary is a finite map. The section on equality shows where it is not an equivalence.
\<close>

section \<open>Plain keys\<close>

fun plain_key :: "literal \<Rightarrow> bool" where
  "plain_key (Bits t w) =
     (t = XVR_LITERAL_BOOLEAN \<and> (w = 0 \<or> w = 1) \<or>
      t = XVR_LITERAL_INTEGER \<and> w = ucast (ucast w :: 32 word))"
| "plain_key (Str s) = no_nul s"
| "plain_key (Ident s h) = (no_nul s \<and> h = hashString s)"
| "plain_key _ = False"

lemma copy_plain: "plain_key k \<Longrightarrow> Xvr_copyLiteral k = k"
  by (subst copy_unfold_raw, cases k)
     (auto simp: copied_types_def Xvr_private_toStringLiteral_def Xvr_private_toIdentifierLiteral_def)

lemma plain_int_eq:
  fixes a b :: "64 word"
  assumes "a = ucast (ucast a :: 32 word)" "b = ucast (ucast b :: 32 word)"
  shows "(ucast a :: 32 word) = ucast b \<longleftrightarrow> a = b"
  using assms by metis

lemma equal_plain: "plain_key k \<Longrightarrow> plain_key k' \<Longrightarrow> Xvr_literalsAreEqual k k' \<longleftrightarrow> k = k'"
  by (subst equal_unfold_raw, cases k; cases k')
     (auto simp: eq_step_def bits_eq_def is_integer_type_def is_float_type_def refstring_eq_iff plain_int_eq)

lemma null_not_plain: "plain_key k \<Longrightarrow> \<not> Xvr_literalsAreEqual XVR_TO_NULL_LITERAL k"
  by (subst equal_unfold_raw, cases k) (auto simp: eq_step_def is_integer_type_def is_float_type_def)

lemma plain_not_bad: "plain_key k \<Longrightarrow> \<not> bad_key k"
  by (cases k) (auto simp: bad_key_def is_function_type_def)

interpretation dict: keyed Xvr_literalsAreEqual Xvr_copyLiteral plain_key
  by unfold_locales (auto simp: equal_plain copy_plain null_not_plain plain_not_bad)

section \<open>The dictionary as a finite map\<close>

datatype dict_op = SetKey literal literal | RemoveKey literal

fun op_key :: "dict_op \<Rightarrow> literal" where
  "op_key (SetKey k v) = k"
| "op_key (RemoveKey k) = k"

fun run_op :: "literal_dictionary \<Rightarrow> dict_op \<Rightarrow> literal_dictionary" where
  "run_op d (SetKey k v) = Xvr_setLiteralDictionary d k v"
| "run_op d (RemoveKey k) = Xvr_removeLiteralDictionary d k"

text \<open>The same operation on a map.\<close>

fun map_op :: "(literal \<rightharpoonup> literal) \<Rightarrow> dict_op \<Rightarrow> (literal \<rightharpoonup> literal)" where
  "map_op m (SetKey k v) = m(k \<mapsto> Xvr_copyLiteral v)"
| "map_op m (RemoveKey k) = m(k := None)"

lemma dict_run:
  assumes "dict_inv plain_key d" "list_all (\<lambda>op. plain_key (op_key op)) ops"
  shows "dict_inv plain_key (foldl run_op d ops) \<and>
    dict_lookup (ld_entries (foldl run_op d ops)) = foldl map_op (dict_lookup (ld_entries d)) ops"
  using assms
proof (induction ops arbitrary: d)
  case (Cons op ops)
  have "dict_inv plain_key (run_op d op) \<and>
      dict_lookup (ld_entries (run_op d op)) = map_op (dict_lookup (ld_entries d)) op"
    using Cons.prems dict.set_correct dict.remove_correct
    by (cases op) (simp_all add: Xvr_setLiteralDictionary_def Xvr_removeLiteralDictionary_def)
  then show ?case using Cons by simp
qed simp

lemma count_is_card:
  assumes "dict_inv plain_key d"
  shows "ld_count d = int (card (dom (dict_lookup (ld_entries d))))"
proof -
  let ?es = "ld_entries d"
  have t: "table_inv plain_key ?es" using assms by (simp add: dict_inv_def)
  have "dom (dict_lookup ?es) = set (map ent_key (filter (\<lambda>e. \<not> is_null (ent_key e)) ?es))"
    by (auto simp: dict_lookup_def find_Some_iff find_None_iff domIff image_iff dom_def)
  then have "card (dom (dict_lookup ?es)) = live_entries ?es"
    using dict.live_distinct [OF t] by (metis distinct_card length_map)
  then show ?thesis using assms by (simp add: dict_inv_def)
qed

text \<open>C3: Any sequence of insertions and removals of plain keys on a fresh dictionary, with the probing,
  the tombstones and the growth it goes through, behaves as the same sequence on a map: lookup,
  membership and the entry count all agree with the map.\<close>

theorem dictionary_refines_map:
  assumes "list_all (\<lambda>op. plain_key (op_key op)) ops" and "plain_key k"
    and "d = foldl run_op Xvr_initLiteralDictionary ops" and "m = foldl map_op Map.empty ops"
  shows "Xvr_getLiteralDictionary d k =
      (case m k of None \<Rightarrow> XVR_TO_NULL_LITERAL | Some v \<Rightarrow> Xvr_copyLiteral v) \<and>
    Xvr_existsLiteralDictionary d k = (m k \<noteq> None) \<and>
    ld_count d = int (card (dom m))"
proof -
  have e: "dict_lookup (ld_entries Xvr_initLiteralDictionary) = Map.empty"
    using dict.init_inv(2) by blast
  have "dict_inv plain_key d" "dict_lookup (ld_entries d) = m"
    using dict_run [OF dict.init_inv(1) assms(1)] e assms(3,4) by simp_all
  then show ?thesis
    using dict.get_correct [OF _ assms(2)] dict.exists_correct [OF _ assms(2)] count_is_card
    by (simp add: Xvr_getLiteralDictionary_def Xvr_existsLiteralDictionary_def)
qed

lemma dictionary_refines_map_witness:
  "Xvr_getLiteralDictionary
     (foldl run_op Xvr_initLiteralDictionary [SetKey (Str ''a'') (Str ''x''), SetKey (Str ''b'') (Str ''y''), RemoveKey (Str ''a'')])
     (Str ''b'') = Str ''y''"
  using dictionary_refines_map
    [of "[SetKey (Str ''a'') (Str ''x''), SetKey (Str ''b'') (Str ''y''), RemoveKey (Str ''a'')]" "Str ''b''", OF _ _ refl refl]
  by (simp add: copy_plain)

text \<open>The table never fills up: after any such sequence at least a quarter of the slots and so one
  slot at the least is empty, which is what ends every search and keeps the slot pointer non-NULL.\<close>

theorem dictionary_keeps_empty_slots:
  assumes "list_all (\<lambda>op. plain_key (op_key op)) ops"
    and "d = foldl run_op Xvr_initLiteralDictionary ops"
  shows "4 * used_slots (ld_entries d) \<le> 3 * length (ld_entries d) \<and>
    8 \<le> length (ld_entries d) \<and> (\<exists>i<length (ld_entries d). empty_slot (ld_entries d ! i))"
proof -
  have "dict_inv plain_key d" using dict_run [OF dict.init_inv(1) assms(1)] assms(2) by simp
  then have "used_slots (ld_entries d) \<le> ld_contains d" "4 * ld_contains d \<le> 3 * length (ld_entries d)"
    "8 \<le> length (ld_entries d)" by (simp_all add: dict_inv_def)
  then show ?thesis using dict.some_empty [of "ld_entries d"] by auto
qed

lemma dictionary_keeps_empty_slots_witness:
  "\<exists>i<length (ld_entries (foldl run_op Xvr_initLiteralDictionary [SetKey (Str ''a'') (Str ''x'')])).
     empty_slot (ld_entries (foldl run_op Xvr_initLiteralDictionary [SetKey (Str ''a'') (Str ''x'')]) ! i)"
  using dictionary_keeps_empty_slots [of "[SetKey (Str ''a'') (Str ''x'')]", OF _ refl] by simp

section \<open>Equality\<close>

fun as_dictionary :: "literal \<Rightarrow> literal_dictionary" where
  "as_dictionary (Dict es c n) = \<lparr>ld_entries = es, ld_contains = c, ld_count = n\<rparr>"
| "as_dictionary _ = Xvr_initLiteralDictionary"

text \<open>Two dictionaries with plain keys are equal for the code exactly when every entry of the left one
  has an equal value under the same key in the right one: the right one may hold more, so the
  comparison is inclusion and not equality.\<close>

theorem dictionary_equality_is_inclusion:
  assumes "dict_inv plain_key d1" "dict_inv plain_key d2"
  shows "Xvr_literalsAreEqual (to_dict d1) (to_dict d2) \<longleftrightarrow>
    (\<forall>k v. dict_lookup (ld_entries d1) k = Some v \<longrightarrow>
       (\<exists>w. dict_lookup (ld_entries d2) k = Some w \<and> Xvr_literalsAreEqual v (Xvr_copyLiteral w)))"
proof -
  let ?e1 = "ld_entries d1" and ?e2 = "ld_entries d2"
  have t: "table_inv plain_key ?e1" using assms(1) by (simp add: dict_inv_def)
  have rec: "\<lparr>ld_entries = ?e2, ld_contains = ld_contains d2, ld_count = ld_count d2\<rparr> = d2" by simp
  have "Xvr_literalsAreEqual (to_dict d1) (to_dict d2) \<longleftrightarrow>
      (\<forall>e\<in>set ?e1. is_null (ent_key e) \<or> dictionary_exists Xvr_literalsAreEqual d2 (ent_key e) \<and>
         Xvr_literalsAreEqual (ent_value e) (dictionary_get Xvr_literalsAreEqual Xvr_copyLiteral d2 (ent_key e)))"
    by (subst equal_unfold_raw) (simp add: eq_step_def Let_def list_all_iff rec)
  also have "\<dots> \<longleftrightarrow> (\<forall>e\<in>set ?e1. is_null (ent_key e) \<or>
      (\<exists>w. dict_lookup ?e2 (ent_key e) = Some w \<and> Xvr_literalsAreEqual (ent_value e) (Xvr_copyLiteral w)))"
  proof (rule ball_cong [OF refl])
    fix e assume "e \<in> set ?e1"
    then have "plain_key (ent_key e)" if "\<not> is_null (ent_key e)"
      using dict.key_ok [OF t] that by (auto simp: in_set_conv_nth)
    then show "(is_null (ent_key e) \<or> dictionary_exists Xvr_literalsAreEqual d2 (ent_key e) \<and>
         Xvr_literalsAreEqual (ent_value e) (dictionary_get Xvr_literalsAreEqual Xvr_copyLiteral d2 (ent_key e))) =
       (is_null (ent_key e) \<or>
      (\<exists>w. dict_lookup ?e2 (ent_key e) = Some w \<and> Xvr_literalsAreEqual (ent_value e) (Xvr_copyLiteral w)))"
      using dict.exists_correct [OF assms(2)] dict.get_correct [OF assms(2)]
      by (cases "is_null (ent_key e)") (auto split: option.splits)
  qed
  also have "\<dots> \<longleftrightarrow> (\<forall>k v. dict_lookup ?e1 k = Some v \<longrightarrow>
       (\<exists>w. dict_lookup ?e2 k = Some w \<and> Xvr_literalsAreEqual v (Xvr_copyLiteral w)))" (is "?L = ?R")
  proof
    assume ?L
    show ?R
    proof (intro allI impI)
      fix k v assume "dict_lookup ?e1 k = Some v"
      then obtain e where "e \<in> set ?e1" "\<not> is_null (ent_key e)" "ent_key e = k" "ent_value e = v"
        by (auto simp: dict_lookup_def find_Some_iff) (metis nth_mem)
      then show "\<exists>w. dict_lookup ?e2 k = Some w \<and> Xvr_literalsAreEqual v (Xvr_copyLiteral w)"
        using \<open>?L\<close> by blast
    qed
  next
    assume ?R
    then show ?L using lookup_at [OF t] by (metis in_set_conv_nth)
  qed
  finally show ?thesis .
qed

lemma dictionary_equality_is_inclusion_witness:
  "Xvr_literalsAreEqual (to_dict Xvr_initLiteralDictionary)
     (to_dict (Xvr_setLiteralDictionary Xvr_initLiteralDictionary (Str ''a'') (Str ''x'')))"
proof -
  have "dict_inv plain_key (Xvr_setLiteralDictionary Xvr_initLiteralDictionary (Str ''a'') (Str ''x''))"
    using dict.set_correct [OF dict.init_inv(1), of "Str ''a''"] by (simp add: Xvr_setLiteralDictionary_def)
  from dictionary_equality_is_inclusion [OF dict.init_inv(1) this] dict.init_inv(2)
  show ?thesis by simp
qed


text \<open>An int and the float of the same value are equal literals with different hashes, so a
  dictionary that holds one finds its value under the other but denies that the key exists.\<close>

theorem equal_literals_hash_apart:
  "Xvr_literalsAreEqual (Bits XVR_LITERAL_INTEGER 1) (Bits XVR_LITERAL_FLOAT 0x3F800000) \<and>
   Xvr_hashLiteral (Bits XVR_LITERAL_INTEGER 1) \<noteq> Xvr_hashLiteral (Bits XVR_LITERAL_FLOAT 0x3F800000) \<and>
   (let d = Xvr_setLiteralDictionary Xvr_initLiteralDictionary (Bits XVR_LITERAL_INTEGER 1) (Str ''x'')
    in Xvr_getLiteralDictionary d (Bits XVR_LITERAL_FLOAT 0x3F800000) = Str ''x'' \<and>
       \<not> Xvr_existsLiteralDictionary d (Bits XVR_LITERAL_FLOAT 0x3F800000))"
  by code_simp

section \<open>Arrays and types\<close>

text \<open>A push appends a copy and returns its index, within the capacity; reading at an index literal
  gives a copy of that element and null outside the bounds; a write changes exactly the element at
  its index and fails outside the bounds.\<close>

theorem array_operations:
  fixes i :: "32 word"
  assumes "length (fst a) \<le> snd a"
  shows "Xvr_pushLiteralArray a v = ((fst a @ [Xvr_copyLiteral v], snd (fst (Xvr_pushLiteralArray a v))), length (fst a)) \<and>
    length (fst a) + 1 \<le> snd (fst (Xvr_pushLiteralArray a v)) \<and>
    Xvr_getLiteralArray a (Bits XVR_LITERAL_INTEGER (ucast i)) =
      (if 0 \<le> sint i \<and> sint i < int (length (fst a)) then Xvr_copyLiteral (fst a ! nat (sint i)) else XVR_TO_NULL_LITERAL) \<and>
    Xvr_setLiteralArray a (Bits XVR_LITERAL_INTEGER (ucast i)) v =
      (if 0 \<le> sint i \<and> sint i < int (length (fst a))
       then (True, ((fst a)[nat (sint i) := Xvr_copyLiteral v], snd a)) else (False, a))"
proof -
  have u: "(ucast (ucast i :: 64 word) :: 32 word) = i" for i :: "32 word" by (simp add: ucast_up_ucast_id is_up)
  show ?thesis
    using assms
    by (auto simp: Xvr_pushLiteralArray_def array_push_def XVR_GROW_CAPACITY_def Xvr_getLiteralArray_def
        Xvr_setLiteralArray_def is_integer_type_def XVR_AS_INTEGER_def Let_def u)
qed

lemma array_operations_witness:
  "Xvr_getLiteralArray ([Str ''a''], 1) (Bits XVR_LITERAL_INTEGER (ucast (0 :: 32 word))) = Str ''a''"
  using array_operations [of "([Str ''a''], 1)" XVR_TO_NULL_LITERAL 0] copy_plain [of "Str ''a''"]
  by (auto simp del: ucast_0)

text \<open>An index of type int8 is read through the wrong union member: -1 is taken as 255, so it is a
  valid index of an array with 256 elements instead of an index before its start.\<close>

theorem int8_index_zero_extended:
  "XVR_AS_INTEGER (Xvr_toInt8LiteralCpp v) = ucast v \<and>
   (length (fst a) = 256 \<longrightarrow>
      Xvr_getLiteralArray a (Xvr_toInt8LiteralCpp (- 1)) = Xvr_copyLiteral (fst a ! 255))"
proof -
  have "(ucast (ucast (- 1 :: 8 word) :: 64 word) :: 32 word) = 255" by code_simp
  then have "Xvr_getLiteralArray a (Xvr_toInt8LiteralCpp (- 1)) = Xvr_copyLiteral (fst a ! 255)"
    if "length (fst a) = 256"
    using that unfolding Xvr_getLiteralArray_def XVR_AS_INTEGER_def Xvr_toInt8LiteralCpp_def as_bits.simps
    by (simp only: is_integer_type_def lit_type.simps) simp
  then show ?thesis
    by (simp add: XVR_AS_INTEGER_def Xvr_toInt8LiteralCpp_def ucast_up_ucast is_up)
qed

lemma int8_index_zero_extended_witness:
  "Xvr_getLiteralArray (replicate 256 (Str ''a''), 256) (Xvr_toInt8LiteralCpp (- 1)) = Str ''a''"
  using int8_index_zero_extended [of 0 "(replicate 256 (Str ''a''), 256)"] copy_plain [of "Str ''a''"] by simp

text \<open>The capacity of a type literal after \<open>n\<close> pushes.\<close>

fun subtype_capacity :: "nat \<Rightarrow> 8 word" where
  "subtype_capacity 0 = 0"
| "subtype_capacity (Suc n) =
     (let cap = subtype_capacity n
      in if n + 1 > unat cap then (if cap < 8 then 8 else cap * 2) else cap)"

lemma push_all:
  "foldl Xvr_private_typePushSubtype (Type t c (ss0) (subtype_capacity (length ss0))) ss =
     Type t c (ss0 @ ss) (subtype_capacity (length ss0 + length ss))"
proof (induction ss arbitrary: ss0)
  case (Cons s ss)
  then show ?case using Cons.IH [of "ss0 @ [s]"] by (simp add: Let_def)
qed simp

lemma subtype_capacity_steps:
  "n \<le> 128 \<Longrightarrow> subtype_capacity n =
     (if n = 0 then 0 else if n \<le> 8 then 8 else if n \<le> 16 then 16 else if n \<le> 32 then 32
      else if n \<le> 64 then 64 else 128)"
  by (induction n) (simp_all add: Let_def)

text \<open>A type literal has room for the subtypes pushed onto it up to 128 of them. Growing for the 129th
  doubles an unsigned char and gives capacity 0: the array is released and then written to.\<close>

theorem type_subtypes_capacity:
  "foldl Xvr_private_typePushSubtype (Xvr_toTypeLiteralCpp t c) ss =
     Type t c ss (subtype_capacity (length ss)) \<and>
   (length ss \<le> 128 \<longrightarrow> length ss \<le> unat (subtype_capacity (length ss))) \<and>
   (length ss = 129 \<longrightarrow> subtype_capacity (length ss) = 0)"
proof -
  have "length ss \<le> 128 \<Longrightarrow> length ss \<le> unat (subtype_capacity (length ss))"
    by (simp add: subtype_capacity_steps)
  moreover have "subtype_capacity (Suc 128) = 0"
    by (simp only: subtype_capacity.simps Let_def subtype_capacity_steps) simp
  ultimately show ?thesis using push_all [of t c "[]" ss]
    by (simp add: Xvr_toTypeLiteralCpp_def del: subtype_capacity.simps(2))
qed


lemma type_subtypes_capacity_witness:
  "foldl Xvr_private_typePushSubtype (Xvr_toTypeLiteralCpp XVR_LITERAL_ARRAY False) (replicate 129 XVR_TO_NULL_LITERAL) =
     Type XVR_LITERAL_ARRAY False (replicate 129 XVR_TO_NULL_LITERAL) 0"
  using type_subtypes_capacity [of XVR_LITERAL_ARRAY False "replicate 129 XVR_TO_NULL_LITERAL"]
  by (metis length_replicate)

end
