(* ===== verification/Scopes.thy ===== *)
theory Scopes
  imports LitProps
begin

text \<open>
  The variable scopes of src/src/xvr_scope.cpp on an explicit heap. A scope has a pointer to its
  ancestor, a dictionary of variables, a dictionary of their types and a reference count; pushing,
  copying and popping walk the chain of ancestors. The walks follow pointers, so they are
  \<open>partial_function\<close>s whose None is a dangling pointer or a chain without end; on the heaps the
  operations build they are total. As no function literal is made anywhere (theory Literals), the
  loop of \<open>Xvr_popScope\<close> over function values has nothing to do. The count of a scope is a C \<open>int\<close>; every
  holder of a scope is another scope in memory, so its range is met only with 2^31 scopes alive at once,
  which the model leaves out.
\<close>

section \<open>State\<close>

record scope =
  sc_ancestor :: "nat option"
  sc_variables :: literal_dictionary
  sc_types :: literal_dictionary
  sc_references :: int

record scopes =
  sp_scope :: "nat \<Rightarrow> scope option"
  sp_next :: nat

definition no_scopes :: scopes where
  "no_scopes = \<lparr>sp_scope = (\<lambda>_. None), sp_next = 0\<rparr>"

abbreviation put_scope :: "nat \<Rightarrow> scope \<Rightarrow> scopes \<Rightarrow> scopes" where
  "put_scope a s h \<equiv> h\<lparr>sp_scope := (sp_scope h)(a \<mapsto> s)\<rparr>"

section \<open>Type checking\<close>

text \<open>
  None where the code reads a subtype or an element that is not there. The four loops are
  \<open>check_new\<close> (array elements of a new variable), \<open>check_children\<close>, \<open>check_new_entries\<close> and
  \<open>check_entries\<close>.
\<close>

definition type_of :: "literal \<Rightarrow> literal_type" where
  "type_of l = (case l of Type t c ss cap \<Rightarrow> t | _ \<Rightarrow> XVR_LITERAL_NULL)"

fun subtype :: "literal \<Rightarrow> nat \<Rightarrow> literal option" where
  "subtype (Type t c ss cap) i = (if i < length ss then Some (ss ! i) else None)"
| "subtype l i = None"

definition bind2 :: "bool option \<Rightarrow> bool option \<Rightarrow> bool option" where
  "bind2 a b = (case a of None \<Rightarrow> None | Some False \<Rightarrow> Some False | Some True \<Rightarrow> b)"

definition type_mismatch :: "literal_type \<Rightarrow> literal_type \<Rightarrow> bool" where
  "type_mismatch tof vt \<longleftrightarrow>
     tof = XVR_LITERAL_BOOLEAN \<and> vt \<noteq> XVR_LITERAL_BOOLEAN \<or>
     tof = XVR_LITERAL_INTEGER \<and> \<not> is_integer_type vt \<or>
     tof = XVR_LITERAL_FLOAT \<and> \<not> is_float_type vt \<or>
     tof = XVR_LITERAL_STRING \<and> vt \<noteq> XVR_LITERAL_STRING \<or>
     tof = XVR_LITERAL_ARRAY \<and> vt \<noteq> XVR_LITERAL_ARRAY"

definition late_mismatch :: "literal_type \<Rightarrow> literal_type \<Rightarrow> bool" where
  "late_mismatch tof vt \<longleftrightarrow>
     tof = XVR_LITERAL_FUNCTION \<and> vt \<noteq> XVR_LITERAL_FUNCTION \<or>
     tof = XVR_LITERAL_TYPE \<and> vt \<noteq> XVR_LITERAL_TYPE \<or>
     tof = XVR_LITERAL_OPAQUE \<and> vt \<noteq> XVR_LITERAL_OPAQUE"

text \<open>The entry of the original that a key of the value matches.\<close>

definition matching_entry :: "entry list \<Rightarrow> literal \<Rightarrow> entry option" where
  "matching_entry es k = find (\<lambda>e. Xvr_literalsAreEqual (ent_key e) k) es"

function (sequential) checkType :: "literal \<Rightarrow> literal \<Rightarrow> literal \<Rightarrow> bool \<Rightarrow> bool option"
  and check_new :: "literal \<Rightarrow> literal list \<Rightarrow> bool \<Rightarrow> bool option"
  and check_children :: "literal \<Rightarrow> literal list \<Rightarrow> literal list \<Rightarrow> bool \<Rightarrow> bool option"
  and check_new_entries :: "literal \<Rightarrow> entry list \<Rightarrow> bool \<Rightarrow> bool option"
  and check_entries :: "literal \<Rightarrow> entry list \<Rightarrow> entry list \<Rightarrow> bool \<Rightarrow> bool option" where
  "checkType ty original val constCheck =
     (case ty of
        Type tof const ss cap \<Rightarrow>
          if constCheck \<and> const \<and> \<not> Xvr_literalsAreEqual original val then Some False
          else if tof = XVR_LITERAL_ANY then Some True
          else if tof = XVR_LITERAL_NULL then Some False
          else if is_null val then Some True
          else if type_mismatch tof (lit_type val) then Some False
          else (case val of
                  Arr XVR_LITERAL_ARRAY xs c \<Rightarrow>
                    if tof \<noteq> XVR_LITERAL_ARRAY then Some False
                    else if is_null original then check_new ty xs constCheck
                    else (case original of
                            Arr t ys c' \<Rightarrow> check_children ty ys xs constCheck
                          | _ \<Rightarrow> None)
                | Dict es c n \<Rightarrow>
                    if tof \<noteq> XVR_LITERAL_DICTIONARY then Some False
                    else if is_null original then check_new_entries ty es constCheck
                    else (case original of
                            Dict es' c' n' \<Rightarrow> check_entries ty es' es constCheck
                          | _ \<Rightarrow> None)
                | _ \<Rightarrow>
                    if tof = XVR_LITERAL_DICTIONARY then Some False
                    else Some (\<not> late_mismatch tof (lit_type val)))
      | _ \<Rightarrow> None)"
| "check_new ty [] constCheck = Some True"
| "check_new ty (x # xs) constCheck =
     (case subtype ty 0 of
        None \<Rightarrow> None
      | Some s \<Rightarrow> bind2 (checkType s XVR_TO_NULL_LITERAL x constCheck) (check_new ty xs constCheck))"
| "check_children ty ys [] constCheck = Some True"
| "check_children ty [] (x # xs) constCheck = Some True"
| "check_children ty (y # ys) (x # xs) constCheck =
     (case subtype ty 0 of
        None \<Rightarrow> None
      | Some s \<Rightarrow> bind2 (checkType s y x constCheck) (check_children ty ys xs constCheck))"
| "check_new_entries ty [] constCheck = Some True"
| "check_new_entries ty (Entry k v # es) constCheck =
     (case (subtype ty 0, subtype ty 1) of
        (Some s0, Some s1) \<Rightarrow>
          bind2 (checkType s0 XVR_TO_NULL_LITERAL k constCheck)
            (bind2 (checkType s1 XVR_TO_NULL_LITERAL v constCheck) (check_new_entries ty es constCheck))
      | _ \<Rightarrow> None)"
| "check_entries ty old [] constCheck = Some True"
| "check_entries ty old (Entry k v # es) constCheck =
     (if is_null k then check_entries ty old es constCheck
      else case matching_entry old k of
             None \<Rightarrow> check_entries ty old es constCheck
           | Some e \<Rightarrow>
               (case (subtype ty 0, subtype ty 1) of
                  (Some s0, Some s1) \<Rightarrow>
                    bind2 (checkType s0 (ent_key e) k constCheck)
                      (bind2 (checkType s1 (ent_value e) v constCheck)
                         (check_entries ty old es constCheck))
                | _ \<Rightarrow> None))"
  by pat_completeness auto
termination
  by (relation "measure (\<lambda>x. case x of
        Inl (Inl (ty, orig, val, c)) \<Rightarrow> size val
      | Inl (Inr (ty, xs, c)) \<Rightarrow> size_list size xs
      | Inr (Inl (ty, ys, xs, c)) \<Rightarrow> size_list size xs
      | Inr (Inr (Inl (ty, es, c))) \<Rightarrow> size_list size es
      | Inr (Inr (Inr (ty, old, es, c))) \<Rightarrow> size_list size es)") auto


declare checkType.simps [simp del]

section \<open>Scope operations\<close>

text \<open>\<open>for (ptr = scope; ptr != NULL; ptr = ptr->ancestor) ptr->references++\<close>\<close>

partial_function (option) tick :: "nat option \<Rightarrow> scopes \<Rightarrow> scopes option" where
  "tick ptr h =
     (case ptr of
        None \<Rightarrow> Some h
      | Some a \<Rightarrow>
          (case sp_scope h a of
             None \<Rightarrow> None
           | Some s \<Rightarrow>
               tick (sc_ancestor s) (put_scope a (s\<lparr>sc_references := sc_references s + 1\<rparr>) h)))"

partial_function (option) freeAncestorChain :: "nat \<Rightarrow> scopes \<Rightarrow> scopes option" where
  "freeAncestorChain a h =
     (case sp_scope h a of
        None \<Rightarrow> None
      | Some s \<Rightarrow>
          let h1 = put_scope a (s\<lparr>sc_references := sc_references s - 1\<rparr>) h
          in Option.bind (case sc_ancestor s of None \<Rightarrow> Some h1 | Some b \<Rightarrow> freeAncestorChain b h1)
               (\<lambda>h2. case sp_scope h2 a of
                       None \<Rightarrow> None
                     | Some s2 \<Rightarrow> if sc_references s2 > 0 then Some h2
                                  else Some (h2\<lparr>sp_scope := (sp_scope h2)(a := None)\<rparr>)))"

declare tick.simps [code] freeAncestorChain.simps [code]

definition Xvr_pushScope :: "nat option \<Rightarrow> scopes \<Rightarrow> (nat \<times> scopes) option" where
  "Xvr_pushScope ancestor h =
     (let a = sp_next h;
          s = \<lparr>sc_ancestor = ancestor, sc_variables = Xvr_initLiteralDictionary,
               sc_types = Xvr_initLiteralDictionary, sc_references = 0\<rparr>;
          h1 = (put_scope a s h)\<lparr>sp_next := Suc a\<rparr>
      in map_option (\<lambda>h2. (a, h2)) (tick (Some a) h1))"

definition Xvr_popScope :: "nat option \<Rightarrow> scopes \<Rightarrow> (nat option \<times> scopes) option" where
  "Xvr_popScope scope h =
     (case scope of
        None \<Rightarrow> Some (None, h)
      | Some a \<Rightarrow>
          (case sp_scope h a of
             None \<Rightarrow> None
           | Some s \<Rightarrow> map_option (\<lambda>h'. (sc_ancestor s, h')) (freeAncestorChain a h)))"

text \<open>Copying the entries with a non-null key into a fresh dictionary.\<close>

definition copy_dictionary :: "literal_dictionary \<Rightarrow> literal_dictionary" where
  "copy_dictionary d =
     foldl (\<lambda>d e. if is_null (ent_key e) then d
                  else Xvr_setLiteralDictionary d (ent_key e) (ent_value e))
       Xvr_initLiteralDictionary (ld_entries d)"

definition Xvr_copyScope :: "nat \<Rightarrow> scopes \<Rightarrow> (nat \<times> scopes) option" where
  "Xvr_copyScope original h =
     (case sp_scope h original of
        None \<Rightarrow> None
      | Some o' \<Rightarrow>
          let a = sp_next h;
              s = \<lparr>sc_ancestor = sc_ancestor o', sc_variables = Xvr_initLiteralDictionary,
                   sc_types = Xvr_initLiteralDictionary, sc_references = 0\<rparr>;
              h1 = (put_scope a s h)\<lparr>sp_next := Suc a\<rparr>
          in Option.bind (tick (Some a) h1)
               (\<lambda>h2. case sp_scope h2 a of
                       None \<Rightarrow> None
                     | Some s2 \<Rightarrow>
                         Some (a, put_scope a
                           (s2\<lparr>sc_variables := copy_dictionary (sc_variables o'),
                               sc_types := copy_dictionary (sc_types o')\<rparr>) h2)))"

definition Xvr_declareScopeVariable ::
    "nat \<Rightarrow> literal \<Rightarrow> literal \<Rightarrow> scopes \<Rightarrow> (bool \<times> scopes) option" where
  "Xvr_declareScopeVariable scope key ty h =
     (case sp_scope h scope of
        None \<Rightarrow> None
      | Some s \<Rightarrow>
          if Xvr_existsLiteralDictionary (sc_variables s) key then Some (False, h)
          else if lit_type ty \<noteq> XVR_LITERAL_TYPE then Some (False, h)
          else Some (True, put_scope scope
            (s\<lparr>sc_types := Xvr_setLiteralDictionary (sc_types s) key ty,
               sc_variables := Xvr_setLiteralDictionary (sc_variables s) key XVR_TO_NULL_LITERAL\<rparr>) h))"

partial_function (option) Xvr_isDeclaredScopeVariable ::
    "nat option \<Rightarrow> literal \<Rightarrow> scopes \<Rightarrow> bool option" where
  "Xvr_isDeclaredScopeVariable scope key h =
     (case scope of
        None \<Rightarrow> Some False
      | Some a \<Rightarrow>
          (case sp_scope h a of
             None \<Rightarrow> None
           | Some s \<Rightarrow>
               if \<not> Xvr_existsLiteralDictionary (sc_variables s) key
               then Xvr_isDeclaredScopeVariable (sc_ancestor s) key h
               else Some True))"

text \<open>The assignment once the scope that has the variable is found.\<close>

definition assign_variable :: "scope \<Rightarrow> literal \<Rightarrow> literal \<Rightarrow> bool \<Rightarrow> (bool \<times> scope) option" where
  "assign_variable s key val constCheck =
     (let typeLiteral = Xvr_getLiteralDictionary (sc_types s) key;
          original = Xvr_getLiteralDictionary (sc_variables s) key
      in case checkType typeLiteral original val constCheck of
           None \<Rightarrow> None
         | Some False \<Rightarrow> Some (False, s)
         | Some True \<Rightarrow>
             Some (True, s\<lparr>sc_variables := Xvr_setLiteralDictionary (sc_variables s) key val\<rparr>))"

partial_function (option) Xvr_setScopeVariable ::
    "nat option \<Rightarrow> literal \<Rightarrow> literal \<Rightarrow> bool \<Rightarrow> scopes \<Rightarrow> (bool \<times> scopes) option" where
  "Xvr_setScopeVariable scope key val constCheck h =
     (case scope of
        None \<Rightarrow> Some (False, h)
      | Some a \<Rightarrow>
          (case sp_scope h a of
             None \<Rightarrow> None
           | Some s \<Rightarrow>
               if \<not> Xvr_existsLiteralDictionary (sc_variables s) key
               then Xvr_setScopeVariable (sc_ancestor s) key val constCheck h
               else map_option (\<lambda>(b, s'). (b, put_scope a s' h)) (assign_variable s key val constCheck)))"

text \<open>The value is returned through a pointer: \<open>Some None\<close> is the result false.\<close>

partial_function (option) Xvr_getScopeVariable ::
    "nat option \<Rightarrow> literal \<Rightarrow> scopes \<Rightarrow> literal option option" where
  "Xvr_getScopeVariable scope key h =
     (case scope of
        None \<Rightarrow> Some None
      | Some a \<Rightarrow>
          (case sp_scope h a of
             None \<Rightarrow> None
           | Some s \<Rightarrow>
               if \<not> Xvr_existsLiteralDictionary (sc_variables s) key
               then Xvr_getScopeVariable (sc_ancestor s) key h
               else Some (Some (Xvr_getLiteralDictionary (sc_variables s) key))))"

partial_function (option) Xvr_getScopeType :: "nat option \<Rightarrow> literal \<Rightarrow> scopes \<Rightarrow> literal option" where
  "Xvr_getScopeType scope key h =
     (case scope of
        None \<Rightarrow> Some XVR_TO_NULL_LITERAL
      | Some a \<Rightarrow>
          (case sp_scope h a of
             None \<Rightarrow> None
           | Some s \<Rightarrow>
               if \<not> Xvr_existsLiteralDictionary (sc_types s) key
               then Xvr_getScopeType (sc_ancestor s) key h
               else Some (Xvr_getLiteralDictionary (sc_types s) key)))"

declare Xvr_isDeclaredScopeVariable.simps [code] Xvr_setScopeVariable.simps [code]
  Xvr_getScopeVariable.simps [code] Xvr_getScopeType.simps [code]

section \<open>Chains\<close>

definition parent :: "scopes \<Rightarrow> nat \<Rightarrow> nat option" where
  "parent h a = Option.bind (sp_scope h a) sc_ancestor"

abbreviation live :: "scopes \<Rightarrow> nat \<Rightarrow> bool" where
  "live h a \<equiv> sp_scope h a \<noteq> None"

text \<open>\<open>up h a b\<close>: scope \<open>b\<close> is \<open>a\<close> or one of its ancestors.\<close>

inductive up :: "scopes \<Rightarrow> nat \<Rightarrow> nat \<Rightarrow> bool" for h where
  self: "up h a a"
| outer: "parent h a = Some b \<Longrightarrow> up h b c \<Longrightarrow> up h a c"

text \<open>Ancestors are live and older, addresses are fresh.\<close>

definition chains_ok :: "scopes \<Rightarrow> bool" where
  "chains_ok h \<longleftrightarrow> (\<forall>a b. parent h a = Some b \<longrightarrow> b < a \<and> live h b) \<and>
     (\<forall>a. sp_next h \<le> a \<longrightarrow> \<not> live h a)"

lemma up_step: "up h a x \<longleftrightarrow> x = a \<or> (\<exists>b. parent h a = Some b \<and> up h b x)"
  by (auto intro: up.intros elim: up.cases)

lemma up_le: "up h a b \<Longrightarrow> chains_ok h \<Longrightarrow> b \<le> a"
  by (induction rule: up.induct) (auto simp: chains_ok_def dest: le_trans [OF _ less_imp_le])

lemma up_live: "up h a b \<Longrightarrow> chains_ok h \<Longrightarrow> live h a \<Longrightarrow> live h b"
  by (induction rule: up.induct) (auto simp: chains_ok_def)

lemma up_outer: "up h a b \<Longrightarrow> parent h b = Some c \<Longrightarrow> up h a c"
  by (induction rule: up.induct) (auto intro: up.intros)

text \<open>Heaps with the same pointers.\<close>

definition same_shape :: "scopes \<Rightarrow> scopes \<Rightarrow> bool" where
  "same_shape h g \<longleftrightarrow> sp_next g = sp_next h \<and> (\<forall>a. parent g a = parent h a) \<and> (\<forall>a. live g a = live h a)"

lemma same_shape_up: "same_shape h g \<Longrightarrow> up g a b = up h a b"
proof -
  have "up h' a b \<Longrightarrow> same_shape h' g' \<Longrightarrow> up g' a b" for h' g'
    by (induction rule: up.induct) (auto simp: same_shape_def intro: up.intros)
  moreover assume "same_shape h g"
  moreover have "same_shape g h" using \<open>same_shape h g\<close> by (simp add: same_shape_def)
  ultimately show "up g a b = up h a b" by blast
qed

lemma same_shape_ok: "same_shape h g \<Longrightarrow> chains_ok h \<Longrightarrow> chains_ok g"
  by (simp add: chains_ok_def same_shape_def)

lemma same_shape_put:
  "sp_scope h a = Some s \<Longrightarrow> sc_ancestor s' = sc_ancestor s \<Longrightarrow> same_shape h (put_scope a s' h)"
  by (simp add: same_shape_def parent_def)

text \<open>A walk that changes every count of the chain.\<close>

definition add_refs :: "int \<Rightarrow> scope \<Rightarrow> scope" where
  "add_refs k s = s\<lparr>sc_references := sc_references s + k\<rparr>"

definition on_chain :: "scopes \<Rightarrow> nat \<Rightarrow> (scope \<Rightarrow> scope option) \<Rightarrow> scopes \<Rightarrow> scopes" where
  "on_chain h0 a f h =
     h\<lparr>sp_scope := (\<lambda>x. if up h0 a x then Option.bind (sp_scope h x) f else sp_scope h x)\<rparr>"

lemma on_chain_next: "sp_next (on_chain h0 a f h) = sp_next h"
  by (simp add: on_chain_def)

lemma tick_spec:
  assumes "chains_ok h" "live h a"
  shows "tick (Some a) h = Some (on_chain h a (\<lambda>s. Some (add_refs 1 s)) h)"
  using assms
proof (induction a arbitrary: h rule: less_induct)
  case (less a)
  obtain s where s: "sp_scope h a = Some s" using less.prems(2) by auto
  let ?h1 = "put_scope a (add_refs 1 s) h"
  have sh: "same_shape h ?h1" using s by (intro same_shape_put) (simp_all add: add_refs_def)
  have par: "parent h a = sc_ancestor s" using s by (simp add: parent_def)
  show ?case
  proof (cases "sc_ancestor s")
    case None
    then have "up h a x \<longleftrightarrow> x = a" for x using par by (subst up_step) simp
    then show ?thesis using None s
      by (subst tick.simps) (simp add: tick.simps [of None] on_chain_def add_refs_def fun_eq_iff)
  next
    case (Some b)
    then have b: "b < a" "live h b" using less.prems(1) par by (simp_all add: chains_ok_def)
    then have "tick (Some b) ?h1 = Some (on_chain ?h1 b (\<lambda>s. Some (add_refs 1 s)) ?h1)"
      using less.IH [OF b(1), of ?h1] same_shape_ok [OF sh less.prems(1)] by simp
    moreover have "up h a x \<longleftrightarrow> x = a \<or> up h b x" for x using par Some by (subst up_step) simp
    moreover have "\<not> up h b a" using up_le [OF _ less.prems(1)] b(1) by fastforce
    ultimately show ?thesis using Some s same_shape_up [OF sh]
      by (subst tick.simps) (auto simp: on_chain_def add_refs_def [symmetric] fun_eq_iff)
  qed
qed

definition drop_ref :: "scope \<Rightarrow> scope option" where
  "drop_ref s = (if sc_references s - 1 > 0 then Some (add_refs (- 1) s) else None)"

lemma freeAncestorChain_spec:
  assumes "chains_ok h" "live h a"
  shows "freeAncestorChain a h = Some (on_chain h a drop_ref h)"
  using assms
proof (induction a arbitrary: h rule: less_induct)
  case (less a)
  obtain s where s: "sp_scope h a = Some s" using less.prems(2) by auto
  let ?h1 = "put_scope a (add_refs (- 1) s) h"
  have sh: "same_shape h ?h1" using s by (intro same_shape_put) (simp_all add: add_refs_def)
  have par: "parent h a = sc_ancestor s" using s by (simp add: parent_def)
  have r: "sc_references (add_refs (- 1) s) = sc_references s - 1" by (simp add: add_refs_def)
  show ?case
  proof (cases "sc_ancestor s")
    case None
    then have "up h a x \<longleftrightarrow> x = a" for x using par by (subst up_step) simp
    then show ?thesis using None s
      by (subst freeAncestorChain.simps)
         (simp add: on_chain_def add_refs_def drop_ref_def fun_eq_iff Let_def)
  next
    case (Some b)
    then have b: "b < a" "live h b" using less.prems(1) par by (simp_all add: chains_ok_def)
    then have f: "freeAncestorChain b ?h1 = Some (on_chain ?h1 b drop_ref ?h1)"
      using less.IH [OF b(1), of ?h1] same_shape_ok [OF sh less.prems(1)] by simp
    have u: "up h a x \<longleftrightarrow> x = a \<or> up h b x" for x using par Some by (subst up_step) simp
    have n: "\<not> up h b a" using up_le [OF _ less.prems(1)] b(1) by fastforce
    have at: "sp_scope (on_chain ?h1 b drop_ref ?h1) a = Some (add_refs (- 1) s)"
      using n same_shape_up [OF sh] by (simp add: on_chain_def)
    have "freeAncestorChain a h =
        (let h2 = on_chain ?h1 b drop_ref ?h1
         in if sc_references s - 1 > 0 then Some h2 else Some (h2\<lparr>sp_scope := (sp_scope h2)(a := None)\<rparr>))"
      using Some s f at r
      by (subst freeAncestorChain.simps) (simp add: Let_def add_refs_def [of "-1", simplified, symmetric])
    moreover have "(if sc_references s - 1 > 0 then sp_scope (on_chain ?h1 b drop_ref ?h1)
        else (sp_scope (on_chain ?h1 b drop_ref ?h1))(a := None)) = sp_scope (on_chain h a drop_ref h)"
    proof
      fix x
      show "(if sc_references s - 1 > 0 then sp_scope (on_chain ?h1 b drop_ref ?h1)
          else (sp_scope (on_chain ?h1 b drop_ref ?h1))(a := None)) x = sp_scope (on_chain h a drop_ref h) x"
        using s u [of x] n at same_shape_up [OF sh]
        by (cases "x = a") (simp_all add: on_chain_def drop_ref_def)
    qed
    ultimately show ?thesis
      by (auto simp: Let_def on_chain_next split: if_splits intro!: scopes.equality)
  qed
qed


section \<open>Reference counts\<close>

text \<open>
  A client holds a multiset of scopes it pushed or copied and has not popped. It may push a scope
  on one it holds or on none, copy one it holds, and pop one it holds, in any order.
\<close>

inductive scope_step :: "scopes \<times> nat multiset \<Rightarrow> scopes \<times> nat multiset \<Rightarrow> bool" where
  push: "(case p of None \<Rightarrow> True | Some b \<Rightarrow> b \<in># M) \<Longrightarrow> Xvr_pushScope p h = Some (a, h') \<Longrightarrow>
    scope_step (h, M) (h', add_mset a M)"
| copy: "b \<in># M \<Longrightarrow> Xvr_copyScope b h = Some (a, h') \<Longrightarrow> scope_step (h, M) (h', add_mset a M)"
| pop: "a \<in># M \<Longrightarrow> Xvr_popScope (Some a) h = Some (r, h') \<Longrightarrow> scope_step (h, M) (h', M - {#a#})"

text \<open>The holders at or below a scope.\<close>

definition holders :: "scopes \<Rightarrow> nat multiset \<Rightarrow> nat \<Rightarrow> nat" where
  "holders h M x = size (filter_mset (\<lambda>a. up h a x) M)"

definition scopes_inv :: "scopes \<times> nat multiset \<Rightarrow> bool" where
  "scopes_inv hm \<longleftrightarrow> chains_ok (fst hm) \<and> (\<forall>a. a \<in># snd hm \<longrightarrow> live (fst hm) a) \<and>
     (\<forall>x s. sp_scope (fst hm) x = Some s \<longrightarrow>
        sc_references s = int (holders (fst hm) (snd hm) x) \<and> 0 < holders (fst hm) (snd hm) x)"

lemma scopes_invD:
  assumes "scopes_inv (h, M)" "sp_scope h x = Some s"
  shows "sc_references s = int (holders h M x)" "0 < holders h M x"
  using assms by (simp_all add: scopes_inv_def)

lemma scopes_inv_empty: "scopes_inv (no_scopes, {#})"
  by (simp add: scopes_inv_def no_scopes_def chains_ok_def parent_def)

lemma holders_add: "holders h (add_mset a M) x = holders h M x + (if up h a x then 1 else 0)"
  by (simp add: holders_def)

lemma holders_same_shape: "same_shape h g \<Longrightarrow> holders g M x = holders h M x"
  by (simp add: holders_def same_shape_up)

lemma holders_positive: "0 < holders h M x \<longleftrightarrow> (\<exists>c. c \<in># M \<and> up h c x)"
  by (auto simp: holders_def filter_mset_eq_conv size_eq_0_iff_empty simp flip: neq0_conv)

text \<open>Adding a scope on top of a live ancestor.\<close>

lemma new_scope:
  assumes inv: "scopes_inv (h, M)" and p: "\<And>b. sc_ancestor s = Some b \<Longrightarrow> live h b"
    and z: "sc_references s = 0"
  defines "a \<equiv> sp_next h"
  defines "h1 \<equiv> (put_scope a s h)\<lparr>sp_next := Suc a\<rparr>"
  shows "\<exists>h2. tick (Some a) h1 = Some h2 \<and> scopes_inv (h2, add_mset a M) \<and>
    sp_scope h2 a = Some (add_refs 1 s)"
proof -
  have ok: "chains_ok h" and fresh: "\<not> live h a" and notin: "a \<notin># M"
    using inv by (auto simp: scopes_inv_def chains_ok_def a_def)
  have nopar: "parent h x \<noteq> Some a" for x using ok fresh unfolding chains_ok_def by metis
  have par1: "parent h1 x = (if x = a then sc_ancestor s else parent h x)" for x
    by (simp add: parent_def h1_def)
  have live1: "live h1 x = (x = a \<or> live h x)" for x by (simp add: h1_def)
  have lt: "live h b \<Longrightarrow> b < a" for b using ok by (metis a_def chains_ok_def not_le)
  have ok1: "chains_ok h1"
    unfolding chains_ok_def par1 live1 using p lt ok by (auto simp: chains_ok_def h1_def a_def)
  have down: "up h1 x y \<Longrightarrow> x \<noteq> a \<Longrightarrow> up h x y" for x y
    by (induction rule: up.induct) (use nopar par1 in \<open>auto intro: up.intros split: if_splits\<close>)
  have upward: "up h x y \<Longrightarrow> x \<noteq> a \<Longrightarrow> up h1 x y" for x y
  proof (induction rule: up.induct)
    case (outer x b c)
    then have "b \<noteq> a" using nopar by metis
    then show ?case using outer par1 [of x] by (auto intro: up.outer)
  qed (rule up.self)
  have up1: "up h1 x y = up h x y" if "x \<noteq> a" for x y
    using down upward that by blast
  let ?h2 = "on_chain h1 a (\<lambda>s. Some (add_refs 1 s)) h1"
  have t: "tick (Some a) h1 = Some ?h2" using tick_spec [OF ok1] live1 by blast
  have shape: "same_shape h1 ?h2"
    by (auto simp: same_shape_def on_chain_def parent_def add_refs_def split: option.split)
      (auto split: bind_splits)
  have up2: "up ?h2 x y = up h1 x y" for x y using same_shape_up [OF shape] .
  have h2a: "sp_scope ?h2 a = Some (add_refs 1 s)"
    by (simp add: on_chain_def h1_def up.self)
  have "sc_references s' = int (holders ?h2 (add_mset a M) x) \<and> 0 < holders ?h2 (add_mset a M) x"
    if s': "sp_scope ?h2 x = Some s'" for x s'
  proof -
    have hold: "holders ?h2 (add_mset a M) x = holders h M x + (if up h1 a x then 1 else 0)"
    proof -
      have "filter_mset (\<lambda>c. up h1 c x) M = filter_mset (\<lambda>c. up h c x) M"
        using up1 notin by (intro filter_mset_cong refl) metis
      then show ?thesis by (simp add: holders_add holders_def up2)
    qed
    show ?thesis
    proof (cases "x = a")
      case True
      have "holders h M a = 0"
      proof -
        have "\<not> up h c a" if "c \<in># M" for c
          using up_live [OF _ ok, of c a] fresh inv that by (auto simp: scopes_inv_def)
        then show ?thesis using holders_positive [of h M a] by auto
      qed
      then show ?thesis using True s' h2a z hold by (simp add: up.self add_refs_def)
    next
      case False
      then obtain s0 where s0: "sp_scope h x = Some s0"
          "s' = (if up h1 a x then add_refs 1 s0 else s0)"
        using s' by (cases "sp_scope h x") (auto simp: on_chain_def h1_def split: if_splits)
      then show ?thesis using scopes_invD [OF inv s0(1)] s0(2) hold by (simp add: add_refs_def)
    qed
  qed
  moreover have "live ?h2 c" if "c \<in># add_mset a M" for c
  proof -
    have "live h1 c" using that live1 inv by (auto simp: scopes_inv_def)
    then show ?thesis using shape by (simp add: same_shape_def)
  qed
  ultimately have "scopes_inv (?h2, add_mset a M)"
    using same_shape_ok [OF shape ok1] by (simp add: scopes_inv_def)
  then show ?thesis using t h2a by blast
qed


lemma pop_inv:
  assumes inv: "scopes_inv (h, M)" and a: "a \<in># M"
  shows "\<exists>r h'. Xvr_popScope (Some a) h = Some (r, h') \<and> scopes_inv (h', M - {#a#})"
proof -
  let ?M = "M - {#a#}" and ?h = "on_chain h a drop_ref h"
  have ok: "chains_ok h" and la: "live h a" using inv a by (auto simp: scopes_inv_def)
  obtain s where s: "sp_scope h a = Some s" using la by blast
  have pop: "Xvr_popScope (Some a) h = Some (sc_ancestor s, ?h)"
    using freeAncestorChain_spec [OF ok la] s by (simp add: Xvr_popScope_def)
  have cnt: "holders h M x = holders h ?M x + (if up h a x then 1 else 0)" for x
    using holders_add [of h a ?M x] a by simp
  have at: "sp_scope ?h x = (if holders h ?M x = 0 then None
      else map_option (\<lambda>s. s\<lparr>sc_references := int (holders h ?M x)\<rparr>) (sp_scope h x))" if "live h x" for x
  proof -
    obtain s0 where s0: "sp_scope h x = Some s0" using \<open>live h x\<close> by blast
    note r = scopes_invD [OF inv s0]
    then have "s0\<lparr>sc_references := int (holders h M x)\<rparr> = s0" by simp
    then show ?thesis using s0 r cnt [of x] by (auto simp: on_chain_def drop_ref_def add_refs_def)
  qed
  have dead: "\<not> live h x \<Longrightarrow> sp_scope ?h x = None" for x by (simp add: on_chain_def)
  have live: "live ?h x \<longleftrightarrow> live h x \<and> 0 < holders h ?M x" for x
    using at [of x] dead [of x] by (cases "live h x") auto
  have par: "parent ?h x = (if live ?h x then parent h x else None)" for x
    using at [of x] dead [of x] by (cases "live h x") (auto simp: parent_def)
  have keep: "live ?h x" if "c \<in># ?M" "up h c x" for c x
  proof -
    have "live h c" using inv in_diffD [OF that(1)] by (simp add: scopes_inv_def)
    then show ?thesis using live up_live [OF that(2) ok] holders_positive that by blast
  qed
  have up': "up ?h c x = up h c x" if "c \<in># ?M" for c x
  proof
    show "up ?h c x \<Longrightarrow> up h c x"
      by (induction rule: up.induct) (auto simp: par intro: up.intros split: if_splits)
  next
    have "up h b x \<Longrightarrow> up h c b \<Longrightarrow> up ?h b x" for b
    proof (induction rule: up.induct)
      case (outer b d e)
      then have "parent ?h b = Some d" using par [of b] keep [OF that] by simp
      then show ?case using outer up_outer by (blast intro: up.outer)
    qed (rule up.self)
    then show "up h c x \<Longrightarrow> up ?h c x" by (blast intro: up.self)
  qed
  have hold: "holders ?h ?M x = holders h ?M x" for x
    unfolding holders_def using up' by (metis (mono_tags, lifting) filter_mset_cong)
  have "chains_ok ?h"
    unfolding chains_ok_def
  proof (intro conjI allI impI)
    fix x b assume pb: "parent ?h x = Some b"
    then have "live ?h x" "parent h x = Some b" using par by (auto split: if_splits)
    then obtain c where "c \<in># ?M" "up h c x" using live holders_positive by blast
    then have "live ?h b" using keep up_outer [OF _ \<open>parent h x = Some b\<close>] by blast
    then show "b < x" "live ?h b" using ok \<open>parent h x = Some b\<close> by (auto simp: chains_ok_def)
  next
    fix x assume "sp_next ?h \<le> x"
    then show "\<not> live ?h x" using ok live by (auto simp: chains_ok_def on_chain_next)
  qed
  moreover have "live ?h c" if "c \<in># ?M" for c using keep [OF that up.self] .
  moreover have "sc_references s' = int (holders ?h ?M x) \<and> 0 < holders ?h ?M x"
    if "sp_scope ?h x = Some s'" for x s'
    using that at [of x] dead [of x] hold [of x] by (cases "live h x") (auto split: if_splits)
  ultimately have "scopes_inv (?h, ?M)" by (simp add: scopes_inv_def)
  then show ?thesis using pop by blast
qed

lemma push_inv:
  assumes "scopes_inv (h, M)" "case p of None \<Rightarrow> True | Some b \<Rightarrow> b \<in># M"
  shows "\<exists>h'. Xvr_pushScope p h = Some (sp_next h, h') \<and> scopes_inv (h', add_mset (sp_next h) M)"
  using new_scope [OF assms(1), of "\<lparr>sc_ancestor = p, sc_variables = Xvr_initLiteralDictionary,
      sc_types = Xvr_initLiteralDictionary, sc_references = 0\<rparr>"] assms
  by (fastforce simp: Xvr_pushScope_def Let_def scopes_inv_def split: option.splits)

lemma copy_inv:
  assumes inv: "scopes_inv (h, M)" and b: "b \<in># M"
  shows "\<exists>h'. Xvr_copyScope b h = Some (sp_next h, h') \<and> scopes_inv (h', add_mset (sp_next h) M)"
proof -
  have ok: "chains_ok h" and "live h b" using inv b by (auto simp: scopes_inv_def)
  then obtain s where s: "sp_scope h b = Some s" by blast
  let ?s = "\<lparr>sc_ancestor = sc_ancestor s, sc_variables = Xvr_initLiteralDictionary,
      sc_types = Xvr_initLiteralDictionary, sc_references = 0\<rparr>"
  have "parent h b = sc_ancestor s" using s by (simp add: parent_def)
  then have "sc_ancestor ?s = Some c \<Longrightarrow> live h c" for c using ok by (simp add: chains_ok_def)
  then obtain h2 where h2: "tick (Some (sp_next h)) ((put_scope (sp_next h) ?s h)\<lparr>sp_next := Suc (sp_next h)\<rparr>) = Some h2"
    "scopes_inv (h2, add_mset (sp_next h) M)" "sp_scope h2 (sp_next h) = Some (add_refs 1 ?s)"
    using new_scope [OF inv, of ?s] by auto
  let ?s3 = "(add_refs 1 ?s)\<lparr>sc_variables := copy_dictionary (sc_variables s), sc_types := copy_dictionary (sc_types s)\<rparr>"
  let ?h3 = "put_scope (sp_next h) ?s3 h2"
  have shape: "same_shape h2 ?h3" by (rule same_shape_put [OF h2(3)]) (simp add: add_refs_def)
  have "scopes_inv (?h3, add_mset (sp_next h) M)"
    using h2(2,3) same_shape_ok [OF shape] holders_same_shape [OF shape]
    by (auto simp: scopes_inv_def split: if_splits)
  then show ?thesis using h2(1,3) s by (simp add: Xvr_copyScope_def Let_def)
qed

lemma scopes_inv_step: "scope_step x y \<Longrightarrow> scopes_inv x \<Longrightarrow> scopes_inv y"
proof (induction rule: scope_step.induct)
  case (push p M h a h')
  then show ?case using push_inv [OF push(3,1)] by auto
next
  case (copy b M h a h')
  then show ?case using copy_inv [OF copy(3,1)] by auto
next
  case (pop a M h r h')
  then show ?case using pop_inv [OF pop(3,1)] by auto
qed

lemma scopes_inv_reachable: "scope_step\<^sup>*\<^sup>* x y \<Longrightarrow> scopes_inv x \<Longrightarrow> scopes_inv y"
  by (induction rule: rtranclp_induct) (auto intro: scopes_inv_step)

text \<open>C22: Under any sequence of pushes, copies and pops of scopes that are held, in any order, a scope is
  live exactly while some held scope has it in its chain, and its count is the number of those:
  no scope in use is freed and none is leaked.\<close>

theorem scope_counts_exact:
  assumes "scope_step\<^sup>*\<^sup>* (no_scopes, {#}) (h, M)"
  shows "(live h x \<longleftrightarrow> (\<exists>a. a \<in># M \<and> up h a x)) \<and>
    (\<forall>s. sp_scope h x = Some s \<longrightarrow> sc_references s = int (size (filter_mset (\<lambda>a. up h a x) M)))"
proof -
  have inv: "scopes_inv (h, M)" using scopes_inv_reachable [OF assms scopes_inv_empty] .
  then have "live h x" if "a \<in># M" "up h a x" for a
    using that up_live by (auto simp: scopes_inv_def)
  moreover have "\<exists>a. a \<in># M \<and> up h a x" if "live h x"
    using that scopes_invD(2) [OF inv, of x] holders_positive [of h M x] by auto
  ultimately show ?thesis using inv by (auto simp: scopes_inv_def holders_def)
qed

lemma scope_counts_exact_witness:
  "\<exists>h. scope_step\<^sup>*\<^sup>* (no_scopes, {#}) (h, {#0#}) \<and> live h 0"
proof -
  obtain h where h: "Xvr_pushScope None no_scopes = Some (0, h)"
    using push_inv [OF scopes_inv_empty, of None] by (auto simp: no_scopes_def)
  then have st: "scope_step\<^sup>*\<^sup>* (no_scopes, {#}) (h, {#0#})"
    using scope_step.push [where p = None and M = "{#}"] by (simp add: r_into_rtranclp)
  then show ?thesis using scope_counts_exact [OF st, of 0] up.self [of h 0] by auto
qed

section \<open>Variables\<close>

text \<open>The scope that a name is resolved to: the nearest one of the chain that has the variable.\<close>

inductive owner :: "scopes \<Rightarrow> nat \<Rightarrow> literal \<Rightarrow> nat \<Rightarrow> bool" for h where
  found: "sp_scope h a = Some s \<Longrightarrow> Xvr_existsLiteralDictionary (sc_variables s) k \<Longrightarrow> owner h a k a"
| above: "sp_scope h a = Some s \<Longrightarrow> \<not> Xvr_existsLiteralDictionary (sc_variables s) k \<Longrightarrow>
    sc_ancestor s = Some b \<Longrightarrow> owner h b k c \<Longrightarrow> owner h a k c"

inductive_simps owner_iff: "owner h a k c"

lemma lookup_spec:
  assumes "chains_ok h" "live h a"
  shows "\<exists>r. Xvr_getScopeVariable (Some a) k h = Some r \<and>
    Xvr_isDeclaredScopeVariable (Some a) k h = Some (r \<noteq> None) \<and>
    (case r of
       None \<Rightarrow> \<nexists>b. owner h a k b
     | Some v \<Rightarrow> \<exists>b s. owner h a k b \<and> sp_scope h b = Some s \<and> v = Xvr_getLiteralDictionary (sc_variables s) k)"
  using assms(2)
proof (induction a rule: less_induct)
  case (less a)
  obtain s where s: "sp_scope h a = Some s" using less.prems by blast
  show ?case
  proof (cases "Xvr_existsLiteralDictionary (sc_variables s) k")
    case True
    then show ?thesis using s
      by (subst Xvr_getScopeVariable.simps, subst Xvr_isDeclaredScopeVariable.simps) (auto intro: owner.found)
  next
    case False
    note ex = this
    have "parent h a = sc_ancestor s" using s by (simp add: parent_def)
    show ?thesis
    proof (cases "sc_ancestor s")
      case None
      then show ?thesis using s ex
        by (subst Xvr_getScopeVariable.simps, subst Xvr_isDeclaredScopeVariable.simps)
           (simp add: Xvr_getScopeVariable.simps [of None] Xvr_isDeclaredScopeVariable.simps [of None] owner_iff [of h a])
    next
      case (Some b)
      then have b: "b < a" "live h b"
        using assms(1) \<open>parent h a = sc_ancestor s\<close> by (simp_all add: chains_ok_def)
      have o: "owner h a k = owner h b k"
        using s ex Some by (intro ext) (subst owner_iff, simp)
      show ?thesis unfolding o using less.IH [OF b] s ex Some
        by (subst Xvr_getScopeVariable.simps, subst Xvr_isDeclaredScopeVariable.simps) simp
    qed
  qed
qed

lemma owner_unique: "owner h a k b \<Longrightarrow> owner h a k c \<Longrightarrow> b = c"
proof (induction rule: owner.induct)
  case (found a s k)
  then show ?case by (auto elim: owner.cases)
next
  case (above a s k b c)
  then show ?case by (auto elim: owner.cases)
qed

lemma owner_live: "owner h a k b \<Longrightarrow> \<exists>s. sp_scope h b = Some s \<and> Xvr_existsLiteralDictionary (sc_variables s) k"
  by (induction rule: owner.induct) auto

text \<open>Reading a variable returns on every scope of the heaps built by the operations: it gives the
  value in the nearest enclosing scope that has the name, and fails when no scope of the chain has
  it; the declared test agrees with it.\<close>

theorem variable_lookup:
  assumes "chains_ok h" "live h a"
  shows "(\<forall>b s. owner h a k b \<longrightarrow> sp_scope h b = Some s \<longrightarrow>
      Xvr_getScopeVariable (Some a) k h = Some (Some (Xvr_getLiteralDictionary (sc_variables s) k)) \<and>
      Xvr_isDeclaredScopeVariable (Some a) k h = Some True) \<and>
    ((\<nexists>b. owner h a k b) \<longrightarrow>
      Xvr_getScopeVariable (Some a) k h = Some None \<and> Xvr_isDeclaredScopeVariable (Some a) k h = Some False)"
  using lookup_spec [OF assms, of k] owner_unique [of h a k] by (auto split: option.splits) fastforce+


text \<open>A heap with one scope, for the witnesses.\<close>

definition one_scope :: "literal_dictionary \<Rightarrow> literal_dictionary \<Rightarrow> scopes" where
  "one_scope vars types = \<lparr>sp_scope = [0 \<mapsto> \<lparr>sc_ancestor = None, sc_variables = vars, sc_types = types,
      sc_references = 1\<rparr>], sp_next = 1\<rparr>"

lemma one_scope_ok: "chains_ok (one_scope vars types)" "live (one_scope vars types) 0"
  by (auto simp: one_scope_def chains_ok_def parent_def)

lemma variable_lookup_witness:
  "Xvr_getScopeVariable (Some 0) (Str ''x'')
     (one_scope Xvr_initLiteralDictionary Xvr_initLiteralDictionary) = Some None"
proof -
  let ?h = "one_scope Xvr_initLiteralDictionary Xvr_initLiteralDictionary"
  have "\<not> Xvr_existsLiteralDictionary Xvr_initLiteralDictionary (Str ''x'')"
    using dict.exists_correct [OF dict.init_inv(1), of "Str ''x''"] dict.init_inv(2)
    by (simp add: Xvr_existsLiteralDictionary_def)
  then have "\<nexists>b. owner ?h 0 (Str ''x'') b" by (subst owner_iff) (simp add: one_scope_def)
  then show ?thesis using variable_lookup [OF one_scope_ok, where k = "Str ''x''"] by blast
qed

text \<open>The assignment on the scope that the name is resolved to, if there is one.\<close>

lemma assign_spec:
  assumes "chains_ok h" "live h a"
  shows "owner h a k b \<Longrightarrow> sp_scope h b = Some s \<Longrightarrow> Xvr_setScopeVariable (Some a) k v cc h =
      map_option (\<lambda>(ok, s'). (ok, put_scope b s' h)) (assign_variable s k v cc)"
    and "\<nexists>b. owner h a k b \<Longrightarrow> Xvr_setScopeVariable (Some a) k v cc h = Some (False, h)"
proof -
  have "(\<forall>b s. owner h a k b \<longrightarrow> sp_scope h b = Some s \<longrightarrow> Xvr_setScopeVariable (Some a) k v cc h =
      map_option (\<lambda>(ok, s'). (ok, put_scope b s' h)) (assign_variable s k v cc)) \<and>
    ((\<nexists>b. owner h a k b) \<longrightarrow> Xvr_setScopeVariable (Some a) k v cc h = Some (False, h))"
    using assms(2)
  proof (induction a rule: less_induct)
    case (less a)
    obtain s where s: "sp_scope h a = Some s" using less.prems by blast
    show ?case
    proof (cases "Xvr_existsLiteralDictionary (sc_variables s) k")
      case True
      then show ?thesis using s
        by (simp add: Xvr_setScopeVariable.simps [of "Some a"] owner_iff [of h a] fun_upd_def)
    next
      case ex: False
      have par: "parent h a = sc_ancestor s" using s by (simp add: parent_def)
      show ?thesis
      proof (cases "sc_ancestor s")
        case None
        then show ?thesis using s ex
          by (simp add: Xvr_setScopeVariable.simps [of "Some a"] Xvr_setScopeVariable.simps [of None] owner_iff [of h a] fun_upd_def)
      next
        case (Some b)
        then have b: "b < a" "live h b" using assms(1) par by (simp_all add: chains_ok_def)
        have o: "owner h a k = owner h b k"
          using s ex Some by (intro ext) (subst owner_iff, simp)
        show ?thesis unfolding o using less.IH [OF b] s ex Some
          by (simp add: Xvr_setScopeVariable.simps [of "Some a"] fun_upd_def)
      qed
    qed
  qed
  then show "owner h a k b \<Longrightarrow> sp_scope h b = Some s \<Longrightarrow> Xvr_setScopeVariable (Some a) k v cc h =
      map_option (\<lambda>(ok, s'). (ok, put_scope b s' h)) (assign_variable s k v cc)"
    and "\<nexists>b. owner h a k b \<Longrightarrow> Xvr_setScopeVariable (Some a) k v cc h = Some (False, h)"
    by blast+
qed




lemma owner_cong:
  assumes "\<And>x. map_option (\<lambda>s. (sc_ancestor s, Xvr_existsLiteralDictionary (sc_variables s) k)) (sp_scope g x) =
    map_option (\<lambda>s. (sc_ancestor s, Xvr_existsLiteralDictionary (sc_variables s) k)) (sp_scope h x)"
  shows "owner g a k c = owner h a k c"
proof -
  have imp: "owner h1 a k c \<Longrightarrow> (\<And>x. map_option (\<lambda>s. (sc_ancestor s, Xvr_existsLiteralDictionary (sc_variables s) k)) (sp_scope h1 x) =
    map_option (\<lambda>s. (sc_ancestor s, Xvr_existsLiteralDictionary (sc_variables s) k)) (sp_scope h2 x)) \<Longrightarrow>
    owner h2 a k c" for h1 h2
  proof (induction rule: owner.induct)
    case (found a s k)
    have "\<exists>s2. sp_scope h2 a = Some s2 \<and> Xvr_existsLiteralDictionary (sc_variables s2) k"
      using found(1,2) found(3) [of a] by (cases "sp_scope h2 a") auto
    then show ?case by (auto intro: owner.found)
  next
    case (above a s k b c)
    have "\<exists>s2. sp_scope h2 a = Some s2 \<and> \<not> Xvr_existsLiteralDictionary (sc_variables s2) k \<and> sc_ancestor s2 = Some b"
      using above(1,2,3) above(6) [of a] by (cases "sp_scope h2 a") auto
    moreover have "owner h2 b k c" using above(5,6) by blast
    ultimately show ?case by (auto intro: owner.above)
  qed
  show ?thesis
  proof
    assume "owner g a k c"
    then show "owner h a k c" by (rule imp) (rule assms)
  next
    assume "owner h a k c"
    then show "owner g a k c" by (rule imp) (rule assms [symmetric])
  qed
qed

text \<open>An assignment to a name that is resolved to \<open>b\<close>, of a value that passes the check.\<close>

lemma assignment_writes:
  assumes "chains_ok h" "live h a" "plain_key k"
    and "\<And>b s. sp_scope h b = Some s \<Longrightarrow> dict_inv plain_key (sc_variables s)"
    and b: "owner h a k b" "sp_scope h b = Some s"
    and h': "h' = put_scope b (s\<lparr>sc_variables := Xvr_setLiteralDictionary (sc_variables s) k v\<rparr>) h"
  shows "Xvr_getScopeVariable (Some a) k h' = Some (Some (Xvr_copyLiteral (Xvr_copyLiteral v)))"
    and "plain_key k' \<Longrightarrow> k' \<noteq> k \<Longrightarrow> Xvr_getScopeVariable (Some a) k' h' = Xvr_getScopeVariable (Some a) k' h"
proof -
  let ?d = "sc_variables s" and ?d' = "Xvr_setLiteralDictionary (sc_variables s) k v"
  have inv: "dict_inv plain_key ?d" using assms(4) b(2) by blast
  have d': "dict_inv plain_key ?d'" "dict_lookup (ld_entries ?d') = (dict_lookup (ld_entries ?d))(k \<mapsto> Xvr_copyLiteral v)"
    using dict.set_correct [OF inv assms(3)] by (simp_all add: Xvr_setLiteralDictionary_def)
  have ex: "Xvr_existsLiteralDictionary ?d k" using owner_live [OF b(1)] b(2) by auto
  have ex': "Xvr_existsLiteralDictionary ?d' k' = Xvr_existsLiteralDictionary ?d k'" if "plain_key k'" for k'
    using ex d'(2) dict.exists_correct [OF inv that] dict.exists_correct [OF d'(1) that]
      dict.exists_correct [OF inv assms(3)]
    by (auto simp: Xvr_existsLiteralDictionary_def)
  have get': "Xvr_getLiteralDictionary ?d' k' = (if k' = k then Xvr_copyLiteral (Xvr_copyLiteral v)
      else Xvr_getLiteralDictionary ?d k')" if "plain_key k'" for k'
    using d'(2) dict.get_correct [OF inv that] dict.get_correct [OF d'(1) that]
    by (simp add: Xvr_getLiteralDictionary_def)
  have own: "owner h' a k' c = owner h a k' c" if "plain_key k'" for k' c
    using ex' [OF that] b(2) by (intro owner_cong) (simp add: h')
  have sh: "same_shape h h'" unfolding h' using b(2) by (rule same_shape_put) simp
  have ok': "chains_ok h'" "live h' a" using sh assms(1,2) same_shape_ok [OF sh] by (simp_all add: same_shape_def)
  have val: "Xvr_getScopeVariable (Some a) k' g = (if \<exists>c. owner g a k' c
      then map_option (\<lambda>s. Some (Xvr_getLiteralDictionary (sc_variables s) k')) (sp_scope g (THE c. owner g a k' c))
      else Some None)" if g: "chains_ok g" "live g a" for g k'
  proof (cases "\<exists>c. owner g a k' c")
    case True
    then obtain c where c: "owner g a k' c" by blast
    have the: "(THE c. owner g a k' c) = c" using c by (rule the_equality) (rule owner_unique [OF _ c])
    obtain r where r: "Xvr_getScopeVariable (Some a) k' g = Some r"
      "case r of None \<Rightarrow> \<nexists>b. owner g a k' b
       | Some v \<Rightarrow> \<exists>b s. owner g a k' b \<and> sp_scope g b = Some s \<and> v = Xvr_getLiteralDictionary (sc_variables s) k'"
      using lookup_spec [OF g, of k'] by blast
    show ?thesis
    proof (cases r)
      case None
      then show ?thesis using r(2) c by simp
    next
      case (Some v)
      then obtain b s where "owner g a k' b" "sp_scope g b = Some s" "v = Xvr_getLiteralDictionary (sc_variables s) k'"
        using r(2) by auto
      moreover from this have "b = c" using owner_unique c by blast
      ultimately show ?thesis using r(1) Some True the by simp
    qed
  next
    case False
    then show ?thesis using lookup_spec [OF g, of k'] by (auto split: option.splits)
  qed
  have the: "(THE c. owner h a k c) = b" using b(1) by (rule the_equality) (rule owner_unique [OF _ b(1)])
  show "Xvr_getScopeVariable (Some a) k h' = Some (Some (Xvr_copyLiteral (Xvr_copyLiteral v)))"
    using val [OF ok', of k] own [OF assms(3)] b(1) the get' [OF assms(3)] by (auto simp: h')
  show "Xvr_getScopeVariable (Some a) k' h' = Xvr_getScopeVariable (Some a) k' h"
    if "plain_key k'" "k' \<noteq> k"
    unfolding val [OF ok'] val [OF assms(1,2)] own [OF that(1)]
    using get' [OF that(1)] that(2) b(2) by (auto simp: h')
qed

text \<open>C23: What an assignment does, on every path. A name that no scope of the chain declares is refused. Otherwise the
  value is checked against the type declared in the nearest scope that has the name: when the check refuses it,
  nothing changes; when it accepts it, the assignment succeeds and changes one dictionary slot and nothing
  else, so that reading the name back gives a copy of the value and every other plain name keeps its
  value; and it has no result only when the check has none.\<close>

theorem variable_assignment:
  assumes "chains_ok h" "live h a" "plain_key k"
    and "\<forall>b s. sp_scope h b = Some s \<longrightarrow> dict_inv plain_key (sc_variables s)"
  shows "((\<nexists>b. owner h a k b) \<longrightarrow> Xvr_setScopeVariable (Some a) k v constCheck h = Some (False, h)) \<and>
    (\<forall>b s. owner h a k b \<and> sp_scope h b = Some s \<longrightarrow>
      (case checkType (Xvr_getLiteralDictionary (sc_types s) k) (Xvr_getLiteralDictionary (sc_variables s) k) v constCheck of
         None \<Rightarrow> Xvr_setScopeVariable (Some a) k v constCheck h = None
       | Some False \<Rightarrow> Xvr_setScopeVariable (Some a) k v constCheck h = Some (False, h)
       | Some True \<Rightarrow>
           (\<exists>h'. Xvr_setScopeVariable (Some a) k v constCheck h = Some (True, h') \<and>
              h' = put_scope b (s\<lparr>sc_variables := Xvr_setLiteralDictionary (sc_variables s) k v\<rparr>) h \<and>
              Xvr_getScopeVariable (Some a) k h' = Some (Some (Xvr_copyLiteral (Xvr_copyLiteral v))) \<and>
              (\<forall>k'. plain_key k' \<longrightarrow> k' \<noteq> k \<longrightarrow>
                 Xvr_getScopeVariable (Some a) k' h' = Xvr_getScopeVariable (Some a) k' h))))"
proof (intro conjI allI impI, goal_cases)
  case 1
  then show ?case using assign_spec(2) [OF assms(1,2)] by blast
next
  case (2 b s)
  then have b: "owner h a k b" "sp_scope h b = Some s" by simp_all
  have same: "put_scope b s h = h" using b(2) by (simp add: fun_upd_idem)
  note run = assign_spec(1) [OF assms(1,2) b, of v constCheck]
  note writes = assignment_writes [OF assms(1-3) assms(4) [rule_format] b refl, where v = v]
  show ?case
    using run same writes by (auto simp: assign_variable_def Let_def split: option.split bool.split)
qed


text \<open>A scope with one declared variable.\<close>

definition string_type :: literal where
  "string_type = Type XVR_LITERAL_STRING False [] 0"

definition one_variable :: scopes where
  "one_variable = one_scope (Xvr_setLiteralDictionary Xvr_initLiteralDictionary (Str ''x'') XVR_TO_NULL_LITERAL)
     (Xvr_setLiteralDictionary Xvr_initLiteralDictionary (Str ''x'') string_type)"

lemma one_variable_inv:
  "sp_scope one_variable b = Some s \<Longrightarrow> dict_inv plain_key (sc_variables s)"
  using dict.set_correct [OF dict.init_inv(1), of "Str ''x''" XVR_TO_NULL_LITERAL]
  by (auto simp: one_variable_def one_scope_def Xvr_setLiteralDictionary_def split: if_splits)

lemma variable_assignment_witness:
  "\<exists>h'. Xvr_setScopeVariable (Some 0) (Str ''x'') (Str ''v'') False one_variable = Some (True, h') \<and>
     Xvr_getScopeVariable (Some 0) (Str ''x'') h' = Some (Some (Str ''v''))"
proof -
  have "map_option fst (Xvr_setScopeVariable (Some 0) (Str ''x'') (Str ''v'') False one_variable) = Some True"
    by code_simp
  then obtain h' where h': "Xvr_setScopeVariable (Some 0) (Str ''x'') (Str ''v'') False one_variable = Some (True, h')"
    by auto
  have ok: "chains_ok one_variable" "live one_variable 0" by (simp_all add: one_variable_def one_scope_ok)
  have k: "plain_key (Str ''x'')" by simp
  obtain s where s: "sp_scope one_variable 0 = Some s" "Xvr_existsLiteralDictionary (sc_variables s) (Str ''x'')"
    "checkType (Xvr_getLiteralDictionary (sc_types s) (Str ''x'')) (Xvr_getLiteralDictionary (sc_variables s) (Str ''x''))
       (Str ''v'') False = Some True"
  proof -
    have "case sp_scope one_variable 0 of None \<Rightarrow> False | Some s \<Rightarrow> Xvr_existsLiteralDictionary (sc_variables s) (Str ''x'') \<and>
      checkType (Xvr_getLiteralDictionary (sc_types s) (Str ''x'')) (Xvr_getLiteralDictionary (sc_variables s) (Str ''x''))
        (Str ''v'') False = Some True"
      by code_simp
    then show ?thesis using that by (auto split: option.splits)
  qed
  have inv: "\<forall>b s. sp_scope one_variable b = Some s \<longrightarrow> dict_inv plain_key (sc_variables s)"
    using one_variable_inv by blast
  have "Xvr_getScopeVariable (Some 0) (Str ''x'') h' = Some (Some (Xvr_copyLiteral (Xvr_copyLiteral (Str ''v''))))"
    using variable_assignment [of one_variable 0 "Str ''x''" "Str ''v''" False, OF ok k inv, THEN conjunct2, rule_format,
      OF conjI [OF owner.found [OF s(1,2)] s(1)]] s(3) h' by auto
  then show ?thesis using h' copy_plain [of "Str ''v''"] by simp
qed

text \<open>A declaration is refused, with nothing changed, when the scope itself already has the name or
  the type is no type literal; otherwise the name reads as null there, with its declared type,
  whatever enclosing scopes hold under it.\<close>

theorem variable_declaration:
  assumes "chains_ok h" "sp_scope h a = Some s" "plain_key k"
    and "dict_inv plain_key (sc_variables s)" "dict_inv plain_key (sc_types s)"
  shows "if Xvr_existsLiteralDictionary (sc_variables s) k \<or> lit_type ty \<noteq> XVR_LITERAL_TYPE
    then Xvr_declareScopeVariable a k ty h = Some (False, h)
    else \<exists>h'. Xvr_declareScopeVariable a k ty h = Some (True, h') \<and>
      Xvr_getScopeVariable (Some a) k h' = Some (Some XVR_TO_NULL_LITERAL) \<and>
      Xvr_getScopeType (Some a) k h' = Some (Xvr_copyLiteral (Xvr_copyLiteral ty)) \<and>
      (\<forall>b. b \<noteq> a \<longrightarrow> sp_scope h' b = sp_scope h b)"
proof -
  let ?v = "Xvr_setLiteralDictionary (sc_variables s) k XVR_TO_NULL_LITERAL"
  let ?t = "Xvr_setLiteralDictionary (sc_types s) k ty"
  have null: "Xvr_copyLiteral XVR_TO_NULL_LITERAL = XVR_TO_NULL_LITERAL"
    by (subst copy_unfold_raw) (simp add: copied_types_def)
  have v: "dict_inv plain_key ?v" "dict_lookup (ld_entries ?v) k = Some XVR_TO_NULL_LITERAL"
    and t: "dict_inv plain_key ?t" "dict_lookup (ld_entries ?t) k = Some (Xvr_copyLiteral ty)"
    using dict.set_correct [OF assms(4,3)] dict.set_correct [OF assms(5,3)] null
    by (simp_all add: Xvr_setLiteralDictionary_def)
  have ex: "Xvr_existsLiteralDictionary ?v k" "Xvr_existsLiteralDictionary ?t k"
    using dict.exists_correct [OF v(1) assms(3)] dict.exists_correct [OF t(1) assms(3)] v(2) t(2)
    by (simp_all add: Xvr_existsLiteralDictionary_def)
  have get: "Xvr_getLiteralDictionary ?v k = XVR_TO_NULL_LITERAL"
    "Xvr_getLiteralDictionary ?t k = Xvr_copyLiteral (Xvr_copyLiteral ty)"
    using dict.get_correct [OF v(1) assms(3)] dict.get_correct [OF t(1) assms(3)] v(2) t(2) null
    by (simp_all add: Xvr_getLiteralDictionary_def)
  show ?thesis
    using assms(2) ex get
    by (auto simp: Xvr_declareScopeVariable_def Xvr_getScopeVariable.simps [of "Some a"]
        Xvr_getScopeType.simps [of "Some a"])
qed

lemma variable_declaration_witness:
  "\<exists>h'. Xvr_declareScopeVariable 0 (Str ''x'') string_type
      (one_scope Xvr_initLiteralDictionary Xvr_initLiteralDictionary) = Some (True, h') \<and>
    Xvr_getScopeVariable (Some 0) (Str ''x'') h' = Some (Some XVR_TO_NULL_LITERAL)"
proof -
  let ?h = "one_scope Xvr_initLiteralDictionary Xvr_initLiteralDictionary"
  have s: "sp_scope ?h 0 = Some \<lparr>sc_ancestor = None, sc_variables = Xvr_initLiteralDictionary,
      sc_types = Xvr_initLiteralDictionary, sc_references = 1\<rparr>" by (simp add: one_scope_def)
  have "\<not> Xvr_existsLiteralDictionary Xvr_initLiteralDictionary (Str ''x'')"
    using dict.exists_correct [OF dict.init_inv(1), of "Str ''x''"] dict.init_inv(2)
    by (simp add: Xvr_existsLiteralDictionary_def)
  then show ?thesis
    using variable_declaration [OF one_scope_ok(1) s, where k = "Str ''x''" and ty = string_type] dict.init_inv(1)
    by (auto simp: string_type_def)
qed

section \<open>Type checks\<close>

text \<open>For a variable of a scalar type that is not constant, the type check accepts null and exactly
  the values of the type, where int covers every integer width and float every float width.\<close>

theorem scalar_type_check:
  assumes "tof \<in> {XVR_LITERAL_BOOLEAN, XVR_LITERAL_INTEGER, XVR_LITERAL_FLOAT, XVR_LITERAL_STRING}"
  shows "checkType (Type tof False ss cap) original val constCheck =
    Some (is_null val \<or>
      (if tof = XVR_LITERAL_INTEGER then is_integer_type (lit_type val)
       else if tof = XVR_LITERAL_FLOAT then is_float_type (lit_type val)
       else lit_type val = tof))"
  using assms
  by (subst checkType.simps, cases val)
     (auto simp: type_mismatch_def late_mismatch_def is_integer_type_def is_float_type_def is_null_def
       split: literal_type.split)

lemma scalar_type_check_witness:
  "checkType (Type XVR_LITERAL_INTEGER False [] 0) XVR_TO_NULL_LITERAL (Xvr_toInt8LiteralCpp 5) False = Some True"
  by (subst scalar_type_check) (simp_all add: Xvr_toInt8LiteralCpp_def is_integer_type_def)

text \<open>A dictionary from which a key was removed is refused as the first value of a variable typed as
  a dictionary of strings, although every remaining entry has the declared type: the check of a new
  value also looks at the tombstones, whose value is a boolean.\<close>

theorem tombstones_fail_type_check:
  "let ty = Type XVR_LITERAL_DICTIONARY False [string_type, string_type] 8;
       d = Xvr_setLiteralDictionary Xvr_initLiteralDictionary (Str ''a'') (Str ''v'');
       d' = Xvr_removeLiteralDictionary (Xvr_setLiteralDictionary d (Str ''b'') (Str ''v'')) (Str ''b'')
   in checkType ty XVR_TO_NULL_LITERAL (to_dict d) False = Some True \<and>
      checkType ty XVR_TO_NULL_LITERAL (to_dict d') False = Some False \<and>
      Xvr_literalsAreEqual (to_dict d) (to_dict d')"
  by code_simp

end
