(* ===== verification/Decimal.thy ===== *)
theory Decimal
  imports XvrPrelude
begin

text \<open>
  Decimal text as the \<open>%d\<close> conversion of \<open>snprintf\<close> writes it, and as the digit loops of the
  scanners read it. Printing is injective because reading undoes it.
\<close>

definition digit_char :: "nat \<Rightarrow> char" where
  "digit_char d = char_of (48 + d)"

fun dec_nat :: "nat \<Rightarrow> string" where
  "dec_nat n = (if n < 10 then [digit_char n] else dec_nat (n div 10) @ [digit_char (n mod 10)])"

declare dec_nat.simps [simp del]

definition dec_int :: "int \<Rightarrow> string" where
  "dec_int i = (if i < 0 then CHR ''-'' # dec_nat (nat (- i)) else dec_nat (nat i))"

text \<open>The value of one digit, and of a digit string read from left to right.\<close>

definition digit_value :: "char \<Rightarrow> nat" where
  "digit_value c = of_char c - 48"

definition read_nat :: "string \<Rightarrow> nat" where
  "read_nat s = foldl (\<lambda>n c. 10 * n + digit_value c) 0 s"

lemma digit_value_char [simp]: "d < 10 \<Longrightarrow> digit_value (digit_char d) = d"
  by (simp add: digit_value_def digit_char_def)

lemma digit_char_is_digit [simp]: "d < 10 \<Longrightarrow> is_digit_char (digit_char d)"
proof -
  assume "d < 10"
  then have "d \<in> {0, 1, 2, 3, 4, 5, 6, 7, 8, 9}" by auto
  moreover have "\<forall>d \<in> {0, 1, 2, 3, 4, 5, 6, 7, 8, 9 :: nat}. is_digit_char (digit_char d)" by code_simp
  ultimately show ?thesis by blast
qed

lemma read_nat_snoc: "read_nat (s @ [c]) = 10 * read_nat s + digit_value c"
  by (simp add: read_nat_def)

lemma read_dec_nat [simp]: "read_nat (dec_nat n) = n"
proof (induction n rule: dec_nat.induct)
  case (1 n)
  show ?case
  proof (cases "n < 10")
    case True
    then show ?thesis by (simp add: dec_nat.simps [of n] read_nat_def)
  next
    case False
    with 1 show ?thesis by (simp add: dec_nat.simps [of n] read_nat_snoc)
  qed
qed

lemma dec_nat_digits [simp]: "list_all is_digit_char (dec_nat n)"
proof (induction n rule: dec_nat.induct)
  case (1 n)
  then show ?case by (cases "n < 10") (simp_all add: dec_nat.simps [of n])
qed

lemma dec_nat_not_Nil [simp]: "dec_nat n \<noteq> []"
  by (subst dec_nat.simps) simp

lemma dec_nat_inj [simp]: "dec_nat m = dec_nat n \<longleftrightarrow> m = n"
  by (metis read_dec_nat)

lemma minus_no_digit [simp]: "\<not> is_digit_char (CHR ''-'')"
  by code_simp

lemma dec_nat_no_minus [simp]: "dec_nat n \<noteq> CHR ''-'' # s" "CHR ''-'' # s \<noteq> dec_nat n"
proof -
  have "\<not> list_all is_digit_char (CHR ''-'' # s)" by simp
  then show "dec_nat n \<noteq> CHR ''-'' # s" "CHR ''-'' # s \<noteq> dec_nat n"
    by (metis dec_nat_digits)+
qed

lemma dec_int_inj [simp]: "dec_int i = dec_int j \<longleftrightarrow> i = j"
  by (cases "i < 0"; cases "j < 0") (auto simp: dec_int_def)

end
