(* ===== verification/TypeSystem.thy ===== *)
theory TypeSystem
  imports Literals Decimal
begin

text \<open>
  Types and casts: src/src/core/types/xvr_type.cpp and src/src/core/semantic/xvr_semantic.cpp. A type
  is a datatype with the kinds that some function of the file creates; the pointer to it is its
  place in the state \<open>type_state\<close>, which holds every type allocated and the intern table of at
  most 32 of them (\<open>g_type_table\<close>). Integer and float types are interned by kind and printed name,
  the three singletons by their static pointer, pointer types never. A NULL type is None.
\<close>

section \<open>Types\<close>

datatype signedness = XVR_SIGNEDNESS_SIGNED | XVR_SIGNEDNESS_UNSIGNED | XVR_SIGNEDNESS_UNKNOWN

datatype cast_kind = XVR_CAST_WIDENING | XVR_CAST_NARROWING | XVR_CAST_INVALID

datatype type_kind =
    XVR_KIND_VOID | XVR_KIND_BOOL | XVR_KIND_INTEGER | XVR_KIND_FLOAT | XVR_KIND_STRING
  | XVR_KIND_ARRAY | XVR_KIND_DICTIONARY | XVR_KIND_POINTER | XVR_KIND_FUNCTION | XVR_KIND_OPAQUE

datatype xvr_type =
    TVoid | TBool | TString
  | TInteger int signedness
  | TFloat int
  | TPointer "xvr_type option"

fun kind_of :: "xvr_type \<Rightarrow> type_kind" where
  "kind_of TVoid = XVR_KIND_VOID"
| "kind_of TBool = XVR_KIND_BOOL"
| "kind_of TString = XVR_KIND_STRING"
| "kind_of (TInteger n s) = XVR_KIND_INTEGER"
| "kind_of (TFloat n) = XVR_KIND_FLOAT"
| "kind_of (TPointer p) = XVR_KIND_POINTER"

text \<open>The allocated types with their names, and the addresses of the interned ones.\<close>

record type_state =
  ts_types :: "(string \<times> xvr_type) list"
  ts_table :: "nat list"

definition no_types :: type_state where
  "no_types = \<lparr>ts_types = [], ts_table = []\<rparr>"

section \<open>Creation\<close>

definition find_or_create_type :: "string \<Rightarrow> type_kind \<Rightarrow> type_state \<Rightarrow> nat option" where
  "find_or_create_type name kind st =
     find (\<lambda>a. kind_of (snd (ts_types st ! a)) = kind \<and> fst (ts_types st ! a) = name) (ts_table st)"

definition allocate_type :: "string \<Rightarrow> xvr_type \<Rightarrow> type_state \<Rightarrow> nat \<times> type_state" where
  "allocate_type name ty st =
     (let a = length (ts_types st)
      in (a, st\<lparr>ts_types := ts_types st @ [(name, ty)],
                ts_table := (if length (ts_table st) < 32 then ts_table st @ [a] else ts_table st)\<rparr>))"

definition integer_name :: "int \<Rightarrow> signedness \<Rightarrow> string" where
  "integer_name size_bits s =
     ''int'' @ dec_int size_bits @ ''_'' @ (if s = XVR_SIGNEDNESS_SIGNED then ''s'' else ''u'')"

definition Xvr_TypeCreateInteger :: "int \<Rightarrow> signedness \<Rightarrow> type_state \<Rightarrow> nat \<times> type_state" where
  "Xvr_TypeCreateInteger size_bits s st =
     (let name = integer_name size_bits s
      in case find_or_create_type name XVR_KIND_INTEGER st of
           Some a \<Rightarrow> (a, st)
         | None \<Rightarrow> allocate_type name (TInteger size_bits s) st)"

definition float_name :: "int \<Rightarrow> string" where
  "float_name size_bits = ''float'' @ dec_int size_bits"

definition Xvr_TypeCreateFloat :: "int \<Rightarrow> type_state \<Rightarrow> nat \<times> type_state" where
  "Xvr_TypeCreateFloat size_bits st =
     (let name = float_name size_bits
      in case find_or_create_type name XVR_KIND_FLOAT st of
           Some a \<Rightarrow> (a, st)
         | None \<Rightarrow> allocate_type name (TFloat size_bits) st)"

definition Xvr_TypeCreatePointer :: "xvr_type option \<Rightarrow> xvr_type" where
  "Xvr_TypeCreatePointer pointee = TPointer pointee"

definition Xvr_TypeCreateBool :: xvr_type where "Xvr_TypeCreateBool = TBool"
definition Xvr_TypeCreateVoid :: xvr_type where "Xvr_TypeCreateVoid = TVoid"
definition Xvr_TypeCreateString :: xvr_type where "Xvr_TypeCreateString = TString"

text \<open>The type a literal tag stands for; the result of an integer or float creation is read back.\<close>

definition interned :: "nat \<times> type_state \<Rightarrow> xvr_type option \<times> type_state" where
  "interned r = (Some (snd (ts_types (snd r) ! fst r)), snd r)"

definition Xvr_TypeGetFromLiteral :: "literal_type \<Rightarrow> type_state \<Rightarrow> xvr_type option \<times> type_state" where
  "Xvr_TypeGetFromLiteral t st =
     (case t of
        XVR_LITERAL_BOOLEAN \<Rightarrow> (Some Xvr_TypeCreateBool, st)
      | XVR_LITERAL_INTEGER \<Rightarrow> interned (Xvr_TypeCreateInteger 32 XVR_SIGNEDNESS_SIGNED st)
      | XVR_LITERAL_INT8 \<Rightarrow> interned (Xvr_TypeCreateInteger 8 XVR_SIGNEDNESS_SIGNED st)
      | XVR_LITERAL_INT16 \<Rightarrow> interned (Xvr_TypeCreateInteger 16 XVR_SIGNEDNESS_SIGNED st)
      | XVR_LITERAL_INT32 \<Rightarrow> interned (Xvr_TypeCreateInteger 32 XVR_SIGNEDNESS_SIGNED st)
      | XVR_LITERAL_INT64 \<Rightarrow> interned (Xvr_TypeCreateInteger 64 XVR_SIGNEDNESS_SIGNED st)
      | XVR_LITERAL_UINT8 \<Rightarrow> interned (Xvr_TypeCreateInteger 8 XVR_SIGNEDNESS_UNSIGNED st)
      | XVR_LITERAL_UINT16 \<Rightarrow> interned (Xvr_TypeCreateInteger 16 XVR_SIGNEDNESS_UNSIGNED st)
      | XVR_LITERAL_UINT32 \<Rightarrow> interned (Xvr_TypeCreateInteger 32 XVR_SIGNEDNESS_UNSIGNED st)
      | XVR_LITERAL_UINT64 \<Rightarrow> interned (Xvr_TypeCreateInteger 64 XVR_SIGNEDNESS_UNSIGNED st)
      | XVR_LITERAL_FLOAT \<Rightarrow> interned (Xvr_TypeCreateFloat 32 st)
      | XVR_LITERAL_FLOAT16 \<Rightarrow> interned (Xvr_TypeCreateFloat 16 st)
      | XVR_LITERAL_FLOAT32 \<Rightarrow> interned (Xvr_TypeCreateFloat 32 st)
      | XVR_LITERAL_FLOAT64 \<Rightarrow> interned (Xvr_TypeCreateFloat 64 st)
      | XVR_LITERAL_STRING \<Rightarrow> (Some Xvr_TypeCreateString, st)
      | _ \<Rightarrow> (None, st))"

section \<open>Queries\<close>

definition Xvr_TypeGetSizeBits :: "xvr_type option \<Rightarrow> int" where
  "Xvr_TypeGetSizeBits ty =
     (case ty of
        None \<Rightarrow> 0
      | Some (TInteger n s) \<Rightarrow> n
      | Some (TFloat n) \<Rightarrow> n
      | Some TBool \<Rightarrow> 8
      | Some (TPointer p) \<Rightarrow> 64
      | Some _ \<Rightarrow> 0)"

definition Xvr_TypeGetSignedness :: "xvr_type option \<Rightarrow> signedness" where
  "Xvr_TypeGetSignedness ty = (case ty of Some (TInteger n s) \<Rightarrow> s | _ \<Rightarrow> XVR_SIGNEDNESS_UNKNOWN)"

definition Xvr_TypeGetKind :: "xvr_type option \<Rightarrow> type_kind" where
  "Xvr_TypeGetKind ty = (case ty of None \<Rightarrow> XVR_KIND_VOID | Some t \<Rightarrow> kind_of t)"

definition Xvr_TypeIsInteger :: "xvr_type option \<Rightarrow> bool" where
  "Xvr_TypeIsInteger ty \<longleftrightarrow> (case ty of None \<Rightarrow> False | Some t \<Rightarrow> kind_of t = XVR_KIND_INTEGER)"

definition Xvr_TypeIsFloat :: "xvr_type option \<Rightarrow> bool" where
  "Xvr_TypeIsFloat ty \<longleftrightarrow> (case ty of None \<Rightarrow> False | Some t \<Rightarrow> kind_of t = XVR_KIND_FLOAT)"

definition Xvr_TypeIsNumeric :: "xvr_type option \<Rightarrow> bool" where
  "Xvr_TypeIsNumeric ty \<longleftrightarrow> Xvr_TypeIsInteger ty \<or> Xvr_TypeIsFloat ty"

definition Xvr_TypeIsPointer :: "xvr_type option \<Rightarrow> bool" where
  "Xvr_TypeIsPointer ty \<longleftrightarrow> (case ty of None \<Rightarrow> False | Some t \<Rightarrow> kind_of t = XVR_KIND_POINTER)"

definition Xvr_TypeIsBool :: "xvr_type option \<Rightarrow> bool" where
  "Xvr_TypeIsBool ty \<longleftrightarrow> (case ty of None \<Rightarrow> False | Some t \<Rightarrow> kind_of t = XVR_KIND_BOOL)"

fun type_equals :: "xvr_type \<Rightarrow> xvr_type \<Rightarrow> bool" where
  "type_equals (TInteger n s) (TInteger m t) = (n = m \<and> s = t)"
| "type_equals (TFloat n) (TFloat m) = (n = m)"
| "type_equals TBool TBool = True"
| "type_equals TString TString = True"
| "type_equals TVoid TVoid = True"
| "type_equals (TPointer (Some p)) (TPointer (Some q)) = type_equals p q"
| "type_equals a b = False"

definition Xvr_TypeEquals :: "xvr_type option \<Rightarrow> xvr_type option \<Rightarrow> bool" where
  "Xvr_TypeEquals a b = (case (a, b) of (Some s, Some t) \<Rightarrow> type_equals s t | _ \<Rightarrow> False)"

text \<open>
  The text of a type is written to one static buffer. For a pointer, the text of the pointee is the
  argument of the \<open>snprintf\<close> into that buffer: when the pointee's text is the buffer itself the two
  overlap and the result is undefined, None.
\<close>

fun in_buffer :: "xvr_type option \<Rightarrow> bool" where
  "in_buffer (Some (TInteger n s)) = True"
| "in_buffer (Some (TFloat n)) = True"
| "in_buffer (Some (TPointer p)) = True"
| "in_buffer _ = False"

fun type_to_string :: "xvr_type \<Rightarrow> string option" where
  "type_to_string (TInteger n s) =
     Some (take 63 (''int'' @ dec_int n @ (if s = XVR_SIGNEDNESS_UNSIGNED then ''u'' else '''')))"
| "type_to_string (TFloat n) = Some (take 63 (''float'' @ dec_int n))"
| "type_to_string TBool = Some ''bool''"
| "type_to_string TString = Some ''string''"
| "type_to_string TVoid = Some ''void''"
| "type_to_string (TPointer None) = Some ''pointer<unknown>''"
| "type_to_string (TPointer (Some p)) =
     (if in_buffer (Some p) then None
      else map_option (\<lambda>s. take 63 (''pointer<'' @ s @ ''>'')) (type_to_string p))"

definition Xvr_TypeToString :: "xvr_type option \<Rightarrow> string option" where
  "Xvr_TypeToString ty = (case ty of None \<Rightarrow> Some ''unknown'' | Some t \<Rightarrow> type_to_string t)"

section \<open>Casts\<close>

datatype cast_result =
    XVR_CAST_RESULT_OK | XVR_CAST_RESULT_INVALID | XVR_CAST_RESULT_IMPLICIT_NARROWING
  | XVR_CAST_RESULT_SIGN_CONVERSION

definition Xvr_IsWidening :: "xvr_type option \<Rightarrow> xvr_type option \<Rightarrow> bool" where
  "Xvr_IsWidening from to =
     (case (from, to) of
        (Some (TInteger n s), Some (TInteger m t)) \<Rightarrow> m \<ge> n
      | (Some (TFloat n), Some (TFloat m)) \<Rightarrow> m \<ge> n
      | (Some (TInteger n s), Some (TFloat m)) \<Rightarrow> m \<ge> n
      | _ \<Rightarrow> False)"

definition Xvr_IsNarrowing :: "xvr_type option \<Rightarrow> xvr_type option \<Rightarrow> bool" where
  "Xvr_IsNarrowing from to \<longleftrightarrow>
     \<not> Xvr_IsWidening from to \<and> Xvr_TypeIsNumeric from \<and> Xvr_TypeIsNumeric to"

definition Xvr_GetCastKind :: "xvr_type option \<Rightarrow> xvr_type option \<Rightarrow> cast_kind" where
  "Xvr_GetCastKind from to =
     (if from = None \<or> to = None then XVR_CAST_INVALID
      else if Xvr_TypeEquals from to then XVR_CAST_WIDENING
      else if Xvr_IsWidening from to then XVR_CAST_WIDENING
      else if Xvr_IsNarrowing from to then XVR_CAST_NARROWING
      else XVR_CAST_INVALID)"

definition Xvr_CanCast :: "xvr_type option \<Rightarrow> xvr_type option \<Rightarrow> bool \<Rightarrow> cast_result" where
  "Xvr_CanCast from to isExplicit =
     (case (from, to) of
        (Some f, Some t) \<Rightarrow>
          if Xvr_TypeEquals from to then XVR_CAST_RESULT_OK
          else if Xvr_TypeIsInteger from \<and> Xvr_TypeIsInteger to then
            (if Xvr_TypeGetSizeBits from = Xvr_TypeGetSizeBits to \<and>
                Xvr_TypeGetSignedness from \<noteq> Xvr_TypeGetSignedness to
             then XVR_CAST_RESULT_SIGN_CONVERSION else XVR_CAST_RESULT_OK)
          else if Xvr_TypeIsFloat from \<and> Xvr_TypeIsFloat to then XVR_CAST_RESULT_OK
          else if Xvr_TypeIsInteger from \<and> Xvr_TypeIsFloat to then XVR_CAST_RESULT_OK
          else if Xvr_TypeIsFloat from \<and> Xvr_TypeIsInteger to then
            (if \<not> isExplicit then XVR_CAST_RESULT_IMPLICIT_NARROWING else XVR_CAST_RESULT_OK)
          else if Xvr_TypeIsBool from \<and> Xvr_TypeIsNumeric to then XVR_CAST_RESULT_OK
          else if Xvr_TypeIsBool to \<and> Xvr_TypeIsNumeric from then XVR_CAST_RESULT_OK
          else if Xvr_TypeIsPointer from \<and> Xvr_TypeIsPointer to then XVR_CAST_RESULT_OK
          else if Xvr_TypeIsInteger from \<and> Xvr_TypeIsPointer to then
            (if \<not> isExplicit then XVR_CAST_RESULT_IMPLICIT_NARROWING else XVR_CAST_RESULT_OK)
          else XVR_CAST_RESULT_INVALID
      | _ \<Rightarrow> XVR_CAST_RESULT_INVALID)"

definition Xvr_CanImplicitCast :: "xvr_type option \<Rightarrow> xvr_type option \<Rightarrow> bool" where
  "Xvr_CanImplicitCast from to \<longleftrightarrow> Xvr_CanCast from to False = XVR_CAST_RESULT_OK"

fun Xvr_CastResultToString :: "cast_result \<Rightarrow> string" where
  "Xvr_CastResultToString XVR_CAST_RESULT_OK = ''OK''"
| "Xvr_CastResultToString XVR_CAST_RESULT_INVALID = ''Invalid cast''"
| "Xvr_CastResultToString XVR_CAST_RESULT_IMPLICIT_NARROWING = ''Implicit narrowing not allowed''"
| "Xvr_CastResultToString XVR_CAST_RESULT_SIGN_CONVERSION = ''Sign conversion requires explicit cast''"

section \<open>The analyzer\<close>

record semantic_error =
  se_message :: string
  se_line :: int
  se_column :: int

text \<open>At most 16 errors are kept; \<open>error_count\<close> is their number.\<close>

record semantic_analyzer =
  sa_errors :: "semantic_error list"

definition Xvr_SemanticAnalyzerCreate :: semantic_analyzer where
  "Xvr_SemanticAnalyzerCreate = \<lparr>sa_errors = []\<rparr>"

definition Xvr_SemanticErrorCreate ::
    "string \<Rightarrow> int \<Rightarrow> int \<Rightarrow> semantic_analyzer option \<Rightarrow> semantic_analyzer option" where
  "Xvr_SemanticErrorCreate msg line col analyzer =
     (case analyzer of
        None \<Rightarrow> None
      | Some sa \<Rightarrow>
          if length (sa_errors sa) \<ge> 16 then Some sa
          else Some (sa\<lparr>sa_errors := sa_errors sa @ [\<lparr>se_message = msg, se_line = line, se_column = col\<rparr>]\<rparr>))"

definition Xvr_SemanticAnalyzerHasErrors :: "semantic_analyzer option \<Rightarrow> bool" where
  "Xvr_SemanticAnalyzerHasErrors analyzer \<longleftrightarrow>
     (case analyzer of None \<Rightarrow> False | Some sa \<Rightarrow> length (sa_errors sa) > 0)"

definition Xvr_SemanticAnalyzerGetErrors :: "semantic_analyzer option \<Rightarrow> semantic_error list \<times> nat" where
  "Xvr_SemanticAnalyzerGetErrors analyzer =
     (case analyzer of None \<Rightarrow> ([], 0) | Some sa \<Rightarrow> (sa_errors sa, length (sa_errors sa)))"

definition Xvr_SemanticAnalyze :: "semantic_analyzer \<Rightarrow> 'node option \<Rightarrow> bool" where
  "Xvr_SemanticAnalyze analyzer node = (case node of None \<Rightarrow> True | Some n \<Rightarrow> True)"

definition Xvr_InsertImplicitCast :: "'node option \<Rightarrow> xvr_type option \<Rightarrow> 'node option" where
  "Xvr_InsertImplicitCast expr target_type =
     (if expr = None \<or> target_type = None then expr else expr)"

section \<open>The intern table\<close>

text \<open>
  Every interned type is an integer or a float under the name its width and sign print to, and no
  two entries agree in kind and name. UNSIGNED and UNKNOWN print alike, so they share an entry.
\<close>

definition type_name :: "xvr_type \<Rightarrow> string" where
  "type_name ty = (case ty of TInteger n s \<Rightarrow> integer_name n s | TFloat n \<Rightarrow> float_name n | _ \<Rightarrow> [])"

definition internable :: "xvr_type \<Rightarrow> bool" where
  "internable ty \<longleftrightarrow> kind_of ty = XVR_KIND_INTEGER \<or> kind_of ty = XVR_KIND_FLOAT"

definition types_inv :: "type_state \<Rightarrow> bool" where
  "types_inv st \<longleftrightarrow>
     list_all (\<lambda>(name, ty). internable ty \<and> name = type_name ty) (ts_types st) \<and>
     list_all (\<lambda>a. a < length (ts_types st)) (ts_table st) \<and>
     length (ts_table st) \<le> 32"

lemma no_types_inv: "types_inv no_types"
  by (simp add: types_inv_def no_types_def)

lemma find_or_create_Some:
  assumes "find_or_create_type name kind st = Some a" "types_inv st"
  shows "a < length (ts_types st)" "fst (ts_types st ! a) = name" "kind_of (snd (ts_types st ! a)) = kind"
    "type_name (snd (ts_types st ! a)) = name"
proof -
  from assms(1) have *: "a \<in> set (ts_table st)" "fst (ts_types st ! a) = name" "kind_of (snd (ts_types st ! a)) = kind"
    by (auto simp: find_or_create_type_def find_Some_iff in_set_conv_nth)
  with assms(2) show l: "a < length (ts_types st)" by (auto simp: types_inv_def list_all_iff)
  show "fst (ts_types st ! a) = name" "kind_of (snd (ts_types st ! a)) = kind" using * by simp_all
  from l assms(2) have "case ts_types st ! a of (n, ty) \<Rightarrow> internable ty \<and> n = type_name ty"
    by (auto simp: types_inv_def list_all_length)
  then show "type_name (snd (ts_types st ! a)) = name" using *(2) by (auto split: prod.splits)
qed

lemma allocate_type_inv:
  assumes "types_inv st" "internable ty" "name = type_name ty"
  shows "types_inv (snd (allocate_type name ty st))"
  using assms by (auto simp: types_inv_def allocate_type_def Let_def list_all_iff nth_append)

lemma find_snoc:
  "find P (xs @ [x]) = (case find P xs of Some y \<Rightarrow> Some y | None \<Rightarrow> if P x then Some x else None)"
  by (induction xs) auto

lemma find_after_allocate:
  assumes "types_inv st" "find_or_create_type name (kind_of ty) st = None" "length (ts_table st) < 32"
    and "allocate_type name ty st = (a, st')"
  shows "find_or_create_type name (kind_of ty) st' = Some a"
proof -
  have old: "\<forall>b \<in> set (ts_table st). b < length (ts_types st)"
    using assms(1) by (simp add: types_inv_def list_all_iff)
  have none: "\<forall>b \<in> set (ts_table st). \<not> (kind_of (snd (ts_types st ! b)) = kind_of ty \<and> fst (ts_types st ! b) = name)"
    using assms(2) by (simp add: find_or_create_type_def find_None_iff)
  have st': "ts_types st' = ts_types st @ [(name, ty)]" "ts_table st' = ts_table st @ [a]" "a = length (ts_types st)"
    using assms(3,4) by (auto simp: allocate_type_def Let_def)
  let ?P = "\<lambda>b. kind_of (snd (ts_types st' ! b)) = kind_of ty \<and> fst (ts_types st' ! b) = name"
  have "find ?P (ts_table st) = None"
    using old none by (auto simp: find_None_iff st'(1) nth_append)
  moreover have "?P a" by (simp add: st')
  ultimately have "find ?P (ts_table st @ [a]) = Some a" by (simp add: find_snoc)
  then show ?thesis unfolding find_or_create_type_def st'(2) .
qed

text \<open>UNKNOWN and UNSIGNED are one for the name.\<close>

definition same_sign_name :: "signedness \<Rightarrow> signedness \<Rightarrow> bool" where
  "same_sign_name s t \<longleftrightarrow> (s = XVR_SIGNEDNESS_SIGNED \<longleftrightarrow> t = XVR_SIGNEDNESS_SIGNED)"

lemma integer_name_inj [simp]: "integer_name n s = integer_name m t \<longleftrightarrow> n = m \<and> same_sign_name s t"
  by (auto simp: integer_name_def same_sign_name_def)

lemma float_name_inj [simp]: "float_name n = float_name m \<longleftrightarrow> n = m"
  by (simp add: float_name_def)

text \<open>C24: Creating an integer type returns a type of that width and, up to the confusion of UNSIGNED with
  UNKNOWN, that sign; it keeps the intern table well-formed, changes no type that exists, and while
  the table has room creating the same type again gives the same pointer and changes nothing.\<close>

theorem integer_types_interned:
  assumes "types_inv st" "Xvr_TypeCreateInteger n s st = (a, st')"
  shows "types_inv st' \<and> (\<exists>t. snd (ts_types st' ! a) = TInteger n t \<and> same_sign_name s t) \<and>
      (\<forall>b. b < length (ts_types st) \<longrightarrow> ts_types st' ! b = ts_types st ! b) \<and>
      (length (ts_table st) < 32 \<longrightarrow> Xvr_TypeCreateInteger n s st' = (a, st'))"
proof -
  let ?name = "integer_name n s"
  have named: "\<exists>t. ty = TInteger n t \<and> same_sign_name s t"
    if "type_name ty = ?name" "kind_of ty = XVR_KIND_INTEGER" for ty
    using that by (cases ty) (auto simp: type_name_def same_sign_name_def)
  show ?thesis
  proof (cases "find_or_create_type ?name XVR_KIND_INTEGER st")
    case (Some b)
    then have "a = b" "st' = st" using assms(2) by (auto simp: Xvr_TypeCreateInteger_def Let_def)
    with Some show ?thesis
      using named find_or_create_Some [OF Some assms(1)] assms(1,2) by auto
  next
    case None
    let ?ty = "TInteger n s"
    have al: "allocate_type ?name ?ty st = (a, st')"
      using assms(2) None by (simp add: Xvr_TypeCreateInteger_def Let_def)
    then have new: "ts_types st' = ts_types st @ [(?name, ?ty)]" "a = length (ts_types st)"
      by (auto simp: allocate_type_def Let_def)
    have "types_inv st'"
      using allocate_type_inv [OF assms(1), of ?ty ?name] al by (simp add: internable_def type_name_def)
    moreover have "Xvr_TypeCreateInteger n s st' = (a, st')" if "length (ts_table st) < 32"
      using find_after_allocate [OF assms(1), of ?name ?ty] None that al
      by (simp add: Xvr_TypeCreateInteger_def Let_def)
    ultimately show ?thesis by (auto simp: new nth_append same_sign_name_def)
  qed
qed

lemma integer_types_interned_witness:
  "Xvr_TypeCreateInteger 32 XVR_SIGNEDNESS_SIGNED (snd (Xvr_TypeCreateInteger 32 XVR_SIGNEDNESS_SIGNED no_types))
     = Xvr_TypeCreateInteger 32 XVR_SIGNEDNESS_SIGNED no_types"
proof -
  obtain a st' where r: "Xvr_TypeCreateInteger 32 XVR_SIGNEDNESS_SIGNED no_types = (a, st')" by force
  have "length (ts_table no_types) < 32" by (simp add: no_types_def)
  then show ?thesis using integer_types_interned [OF no_types_inv r] r by simp
qed

section \<open>Classification of casts\<close>

lemmas cast_defs = Xvr_TypeIsNumeric_def Xvr_TypeIsInteger_def Xvr_TypeIsFloat_def Xvr_TypeIsBool_def
  Xvr_TypeIsPointer_def Xvr_GetCastKind_def Xvr_IsWidening_def Xvr_IsNarrowing_def Xvr_CanCast_def
  Xvr_CanImplicitCast_def Xvr_TypeEquals_def Xvr_TypeGetSizeBits_def Xvr_TypeGetSignedness_def

abbreviation numeric :: "xvr_type \<Rightarrow> bool" where
  "numeric t \<equiv> Xvr_TypeIsNumeric (Some t)"

text \<open>Between two numeric types a cast is always classified as widening or narrowing, widening exactly
  when the width does not shrink and it does not go from float to integer or the types are equal. It is accepted
  when explicit unless it only changes the sign at one width, which is refused even then; implicit
  casts are accepted in the same cases but from float to integer.\<close>

theorem numeric_casts:
  assumes "numeric f" "numeric t"
  shows "(Xvr_GetCastKind (Some f) (Some t) =
      (if Xvr_TypeGetSizeBits (Some t) \<ge> Xvr_TypeGetSizeBits (Some f) \<and>
          \<not> (Xvr_TypeIsFloat (Some f) \<and> Xvr_TypeIsInteger (Some t))
       then XVR_CAST_WIDENING else XVR_CAST_NARROWING)) \<and>
    (Xvr_CanCast (Some f) (Some t) True =
      (if \<exists>n s s'. f = TInteger n s \<and> t = TInteger n s' \<and> s \<noteq> s'
       then XVR_CAST_RESULT_SIGN_CONVERSION else XVR_CAST_RESULT_OK)) \<and>
    (Xvr_CanImplicitCast (Some f) (Some t) \<longleftrightarrow>
      Xvr_CanCast (Some f) (Some t) True = XVR_CAST_RESULT_OK \<and>
      \<not> (Xvr_TypeIsFloat (Some f) \<and> Xvr_TypeIsInteger (Some t)))"
  using assms
  by (intro conjI; cases f; cases t; simp add: cast_defs; fail)

lemma numeric_casts_witness:
  "Xvr_GetCastKind (Some (TInteger 64 XVR_SIGNEDNESS_SIGNED)) (Some (TInteger 8 XVR_SIGNEDNESS_SIGNED)) = XVR_CAST_NARROWING \<and>
   Xvr_CanImplicitCast (Some (TInteger 64 XVR_SIGNEDNESS_SIGNED)) (Some (TInteger 8 XVR_SIGNEDNESS_SIGNED))"
proof -
  have n: "numeric (TInteger 64 XVR_SIGNEDNESS_SIGNED)" "numeric (TInteger 8 XVR_SIGNEDNESS_SIGNED)"
    by (simp_all add: Xvr_TypeIsNumeric_def Xvr_TypeIsInteger_def)
  show ?thesis
    using numeric_casts [OF n] by (simp add: Xvr_TypeGetSizeBits_def Xvr_TypeIsFloat_def)
qed

end
