(* ===== verification/AstNodes.thy ===== *)
theory AstNodes
  imports LitOps
begin

text \<open>
  The abstract syntax tree: src/src/xvr_opcodes.h, src/src/core/ast/xvr_ast_node.h and
  xvr_ast_node.cpp. A node is the constructor of its discriminant with the members of its union
  arm; a child pointer is an \<open>ast option\<close>, None when it is NULL, and an array of nodes is the list
  of its active elements with the allocated capacity. The emit functions build a node and leave it
  in their handle; the model returns the handle's new value.
\<close>

section \<open>Opcodes\<close>

datatype (plugins only: code size) opcode =
    XVR_OP_EOF | XVR_OP_PASS | XVR_OP_ASSERT | XVR_OP_PRINT | XVR_OP_PRINTF | XVR_OP_CAST
    | XVR_OP_LITERAL | XVR_OP_LITERAL_LONG | XVR_OP_LITERAL_RAW | XVR_OP_NEGATE | XVR_OP_ADDITION
    | XVR_OP_SUBTRACTION | XVR_OP_MULTIPLICATION | XVR_OP_DIVISION | XVR_OP_MODULO
    | XVR_OP_GROUPING_BEGIN | XVR_OP_GROUPING_END | XVR_OP_SCOPE_BEGIN | XVR_OP_SCOPE_END
    | XVR_OP_TYPE_DECL | XVR_OP_TYPE_DECL_LONG | XVR_OP_VAR_DECL | XVR_OP_VAR_DECL_LONG
    | XVR_OP_FN_DECL | XVR_OP_FN_DECL_LONG | XVR_OP_VAR_ASSIGN | XVR_OP_VAR_ADDITION_ASSIGN
    | XVR_OP_VAR_SUBTRACTION_ASSIGN | XVR_OP_VAR_MULTIPLICATION_ASSIGN
    | XVR_OP_VAR_DIVISION_ASSIGN | XVR_OP_VAR_MODULO_ASSIGN | XVR_OP_TYPE_CAST | XVR_OP_TYPE_OF
    | XVR_OP_IMPORT | XVR_OP_EXPORT_removed | XVR_OP_INDEX | XVR_OP_INDEX_ASSIGN
    | XVR_OP_INDEX_ASSIGN_INTERMEDIATE | XVR_OP_DOT | XVR_OP_COMPARE_EQUAL
    | XVR_OP_COMPARE_NOT_EQUAL | XVR_OP_COMPARE_LESS | XVR_OP_COMPARE_LESS_EQUAL
    | XVR_OP_COMPARE_GREATER | XVR_OP_COMPARE_GREATER_EQUAL | XVR_OP_INVERT | XVR_OP_AND
    | XVR_OP_OR | XVR_OP_JUMP | XVR_OP_IF_FALSE_JUMP | XVR_OP_FN_CALL | XVR_OP_FN_RETURN
    | XVR_OP_POP_STACK | XVR_OP_TERNARY | XVR_OP_FN_END | XVR_OP_SECTION_END

definition all_opcodes :: "opcode list" where
  "all_opcodes =
    [XVR_OP_EOF, XVR_OP_PASS, XVR_OP_ASSERT, XVR_OP_PRINT, XVR_OP_PRINTF, XVR_OP_CAST
     , XVR_OP_LITERAL, XVR_OP_LITERAL_LONG, XVR_OP_LITERAL_RAW, XVR_OP_NEGATE, XVR_OP_ADDITION
     , XVR_OP_SUBTRACTION, XVR_OP_MULTIPLICATION, XVR_OP_DIVISION, XVR_OP_MODULO
     , XVR_OP_GROUPING_BEGIN, XVR_OP_GROUPING_END, XVR_OP_SCOPE_BEGIN, XVR_OP_SCOPE_END
     , XVR_OP_TYPE_DECL, XVR_OP_TYPE_DECL_LONG, XVR_OP_VAR_DECL, XVR_OP_VAR_DECL_LONG
     , XVR_OP_FN_DECL, XVR_OP_FN_DECL_LONG, XVR_OP_VAR_ASSIGN, XVR_OP_VAR_ADDITION_ASSIGN
     , XVR_OP_VAR_SUBTRACTION_ASSIGN, XVR_OP_VAR_MULTIPLICATION_ASSIGN, XVR_OP_VAR_DIVISION_ASSIGN
     , XVR_OP_VAR_MODULO_ASSIGN, XVR_OP_TYPE_CAST, XVR_OP_TYPE_OF, XVR_OP_IMPORT
     , XVR_OP_EXPORT_removed, XVR_OP_INDEX, XVR_OP_INDEX_ASSIGN, XVR_OP_INDEX_ASSIGN_INTERMEDIATE
     , XVR_OP_DOT, XVR_OP_COMPARE_EQUAL, XVR_OP_COMPARE_NOT_EQUAL, XVR_OP_COMPARE_LESS
     , XVR_OP_COMPARE_LESS_EQUAL, XVR_OP_COMPARE_GREATER, XVR_OP_COMPARE_GREATER_EQUAL
     , XVR_OP_INVERT, XVR_OP_AND, XVR_OP_OR, XVR_OP_JUMP, XVR_OP_IF_FALSE_JUMP, XVR_OP_FN_CALL
     , XVR_OP_FN_RETURN, XVR_OP_POP_STACK, XVR_OP_TERNARY, XVR_OP_FN_END, XVR_OP_SECTION_END]"

text \<open>The enumerators count from 0, but for the last, which is 255.\<close>

definition opcode_code :: "opcode \<Rightarrow> nat" where
  "opcode_code op = (if op = XVR_OP_SECTION_END then 255 else position op all_opcodes)"

section \<open>Nodes\<close>

datatype (plugins only: code size) ast =
    NodeError
  | NodeLiteral literal
  | NodeUnary opcode "ast option"
  | NodeBinary opcode "ast option" "ast option"
  | NodeTernary "ast option" "ast option" "ast option"
  | NodeGrouping "ast option"
  | NodeBlock "ast list" nat
  | NodeCompound literal_type "ast list" nat
  | NodePair "ast option" "ast option"
  | NodeIndex "ast option" "ast option" "ast option"
  | NodeVarDecl literal literal "ast option" int
  | NodeFnDecl literal "ast option" "ast option" "ast option" int
  | NodeFnCollection "ast list" nat
  | NodeFnCall "ast option" nat
  | NodeFnReturn "ast option"
  | NodeIf "ast option" "ast option" "ast option" literal_type bool
  | NodeWhile "ast option" "ast option"
  | NodeFor "ast option" "ast option" "ast option" "ast option"
  | NodeBreak
  | NodeContinue
  | NodePrefixIncrement literal
  | NodePostfixIncrement literal
  | NodePrefixDecrement literal
  | NodePostfixDecrement literal
  | NodeCast literal "ast option"
  | NodeImport literal literal
  | NodePass

section \<open>Construction\<close>

definition Xvr_emitASTNodeLiteral :: "literal \<Rightarrow> ast" where
  "Xvr_emitASTNodeLiteral l = NodeLiteral (Xvr_copyLiteral l)"

definition Xvr_emitASTNodeUnary :: "opcode \<Rightarrow> ast option \<Rightarrow> ast" where
  "Xvr_emitASTNodeUnary op child = NodeUnary op child"

definition Xvr_emitASTNodeBinary :: "ast option \<Rightarrow> ast option \<Rightarrow> opcode \<Rightarrow> ast" where
  "Xvr_emitASTNodeBinary handle rhs op = NodeBinary op handle rhs"

definition Xvr_emitASTNodeTernary :: "ast option \<Rightarrow> ast option \<Rightarrow> ast option \<Rightarrow> ast" where
  "Xvr_emitASTNodeTernary condition thenPath elsePath = NodeTernary condition thenPath elsePath"

definition Xvr_emitASTNodeGrouping :: "ast option \<Rightarrow> ast" where
  "Xvr_emitASTNodeGrouping handle = NodeGrouping handle"

definition Xvr_emitASTNodeBlock :: ast where
  "Xvr_emitASTNodeBlock = NodeBlock [] 0"

definition Xvr_emitASTNodeCompound :: "literal_type \<Rightarrow> ast" where
  "Xvr_emitASTNodeCompound t = NodeCompound t [] 0"

definition Xvr_setASTNodePair :: "ast option \<Rightarrow> ast option \<Rightarrow> ast" where
  "Xvr_setASTNodePair left right = NodePair left right"

definition Xvr_emitASTNodeIndex :: "ast option \<Rightarrow> ast option \<Rightarrow> ast option \<Rightarrow> ast" where
  "Xvr_emitASTNodeIndex first second third = NodeIndex first second third"

definition Xvr_emitASTNodeVarDecl :: "literal \<Rightarrow> literal \<Rightarrow> ast option \<Rightarrow> int \<Rightarrow> ast" where
  "Xvr_emitASTNodeVarDecl identifier typeLiteral expression line =
     NodeVarDecl identifier typeLiteral expression line"

definition Xvr_emitASTNodeFnCollection :: ast where
  "Xvr_emitASTNodeFnCollection = NodeFnCollection [] 0"

definition Xvr_emitASTNodeFnDecl ::
    "literal \<Rightarrow> ast option \<Rightarrow> ast option \<Rightarrow> ast option \<Rightarrow> int \<Rightarrow> ast" where
  "Xvr_emitASTNodeFnDecl identifier arguments returns block line =
     NodeFnDecl identifier arguments returns block line"

text \<open>
  \<open>arguments->fnCollection.count\<close>: the three array arms lay their counts at the same offset; with
  any other argument node, or NULL, the code reads something else.
\<close>

definition Xvr_emitASTNodeFnCall :: "ast option \<Rightarrow> ast option" where
  "Xvr_emitASTNodeFnCall arguments =
     (case arguments of
        Some (NodeFnCollection xs c) \<Rightarrow> Some (NodeFnCall arguments (length xs))
      | Some (NodeCompound t xs c) \<Rightarrow> Some (NodeFnCall arguments (length xs))
      | Some (NodeBlock xs c) \<Rightarrow> Some (NodeFnCall arguments (length xs))
      | _ \<Rightarrow> None)"

definition Xvr_emitASTNodeFnReturn :: "ast option \<Rightarrow> ast" where
  "Xvr_emitASTNodeFnReturn returns = NodeFnReturn returns"

definition Xvr_emitASTNodeIf :: "ast option \<Rightarrow> ast option \<Rightarrow> ast option \<Rightarrow> ast" where
  "Xvr_emitASTNodeIf condition thenPath elsePath =
     NodeIf condition thenPath elsePath XVR_LITERAL_TYPE False"

definition Xvr_markIfAsExpression :: "ast option \<Rightarrow> literal_type \<Rightarrow> ast option" where
  "Xvr_markIfAsExpression node returnType =
     (case node of
        Some (NodeIf c t e r x) \<Rightarrow> Some (NodeIf c t e returnType True)
      | _ \<Rightarrow> node)"

definition Xvr_emitASTNodeWhile :: "ast option \<Rightarrow> ast option \<Rightarrow> ast" where
  "Xvr_emitASTNodeWhile condition thenPath = NodeWhile condition thenPath"

definition Xvr_emitASTNodeFor :: "ast option \<Rightarrow> ast option \<Rightarrow> ast option \<Rightarrow> ast option \<Rightarrow> ast" where
  "Xvr_emitASTNodeFor preClause condition postClause thenPath =
     NodeFor preClause condition postClause thenPath"

definition Xvr_emitASTNodeBreak :: ast where "Xvr_emitASTNodeBreak = NodeBreak"
definition Xvr_emitASTNodeContinue :: ast where "Xvr_emitASTNodeContinue = NodeContinue"

definition Xvr_emitASTNodePrefixIncrement :: "literal \<Rightarrow> ast" where
  "Xvr_emitASTNodePrefixIncrement i = NodePrefixIncrement (Xvr_copyLiteral i)"

definition Xvr_emitASTNodePrefixDecrement :: "literal \<Rightarrow> ast" where
  "Xvr_emitASTNodePrefixDecrement i = NodePrefixDecrement (Xvr_copyLiteral i)"

definition Xvr_emitASTNodePostfixIncrement :: "literal \<Rightarrow> ast" where
  "Xvr_emitASTNodePostfixIncrement i = NodePostfixIncrement (Xvr_copyLiteral i)"

definition Xvr_emitASTNodePostfixDecrement :: "literal \<Rightarrow> ast" where
  "Xvr_emitASTNodePostfixDecrement i = NodePostfixDecrement (Xvr_copyLiteral i)"

definition Xvr_emitASTNodeImport :: "literal \<Rightarrow> literal \<Rightarrow> ast" where
  "Xvr_emitASTNodeImport identifier alias = NodeImport (Xvr_copyLiteral identifier) (Xvr_copyLiteral alias)"

definition Xvr_emitASTNodeCast :: "literal \<Rightarrow> ast option \<Rightarrow> ast" where
  "Xvr_emitASTNodeCast targetType expression = NodeCast (Xvr_copyLiteral targetType) expression"

definition Xvr_emitASTNodePass :: ast where "Xvr_emitASTNodePass = NodePass"

section \<open>Members read\<close>

text \<open>\<open>as.identifier.ptr->data\<close>: the pointer is NULL (Some None), a string, or no string pointer at all.\<close>

definition identifier_text :: "literal \<Rightarrow> string option option" where
  "identifier_text l =
     (case l of
        Ident s h \<Rightarrow> Some (Some s)
      | Str s \<Rightarrow> Some (Some s)
      | Bits t v \<Rightarrow> if v = 0 then Some None else None
      | _ \<Rightarrow> None)"

text \<open>The elements of an argument list, which the code reads as one array arm whichever it is.\<close>

definition argument_nodes :: "ast \<Rightarrow> ast list option" where
  "argument_nodes n =
     (case n of
        NodeCompound t xs c \<Rightarrow> Some xs
      | NodeFnCollection xs c \<Rightarrow> Some xs
      | NodeBlock xs c \<Rightarrow> Some xs
      | _ \<Rightarrow> None)"

lemma argument_nodes_size: "argument_nodes n = Some xs \<Longrightarrow> size_list size xs < size n"
  by (cases n) (auto simp: argument_nodes_def)

section \<open>Release\<close>

text \<open>
  \<open>Xvr_freeASTNode\<close> as the list of what it releases, in order. A node is named by its path from the
  root: \<open>Field k\<close> is the child behind the k-th pointer of the struct, \<open>Elem k\<close> the k-th element of
  its array. Elements are part of their array's memory, so only \<open>ReleaseArray\<close> frees them.
\<close>

datatype path_step = Field nat | Elem nat

type_synonym path = "path_step list"

datatype release =
    ReleaseNode path
  | ReleaseArray path
  | ReleaseLiteral path literal

fun freeASTNodeCustom :: "ast \<Rightarrow> bool \<Rightarrow> path \<Rightarrow> release list"
  and free_child :: "ast option \<Rightarrow> path \<Rightarrow> nat \<Rightarrow> release list"
  and free_elements :: "ast list \<Rightarrow> nat \<Rightarrow> path \<Rightarrow> release list" where
  "freeASTNodeCustom node freeSelf p =
     (case node of
        NodeError \<Rightarrow> []
      | NodeLiteral l \<Rightarrow> [ReleaseLiteral p l]
      | NodeUnary op c \<Rightarrow> free_child c p 0
      | NodeBinary op l r \<Rightarrow> free_child l p 0 @ free_child r p 1
      | NodeTernary c t e \<Rightarrow> free_child c p 0 @ free_child t p 1 @ free_child e p 2
      | NodeGrouping c \<Rightarrow> free_child c p 0
      | NodeBlock xs cap \<Rightarrow> free_elements xs 0 p @ [ReleaseArray p]
      | NodeCompound lt xs cap \<Rightarrow> free_elements xs 0 p @ [ReleaseArray p]
      | NodePair l r \<Rightarrow> free_child l p 0 @ free_child r p 1
      | NodeIndex a b c \<Rightarrow> free_child a p 0 @ free_child b p 1 @ free_child c p 2
      | NodeVarDecl i ty e line \<Rightarrow> [ReleaseLiteral p i, ReleaseLiteral p ty] @ free_child e p 0
      | NodeFnDecl i a r b line \<Rightarrow>
          ReleaseLiteral p i # free_child a p 0 @ free_child r p 1 @ free_child b p 2
      | NodeFnCollection xs cap \<Rightarrow> free_elements xs 0 p @ [ReleaseArray p]
      | NodeFnCall a n \<Rightarrow> free_child a p 0
      | NodeFnReturn r \<Rightarrow> free_child r p 0
      | NodeIf c t e r x \<Rightarrow> free_child c p 0 @ free_child t p 1 @ free_child e p 2
      | NodeWhile c t \<Rightarrow> free_child c p 0 @ free_child t p 1
      | NodeFor pre c post t \<Rightarrow>
          free_child pre p 0 @ free_child post p 2 @ free_child c p 1 @ free_child t p 3
      | NodeBreak \<Rightarrow> []
      | NodeContinue \<Rightarrow> []
      | NodePrefixIncrement i \<Rightarrow> [ReleaseLiteral p i]
      | NodePostfixIncrement i \<Rightarrow> [ReleaseLiteral p i]
      | NodePrefixDecrement i \<Rightarrow> [ReleaseLiteral p i]
      | NodePostfixDecrement i \<Rightarrow> [ReleaseLiteral p i]
      | NodeCast ty e \<Rightarrow> ReleaseLiteral p ty # free_child e p 0
      | NodeImport i a \<Rightarrow> [ReleaseLiteral p i, ReleaseLiteral p a]
      | NodePass \<Rightarrow> [])
     @ (if freeSelf then [ReleaseNode p] else [])"
| "free_child None p k = []"
| "free_child (Some c) p k = freeASTNodeCustom c True (p @ [Field k])"
| "free_elements [] k p = []"
| "free_elements (x # xs) k p = freeASTNodeCustom x False (p @ [Elem k]) @ free_elements xs (Suc k) p"

declare freeASTNodeCustom.simps [simp del]

definition Xvr_freeASTNode :: "ast \<Rightarrow> release list" where
  "Xvr_freeASTNode node = freeASTNodeCustom node True []"

section \<open>What a tree owns\<close>

fun pointer_fields :: "ast \<Rightarrow> ast option list" where
  "pointer_fields (NodeUnary op c) = [c]"
| "pointer_fields (NodeBinary op l r) = [l, r]"
| "pointer_fields (NodeTernary c t e) = [c, t, e]"
| "pointer_fields (NodeGrouping c) = [c]"
| "pointer_fields (NodePair l r) = [l, r]"
| "pointer_fields (NodeIndex a b c) = [a, b, c]"
| "pointer_fields (NodeVarDecl i ty e line) = [e]"
| "pointer_fields (NodeFnDecl i a r b line) = [a, r, b]"
| "pointer_fields (NodeFnCall a n) = [a]"
| "pointer_fields (NodeFnReturn r) = [r]"
| "pointer_fields (NodeIf c t e r x) = [c, t, e]"
| "pointer_fields (NodeWhile c t) = [c, t]"
| "pointer_fields (NodeFor pre c post t) = [pre, c, post, t]"
| "pointer_fields (NodeCast ty e) = [e]"
| "pointer_fields _ = []"

fun array_elements :: "ast \<Rightarrow> ast list" where
  "array_elements (NodeBlock xs cap) = xs"
| "array_elements (NodeCompound t xs cap) = xs"
| "array_elements (NodeFnCollection xs cap) = xs"
| "array_elements _ = []"

fun has_array :: "ast \<Rightarrow> bool" where
  "has_array (NodeBlock xs cap) = True"
| "has_array (NodeCompound t xs cap) = True"
| "has_array (NodeFnCollection xs cap) = True"
| "has_array _ = False"

fun node_literals :: "ast \<Rightarrow> literal list" where
  "node_literals (NodeLiteral l) = [l]"
| "node_literals (NodeVarDecl i ty e line) = [i, ty]"
| "node_literals (NodeFnDecl i a r b line) = [i]"
| "node_literals (NodePrefixIncrement i) = [i]"
| "node_literals (NodePostfixIncrement i) = [i]"
| "node_literals (NodePrefixDecrement i) = [i]"
| "node_literals (NodePostfixDecrement i) = [i]"
| "node_literals (NodeCast ty e) = [ty]"
| "node_literals (NodeImport i a) = [i, a]"
| "node_literals _ = []"

fun child_at :: "ast \<Rightarrow> path_step \<Rightarrow> ast option" where
  "child_at t (Field k) = (if k < length (pointer_fields t) then pointer_fields t ! k else None)"
| "child_at t (Elem k) = (if k < length (array_elements t) then Some (array_elements t ! k) else None)"

fun node_at :: "ast \<Rightarrow> path \<Rightarrow> ast option" where
  "node_at t [] = Some t"
| "node_at t (s # p) = (case child_at t s of None \<Rightarrow> None | Some c \<Rightarrow> node_at c p)"

text \<open>A node has its own allocation unless it is an array element.\<close>

definition own_allocation :: "path \<Rightarrow> bool" where
  "own_allocation p \<longleftrightarrow> (p = [] \<or> (\<exists>k. last p = Field k))"

section \<open>Release frees each thing once\<close>

fun release_path :: "release \<Rightarrow> path" where
  "release_path (ReleaseNode p) = p"
| "release_path (ReleaseArray p) = p"
| "release_path (ReleaseLiteral p l) = p"

text \<open>The order in which the fields are visited: only the for loop leaves their declaration order.\<close>

fun visit_order :: "ast \<Rightarrow> nat list" where
  "visit_order (NodeFor pre c post t) = [0, 2, 1, 3]"
| "visit_order t = [0..<length (pointer_fields t)]"

lemma visit_order_fields: "distinct (visit_order t)" "set (visit_order t) = {..<length (pointer_fields t)}"
  by (cases t; auto)+

lemma free_visits:
  "freeASTNodeCustom t b p =
     map (ReleaseLiteral p) (node_literals t) @
     concat (map (\<lambda>k. free_child (pointer_fields t ! k) p k) (visit_order t)) @
     free_elements (array_elements t) 0 p @
     (if has_array t then [ReleaseArray p] else []) @ (if b then [ReleaseNode p] else [])"
  by (subst freeASTNodeCustom.simps, cases t) (simp_all add: upt_rec numeral_eq_Suc)

lemma pointer_field_smaller: "c \<in> set (pointer_fields t) \<Longrightarrow> c = Some s \<Longrightarrow> size s < size t"
  by (cases t) auto

lemma array_element_smaller: "s \<in> set (array_elements t) \<Longrightarrow> size s < size t"
  by (cases t) (auto simp: less_Suc_eq_le dest!: size_list_estimation' [OF _ order_refl] intro: le_imp_less_Suc le_trans)

lemma free_elements_nth:
  "free_elements xs k p =
     concat (map (\<lambda>j. freeASTNodeCustom (xs ! j) False (p @ [Elem (k + j)])) [0..<length xs])"
proof (induction xs arbitrary: k)
  case (Cons x xs)
  have "[0..<length (x # xs)] = 0 # map Suc [0..<length xs]" by (simp add: upt_conv_Cons map_Suc_upt del: upt_Suc)
  then show ?case using Cons [of "Suc k"] by (simp add: o_def del: upt_Suc)
qed simp

lemma free_below:
  "\<forall>r \<in> set (freeASTNodeCustom t b p). \<exists>u. release_path r = p @ u"
  "\<forall>r \<in> set (free_child c p k). \<exists>u. release_path r = p @ Field k # u"
  "\<forall>r \<in> set (free_elements xs j p). \<exists>i u. j \<le> i \<and> release_path r = p @ Elem i # u"
proof (induction t b p and c p k and xs j p rule: freeASTNodeCustom_free_child_free_elements.induct)
  case (1 node freeSelf p)
  then show ?case by (subst freeASTNodeCustom.simps, cases node) (auto simp: ball_Un)
next
  case (5 x xs k p)
  then show ?case by (fastforce simp: ball_Un)
qed auto

text \<open>How often a release is owed for the part of a tree at a path.\<close>

fun owed :: "ast \<Rightarrow> bool \<Rightarrow> path \<Rightarrow> release \<Rightarrow> nat" where
  "owed t b [] (ReleaseNode q) = (if b then 1 else 0)"
| "owed t b [] (ReleaseArray q) = (if has_array t then 1 else 0)"
| "owed t b [] (ReleaseLiteral q l) = count_list (node_literals t) l"
| "owed t b (s # u) r =
     (case child_at t s of None \<Rightarrow> 0 | Some c \<Rightarrow> owed c (\<exists>k. s = Field k) u r)"

lemma count_list_concat_one:
  assumes "distinct ks" "\<And>k. k \<in> set ks \<Longrightarrow> k \<noteq> m \<Longrightarrow> count_list (f k) r = 0"
  shows "count_list (concat (map f ks)) r = (if m \<in> set ks then count_list (f m) r else 0)"
  using assms by (induction ks) auto

lemma count_release_literals:
  "count_list (map (ReleaseLiteral p) ls) r =
     (case r of ReleaseLiteral q l \<Rightarrow> if q = p then count_list ls l else 0 | _ \<Rightarrow> 0)"
  by (induction ls) (auto split: release.splits)

lemma free_child_count_other:
  "release_path r = p @ s # u \<Longrightarrow> s \<noteq> Field k \<Longrightarrow> count_list (free_child c p k) r = 0"
  by (rule count_notin) (use free_below(2) [of c p k] in fastforce)

lemma free_node_count_other:
  "release_path r = p @ s # u \<Longrightarrow> s \<noteq> s' \<Longrightarrow> count_list (freeASTNodeCustom t b (p @ [s'])) r = 0"
  by (rule count_notin) (use free_below(1) [of t b "p @ [s']"] in fastforce)

lemma free_count_here:
  assumes "release_path r = p"
  shows "count_list (freeASTNodeCustom t b p) r = owed t b [] r"
proof -
  have "count_list (concat (map (\<lambda>k. free_child (pointer_fields t ! k) p k) (visit_order t))) r = 0"
    using free_below(2) assms by (intro count_notin) fastforce
  moreover have "count_list (free_elements (array_elements t) 0 p) r = 0"
    using free_below(3) assms by (intro count_notin) fastforce
  ultimately show ?thesis
    using assms by (subst free_visits, cases r) (simp_all add: count_release_literals)
qed

lemma free_count:
  "release_path r = p @ u \<Longrightarrow> count_list (freeASTNodeCustom t b p) r = owed t b u r"
proof (induction u arbitrary: t b p)
  case Nil
  then show ?case using free_count_here by simp
next
  case (Cons s u)
  have rp: "release_path r = p @ s # u" "release_path r = (p @ [s]) @ u" using Cons.prems by simp_all
  note IH = Cons.IH [OF rp(2)]
  have own: "count_list (map (ReleaseLiteral p) (node_literals t)) r = 0" "r \<noteq> ReleaseArray p" "r \<noteq> ReleaseNode p"
    using rp(1) by (auto simp: count_release_literals split: release.splits)
  let ?fields = "concat (map (\<lambda>k. free_child (pointer_fields t ! k) p k) (visit_order t))"
  let ?elems = "concat (map (\<lambda>j. freeASTNodeCustom (array_elements t ! j) False (p @ [Elem j])) [0..<length (array_elements t)])"
  have split: "count_list (freeASTNodeCustom t b p) r = count_list ?fields r + count_list ?elems r"
    using own by (subst free_visits) (simp add: free_elements_nth)
  show ?case
  proof (cases s)
    case (Field k)
    have "count_list ?fields r =
        (if k \<in> set (visit_order t) then count_list (free_child (pointer_fields t ! k) p k) r else 0)"
      by (rule count_list_concat_one [OF visit_order_fields(1)])
        (auto simp: Field intro!: free_child_count_other [OF rp(1)])
    moreover have "count_list ?elems r = 0"
      using free_node_count_other [OF rp(1)] Field
      by (subst count_list_concat_one [where m = "length (array_elements t)"]) auto
    ultimately show ?thesis
      using split IH by (cases "pointer_fields t ! k") (auto simp: Field visit_order_fields(2))
  next
    case (Elem j)
    have "count_list ?fields r = 0"
      using free_child_count_other [OF rp(1)] Elem
      by (subst count_list_concat_one [OF visit_order_fields(1), where m = "length (pointer_fields t)"])
        (auto simp: visit_order_fields(2))
    moreover have "count_list ?elems r =
        (if j \<in> set [0..<length (array_elements t)]
         then count_list (freeASTNodeCustom (array_elements t ! j) False (p @ [Elem j])) r else 0)"
      by (rule count_list_concat_one) (use free_node_count_other [OF rp(1)] Elem in auto)
    ultimately show ?thesis using split IH by (auto simp: Elem)
  qed
qed

lemma owed_node_at:
  "owed t b u r =
     (case node_at t u of None \<Rightarrow> 0
      | Some s \<Rightarrow>
          (case r of
             ReleaseNode q \<Rightarrow> (if (if u = [] then b else \<exists>k. last u = Field k) then 1 else 0)
           | ReleaseArray q \<Rightarrow> (if has_array s then 1 else 0)
           | ReleaseLiteral q l \<Rightarrow> count_list (node_literals s) l))"
proof (induction u arbitrary: t b)
  case Nil
  then show ?case by (cases r) auto
next
  case (Cons s u)
  show ?case by (cases "child_at t s") (auto simp: Cons.IH split: option.splits release.splits)
qed

text \<open>C7: Freeing a tree releases every node with an allocation of its own, every element array and every
  literal the tree holds, each exactly once, and nothing else.\<close>

theorem free_releases_each_once:
  "count_list (Xvr_freeASTNode t) r =
     (case node_at t (release_path r) of None \<Rightarrow> 0
      | Some s \<Rightarrow>
          (case r of
             ReleaseNode p \<Rightarrow> (if own_allocation p then 1 else 0)
           | ReleaseArray p \<Rightarrow> (if has_array s then 1 else 0)
           | ReleaseLiteral p l \<Rightarrow> count_list (node_literals s) l))"
proof -
  have "count_list (freeASTNodeCustom t True []) r = owed t True (release_path r) r"
    by (rule free_count) simp
  then show ?thesis
    by (auto simp: Xvr_freeASTNode_def owed_node_at own_allocation_def split: option.splits release.splits)
qed

end
