(* ===== verification/AstOptimizer.thy ===== *)
theory AstOptimizer
  imports AstNodes "HOL-Library.Signed_Division"
begin

text \<open>
  The AST optimiser: src/src/optimizer/xvr_ast_optimizer.cpp. A node handle of the caller's array is
  \<open>Live\<close> with the tree it points to, \<open>Null\<close>, or \<open>Dangling\<close> when the memory it points to has been
  released; a pass that follows a dangling handle has no result (None). The passes are functions on
  handles, the pass array is a list with its capacity (NULL is None), and \<open>qsort\<close> is a parameter.
\<close>

section \<open>State\<close>

datatype opt_level = XVR_OPT_LEVEL_NONE | XVR_OPT_LEVEL_O1 | XVR_OPT_LEVEL_O2 | XVR_OPT_LEVEL_O3 | XVR_OPT_LEVEL_OS

datatype pass_type =
    XVR_PASS_CONSTANT_FOLDING | XVR_PASS_CONSTANT_PROPAGATION | XVR_PASS_DEAD_CODE_ELIMINATION
  | XVR_PASS_ALGEBRAIC_SIMPLIFICATION | XVR_PASS_STRENGTH_REDUCTION | XVR_PASS_FUNCTION_INLINING

datatype result_code = XVR_OPT_RESULT_SUCCESS | XVR_OPT_RESULT_ERROR | XVR_OPT_RESULT_NO_CHANGE

record opt_result =
  or_code :: result_code
  or_changes :: int
  or_error :: "string option"

definition no_result :: opt_result where
  "no_result = \<lparr>or_code = XVR_OPT_RESULT_SUCCESS, or_changes = 0, or_error = None\<rparr>"

datatype handle = Null | Live ast | Dangling

type_synonym pass_run = "handle \<Rightarrow> (opt_result \<times> handle) option"

record opt_pass =
  pa_type :: pass_type
  pa_name :: string
  pa_run :: pass_run
  pa_priority :: int
  pa_enabled :: bool

record optimizer =
  op_level :: opt_level
  op_passes :: "opt_pass list option"
  op_capacity :: int

definition pass_list :: "optimizer \<Rightarrow> opt_pass list" where
  "pass_list opt = (case op_passes opt of None \<Rightarrow> [] | Some ps \<Rightarrow> ps)"

definition Xvr_ASTOptimizerCreate :: optimizer where
  "Xvr_ASTOptimizerCreate = \<lparr>op_level = XVR_OPT_LEVEL_O2, op_passes = None, op_capacity = 16\<rparr>"

definition Xvr_ASTOptimizerSetLevel :: "optimizer option \<Rightarrow> opt_level \<Rightarrow> optimizer option" where
  "Xvr_ASTOptimizerSetLevel opt level = map_option (\<lambda>o'. o'\<lparr>op_level := level\<rparr>) opt"

definition Xvr_ASTOptimizerAddPass ::
    "optimizer option \<Rightarrow> opt_pass option \<Rightarrow> bool \<times> optimizer option" where
  "Xvr_ASTOptimizerAddPass opt pass =
     (case (opt, pass) of
        (Some o', Some p) \<Rightarrow>
          let cap = (if op_passes o' = None \<or> int (length (pass_list o')) \<ge> op_capacity o'
                     then (if op_capacity o' > 0 then op_capacity o' * 2 else 4)
                     else op_capacity o')
          in (True, Some (o'\<lparr>op_passes := Some (pass_list o' @ [p]), op_capacity := cap\<rparr>))
      | _ \<Rightarrow> (False, opt))"

definition Xvr_OptimizationLevelFromInt :: "int \<Rightarrow> opt_level" where
  "Xvr_OptimizationLevelFromInt level =
     (if level = 0 then XVR_OPT_LEVEL_NONE
      else if level = 1 then XVR_OPT_LEVEL_O1
      else if level = 2 then XVR_OPT_LEVEL_O2
      else if level = 3 then XVR_OPT_LEVEL_O3
      else XVR_OPT_LEVEL_O2)"

section \<open>Running the passes\<close>

definition compare_pass_priority :: "opt_pass \<Rightarrow> opt_pass \<Rightarrow> int" where
  "compare_pass_priority pa pb = pa_priority pa - pa_priority pb"

text \<open>One pass over the array of nodes: the array so far, the changes, and the error that stopped it.\<close>

fun run_pass :: "pass_run \<Rightarrow> handle list \<Rightarrow> int \<Rightarrow> (handle list \<times> (opt_result + int)) option" where
  "run_pass run [] changes = Some ([], Inr changes)"
| "run_pass run (h # hs) changes =
     (case run h of
        None \<Rightarrow> None
      | Some (r, h') \<Rightarrow>
          if or_code r = XVR_OPT_RESULT_ERROR
          then Some (h' # hs, Inl \<lparr>or_code = XVR_OPT_RESULT_ERROR, or_changes = changes, or_error = or_error r\<rparr>)
          else map_option (\<lambda>(hs', e). (h' # hs', e)) (run_pass run hs (changes + or_changes r)))"

fun run_passes :: "opt_pass list \<Rightarrow> handle list \<Rightarrow> int \<Rightarrow> (handle list \<times> (opt_result + int)) option" where
  "run_passes [] hs changes = Some (hs, Inr changes)"
| "run_passes (p # ps) hs changes =
     (if \<not> pa_enabled p then run_passes ps hs changes
      else case run_pass (pa_run p) hs changes of
             None \<Rightarrow> None
           | Some (hs', Inl e) \<Rightarrow> Some (hs', Inl e)
           | Some (hs', Inr n) \<Rightarrow> run_passes ps hs' n)"

text \<open>\<open>qsort\<close> sorts by the comparison; \<open>nodes\<close> NULL is None.\<close>

definition Xvr_ASTOptimizerRun ::
    "((opt_pass \<Rightarrow> opt_pass \<Rightarrow> int) \<Rightarrow> opt_pass list \<Rightarrow> opt_pass list) \<Rightarrow>
     optimizer option \<Rightarrow> handle list option \<Rightarrow> (opt_result \<times> optimizer option \<times> handle list option) option" where
  "Xvr_ASTOptimizerRun qsort opt nodes =
     (case (opt, nodes) of
        (Some o', Some hs) \<Rightarrow>
          if hs = [] then
            Some (no_result\<lparr>or_code := XVR_OPT_RESULT_ERROR, or_error := Some ''invalid arguments''\<rparr>, opt, nodes)
          else if op_level o' = XVR_OPT_LEVEL_NONE then Some (no_result, opt, nodes)
          else
            let sorted = qsort compare_pass_priority (pass_list o');
                opt' = Some (o'\<lparr>op_passes := map_option (\<lambda>_. sorted) (op_passes o')\<rparr>)
            in (case run_passes sorted hs 0 of
                  None \<Rightarrow> None
                | Some (hs', Inl e) \<Rightarrow> Some (e, opt', Some hs')
                | Some (hs', Inr n) \<Rightarrow>
                    Some (no_result\<lparr>or_changes := n,
                            or_code := (if n = 0 then XVR_OPT_RESULT_NO_CHANGE else XVR_OPT_RESULT_SUCCESS)\<rparr>,
                          opt', Some hs'))
      | _ \<Rightarrow>
          Some (no_result\<lparr>or_code := XVR_OPT_RESULT_ERROR, or_error := Some ''invalid arguments''\<rparr>, opt, nodes))"

section \<open>Constant folding\<close>

definition is_integer_literal :: "ast option \<Rightarrow> bool" where
  "is_integer_literal node \<longleftrightarrow>
     (case node of
        Some (NodeLiteral l) \<Rightarrow>
          lit_type l \<in> {XVR_LITERAL_INTEGER, XVR_LITERAL_INT8, XVR_LITERAL_INT16, XVR_LITERAL_INT32, XVR_LITERAL_INT64}
      | _ \<Rightarrow> False)"

definition is_bool_literal :: "ast option \<Rightarrow> bool" where
  "is_bool_literal node \<longleftrightarrow>
     (case node of Some (NodeLiteral l) \<Rightarrow> lit_type l = XVR_LITERAL_BOOLEAN | _ \<Rightarrow> False)"

definition get_integer_value :: "ast option \<Rightarrow> int" where
  "get_integer_value node = (case node of Some (NodeLiteral l) \<Rightarrow> sint (XVR_AS_INTEGER l) | _ \<Rightarrow> 0)"

definition get_bool_value :: "ast option \<Rightarrow> bool" where
  "get_bool_value node \<longleftrightarrow> (case node of Some (NodeLiteral l) \<Rightarrow> XVR_AS_BOOLEAN l | _ \<Rightarrow> False)"

text \<open>
  The operands are 32-bit values, so the 64-bit operation is exact; \<open>as.integer\<close> keeps the low 32
  bits. The cases are the numbers the code writes.
\<close>

definition fold_value :: "nat \<Rightarrow> int \<Rightarrow> int \<Rightarrow> int option" where
  "fold_value code l r =
     (if code = 1 then Some (l + r)
      else if code = 2 then Some (l - r)
      else if code = 3 then Some (l * r)
      else if code = 4 then (if r \<noteq> 0 then Some (l sdiv r) else None)
      else if code = 5 then (if r \<noteq> 0 then Some (l smod r) else None)
      else None)"

definition fold_binary_arithmetic :: "ast option \<Rightarrow> ast option" where
  "fold_binary_arithmetic node =
     (case node of
        Some (NodeBinary op l r) \<Rightarrow>
          if \<not> is_integer_literal l \<or> \<not> is_integer_literal r then None
          else (case fold_value (opcode_code op) (get_integer_value l) (get_integer_value r) of
                  None \<Rightarrow> None
                | Some v \<Rightarrow>
                    Some (Xvr_emitASTNodeLiteral
                            (Bits XVR_LITERAL_INTEGER (ucast (word_of_int v :: 32 word)))))
      | _ \<Rightarrow> None)"

definition run_constant_folding :: pass_run where
  "run_constant_folding h =
     (case h of
        Null \<Rightarrow> Some (no_result, Null)
      | Dangling \<Rightarrow> None
      | Live n \<Rightarrow>
          (case fold_binary_arithmetic (Some n) of
             None \<Rightarrow> Some (no_result, Live n)
           | Some f \<Rightarrow> Some (no_result\<lparr>or_changes := 1\<rparr>, Live f)))"

section \<open>Dead code elimination\<close>

fun has_side_effects_node :: "ast \<Rightarrow> bool"
  and child_has_side_effects :: "ast option \<Rightarrow> bool"
  and any_has_side_effects :: "ast list \<Rightarrow> bool" where
  "has_side_effects_node (NodeLiteral l) = False"
| "has_side_effects_node (NodeUnary op c) = child_has_side_effects c"
| "has_side_effects_node (NodeBinary op l r) = (child_has_side_effects l \<or> child_has_side_effects r)"
| "has_side_effects_node (NodeVarDecl i ty e line) = child_has_side_effects e"
| "has_side_effects_node (NodeFnCall a n) = True"
| "has_side_effects_node (NodeBlock xs cap) = any_has_side_effects xs"
| "has_side_effects_node (NodeIf c t e r x) =
     (child_has_side_effects c \<or> child_has_side_effects t \<or> child_has_side_effects e)"
| "has_side_effects_node (NodeWhile c t) = True"
| "has_side_effects_node (NodeFor pre c post t) = True"
| "has_side_effects_node NodeBreak = True"
| "has_side_effects_node NodeContinue = True"
| "has_side_effects_node (NodePrefixIncrement i) = True"
| "has_side_effects_node (NodePostfixIncrement i) = True"
| "has_side_effects_node (NodePrefixDecrement i) = True"
| "has_side_effects_node (NodePostfixDecrement i) = True"
| "has_side_effects_node (NodeFnReturn r) = child_has_side_effects r"
| "has_side_effects_node _ = False"
| "child_has_side_effects None = False"
| "child_has_side_effects (Some c) = has_side_effects_node c"
| "any_has_side_effects [] = False"
| "any_has_side_effects (x # xs) = (has_side_effects_node x \<or> any_has_side_effects xs)"

text \<open>
  The handle left by the pass: after \<open>Xvr_freeASTNode(n)\<close> the handle is set to a child of \<open>n\<close>, which
  dangles when that call released it.
\<close>

definition handle_after_free :: "ast \<Rightarrow> path \<Rightarrow> handle" where
  "handle_after_free n p =
     (if ReleaseNode p \<in> set (Xvr_freeASTNode n) then Dangling
      else case node_at n p of None \<Rightarrow> Null | Some c \<Rightarrow> Live c)"

definition run_dead_code_elimination :: pass_run where
  "run_dead_code_elimination h =
     (case h of
        Null \<Rightarrow> Some (no_result, Null)
      | Dangling \<Rightarrow> None
      | Live n \<Rightarrow>
          (case n of
             NodeIf c t e r x \<Rightarrow>
               if is_bool_literal c then
                 let value = get_bool_value c;
                     keep = (if value then t else e);
                     discard = (if value then e else t)
                 in if discard \<noteq> None \<and> \<not> child_has_side_effects discard then
                      Some (no_result\<lparr>or_changes := 1\<rparr>,
                            (if keep \<noteq> None then handle_after_free n [Field (if value then 1 else 2)]
                             else Live Xvr_emitASTNodeBlock))
                    else Some (no_result, h)
               else Some (no_result, h)
           | _ \<Rightarrow> Some (no_result, h)))"

definition cf_pass :: opt_pass where
  "cf_pass = \<lparr>pa_type = XVR_PASS_CONSTANT_FOLDING, pa_name = ''constant_folding'',
     pa_run = run_constant_folding, pa_priority = 1, pa_enabled = True\<rparr>"

definition dce_pass :: opt_pass where
  "dce_pass = \<lparr>pa_type = XVR_PASS_DEAD_CODE_ELIMINATION, pa_name = ''dead_code_elimination'',
     pa_run = run_dead_code_elimination, pa_priority = 2, pa_enabled = True\<rparr>"

definition Xvr_ASTOptimizerAddStandardPasses :: "optimizer option \<Rightarrow> bool \<times> optimizer option" where
  "Xvr_ASTOptimizerAddStandardPasses opt =
     (case opt of
        None \<Rightarrow> (False, None)
      | Some o' \<Rightarrow>
          (True, snd (Xvr_ASTOptimizerAddPass (snd (Xvr_ASTOptimizerAddPass opt (Some cf_pass))) (Some dce_pass))))"

section \<open>Sorting the passes\<close>

text \<open>What the C standard promises of \<open>qsort\<close>: a permutation in the order of the comparison.\<close>

locale priority_sort =
  fixes qsort :: "(opt_pass \<Rightarrow> opt_pass \<Rightarrow> int) \<Rightarrow> opt_pass list \<Rightarrow> opt_pass list"
  assumes qsort_mset: "mset (qsort cmp ps) = mset ps"
    and qsort_sorted: "sorted_wrt (\<lambda>p q. pa_priority p \<le> pa_priority q) (qsort compare_pass_priority ps)"
begin

lemma two_passes:
  assumes "pa_priority p < pa_priority q"
  shows "qsort compare_pass_priority [p, q] = [p, q]"
proof -
  have m: "mset (qsort compare_pass_priority [p, q]) = {#p, q#}" by (simp add: qsort_mset)
  have "length (qsort compare_pass_priority [p, q]) = 2"
    using arg_cong [OF m, of size] by simp
  then obtain a b where ab: "qsort compare_pass_priority [p, q] = [a, b]"
    by (auto simp: numeral_2_eq_2 length_Suc_conv)
  have "pa_priority a \<le> pa_priority b" using qsort_sorted [of "[p, q]"] by (simp add: ab)
  then show ?thesis using m assms by (auto simp: ab add_eq_conv_ex)
qed

lemma standard_run:
  assumes "hs \<noteq> []" "level \<noteq> XVR_OPT_LEVEL_NONE"
    and "opt = Xvr_ASTOptimizerSetLevel (snd (Xvr_ASTOptimizerAddStandardPasses (Some Xvr_ASTOptimizerCreate))) level"
  shows "Xvr_ASTOptimizerRun qsort opt (Some hs) =
    (case run_passes [cf_pass, dce_pass] hs 0 of
       None \<Rightarrow> None
     | Some (hs', Inl e) \<Rightarrow> Some (e, opt, Some hs')
     | Some (hs', Inr n) \<Rightarrow>
         Some (no_result\<lparr>or_changes := n,
                 or_code := (if n = 0 then XVR_OPT_RESULT_NO_CHANGE else XVR_OPT_RESULT_SUCCESS)\<rparr>,
               opt, Some hs'))"
proof -
  have ps: "pass_list (the opt) = [cf_pass, dce_pass]" "opt \<noteq> None" "op_level (the opt) = level"
      "op_passes (the opt) = Some [cf_pass, dce_pass]"
    by (auto simp: assms(3) Xvr_ASTOptimizerSetLevel_def Xvr_ASTOptimizerAddStandardPasses_def
        Xvr_ASTOptimizerAddPass_def Xvr_ASTOptimizerCreate_def pass_list_def Let_def)
  obtain o' where o': "opt = Some o'" using ps(2) by auto
  have q: "qsort compare_pass_priority (pass_list o') = [cf_pass, dce_pass]"
    using two_passes [of cf_pass dce_pass] ps(1) by (simp add: o' cf_pass_def dce_pass_def)
  have same: "o'\<lparr>op_passes := map_option (\<lambda>_. [cf_pass, dce_pass]) (op_passes o')\<rparr> = o'"
    using ps(4) by (simp add: o')
  show ?thesis
    using assms(1,2) ps(3) unfolding Xvr_ASTOptimizerRun_def o' option.case prod.case Let_def q same
    by simp
qed

end

text \<open>A sort that keeps the promise: insertion by the comparison.\<close>

fun insert_by :: "('a \<Rightarrow> 'a \<Rightarrow> int) \<Rightarrow> 'a \<Rightarrow> 'a list \<Rightarrow> 'a list" where
  "insert_by cmp x [] = [x]"
| "insert_by cmp x (y # ys) = (if cmp x y \<le> 0 then x # y # ys else y # insert_by cmp x ys)"

definition insertion_sort :: "('a \<Rightarrow> 'a \<Rightarrow> int) \<Rightarrow> 'a list \<Rightarrow> 'a list" where
  "insertion_sort cmp xs = foldr (insert_by cmp) xs []"

lemma insert_by_mset [simp]: "mset (insert_by cmp x ys) = {#x#} + mset ys"
  by (induction ys) auto

lemma insert_by_set [simp]: "set (insert_by cmp x ys) = insert x (set ys)"
  by (induction ys) auto

lemma insert_by_sorted:
  "sorted_wrt (\<lambda>p q. pa_priority p \<le> pa_priority q) ys \<Longrightarrow>
   sorted_wrt (\<lambda>p q. pa_priority p \<le> pa_priority q) (insert_by compare_pass_priority x ys)"
proof (induction ys)
  case (Cons y ys)
  then show ?case by (auto simp: compare_pass_priority_def)
qed simp

lemma insertion_sort_laws:
  "mset (insertion_sort cmp ps) = mset ps"
  "sorted_wrt (\<lambda>p q. pa_priority p \<le> pa_priority q) (insertion_sort compare_pass_priority qs)"
proof -
  show "mset (insertion_sort cmp ps) = mset ps" by (induction ps) (simp_all add: insertion_sort_def)
  show "sorted_wrt (\<lambda>p q. pa_priority p \<le> pa_priority q) (insertion_sort compare_pass_priority qs)"
    by (induction qs) (simp_all add: insertion_sort_def insert_by_sorted)
qed

interpretation insertion: priority_sort insertion_sort
  by unfold_locales (rule insertion_sort_laws)+

section \<open>What the standard passes do\<close>

definition folded_opcodes :: "opcode set" where
  "folded_opcodes = {XVR_OP_PASS, XVR_OP_ASSERT, XVR_OP_PRINT, XVR_OP_PRINTF, XVR_OP_CAST}"

lemma folded_codes: "opcode_code op \<in> {1, 2, 3, 4, 5} \<Longrightarrow> op \<in> folded_opcodes"
proof -
  have "list_all (\<lambda>op. opcode_code op \<in> {1, 2, 3, 4, 5} \<longrightarrow> op \<in> folded_opcodes) all_opcodes"
    by code_simp
  moreover have "op \<in> set all_opcodes" by (cases op) (simp_all add: all_opcodes_def)
  ultimately show "opcode_code op \<in> {1, 2, 3, 4, 5} \<Longrightarrow> op \<in> folded_opcodes" by (auto simp: list_all_iff)
qed

lemma fold_only_folded:
  "op \<notin> folded_opcodes \<Longrightarrow> fold_binary_arithmetic (Some (NodeBinary op l r)) = None"
  using folded_codes [of op] by (auto simp: fold_binary_arithmetic_def fold_value_def)

text \<open>The nodes that neither pass touches.\<close>

fun untouched :: "ast \<Rightarrow> bool" where
  "untouched (NodeBinary op l r) = (op \<notin> folded_opcodes)"
| "untouched (NodeIf c t e r x) = (\<not> is_bool_literal c)"
| "untouched _ = True"

lemma fold_untouched: "untouched n \<Longrightarrow> fold_binary_arithmetic (Some n) = None"
  by (cases n) (simp_all add: fold_only_folded, simp_all add: fold_binary_arithmetic_def)

lemma passes_untouched:
  assumes "untouched n"
  shows "run_constant_folding (Live n) = Some (no_result, Live n)"
    and "run_dead_code_elimination (Live n) = Some (no_result, Live n)"
  using assms fold_untouched [OF assms]
  by (simp_all add: run_constant_folding_def, cases n) (simp_all add: run_dead_code_elimination_def)

lemma run_pass_same:
  "(\<And>h. h \<in> set hs \<Longrightarrow> run h = Some (no_result, h)) \<Longrightarrow> run_pass run hs n = Some (hs, Inr n)"
  by (induction hs arbitrary: n) (auto simp: no_result_def)

text \<open>With the standard passes, at any level but none and however \<open>qsort\<close> sorts, the optimiser
  leaves every top-level statement alone whose root is not a conditional on a boolean literal and
  whose opcode is none of pass, assert, print, printf and cast, and reports no change; so no
  addition, subtraction, multiplication, division or modulo of literals is ever folded.\<close>

theorem arithmetic_never_folded:
  assumes "priority_sort qsort" "level \<noteq> XVR_OPT_LEVEL_NONE" "ns \<noteq> []" "list_all untouched ns"
    and "opt = Xvr_ASTOptimizerSetLevel (snd (Xvr_ASTOptimizerAddStandardPasses (Some Xvr_ASTOptimizerCreate))) level"
  shows "Xvr_ASTOptimizerRun qsort opt (Some (map Live ns)) =
    Some (no_result\<lparr>or_code := XVR_OPT_RESULT_NO_CHANGE\<rparr>, opt, Some (map Live ns))"
proof -
  have u: "run_pass run_constant_folding (map Live ns) 0 = Some (map Live ns, Inr 0)"
      "run_pass run_dead_code_elimination (map Live ns) 0 = Some (map Live ns, Inr 0)"
    using assms(4) by (auto intro!: run_pass_same simp: passes_untouched list_all_iff)
  have "map Live ns \<noteq> []" using assms(3) by simp
  from priority_sort.standard_run [OF assms(1) this assms(2,5)] show ?thesis
    by (simp add: cf_pass_def dce_pass_def u no_result_def)
qed

lemma arithmetic_never_folded_witness:
  "let opt = Xvr_ASTOptimizerSetLevel (snd (Xvr_ASTOptimizerAddStandardPasses (Some Xvr_ASTOptimizerCreate))) XVR_OPT_LEVEL_O3;
       sum = NodeBinary XVR_OP_ADDITION (Some (NodeLiteral (Xvr_toInt32LiteralCpp 1))) (Some (NodeLiteral (Xvr_toInt32LiteralCpp 2)))
   in Xvr_ASTOptimizerRun insertion_sort opt (Some [Live sum]) =
        Some (no_result\<lparr>or_code := XVR_OPT_RESULT_NO_CHANGE\<rparr>, opt, Some [Live sum])"
  using arithmetic_never_folded [OF insertion.priority_sort_axioms, of XVR_OPT_LEVEL_O3
      "[NodeBinary XVR_OP_ADDITION (Some (NodeLiteral (Xvr_toInt32LiteralCpp 1))) (Some (NodeLiteral (Xvr_toInt32LiteralCpp 2)))]"]
  by (simp add: folded_opcodes_def Let_def)

text \<open>Dead code elimination of a conditional on a boolean literal, with both branches there and the
  discarded one without side effects, leaves the caller's handle pointing to memory that the pass
  has just released; the next pass that looks at it has no defined result.\<close>

theorem dce_leaves_dangling:
  assumes "n = NodeIf (Some (NodeLiteral c)) (Some t) (Some e) r x" "lit_type c = XVR_LITERAL_BOOLEAN"
    and "\<not> has_side_effects_node (if XVR_AS_BOOLEAN c then e else t)"
  shows "run_dead_code_elimination (Live n) = Some (no_result\<lparr>or_changes := 1\<rparr>, Dangling) \<and>
    run_constant_folding Dangling = None \<and> run_dead_code_elimination Dangling = None"
proof -
  let ?k = "Field (if XVR_AS_BOOLEAN c then 1 else 2)"
  have "count_list (Xvr_freeASTNode n) (ReleaseNode [?k]) = 1"
    by (simp add: Xvr_freeASTNode_def free_count [of _ "[]" "[?k]"] owed_node_at assms(1))
  then have "ReleaseNode [?k] \<in> set (Xvr_freeASTNode n)"
    using count_list_0_iff [of "Xvr_freeASTNode n" "ReleaseNode [?k]"] by auto
  then show ?thesis
    using assms(2,3)
    by (auto simp: run_constant_folding_def run_dead_code_elimination_def assms(1) is_bool_literal_def get_bool_value_def handle_after_free_def Let_def)
qed

lemma dce_leaves_dangling_witness:
  "run_dead_code_elimination (Live (NodeIf (Some (NodeLiteral (Xvr_toBoolLiteralCpp True)))
     (Some NodePass) (Some NodePass) XVR_LITERAL_TYPE False)) = Some (no_result\<lparr>or_changes := 1\<rparr>, Dangling)"
  by (rule dce_leaves_dangling [OF refl, THEN conjunct1]) (simp_all add: Xvr_toBoolLiteralCpp_def)

end
