(* ===== verification/IrModule.thy ===== *)
theory IrModule
  imports CStrings
begin

text \<open>
  The intermediate representation: src/src/core/ir/xvr_ir.h and xvr_ir.cpp. The linked lists of
  blocks and instructions with their tail pointers, and the array of functions, are lists; a block
  is named by its place in its function. A type pointer is an \<open>ir_type option\<close>, None when NULL.
  The global instruction counter is passed along. Allocation succeeds.
\<close>

section \<open>Data\<close>

datatype ir_opcode =
    XVR_IR_NOP | XVR_IR_LOAD | XVR_IR_STORE | XVR_IR_ALLOCA | XVR_IR_ADD | XVR_IR_SUB | XVR_IR_MUL
  | XVR_IR_DIV | XVR_IR_MOD | XVR_IR_AND | XVR_IR_OR | XVR_IR_XOR | XVR_IR_SHL | XVR_IR_SHR
  | XVR_IR_CMP_EQ | XVR_IR_CMP_NE | XVR_IR_CMP_LT | XVR_IR_CMP_LE | XVR_IR_CMP_GT | XVR_IR_CMP_GE
  | XVR_IR_CALL | XVR_IR_RET | XVR_IR_BR | XVR_IR_COND_BR | XVR_IR_PHI | XVR_IR_CAST | XVR_IR_GEP
  | XVR_IR_EXTRACT | XVR_IR_INSERT

datatype ir_type =
    IR_VOID | IR_INT1 | IR_INT8 | IR_INT16 | IR_INT32 | IR_INT64 | IR_FLOAT | IR_DOUBLE
  | IR_POINTER ir_type
  | IR_ARRAY ir_type nat
  | IR_STRUCT "ir_type list"
  | IR_FUNCTION "ir_type option" "ir_type option list option" nat

record ir_value =
  iv_type :: "ir_type option"
  iv_name :: string

record ir_instruction =
  ii_opcode :: ir_opcode
  ii_result_type :: "ir_type option"
  ii_operands :: "ir_value option list option"
  ii_operand_count :: nat
  ii_id :: nat

record ir_block =
  ib_name :: string
  ib_instructions :: "ir_instruction list"

record ir_function =
  if_name :: string
  if_return_type :: "ir_type option"
  if_param_types :: "ir_type option list option"
  if_param_count :: nat
  if_blocks :: "ir_block list"

record ir_module =
  im_name :: string
  im_functions :: "ir_function list"

section \<open>Operations\<close>

definition xvr_ir_strdup :: "string option \<Rightarrow> nat \<Rightarrow> string option" where
  "xvr_ir_strdup str max_len =
     (case str of
        None \<Rightarrow> None
      | Some s \<Rightarrow> let src_len = cstr_scan s max_len in if src_len \<ge> max_len then None else Some (take src_len s))"

definition Xvr_IRModuleCreate :: "string option \<Rightarrow> ir_module option" where
  "Xvr_IRModuleCreate name =
     map_option (\<lambda>n. \<lparr>im_name = n, im_functions = []\<rparr>) (xvr_ir_strdup name 256)"

text \<open>The function added is the last of the module's.\<close>

definition Xvr_IRModuleAddFunction ::
    "ir_module \<Rightarrow> string option \<Rightarrow> ir_type option \<Rightarrow> ir_type option list option \<Rightarrow> nat \<Rightarrow> ir_module option" where
  "Xvr_IRModuleAddFunction module name return_type param_types param_count =
     (case xvr_ir_strdup name 256 of
        None \<Rightarrow> None
      | Some n \<Rightarrow>
          Some (module\<lparr>im_functions := im_functions module @
            [\<lparr>if_name = n, if_return_type = return_type,
              if_param_types = (if param_count > 0 then map_option (take param_count) param_types else None),
              if_param_count = param_count, if_blocks = []\<rparr>]\<rparr>))"

definition Xvr_IRFunctionAddBlock :: "ir_function \<Rightarrow> string option \<Rightarrow> (nat \<times> ir_function) option" where
  "Xvr_IRFunctionAddBlock func name =
     (case xvr_ir_strdup name 256 of
        None \<Rightarrow> None
      | Some n \<Rightarrow>
          Some (length (if_blocks func),
                func\<lparr>if_blocks := if_blocks func @ [\<lparr>ib_name = n, ib_instructions = []\<rparr>]\<rparr>))"

definition Xvr_IRBasicBlockAppendInstr ::
    "ir_block \<Rightarrow> ir_opcode \<Rightarrow> ir_type option \<Rightarrow> ir_value option list option \<Rightarrow> nat \<Rightarrow> nat \<Rightarrow> nat \<times> ir_block" where
  "Xvr_IRBasicBlockAppendInstr block op result_type operands operand_count instruction_id =
     (Suc instruction_id,
      block\<lparr>ib_instructions := ib_instructions block @
        [\<lparr>ii_opcode = op, ii_result_type = result_type,
          ii_operands = (if operand_count > 0 then map_option (take operand_count) operands else None),
          ii_operand_count = operand_count, ii_id = instruction_id\<rparr>]\<rparr>)"

definition Xvr_IRTypeCreateVoid :: "ir_type option" where "Xvr_IRTypeCreateVoid = Some IR_VOID"

definition Xvr_IRTypeCreateInt :: "nat \<Rightarrow> ir_type option" where
  "Xvr_IRTypeCreateInt bits =
     Some (if bits = 1 then IR_INT1 else if bits = 8 then IR_INT8 else if bits = 16 then IR_INT16
           else if bits = 32 then IR_INT32 else if bits = 64 then IR_INT64 else IR_INT32)"

definition Xvr_IRTypeCreateFloat :: "ir_type option" where "Xvr_IRTypeCreateFloat = Some IR_FLOAT"
definition Xvr_IRTypeCreateDouble :: "ir_type option" where "Xvr_IRTypeCreateDouble = Some IR_DOUBLE"

definition Xvr_IRTypeCreatePointer :: "ir_type option \<Rightarrow> ir_type option" where
  "Xvr_IRTypeCreatePointer elem_type = map_option IR_POINTER elem_type"

definition Xvr_IRTypeCreateArray :: "ir_type option \<Rightarrow> nat \<Rightarrow> ir_type option" where
  "Xvr_IRTypeCreateArray elem_type count = map_option (\<lambda>e. IR_ARRAY e count) elem_type"

definition Xvr_IRTypeCreateFunction ::
    "ir_type option \<Rightarrow> ir_type option list option \<Rightarrow> nat \<Rightarrow> ir_type option" where
  "Xvr_IRTypeCreateFunction return_type param_types param_count =
     Some (IR_FUNCTION return_type
       (if param_count > 0 then map_option (take param_count) param_types else None) param_count)"

definition Xvr_IRValueCreate :: "ir_type option \<Rightarrow> string option \<Rightarrow> ir_value option" where
  "Xvr_IRValueCreate type name =
     map_option (\<lambda>n. \<lparr>iv_type = type, iv_name = n\<rparr>) (xvr_ir_strdup name 256)"

section \<open>Names\<close>

lemma xvr_ir_strdup_literal [simp]:
  "xvr_ir_strdup (Some ''entry'') 256 = Some ''entry''"
  "xvr_ir_strdup (Some ''if_then'') 256 = Some ''if_then''"
  "xvr_ir_strdup (Some ''if_else'') 256 = Some ''if_else''"
  "xvr_ir_strdup (Some ''while_body'') 256 = Some ''while_body''"
  "xvr_ir_strdup (Some ''for_body'') 256 = Some ''for_body''"
  "xvr_ir_strdup (Some ''main'') 256 = Some ''main''"
  by code_simp+

lemma xvr_ir_strdup_no_nul:
  "no_nul s \<Longrightarrow> xvr_ir_strdup (Some s) n = (if length s < n then Some s else None)"
  by (auto simp: xvr_ir_strdup_def cstr_scan_no_nul Let_def)

end
