(* ===== verification/IrGenerator.thy ===== *)
theory IrGenerator
  imports IrModule AstNodes
begin

text \<open>
  AST to IR: src/src/core/ir/xvr_ir_generator.cpp. A node is given with its path in the array of
  trees, for the text of its address (\<open>%p\<close>), which the parameter \<open>adr\<close> supplies. The state of a
  translation inside a function is the instruction counter and the function; the result is None
  where the code reads a union arm the node does not have.
\<close>

section \<open>Tables\<close>

definition map_literal_type_to_ir :: "literal_type \<Rightarrow> ir_type option" where
  "map_literal_type_to_ir t =
     (case t of
        XVR_LITERAL_NULL \<Rightarrow> Xvr_IRTypeCreateVoid
      | XVR_LITERAL_VOID \<Rightarrow> Xvr_IRTypeCreateVoid
      | XVR_LITERAL_BOOLEAN \<Rightarrow> Xvr_IRTypeCreateInt 1
      | XVR_LITERAL_INTEGER \<Rightarrow> Xvr_IRTypeCreateInt 32
      | XVR_LITERAL_INT8 \<Rightarrow> Xvr_IRTypeCreateInt 32
      | XVR_LITERAL_INT16 \<Rightarrow> Xvr_IRTypeCreateInt 32
      | XVR_LITERAL_INT32 \<Rightarrow> Xvr_IRTypeCreateInt 32
      | XVR_LITERAL_INT64 \<Rightarrow> Xvr_IRTypeCreateInt 32
      | XVR_LITERAL_UINT8 \<Rightarrow> Xvr_IRTypeCreateInt 32
      | XVR_LITERAL_UINT16 \<Rightarrow> Xvr_IRTypeCreateInt 32
      | XVR_LITERAL_UINT32 \<Rightarrow> Xvr_IRTypeCreateInt 32
      | XVR_LITERAL_UINT64 \<Rightarrow> Xvr_IRTypeCreateInt 32
      | XVR_LITERAL_FLOAT \<Rightarrow> Xvr_IRTypeCreateFloat
      | XVR_LITERAL_FLOAT16 \<Rightarrow> Xvr_IRTypeCreateFloat
      | XVR_LITERAL_FLOAT32 \<Rightarrow> Xvr_IRTypeCreateFloat
      | XVR_LITERAL_FLOAT64 \<Rightarrow> Xvr_IRTypeCreateDouble
      | XVR_LITERAL_STRING \<Rightarrow> Xvr_IRTypeCreatePointer (Xvr_IRTypeCreateInt 8)
      | XVR_LITERAL_ARRAY \<Rightarrow> Xvr_IRTypeCreatePointer (Xvr_IRTypeCreateInt 8)
      | XVR_LITERAL_ARRAY_INTERMEDIATE \<Rightarrow> Xvr_IRTypeCreatePointer (Xvr_IRTypeCreateInt 8)
      | XVR_LITERAL_DICTIONARY \<Rightarrow> Xvr_IRTypeCreatePointer (Xvr_IRTypeCreateInt 8)
      | XVR_LITERAL_DICTIONARY_INTERMEDIATE \<Rightarrow> Xvr_IRTypeCreatePointer (Xvr_IRTypeCreateInt 8)
      | XVR_LITERAL_FUNCTION \<Rightarrow> Xvr_IRTypeCreatePointer (Xvr_IRTypeCreateInt 8)
      | XVR_LITERAL_FUNCTION_NATIVE \<Rightarrow> Xvr_IRTypeCreatePointer (Xvr_IRTypeCreateInt 8)
      | XVR_LITERAL_FUNCTION_INTERMEDIATE \<Rightarrow> Xvr_IRTypeCreatePointer (Xvr_IRTypeCreateInt 8)
      | XVR_LITERAL_IDENTIFIER \<Rightarrow> Xvr_IRTypeCreatePointer (Xvr_IRTypeCreateInt 8)
      | XVR_LITERAL_TYPE \<Rightarrow> Xvr_IRTypeCreatePointer (Xvr_IRTypeCreateInt 8)
      | XVR_LITERAL_TYPE_INTERMEDIATE \<Rightarrow> Xvr_IRTypeCreatePointer (Xvr_IRTypeCreateInt 8)
      | _ \<Rightarrow> Xvr_IRTypeCreateVoid)"

definition map_opcode_to_ir :: "opcode \<Rightarrow> ir_opcode" where
  "map_opcode_to_ir op =
     (if op = XVR_OP_ADDITION then XVR_IR_ADD
      else if op = XVR_OP_SUBTRACTION then XVR_IR_SUB
      else if op = XVR_OP_MULTIPLICATION then XVR_IR_MUL
      else if op = XVR_OP_DIVISION then XVR_IR_DIV
      else if op = XVR_OP_MODULO then XVR_IR_MOD
      else if op = XVR_OP_COMPARE_EQUAL then XVR_IR_CMP_EQ
      else if op = XVR_OP_COMPARE_NOT_EQUAL then XVR_IR_CMP_NE
      else if op = XVR_OP_COMPARE_LESS then XVR_IR_CMP_LT
      else if op = XVR_OP_COMPARE_LESS_EQUAL then XVR_IR_CMP_LE
      else if op = XVR_OP_COMPARE_GREATER then XVR_IR_CMP_GT
      else if op = XVR_OP_COMPARE_GREATER_EQUAL then XVR_IR_CMP_GE
      else if op = XVR_OP_AND then XVR_IR_AND
      else if op = XVR_OP_OR then XVR_IR_OR
      else XVR_IR_NOP)"

text \<open>The type a type literal describes, or the 32-bit integer.\<close>

definition declared_ir_type :: "literal \<Rightarrow> ir_type option" where
  "declared_ir_type l = (case l of Type t c ss cap \<Rightarrow> map_literal_type_to_ir t | _ \<Rightarrow> Xvr_IRTypeCreateInt 32)"

section \<open>Expressions and statements\<close>

type_synonym ir_state = "nat \<times> ir_function"

definition append_instr ::
    "nat \<Rightarrow> ir_opcode \<Rightarrow> ir_type option \<Rightarrow> ir_value option list option \<Rightarrow> nat \<Rightarrow> ir_state \<Rightarrow> ir_state" where
  "append_instr b op ty operands n st =
     (let (g, f) = st;
          (g', blk) = Xvr_IRBasicBlockAppendInstr (if_blocks f ! b) op ty operands n g
      in (g', f\<lparr>if_blocks := (if_blocks f)[b := blk]\<rparr>))"

function translate_expression ::
    "(path \<Rightarrow> string) \<Rightarrow> path \<Rightarrow> ast \<Rightarrow> nat \<Rightarrow> ir_state \<Rightarrow> ir_state option"
  and translate_operand ::
    "(path \<Rightarrow> string) \<Rightarrow> path \<Rightarrow> ast option \<Rightarrow> nat \<Rightarrow> ir_state \<Rightarrow> ir_state option"
  and translate_arguments ::
    "(path \<Rightarrow> string) \<Rightarrow> path \<Rightarrow> nat \<Rightarrow> ast list \<Rightarrow> nat \<Rightarrow> ir_state \<Rightarrow> ir_state option" where
  "translate_expression adr p node b st =
     (case node of
        NodeLiteral l \<Rightarrow>
          let ir_type = map_literal_type_to_ir (lit_type l);
              name = take 31 (''const_'' @ adr p)
          in Some (append_instr b XVR_IR_LOAD ir_type (Some [Xvr_IRValueCreate ir_type (Some name)]) 1 st)
      | NodeBinary op l r \<Rightarrow>
          (case translate_operand adr (p @ [Field 0]) l b st of
             None \<Rightarrow> None
           | Some st1 \<Rightarrow>
               (case translate_operand adr (p @ [Field 1]) r b st1 of
                  None \<Rightarrow> None
                | Some st2 \<Rightarrow>
                    Some (append_instr b (map_opcode_to_ir op) (Xvr_IRTypeCreateInt 32) None 0 st2)))
      | NodeUnary op c \<Rightarrow> translate_operand adr (p @ [Field 0]) c b st
      | NodeFnCall a n \<Rightarrow>
          (case a of
             None \<Rightarrow> Some st
           | Some args \<Rightarrow>
               (case argument_nodes args of
                  None \<Rightarrow> None
                | Some xs \<Rightarrow> translate_arguments adr (p @ [Field 0]) 0 xs b st))
      | _ \<Rightarrow> Some st)"
| "translate_operand adr p None b st = Some st"
| "translate_operand adr p (Some c) b st = translate_expression adr p c b st"
| "translate_arguments adr p k [] b st = Some st"
| "translate_arguments adr p k (x # xs) b st =
     (case translate_expression adr (p @ [Elem k]) x b st of
        None \<Rightarrow> None
      | Some st' \<Rightarrow> translate_arguments adr p (Suc k) xs b st')"
  by pat_completeness auto
termination
  by (relation "measure (\<lambda>s. case s of
        Inl (adr, p, n, b, st) \<Rightarrow> 2 * size n
      | Inr (Inl (adr, p, c, b, st)) \<Rightarrow> 2 * size_option size c + 1
      | Inr (Inr (adr, p, k, xs, b, st)) \<Rightarrow> 2 * size_list size xs + 1)")
    (auto dest!: argument_nodes_size)

declare translate_expression.simps [simp del]

text \<open>A new block; the names used are short.\<close>

definition new_block :: "string \<Rightarrow> ir_state \<Rightarrow> nat \<times> ir_state" where
  "new_block name st =
     (case Xvr_IRFunctionAddBlock (snd st) (Some name) of
        None \<Rightarrow> (0, st)
      | Some (b, f) \<Rightarrow> (b, fst st, f))"

fun translate_statement ::
    "(path \<Rightarrow> string) \<Rightarrow> path \<Rightarrow> ast \<Rightarrow> nat \<Rightarrow> ir_state \<Rightarrow> ir_state option"
  and translate_branch ::
    "(path \<Rightarrow> string) \<Rightarrow> path \<Rightarrow> ast option \<Rightarrow> nat \<Rightarrow> ir_state \<Rightarrow> ir_state option"
  and translate_block ::
    "(path \<Rightarrow> string) \<Rightarrow> path \<Rightarrow> nat \<Rightarrow> ast list \<Rightarrow> nat \<Rightarrow> ir_state \<Rightarrow> ir_state option" where
  "translate_statement adr p node b st =
     (case node of
        NodeVarDecl i ty e line \<Rightarrow>
          (case identifier_text i of
             None \<Rightarrow> None
           | Some name \<Rightarrow>
               translate_operand adr (p @ [Field 0]) e b
                 (append_instr b XVR_IR_ALLOCA (declared_ir_type ty) None 0 st))
      | NodeFnReturn r \<Rightarrow>
          map_option (append_instr b XVR_IR_RET Xvr_IRTypeCreateVoid None 0)
            (translate_operand adr (p @ [Field 0]) r b st)
      | NodeIf c t e r x \<Rightarrow>
          (let (tb, st1) = new_block ''if_then'' st
           in case translate_branch adr (p @ [Field 1]) t tb st1 of
                None \<Rightarrow> None
              | Some st2 \<Rightarrow>
                  (case e of
                     None \<Rightarrow> Some st2
                   | Some e' \<Rightarrow>
                       let (eb, st3) = new_block ''if_else'' st2
                       in translate_branch adr (p @ [Field 2]) e eb st3))
      | NodeWhile c t \<Rightarrow>
          (let (lb, st1) = new_block ''while_body'' st
           in translate_branch adr (p @ [Field 1]) t lb st1)
      | NodeFor pre c post t \<Rightarrow>
          (let (fb, st1) = new_block ''for_body'' st
           in translate_branch adr (p @ [Field 3]) t fb st1)
      | NodeBreak \<Rightarrow> Some st
      | NodeContinue \<Rightarrow> Some st
      | NodeBlock xs cap \<Rightarrow> translate_block adr p 0 xs b st
      | _ \<Rightarrow> translate_expression adr p node b st)"
| "translate_branch adr p None b st = Some st"
| "translate_branch adr p (Some c) b st = translate_statement adr p c b st"
| "translate_block adr p k [] b st = Some st"
| "translate_block adr p k (x # xs) b st =
     (case translate_statement adr (p @ [Elem k]) x b st of
        None \<Rightarrow> None
      | Some st' \<Rightarrow> translate_block adr p (Suc k) xs b st')"

declare translate_statement.simps [simp del]

section \<open>Functions and modules\<close>

record ir_generator =
  ge_error :: "string option"
  ge_module :: "ir_module option"

definition Xvr_IRGeneratorCreate :: ir_generator where
  "Xvr_IRGeneratorCreate = \<lparr>ge_error = None, ge_module = None\<rparr>"

definition param_ir_type :: "ast \<Rightarrow> ir_type option" where
  "param_ir_type n = (case n of NodeVarDecl i ty e line \<Rightarrow> declared_ir_type ty | _ \<Rightarrow> None)"

definition return_ir_type :: "ast option \<Rightarrow> ir_type option" where
  "return_ir_type returns =
     (case returns of
        Some (NodeLiteral (Type t c ss cap)) \<Rightarrow> map_literal_type_to_ir t
      | _ \<Rightarrow> Xvr_IRTypeCreateVoid)"

definition ir_params :: "ast option \<Rightarrow> ir_type option list option \<times> nat" where
  "ir_params arguments =
     (case arguments of
        Some (NodeCompound t xs cap) \<Rightarrow>
          (if length xs > 0 then Some (map param_ir_type xs) else None, length xs)
      | _ \<Rightarrow> (None, 0))"

definition translate_body ::
    "(path \<Rightarrow> string) \<Rightarrow> path \<Rightarrow> ast option \<Rightarrow> nat \<Rightarrow> ir_state \<Rightarrow> ir_state option" where
  "translate_body adr p body entry st =
     (case body of
        Some (NodeBlock xs cap) \<Rightarrow> translate_statement adr p (NodeBlock xs cap) entry st
      | _ \<Rightarrow> Some st)"

text \<open>The state of a run: the instruction counter, the error and the module.\<close>

type_synonym run_state = "nat \<times> string option \<times> ir_module"

definition translate_function ::
    "(path \<Rightarrow> string) \<Rightarrow> path \<Rightarrow> ast \<Rightarrow> run_state \<Rightarrow> run_state option" where
  "translate_function adr p node st =
     (let (g, err, module) = st
      in case node of
           NodeFnDecl i a r b line \<Rightarrow>
             (case identifier_text i of
                None \<Rightarrow> None
              | Some text \<Rightarrow>
                  let fn_name = (case text of Some s \<Rightarrow> s | None \<Rightarrow> ''anonymous'');
                      (param_types, param_count) = ir_params a
                  in (case Xvr_IRModuleAddFunction module (Some fn_name) (return_ir_type r) param_types param_count of
                        None \<Rightarrow> Some (g, Some ''Failed to create IR function'', module)
                      | Some module' \<Rightarrow>
                          (case Xvr_IRFunctionAddBlock (last (im_functions module')) (Some ''entry'') of
                             None \<Rightarrow> Some (g, Some ''Failed to create entry block'', module')
                           | Some (entry, f) \<Rightarrow>
                               (case translate_body adr (p @ [Field 2]) b entry (g, f) of
                                  None \<Rightarrow> None
                                | Some (g', f') \<Rightarrow>
                                    Some (g', err,
                                      module'\<lparr>im_functions := butlast (im_functions module') @ [f']\<rparr>)))))
         | _ \<Rightarrow> Some st)"

fun translate_collection ::
    "(path \<Rightarrow> string) \<Rightarrow> path \<Rightarrow> nat \<Rightarrow> ast list \<Rightarrow> run_state \<Rightarrow> run_state option" where
  "translate_collection adr p k [] st = Some st"
| "translate_collection adr p k (x # xs) st =
     (case translate_function adr (p @ [Elem k]) x st of
        None \<Rightarrow> None
      | Some st' \<Rightarrow> translate_collection adr p (Suc k) xs st')"

definition translate_node :: "(path \<Rightarrow> string) \<Rightarrow> path \<Rightarrow> ast option \<Rightarrow> run_state \<Rightarrow> run_state option" where
  "translate_node adr p node st =
     (case node of
        Some (NodeFnDecl i a r b line) \<Rightarrow> translate_function adr p (NodeFnDecl i a r b line) st
      | Some (NodeFnCollection xs cap) \<Rightarrow> translate_collection adr p 0 xs st
      | _ \<Rightarrow> Some st)"

fun translate_nodes :: "(path \<Rightarrow> string) \<Rightarrow> nat \<Rightarrow> ast option list \<Rightarrow> run_state \<Rightarrow> run_state option" where
  "translate_nodes adr k [] st = Some st"
| "translate_nodes adr k (x # xs) st =
     (case translate_node adr [Field k] x st of
        None \<Rightarrow> None
      | Some st' \<Rightarrow> translate_nodes adr (Suc k) xs st')"

text \<open>The counter, the generator and the module handed out, NULL being None.\<close>

definition Xvr_IRGeneratorTranslate ::
    "(path \<Rightarrow> string) \<Rightarrow> ir_generator option \<Rightarrow> ast option list option \<Rightarrow> nat \<Rightarrow>
     (nat \<times> ir_generator option \<times> ir_module option) option" where
  "Xvr_IRGeneratorTranslate adr gen ast_nodes g =
     (case gen of
        None \<Rightarrow> Some (g, None, None)
      | Some ge \<Rightarrow>
          (case ast_nodes of
             None \<Rightarrow> Some (g, Some (ge\<lparr>ge_error := Some ''Invalid arguments to translate''\<rparr>), None)
           | Some nodes \<Rightarrow>
               if nodes = [] then Some (g, Some (ge\<lparr>ge_error := Some ''Invalid arguments to translate''\<rparr>), None)
               else
                 (case Xvr_IRModuleCreate (Some ''main'') of
                    None \<Rightarrow> Some (g, Some (ge\<lparr>ge_error := Some ''Failed to create IR module''\<rparr>), None)
                  | Some module \<Rightarrow>
                      (case translate_nodes adr 0 nodes (g, ge_error ge, module) of
                         None \<Rightarrow> None
                       | Some (g', err, module') \<Rightarrow>
                           Some (g', Some \<lparr>ge_error = err, ge_module = None\<rparr>,
                                 (if err = None then Some module' else None))))))"

definition Xvr_IRGeneratorHasError :: "ir_generator option \<Rightarrow> bool" where
  "Xvr_IRGeneratorHasError gen \<longleftrightarrow> (case gen of None \<Rightarrow> False | Some ge \<Rightarrow> ge_error ge \<noteq> None)"

definition Xvr_IRGeneratorGetError :: "ir_generator option \<Rightarrow> string" where
  "Xvr_IRGeneratorGetError gen =
     (case gen of
        None \<Rightarrow> ''NULL generator''
      | Some ge \<Rightarrow> (case ge_error ge of Some e \<Rightarrow> e | None \<Rightarrow> ''''))"

end
