(* ===== verification/IrProps.thy ===== *)
theory IrProps
  imports IrGenerator "HOL-Library.Multiset"
begin

text \<open>
  What a translation emits. A relation that is kept by appending an emitted instruction and by
  opening a block is kept by the translation of expressions and statements (locale \<open>emission\<close>);
  it is interpreted for the numbering of the instructions and for the shape of the code.
\<close>

section \<open>Steps of a translation\<close>

definition block_count :: "ir_state \<Rightarrow> nat" where
  "block_count st = length (if_blocks (snd st))"

definition emitted :: "ir_opcode \<Rightarrow> ir_value option list option \<Rightarrow> nat \<Rightarrow> bool" where
  "emitted op operands n \<longleftrightarrow>
     op = XVR_IR_LOAD \<and> (\<exists>v. operands = Some [v]) \<and> n = 1 \<or>
     op \<in> {XVR_IR_ALLOCA, XVR_IR_RET} \<union> range map_opcode_to_ir \<and> operands = None \<and> n = 0"

locale emission =
  fixes R :: "ir_state \<Rightarrow> ir_state \<Rightarrow> bool"
  assumes R_refl: "R st st"
    and R_trans: "R st st' \<Longrightarrow> R st' st'' \<Longrightarrow> R st st''"
    and R_append: "b < block_count st \<Longrightarrow> emitted op operands n \<Longrightarrow> R st (append_instr b op ty operands n st)"
    and R_block: "R st (snd (new_block name st))"
begin

abbreviation keeps :: "ir_state \<Rightarrow> ir_state \<Rightarrow> bool" where
  "keeps st st' \<equiv> R st st' \<and> block_count st \<le> block_count st'"

lemma keeps_append:
  "b < block_count st \<Longrightarrow> emitted op operands n \<Longrightarrow> keeps st (append_instr b op ty operands n st)"
  using R_append by (auto simp: append_instr_def block_count_def Xvr_IRBasicBlockAppendInstr_def split: prod.splits)

lemma keeps_trans: "keeps st st' \<Longrightarrow> keeps st' st'' \<Longrightarrow> keeps st st''"
  using R_trans by (meson le_trans)

lemma expression_keeps:
  "translate_expression adr p node b st = Some st' \<Longrightarrow> b < block_count st \<Longrightarrow> keeps st st'"
  "translate_operand adr p c b st = Some st' \<Longrightarrow> b < block_count st \<Longrightarrow> keeps st st'"
  "translate_arguments adr p k xs b st = Some st' \<Longrightarrow> b < block_count st \<Longrightarrow> keeps st st'"
proof (induction adr p node b st and adr p c b st and adr p k xs b st arbitrary: st' and st' and st'
    rule: translate_expression_translate_operand_translate_arguments.induct)
  case (1 adr p node b st)
  show ?case
  proof (cases node)
    case (NodeLiteral l)
    then obtain ty v where "st' = append_instr b XVR_IR_LOAD ty (Some [v]) 1 st"
      using "1.prems"(1) by (auto simp: translate_expression.simps(1) Let_def)
    then show ?thesis using keeps_append [of b st XVR_IR_LOAD "Some [v]" 1 ty] "1.prems"(2) by (simp add: emitted_def)
  next
    case (NodeBinary op l r)
    with "1.prems"(1) obtain st1 st2 where
        s: "translate_operand adr (p @ [Field 0]) l b st = Some st1"
           "translate_operand adr (p @ [Field 1]) r b st1 = Some st2"
           "st' = append_instr b (map_opcode_to_ir op) (Xvr_IRTypeCreateInt 32) None 0 st2"
      by (auto simp: translate_expression.simps(1) split: option.splits)
    have k1: "keeps st st1" using "1.IH"(2) [OF NodeBinary s(1)] "1.prems"(2) by simp
    have k2: "keeps st1 st2" using "1.IH"(3) [OF NodeBinary s(1,2)] k1 "1.prems"(2) by simp
    have "keeps st2 st'" using keeps_append [of b st2] k1 k2 "1.prems"(2) by (simp add: s(3) emitted_def)
    with k1 k2 show ?thesis using keeps_trans by blast
  next
    case (NodeUnary op c)
    then show ?thesis using "1.IH"(1) "1.prems" by (simp add: translate_expression.simps(1))
  next
    case (NodeFnCall a n)
    then show ?thesis
      using "1.IH"(4) "1.prems" R_refl by (auto simp: translate_expression.simps(1) split: option.splits)
  qed (use "1.prems" R_refl in \<open>auto simp: translate_expression.simps(1)\<close>)
next
  case (5 adr p k x xs b st)
  then obtain st1 where s: "translate_expression adr (p @ [Elem k]) x b st = Some st1"
      "translate_arguments adr p (Suc k) xs b st1 = Some st'"
    by (auto simp: translate_expression.simps split: option.splits)
  have k1: "keeps st st1" using "5.IH"(1) [OF s(1)] "5.prems"(2) by simp
  have "keeps st1 st'" using "5.IH"(2) [OF s] k1 "5.prems"(2) by simp
  with k1 show ?case using keeps_trans by blast
qed (use R_refl in \<open>auto simp: translate_expression.simps\<close>)

lemma keeps_block:
  "new_block name st = (nb, st') \<Longrightarrow> xvr_ir_strdup (Some name) 256 = Some name \<Longrightarrow>
   keeps st st' \<and> nb < block_count st'"
  using R_block [of st name]
  by (auto simp: new_block_def Xvr_IRFunctionAddBlock_def block_count_def split: option.splits)

lemma branch_in_new_block:
  assumes "new_block name st = (nb, st1)" "xvr_ir_strdup (Some name) 256 = Some name"
    and "translate_branch adr p c nb st1 = Some st2"
    and "nb < block_count st1 \<Longrightarrow> keeps st1 st2"
  shows "keeps st st2"
  using keeps_block [OF assms(1,2)] assms(4) keeps_trans by blast

lemma statement_keeps:
  "translate_statement adr p node b st = Some st' \<Longrightarrow> b < block_count st \<Longrightarrow> keeps st st'"
  "translate_branch adr p c b st = Some st' \<Longrightarrow> b < block_count st \<Longrightarrow> keeps st st'"
  "translate_block adr p k xs b st = Some st' \<Longrightarrow> b < block_count st \<Longrightarrow> keeps st st'"
proof (induction adr p node b st and adr p c b st and adr p k xs b st arbitrary: st' and st' and st'
    rule: translate_statement_translate_branch_translate_block.induct)
  case (1 adr p node b st)
  have other: "keeps st st'" if "translate_expression adr p node b st = Some st'"
    using expression_keeps(1) [OF that] "1.prems"(2) by blast
  show ?case
  proof (cases node)
    case (NodeVarDecl i ty e line)
    let ?st1 = "append_instr b XVR_IR_ALLOCA (declared_ir_type ty) None 0 st"
    have k1: "keeps st ?st1" using keeps_append "1.prems"(2) by (simp add: emitted_def)
    have "translate_operand adr (p @ [Field 0]) e b ?st1 = Some st'"
      using "1.prems"(1) NodeVarDecl by (simp add: translate_statement.simps(1) split: option.splits)
    then have "keeps ?st1 st'" using expression_keeps(2) k1 "1.prems"(2) by simp
    with k1 show ?thesis using keeps_trans by blast
  next
    case (NodeFnReturn r)
    with "1.prems"(1) obtain st1 where s: "translate_operand adr (p @ [Field 0]) r b st = Some st1"
        "st' = append_instr b XVR_IR_RET Xvr_IRTypeCreateVoid None 0 st1"
      by (auto simp: translate_statement.simps(1))
    have k1: "keeps st st1" using expression_keeps(2) [OF s(1)] "1.prems"(2) by simp
    then have "keeps st1 st'" using keeps_append [of b st1] "1.prems"(2) by (simp add: s(2) emitted_def)
    with k1 show ?thesis using keeps_trans by blast
  next
    case (NodeIf c t e r x)
    obtain tb st1 where n1: "new_block ''if_then'' st = (tb, st1)" by (rule prod.exhaust)
    with "1.prems"(1) NodeIf obtain st2 where t: "translate_branch adr (p @ [Field 1]) t tb st1 = Some st2"
      by (auto simp: translate_statement.simps(1) split: option.splits)
    have k: "keeps st st2"
      by (rule branch_in_new_block [OF n1 _ t]) (use "1.IH"(2) NodeIf n1 t in simp_all)
    show ?thesis
    proof (cases e)
      case None
      then show ?thesis using "1.prems"(1) NodeIf n1 t k by (simp add: translate_statement.simps(1))
    next
      case (Some e')
      obtain eb st3 where n3: "new_block ''if_else'' st2 = (eb, st3)" by (rule prod.exhaust)
      have e: "translate_branch adr (p @ [Field 2]) e eb st3 = Some st'"
        using "1.prems"(1) NodeIf n1 t n3 Some by (simp add: translate_statement.simps(1))
      have "keeps st2 st'"
        by (rule branch_in_new_block [OF n3 _ e]) (use "1.IH"(3) NodeIf n1 t n3 e Some in simp_all)
      with k show ?thesis using keeps_trans by blast
    qed
  next
    case (NodeWhile c t)
    obtain lb st1 where n1: "new_block ''while_body'' st = (lb, st1)" by (rule prod.exhaust)
    have t: "translate_branch adr (p @ [Field 1]) t lb st1 = Some st'"
      using "1.prems"(1) NodeWhile n1 by (simp add: translate_statement.simps(1))
    show ?thesis by (rule branch_in_new_block [OF n1 _ t]) (use "1.IH"(4) NodeWhile n1 t in simp_all)
  next
    case (NodeFor pre c post t)
    obtain fb st1 where n1: "new_block ''for_body'' st = (fb, st1)" by (rule prod.exhaust)
    have t: "translate_branch adr (p @ [Field 3]) t fb st1 = Some st'"
      using "1.prems"(1) NodeFor n1 by (simp add: translate_statement.simps(1))
    show ?thesis by (rule branch_in_new_block [OF n1 _ t]) (use "1.IH"(5) NodeFor n1 t in simp_all)
  next
    case (NodeBlock xs cap)
    then show ?thesis using "1.IH"(1) [OF NodeBlock] "1.prems" by (simp add: translate_statement.simps(1))
  qed (use "1.prems"(1) other R_refl in \<open>auto simp: translate_statement.simps(1)\<close>)
next
  case (5 adr p k x xs b st)
  then obtain st1 where s: "translate_statement adr (p @ [Elem k]) x b st = Some st1"
      "translate_block adr p (Suc k) xs b st1 = Some st'"
    by (auto simp: translate_statement.simps split: option.splits)
  have k1: "keeps st st1" using "5.IH"(1) [OF s(1)] "5.prems"(2) by simp
  have "keeps st1 st'" using "5.IH"(2) [OF s] k1 "5.prems"(2) by simp
  with k1 show ?case using keeps_trans by blast
qed (use R_refl in \<open>auto simp: translate_statement.simps\<close>)

end

section \<open>Instances\<close>

definition instrs :: "ir_function \<Rightarrow> ir_instruction list" where
  "instrs f = concat (map ib_instructions (if_blocks f))"

definition module_instrs :: "ir_module \<Rightarrow> ir_instruction list" where
  "module_instrs m = concat (map instrs (im_functions m))"

lemma append_instr_instrs:
  assumes "b < block_count st"
  shows "mset (instrs (snd (append_instr b op ty operands n st))) =
    add_mset \<lparr>ii_opcode = op, ii_result_type = ty,
      ii_operands = (if n > 0 then map_option (take n) operands else None),
      ii_operand_count = n, ii_id = fst st\<rparr> (mset (instrs (snd st)))"
proof -
  obtain g f where st: "st = (g, f)" by (rule prod.exhaust)
  let ?bs = "if_blocks f"
  have b: "b < length ?bs" using assms by (simp add: st block_count_def)
  have "mset (concat (map ib_instructions ?bs)) =
      mset (concat (map ib_instructions (take b ?bs @ ?bs ! b # drop (Suc b) ?bs)))"
    using id_take_nth_drop [OF b] by simp
  then show ?thesis
    using b by (simp add: st append_instr_def Xvr_IRBasicBlockAppendInstr_def instrs_def upd_conv_take_nth_drop)
qed

lemma append_instr_counter: "fst (append_instr b op ty operands n st) = Suc (fst st)"
  by (simp add: append_instr_def Xvr_IRBasicBlockAppendInstr_def split: prod.splits)

lemma new_block_instrs: "instrs (snd (snd (new_block name st))) = instrs (snd st)"
  "fst (snd (new_block name st)) = fst st"
  by (auto simp: new_block_def Xvr_IRFunctionAddBlock_def instrs_def split: option.splits)

definition numbered :: "ir_state \<Rightarrow> ir_state \<Rightarrow> bool" where
  "numbered st st' \<longleftrightarrow> fst st \<le> fst st' \<and>
     mset (map ii_id (instrs (snd st'))) = mset (map ii_id (instrs (snd st))) + mset [fst st..<fst st']"

definition shaped :: "ir_state \<Rightarrow> ir_state \<Rightarrow> bool" where
  "shaped st st' \<longleftrightarrow>
     (\<forall>i \<in> set (instrs (snd st')). i \<in> set (instrs (snd st)) \<or> emitted (ii_opcode i) (ii_operands i) (ii_operand_count i))"

definition function_header :: "ir_function \<Rightarrow> string \<times> ir_type option \<times> ir_type option list option \<times> nat" where
  "function_header f = (if_name f, if_return_type f, if_param_types f, if_param_count f)"

definition same_header :: "ir_state \<Rightarrow> ir_state \<Rightarrow> bool" where
  "same_header st st' \<longleftrightarrow> function_header (snd st') = function_header (snd st)"

interpretation numbering: emission numbered
proof
  show "numbered st st" for st by (simp add: numbered_def)
  show "numbered st st''" if "numbered st st'" "numbered st' st''" for st st' st''
  proof -
    from that have le: "fst st \<le> fst st'" "fst st' \<le> fst st''" by (simp_all add: numbered_def)
    have "[fst st..<fst st''] = [fst st..<fst st'] @ [fst st'..<fst st'']"
      using upt_add_eq_append [OF le(1), of "fst st'' - fst st'"] le by simp
    with that le show ?thesis by (simp add: numbered_def)
  qed
  show "numbered st (append_instr b op ty operands n st)" if "b < block_count st" for b st op operands n ty
  proof -
    have "image_mset ii_id (mset (instrs (snd (append_instr b op ty operands n st)))) =
        add_mset (fst st) (image_mset ii_id (mset (instrs (snd st))))"
      by (simp add: append_instr_instrs [OF that])
    then show ?thesis by (simp add: numbered_def append_instr_counter)
  qed
  show "numbered st (snd (new_block name st))" for st name
    by (simp add: numbered_def new_block_instrs)
qed

interpretation shaping: emission shaped
proof
  show "shaped st (append_instr b op ty operands n st)"
    if "b < block_count st" "emitted op operands n" for b st op operands n ty
  proof -
    have "set (instrs (snd (append_instr b op ty operands n st))) =
        insert \<lparr>ii_opcode = op, ii_result_type = ty,
          ii_operands = (if n > 0 then map_option (take n) operands else None),
          ii_operand_count = n, ii_id = fst st\<rparr> (set (instrs (snd st)))"
      using arg_cong [OF append_instr_instrs [OF that(1), of op ty operands n], of set_mset] by simp
    then show ?thesis using that(2) by (auto simp: shaped_def emitted_def)
  qed
qed (auto simp: shaped_def new_block_instrs)

interpretation heading: emission same_header
  by unfold_locales
    (auto simp: same_header_def function_header_def append_instr_def new_block_def
      Xvr_IRBasicBlockAppendInstr_def Xvr_IRFunctionAddBlock_def split: prod.splits option.splits)

section \<open>Functions\<close>

text \<open>The declarations a list of trees holds, one level inside collections, in order.\<close>

fun is_fn_decl :: "ast \<Rightarrow> bool" where
  "is_fn_decl (NodeFnDecl i a r b line) = True"
| "is_fn_decl _ = False"

definition declarations_of :: "ast option \<Rightarrow> ast list" where
  "declarations_of n =
     (case n of
        Some (NodeFnDecl i a r b line) \<Rightarrow> [NodeFnDecl i a r b line]
      | Some (NodeFnCollection xs cap) \<Rightarrow> filter is_fn_decl xs
      | _ \<Rightarrow> [])"

definition decl_name :: "ast \<Rightarrow> string option" where
  "decl_name d =
     (case d of
        NodeFnDecl i a r b line \<Rightarrow>
          (case identifier_text i of
             Some (Some s) \<Rightarrow> xvr_ir_strdup (Some s) 256
           | _ \<Rightarrow> xvr_ir_strdup (Some ''anonymous'') 256)
      | _ \<Rightarrow> None)"

definition declares :: "ast \<Rightarrow> ir_function \<Rightarrow> bool" where
  "declares d f \<longleftrightarrow>
     (case d of
        NodeFnDecl i a r b line \<Rightarrow>
          decl_name d = Some (if_name f) \<and> if_return_type f = return_ir_type r \<and>
          (if_param_types f, if_param_count f) = ir_params a
      | _ \<Rightarrow> False)"

text \<open>A function as the generator leaves it: numbered and shaped, from an empty one.\<close>

definition made :: "nat \<Rightarrow> nat \<Rightarrow> ir_function \<Rightarrow> bool" where
  "made g g' f \<longleftrightarrow> g \<le> g' \<and> mset (map ii_id (instrs f)) = mset [g..<g'] \<and>
     (\<forall>i \<in> set (instrs f). emitted (ii_opcode i) (ii_operands i) (ii_operand_count i))"

lemma statement_made:
  assumes "translate_statement adr p node 0 (g, f) = Some (g', f')" "length (if_blocks f) = 1" "instrs f = []"
  shows "made g g' f'" "function_header f' = function_header f"
proof -
  have b: "0 < block_count (g, f)" using assms(2) by (simp add: block_count_def)
  note n = numbering.statement_keeps(1) [OF assms(1) b] shaping.statement_keeps(1) [OF assms(1) b]
    heading.statement_keeps(1) [OF assms(1) b]
  show "made g g' f'" using n(1,2) by (auto simp: made_def numbered_def shaped_def assms(3))
  show "function_header f' = function_header f" using n(3) by (simp add: same_header_def)
qed

lemma body_made:
  assumes "translate_body adr p body 0 (g, f) = Some (g', f')" "length (if_blocks f) = 1" "instrs f = []"
  shows "made g g' f'" "function_header f' = function_header f"
proof -
  have "made g g' f' \<and> function_header f' = function_header f"
  proof (cases "\<exists>xs cap. body = Some (NodeBlock xs cap)")
    case True
    with assms(1) show ?thesis using statement_made [OF _ assms(2,3)] by (auto simp: translate_body_def)
  next
    case False
    then have "(g', f') = (g, f)" using assms(1) by (auto simp: translate_body_def split: option.splits ast.splits)
    then show ?thesis by (simp add: made_def assms(3))
  qed
  then show "made g g' f'" "function_header f' = function_header f" by simp_all
qed

lemma ir_params_stored:
  "ir_params a = (ps, k) \<Longrightarrow> (if k > 0 then map_option (take k) ps else None) = ps"
  by (auto simp: ir_params_def split: option.splits ast.splits if_splits)

lemma translate_function_result:
  assumes "translate_function adr p d (g, err, m) = Some (g', err', m')"
  shows "if \<not> is_fn_decl d then (g', err', m') = (g, err, m)
    else if decl_name d = None then g' = g \<and> m' = m \<and> err' = Some ''Failed to create IR function''
    else err' = err \<and> (\<exists>f. m' = m\<lparr>im_functions := im_functions m @ [f]\<rparr> \<and> declares d f \<and> made g g' f)"
proof (cases "is_fn_decl d")
  case False
  then show ?thesis using assms by (cases d) (simp_all add: translate_function_def)
next
  case True
  then obtain i a r b line where d: "d = NodeFnDecl i a r b line" by (cases d) auto
  with assms obtain nm where nm: "identifier_text i = Some nm"
    by (auto simp: translate_function_def split: option.splits)
  let ?name = "case nm of Some s \<Rightarrow> s | None \<Rightarrow> ''anonymous''"
  obtain ps k where ps: "ir_params a = (ps, k)" by (rule prod.exhaust)
  have name: "decl_name d = xvr_ir_strdup (Some ?name) 256"
    by (simp add: decl_name_def d nm split: option.splits)
  show ?thesis
  proof (cases "decl_name d")
    case None
    then show ?thesis using assms
      by (simp add: True) (simp add: d translate_function_def nm ps Xvr_IRModuleAddFunction_def flip: name)
  next
    case (Some n)
    let ?f0 = "\<lparr>if_name = n, if_return_type = return_ir_type r, if_param_types = ps, if_param_count = k, if_blocks = []\<rparr>"
    let ?f1 = "?f0\<lparr>if_blocks := [\<lparr>ib_name = ''entry'', ib_instructions = []\<rparr>]\<rparr>"
    have add: "Xvr_IRModuleAddFunction m (Some ?name) (return_ir_type r) ps k =
        Some (m\<lparr>im_functions := im_functions m @ [?f0]\<rparr>)"
      using Some name ir_params_stored [OF ps] by (simp add: Xvr_IRModuleAddFunction_def)
    have entry: "Xvr_IRFunctionAddBlock ?f0 (Some ''entry'') = Some (0, ?f1)"
      by (simp add: Xvr_IRFunctionAddBlock_def)
    from assms obtain f where res: "translate_body adr (p @ [Field 2]) b 0 (g, ?f1) = Some (g', f)"
        "err' = err" "m' = m\<lparr>im_functions := im_functions m @ [f]\<rparr>"
      by (simp add: translate_function_def d nm ps add entry) (auto split: option.splits)
    have "length (if_blocks ?f1) = 1" "instrs ?f1 = []" by (simp_all add: instrs_def)
    from body_made [OF res(1) this]
    have "made g g' f" "function_header f = function_header ?f1" by simp_all
    then show ?thesis using res(2,3) Some True
      by (auto simp: declares_def d function_header_def ps)
  qed
qed

section \<open>Modules\<close>

text \<open>What a run over declarations \<open>ds\<close> does to the counter, the error and the module.\<close>

definition ran :: "ast list \<Rightarrow> run_state \<Rightarrow> run_state \<Rightarrow> bool" where
  "ran ds st st' \<longleftrightarrow>
     (case (st, st') of ((g, err, m), (g', err', m')) \<Rightarrow>
        g \<le> g' \<and>
        err' = (if \<exists>d \<in> set ds. decl_name d = None then Some ''Failed to create IR function'' else err) \<and>
        (\<exists>fs. im_functions m' = im_functions m @ fs \<and>
              list_all2 declares (filter (\<lambda>d. decl_name d \<noteq> None) ds) fs \<and>
              mset (map ii_id (concat (map instrs fs))) = mset [g..<g'] \<and>
              (\<forall>i \<in> set (concat (map instrs fs)). emitted (ii_opcode i) (ii_operands i) (ii_operand_count i))))"

lemma ran_Nil: "ran [] st st"
  by (auto simp: ran_def split: prod.splits)

lemma ran_append:
  assumes "ran ds st st'" "ran es st' st''"
  shows "ran (ds @ es) st st''"
proof -
  obtain g err m g' err' m' g'' err'' m'' where
    s: "st = (g, err, m)" "st' = (g', err', m')" "st'' = (g'', err'', m'')" by (metis surj_pair)
  from assms(1) obtain fs where f: "g \<le> g'" "im_functions m' = im_functions m @ fs"
      "list_all2 declares (filter (\<lambda>d. decl_name d \<noteq> None) ds) fs"
      "mset (map ii_id (concat (map instrs fs))) = mset [g..<g']"
      "\<forall>i \<in> set (concat (map instrs fs)). emitted (ii_opcode i) (ii_operands i) (ii_operand_count i)"
    by (auto simp: ran_def s)
  from assms(2) obtain gs where h: "g' \<le> g''" "im_functions m'' = im_functions m' @ gs"
      "list_all2 declares (filter (\<lambda>d. decl_name d \<noteq> None) es) gs"
      "mset (map ii_id (concat (map instrs gs))) = mset [g'..<g'']"
      "\<forall>i \<in> set (concat (map instrs gs)). emitted (ii_opcode i) (ii_operands i) (ii_operand_count i)"
    by (auto simp: ran_def s)
  have "[g..<g''] = [g..<g'] @ [g'..<g'']"
    using upt_add_eq_append [OF f(1), of "g'' - g'"] h(1) by simp
  then have "mset (map ii_id (concat (map instrs (fs @ gs)))) = mset [g..<g'']"
    using f(4) h(4) by simp
  moreover have "list_all2 declares (filter (\<lambda>d. decl_name d \<noteq> None) (ds @ es)) (fs @ gs)"
    using f(3) h(3) by (simp add: list_all2_appendI)
  moreover have "\<forall>i \<in> set (concat (map instrs (fs @ gs))). emitted (ii_opcode i) (ii_operands i) (ii_operand_count i)"
    using f(5) h(5) by auto
  moreover have "im_functions m'' = im_functions m @ fs @ gs" using f(2) h(2) by simp
  moreover have "err'' = (if \<exists>d \<in> set (ds @ es). decl_name d = None then Some ''Failed to create IR function'' else err)"
  proof -
    have "err' = (if \<exists>d \<in> set ds. decl_name d = None then Some ''Failed to create IR function'' else err)"
        "err'' = (if \<exists>d \<in> set es. decl_name d = None then Some ''Failed to create IR function'' else err')"
      using assms unfolding ran_def s prod.case by blast+
    then show ?thesis
      by (cases "\<exists>d \<in> set ds. decl_name d = None"; cases "\<exists>d \<in> set es. decl_name d = None")
        (simp_all only: bex_Un set_append if_True if_False simp_thms)
  qed
  moreover have "g \<le> g''" using f(1) h(1) by simp
  ultimately show ?thesis unfolding ran_def s prod.case by blast
qed

lemma translate_function_ran:
  assumes "translate_function adr p d st = Some st'"
  shows "ran (filter is_fn_decl [d]) st st'"
proof -
  obtain g err m g' err' m' where s: "st = (g, err, m)" "st' = (g', err', m')" by (metis surj_pair)
  note r = translate_function_result [OF assms [unfolded s]]
  show ?thesis
  proof (cases "is_fn_decl d")
    case False
    then show ?thesis using r ran_Nil by (simp add: s)
  next
    case True
    then show ?thesis
      using r by (cases "decl_name d") (auto simp: ran_def s made_def)
  qed
qed

lemma translate_collection_ran:
  "translate_collection adr p k xs st = Some st' \<Longrightarrow> ran (filter is_fn_decl xs) st st'"
proof (induction adr p k xs st rule: translate_collection.induct)
  case (1 adr p k st)
  then show ?case using ran_Nil by simp
next
  case (2 adr p k x xs st)
  then obtain st1 where s: "translate_function adr (p @ [Elem k]) x st = Some st1"
      "translate_collection adr p (Suc k) xs st1 = Some st'"
    by (auto split: option.splits)
  then have "ran (filter is_fn_decl [x] @ filter is_fn_decl xs) st st'"
    using ran_append [OF translate_function_ran [OF s(1)] "2.IH" [OF s]] by simp
  then show ?case by (simp split: if_splits)
qed

lemma translate_node_ran: "translate_node adr p n st = Some st' \<Longrightarrow> ran (declarations_of n) st st'"
  using translate_function_ran [of adr p _ st st'] translate_collection_ran [of adr p 0 _ st st'] ran_Nil
  by (fastforce simp: translate_node_def declarations_of_def split: option.splits ast.splits)

lemma translate_nodes_ran:
  "translate_nodes adr k ns st = Some st' \<Longrightarrow> ran (concat (map declarations_of ns)) st st'"
proof (induction adr k ns st rule: translate_nodes.induct)
  case (1 adr k st)
  then show ?case using ran_Nil by simp
next
  case (2 adr k x xs st)
  then obtain st1 where s: "translate_node adr [Field k] x st = Some st1" "translate_nodes adr (Suc k) xs st1 = Some st'"
    by (auto split: option.splits)
  show ?case using ran_append [OF translate_node_ran [OF s(1)] "2.IH" [OF s]] by simp
qed

lemma translate_ran:
  assumes "Xvr_IRGeneratorTranslate adr (Some ge) (Some nodes) g = Some (g', gen', r)" "nodes \<noteq> []"
  obtains err m where "ran (concat (map declarations_of nodes)) (g, ge_error ge, \<lparr>im_name = ''main'', im_functions = []\<rparr>) (g', err, m)"
    "r = (if err = None then Some m else None)" "gen' = Some \<lparr>ge_error = err, ge_module = None\<rparr>"
proof -
  have "Xvr_IRModuleCreate (Some ''main'') = Some \<lparr>im_name = ''main'', im_functions = []\<rparr>"
    by (simp add: Xvr_IRModuleCreate_def)
  with assms obtain err m where
      t: "translate_nodes adr 0 nodes (g, ge_error ge, \<lparr>im_name = ''main'', im_functions = []\<rparr>) = Some (g', err, m)"
      and "r = (if err = None then Some m else None)" "gen' = Some \<lparr>ge_error = err, ge_module = None\<rparr>"
    by (auto simp: Xvr_IRGeneratorTranslate_def split: option.splits)
  with that translate_nodes_ran [OF t] show ?thesis by blast
qed

text \<open>C25: A translation returns a module exactly when the generator had no error before and every function
  declared has a name shorter than 256 bytes; the module then has one function per declaration, in
  order, with its name, return type and parameters, where parameters count only when the argument
  list is a compound node; and a generator that has failed once never returns a module again.\<close>

theorem translation_outcome:
  assumes "Xvr_IRGeneratorTranslate adr (Some ge) (Some nodes) g = Some (g', gen', r)" "nodes \<noteq> []"
    and "ds = concat (map declarations_of nodes)"
  shows "(r \<noteq> None \<longleftrightarrow> ge_error ge = None \<and> (\<forall>d \<in> set ds. decl_name d \<noteq> None)) \<and>
    (r = Some m \<longrightarrow> list_all2 declares ds (im_functions m)) \<and>
    (Xvr_IRGeneratorHasError gen' \<longleftrightarrow> r = None)"
proof -
  obtain err mm where t: "ran ds (g, ge_error ge, \<lparr>im_name = ''main'', im_functions = []\<rparr>) (g', err, mm)"
      "r = (if err = None then Some mm else None)" "gen' = Some \<lparr>ge_error = err, ge_module = None\<rparr>"
    using translate_ran [OF assms(1,2)] assms(3) by metis
  have iff: "r \<noteq> None \<longleftrightarrow> ge_error ge = None \<and> (\<forall>d \<in> set ds. decl_name d \<noteq> None)"
    using t(1) by (auto simp: ran_def t(2))
  have "filter (\<lambda>d. decl_name d \<noteq> None) ds = ds" if "r \<noteq> None"
    using that iff by (metis (mono_tags, lifting) filter_True)
  then have "r = Some m \<longrightarrow> list_all2 declares ds (im_functions m)"
    using t(1) by (auto simp: ran_def t(2) split: if_splits)
  moreover have "Xvr_IRGeneratorHasError gen' \<longleftrightarrow> r = None"
    by (simp add: t(2,3) Xvr_IRGeneratorHasError_def)
  ultimately show ?thesis using iff by blast
qed

text \<open>C20: In a module that a translation returns, the instruction numbers are exactly those between the old and
  the new value of the global counter, each used once.\<close>

theorem instruction_ids_unique:
  assumes "Xvr_IRGeneratorTranslate adr (Some ge) (Some nodes) g = Some (g', gen', Some m)" "nodes \<noteq> []"
  shows "mset (map ii_id (module_instrs m)) = mset [g..<g'] \<and> distinct (map ii_id (module_instrs m))"
proof -
  obtain err mm where t: "ran (concat (map declarations_of nodes)) (g, ge_error ge, \<lparr>im_name = ''main'', im_functions = []\<rparr>) (g', err, mm)"
      "Some m = (if err = None then Some mm else None)"
    using translate_ran [OF assms] by metis
  then have *: "mset (map ii_id (module_instrs m)) = mset [g..<g']"
    by (auto simp: ran_def module_instrs_def split: if_splits)
  then show ?thesis
    using mset_eq_imp_distinct_iff [OF *] by simp
qed

text \<open>C40: Translated code has no control flow and no memory traffic: no module that a translation returns has a
  store, call, branch, phi or cast instruction, only loads have an operand, and no return has one, so
  that conditions, loops, assignments, calls and returned values are lost.\<close>

theorem translated_code_is_straight:
  assumes "Xvr_IRGeneratorTranslate adr (Some ge) (Some nodes) g = Some (g', gen', Some m)" "nodes \<noteq> []"
    and "i \<in> set (module_instrs m)"
  shows "ii_opcode i \<notin> {XVR_IR_STORE, XVR_IR_CALL, XVR_IR_BR, XVR_IR_COND_BR, XVR_IR_PHI, XVR_IR_CAST,
      XVR_IR_GEP, XVR_IR_EXTRACT, XVR_IR_INSERT, XVR_IR_XOR, XVR_IR_SHL, XVR_IR_SHR} \<and>
    (ii_operands i \<noteq> None \<longleftrightarrow> ii_opcode i = XVR_IR_LOAD)"
proof -
  obtain err mm where t: "ran (concat (map declarations_of nodes)) (g, ge_error ge, \<lparr>im_name = ''main'', im_functions = []\<rparr>) (g', err, mm)"
      "Some m = (if err = None then Some mm else None)"
    using translate_ran [OF assms(1,2)] by metis
  then have "\<forall>i \<in> set (module_instrs m). emitted (ii_opcode i) (ii_operands i) (ii_operand_count i)"
    by (auto simp: ran_def module_instrs_def split: if_splits)
  then have e: "emitted (ii_opcode i) (ii_operands i) (ii_operand_count i)" using assms(3) by blast
  have r: "range map_opcode_to_ir \<subseteq> {XVR_IR_ADD, XVR_IR_SUB, XVR_IR_MUL, XVR_IR_DIV, XVR_IR_MOD, XVR_IR_CMP_EQ,
      XVR_IR_CMP_NE, XVR_IR_CMP_LT, XVR_IR_CMP_LE, XVR_IR_CMP_GT, XVR_IR_CMP_GE, XVR_IR_AND, XVR_IR_OR, XVR_IR_NOP}"
    by (auto simp: map_opcode_to_ir_def)
  have "ii_opcode i \<notin> {XVR_IR_STORE, XVR_IR_CALL, XVR_IR_BR, XVR_IR_COND_BR, XVR_IR_PHI, XVR_IR_CAST,
      XVR_IR_GEP, XVR_IR_EXTRACT, XVR_IR_INSERT, XVR_IR_XOR, XVR_IR_SHL, XVR_IR_SHR}"
    using e r unfolding emitted_def by fastforce
  moreover have "ii_operands i \<noteq> None \<longleftrightarrow> ii_opcode i = XVR_IR_LOAD"
    using e r unfolding emitted_def by fastforce
  ultimately show ?thesis by blast
qed

text \<open>A function \<open>f\<close> whose body returns 1 when a literal condition holds.\<close>

definition sample_tree :: "ast option list" where
  "sample_tree =
     [Some (NodeFnDecl (Ident ''f'' 0) None None
        (Some (NodeBlock
          [NodeIf (Some (NodeLiteral (Xvr_toBoolLiteralCpp True)))
             (Some (NodeFnReturn (Some (NodeLiteral (Xvr_toInt32LiteralCpp 1))))) None XVR_LITERAL_TYPE False] 8)) 1)]"

definition sample_module :: ir_module where
  "sample_module =
     \<lparr>im_name = ''main'', im_functions =
       [\<lparr>if_name = ''f'', if_return_type = Some IR_VOID, if_param_types = None, if_param_count = 0,
         if_blocks =
           [\<lparr>ib_name = ''entry'', ib_instructions = []\<rparr>,
            \<lparr>ib_name = ''if_then'', ib_instructions =
              [\<lparr>ii_opcode = XVR_IR_LOAD, ii_result_type = Some IR_INT32,
                ii_operands = Some [Some \<lparr>iv_type = Some IR_INT32, iv_name = ''const_0x10''\<rparr>],
                ii_operand_count = 1, ii_id = 7\<rparr>,
               \<lparr>ii_opcode = XVR_IR_RET, ii_result_type = Some IR_VOID, ii_operands = None,
                ii_operand_count = 0, ii_id = 8\<rparr>]\<rparr>]\<rparr>]\<rparr>"

lemma sample_translation:
  "Xvr_IRGeneratorTranslate (\<lambda>p. ''0x10'') (Some Xvr_IRGeneratorCreate) (Some sample_tree) 7 =
     Some (9, Some Xvr_IRGeneratorCreate, Some sample_module)"
  by code_simp

lemma sample_tree_not_Nil: "sample_tree \<noteq> []"
  by (simp add: sample_tree_def)

lemma translation_outcome_witness:
  "list_all2 declares (concat (map declarations_of sample_tree)) (im_functions sample_module)"
  using translation_outcome [OF sample_translation sample_tree_not_Nil refl] by blast

lemma instruction_ids_unique_witness: "mset (map ii_id (module_instrs sample_module)) = mset [7..<9]"
  by (rule instruction_ids_unique [OF sample_translation sample_tree_not_Nil, THEN conjunct1])

lemma translated_code_is_straight_witness: "XVR_IR_COND_BR \<notin> ii_opcode ` set (module_instrs sample_module)"
proof
  assume "XVR_IR_COND_BR \<in> ii_opcode ` set (module_instrs sample_module)"
  then obtain i where i: "i \<in> set (module_instrs sample_module)" "ii_opcode i = XVR_IR_COND_BR"
    by (metis imageE)
  show False
    using translated_code_is_straight [OF sample_translation sample_tree_not_Nil i(1), THEN conjunct1] i(2) by simp
qed

end
