(* ===== verification/UnusedCheck.thy ===== *)
theory UnusedCheck
  imports AstNodes RefStrings "HOL-Library.Monad_Syntax"
begin

text \<open>
  The checker for unused declarations: src/src/xvr_unused.cpp. The array of scopes is a list with
  the innermost scope first, and what the checker prints is a list of reports. A declaration holds
  the name its identifier points to, None when that pointer is NULL. The result is None where the
  code reads a union arm that the node does not have.
\<close>

section \<open>State\<close>

record unused_decl =
  ud_name :: "string option"
  ud_line :: int
  ud_used :: bool
  ud_function :: bool

type_synonym unused_scope = "unused_decl list"

text \<open>A report: whether a procedure is unused or a variable, its name and its line.\<close>

type_synonym report = "bool \<times> string \<times> int"

record checker =
  ck_scopes :: "unused_scope list"
  ck_error :: bool
  ck_reports :: "report list"

definition Xvr_initUnusedChecker :: checker where
  "Xvr_initUnusedChecker = \<lparr>ck_scopes = [], ck_error = False, ck_reports = []\<rparr>"

definition push_unused :: "checker \<Rightarrow> checker" where
  "push_unused ck = ck\<lparr>ck_scopes := [] # ck_scopes ck\<rparr>"

definition report_of :: "unused_decl \<Rightarrow> report" where
  "report_of d = (ud_function d, (case ud_name d of Some s \<Rightarrow> s | None \<Rightarrow> ''''), ud_line d)"

definition scope_reports :: "unused_scope \<Rightarrow> report list" where
  "scope_reports ds = map report_of (filter (\<lambda>d. \<not> ud_used d) ds)"

definition pop_unused :: "checker \<Rightarrow> checker" where
  "pop_unused ck =
     (case ck_scopes ck of
        [] \<Rightarrow> ck
      | ds # ss \<Rightarrow>
          \<lparr>ck_scopes = ss,
           ck_error = (ck_error ck \<or> scope_reports ds \<noteq> []),
           ck_reports = ck_reports ck @ scope_reports ds\<rparr>)"

definition addDeclaration :: "string option \<Rightarrow> int \<Rightarrow> bool \<Rightarrow> checker \<Rightarrow> checker" where
  "addDeclaration name line isFunction ck =
     (case ck_scopes ck of
        [] \<Rightarrow> ck
      | ds # ss \<Rightarrow>
          ck\<lparr>ck_scopes :=
            (ds @ [\<lparr>ud_name = name, ud_line = line, ud_used = False, ud_function = isFunction\<rparr>]) # ss\<rparr>)"

text \<open>The first declaration of the name in a scope is marked; None when the scope has none.\<close>

fun mark_first :: "string \<Rightarrow> unused_scope \<Rightarrow> unused_scope option" where
  "mark_first name [] = None"
| "mark_first name (d # ds) =
     (if (case ud_name d of None \<Rightarrow> False | Some s \<Rightarrow> refstring_eq s name)
      then Some (d\<lparr>ud_used := True\<rparr> # ds)
      else map_option ((#) d) (mark_first name ds))"

fun mark_scopes :: "string \<Rightarrow> unused_scope list \<Rightarrow> unused_scope list" where
  "mark_scopes name [] = []"
| "mark_scopes name (ds # ss) =
     (case mark_first name ds of None \<Rightarrow> ds # mark_scopes name ss | Some ds' \<Rightarrow> ds' # ss)"

definition markUsed :: "literal \<Rightarrow> checker \<Rightarrow> checker" where
  "markUsed identifier ck =
     (case identifier of
        Ident name h \<Rightarrow> ck\<lparr>ck_scopes := mark_scopes name (ck_scopes ck)\<rparr>
      | _ \<Rightarrow> ck)"

section \<open>The walk over the tree\<close>

definition declare_identifier :: "literal \<Rightarrow> int \<Rightarrow> bool \<Rightarrow> checker \<Rightarrow> checker option" where
  "declare_identifier i line isFunction ck =
     map_option (\<lambda>name. addDeclaration name line isFunction ck) (identifier_text i)"

fun declare_params :: "ast list \<Rightarrow> checker \<Rightarrow> checker option" where
  "declare_params [] ck = Some ck"
| "declare_params (x # xs) ck =
     (case x of
        NodeVarDecl i ty e line \<Rightarrow> declare_identifier i line False ck \<bind> declare_params xs
      | _ \<Rightarrow> declare_params xs ck)"

definition declare_arguments :: "ast option \<Rightarrow> checker \<Rightarrow> checker option" where
  "declare_arguments arguments ck =
     (case arguments of
        None \<Rightarrow> Some ck
      | Some a \<Rightarrow> argument_nodes a \<bind> (\<lambda>xs. declare_params xs ck))"

fun checkNode :: "ast \<Rightarrow> checker \<Rightarrow> checker option"
  and check_child :: "ast option \<Rightarrow> checker \<Rightarrow> checker option"
  and check_nodes :: "ast list \<Rightarrow> checker \<Rightarrow> checker option" where
  "checkNode node ck =
     (case node of
        NodeError \<Rightarrow> Some ck
      | NodeLiteral l \<Rightarrow> Some (markUsed l ck)
      | NodeUnary op c \<Rightarrow> check_child c ck
      | NodeBinary op l r \<Rightarrow> check_child l ck \<bind> check_child r
      | NodeTernary c t e \<Rightarrow> check_child c ck \<bind> check_child t \<bind> check_child e
      | NodeGrouping c \<Rightarrow> check_child c ck
      | NodeBlock xs cap \<Rightarrow> map_option pop_unused (check_nodes xs (push_unused ck))
      | NodeCompound t xs cap \<Rightarrow> check_nodes xs ck
      | NodePair l r \<Rightarrow> check_child l ck \<bind> check_child r
      | NodeIndex a b c \<Rightarrow> check_child a ck \<bind> check_child b \<bind> check_child c
      | NodeVarDecl i ty e line \<Rightarrow> check_child e ck \<bind> declare_identifier i line False
      | NodeFnDecl i a r b line \<Rightarrow>
          map_option pop_unused
            (map_option push_unused (declare_identifier i line True ck)
             \<bind> declare_arguments a \<bind> check_child r \<bind> check_child b)
      | NodeFnCollection xs cap \<Rightarrow> check_nodes xs ck
      | NodeFnCall a n \<Rightarrow> (case a of Some (NodeFnCollection xs cap) \<Rightarrow> check_nodes xs ck | _ \<Rightarrow> Some ck)
      | NodeFnReturn r \<Rightarrow> (case r of Some (NodeFnCollection xs cap) \<Rightarrow> check_nodes xs ck | _ \<Rightarrow> Some ck)
      | NodeIf c t e r x \<Rightarrow> check_child c ck \<bind> check_child t \<bind> check_child e
      | NodeWhile c t \<Rightarrow> check_child c ck \<bind> check_child t
      | NodeFor pre c post t \<Rightarrow>
          map_option pop_unused
            (check_child pre (push_unused ck) \<bind> check_child c \<bind> check_child post \<bind> check_child t)
      | NodeBreak \<Rightarrow> Some ck
      | NodeContinue \<Rightarrow> Some ck
      | NodePrefixIncrement i \<Rightarrow> Some (markUsed i ck)
      | NodePostfixIncrement i \<Rightarrow> Some (markUsed i ck)
      | NodePrefixDecrement i \<Rightarrow> Some (markUsed i ck)
      | NodePostfixDecrement i \<Rightarrow> Some (markUsed i ck)
      | NodeCast ty e \<Rightarrow> check_child e ck
      | NodeImport i a \<Rightarrow> Some ck
      | NodePass \<Rightarrow> Some ck)"
| "check_child None ck = Some ck"
| "check_child (Some c) ck = checkNode c ck"
| "check_nodes [] ck = Some ck"
| "check_nodes (x # xs) ck = checkNode x ck \<bind> check_nodes xs"

declare checkNode.simps [simp del]

definition Xvr_checkUnusedBegin :: "checker \<Rightarrow> checker" where
  "Xvr_checkUnusedBegin ck = push_unused ck"

definition Xvr_checkUnusedNode :: "ast option \<Rightarrow> checker \<Rightarrow> checker option" where
  "Xvr_checkUnusedNode node ck = (case node of None \<Rightarrow> Some ck | Some n \<Rightarrow> checkNode n ck)"

definition Xvr_checkUnusedEnd :: "checker \<Rightarrow> bool \<times> checker" where
  "Xvr_checkUnusedEnd ck = (let ck' = pop_unused ck in (\<not> ck_error ck', ck'))"

text \<open>\<open>Xvr_freeUnusedChecker\<close> pops the scopes that are left, which prints their reports too.\<close>

fun pop_all :: "unused_scope list \<Rightarrow> checker \<Rightarrow> checker" where
  "pop_all [] ck = ck"
| "pop_all (s # ss) ck = pop_all ss (pop_unused ck)"

definition Xvr_freeUnusedChecker :: "checker \<Rightarrow> checker" where
  "Xvr_freeUnusedChecker ck = pop_all (ck_scopes ck) ck"

text \<open>The check of a program, as the compiler driver calls it.\<close>

definition check_program :: "ast option list \<Rightarrow> (bool \<times> report list) option" where
  "check_program nodes =
     map_option (\<lambda>ck. (fst (Xvr_checkUnusedEnd ck), ck_reports (snd (Xvr_checkUnusedEnd ck))))
       (foldl (\<lambda>r n. r \<bind> Xvr_checkUnusedNode n)
          (Some (Xvr_checkUnusedBegin Xvr_initUnusedChecker)) nodes)"

end
