(* ===== verification/UnusedProps.thy ===== *)
theory UnusedProps
  imports UnusedCheck
begin

text \<open>
  What the checker for unused declarations reports. A tree is flattened to its uses, declarations
  and nested scopes (\<open>items_of\<close>); over those the reference definition is the usual one of free
  names: a declaration is used when it is the first of its name in its scope and the name is free
  in the rest of the scope. The checker with its mutable flags is shown to report exactly that.
\<close>

section \<open>Names\<close>

type_synonym key = "nat \<times> string"

text \<open>The comparison of reference strings looks at the lengths and the bytes before a NUL.\<close>

definition name_key :: "string \<Rightarrow> key" where
  "name_key s = (length s, takeWhile (\<lambda>c. c \<noteq> NUL) s)"

lemma strncmp_eq_key:
  "strncmp_eq a b n \<longleftrightarrow> take n (takeWhile (\<lambda>c. c \<noteq> NUL) a) = take n (takeWhile (\<lambda>c. c \<noteq> NUL) b)"
proof (induction n arbitrary: a b)
  case (Suc n)
  show ?case by (cases a; cases b) (auto simp: Let_def Suc)
qed simp

lemma refstring_eq_key: "refstring_eq s t \<longleftrightarrow> name_key s = name_key t"
proof -
  have "take (length s) (takeWhile P s) = takeWhile P s" for P and s :: string
    by (simp add: length_takeWhile_le)
  then show ?thesis by (auto simp: refstring_eq_def name_key_def strncmp_eq_key)
qed

definition decl_key :: "unused_decl \<Rightarrow> key option" where
  "decl_key d = map_option name_key (ud_name d)"

abbreviation keys :: "unused_scope \<Rightarrow> key option set" where
  "keys ds \<equiv> decl_key ` set ds"

lemma decl_matches: "(case ud_name d of None \<Rightarrow> False | Some s \<Rightarrow> refstring_eq s n) \<longleftrightarrow> decl_key d = Some (name_key n)"
  by (auto simp: decl_key_def refstring_eq_key split: option.splits)

section \<open>The reference definition\<close>

datatype item =
    Use string
  | Declare "string option" int bool
  | Nested "item list"

abbreviation declared :: "string option \<Rightarrow> key option" where
  "declared n \<equiv> map_option name_key n"

text \<open>The names free in the rest of a scope in which the names of \<open>B\<close> are declared so far.\<close>

fun free_names :: "key option set \<Rightarrow> item list \<Rightarrow> key option set" where
  "free_names B [] = {}"
| "free_names B (Use n # r) = ({Some (name_key n)} - B) \<union> free_names B r"
| "free_names B (Declare n l f # r) = free_names (insert (declared n) B) r"
| "free_names B (Nested js # r) = (free_names {} js - B) \<union> free_names B r"

text \<open>The names that the rest of a scope looks up in the scope.\<close>

fun looked_up :: "item list \<Rightarrow> key option set" where
  "looked_up [] = {}"
| "looked_up (Use n # r) = insert (Some (name_key n)) (looked_up r)"
| "looked_up (Declare n l f # r) = looked_up r"
| "looked_up (Nested js # r) = free_names {} js \<union> looked_up r"

text \<open>The unused declarations of a scope itself, and those of the scopes nested in it.\<close>

fun unused_here :: "key option set \<Rightarrow> item list \<Rightarrow> report list" where
  "unused_here B [] = []"
| "unused_here B (Use n # r) = unused_here B r"
| "unused_here B (Declare n l f # r) =
     (if declared n \<notin> B \<and> declared n \<in> looked_up r then []
      else [(f, (case n of Some s \<Rightarrow> s | None \<Rightarrow> ''''), l)]) @ unused_here (insert (declared n) B) r"
| "unused_here B (Nested js # r) = unused_here B r"

fun unused_nested :: "item list \<Rightarrow> report list" where
  "unused_nested [] = []"
| "unused_nested (Use n # r) = unused_nested r"
| "unused_nested (Declare n l f # r) = unused_nested r"
| "unused_nested (Nested js # r) = unused_nested js @ unused_here {} js @ unused_nested r"

section \<open>Trees as items\<close>

definition declare_item :: "literal \<Rightarrow> int \<Rightarrow> bool \<Rightarrow> item list option" where
  "declare_item i line isFunction = map_option (\<lambda>n. [Declare n line isFunction]) (identifier_text i)"

definition use_items :: "literal \<Rightarrow> item list" where
  "use_items i = (case i of Ident n h \<Rightarrow> [Use n] | _ \<Rightarrow> [])"

fun param_items :: "ast list \<Rightarrow> item list option" where
  "param_items [] = Some []"
| "param_items (x # xs) =
     (case x of
        NodeVarDecl i ty e line \<Rightarrow>
          declare_item i line False \<bind> (\<lambda>a. map_option ((@) a) (param_items xs))
      | _ \<Rightarrow> param_items xs)"

definition argument_items :: "ast option \<Rightarrow> item list option" where
  "argument_items arguments =
     (case arguments of None \<Rightarrow> Some [] | Some a \<Rightarrow> argument_nodes a \<bind> param_items)"

text \<open>Concatenation of partial item lists.\<close>

definition seq :: "item list option \<Rightarrow> item list option \<Rightarrow> item list option" where
  "seq a b = a \<bind> (\<lambda>x. map_option ((@) x) b)"

abbreviation nested :: "item list option \<Rightarrow> item list option" where
  "nested a \<equiv> map_option (\<lambda>js. [Nested js]) a"

fun items_of :: "ast \<Rightarrow> item list option"
  and items_child :: "ast option \<Rightarrow> item list option"
  and items_nodes :: "ast list \<Rightarrow> item list option" where
  "items_of node =
     (case node of
        NodeError \<Rightarrow> Some []
      | NodeLiteral l \<Rightarrow> Some (use_items l)
      | NodeUnary op c \<Rightarrow> items_child c
      | NodeBinary op l r \<Rightarrow> seq (items_child l) (items_child r)
      | NodeTernary c t e \<Rightarrow> seq (seq (items_child c) (items_child t)) (items_child e)
      | NodeGrouping c \<Rightarrow> items_child c
      | NodeBlock xs cap \<Rightarrow> nested (items_nodes xs)
      | NodeCompound t xs cap \<Rightarrow> items_nodes xs
      | NodePair l r \<Rightarrow> seq (items_child l) (items_child r)
      | NodeIndex a b c \<Rightarrow> seq (seq (items_child a) (items_child b)) (items_child c)
      | NodeVarDecl i ty e line \<Rightarrow> seq (items_child e) (declare_item i line False)
      | NodeFnDecl i a r b line \<Rightarrow>
          seq (declare_item i line True)
            (nested (seq (seq (argument_items a) (items_child r)) (items_child b)))
      | NodeFnCollection xs cap \<Rightarrow> items_nodes xs
      | NodeFnCall a n \<Rightarrow> (case a of Some (NodeFnCollection xs cap) \<Rightarrow> items_nodes xs | _ \<Rightarrow> Some [])
      | NodeFnReturn r \<Rightarrow> (case r of Some (NodeFnCollection xs cap) \<Rightarrow> items_nodes xs | _ \<Rightarrow> Some [])
      | NodeIf c t e r x \<Rightarrow> seq (seq (items_child c) (items_child t)) (items_child e)
      | NodeWhile c t \<Rightarrow> seq (items_child c) (items_child t)
      | NodeFor pre c post t \<Rightarrow>
          nested (seq (seq (seq (items_child pre) (items_child c)) (items_child post)) (items_child t))
      | NodeBreak \<Rightarrow> Some []
      | NodeContinue \<Rightarrow> Some []
      | NodePrefixIncrement i \<Rightarrow> Some (use_items i)
      | NodePostfixIncrement i \<Rightarrow> Some (use_items i)
      | NodePrefixDecrement i \<Rightarrow> Some (use_items i)
      | NodePostfixDecrement i \<Rightarrow> Some (use_items i)
      | NodeCast ty e \<Rightarrow> items_child e
      | NodeImport i a \<Rightarrow> Some []
      | NodePass \<Rightarrow> Some [])"
| "items_child None = Some []"
| "items_child (Some c) = items_of c"
| "items_nodes [] = Some []"
| "items_nodes (x # xs) = seq (items_of x) (items_nodes xs)"

declare items_of.simps [simp del]

text \<open>The checker on items.\<close>

fun exec :: "item list \<Rightarrow> checker \<Rightarrow> checker" where
  "exec [] ck = ck"
| "exec (Use n # r) ck = exec r (ck\<lparr>ck_scopes := mark_scopes n (ck_scopes ck)\<rparr>)"
| "exec (Declare n l f # r) ck = exec r (addDeclaration n l f ck)"
| "exec (Nested js # r) ck = exec r (pop_unused (exec js (push_unused ck)))"

lemma exec_append [simp]: "exec (is @ js) ck = exec js (exec is ck)"
  by (induction "is" ck rule: exec.induct) auto

abbreviation runs :: "item list option \<Rightarrow> (checker \<Rightarrow> checker option) \<Rightarrow> bool" where
  "runs a f \<equiv> (\<forall>ck. f ck = map_option (\<lambda>is. exec is ck) a)"

lemma runs_seq: "runs a f \<Longrightarrow> runs b g \<Longrightarrow> runs (seq a b) (\<lambda>ck. f ck \<bind> g)"
  by (cases a; cases b) (auto simp: seq_def)

lemma runs_nested: "runs a f \<Longrightarrow> runs (nested a) (\<lambda>ck. map_option pop_unused (f (push_unused ck)))"
  by (cases a) auto

lemma runs_declare: "runs (declare_item i line b) (declare_identifier i line b)"
  by (cases "identifier_text i") (auto simp: declare_item_def declare_identifier_def)

lemma runs_use: "runs (Some (use_items i)) (\<lambda>ck. Some (markUsed i ck))"
  by (cases i) (auto simp: use_items_def markUsed_def)

lemma runs_Nil: "runs (Some []) Some"
  by simp

lemma runs_params: "runs (param_items xs) (declare_params xs)"
proof (induction xs)
  case (Cons x xs)
  show ?case
  proof (cases "\<exists>i ty e line. x = NodeVarDecl i ty e line")
    case True
    then show ?thesis using runs_seq [OF runs_declare Cons] by (auto simp: seq_def)
  next
    case False
    then show ?thesis using Cons by (cases x) auto
  qed
qed simp

lemma runs_arguments: "runs (argument_items a) (declare_arguments a)"
proof (cases a)
  case (Some n)
  then show ?thesis using runs_params by (cases "argument_nodes n") (auto simp: argument_items_def declare_arguments_def)
qed (simp add: argument_items_def declare_arguments_def)

lemma runs_walk:
  "runs (items_of node) (checkNode node)" "runs (items_child c) (check_child c)" "runs (items_nodes xs) (check_nodes xs)"
proof (induction node and c and xs rule: items_of_items_child_items_nodes.induct)
  case (1 node)
  note IH = "1.IH"
  show ?case
  proof (cases node)
    case (NodeFnDecl i a r b line)
    have "runs (seq (seq (argument_items a) (items_child r)) (items_child b))
        (\<lambda>ck. declare_arguments a ck \<bind> check_child r \<bind> check_child b)"
      using runs_seq [OF runs_seq [OF runs_arguments IH(16) [OF NodeFnDecl]] IH(17) [OF NodeFnDecl]] .
    from runs_seq [OF runs_declare runs_nested [OF this], of i line True]
    have r: "declare_identifier i line True ck \<bind>
          (\<lambda>ck. map_option pop_unused (declare_arguments a (push_unused ck) \<bind> check_child r \<bind> check_child b)) =
        map_option (\<lambda>is. exec is ck) (items_of node)" for ck
      by (simp add: NodeFnDecl items_of.simps)
    have "checkNode node ck = declare_identifier i line True ck \<bind>
        (\<lambda>ck. map_option pop_unused (declare_arguments a (push_unused ck) \<bind> check_child r \<bind> check_child b))" for ck
      by (cases "declare_identifier i line True ck") (simp_all add: NodeFnDecl checkNode.simps)
    with r show ?thesis by simp
  next
    case (NodeBinary op l r)
    from runs_seq [OF IH(2) [OF NodeBinary] IH(3) [OF NodeBinary]]
    show ?thesis by (simp add: NodeBinary items_of.simps checkNode.simps)
  next
    case (NodeTernary c t e)
    from runs_seq [OF runs_seq [OF IH(4) [OF NodeTernary] IH(5) [OF NodeTernary]] IH(6) [OF NodeTernary]]
    show ?thesis by (simp add: NodeTernary items_of.simps checkNode.simps)
  next
    case (NodePair l r)
    from runs_seq [OF IH(10) [OF NodePair] IH(11) [OF NodePair]]
    show ?thesis by (simp add: NodePair items_of.simps checkNode.simps)
  next
    case (NodeIndex x y z)
    from runs_seq [OF runs_seq [OF IH(12) [OF NodeIndex] IH(13) [OF NodeIndex]] IH(14) [OF NodeIndex]]
    show ?thesis by (simp add: NodeIndex items_of.simps checkNode.simps)
  next
    case (NodeIf c t e r x)
    from runs_seq [OF runs_seq [OF IH(21) [OF NodeIf] IH(22) [OF NodeIf]] IH(23) [OF NodeIf]]
    show ?thesis by (simp add: NodeIf items_of.simps checkNode.simps)
  next
    case (NodeWhile c t)
    from runs_seq [OF IH(24) [OF NodeWhile] IH(25) [OF NodeWhile]]
    show ?thesis by (simp add: NodeWhile items_of.simps checkNode.simps)
  next
    case (NodeBlock xs cap)
    from runs_nested [OF IH(8) [OF NodeBlock]]
    show ?thesis by (simp add: NodeBlock items_of.simps checkNode.simps)
  next
    case (NodeVarDecl i ty e line)
    from runs_seq [OF IH(15) [OF NodeVarDecl] runs_declare [of i line False]]
    show ?thesis by (simp add: NodeVarDecl items_of.simps checkNode.simps)
  next
    case (NodeFor pre c post t)
    from runs_nested [OF runs_seq [OF runs_seq [OF runs_seq [OF IH(26) [OF NodeFor] IH(27) [OF NodeFor]] IH(28) [OF NodeFor]] IH(29) [OF NodeFor]]]
    show ?thesis by (simp add: NodeFor items_of.simps checkNode.simps)
  next
    case (NodeFnCall a n)
    with IH(19) show ?thesis by (auto simp: items_of.simps checkNode.simps split: option.splits ast.splits)
  next
    case (NodeFnReturn r)
    with IH(20) show ?thesis by (auto simp: items_of.simps checkNode.simps split: option.splits ast.splits)
  qed (use IH in \<open>simp_all add: checkNode.simps items_of.simps runs_use\<close>)
next
  case (5 x xs)
  from runs_seq [OF "5.IH"] show ?case by simp
qed auto

section \<open>Marking\<close>

text \<open>Marking all names of \<open>K\<close> at once: in a scope whose names of \<open>B\<close> come earlier, and in a stack.\<close>

fun mark_all :: "key option set \<Rightarrow> key option set \<Rightarrow> unused_scope \<Rightarrow> unused_scope" where
  "mark_all K B [] = []"
| "mark_all K B (d # ds) =
     (if decl_key d \<in> K - B then d\<lparr>ud_used := True\<rparr> else d) # mark_all K (insert (decl_key d) B) ds"

fun mark_stack :: "key option set \<Rightarrow> unused_scope list \<Rightarrow> unused_scope list" where
  "mark_stack K [] = []"
| "mark_stack K (ds # ss) = mark_all K {} ds # mark_stack (K - keys ds) ss"

lemma decl_key_used [simp]: "decl_key (d\<lparr>ud_used := b\<rparr>) = decl_key d"
  by (simp add: decl_key_def)

lemma keys_mark_all [simp]: "keys (mark_all K B ds) = keys ds"
  by (induction ds arbitrary: B) auto

lemma mark_all_empty [simp]: "mark_all {} B ds = ds"
  by (induction ds arbitrary: B) auto

lemma mark_stack_empty [simp]: "mark_stack {} ss = ss"
  by (induction ss) auto

lemma mark_all_union [simp]: "mark_all K B (mark_all J B ds) = mark_all (J \<union> K) B ds"
  by (induction ds arbitrary: B) auto

lemma mark_stack_union [simp]: "mark_stack K (mark_stack J ss) = mark_stack (J \<union> K) ss"
  by (induction ss arbitrary: J K) (simp_all add: Un_Diff)

lemma mark_all_append: "mark_all K B (ds @ es) = mark_all K B ds @ mark_all K (B \<union> keys ds) es"
  by (induction ds arbitrary: B) auto

lemma mark_all_seen: "k \<in> B \<Longrightarrow> mark_all {k} B ds = ds"
  by (induction ds arbitrary: B) auto

lemma mark_all_irrelevant: "j \<notin> K \<Longrightarrow> mark_all K (insert j B) ds = mark_all K B ds"
  by (induction ds arbitrary: B) (auto simp: insert_commute)

lemma mark_first_all:
  "Some (name_key n) \<notin> B \<Longrightarrow>
   mark_first n ds = (if Some (name_key n) \<in> keys ds then Some (mark_all {Some (name_key n)} B ds) else None)"
  by (induction ds arbitrary: B) (auto simp: decl_matches mark_all_seen mark_all_irrelevant)

lemma mark_all_absent: "Some (name_key n) \<notin> keys ds \<Longrightarrow> mark_all {Some (name_key n)} B ds = ds"
  by (induction ds arbitrary: B) auto

lemma mark_scopes_stack: "mark_scopes n ss = mark_stack {Some (name_key n)} ss"
proof (induction ss)
  case (Cons ds ss)
  then show ?case by (simp add: mark_first_all [of n "{}"] mark_all_absent insert_Diff_if)
qed simp

section \<open>The checker meets the reference definition\<close>

text \<open>The declarations a run adds to its scope, with the flags they have at its end.\<close>

fun new_decls :: "key option set \<Rightarrow> item list \<Rightarrow> unused_scope" where
  "new_decls B [] = []"
| "new_decls B (Use n # r) = new_decls B r"
| "new_decls B (Declare n l f # r) =
     \<lparr>ud_name = n, ud_line = l, ud_used = (declared n \<notin> B \<and> declared n \<in> looked_up r), ud_function = f\<rparr>
     # new_decls (insert (declared n) B) r"
| "new_decls B (Nested js # r) = new_decls B r"

lemma new_decls_reports: "scope_reports (new_decls B is) = unused_here B is"
  by (induction B "is" rule: new_decls.induct) (auto simp: scope_reports_def report_of_def)

lemma exec_state:
  "ck_scopes ck = s # ss \<Longrightarrow>
   exec is ck =
     \<lparr>ck_scopes = (mark_all (looked_up is) {} s @ new_decls (keys s) is) # mark_stack (free_names (keys s) is) ss,
      ck_error = (ck_error ck \<or> unused_nested is \<noteq> []),
      ck_reports = ck_reports ck @ unused_nested is\<rparr>"
proof (induction "is" arbitrary: ck s ss rule: unused_nested.induct)
  case (2 n r)
  let ?k = "{Some (name_key n)}"
  have "ck_scopes (ck\<lparr>ck_scopes := mark_scopes n (ck_scopes ck)\<rparr>) = mark_all ?k {} s # mark_stack (?k - keys s) ss"
    by (simp add: 2(2) mark_scopes_stack)
  from 2(1) [OF this] show ?case by simp
next
  case (3 n l f r)
  let ?d = "\<lparr>ud_name = n, ud_line = l, ud_used = False, ud_function = f\<rparr>"
  have k: "decl_key ?d = declared n" by (simp add: decl_key_def)
  have "ck_scopes (addDeclaration n l f ck) = (s @ [?d]) # ss"
    by (simp add: addDeclaration_def 3(2))
  from 3(1) [OF this] show ?case
    by (auto simp: k mark_all_append addDeclaration_def 3(2))
next
  case (4 js r)
  have "ck_scopes (push_unused ck) = [] # s # ss" by (simp add: push_unused_def 4(3))
  note inner = 4(1) [OF this]
  let ?F = "free_names {} js"
  have pe: "ck_error (push_unused ck) = ck_error ck" "ck_reports (push_unused ck) = ck_reports ck"
    by (simp_all add: push_unused_def)
  have popped: "pop_unused (exec js (push_unused ck)) =
      \<lparr>ck_scopes = mark_all ?F {} s # mark_stack (?F - keys s) ss,
       ck_error = (ck_error ck \<or> unused_nested js \<noteq> [] \<or> unused_here {} js \<noteq> []),
       ck_reports = ck_reports ck @ unused_nested js @ unused_here {} js\<rparr>"
    by (simp add: inner pop_unused_def new_decls_reports pe)
  then have "ck_scopes (pop_unused (exec js (push_unused ck))) = mark_all ?F {} s # mark_stack (?F - keys s) ss"
    by simp
  from 4(2) [OF this] popped show ?case by (auto simp: disj_assoc)
qed simp

text \<open>A whole program, in the scope that \<open>Xvr_checkUnusedBegin\<close> opens.\<close>

definition program_items :: "ast option list \<Rightarrow> item list option" where
  "program_items nodes = foldl (\<lambda>a n. seq a (items_child n)) (Some []) nodes"

lemma program_runs:
  "foldl (\<lambda>r n. r \<bind> Xvr_checkUnusedNode n) (map_option (\<lambda>is. exec is ck) a) nodes =
   map_option (\<lambda>is. exec is ck) (foldl (\<lambda>a n. seq a (items_child n)) a nodes)"
proof (induction nodes arbitrary: a)
  case (Cons n nodes)
  have "Xvr_checkUnusedNode n = check_child n"
    by (rule ext) (cases n, simp_all add: Xvr_checkUnusedNode_def)
  then have "map_option (\<lambda>is. exec is ck) a \<bind> Xvr_checkUnusedNode n =
      map_option (\<lambda>is. exec is ck) (seq a (items_child n))"
    using runs_walk(2) [of n] by (cases a; cases "items_child n") (simp_all add: seq_def)
  then show ?case using Cons by simp
qed simp

text \<open>C1: The checker accepts a program exactly when every declaration in it is used, in the sense of
  free names: it is the first of its name in its scope and the name is free in the rest of the
  scope. What it reports are the declarations for which this fails, inner scopes first, each with
  its kind, name and line.\<close>

theorem unused_check_correct:
  assumes "program_items nodes = Some is"
  shows "check_program nodes =
    Some (unused_nested is @ unused_here {} is = [], unused_nested is @ unused_here {} is)"
proof -
  let ?ck = "Xvr_checkUnusedBegin Xvr_initUnusedChecker"
  have b: "ck_scopes ?ck = [] # []" "ck_error ?ck = False" "ck_reports ?ck = []"
    by (simp_all add: Xvr_checkUnusedBegin_def Xvr_initUnusedChecker_def push_unused_def)
  have "foldl (\<lambda>r n. r \<bind> Xvr_checkUnusedNode n) (Some ?ck) nodes = Some (exec is ?ck)"
    using program_runs [of ?ck "Some []" nodes] assms by (simp add: program_items_def)
  then show ?thesis
    by (simp add: check_program_def Xvr_checkUnusedEnd_def exec_state [OF b(1)] pop_unused_def
        new_decls_reports b)
qed

text \<open>\<open>var x = 1; var x = 2; { print x }\<close>: the second declaration of the name is reported.\<close>

lemma unused_check_correct_witness:
  "check_program
     [Some (NodeVarDecl (Ident ''x'' 0) XVR_TO_NULL_LITERAL None 1),
      Some (NodeVarDecl (Ident ''x'' 0) XVR_TO_NULL_LITERAL None 2),
      Some (NodeBlock [NodeLiteral (Ident ''x'' 0)] 8)] = Some (False, [(False, ''x'', 2)])"
proof -
  have "program_items
     [Some (NodeVarDecl (Ident ''x'' 0) XVR_TO_NULL_LITERAL None 1),
      Some (NodeVarDecl (Ident ''x'' 0) XVR_TO_NULL_LITERAL None 2),
      Some (NodeBlock [NodeLiteral (Ident ''x'' 0)] 8)] =
    Some [Declare (Some ''x'') 1 False, Declare (Some ''x'') 2 False, Nested [Use ''x'']]"
    by (simp add: program_items_def items_of.simps seq_def declare_item_def use_items_def identifier_text_def)
  from unused_check_correct [OF this] show ?thesis by simp
qed

end
