(* ===== verification/FormatStrings.thy ===== *)
theory FormatStrings
  imports CStrings Decimal
begin

text \<open>
  Format strings with braces: src/src/xvr_format_string.cpp. A pointer into the format string is the
  text from there to the terminating NUL, which no text contains. A result is None where the code
  reads or writes outside its buffers: the format string, the 64 placeholders, or the result, whose
  capacity is a parameter of the steps that write to it.
\<close>

section \<open>Data\<close>

datatype format_arg =
    XVR_FORMAT_ARG_INT | XVR_FORMAT_ARG_FLOAT | XVR_FORMAT_ARG_DOUBLE | XVR_FORMAT_ARG_STRING
  | XVR_FORMAT_ARG_POINTER | XVR_FORMAT_ARG_BOOL | XVR_FORMAT_ARG_ARRAY

record placeholder =
  ph_position :: nat
  ph_type :: format_arg

definition MAX_PLACEHOLDERS :: nat where "MAX_PLACEHOLDERS = 64"

text \<open>The placeholders' precision fields are never written or read. The array is allocated zeroed; \<open>placeholder_count\<close> and \<open>arg_count\<close> stay 0 until they are set.\<close>

record format_string =
  fs_printf_format :: "string option"
  fs_placeholders :: "placeholder list"
  fs_placeholder_count :: nat
  fs_arg_count :: nat
  fs_is_valid :: bool
  fs_error_message :: "string option"

section \<open>Tables\<close>

definition format_type_to_printf :: "format_arg \<Rightarrow> string" where
  "format_type_to_printf t =
     (case t of
        XVR_FORMAT_ARG_INT \<Rightarrow> ''%d''
      | XVR_FORMAT_ARG_FLOAT \<Rightarrow> ''%lf''
      | XVR_FORMAT_ARG_DOUBLE \<Rightarrow> ''%lf''
      | XVR_FORMAT_ARG_STRING \<Rightarrow> ''%s''
      | XVR_FORMAT_ARG_POINTER \<Rightarrow> ''%p''
      | XVR_FORMAT_ARG_BOOL \<Rightarrow> ''%s''
      | XVR_FORMAT_ARG_ARRAY \<Rightarrow> '''')"

definition infer_type_from_format_char :: "char \<Rightarrow> format_arg" where
  "infer_type_from_format_char c =
     (if c \<in> {CHR ''d'', CHR ''i'', CHR ''u'', CHR ''o'', CHR ''x'', CHR ''X''} then XVR_FORMAT_ARG_INT
      else if c \<in> {CHR ''f'', CHR ''F'', CHR ''e'', CHR ''E'', CHR ''g'', CHR ''G''} then XVR_FORMAT_ARG_DOUBLE
      else if c = CHR ''s'' then XVR_FORMAT_ARG_STRING
      else if c = CHR ''p'' then XVR_FORMAT_ARG_POINTER
      else if c = CHR ''c'' then XVR_FORMAT_ARG_INT
      else XVR_FORMAT_ARG_INT)"

abbreviation LBRACE :: char where "LBRACE \<equiv> CHR 0x7B"
abbreviation RBRACE :: char where "RBRACE \<equiv> CHR 0x7D"
abbreviation PERCENT :: char where "PERCENT \<equiv> CHR 0x25"

definition skip_escaped_brace :: "string \<Rightarrow> string" where
  "skip_escaped_brace p =
     (if char_at p 0 = LBRACE \<and> char_at p 1 = LBRACE then drop 2 p
      else if char_at p 0 = RBRACE \<and> char_at p 1 = RBRACE then drop 2 p
      else p)"

text \<open>The text after the next closing brace (\<open>strchr\<close>), None when there is none.\<close>

definition after_brace :: "string \<Rightarrow> string option" where
  "after_brace s = (case dropWhile (\<lambda>c. c \<noteq> RBRACE) s of [] \<Rightarrow> None | c # r \<Rightarrow> Some r)"

lemma after_brace_shorter: "after_brace s = Some r \<Longrightarrow> length r < length s"
  using length_dropWhile_le [of "\<lambda>c. c \<noteq> RBRACE" s] by (auto simp: after_brace_def split: list.splits)

section \<open>First pass\<close>

text \<open>The type of a placeholder from the text after its opening brace. A number makes no difference.\<close>

definition placeholder_type :: "string \<Rightarrow> format_arg" where
  "placeholder_type start =
     (if char_at start 0 = CHR '':'' then
        let spec = char_at start 1
        in if spec \<in> {CHR ''d'', CHR ''i''} then XVR_FORMAT_ARG_INT
           else if spec \<in> {CHR ''f'', CHR ''F''} then XVR_FORMAT_ARG_DOUBLE
           else if spec = CHR ''s'' then XVR_FORMAT_ARG_STRING
           else if spec = CHR ''p'' then XVR_FORMAT_ARG_POINTER
           else if spec = CHR ''b'' then XVR_FORMAT_ARG_BOOL
           else infer_type_from_format_char spec
      else XVR_FORMAT_ARG_INT)"

text \<open>
  The placeholder is written at the end of the array; its position, also a positional one, is the
  running count. \<open>Inl\<close> is the malformed case with the placeholders written so far.
\<close>

definition put_placeholder :: "format_arg \<Rightarrow> placeholder list \<Rightarrow> placeholder list option" where
  "put_placeholder t phs =
     (if length phs < MAX_PLACEHOLDERS then Some (phs @ [\<lparr>ph_position = length phs, ph_type = t\<rparr>]) else None)"

function first_pass :: "string \<Rightarrow> placeholder list \<Rightarrow> (placeholder list + placeholder list) option" where
  "first_pass p phs =
     (if p = [] then Some (Inr phs)
      else case skip_escaped_brace p of
             [] \<Rightarrow> None
           | c # start \<Rightarrow>
               if c = LBRACE then
                 if char_at start 0 = RBRACE then
                   (case put_placeholder XVR_FORMAT_ARG_INT phs of
                      None \<Rightarrow> None
                    | Some phs' \<Rightarrow> first_pass (drop 1 start) phs')
                 else
                   (case after_brace start of
                      None \<Rightarrow> Some (Inl phs)
                    | Some rest \<Rightarrow>
                        (case put_placeholder (placeholder_type start) phs of
                           None \<Rightarrow> None
                         | Some phs' \<Rightarrow> first_pass rest phs'))
               else first_pass start phs)"
  by pat_completeness auto
termination
proof (relation "measure (\<lambda>(p, phs). length p)", goal_cases)
  case (2 p phs c start phs')
  have "length (skip_escaped_brace p) \<le> length p" by (simp add: skip_escaped_brace_def)
  with 2 show ?case by simp
next
  case (3 p phs c start rest phs')
  have "length (skip_escaped_brace p) \<le> length p" by (simp add: skip_escaped_brace_def)
  with 3 after_brace_shorter [of start rest] show ?case by simp
next
  case (4 p phs c start)
  have "length (skip_escaped_brace p) \<le> length p" by (simp add: skip_escaped_brace_def)
  with 4 show ?case by simp
qed simp

declare first_pass.simps [simp del]

section \<open>Second pass\<close>

text \<open>Writing to the result: two characters and a NUL, one and a NUL, and the specifier.\<close>

definition put_two :: "nat \<Rightarrow> string \<Rightarrow> string \<Rightarrow> string option" where
  "put_two cap cc r =
     (if cap - length r > 1 then (if length r + 2 < cap then Some (r @ cc) else None) else Some r)"

definition put_one :: "nat \<Rightarrow> char \<Rightarrow> string \<Rightarrow> string" where
  "put_one cap c r = (if cap - length r > 1 then r @ [c] else r)"

definition put_spec :: "nat \<Rightarrow> string \<Rightarrow> string \<Rightarrow> string" where
  "put_spec cap spec r =
     (let spec_len = cstr_scan spec 32
      in if spec_len < 32 \<and> cap - length r > spec_len + 2 then r @ PERCENT # take spec_len spec else r)"

definition put_replacement :: "nat \<Rightarrow> string \<Rightarrow> string \<Rightarrow> string" where
  "put_replacement cap s r = (if length s < cap - length r then r @ s else r)"

text \<open>Entries past the placeholders written are zero, hence of type int.\<close>

definition placeholder_at :: "placeholder list \<Rightarrow> nat \<Rightarrow> format_arg option" where
  "placeholder_at phs i =
     (if i < length phs then Some (ph_type (phs ! i))
      else if i < MAX_PLACEHOLDERS then Some XVR_FORMAT_ARG_INT else None)"

function second_pass ::
    "placeholder list \<Rightarrow> nat \<Rightarrow> nat \<Rightarrow> string \<Rightarrow> nat \<Rightarrow> nat \<Rightarrow> string \<Rightarrow> string option" where
  "second_pass phs fmt_len cap p pos idx r =
     (if p = [] \<or> pos \<ge> fmt_len then Some r
      else if char_at p 0 = LBRACE \<and> char_at p 1 = LBRACE then
        (case put_two cap [LBRACE, RBRACE] r of
           None \<Rightarrow> None
         | Some r' \<Rightarrow> second_pass phs fmt_len cap (drop 2 p) (pos + 2) idx r')
      else if char_at p 0 = RBRACE \<and> char_at p 1 = RBRACE then
        (case put_two cap [RBRACE, RBRACE] r of
           None \<Rightarrow> None
         | Some r' \<Rightarrow> second_pass phs fmt_len cap (drop 2 p) (pos + 2) idx r')
      else if char_at p 0 = LBRACE then
        (case after_brace (drop 1 p) of
           None \<Rightarrow> second_pass phs fmt_len cap (drop 1 p) pos idx (put_one cap (char_at p 0) r)
         | Some rest \<Rightarrow>
             if char_at p 1 = CHR '':'' then
               second_pass phs fmt_len cap rest pos (Suc idx) (put_spec cap (drop 2 p) r)
             else
               (case placeholder_at phs idx of
                  None \<Rightarrow> None
                | Some t \<Rightarrow>
                    second_pass phs fmt_len cap rest pos (Suc idx)
                      (put_replacement cap (format_type_to_printf t) r)))
      else second_pass phs fmt_len cap (drop 1 p) pos idx (put_one cap (char_at p 0) r))"
  by pat_completeness auto
termination
  by (relation "measure (\<lambda>(phs, n, cap, p, pos, idx, r). length p)")
    (auto dest!: after_brace_shorter)

declare second_pass.simps [simp del]

definition count_error :: "nat \<Rightarrow> nat \<Rightarrow> string" where
  "count_error placeholders args =
     ''Format string has '' @ dec_nat placeholders @ '' placeholders but '' @ dec_nat args @ '' arguments provided''"

definition XvrFormatStringParse :: "string option \<Rightarrow> nat \<Rightarrow> format_string option option" where
  "XvrFormatStringParse format_str arg_count =
     (case format_str of
        None \<Rightarrow> Some None
      | Some s \<Rightarrow>
          let fmt_len = cstr_scan s 4096;
              fmt = \<lparr>fs_printf_format = None, fs_placeholders = [], fs_placeholder_count = 0,
                     fs_arg_count = 0, fs_is_valid = False, fs_error_message = None\<rparr>
          in (case first_pass s [] of
                None \<Rightarrow> None
              | Some (Inl phs) \<Rightarrow>
                  Some (Some (fmt\<lparr>fs_placeholders := phs, fs_error_message := Some ''Malformed format placeholder''\<rparr>))
              | Some (Inr phs) \<Rightarrow>
                  let fmt' = fmt\<lparr>fs_placeholders := phs, fs_placeholder_count := length phs, fs_arg_count := arg_count\<rparr>
                  in if arg_count \<noteq> length phs then
                       Some (Some (fmt'\<lparr>fs_error_message := Some (count_error (length phs) arg_count)\<rparr>))
                     else
                       map_option (\<lambda>r. Some (fmt'\<lparr>fs_printf_format := Some r, fs_is_valid := True\<rparr>))
                         (second_pass phs fmt_len (fmt_len * 2 + 1) s 0 0 [])))"

section \<open>Queries\<close>

definition XvrFormatStringGetPrintfFormat :: "format_string option \<Rightarrow> string option" where
  "XvrFormatStringGetPrintfFormat fmt =
     (case fmt of None \<Rightarrow> None | Some f \<Rightarrow> if fs_is_valid f then fs_printf_format f else None)"

definition XvrFormatStringGetPlaceholderType :: "format_string option \<Rightarrow> nat \<Rightarrow> format_arg" where
  "XvrFormatStringGetPlaceholderType fmt index =
     (case fmt of
        None \<Rightarrow> XVR_FORMAT_ARG_INT
      | Some f \<Rightarrow>
          if \<not> fs_is_valid f \<or> index \<ge> fs_placeholder_count f then XVR_FORMAT_ARG_INT
          else ph_type (fs_placeholders f ! index))"

definition conversion_char :: "char \<Rightarrow> bool" where
  "conversion_char c \<longleftrightarrow> c \<in> set ''diuoxXfFeEgGcspn''"

text \<open>The rebuilt format; a write past \<open>cap\<close> has no result.\<close>

definition put_raw :: "nat \<Rightarrow> string \<Rightarrow> string \<Rightarrow> string option" where
  "put_raw cap cs r = (if length r + length cs \<le> cap then Some (r @ cs) else None)"

definition put_checked :: "nat \<Rightarrow> string \<Rightarrow> string \<Rightarrow> string" where
  "put_checked cap cs r = (if length r + length cs < cap then r @ cs else r)"

function build_loop :: "format_arg list \<Rightarrow> nat \<Rightarrow> string \<Rightarrow> nat \<Rightarrow> string \<Rightarrow> string option" where
  "build_loop args cap src idx r =
     (case src of
        [] \<Rightarrow> Some r
      | c # rest \<Rightarrow>
          if c = PERCENT \<and> rest \<noteq> [] then
            if hd rest = PERCENT then
              (case put_raw cap [PERCENT, PERCENT] r of
                 None \<Rightarrow> None
               | Some r' \<Rightarrow> build_loop args cap (tl rest) idx r')
            else
              (case dropWhile (\<lambda>c. \<not> conversion_char c) src of
                 [] \<Rightarrow> put_raw cap [PERCENT] r
               | d # rest' \<Rightarrow>
                   build_loop args cap rest' (Suc idx)
                     (if idx < length args \<and> args ! idx \<noteq> XVR_FORMAT_ARG_INT
                      then put_checked cap (format_type_to_printf (args ! idx)) r
                      else put_checked cap (takeWhile (\<lambda>c. \<not> conversion_char c) src @ [d]) r))
          else
            (case put_raw cap [c] r of
               None \<Rightarrow> None
             | Some r' \<Rightarrow> build_loop args cap rest idx r'))"
  by pat_completeness auto
termination
proof (relation "measure (\<lambda>(args, cap, src, idx, r). length src)", goal_cases)
  case (3 args cap src idx r c rest d rest')
  have "length (d # rest') \<le> length src"
    using length_dropWhile_le [of "\<lambda>c. \<not> conversion_char c" src] 3(4) by simp
  then show ?case by simp
qed (auto simp: neq_Nil_conv)

declare build_loop.simps [simp del]

definition XvrFormatStringBuildPrintfFormat ::
    "format_string option \<Rightarrow> format_arg list \<Rightarrow> string option option" where
  "XvrFormatStringBuildPrintfFormat fmt arg_types =
     (case fmt of
        None \<Rightarrow> Some None
      | Some f \<Rightarrow>
          if \<not> fs_is_valid f then Some None
          else (case fs_printf_format f of
                  None \<Rightarrow> Some (Some '''')
                | Some src \<Rightarrow>
                    let src_len = cstr_scan src 4096;
                        cap = src_len * 2 + 1
                    in (case build_loop arg_types cap (take src_len src) 0 [] of
                          None \<Rightarrow> None
                        | Some r \<Rightarrow> if length r < cap then Some (Some r) else None)))"

fun has_placeholders :: "string \<Rightarrow> bool" where
  "has_placeholders [] = False"
| "has_placeholders (c # cs) = (if c = LBRACE \<and> char_at cs 0 \<noteq> LBRACE then True else has_placeholders cs)"

definition XvrFormatStringHasPlaceholders :: "string option \<Rightarrow> bool" where
  "XvrFormatStringHasPlaceholders str = (case str of None \<Rightarrow> False | Some s \<Rightarrow> has_placeholders s)"

end
