(* ===== verification/FormatProps.thy ===== *)
theory FormatProps
  imports FormatStrings
begin

text \<open>
  Properties of the format strings: what a template with empty placeholders becomes, and that the
  rebuilt format always fits its buffer.
\<close>

section \<open>Templates\<close>

text \<open>A template is a first text and the texts that follow its placeholders.\<close>

definition template :: "string \<Rightarrow> string \<Rightarrow> string list \<Rightarrow> string" where
  "template hole t0 ts = t0 @ concat (map (\<lambda>t. hole @ t) ts)"

text \<open>The template with the specifier of each argument in its place; an argument that is missing is an int.\<close>

fun filled :: "format_arg list \<Rightarrow> string list \<Rightarrow> string" where
  "filled args [] = []"
| "filled [] (t # ts) = ''%d'' @ t @ filled [] ts"
| "filled (a # args) (t # ts) = format_type_to_printf a @ t @ filled args ts"

definition no_brace :: "string \<Rightarrow> bool" where
  "no_brace t \<longleftrightarrow> LBRACE \<notin> set t \<and> RBRACE \<notin> set t \<and> no_nul t"

lemma template_simps [simp]:
  "template h t0 [] = t0"
  "template h t0 (t # ts) = t0 @ h @ template h t ts"
  by (simp_all add: template_def)

section \<open>The two passes on templates\<close>

lemma skip_plain: "c \<noteq> LBRACE \<Longrightarrow> c \<noteq> RBRACE \<Longrightarrow> skip_escaped_brace (c # s) = c # s"
  by (simp add: skip_escaped_brace_def char_at_def)

lemma no_brace_Cons [simp]:
  "no_brace (c # t) \<longleftrightarrow> c \<noteq> LBRACE \<and> c \<noteq> RBRACE \<and> c \<noteq> NUL \<and> no_brace t"
  by (auto simp: no_brace_def)

lemma first_pass_plain: "no_brace t \<Longrightarrow> first_pass (t @ s) phs = first_pass s phs"
  by (induction t) (simp_all add: skip_plain first_pass.simps [of "_ # _"])

lemma first_pass_hole:
  "length phs < MAX_PLACEHOLDERS \<Longrightarrow>
   first_pass (LBRACE # RBRACE # s) phs = first_pass s (phs @ [\<lparr>ph_position = length phs, ph_type = XVR_FORMAT_ARG_INT\<rparr>])"
  by (simp add: first_pass.simps [of "_ # _"] skip_escaped_brace_def char_at_def put_placeholder_def)

definition auto_placeholders :: "nat \<Rightarrow> nat \<Rightarrow> placeholder list" where
  "auto_placeholders m n = map (\<lambda>i. \<lparr>ph_position = i, ph_type = XVR_FORMAT_ARG_INT\<rparr>) [m..<n]"

lemma first_pass_template:
  assumes "no_brace t0" "\<forall>t\<in>set ts. no_brace t" "m + length ts \<le> MAX_PLACEHOLDERS"
  shows "first_pass (template [LBRACE, RBRACE] t0 ts) (auto_placeholders 0 m)
           = Some (Inr (auto_placeholders 0 (m + length ts)))"
  using assms
proof (induction ts arbitrary: t0 m)
  case Nil
  then show ?case using first_pass_plain [of t0 "[]"] by (simp add: first_pass.simps)
next
  case (Cons t ts)
  have step: "auto_placeholders 0 m @ [\<lparr>ph_position = m, ph_type = XVR_FORMAT_ARG_INT\<rparr>] = auto_placeholders 0 (Suc m)"
    by (simp add: auto_placeholders_def)
  have len: "length (auto_placeholders 0 m) = m" by (simp add: auto_placeholders_def)
  show ?case
    using Cons.IH [of t "Suc m"] Cons.prems
    by (simp add: first_pass_plain first_pass_hole len step)
qed

lemma second_pass_plain:
  "no_brace t \<Longrightarrow> pos < n \<Longrightarrow> length r + length t < cap \<Longrightarrow>
   second_pass phs n cap (t @ s) pos idx r = second_pass phs n cap s pos idx (r @ t)"
proof (induction t arbitrary: r)
  case (Cons c t)
  then show ?case
    by (auto simp: second_pass.simps [of _ _ _ "_ # _"] char_at_def put_one_def)
qed simp

lemma second_pass_hole:
  assumes "pos < n" "length r + 2 < cap" "placeholder_at phs idx = Some XVR_FORMAT_ARG_INT"
  shows "second_pass phs n cap (LBRACE # RBRACE # s) pos idx r = second_pass phs n cap s pos (Suc idx) (r @ ''%d'')"
  using assms
  by (simp add: second_pass.simps [of _ _ _ "_ # _"] char_at_def after_brace_def put_replacement_def format_type_to_printf_def
      less_diff_conv)

lemma second_pass_template:
  assumes "no_brace t0" "\<forall>t\<in>set ts. no_brace t" "0 < n" "length r + length (template ''%d'' t0 ts) < cap"
    and "\<forall>i. m \<le> i \<and> i < m + length ts \<longrightarrow> placeholder_at phs i = Some XVR_FORMAT_ARG_INT"
  shows "second_pass phs n cap (template [LBRACE, RBRACE] t0 ts) 0 m r = Some (r @ template ''%d'' t0 ts)"
  using assms
proof (induction ts arbitrary: t0 m r)
  case Nil
  then show ?case using second_pass_plain [of t0 0 n r cap phs "[]" m] by (simp add: second_pass.simps)
next
  case (Cons t ts)
  have "placeholder_at phs m = Some XVR_FORMAT_ARG_INT" using Cons.prems(5) by simp
  then show ?case
    using Cons.IH [of t "r @ t0 @ ''%d''" "Suc m"] Cons.prems
    by (simp add: second_pass_plain second_pass_hole)
qed

section \<open>The rebuilt format\<close>

lemma type_to_printf_length: "length (format_type_to_printf t) \<le> 3"
  by (simp add: format_type_to_printf_def split: format_arg.splits)

lemma build_loop_plain:
  "PERCENT \<notin> set t \<Longrightarrow> length r + length t \<le> cap \<Longrightarrow>
   build_loop args cap (t @ s) idx r = build_loop args cap s idx (r @ t)"
proof (induction t arbitrary: r)
  case (Cons c t)
  then have "c \<noteq> PERCENT" "PERCENT \<notin> set t" "length (r @ [c]) + length t \<le> cap" "length r + 1 \<le> cap" by auto
  then show ?case using Cons.IH [of "r @ [c]"] by (simp add: build_loop.simps [of _ _ "c # _"] put_raw_def)
qed simp

definition specifier :: "format_arg list \<Rightarrow> nat \<Rightarrow> string" where
  "specifier args i = (if i < length args \<and> args ! i \<noteq> XVR_FORMAT_ARG_INT then format_type_to_printf (args ! i) else ''%d'')"

lemma build_loop_hole:
  assumes "length r + 3 < cap"
  shows "build_loop args cap (''%d'' @ s) idx r = build_loop args cap s (Suc idx) (r @ specifier args idx)"
  using assms type_to_printf_length [of "args ! idx"]
  by (simp add: build_loop.simps [of _ _ "_ # _"] conversion_char_def put_checked_def specifier_def)

lemma filled_drop:
  "filled (drop i args) (t # ts) = specifier args i @ t @ filled (drop (Suc i) args) ts"
proof (cases "i < length args")
  case True
  then show ?thesis
    by (cases "args ! i") (simp_all add: Cons_nth_drop_Suc [symmetric] specifier_def format_type_to_printf_def)
qed (simp add: specifier_def)

lemma build_loop_template:
  assumes "PERCENT \<notin> set t0" "\<forall>t\<in>set ts. PERCENT \<notin> set t" "length r + 2 * length (template ''%d'' t0 ts) < cap"
  shows "build_loop args cap (template ''%d'' t0 ts) i r = Some (r @ t0 @ filled (drop i args) ts)"
  using assms
proof (induction ts arbitrary: t0 i r)
  case Nil
  then show ?case using build_loop_plain [of t0 r cap args "[]" i] by (simp add: build_loop.simps)
next
  case (Cons t ts)
  have len: "length (specifier args i) \<le> 3"
    using type_to_printf_length by (simp add: specifier_def)
  have hole: "build_loop args cap (''%d'' @ template ''%d'' t ts) i (r @ t0)
      = build_loop args cap (template ''%d'' t ts) (Suc i) ((r @ t0) @ specifier args i)"
    by (rule build_loop_hole) (use Cons.prems(3) in simp)
  have plain: "build_loop args cap (t0 @ ''%d'' @ template ''%d'' t ts) i r
      = build_loop args cap (''%d'' @ template ''%d'' t ts) i (r @ t0)"
    by (rule build_loop_plain) (use Cons.prems in simp_all)
  show ?case
    using Cons.IH [of t "(r @ t0) @ specifier args i" "Suc i"] Cons.prems len
    by (simp only: template_simps plain hole filled_drop) simp
qed

lemma length_template: "length h = length h' \<Longrightarrow> length (template h t0 ts) = length (template h' t0 ts)"
  by (induction ts arbitrary: t0) simp_all

lemma no_nul_template:
  "no_nul h \<Longrightarrow> no_nul t0 \<Longrightarrow> \<forall>t\<in>set ts. no_nul t \<Longrightarrow> no_nul (template h t0 ts)"
  by (induction ts arbitrary: t0) simp_all

lemma template_length_text: "length (template h t0 ts) = length t0 + length (template h [] ts)"
  by (simp add: template_def)

lemma filled_length: "length (filled args ts) \<le> 2 * length (template ''%d'' [] ts)"
proof (induction args ts rule: filled.induct)
  case (3 a args t ts)
  then show ?case
    using type_to_printf_length [of a] template_length_text [of "''%d''" t ts] by simp
next
  case (2 t ts)
  then show ?case using template_length_text [of "''%d''" t ts] by simp
qed simp

section \<open>The properties\<close>

lemma placeholder_at_auto:
  "i < n \<Longrightarrow> placeholder_at (auto_placeholders 0 n) i = Some XVR_FORMAT_ARG_INT"
  by (simp add: placeholder_at_def auto_placeholders_def)

lemma cstr_scan_template:
  assumes "no_brace t0" "\<forall>t\<in>set ts. no_brace t" "no_nul h"
  shows "cstr_scan (template h t0 ts) m = min m (length (template h t0 ts))"
  using assms by (intro cstr_scan_no_nul no_nul_template) (auto simp: no_brace_def)

definition parsed_template :: "string \<Rightarrow> string list \<Rightarrow> format_string" where
  "parsed_template t0 ts =
     \<lparr>fs_printf_format = Some (template ''%d'' t0 ts), fs_placeholders = auto_placeholders 0 (length ts),
      fs_placeholder_count = length ts, fs_arg_count = length ts, fs_is_valid = True, fs_error_message = None\<rparr>"

lemma parse_template:
  assumes texts: "no_brace t0" "\<forall>t\<in>set ts. no_brace t" and few: "length ts \<le> MAX_PLACEHOLDERS"
    and short: "length (template ''%d'' t0 ts) \<le> 4096"
  shows "XvrFormatStringParse (Some (template [LBRACE, RBRACE] t0 ts)) (length ts) = Some (Some (parsed_template t0 ts))"
proof -
  let ?s = "template [LBRACE, RBRACE] t0 ts"
  have same: "length ?s = length (template ''%d'' t0 ts)" by (rule length_template) simp
  have scan: "cstr_scan ?s 4096 = length ?s"
    using cstr_scan_template [OF texts, of "[LBRACE, RBRACE]" 4096] short same by simp
  have first: "first_pass ?s [] = Some (Inr (auto_placeholders 0 (length ts)))"
    using first_pass_template [OF texts, of 0] few by (simp add: auto_placeholders_def)
  have second: "second_pass (auto_placeholders 0 (length ts)) (length ?s) (length ?s * 2 + 1) ?s 0 0 []
                  = Some (template ''%d'' t0 ts)"
  proof (cases "?s = []")
    case True
    then have "template ''%d'' t0 ts = []" using same by simp
    with True show ?thesis by (simp add: second_pass.simps)
  next
    case False
    then show ?thesis
      using second_pass_template [OF texts, of "length ?s" "[]" "length ?s * 2 + 1" 0 "auto_placeholders 0 (length ts)"] same
        placeholder_at_auto [of _ "length ts"]
      by fastforce
  qed
  have "length (auto_placeholders 0 (length ts)) = length ts" by (simp add: auto_placeholders_def)
  then show ?thesis
    by (simp add: XvrFormatStringParse_def scan first second [simplified] Let_def parsed_template_def del: upt_Suc)
qed

text \<open>What becomes of a template with as many arguments as placeholders, and with another number.\<close>

lemma build_template:
  assumes "no_brace t0" "\<forall>t\<in>set ts. no_brace t" "length (template ''%d'' t0 ts) \<le> 4096"
    and "PERCENT \<notin> set t0" "\<forall>t\<in>set ts. PERCENT \<notin> set t"
  shows "XvrFormatStringBuildPrintfFormat (Some (parsed_template t0 ts)) args = Some (Some (t0 @ filled args ts))"
proof -
  let ?s = "template ''%d'' t0 ts"
  have scan: "cstr_scan ?s 4096 = length ?s"
    using cstr_scan_template [OF assms(1,2), of "''%d''" 4096] assms(3) by simp
  have "build_loop args (length ?s * 2 + 1) ?s 0 [] = Some (t0 @ filled args ts)"
    using build_loop_template [OF assms(4,5), of "[]" "length ?s * 2 + 1" args 0] by simp
  then show ?thesis
    using filled_length [of args ts] template_length_text [of "''%d''" t0 ts]
    by (simp add: XvrFormatStringBuildPrintfFormat_def parsed_template_def scan Let_def)
qed

lemma parse_mismatch:
  assumes "no_brace t0" "\<forall>t\<in>set ts. no_brace t" "length ts \<le> MAX_PLACEHOLDERS" "n \<noteq> length ts"
  shows "\<exists>f. XvrFormatStringParse (Some (template [LBRACE, RBRACE] t0 ts)) n = Some (Some f) \<and> \<not> fs_is_valid f \<and>
    fs_error_message f = Some (count_error (length ts) n) \<and> XvrFormatStringGetPrintfFormat (Some f) = None"
proof -
  have "first_pass (template [LBRACE, RBRACE] t0 ts) [] = Some (Inr (auto_placeholders 0 (length ts)))"
    using first_pass_template [OF assms(1,2), of 0] assms(3) by (simp add: auto_placeholders_def)
  with assms(4) show ?thesis
    by (simp add: XvrFormatStringParse_def Let_def auto_placeholders_def XvrFormatStringGetPrintfFormat_def)
qed

text \<open>C21: A format string made of texts without braces around empty placeholders, of at most 4096
  characters and 64 placeholders, parses when it is given as many arguments as it has placeholders; if
  the texts have no percent sign either, the rebuilt printf format is the texts around the specifier of
  each argument's type, \<open>%d\<close> for an argument whose type is missing. Given another number of arguments
  it is not valid and there is no printf format.\<close>

theorem format_templates:
  assumes "no_brace t0" "\<forall>t\<in>set ts. no_brace t" "length ts \<le> MAX_PLACEHOLDERS"
    and "length (template ''%d'' t0 ts) \<le> 4096"
  shows "(\<exists>f. XvrFormatStringParse (Some (template [LBRACE, RBRACE] t0 ts)) n = Some (Some f)
            \<and> (n \<noteq> length ts \<longrightarrow>
                 \<not> fs_is_valid f \<and> fs_error_message f = Some (count_error (length ts) n)
                 \<and> XvrFormatStringGetPrintfFormat (Some f) = None)
            \<and> (n = length ts \<longrightarrow>
                 XvrFormatStringGetPrintfFormat (Some f) = Some (template ''%d'' t0 ts))
            \<and> (n = length ts \<and> PERCENT \<notin> set t0 \<and> (\<forall>t\<in>set ts. PERCENT \<notin> set t) \<longrightarrow>
                 XvrFormatStringBuildPrintfFormat (Some f) args = Some (Some (t0 @ filled args ts))))"
proof (cases "n = length ts")
  case True
  then show ?thesis
    using parse_template [OF assms] build_template [OF assms(1,2,4)]
    by (simp add: XvrFormatStringGetPrintfFormat_def parsed_template_def)
next
  case False
  then show ?thesis
    using parse_mismatch [OF assms(1-3) False] by blast
qed

theorem format_templates_witness:
  "no_brace ''x = '' \<and> length [''; '', ''.''] \<le> MAX_PLACEHOLDERS
   \<and> (\<exists>f. XvrFormatStringParse (Some (template [LBRACE, RBRACE] ''x = '' [''; '', ''.''])) 2 = Some (Some f)
        \<and> XvrFormatStringBuildPrintfFormat (Some f) [XVR_FORMAT_ARG_STRING] = Some (Some ''x = %s; %d.''))"
  using format_templates [of "''x = ''" "[''; '', ''.'']" 2 "[XVR_FORMAT_ARG_STRING]"]
  by (auto simp: no_brace_def MAX_PLACEHOLDERS_def format_type_to_printf_def)

lemma put_checked_bound: "length r \<le> 2 * n \<Longrightarrow> length (put_checked (2 * n + 1) cs r) \<le> 2 * n"
  by (simp add: put_checked_def)

lemma put_checked_grow: "length (put_checked cap cs r) \<le> length r + length cs"
  by (simp add: put_checked_def)

lemma build_loop_char:
  "\<not> (c = PERCENT \<and> rest \<noteq> []) \<Longrightarrow>
   build_loop args cap (c # rest) i r =
     (case put_raw cap [c] r of None \<Rightarrow> None | Some r' \<Rightarrow> build_loop args cap rest i r')"
  by (subst build_loop.simps) (simp only: list.case if_False)

lemma conversion_split:
  assumes "dropWhile (\<lambda>c. \<not> conversion_char c) (PERCENT # rest) = d # rest'"
  shows "length (takeWhile (\<lambda>c. \<not> conversion_char c) (PERCENT # rest) @ [d]) + length rest' = Suc (length rest)"
    and "length rest' < length rest"
proof -
  let ?P = "\<lambda>c. \<not> conversion_char c"
  have "length (takeWhile ?P (PERCENT # rest)) + length (dropWhile ?P (PERCENT # rest)) = Suc (length rest)"
    by (simp del: takeWhile.simps dropWhile.simps flip: length_append)
  then show "length (takeWhile ?P (PERCENT # rest) @ [d]) + length rest' = Suc (length rest)"
    using assms by simp
  have "dropWhile ?P rest = d # rest'" using assms by (simp add: conversion_char_def)
  then show "length rest' < length rest" using length_dropWhile_le [of ?P rest] by simp
qed

lemma build_loop_bound:
  "length r + 2 * length src \<le> 2 * n \<Longrightarrow>
   \<exists>r'. build_loop args (2 * n + 1) src i r = Some r' \<and> length r' \<le> 2 * n"
proof (induction "length src" arbitrary: src i r rule: less_induct)
  case less
  show ?case
  proof (cases src)
    case Nil
    with less.prems show ?thesis by (simp add: build_loop.simps)
  next
    case (Cons c rest)
    show ?thesis
    proof (cases "c = PERCENT \<and> rest \<noteq> []")
      case False
      then show ?thesis
        using less.hyps [of rest "r @ [c]" i] less.prems Cons
        by (simp add: build_loop_char put_raw_def)
    next
      case True
      then obtain e rest2 where rest: "rest = e # rest2" by (cases rest) auto
      show ?thesis
      proof (cases "e = PERCENT")
        case True
        then show ?thesis
          using less.hyps [of rest2 "r @ [PERCENT, PERCENT]" i] less.prems Cons rest \<open>c = PERCENT \<and> rest \<noteq> []\<close>
          by (simp add: build_loop.simps [of _ _ "_ # _ # _"] put_raw_def)
      next
        case other: False
        show ?thesis
        proof (cases "dropWhile (\<lambda>c. \<not> conversion_char c) src")
          case Nil
          then show ?thesis
            using less.prems Cons rest other True
            by (simp add: build_loop.simps [of _ _ "_ # _ # _"] put_raw_def)
        next
          case drop: (Cons d rest')
          let ?r = "if i < length args \<and> args ! i \<noteq> XVR_FORMAT_ARG_INT
                      then put_checked (2 * n + 1) (format_type_to_printf (args ! i)) r
                      else put_checked (2 * n + 1) (takeWhile (\<lambda>c. \<not> conversion_char c) src @ [d]) r"
          have src: "src = PERCENT # rest" using Cons True by simp
          have step: "build_loop args (2 * n + 1) src i r = build_loop args (2 * n + 1) rest' (Suc i) ?r"
            using other True rest drop unfolding src by (simp add: build_loop.simps [of _ _ "_ # _ # _"])
          have "length ?r \<le> length r + 3 \<or> length ?r + length rest' \<le> length r + length src"
            using put_checked_grow [of "2 * n + 1" "format_type_to_printf (args ! i)" r]
              put_checked_grow [of "2 * n + 1" "takeWhile (\<lambda>c. \<not> conversion_char c) src @ [d]" r]
              type_to_printf_length [of "args ! i"] conversion_split(1) [of rest d rest'] drop src
            by auto
          then have "length ?r + 2 * length rest' \<le> 2 * n"
            using less.prems conversion_split(2) [of rest d rest'] drop src by auto
          then show ?thesis
            using less.hyps [of rest' ?r "Suc i"] conversion_split(2) [of rest d rest'] drop src step by simp
        qed
      qed
    qed
  qed
qed

definition the_default :: "'a \<Rightarrow> 'a option \<Rightarrow> 'a" where
  "the_default d r = (case r of None \<Rightarrow> d | Some x \<Rightarrow> x)"

text \<open>C28: Rebuilding the printf format never writes outside its buffer: for every format string, also
  one whose printf format is not its own output, and for all argument types there is a result; it is
  NULL exactly for a format string that is NULL or not valid, and otherwise at most twice as long as
  the first 4096 characters of the printf format, so the NUL after it fits.\<close>

theorem build_within_bounds:
  "\<exists>r. XvrFormatStringBuildPrintfFormat fmt args = Some r
      \<and> (r = None) = (case fmt of None \<Rightarrow> True | Some f \<Rightarrow> \<not> fs_is_valid f)
      \<and> length (the_default [] r) \<le> 2 * length (take 4096 (the_default [] (Option.bind fmt fs_printf_format)))"
proof (cases "\<exists>f. fmt = Some f \<and> fs_is_valid f")
  case True
  then obtain f where f: "fmt = Some f" "fs_is_valid f" by blast
  show ?thesis
  proof (cases "fs_printf_format f")
    case None
    with f show ?thesis by (simp add: XvrFormatStringBuildPrintfFormat_def the_default_def)
  next
    case (Some s)
    let ?n = "cstr_scan s 4096"
    have n: "?n \<le> length s" "?n \<le> 4096" using cstr_scan_le by blast+
    then obtain r where r: "build_loop args (2 * ?n + 1) (take ?n s) 0 [] = Some r" "length r \<le> 2 * ?n"
      using build_loop_bound [of "[]" "take ?n s" ?n args 0] by auto
    then show ?thesis
      using f Some n by (simp add: XvrFormatStringBuildPrintfFormat_def the_default_def Let_def mult.commute)
  qed
next
  case False
  then show ?thesis
    by (auto simp: XvrFormatStringBuildPrintfFormat_def the_default_def split: option.splits)
qed

text \<open>A template that ends in an escaped brace makes the first pass read past its NUL: after the pair is
  skipped the next character is taken as a plain one.\<close>

lemma escaped_brace_overread:
  assumes "no_brace t"
  shows "first_pass (t @ [LBRACE, LBRACE]) phs = None" "first_pass (t @ [RBRACE, RBRACE]) phs = None"
  using assms
  by (simp_all add: first_pass_plain first_pass.simps [of "_ # _"] skip_escaped_brace_def char_at_def)

end
