(* ===== verification/Floats.thy ===== *)
theory Floats
  imports Literals
begin

text \<open>
  The floating-point operations that the parser evaluates, on IEEE bit patterns with the rounding of
  the target (x86-64, to nearest, ties to even): reading a decimal number, which \<open>sscanf\<close> does with
  the conversions \<open>%f\<close> and \<open>%lf\<close>, the operators of \<open>float\<close>, the conversion from \<open>double\<close> and the
  half-precision encoding of \<open>atomic\<close> in src/src/xvr_parser.cpp. A rational is a numerator and a
  positive denominator.
\<close>

section \<open>Rounding a rational\<close>

text \<open>The exponent \<open>e\<close> with \<open>2 ^ e \<le> n / d < 2 ^ (e + 1)\<close>.\<close>

definition ratio_log :: "int \<Rightarrow> int \<Rightarrow> int" where
  "ratio_log n d =
     (let k = bit_len n - bit_len d
      in if n * 2 ^ nat (- k) \<ge> d * 2 ^ nat k then k else k - 1)"

text \<open>\<open>n / (d * 2 ^ e)\<close> to the nearest integer, ties to even.\<close>

definition round_ratio :: "int \<Rightarrow> int \<Rightarrow> int \<Rightarrow> int" where
  "round_ratio n d e =
     (let a = n * 2 ^ nat (- e); b = d * 2 ^ nat e; q = a div b; r = a mod b
      in if 2 * r > b \<or> 2 * r = b \<and> odd q then q + 1 else q)"

text \<open>
  The bit pattern of a positive rational in a format with \<open>p\<close> significant bits and least exponent
  \<open>emin\<close>: a mantissa that rounds up to the next power carries into the exponent field.
\<close>

definition ratio_bits :: "int \<Rightarrow> int \<Rightarrow> int \<Rightarrow> int \<Rightarrow> int \<Rightarrow> int" where
  "ratio_bits p emin infinity n d =
     (if n = 0 then 0
      else let e = max emin (ratio_log n d - (p - 1))
           in min infinity ((e - emin) * 2 ^ nat (p - 1) + round_ratio n d e))"

definition ratio_f32 :: "int \<Rightarrow> int \<Rightarrow> 32 word" where
  "ratio_f32 n d = word_of_int (ratio_bits 24 (- 149) 0x7F800000 n d)"

definition ratio_f64 :: "int \<Rightarrow> int \<Rightarrow> 64 word" where
  "ratio_f64 n d = word_of_int (ratio_bits 53 (- 1074) 0x7FF0000000000000 n d)"

section \<open>Reading a decimal number\<close>

definition digit_value :: "char \<Rightarrow> int" where
  "digit_value c = of_char c - 48"

definition digits_value :: "string \<Rightarrow> int" where
  "digits_value ds = foldl (\<lambda>n c. n * 10 + digit_value c) 0 ds"

text \<open>The longest prefix of digits, a point and digits, as a rational; the tokens read have no exponent.\<close>

definition decimal_ratio :: "string \<Rightarrow> int \<times> int" where
  "decimal_ratio s =
     (let ip = takeWhile is_digit_char s;
          rest = dropWhile is_digit_char s;
          fp = (if char_at rest 0 = CHR ''.'' then takeWhile is_digit_char (drop 1 rest) else [])
      in (digits_value (ip @ fp), 10 ^ length fp))"

definition scan_f32 :: "string \<Rightarrow> 32 word" where
  "scan_f32 s = (case decimal_ratio s of (n, d) \<Rightarrow> ratio_f32 n d)"

definition scan_f64 :: "string \<Rightarrow> 64 word" where
  "scan_f64 s = (case decimal_ratio s of (n, d) \<Rightarrow> ratio_f64 n d)"

section \<open>Single precision\<close>

definition f32_sign :: "32 word \<Rightarrow> bool" where
  "f32_sign w \<longleftrightarrow> bit w 31"

definition f32_infinite :: "32 word \<Rightarrow> bool" where
  "f32_infinite w \<longleftrightarrow> w AND 0x7FFFFFFF = 0x7F800000"

text \<open>A finite number is its mantissa times two to its exponent.\<close>

definition f32_exponent :: "32 word \<Rightarrow> int" where
  "f32_exponent w = max 1 (uint (drop_bit 23 w AND 0xFF)) - 150"

definition f32_mantissa :: "32 word \<Rightarrow> int" where
  "f32_mantissa w =
     uint (w AND 0x7FFFFF) + (if drop_bit 23 w AND 0xFF = 0 then 0 else 2 ^ 23)"

definition signed_f32 :: "bool \<Rightarrow> 32 word \<Rightarrow> 32 word" where
  "signed_f32 s w = (if s then w OR 0x80000000 else w)"

definition quiet_nan :: "32 word \<Rightarrow> 32 word" where
  "quiet_nan w = w OR 0x400000"

definition default_nan :: "32 word" where
  "default_nan = 0xFFC00000"

text \<open>A NaN operand is returned quiet, the first one first.\<close>

definition f32_op :: "(32 word \<Rightarrow> 32 word \<Rightarrow> 32 word) \<Rightarrow> 32 word \<Rightarrow> 32 word \<Rightarrow> 32 word" where
  "f32_op f a b = (if f32_nan a then quiet_nan a else if f32_nan b then quiet_nan b else f a b)"

definition f32_neg :: "32 word \<Rightarrow> 32 word" where
  "f32_neg a = a XOR 0x80000000"

definition f32_signed_mantissa :: "32 word \<Rightarrow> int" where
  "f32_signed_mantissa a = (if f32_sign a then - f32_mantissa a else f32_mantissa a)"

definition f32_add :: "32 word \<Rightarrow> 32 word \<Rightarrow> 32 word" where
  "f32_add = f32_op (\<lambda>a b.
     if f32_infinite a then (if f32_infinite b \<and> f32_sign a \<noteq> f32_sign b then default_nan else a)
     else if f32_infinite b then b
     else let e = min (f32_exponent a) (f32_exponent b);
              n = f32_signed_mantissa a * 2 ^ nat (f32_exponent a - e)
                  + f32_signed_mantissa b * 2 ^ nat (f32_exponent b - e)
          in if n = 0 then signed_f32 (f32_sign a \<and> f32_sign b) 0
             else signed_f32 (n < 0) (ratio_f32 (\<bar>n\<bar> * 2 ^ nat e) (2 ^ nat (- e))))"

definition f32_sub :: "32 word \<Rightarrow> 32 word \<Rightarrow> 32 word" where
  "f32_sub a b = (if f32_nan b then f32_op (\<lambda>a b. a) a b else f32_add a (f32_neg b))"

definition f32_mul :: "32 word \<Rightarrow> 32 word \<Rightarrow> 32 word" where
  "f32_mul = f32_op (\<lambda>a b.
     let s = (f32_sign a \<noteq> f32_sign b)
     in if f32_infinite a \<or> f32_infinite b then
          (if a AND 0x7FFFFFFF = 0 \<or> b AND 0x7FFFFFFF = 0 then default_nan else signed_f32 s 0x7F800000)
        else let e = f32_exponent a + f32_exponent b
             in signed_f32 s (ratio_f32 (f32_mantissa a * f32_mantissa b * 2 ^ nat e) (2 ^ nat (- e))))"

text \<open>The divisor is not zero.\<close>

definition f32_div :: "32 word \<Rightarrow> 32 word \<Rightarrow> 32 word" where
  "f32_div = f32_op (\<lambda>a b.
     let s = (f32_sign a \<noteq> f32_sign b)
     in if f32_infinite a then (if f32_infinite b then default_nan else signed_f32 s 0x7F800000)
        else if f32_infinite b then signed_f32 s 0
        else let e = f32_exponent a - f32_exponent b
             in signed_f32 s (ratio_f32 (f32_mantissa a * 2 ^ nat e) (f32_mantissa b * 2 ^ nat (- e))))"

text \<open>The order of numbers that are not NaN is that of their bit patterns, mirrored for negative ones.\<close>

definition f32_rank :: "32 word \<Rightarrow> int" where
  "f32_rank w = (if f32_sign w then - uint (w AND 0x7FFFFFFF) else uint w)"

definition f32_less :: "32 word \<Rightarrow> 32 word \<Rightarrow> bool" where
  "f32_less a b \<longleftrightarrow> \<not> f32_nan a \<and> \<not> f32_nan b \<and> f32_rank a < f32_rank b"

definition f32_less_eq :: "32 word \<Rightarrow> 32 word \<Rightarrow> bool" where
  "f32_less_eq a b \<longleftrightarrow> \<not> f32_nan a \<and> \<not> f32_nan b \<and> f32_rank a \<le> f32_rank b"

section \<open>Double to single, single to half\<close>

text \<open>\<open>(float)dval\<close> for a number that is not negative and not NaN.\<close>

definition f64_to_f32 :: "64 word \<Rightarrow> 32 word" where
  "f64_to_f32 w =
     (if w = 0x7FF0000000000000 then 0x7F800000
      else let f = uint (drop_bit 52 w AND 0x7FF);
               m = uint (w AND 0xFFFFFFFFFFFFF) + (if f = 0 then 0 else 2 ^ 52);
               e = max 1 f - 1075
           in ratio_f32 (m * 2 ^ nat e) (2 ^ nat (- e)))"

text \<open>
  The 16 bits that \<open>atomic\<close> makes of \<open>f\<close>: \<open>frexp\<close> gives a fraction in [1/2, 1), whose exponent is one
  more than that of the IEEE significand, and 15 is added to it.
\<close>

definition f32_to_f16_bits :: "32 word \<Rightarrow> 16 word" where
  "f32_to_f16_bits f =
     (let s = (if f32_sign f \<and> f AND 0x7FFFFFFF \<noteq> 0 \<and> \<not> f32_nan f then 1 else 0);
          (ex, mantissa) =
            (if f AND 0x7FFFFFFF = 0 then (0, 0)
             else if f32_infinite f then (31, 0)
             else if f32_nan f then (31, 512)
             else let m = f32_mantissa f; l = bit_len m
                  in (f32_exponent f + l + 15, (m * 2048) div 2 ^ nat l - 1024))
      in word_of_int (s * 2 ^ 15) OR word_of_int (ex * 2 ^ 10) OR word_of_int mantissa)"

end
