(* ===== verification/ParserState.thy ===== *)
theory ParserState
  imports AstNodes Lexer Floats
begin

text \<open>
  The parser's state and its token primitives: src/src/xvr_parser.h and the first part of
  src/src/xvr_parser.cpp. The reports on stderr are kept as a list of line and message. An operation
  has an outcome: a value, undefined behaviour (a NULL or dangling pointer is followed, a union
  arm that was not written is read, a signed operation overflows), or no value, because the lexer
  does not return or the fuel of the recursion is used up.
\<close>

section \<open>Outcomes\<close>

datatype 'a outcome = Done 'a | Undefined | Unfinished

fun andThen :: "'a outcome \<Rightarrow> ('a \<Rightarrow> 'b outcome) \<Rightarrow> 'b outcome" where
  "andThen (Done x) f = f x"
| "andThen Undefined f = Undefined"
| "andThen Unfinished f = Unfinished"

lemma andThen_eq_Done: "andThen x f = Done y \<longleftrightarrow> (\<exists>a. x = Done a \<and> f a = Done y)"
  by (cases x) auto

lemma andThen_eq_Unfinished: "andThen x f = Unfinished \<longleftrightarrow> x = Unfinished \<or> (\<exists>a. x = Done a \<and> f a = Unfinished)"
  by (cases x) auto

lemma andThen_cong [fundef_cong]:
  "x = x' \<Longrightarrow> (\<And>a. x' = Done a \<Longrightarrow> f a = f' a) \<Longrightarrow> andThen x f = andThen x' f'"
  by (cases x) auto

section \<open>State\<close>

text \<open>The lexer is a pointer, NULL after \<open>Xvr_freeParser\<close>.\<close>

record parser =
  pr_lexer :: "lexer option"
  pr_error :: bool
  pr_panic :: bool
  pr_current :: token
  pr_previous :: token
  pr_reports :: "(nat \<times> string) list"

abbreviation cur_type :: "parser \<Rightarrow> token_type" where
  "cur_type p \<equiv> tok_type (pr_current p)"

abbreviation prev_type :: "parser \<Rightarrow> token_type" where
  "prev_type p \<equiv> tok_type (pr_previous p)"

text \<open>The text at a token's lexeme: from there to the NUL, when the pointer is still good.\<close>

definition token_text :: "parser \<Rightarrow> token \<Rightarrow> string option" where
  "token_text p t =
     (case tok_lexeme t of
        InSource k \<Rightarrow> map_option (\<lambda>lx. drop k (lx_source lx)) (pr_lexer p)
      | StaticText s \<Rightarrow> Some s
      | ExpiredBuffer s \<Rightarrow> None)"

text \<open>The first \<open>n\<close> characters of a token.\<close>

definition token_chars :: "parser \<Rightarrow> token \<Rightarrow> nat \<Rightarrow> string outcome" where
  "token_chars p t n = (case token_text p t of None \<Rightarrow> Undefined | Some s \<Rightarrow> Done (take n s))"

section \<open>Primitives\<close>

text \<open>A report prints the lexeme of its token unless it is the end of the file.\<close>

definition error_at :: "parser \<Rightarrow> token \<Rightarrow> string \<Rightarrow> parser outcome" where
  "error_at p t msg =
     (if pr_panic p then Done p
      else if tok_type t \<noteq> MetaTok XVR_TOKEN_EOF \<and> token_text p t = None then Undefined
      else Done (p\<lparr>pr_reports := pr_reports p @ [(tok_line t, msg)], pr_error := True, pr_panic := True\<rparr>))"

definition quoted :: "string \<Rightarrow> string" where
  "quoted s = [CHR 0x27] @ s @ [CHR 0x27]"

definition advance_parser :: "parser \<Rightarrow> parser outcome" where
  "advance_parser p =
     (case pr_lexer p of
        None \<Rightarrow> Undefined
      | Some lx \<Rightarrow>
          (case Xvr_private_scanLexer lx of
             None \<Rightarrow> Unfinished
           | Some (t, lx') \<Rightarrow>
               let p' = p\<lparr>pr_previous := pr_current p, pr_current := t, pr_lexer := Some lx'\<rparr>
               in if tok_type t = MetaTok XVR_TOKEN_ERROR then error_at p' t ''Xvr_Lexer error''
                  else Done p'))"

definition match_token :: "parser \<Rightarrow> token_type \<Rightarrow> (bool \<times> parser) outcome" where
  "match_token p ty =
     (if cur_type p = ty then andThen (advance_parser p) (\<lambda>p. Done (True, p)) else Done (False, p))"

definition consumeSemicolon :: "parser \<Rightarrow> parser outcome" where
  "consumeSemicolon p =
     andThen (match_token p (OtherTok XVR_TOKEN_SEMICOLON)) (\<lambda>(matched, p).
       if matched then Done p
       else if cur_type p = LogicTok XVR_TOKEN_BRACE_RIGHT \<or> cur_type p = MetaTok XVR_TOKEN_EOF then Done p
       else error_at p (pr_current p) (''Expected '' @ quoted '';''))"

definition consume :: "parser \<Rightarrow> token_type \<Rightarrow> string \<Rightarrow> parser outcome" where
  "consume p ty msg =
     (if cur_type p \<noteq> ty then error_at p (pr_current p) msg else advance_parser p)"

definition starts_line :: "token_type \<Rightarrow> bool" where
  "starts_line t \<longleftrightarrow> t \<in> KeywordTok `
     {XVR_TOKEN_ASSERT, XVR_TOKEN_BREAK, XVR_TOKEN_CLASS, XVR_TOKEN_CONTINUE, XVR_TOKEN_DO, XVR_TOKEN_ELSE,
      XVR_TOKEN_EXPORT, XVR_TOKEN_FOR, XVR_TOKEN_FOREACH, XVR_TOKEN_IF, XVR_TOKEN_IMPORT, XVR_TOKEN_PRINT,
      XVR_TOKEN_RETURN, XVR_TOKEN_VAR, XVR_TOKEN_WHILE}"

fun synchronize :: "nat \<Rightarrow> parser \<Rightarrow> parser outcome" where
  "synchronize 0 p = Unfinished"
| "synchronize (Suc n) p =
     (if cur_type p = MetaTok XVR_TOKEN_EOF then Done p
      else if starts_line (cur_type p) then Done (p\<lparr>pr_panic := False\<rparr>)
      else andThen (advance_parser p) (synchronize n))"

text \<open>\<open>Xvr_initParser\<close> sets the types of both tokens; what else they hold is never read.\<close>

definition null_token :: token where
  "null_token = \<lparr>tok_type = TypeTok XVR_TOKEN_NULL, tok_lexeme = StaticText '''', tok_length = 0, tok_line = 0\<rparr>"

definition Xvr_initParser :: "lexer \<Rightarrow> parser outcome" where
  "Xvr_initParser lx =
     advance_parser \<lparr>pr_lexer = Some lx, pr_error = False, pr_panic = False,
       pr_current = null_token, pr_previous = null_token, pr_reports = []\<rparr>"

definition Xvr_freeParser :: "parser \<Rightarrow> parser" where
  "Xvr_freeParser p =
     p\<lparr>pr_lexer := None, pr_error := False, pr_panic := False,
       pr_previous := (pr_previous p)\<lparr>tok_type := TypeTok XVR_TOKEN_NULL\<rparr>,
       pr_current := (pr_current p)\<lparr>tok_type := TypeTok XVR_TOKEN_NULL\<rparr>\<rparr>"

section \<open>Precedence\<close>

datatype prec =
    PREC_NONE | PREC_ASSIGNMENT | PREC_TERNARY | PREC_OR | PREC_AND | PREC_COMPARISON | PREC_TERM
  | PREC_FACTOR | PREC_UNARY | PREC_CALL | PREC_PRIMARY

fun prec_code :: "prec \<Rightarrow> nat" where
  "prec_code PREC_NONE = 0"
| "prec_code PREC_ASSIGNMENT = 1"
| "prec_code PREC_TERNARY = 2"
| "prec_code PREC_OR = 3"
| "prec_code PREC_AND = 4"
| "prec_code PREC_COMPARISON = 5"
| "prec_code PREC_TERM = 6"
| "prec_code PREC_FACTOR = 7"
| "prec_code PREC_UNARY = 8"
| "prec_code PREC_CALL = 9"
| "prec_code PREC_PRIMARY = 10"

lemma prec_code_inj: "prec_code a = prec_code b \<longleftrightarrow> a = b"
  by (cases a; cases b) simp_all

instantiation prec :: linorder
begin

definition less_eq_prec :: "prec \<Rightarrow> prec \<Rightarrow> bool" where
  "less_eq_prec a b \<longleftrightarrow> prec_code a \<le> prec_code b"

definition less_prec :: "prec \<Rightarrow> prec \<Rightarrow> bool" where
  "less_prec a b \<longleftrightarrow> prec_code a < prec_code b"

instance
  by standard (auto simp: less_eq_prec_def less_prec_def prec_code_inj)

end

text \<open>The functions of the Pratt table.\<close>

datatype parse_fn =
    Fn_atomic | Fn_castingPrefix | Fn_ifExpression | Fn_identifierOrKeyword | Fn_asType | Fn_typeOf
  | Fn_identifier | Fn_string | Fn_unary | Fn_incrementPrefix | Fn_decrementPrefix | Fn_grouping
  | Fn_compound | Fn_fnCall | Fn_castingInfix | Fn_binary | Fn_incrementInfix | Fn_decrementInfix
  | Fn_indexAccess | Fn_question | Fn_dot

record parse_rule =
  pl_prefix :: "parse_fn option"
  pl_infix :: "parse_fn option"
  pl_precedence :: prec

definition rule :: "parse_fn option \<Rightarrow> parse_fn option \<Rightarrow> prec \<Rightarrow> parse_rule" where
  "rule a b c = \<lparr>pl_prefix = a, pl_infix = b, pl_precedence = c\<rparr>"

abbreviation no_rule :: parse_rule where "no_rule \<equiv> rule None None PREC_NONE"

fun type_rule :: "type_token \<Rightarrow> parse_rule" where
  "type_rule XVR_TOKEN_NULL = rule (Some Fn_atomic) None PREC_PRIMARY"
| "type_rule XVR_TOKEN_VOID = rule (Some Fn_atomic) None PREC_PRIMARY"
| "type_rule XVR_TOKEN_ARRAY = no_rule"
| "type_rule XVR_TOKEN_DICTIONARY = no_rule"
| "type_rule XVR_TOKEN_FUNCTION = no_rule"
| "type_rule XVR_TOKEN_OPAQUE = no_rule"
| "type_rule XVR_TOKEN_ANY = no_rule"
| "type_rule _ = rule (Some Fn_castingPrefix) None PREC_CALL"

fun keyword_rule :: "keyword_token \<Rightarrow> parse_rule" where
  "keyword_rule XVR_TOKEN_IF = rule (Some Fn_ifExpression) None PREC_ASSIGNMENT"
| "keyword_rule XVR_TOKEN_PRINT = rule (Some Fn_identifierOrKeyword) (Some Fn_fnCall) PREC_CALL"
| "keyword_rule XVR_TOKEN_TYPE = rule (Some Fn_atomic) None PREC_PRIMARY"
| "keyword_rule XVR_TOKEN_ASTYPE = rule (Some Fn_asType) None PREC_CALL"
| "keyword_rule XVR_TOKEN_TYPEOF = rule (Some Fn_typeOf) None PREC_CALL"
| "keyword_rule _ = no_rule"

fun literal_rule :: "literal_token \<Rightarrow> parse_rule" where
  "literal_rule XVR_TOKEN_IDENTIFIER = rule (Some Fn_identifier) (Some Fn_castingInfix) PREC_PRIMARY"
| "literal_rule XVR_TOKEN_LITERAL_STRING = rule (Some Fn_string) (Some Fn_castingInfix) PREC_PRIMARY"
| "literal_rule _ = rule (Some Fn_atomic) (Some Fn_castingInfix) PREC_PRIMARY"

fun math_rule :: "math_token \<Rightarrow> parse_rule" where
  "math_rule XVR_TOKEN_PLUS = rule None (Some Fn_binary) PREC_TERM"
| "math_rule XVR_TOKEN_MINUS = rule (Some Fn_unary) (Some Fn_binary) PREC_TERM"
| "math_rule XVR_TOKEN_MULTIPLY = rule None (Some Fn_binary) PREC_FACTOR"
| "math_rule XVR_TOKEN_DIVIDE = rule None (Some Fn_binary) PREC_FACTOR"
| "math_rule XVR_TOKEN_MODULO = rule None (Some Fn_binary) PREC_FACTOR"
| "math_rule XVR_TOKEN_PLUS_PLUS = rule (Some Fn_incrementPrefix) (Some Fn_incrementInfix) PREC_CALL"
| "math_rule XVR_TOKEN_MINUS_MINUS = rule (Some Fn_decrementPrefix) (Some Fn_decrementInfix) PREC_CALL"
| "math_rule _ = rule None (Some Fn_binary) PREC_ASSIGNMENT"

fun logic_rule :: "logic_token \<Rightarrow> parse_rule" where
  "logic_rule XVR_TOKEN_PAREN_LEFT = rule (Some Fn_grouping) (Some Fn_fnCall) PREC_CALL"
| "logic_rule XVR_TOKEN_PAREN_RIGHT = no_rule"
| "logic_rule XVR_TOKEN_BRACKET_LEFT = rule (Some Fn_compound) (Some Fn_indexAccess) PREC_CALL"
| "logic_rule XVR_TOKEN_BRACKET_RIGHT = no_rule"
| "logic_rule XVR_TOKEN_BRACE_LEFT = no_rule"
| "logic_rule XVR_TOKEN_BRACE_RIGHT = no_rule"
| "logic_rule XVR_TOKEN_NOT = rule (Some Fn_unary) None PREC_CALL"
| "logic_rule XVR_TOKEN_AND = rule None (Some Fn_binary) PREC_AND"
| "logic_rule XVR_TOKEN_OR = rule None (Some Fn_binary) PREC_OR"
| "logic_rule _ = rule None (Some Fn_binary) PREC_COMPARISON"

fun other_rule :: "other_token \<Rightarrow> parse_rule" where
  "other_rule XVR_TOKEN_QUESTION = rule None (Some Fn_question) PREC_TERNARY"
| "other_rule XVR_TOKEN_COLON_COLON = rule None (Some Fn_dot) PREC_CALL"
| "other_rule XVR_TOKEN_DOT = rule None (Some Fn_dot) PREC_CALL"
| "other_rule _ = no_rule"

fun getRule :: "token_type \<Rightarrow> parse_rule" where
  "getRule (TypeTok t) = type_rule t"
| "getRule (KeywordTok t) = keyword_rule t"
| "getRule (LiteralTok t) = literal_rule t"
| "getRule (MathTok t) = math_rule t"
| "getRule (LogicTok t) = logic_rule t"
| "getRule (OtherTok t) = other_rule t"
| "getRule (MetaTok t) = no_rule"

end
