(* ===== verification/ParserValues.thy ===== *)
theory ParserValues
  imports ParserState
begin

text \<open>
  The parts of src/src/xvr_parser.cpp that make values: literals and identifiers from tokens, type
  annotations, and the folding of constant operands. Handlers take the handle's value and return an
  opcode with the new one. \<open>NodeError\<close> is the type of the node that \<open>Xvr_scanParser\<close> returns for a
  line with an error, and never of a child; inside a tree it stands here for a child pointer that has
  not been written (see \<open>assertStmt\<close>).
\<close>

section \<open>Reports with a value\<close>

type_synonym handled = "(opcode \<times> ast option \<times> parser) outcome"

definition handled :: "parser \<Rightarrow> ast option \<Rightarrow> handled" where
  "handled p h = Done (XVR_OP_EOF, h, p)"

text \<open>\<open>error(...); return XVR_OP_EOF;\<close> with the handle as it was.\<close>

definition error_eof :: "parser \<Rightarrow> token \<Rightarrow> string \<Rightarrow> ast option \<Rightarrow> handled" where
  "error_eof p t msg h = andThen (error_at p t msg) (\<lambda>p. handled p h)"

section \<open>Strings\<close>

fun unescape :: "token \<Rightarrow> string \<Rightarrow> nat \<Rightarrow> string \<Rightarrow> parser \<Rightarrow> (string \<times> parser) outcome" where
  "unescape t cs 0 buffer p = Done (buffer, p)"
| "unescape t cs (Suc n) buffer p =
     (if char_at cs 0 \<noteq> BACKSLASH then unescape t (drop 1 cs) n (buffer @ [char_at cs 0]) p
      else let c = char_at cs 1
           in if c = CHR ''n'' then unescape t (drop 2 cs) (n - 1) (buffer @ [LF]) p
              else if c = CHR ''t'' then unescape t (drop 2 cs) (n - 1) (buffer @ [TAB]) p
              else if c = BACKSLASH then unescape t (drop 2 cs) (n - 1) (buffer @ [BACKSLASH]) p
              else if c = DQUOTE then unescape t (drop 2 cs) (n - 1) (buffer @ [DQUOTE]) p
              else andThen (error_at p t (''Unrecognized escape character '' @ [c] @ '' in string''))
                     (unescape t (drop 2 cs) (n - 1) buffer))"

definition XVR_MAX_STRING_LENGTH :: nat where "XVR_MAX_STRING_LENGTH = 4096"

definition string_literal :: "parser \<Rightarrow> ast option \<Rightarrow> handled" where
  "string_literal p h =
     (let t = pr_previous p
      in if tok_type t \<noteq> LiteralTok XVR_TOKEN_LITERAL_STRING then
           error_eof p t ''Unexpected token passed to string precedence rule'' h
         else case token_text p t of
                None \<Rightarrow> Undefined
              | Some cs \<Rightarrow>
                  andThen (unescape t cs (tok_length t) [] p) (\<lambda>(buffer, p).
                    andThen
                      (if length buffer > XVR_MAX_STRING_LENGTH
                       then error_at p t ''Strings can only be a maximum of 4096 characters long''
                       else Done p) (\<lambda>p.
                      handled p (Some (Xvr_emitASTNodeLiteral (Str (take XVR_MAX_STRING_LENGTH buffer)))))))"

section \<open>Numbers and constants\<close>

definition removeChar :: "string \<Rightarrow> char \<Rightarrow> string" where
  "removeChar lexeme c = filter (\<lambda>x. x \<noteq> c) lexeme"

text \<open>\<open>sscanf\<close> with an integer conversion: the digits at the start; a value that the target cannot hold
  is undefined.\<close>

definition scan_int :: "int \<Rightarrow> string \<Rightarrow> int outcome" where
  "scan_int bound s =
     (let n = digits_value (takeWhile is_digit_char s) in if n \<le> bound then Done n else Undefined)"

definition int_literal :: "(int \<Rightarrow> literal) \<Rightarrow> int \<Rightarrow> string \<Rightarrow> literal outcome" where
  "int_literal mk bound s = andThen (scan_int bound s) (\<lambda>n. Done (mk n))"

definition XVR_TO_FLOAT_LITERAL :: "32 word \<Rightarrow> literal" where
  "XVR_TO_FLOAT_LITERAL w = Bits XVR_LITERAL_FLOAT (ucast w)"

fun number_literal :: "literal_token \<Rightarrow> string \<Rightarrow> literal outcome" where
  "number_literal XVR_TOKEN_LITERAL_INTEGER s = int_literal (\<lambda>n. Xvr_toIntegerLiteralCpp (word_of_int n)) (2 ^ 31 - 1) s"
| "number_literal XVR_TOKEN_LITERAL_INT8 s = int_literal (\<lambda>n. Xvr_toInt8LiteralCpp (word_of_int n)) (2 ^ 7 - 1) s"
| "number_literal XVR_TOKEN_LITERAL_INT16 s = int_literal (\<lambda>n. Xvr_toInt16LiteralCpp (word_of_int n)) (2 ^ 15 - 1) s"
| "number_literal XVR_TOKEN_LITERAL_INT32 s = int_literal (\<lambda>n. Xvr_toInt32LiteralCpp (word_of_int n)) (2 ^ 31 - 1) s"
| "number_literal XVR_TOKEN_LITERAL_INT64 s = int_literal (\<lambda>n. Xvr_toInt64LiteralCpp (word_of_int n)) (2 ^ 63 - 1) s"
| "number_literal XVR_TOKEN_LITERAL_UINT8 s = int_literal (\<lambda>n. Xvr_toUInt8LiteralCpp (word_of_int n)) (2 ^ 8 - 1) s"
| "number_literal XVR_TOKEN_LITERAL_UINT16 s = int_literal (\<lambda>n. Xvr_toUInt16LiteralCpp (word_of_int n)) (2 ^ 16 - 1) s"
| "number_literal XVR_TOKEN_LITERAL_UINT32 s = int_literal (\<lambda>n. Xvr_toUInt32LiteralCpp (word_of_int n)) (2 ^ 32 - 1) s"
| "number_literal XVR_TOKEN_LITERAL_UINT64 s = int_literal (\<lambda>n. Xvr_toUInt64LiteralCpp (word_of_int n)) (2 ^ 64 - 1) s"
| "number_literal XVR_TOKEN_LITERAL_FLOAT s = Done (XVR_TO_FLOAT_LITERAL (scan_f32 s))"
| "number_literal XVR_TOKEN_LITERAL_FLOAT16 s = Done (Xvr_toFloat16LiteralCpp (f32_to_f16_bits (f64_to_f32 (scan_f64 s))))"
| "number_literal XVR_TOKEN_LITERAL_FLOAT32 s = Done (Xvr_toFloat32LiteralCpp (scan_f32 s))"
| "number_literal XVR_TOKEN_LITERAL_FLOAT64 s = Done (Xvr_toFloat64LiteralCpp (scan_f64 s))"
| "number_literal _ s = Undefined"

definition atomic :: "parser \<Rightarrow> ast option \<Rightarrow> handled" where
  "atomic p h =
     (let t = pr_previous p; emit = (\<lambda>p l. handled p (Some (Xvr_emitASTNodeLiteral l)))
      in case tok_type t of
           TypeTok XVR_TOKEN_NULL \<Rightarrow> emit p XVR_TO_NULL_LITERAL
         | LiteralTok XVR_TOKEN_LITERAL_TRUE \<Rightarrow> emit p (Xvr_toBoolLiteralCpp True)
         | LiteralTok XVR_TOKEN_LITERAL_FALSE \<Rightarrow> emit p (Xvr_toBoolLiteralCpp False)
         | KeywordTok XVR_TOKEN_TYPE \<Rightarrow>
             andThen (match_token p (KeywordTok XVR_TOKEN_CONST)) (\<lambda>(constant, p).
               emit p (Xvr_toTypeLiteralCpp XVR_LITERAL_TYPE constant))
         | LiteralTok k \<Rightarrow>
             (if k = XVR_TOKEN_IDENTIFIER \<or> k = XVR_TOKEN_LITERAL_STRING then
                error_eof p t ''Unexpected token passed to atomic precedence rule'' h
              else andThen (token_chars p t (tok_length t)) (\<lambda>lexeme.
                     andThen (number_literal k (removeChar lexeme CHR ''_'')) (emit p)))
         | _ \<Rightarrow> error_eof p t ''Unexpected token passed to atomic precedence rule'' h)"

section \<open>Identifiers\<close>

definition identifierOrKeyword :: "parser \<Rightarrow> ast option \<Rightarrow> handled" where
  "identifierOrKeyword p h =
     (let t = pr_previous p
      in andThen (token_chars p t (min 256 (tok_length t))) (\<lambda>s.
           handled p (Some (Xvr_emitASTNodeLiteral (Xvr_private_toIdentifierLiteral s)))))"

text \<open>The identifier literal of a token, after the report for a name that is too long.\<close>

definition name_of :: "parser \<Rightarrow> token \<Rightarrow> (literal \<times> parser) outcome" where
  "name_of p t =
     andThen
       (if tok_length t > 256
        then error_at p (pr_previous p) ''Identifiers can only be a maximum of 256 characters long''
        else Done p) (\<lambda>p.
       andThen (token_chars p t (min 256 (tok_length t))) (\<lambda>s.
         Done (Xvr_private_toIdentifierLiteral s, p)))"

definition identifier_rule :: "parser \<Rightarrow> ast option \<Rightarrow> handled" where
  "identifier_rule p h =
     (let t = pr_previous p
      in if tok_type t \<noteq> LiteralTok XVR_TOKEN_IDENTIFIER then error_eof p t ''Expected identifier'' h
         else andThen (name_of p t) (\<lambda>(i, p). handled p (Some (Xvr_emitASTNodeLiteral i))))"

section \<open>Types\<close>

fun getTypeFromToken :: "token_type \<Rightarrow> literal_type" where
  "getTypeFromToken (TypeTok XVR_TOKEN_BOOLEAN) = XVR_LITERAL_BOOLEAN"
| "getTypeFromToken (TypeTok XVR_TOKEN_INTEGER) = XVR_LITERAL_INTEGER"
| "getTypeFromToken (TypeTok XVR_TOKEN_INT8) = XVR_LITERAL_INT8"
| "getTypeFromToken (TypeTok XVR_TOKEN_INT16) = XVR_LITERAL_INT16"
| "getTypeFromToken (TypeTok XVR_TOKEN_INT32) = XVR_LITERAL_INT32"
| "getTypeFromToken (TypeTok XVR_TOKEN_INT64) = XVR_LITERAL_INT64"
| "getTypeFromToken (TypeTok XVR_TOKEN_UINT8) = XVR_LITERAL_UINT8"
| "getTypeFromToken (TypeTok XVR_TOKEN_UINT16) = XVR_LITERAL_UINT16"
| "getTypeFromToken (TypeTok XVR_TOKEN_UINT32) = XVR_LITERAL_UINT32"
| "getTypeFromToken (TypeTok XVR_TOKEN_UINT64) = XVR_LITERAL_UINT64"
| "getTypeFromToken (TypeTok XVR_TOKEN_FLOAT16) = XVR_LITERAL_FLOAT16"
| "getTypeFromToken (TypeTok XVR_TOKEN_FLOAT32) = XVR_LITERAL_FLOAT32"
| "getTypeFromToken (TypeTok XVR_TOKEN_FLOAT64) = XVR_LITERAL_FLOAT64"
| "getTypeFromToken (TypeTok XVR_TOKEN_FLOAT) = XVR_LITERAL_FLOAT"
| "getTypeFromToken (TypeTok XVR_TOKEN_STRING) = XVR_LITERAL_STRING"
| "getTypeFromToken _ = XVR_LITERAL_NULL"

text \<open>The types that \<open>readTypeToLiteral\<close> takes from one token.\<close>

fun simple_type :: "token_type \<Rightarrow> literal_type option" where
  "simple_type (TypeTok XVR_TOKEN_NULL) = Some XVR_LITERAL_NULL"
| "simple_type (TypeTok XVR_TOKEN_VOID) = Some XVR_LITERAL_VOID"
| "simple_type (TypeTok XVR_TOKEN_FUNCTION) = Some XVR_LITERAL_FUNCTION"
| "simple_type (TypeTok XVR_TOKEN_OPAQUE) = Some XVR_LITERAL_OPAQUE"
| "simple_type (TypeTok XVR_TOKEN_ANY) = Some XVR_LITERAL_ANY"
| "simple_type (TypeTok XVR_TOKEN_ARRAY) = None"
| "simple_type (TypeTok XVR_TOKEN_DICTIONARY) = None"
| "simple_type (TypeTok t) = Some (getTypeFromToken (TypeTok t))"
| "simple_type (KeywordTok XVR_TOKEN_TYPE) = Some XVR_LITERAL_TYPE"
| "simple_type _ = None"

text \<open>\<open>as.type.typeOf\<close> and \<open>as.type.constant\<close>: in an identifier the second lies beyond the hash.\<close>

fun set_type_of :: "literal_type \<Rightarrow> literal \<Rightarrow> literal" where
  "set_type_of t (Type u c ss k) = Type t c ss k"
| "set_type_of t l = l"

fun set_constant :: "literal \<Rightarrow> literal" where
  "set_constant (Type t c ss k) = Type t True ss k"
| "set_constant l = l"

fun readTypeToLiteral :: "nat \<Rightarrow> parser \<Rightarrow> (literal \<times> parser) outcome" where
  "readTypeToLiteral 0 p = Unfinished"
| "readTypeToLiteral (Suc n) p =
     andThen (advance_parser p) (\<lambda>p.
       let t = pr_previous p;
           literal = Xvr_toTypeLiteralCpp XVR_LITERAL_NULL False;
           finish = (\<lambda>(l, p).
             andThen (match_token p (KeywordTok XVR_TOKEN_CONST)) (\<lambda>(constant, p).
               Done (if constant then set_constant l else l, p)))
       in case simple_type (tok_type t) of
            Some ty \<Rightarrow> finish (set_type_of ty literal, p)
          | None \<Rightarrow>
              if tok_type t = LogicTok XVR_TOKEN_BRACKET_LEFT then
                andThen (readTypeToLiteral n p) (\<lambda>(l, p).
                  andThen (match_token p (OtherTok XVR_TOKEN_COLON)) (\<lambda>(pair, p).
                    andThen
                      (if pair then
                         andThen (readTypeToLiteral n p) (\<lambda>(r, p).
                           Done (set_type_of XVR_LITERAL_DICTIONARY
                                   (Xvr_private_typePushSubtype (Xvr_private_typePushSubtype literal l) r), p))
                       else Done (set_type_of XVR_LITERAL_ARRAY (Xvr_private_typePushSubtype literal l), p))
                      (\<lambda>(l, p).
                        andThen (consume p (LogicTok XVR_TOKEN_BRACKET_RIGHT)
                                   (''Expected '' @ quoted '']'' @ '' at end of type definition'')) (\<lambda>p.
                          finish (l, p)))))
              else if tok_type t = LiteralTok XVR_TOKEN_IDENTIFIER then andThen (name_of p t) finish
              else andThen (error_at p t ''Bad type signature'') (\<lambda>p. Done (XVR_TO_NULL_LITERAL, p)))"

declare readTypeToLiteral.simps [simp del]

definition asType :: "nat \<Rightarrow> parser \<Rightarrow> ast option \<Rightarrow> handled" where
  "asType n p h =
     andThen (readTypeToLiteral n p) (\<lambda>(l, p).
       if lit_type l \<noteq> XVR_LITERAL_TYPE
       then error_eof p (pr_previous p) (''Expected type after '' @ quoted ''astype'' @ '' keyword'') h
       else handled p (Some (Xvr_emitASTNodeLiteral l)))"

end
