(* ===== verification/ParserFold.thy ===== *)
theory ParserFold
  imports ParserValues
begin

text \<open>
  The rewriting that \<open>parsePrecedence\<close> does on the operators it has just built: constant folding, the
  folding of calls in the \<open>math\<close> namespace, and the operator of chained method calls.
\<close>

section \<open>Values\<close>

datatype fold =
    Folded literal
  | NotFolded
  | FoldError string
  | FoldUndefined

definition trunc_div :: "int \<Rightarrow> int \<Rightarrow> int" where
  "trunc_div a b = (if (a < 0) \<noteq> (b < 0) then - (\<bar>a\<bar> div \<bar>b\<bar>) else \<bar>a\<bar> div \<bar>b\<bar>)"

definition in_int :: "int \<Rightarrow> bool" where
  "in_int n \<longleftrightarrow> - (2 ^ 31) \<le> n \<and> n < 2 ^ 31"

text \<open>Signed overflow is undefined.\<close>

definition folded_int :: "int \<Rightarrow> fold" where
  "folded_int n = (if in_int n then Folded (Xvr_toIntegerLiteralCpp (word_of_int n)) else FoldUndefined)"

definition folded_bool :: "bool \<Rightarrow> fold" where
  "folded_bool b = Folded (Xvr_toBoolLiteralCpp b)"

definition folded_float :: "32 word \<Rightarrow> fold" where
  "folded_float w = Folded (XVR_TO_FLOAT_LITERAL w)"

definition bad_opcode :: string where
  "bad_opcode = ''[internal] bad opcode argument passed to calcStaticBinaryArithmetic()''"

fun fold_ints :: "opcode \<Rightarrow> int \<Rightarrow> int \<Rightarrow> fold" where
  "fold_ints XVR_OP_ADDITION a b = folded_int (a + b)"
| "fold_ints XVR_OP_SUBTRACTION a b = folded_int (a - b)"
| "fold_ints XVR_OP_MULTIPLICATION a b = folded_int (a * b)"
| "fold_ints XVR_OP_DIVISION a b =
     (if b = 0 then FoldError (''Can'' @ [CHR 0x27] @ ''t divide by zero (error found in constant folding)'')
      else folded_int (trunc_div a b))"
| "fold_ints XVR_OP_MODULO a b =
     (if b = 0 then FoldError (''Can'' @ [CHR 0x27] @ ''t modulo by zero (error found in constant folding)'')
      else if in_int (trunc_div a b) then folded_int (a - b * trunc_div a b) else FoldUndefined)"
| "fold_ints XVR_OP_COMPARE_EQUAL a b = folded_bool (a = b)"
| "fold_ints XVR_OP_COMPARE_NOT_EQUAL a b = folded_bool (a \<noteq> b)"
| "fold_ints XVR_OP_COMPARE_LESS a b = folded_bool (a < b)"
| "fold_ints XVR_OP_COMPARE_LESS_EQUAL a b = folded_bool (a \<le> b)"
| "fold_ints XVR_OP_COMPARE_GREATER a b = folded_bool (a > b)"
| "fold_ints XVR_OP_COMPARE_GREATER_EQUAL a b = folded_bool (a \<ge> b)"
| "fold_ints _ a b = FoldError bad_opcode"

fun fold_floats :: "opcode \<Rightarrow> 32 word \<Rightarrow> 32 word \<Rightarrow> fold" where
  "fold_floats XVR_OP_ADDITION a b = folded_float (f32_add a b)"
| "fold_floats XVR_OP_SUBTRACTION a b = folded_float (f32_sub a b)"
| "fold_floats XVR_OP_MULTIPLICATION a b = folded_float (f32_mul a b)"
| "fold_floats XVR_OP_DIVISION a b =
     (if f32_eq b 0 then FoldError (''Can'' @ [CHR 0x27] @ ''t divide by zero (error found in constant folding)'')
      else folded_float (f32_div a b))"
| "fold_floats XVR_OP_COMPARE_EQUAL a b = folded_bool (f32_eq a b)"
| "fold_floats XVR_OP_COMPARE_NOT_EQUAL a b = folded_bool (\<not> f32_eq a b)"
| "fold_floats XVR_OP_COMPARE_LESS a b = folded_bool (f32_less a b)"
| "fold_floats XVR_OP_COMPARE_LESS_EQUAL a b = folded_bool (f32_less_eq a b)"
| "fold_floats XVR_OP_COMPARE_GREATER a b = folded_bool (f32_less b a)"
| "fold_floats XVR_OP_COMPARE_GREATER_EQUAL a b = folded_bool (f32_less_eq b a)"
| "fold_floats _ a b = FoldError bad_opcode"

text \<open>The buffer of a concatenation has no room for a NUL after 4096 characters: the last one is lost
  to it, and the literal has the NUL as its last character.\<close>

definition fold_strings :: "string \<Rightarrow> string \<Rightarrow> fold" where
  "fold_strings a b =
     (if length (a @ b) > XVR_MAX_STRING_LENGTH
      then FoldError (''Can'' @ [CHR 0x27] @ ''t concatenate these strings, result is too long (error found in constant folding)'' @ [LF])
      else Folded (Str (if length (a @ b) = XVR_MAX_STRING_LENGTH then butlast (a @ b) @ [NUL] else a @ b)))"

definition is_string :: "literal \<Rightarrow> bool" where
  "is_string l \<longleftrightarrow> lit_type l = XVR_LITERAL_STRING"

fun string_content :: "literal \<Rightarrow> string" where
  "string_content (Str s) = s"
| "string_content _ = []"

abbreviation is_int :: "literal \<Rightarrow> bool" where "is_int l \<equiv> is_integer_type (lit_type l)"
abbreviation is_float :: "literal \<Rightarrow> bool" where "is_float l \<equiv> is_float_type (lit_type l)"

definition coerced :: "literal \<Rightarrow> literal \<Rightarrow> literal" where
  "coerced l other = (if is_int l \<and> is_float other then XVR_TO_FLOAT_LITERAL (int_to_f32 (XVR_AS_INTEGER l)) else l)"

definition fold_literals :: "opcode \<Rightarrow> literal \<Rightarrow> literal \<Rightarrow> fold" where
  "fold_literals op l r =
     (if is_string l \<and> is_string r \<and> op = XVR_OP_ADDITION then fold_strings (string_content l) (string_content r)
      else let a = coerced l r; b = coerced r l
           in if is_int a \<and> is_int b then fold_ints op (sint (XVR_AS_INTEGER a)) (sint (XVR_AS_INTEGER b))
              else if (is_float a \<or> is_float b) \<and> op = XVR_OP_MODULO then
                FoldError ''Bad arithmetic argument (modulo on floats not allowed)''
              else if is_float a \<and> is_float b then fold_floats op (XVR_AS_FLOAT a) (XVR_AS_FLOAT b)
              else NotFolded)"

section \<open>Trees\<close>

definition folds :: "opcode \<Rightarrow> bool" where
  "folds op \<longleftrightarrow> op \<in>
     {XVR_OP_ADDITION, XVR_OP_SUBTRACTION, XVR_OP_MULTIPLICATION, XVR_OP_DIVISION, XVR_OP_MODULO,
      XVR_OP_COMPARE_EQUAL, XVR_OP_COMPARE_NOT_EQUAL, XVR_OP_COMPARE_LESS, XVR_OP_COMPARE_LESS_EQUAL,
      XVR_OP_COMPARE_GREATER, XVR_OP_COMPARE_GREATER_EQUAL}"

fun is_binary :: "ast \<Rightarrow> bool" where
  "is_binary (NodeBinary op l r) = True"
| "is_binary _ = False"

definition fold_node :: "opcode \<Rightarrow> ast \<Rightarrow> ast \<Rightarrow> parser \<Rightarrow> (bool \<times> ast \<times> parser) outcome" where
  "fold_node op l r p =
     (case (l, r) of
        (NodeLiteral a, NodeLiteral b) \<Rightarrow>
          (case fold_literals op a b of
             Folded v \<Rightarrow> Done (True, NodeLiteral v, p)
           | NotFolded \<Rightarrow> Done (True, NodeBinary op (Some l) (Some r), p)
           | FoldError msg \<Rightarrow>
               andThen (error_at p (pr_previous p) msg) (\<lambda>p. Done (False, NodeBinary op (Some l) (Some r), p))
           | FoldUndefined \<Rightarrow> Undefined)
      | _ \<Rightarrow> Done (True, NodeBinary op (Some l) (Some r), p))"

fun calcStaticBinaryArithmetic :: "parser \<Rightarrow> ast \<Rightarrow> (bool \<times> ast \<times> parser) outcome" where
  "calcStaticBinaryArithmetic p (NodeBinary op (Some l) (Some r)) =
     (if \<not> folds op then Done (True, NodeBinary op (Some l) (Some r), p)
      else andThen (if is_binary l then calcStaticBinaryArithmetic p l else Done (True, l, p)) (\<lambda>(_, l', p').
             andThen (if is_binary r then calcStaticBinaryArithmetic p' r else Done (True, r, p')) (\<lambda>(_, r', p'').
               fold_node op l' r' p'')))"
| "calcStaticBinaryArithmetic p (NodeBinary op l r) =
     (if \<not> folds op then Done (True, NodeBinary op l r, p)
      else case l of
             Some l' \<Rightarrow>
               if is_binary l' then andThen (calcStaticBinaryArithmetic p l') (\<lambda>_. Undefined) else Undefined
           | None \<Rightarrow> Undefined)"
| "calcStaticBinaryArithmetic p n = Undefined"

text \<open>
  \<open>calcStaticMathFn\<close>. Before it looks at the function's name the code reads \<open>binary.left\<close> of the call
  node: that member lies where \<open>fnCall.arguments\<close> does, so what it finds there is the argument
  collection, which is not a literal, and it returns.
\<close>

definition calcStaticMathFn :: "ast option \<Rightarrow> ast option outcome" where
  "calcStaticMathFn h =
     (case h of
        Some (NodeBinary op l r) \<Rightarrow>
          if op \<noteq> XVR_OP_DOT then Done h
          else (case l of
                  None \<Rightarrow> Undefined
                | Some (NodeLiteral name) \<Rightarrow>
                    if lit_type name \<noteq> XVR_LITERAL_IDENTIFIER then Done h
                    else (case identifier_text name of
                            None \<Rightarrow> Undefined
                          | Some None \<Rightarrow> Undefined
                          | Some (Some s) \<Rightarrow>
                              if s \<noteq> ''math'' then Done h
                              else (case r of
                                      None \<Rightarrow> Undefined
                                    | Some (NodeFnCall arguments n) \<Rightarrow> Done h
                                    | Some _ \<Rightarrow> Done h))
                | Some _ \<Rightarrow> Done h)
      | _ \<Rightarrow> Done h)"

section \<open>Method calls\<close>

fun dottify :: "ast \<Rightarrow> ast outcome" where
  "dottify (NodeBinary op (Some l) (Some r)) =
     andThen
       (if op = XVR_OP_FN_CALL then
          (case r of
             NodeFnCall arguments n \<Rightarrow> Done (XVR_OP_DOT, NodeFnCall arguments (Suc n))
           | _ \<Rightarrow> Undefined)
        else Done (op, r)) (\<lambda>(op', r').
       andThen (dottify l) (\<lambda>l'.
         andThen (if op = XVR_OP_FN_CALL then Done r' else dottify r) (\<lambda>r''.
           Done (NodeBinary op' (Some l') (Some r'')))))"
| "dottify (NodeBinary op l r) = Undefined"
| "dottify n = Done n"

text \<open>
  Whether \<open>binary.right\<close>, the pointer at offset 16 of a node, is there: for a node of another type
  it is what that type has at this place on x86-64 (in a literal, the second eight bytes of its
  union, which are zero for scalars and strings and hold an identifier's hash); None where the node
  has nothing there.
\<close>

fun literal_second_word :: "literal \<Rightarrow> bool option" where
  "literal_second_word (Bits t w) = Some False"
| "literal_second_word (Str s) = Some False"
| "literal_second_word (Arr t xs c) = Some False"
| "literal_second_word (Dict es c n) = Some False"
| "literal_second_word (Ident s h) = (if h \<noteq> 0 then Some True else None)"
| "literal_second_word (Type t c ss k) =
     Some (literal_type_code t \<noteq> 0 \<or> k \<noteq> 0 \<or> ss \<noteq> [] \<or> c)"
| "literal_second_word (Opaque q t) = (if t \<noteq> 0 then Some True else None)"

fun has_right :: "ast \<Rightarrow> bool option" where
  "has_right (NodeBinary op l r) = Some (r \<noteq> None)"
| "has_right (NodeLiteral l) = literal_second_word l"
| "has_right (NodeTernary c t e) = Some (t \<noteq> None)"
| "has_right (NodeCompound t xs cap) = Some (cap \<noteq> 0 \<or> xs \<noteq> [])"
| "has_right (NodePair l r) = Some (r \<noteq> None)"
| "has_right (NodeIndex a b c) = Some (b \<noteq> None)"
| "has_right (NodeIf c t e r x) = Some (t \<noteq> None)"
| "has_right (NodePrefixIncrement i) = literal_second_word i"
| "has_right (NodePostfixIncrement i) = literal_second_word i"
| "has_right (NodePrefixDecrement i) = literal_second_word i"
| "has_right (NodePostfixDecrement i) = literal_second_word i"
| "has_right (NodeCast t e) = literal_second_word t"
| "has_right _ = None"

section \<open>Pointers that were not written\<close>

text \<open>Releasing a tree with such a pointer is undefined.\<close>

fun unwritten :: "ast \<Rightarrow> bool"
  and unwritten_child :: "ast option \<Rightarrow> bool"
  and unwritten_list :: "ast list \<Rightarrow> bool" where
  "unwritten node =
     (case node of
        NodeError \<Rightarrow> True
      | NodeUnary op c \<Rightarrow> unwritten_child c
      | NodeBinary op l r \<Rightarrow> unwritten_child l \<or> unwritten_child r
      | NodeTernary c t e \<Rightarrow> unwritten_child c \<or> unwritten_child t \<or> unwritten_child e
      | NodeGrouping c \<Rightarrow> unwritten_child c
      | NodeBlock xs cap \<Rightarrow> unwritten_list xs
      | NodeCompound lt xs cap \<Rightarrow> unwritten_list xs
      | NodePair l r \<Rightarrow> unwritten_child l \<or> unwritten_child r
      | NodeIndex a b c \<Rightarrow> unwritten_child a \<or> unwritten_child b \<or> unwritten_child c
      | NodeVarDecl i ty e line \<Rightarrow> unwritten_child e
      | NodeFnDecl i a r b line \<Rightarrow> unwritten_child a \<or> unwritten_child r \<or> unwritten_child b
      | NodeFnCollection xs cap \<Rightarrow> unwritten_list xs
      | NodeFnCall a n \<Rightarrow> unwritten_child a
      | NodeFnReturn r \<Rightarrow> unwritten_child r
      | NodeIf c t e r x \<Rightarrow> unwritten_child c \<or> unwritten_child t \<or> unwritten_child e
      | NodeWhile c t \<Rightarrow> unwritten_child c \<or> unwritten_child t
      | NodeFor pre c post t \<Rightarrow>
          unwritten_child pre \<or> unwritten_child c \<or> unwritten_child post \<or> unwritten_child t
      | NodeCast ty e \<Rightarrow> unwritten_child e
      | _ \<Rightarrow> False)"
| "unwritten_child None = False"
| "unwritten_child (Some c) = unwritten c"
| "unwritten_list [] = False"
| "unwritten_list (x # xs) = (unwritten x \<or> unwritten_list xs)"

declare unwritten.simps [simp del]

definition free_handle :: "ast option \<Rightarrow> parser \<Rightarrow> parser outcome" where
  "free_handle h p = (if unwritten_child h then Undefined else Done p)"

end
