(* ===== verification/Parser.thy ===== *)
theory Parser
  imports ParserFold
begin

text \<open>
  The grammar of src/src/xvr_parser.cpp: the handlers of the Pratt table, the statements and the
  declarations. The two procedures that everything recurses through, \<open>parsePrecedence\<close> and
  \<open>declaration\<close>, are parameters \<open>pp\<close> and \<open>pd\<close> of the handlers, so that each handler stands alone; they
  are tied together at the end by recursion on a fuel that bounds the depth of the calls and, as the
  number \<open>n\<close>, the rounds of each loop.
\<close>

type_synonym pp = "parser \<Rightarrow> ast option \<Rightarrow> prec \<Rightarrow> (ast option \<times> parser) outcome"
type_synonym pd = "parser \<Rightarrow> ast option \<Rightarrow> (ast option \<times> parser) outcome"

abbreviation NULL :: "ast option" where "NULL \<equiv> None"

section \<open>Growing arrays\<close>

definition grown :: "nat \<Rightarrow> nat \<Rightarrow> nat" where
  "grown capacity used = (if capacity < used + 1 then XVR_GROW_CAPACITY capacity else capacity)"

section \<open>Prefix rules\<close>

definition typeOf :: "pp \<Rightarrow> parser \<Rightarrow> ast option \<Rightarrow> handled" where
  "typeOf pp p h =
     andThen (pp p NULL PREC_TERNARY) (\<lambda>(rhs, p).
       handled p (Some (Xvr_emitASTNodeUnary XVR_OP_TYPE_OF rhs)))"

definition freed :: "ast list \<Rightarrow> parser \<Rightarrow> parser outcome" where
  "freed xs p = (if unwritten_list xs then Undefined else Done p)"

text \<open>The loop of \<open>compound\<close>; the first flag says whether the brackets are empty so far.\<close>

fun compound_loop ::
    "pp \<Rightarrow> nat \<Rightarrow> bool \<Rightarrow> (ast list \<times> nat) option \<Rightarrow> (ast list \<times> nat) option \<Rightarrow> parser \<Rightarrow> ast option \<Rightarrow> handled" where
  "compound_loop pp 0 start array dictionary p h = Unfinished"
| "compound_loop pp (Suc n) start array dictionary p h =
     andThen (match_token p (LogicTok XVR_TOKEN_BRACKET_RIGHT)) (\<lambda>(closed, p).
       let result = (\<lambda>array dictionary p. handled p (Some
             (case (array, dictionary) of
                (Some (xs, c), _) \<Rightarrow> NodeCompound XVR_LITERAL_ARRAY xs c
              | (None, Some (xs, c)) \<Rightarrow> NodeCompound XVR_LITERAL_DICTIONARY xs c
              | (None, None) \<Rightarrow> Xvr_emitASTNodeCompound XVR_LITERAL_ARRAY)))
       in if closed then result array dictionary p
          else andThen (if start then match_token p (OtherTok XVR_TOKEN_COLON) else Done (False, p)) (\<lambda>(empty, p).
            if empty then
              andThen (consume p (LogicTok XVR_TOKEN_BRACKET_RIGHT)
                         (''Expected '' @ quoted '']'' @ '' at the end of empty dictionary definition'')) (\<lambda>p.
                result array (Some ([], 0)) p)
            else andThen (if start then Done p
                          else consume p (OtherTok XVR_TOKEN_COMMA) (''Expected '' @ quoted '','' @ '' in array or dictionary'')) (\<lambda>p.
              andThen (pp p NULL PREC_PRIMARY) (\<lambda>(left, p).
                case left of
                  None \<Rightarrow> handled p h
                | Some l \<Rightarrow>
                    andThen (match_token p (OtherTok XVR_TOKEN_COLON)) (\<lambda>(pair, p).
                      if pair then
                        andThen (pp p NULL PREC_PRIMARY) (\<lambda>(right, p).
                          case right of
                            None \<Rightarrow> andThen (free_handle left p) (\<lambda>p. handled p h)
                          | Some r \<Rightarrow>
                              if array \<noteq> None then
                                andThen (freed (fst (the array) @ [l, r]) p) (\<lambda>p.
                                  error_eof p (pr_previous p) ''Incorrect detection between array and dictionary'' h)
                              else let (xs, c) = (case dictionary of None \<Rightarrow> ([], 0) | Some d \<Rightarrow> d)
                                   in compound_loop pp n False array
                                        (Some (xs @ [Xvr_setASTNodePair left right], grown c (length xs))) p h)
                      else if dictionary \<noteq> None then
                        andThen (freed (fst (the dictionary) @ [l]) p) (\<lambda>p.
                          error_eof p (pr_current p) ''Incorrect detection between array and dictionary'' h)
                      else let (xs, c) = (case array of None \<Rightarrow> ([], 0) | Some d \<Rightarrow> d)
                           in compound_loop pp n False (Some (xs @ [l], grown c (length xs))) dictionary p h)))))"

definition compound :: "pp \<Rightarrow> nat \<Rightarrow> parser \<Rightarrow> ast option \<Rightarrow> handled" where
  "compound pp n p h = compound_loop pp n True None None p h"

definition grouping :: "pp \<Rightarrow> parser \<Rightarrow> ast option \<Rightarrow> handled" where
  "grouping pp p h =
     (if prev_type p = LogicTok XVR_TOKEN_PAREN_LEFT then
        andThen (pp p h PREC_TERNARY) (\<lambda>(h, p).
          andThen (consume p (LogicTok XVR_TOKEN_PAREN_RIGHT) (''Expected '' @ quoted '')'' @ '' at end of grouping'')) (\<lambda>p.
            handled p (Some (Xvr_emitASTNodeGrouping h))))
      else error_eof p (pr_previous p) ''Unexpected token passed to grouping precedence rule'' h)"

text \<open>Negating the least integer overflows.\<close>

definition negated :: "literal \<Rightarrow> literal outcome" where
  "negated l =
     (if is_int l then
        (let n = - sint (XVR_AS_INTEGER l)
         in if in_int n then Done (Xvr_toIntegerLiteralCpp (word_of_int n)) else Undefined)
      else Done (XVR_TO_FLOAT_LITERAL (f32_neg (XVR_AS_FLOAT l))))"

definition unary :: "pp \<Rightarrow> parser \<Rightarrow> ast option \<Rightarrow> handled" where
  "unary pp p h =
     (if prev_type p = MathTok XVR_TOKEN_MINUS then
        andThen (pp p NULL PREC_TERM) (\<lambda>(tmp, p).
          case tmp of
            Some (NodeLiteral l) \<Rightarrow>
              if is_int l \<or> is_float l then
                andThen (negated l) (\<lambda>l'. handled p (Some (NodeLiteral l')))
              else if lit_type l = XVR_LITERAL_BOOLEAN then
                error_eof p (pr_previous p) ''Negative booleans are not allowed'' h
              else handled p (Some (Xvr_emitASTNodeUnary XVR_OP_NEGATE tmp))
          | _ \<Rightarrow> handled p (Some (Xvr_emitASTNodeUnary XVR_OP_NEGATE tmp)))
      else if prev_type p = LogicTok XVR_TOKEN_NOT then
        andThen (pp p NULL PREC_CALL) (\<lambda>(tmp, p).
          case tmp of
            Some (NodeLiteral l) \<Rightarrow>
              if lit_type l = XVR_LITERAL_BOOLEAN then
                handled p (Some (NodeLiteral (Xvr_toBoolLiteralCpp (\<not> XVR_AS_BOOLEAN l))))
              else handled p (Some (Xvr_emitASTNodeUnary XVR_OP_INVERT tmp))
          | _ \<Rightarrow> handled p (Some (Xvr_emitASTNodeUnary XVR_OP_INVERT tmp)))
      else error_eof p (pr_previous p) ''Unexpected token passed to unary precedence rule'' h)"

definition expression :: "pp \<Rightarrow> parser \<Rightarrow> ast option \<Rightarrow> (ast option \<times> parser) outcome" where
  "expression pp p h = pp p h PREC_ASSIGNMENT"

definition castingPrefix :: "pp \<Rightarrow> parser \<Rightarrow> ast option \<Rightarrow> handled" where
  "castingPrefix pp p h =
     (let tokenType = prev_type p
      in if cur_type p = LogicTok XVR_TOKEN_PAREN_LEFT then
           andThen (consume p (LogicTok XVR_TOKEN_PAREN_LEFT) (''Expected '' @ quoted ''('' @ '' after type'')) (\<lambda>p.
             andThen (expression pp p NULL) (\<lambda>(expr, p).
               if pr_panic p \<or> expr = NULL then andThen (free_handle expr p) (\<lambda>p. handled p h)
               else andThen (consume p (LogicTok XVR_TOKEN_PAREN_RIGHT) (''Expected '' @ quoted '')'' @ '' after expression'')) (\<lambda>p.
                 Done (XVR_OP_CAST,
                   Some (Xvr_emitASTNodeCast (Xvr_toTypeLiteralCpp (getTypeFromToken tokenType) False) expr), p))))
         else if getTypeFromToken tokenType = XVR_LITERAL_NULL then
           error_eof p (pr_previous p) ''Unexpected token passed to casting precedence rule'' h
         else handled p (Some (Xvr_emitASTNodeLiteral (Xvr_toTypeLiteralCpp (getTypeFromToken tokenType) False))))"

text \<open>The two prefix rules for \<open>++\<close> and \<open>--\<close>, with the function that emits their node.\<close>

definition stepPrefix :: "(literal \<Rightarrow> ast) \<Rightarrow> parser \<Rightarrow> ast option \<Rightarrow> handled" where
  "stepPrefix emit p h =
     andThen (advance_parser p) (\<lambda>p.
       andThen (identifier_rule p NULL) (\<lambda>(_, tmp, p).
         if pr_panic p then handled p h
         else case tmp of
                Some (NodeLiteral l) \<Rightarrow> handled p (Some (emit l))
              | _ \<Rightarrow> handled p h))"

definition incrementPrefix :: "parser \<Rightarrow> ast option \<Rightarrow> handled" where
  "incrementPrefix = stepPrefix Xvr_emitASTNodePrefixIncrement"

definition decrementPrefix :: "parser \<Rightarrow> ast option \<Rightarrow> handled" where
  "decrementPrefix = stepPrefix Xvr_emitASTNodePrefixDecrement"

section \<open>Infix rules\<close>

text \<open>The opcode of a binary operator and the precedence its right operand is parsed with: its own.\<close>

fun binary_operator :: "token_type \<Rightarrow> (opcode \<times> prec) option" where
  "binary_operator (MathTok XVR_TOKEN_PLUS) = Some (XVR_OP_ADDITION, PREC_TERM)"
| "binary_operator (MathTok XVR_TOKEN_MINUS) = Some (XVR_OP_SUBTRACTION, PREC_TERM)"
| "binary_operator (MathTok XVR_TOKEN_MULTIPLY) = Some (XVR_OP_MULTIPLICATION, PREC_FACTOR)"
| "binary_operator (MathTok XVR_TOKEN_DIVIDE) = Some (XVR_OP_DIVISION, PREC_FACTOR)"
| "binary_operator (MathTok XVR_TOKEN_MODULO) = Some (XVR_OP_MODULO, PREC_FACTOR)"
| "binary_operator (MathTok XVR_TOKEN_ASSIGN) = Some (XVR_OP_VAR_ASSIGN, PREC_ASSIGNMENT)"
| "binary_operator (MathTok XVR_TOKEN_PLUS_ASSIGN) = Some (XVR_OP_VAR_ADDITION_ASSIGN, PREC_ASSIGNMENT)"
| "binary_operator (MathTok XVR_TOKEN_MINUS_ASSIGN) = Some (XVR_OP_VAR_SUBTRACTION_ASSIGN, PREC_ASSIGNMENT)"
| "binary_operator (MathTok XVR_TOKEN_MULTIPLY_ASSIGN) = Some (XVR_OP_VAR_MULTIPLICATION_ASSIGN, PREC_ASSIGNMENT)"
| "binary_operator (MathTok XVR_TOKEN_DIVIDE_ASSIGN) = Some (XVR_OP_VAR_DIVISION_ASSIGN, PREC_ASSIGNMENT)"
| "binary_operator (MathTok XVR_TOKEN_MODULO_ASSIGN) = Some (XVR_OP_VAR_MODULO_ASSIGN, PREC_ASSIGNMENT)"
| "binary_operator (LogicTok XVR_TOKEN_EQUAL) = Some (XVR_OP_COMPARE_EQUAL, PREC_COMPARISON)"
| "binary_operator (LogicTok XVR_TOKEN_NOT_EQUAL) = Some (XVR_OP_COMPARE_NOT_EQUAL, PREC_COMPARISON)"
| "binary_operator (LogicTok XVR_TOKEN_LESS) = Some (XVR_OP_COMPARE_LESS, PREC_COMPARISON)"
| "binary_operator (LogicTok XVR_TOKEN_LESS_EQUAL) = Some (XVR_OP_COMPARE_LESS_EQUAL, PREC_COMPARISON)"
| "binary_operator (LogicTok XVR_TOKEN_GREATER) = Some (XVR_OP_COMPARE_GREATER, PREC_COMPARISON)"
| "binary_operator (LogicTok XVR_TOKEN_GREATER_EQUAL) = Some (XVR_OP_COMPARE_GREATER_EQUAL, PREC_COMPARISON)"
| "binary_operator (LogicTok XVR_TOKEN_AND) = Some (XVR_OP_AND, PREC_AND)"
| "binary_operator (LogicTok XVR_TOKEN_OR) = Some (XVR_OP_OR, PREC_OR)"
| "binary_operator _ = None"

definition binary :: "pp \<Rightarrow> parser \<Rightarrow> ast option \<Rightarrow> handled" where
  "binary pp p h =
     andThen (advance_parser p) (\<lambda>p.
       case binary_operator (prev_type p) of
         None \<Rightarrow> error_eof p (pr_previous p) ''Unexpected token passed to binary precedence rule'' h
       | Some (op, prec) \<Rightarrow> andThen (pp p h prec) (\<lambda>(h, p). Done (op, h, p)))"

definition castingInfix :: "parser \<Rightarrow> ast option \<Rightarrow> handled" where
  "castingInfix p h =
     andThen (advance_parser p) (\<lambda>p.
       if prev_type p = LiteralTok XVR_TOKEN_IDENTIFIER then
         andThen (identifier_rule p h) (\<lambda>(_, h, p). Done (XVR_OP_TYPE_CAST, h, p))
       else if prev_type p \<in> LiteralTok ` {XVR_TOKEN_LITERAL_TRUE, XVR_TOKEN_LITERAL_FALSE,
                 XVR_TOKEN_LITERAL_INTEGER, XVR_TOKEN_LITERAL_FLOAT, XVR_TOKEN_LITERAL_STRING} then
         andThen (atomic p h) (\<lambda>(_, h, p). Done (XVR_OP_TYPE_CAST, h, p))
       else error_eof p (pr_previous p) ''Unexpected token passed to casting infix precedence rule'' h)"

definition stepInfix :: "(literal \<Rightarrow> ast) \<Rightarrow> parser \<Rightarrow> ast option \<Rightarrow> handled" where
  "stepInfix emit p h =
     andThen (identifier_rule p NULL) (\<lambda>(_, tmp, p).
       if pr_panic p then handled p h
       else case tmp of
              Some (NodeLiteral l) \<Rightarrow> andThen (advance_parser p) (\<lambda>p. handled p (Some (emit l)))
            | _ \<Rightarrow> handled p h)"

definition incrementInfix :: "parser \<Rightarrow> ast option \<Rightarrow> handled" where
  "incrementInfix = stepInfix Xvr_emitASTNodePostfixIncrement"

definition decrementInfix :: "parser \<Rightarrow> ast option \<Rightarrow> handled" where
  "decrementInfix = stepInfix Xvr_emitASTNodePostfixDecrement"

text \<open>
  The loop over a comma-separated list of expressions in \<open>fnCall\<close> and \<open>returnStmt\<close>: the collection,
  or None when an expression was missing, which is reported.
\<close>

fun expressions_loop ::
    "pp \<Rightarrow> nat \<Rightarrow> string \<Rightarrow> ast list \<Rightarrow> nat \<Rightarrow> parser \<Rightarrow> (ast option \<times> parser) outcome" where
  "expressions_loop pp 0 msg xs c p = Unfinished"
| "expressions_loop pp (Suc n) msg xs c p =
     andThen (pp p NULL PREC_TERNARY) (\<lambda>(tmp, p).
       case tmp of
         None \<Rightarrow> andThen (error_at p (pr_previous p) msg) (\<lambda>p. Done (None, p))
       | Some x \<Rightarrow>
           andThen (match_token p (OtherTok XVR_TOKEN_COMMA)) (\<lambda>(more, p).
             if more then expressions_loop pp n msg (xs @ [x]) (grown c (length xs)) p
             else Done (Some (NodeFnCollection (xs @ [x]) (grown c (length xs))), p)))"

definition fnCall :: "pp \<Rightarrow> nat \<Rightarrow> parser \<Rightarrow> ast option \<Rightarrow> handled" where
  "fnCall pp n p h =
     andThen (advance_parser p) (\<lambda>p.
       if prev_type p = LogicTok XVR_TOKEN_PAREN_LEFT then
         andThen (match_token p (LogicTok XVR_TOKEN_PAREN_RIGHT)) (\<lambda>(empty, p).
           let call = (\<lambda>arguments p.
                 case Xvr_emitASTNodeFnCall arguments of
                   None \<Rightarrow> Undefined
                 | Some node \<Rightarrow> Done (XVR_OP_FN_CALL, Some node, p))
           in if empty then call (Some Xvr_emitASTNodeFnCollection) p
              else andThen (expressions_loop pp n ''[internal] No token found in fnCall'' [] 0 p) (\<lambda>(arguments, p).
                     if arguments = None then handled p h
                     else andThen (consume p (LogicTok XVR_TOKEN_PAREN_RIGHT)
                                     (''Expected '' @ quoted '')'' @ '' at end of argument list'')) (call arguments)))
       else error_eof p (pr_previous p) ''Unexpected token passed to function call precedence rule'' h)"

definition blank :: "ast option" where
  "blank = Some (Xvr_emitASTNodeLiteral Xvr_toIndexBlankLiteralCpp)"

text \<open>One part of an index: nothing but a colon leaves it blank. The flag says whether it was read; a
  freed node's handle is what \<open>parsePrecedence\<close> starts from.\<close>

definition index_part :: "pp \<Rightarrow> parser \<Rightarrow> (bool \<times> ast option \<times> parser) outcome" where
  "index_part pp p =
     andThen (match_token p (OtherTok XVR_TOKEN_COLON)) (\<lambda>(colon, p).
       if colon then Done (False, blank, p)
       else andThen (pp p (Some NodeError) PREC_TERNARY) (\<lambda>(node, p).
              andThen (match_token p (OtherTok XVR_TOKEN_COLON)) (\<lambda>(_, p). Done (True, node, p))))"

definition indexAccess :: "pp \<Rightarrow> parser \<Rightarrow> ast option \<Rightarrow> handled" where
  "indexAccess pp p h =
     andThen (advance_parser p) (\<lambda>p.
       andThen (index_part pp p) (\<lambda>(readFirst, first, p).
         andThen (match_token p (LogicTok XVR_TOKEN_BRACKET_RIGHT)) (\<lambda>(closed, p).
           if closed then
             Done (XVR_OP_INDEX, Some (Xvr_emitASTNodeIndex first (if readFirst then NULL else blank) NULL), p)
           else andThen (index_part pp p) (\<lambda>(_, second, p).
             andThen (match_token p (LogicTok XVR_TOKEN_BRACKET_RIGHT)) (\<lambda>(closed, p).
               if closed then Done (XVR_OP_INDEX, Some (Xvr_emitASTNodeIndex first second NULL), p)
               else andThen (pp p (Some NodeError) PREC_TERNARY) (\<lambda>(third, p).
                 andThen (consume p (LogicTok XVR_TOKEN_BRACKET_RIGHT) (''Expected '' @ quoted '']'' @ '' in index notation'')) (\<lambda>p.
                   Done (XVR_OP_INDEX, Some (Xvr_emitASTNodeIndex first second third), p))))))))"

definition question :: "pp \<Rightarrow> parser \<Rightarrow> ast option \<Rightarrow> handled" where
  "question pp p h =
     andThen (advance_parser p) (\<lambda>p.
       andThen (pp p NULL PREC_TERNARY) (\<lambda>(thenPath, p).
         andThen (consume p (OtherTok XVR_TOKEN_COLON) (''Expected '' @ quoted '':'' @ '' in ternary expression'')) (\<lambda>p.
           andThen (pp p NULL PREC_TERNARY) (\<lambda>(elsePath, p).
             Done (XVR_OP_TERNARY, Some (Xvr_emitASTNodeTernary NULL thenPath elsePath), p)))))"

definition dot :: "pp \<Rightarrow> parser \<Rightarrow> ast option \<Rightarrow> handled" where
  "dot pp p h =
     andThen (advance_parser p) (\<lambda>p.
       andThen (pp p NULL PREC_CALL) (\<lambda>(tmp, p).
         let fail = error_eof p (pr_previous p) ''Expected function call after dot operator'' h
         in case tmp of
              None \<Rightarrow> fail
            | Some node \<Rightarrow>
                (case has_right node of
                   None \<Rightarrow> Undefined
                 | Some False \<Rightarrow> fail
                 | Some True \<Rightarrow> Done (XVR_OP_DOT, tmp, p))))"

section \<open>Statements\<close>

text \<open>
  The declarations up to a closing brace, in \<open>blockStmt\<close> and in both branches of \<open>parseIfChain\<close>. The
  flag is false when the loop is left in panic mode.
\<close>

fun block_loop :: "pd \<Rightarrow> nat \<Rightarrow> ast list \<Rightarrow> nat \<Rightarrow> parser \<Rightarrow> (bool \<times> ast \<times> parser) outcome" where
  "block_loop pd 0 xs c p = Unfinished"
| "block_loop pd (Suc n) xs c p =
     andThen (match_token p (LogicTok XVR_TOKEN_BRACE_RIGHT)) (\<lambda>(closed, p).
       if closed then Done (True, NodeBlock xs c, p)
       else andThen (pd p NULL) (\<lambda>(tmp, p).
              if pr_panic p then Done (False, NodeBlock xs (grown c (length xs)), p)
              else case tmp of
                     None \<Rightarrow> Undefined
                   | Some x \<Rightarrow> block_loop pd n (xs @ [x]) (grown c (length xs)) p))"

definition blockStmt :: "pd \<Rightarrow> nat \<Rightarrow> parser \<Rightarrow> (ast option \<times> parser) outcome" where
  "blockStmt pd n p = andThen (block_loop pd n [] 0 p) (\<lambda>(_, block, p). Done (Some block, p))"

text \<open>Never called: \<open>print\<close> is parsed as an identifier.\<close>

fun print_loop :: "pp \<Rightarrow> nat \<Rightarrow> ast list \<Rightarrow> nat \<Rightarrow> parser \<Rightarrow> (ast \<times> parser) outcome" where
  "print_loop pp 0 xs c p = Unfinished"
| "print_loop pp (Suc n) xs c p =
     andThen (expression pp p NULL) (\<lambda>(arg, p).
       case arg of
         None \<Rightarrow> Undefined
       | Some x \<Rightarrow>
           let xs' = xs @ [x]; c' = (if length xs \<ge> c then XVR_GROW_CAPACITY c else c)
           in andThen (match_token p (OtherTok XVR_TOKEN_COMMA)) (\<lambda>(more, p).
                if more then print_loop pp n xs' c' p else Done (NodeCompound XVR_LITERAL_ARRAY xs' c', p)))"

definition printStmt :: "pp \<Rightarrow> nat \<Rightarrow> parser \<Rightarrow> (ast option \<times> parser) outcome" where
  "printStmt pp n p =
     andThen (consume p (LogicTok XVR_TOKEN_PAREN_LEFT) (''Expected '' @ quoted ''('' @ '' after '' @ quoted ''print'')) (\<lambda>p.
       andThen (expression pp p NULL) (\<lambda>(node, p).
         andThen (match_token p (OtherTok XVR_TOKEN_COMMA)) (\<lambda>(more, p).
           andThen
             (if more then
                (case node of
                   None \<Rightarrow> Undefined
                 | Some x \<Rightarrow>
                     andThen (print_loop pp n [x] 2 p) (\<lambda>(arguments, p).
                       Done (Some (NodeBinary XVR_OP_PRINTF (Some arguments) NULL), p)))
              else Done (Some (Xvr_emitASTNodeUnary XVR_OP_PRINT node), p)) (\<lambda>(h, p).
             andThen (consume p (LogicTok XVR_TOKEN_PAREN_RIGHT) (''Expected '' @ quoted '')'' @ '' after expression'')) (\<lambda>p.
               andThen (consumeSemicolon p) (\<lambda>p. Done (h, p)))))))"

text \<open>The node is allocated but not cleared: its operands are unwritten until \<open>parsePrecedence\<close> sets them.\<close>

definition assertStmt :: "pp \<Rightarrow> parser \<Rightarrow> (ast option \<times> parser) outcome" where
  "assertStmt pp p =
     andThen (pp p (Some NodeError) PREC_TERNARY) (\<lambda>(left, p).
       andThen (consume p (OtherTok XVR_TOKEN_COMMA) (''Expected '' @ quoted '','' @ '' in assert statement'')) (\<lambda>p.
         andThen (pp p (Some NodeError) PREC_TERNARY) (\<lambda>(right, p).
           andThen (consumeSemicolon p) (\<lambda>p.
             Done (Some (NodeBinary XVR_OP_ASSERT left right), p)))))"

text \<open>A branch: a block when there is a brace, a declaration otherwise; the flag is false for \<open>return NULL\<close>.\<close>

definition if_branch :: "pd \<Rightarrow> nat \<Rightarrow> parser \<Rightarrow> (bool \<times> ast option \<times> parser) outcome" where
  "if_branch pd n p =
     andThen (match_token p (LogicTok XVR_TOKEN_BRACE_LEFT)) (\<lambda>(brace, p).
       if brace then andThen (block_loop pd n [] 0 p) (\<lambda>(ok, block, p). Done (ok, Some block, p))
       else andThen (pd p NULL) (\<lambda>(node, p). Done (True, node, p)))"

fun parseIfChain :: "pp \<Rightarrow> pd \<Rightarrow> nat \<Rightarrow> nat \<Rightarrow> parser \<Rightarrow> (ast option \<times> parser) outcome" where
  "parseIfChain pp pd n 0 p = Unfinished"
| "parseIfChain pp pd n (Suc m) p =
     andThen (consume p (LogicTok XVR_TOKEN_PAREN_LEFT) (''Expected '' @ quoted ''('' @ '' at beginning of if clause'')) (\<lambda>p.
       andThen (pp p NULL PREC_TERNARY) (\<lambda>(condition, p).
         andThen (consume p (LogicTok XVR_TOKEN_PAREN_RIGHT) (''Expected '' @ quoted '')'' @ '' at end of if clause'')) (\<lambda>p.
           andThen (if_branch pd n p) (\<lambda>(ok, thenPath, p).
             if \<not> ok then Done (NULL, p)
             else andThen (match_token p (KeywordTok XVR_TOKEN_ELSE)) (\<lambda>(more, p).
               let node = (\<lambda>elsePath p. Done (Some (Xvr_emitASTNodeIf condition thenPath elsePath), p))
               in if \<not> more then node NULL p
                  else andThen (match_token p (KeywordTok XVR_TOKEN_IF)) (\<lambda>(chain, p).
                    if chain then andThen (parseIfChain pp pd n m p) (\<lambda>(elsePath, p). node elsePath p)
                    else andThen (if_branch pd n p) (\<lambda>(ok, elsePath, p).
                           if \<not> ok then Done (NULL, p) else node elsePath p)))))))"

definition ifExpression :: "pp \<Rightarrow> pd \<Rightarrow> nat \<Rightarrow> parser \<Rightarrow> ast option \<Rightarrow> handled" where
  "ifExpression pp pd n p h =
     andThen (parseIfChain pp pd n n p) (\<lambda>(node, p). handled p (if node = NULL then h else node))"

definition ifStmt :: "pp \<Rightarrow> pd \<Rightarrow> nat \<Rightarrow> parser \<Rightarrow> (ast option \<times> parser) outcome" where
  "ifStmt pp pd n p = parseIfChain pp pd n n p"

definition whileStmt :: "pp \<Rightarrow> pd \<Rightarrow> parser \<Rightarrow> (ast option \<times> parser) outcome" where
  "whileStmt pp pd p =
     andThen (consume p (LogicTok XVR_TOKEN_PAREN_LEFT) (''Expected '' @ quoted ''('' @ '' at beginning of while clause'')) (\<lambda>p.
       andThen (pp p NULL PREC_TERNARY) (\<lambda>(condition, p).
         andThen (consume p (LogicTok XVR_TOKEN_PAREN_RIGHT) (''Expected '' @ quoted '')'' @ '' at end of while clause'')) (\<lambda>p.
           andThen (pd p NULL) (\<lambda>(thenPath, p).
             Done (Some (Xvr_emitASTNodeWhile condition thenPath), p)))))"

definition forStmt :: "pp \<Rightarrow> pd \<Rightarrow> parser \<Rightarrow> (ast option \<times> parser) outcome" where
  "forStmt pp pd p =
     andThen (consume p (LogicTok XVR_TOKEN_PAREN_LEFT) (''Expected '' @ quoted ''('' @ '' at beginning of for clause'')) (\<lambda>p.
       andThen
         (if cur_type p \<noteq> OtherTok XVR_TOKEN_SEMICOLON then pd p NULL
          else andThen (consume p (OtherTok XVR_TOKEN_SEMICOLON) ''Expected `;` after empty declaration of for clause'') (\<lambda>p.
                 Done (Some Xvr_emitASTNodePass, p))) (\<lambda>(preClause, p).
         andThen
           (if cur_type p \<noteq> OtherTok XVR_TOKEN_SEMICOLON then
              andThen (pp p NULL PREC_TERNARY) (\<lambda>(condition, p).
                andThen (consume p (OtherTok XVR_TOKEN_SEMICOLON) (''Expected '' @ quoted '';'' @ '' after condition of for clause'')) (\<lambda>p.
                  Done (condition, p)))
            else andThen (consume p (OtherTok XVR_TOKEN_SEMICOLON) ''Expected `;` after empty condition of for clause'') (\<lambda>p.
                   Done (Some (Xvr_emitASTNodeLiteral (Xvr_toBoolLiteralCpp True)), p))) (\<lambda>(condition, p).
           andThen
             (if cur_type p \<noteq> LogicTok XVR_TOKEN_PAREN_RIGHT then
                andThen (pp p NULL PREC_ASSIGNMENT) (\<lambda>(postClause, p).
                  andThen (consume p (LogicTok XVR_TOKEN_PAREN_RIGHT) (''Expected '' @ quoted '')'' @ '' at end of for clause'')) (\<lambda>p.
                    Done (postClause, p)))
              else andThen (consume p (LogicTok XVR_TOKEN_PAREN_RIGHT) ''Expected `)` after empty increment of for clause'') (\<lambda>p.
                     Done (Some Xvr_emitASTNodePass, p))) (\<lambda>(postClause, p).
             andThen (pd p NULL) (\<lambda>(thenPath, p).
               Done (Some (Xvr_emitASTNodeFor preClause condition postClause thenPath), p))))))"

definition breakStmt :: "parser \<Rightarrow> (ast option \<times> parser) outcome" where
  "breakStmt p = andThen (consumeSemicolon p) (\<lambda>p. Done (Some Xvr_emitASTNodeBreak, p))"

definition continueStmt :: "parser \<Rightarrow> (ast option \<times> parser) outcome" where
  "continueStmt p = andThen (consumeSemicolon p) (\<lambda>p. Done (Some Xvr_emitASTNodeContinue, p))"

definition returnStmt :: "pp \<Rightarrow> nat \<Rightarrow> parser \<Rightarrow> ast option \<Rightarrow> (ast option \<times> parser) outcome" where
  "returnStmt pp n p h =
     andThen (match_token p (OtherTok XVR_TOKEN_SEMICOLON)) (\<lambda>(empty, p).
       if empty then Done (Some (Xvr_emitASTNodeFnReturn (Some Xvr_emitASTNodeFnCollection)), p)
       else andThen (expressions_loop pp n ''[internal] No token found in return'' [] 0 p) (\<lambda>(returnValues, p).
              if returnValues = None then Done (h, p)
              else andThen (consumeSemicolon p) (\<lambda>p. Done (Some (Xvr_emitASTNodeFnReturn returnValues), p))))"

text \<open>An alias that is not an identifier has no node, which the code follows all the same.\<close>

definition importStmt :: "parser \<Rightarrow> ast option \<Rightarrow> (ast option \<times> parser) outcome" where
  "importStmt p h =
     andThen (advance_parser p) (\<lambda>p.
       andThen (identifier_rule p NULL) (\<lambda>(_, node, p).
         case node of
           Some (NodeLiteral l) \<Rightarrow>
             andThen (match_token p (KeywordTok XVR_TOKEN_AS)) (\<lambda>(named, p).
               andThen
                 (if named then
                    andThen (advance_parser p) (\<lambda>p.
                      andThen (identifier_rule p NULL) (\<lambda>(_, other, p).
                        case other of
                          Some (NodeLiteral a) \<Rightarrow> Done (Xvr_copyLiteral a, p)
                        | _ \<Rightarrow> Undefined))
                  else Done (XVR_TO_NULL_LITERAL, p)) (\<lambda>(alias, p).
                 andThen (consumeSemicolon p) (\<lambda>p.
                   Done (Some (Xvr_emitASTNodeImport (Xvr_copyLiteral l) alias), p))))
         | _ \<Rightarrow> Done (h, p)))"

definition expressionStmt :: "pp \<Rightarrow> parser \<Rightarrow> ast option \<Rightarrow> (ast option \<times> parser) outcome" where
  "expressionStmt pp p h =
     andThen (match_token p (OtherTok XVR_TOKEN_SEMICOLON)) (\<lambda>(empty, p).
       if empty then Done (Some (Xvr_emitASTNodeLiteral XVR_TO_NULL_LITERAL), p)
       else andThen (expression pp p NULL) (\<lambda>(node, p).
              andThen (consumeSemicolon p) (\<lambda>p. Done (if node = NULL then h else node, p))))"

text \<open>The first statement whose token is there; the rest are tried in order.\<close>

fun first_match ::
    "(token_type \<times> (parser \<Rightarrow> (ast option \<times> parser) outcome)) list \<Rightarrow>
     (parser \<Rightarrow> (ast option \<times> parser) outcome) \<Rightarrow> parser \<Rightarrow> (ast option \<times> parser) outcome" where
  "first_match [] other p = other p"
| "first_match ((t, handler) # rest) other p =
     andThen (match_token p t) (\<lambda>(matched, p). if matched then handler p else first_match rest other p)"

definition statement :: "pp \<Rightarrow> pd \<Rightarrow> nat \<Rightarrow> parser \<Rightarrow> ast option \<Rightarrow> (ast option \<times> parser) outcome" where
  "statement pp pd n p h =
     first_match
       [(LogicTok XVR_TOKEN_BRACE_LEFT, blockStmt pd n),
        (KeywordTok XVR_TOKEN_ASSERT, assertStmt pp),
        (KeywordTok XVR_TOKEN_IF, ifStmt pp pd n),
        (KeywordTok XVR_TOKEN_WHILE, whileStmt pp pd),
        (KeywordTok XVR_TOKEN_FOR, forStmt pp pd),
        (KeywordTok XVR_TOKEN_BREAK, breakStmt),
        (KeywordTok XVR_TOKEN_CONTINUE, continueStmt),
        (KeywordTok XVR_TOKEN_RETURN, (\<lambda>p. returnStmt pp n p h)),
        (KeywordTok XVR_TOKEN_IMPORT, (\<lambda>p. importStmt p h))]
       (\<lambda>p. expressionStmt pp p h) p"

section \<open>Declarations\<close>

text \<open>\<open>as.type.typeOf\<close> of an annotation: in an identifier it overlaps the hash.\<close>

fun type_member :: "literal \<Rightarrow> literal_type option" where
  "type_member (Type t c ss k) = Some t"
| "type_member (Bits t w) = Some XVR_LITERAL_NULL"
| "type_member _ = None"

definition mark_if_as_expression :: "ast option \<Rightarrow> literal \<Rightarrow> ast option outcome" where
  "mark_if_as_expression node annotation =
     (case node of
        Some (NodeIf c t e r x) \<Rightarrow>
          (case type_member annotation of
             None \<Rightarrow> Undefined
           | Some ty \<Rightarrow> Done (Xvr_markIfAsExpression node ty))
      | _ \<Rightarrow> Done node)"

text \<open>The name and the type of a variable or an argument, from the token that has just been consumed.\<close>

definition typed_name :: "nat \<Rightarrow> parser \<Rightarrow> (token \<times> literal \<times> literal \<times> parser) outcome" where
  "typed_name n p =
     (let t = pr_previous p
      in andThen (name_of p t) (\<lambda>(name, p).
           andThen (match_token p (OtherTok XVR_TOKEN_COLON)) (\<lambda>(colon, p).
             andThen (if colon then readTypeToLiteral n p
                      else Done (Xvr_toTypeLiteralCpp XVR_LITERAL_ANY False, p)) (\<lambda>(ty, p).
               Done (t, name, ty, p)))))"

definition varDecl :: "pp \<Rightarrow> nat \<Rightarrow> parser \<Rightarrow> (ast option \<times> parser) outcome" where
  "varDecl pp n p =
     andThen (consume p (LiteralTok XVR_TOKEN_IDENTIFIER) ''Expected identifier after var keyword'') (\<lambda>p.
       andThen (typed_name n p) (\<lambda>(t, name, ty, p).
         andThen (match_token p (MathTok XVR_TOKEN_ASSIGN)) (\<lambda>(assigned, p).
           andThen
             (if assigned then
                andThen (expression pp p NULL) (\<lambda>(node, p).
                  andThen (mark_if_as_expression node ty) (\<lambda>node. Done (node, p)))
              else Done (Some (Xvr_emitASTNodeLiteral XVR_TO_NULL_LITERAL), p)) (\<lambda>(node, p).
             andThen (consumeSemicolon p) (\<lambda>p.
               Done (Some (Xvr_emitASTNodeVarDecl name ty node (int (tok_line t))), p))))))"

text \<open>The arguments of a function, up to the closing parenthesis. A rest argument is the last.\<close>

fun arguments_loop :: "nat \<Rightarrow> ast list \<Rightarrow> nat \<Rightarrow> parser \<Rightarrow> (ast \<times> parser) outcome" where
  "arguments_loop 0 xs c p = Unfinished"
| "arguments_loop (Suc n) xs c p =
     andThen (match_token p (OtherTok XVR_TOKEN_REST)) (\<lambda>(rest, p).
       andThen (consume p (LiteralTok XVR_TOKEN_IDENTIFIER) ''Expected identifier as function argument'') (\<lambda>p.
         if rest then
           andThen (name_of p (pr_previous p)) (\<lambda>(name, p').
             Done (NodeFnCollection
               (xs @ [Xvr_emitASTNodeVarDecl name (Xvr_toTypeLiteralCpp XVR_LITERAL_FUNCTION_ARG_REST False) NULL
                        (int (tok_line (pr_previous p)))]) (grown c (length xs)), p'))
         else andThen (typed_name n p) (\<lambda>(t, name, ty, p).
           let xs' = xs @ [Xvr_emitASTNodeVarDecl name ty NULL (int (tok_line t))]; c' = grown c (length xs)
           in andThen (match_token p (OtherTok XVR_TOKEN_COMMA)) (\<lambda>(more, p).
                if more then arguments_loop n xs' c' p else Done (NodeFnCollection xs' c', p)))))"

fun returns_loop :: "nat \<Rightarrow> ast list \<Rightarrow> nat \<Rightarrow> parser \<Rightarrow> (ast \<times> parser) outcome" where
  "returns_loop 0 xs c p = Unfinished"
| "returns_loop (Suc n) xs c p =
     andThen (readTypeToLiteral n p) (\<lambda>(ty, p).
       let xs' = xs @ [Xvr_emitASTNodeLiteral ty]; c' = grown c (length xs)
       in andThen (match_token p (OtherTok XVR_TOKEN_COMMA)) (\<lambda>(more, p).
            if more then returns_loop n xs' c' p else Done (NodeFnCollection xs' c', p)))"

definition fnDecl :: "pd \<Rightarrow> nat \<Rightarrow> parser \<Rightarrow> (ast option \<times> parser) outcome" where
  "fnDecl pd n p =
     andThen (consume p (LiteralTok XVR_TOKEN_IDENTIFIER) ''Expected identifier after fn keyword'') (\<lambda>p.
       let t = pr_previous p
       in andThen (name_of p t) (\<lambda>(name, p).
         andThen (consume p (LogicTok XVR_TOKEN_PAREN_LEFT) (''Expected '' @ quoted ''('' @ '' after function identifier'')) (\<lambda>p.
           andThen (match_token p (LogicTok XVR_TOKEN_PAREN_RIGHT)) (\<lambda>(empty, p).
             andThen
               (if empty then Done (Xvr_emitASTNodeFnCollection, p)
                else andThen (arguments_loop n [] 0 p) (\<lambda>(arguments, p).
                       andThen (consume p (LogicTok XVR_TOKEN_PAREN_RIGHT)
                                  (''Expected '' @ quoted '')'' @ '' after function argument list'')) (\<lambda>p.
                         Done (arguments, p)))) (\<lambda>(arguments, p).
               andThen (match_token p (OtherTok XVR_TOKEN_COLON)) (\<lambda>(colon, p).
                 andThen (if colon then returns_loop n [] 0 p else Done (Xvr_emitASTNodeFnCollection, p)) (\<lambda>(returns, p).
                   andThen (consume p (LogicTok XVR_TOKEN_BRACE_LEFT) (''Expected '' @ quoted ''{'' @ '' after return list'')) (\<lambda>p.
                     andThen (blockStmt pd n p) (\<lambda>(block, p).
                       Done (Some (Xvr_emitASTNodeFnDecl name (Some arguments) (Some returns) block (int (tok_line t))), p))))))))))"

section \<open>The recursion\<close>

definition prefix_rule :: "pp \<Rightarrow> pd \<Rightarrow> nat \<Rightarrow> parse_fn \<Rightarrow> parser \<Rightarrow> ast option \<Rightarrow> handled" where
  "prefix_rule pp pd n f p h =
     (case f of
        Fn_atomic \<Rightarrow> atomic p h
      | Fn_castingPrefix \<Rightarrow> castingPrefix pp p h
      | Fn_ifExpression \<Rightarrow> ifExpression pp pd n p h
      | Fn_identifierOrKeyword \<Rightarrow> identifierOrKeyword p h
      | Fn_asType \<Rightarrow> asType n p h
      | Fn_typeOf \<Rightarrow> typeOf pp p h
      | Fn_identifier \<Rightarrow> identifier_rule p h
      | Fn_string \<Rightarrow> string_literal p h
      | Fn_unary \<Rightarrow> unary pp p h
      | Fn_incrementPrefix \<Rightarrow> incrementPrefix p h
      | Fn_decrementPrefix \<Rightarrow> decrementPrefix p h
      | Fn_grouping \<Rightarrow> grouping pp p h
      | Fn_compound \<Rightarrow> compound pp n p h
      | _ \<Rightarrow> Undefined)"

definition infix_rule :: "pp \<Rightarrow> nat \<Rightarrow> parse_fn \<Rightarrow> parser \<Rightarrow> ast option \<Rightarrow> handled" where
  "infix_rule pp n f p h =
     (case f of
        Fn_fnCall \<Rightarrow> fnCall pp n p h
      | Fn_castingInfix \<Rightarrow> castingInfix p h
      | Fn_binary \<Rightarrow> binary pp p h
      | Fn_incrementInfix \<Rightarrow> incrementInfix p h
      | Fn_decrementInfix \<Rightarrow> decrementInfix p h
      | Fn_indexAccess \<Rightarrow> indexAccess pp p h
      | Fn_question \<Rightarrow> question pp p h
      | Fn_dot \<Rightarrow> dot pp p h
      | _ \<Rightarrow> Undefined)"

text \<open>What \<open>parsePrecedence\<close> makes of the left operand and the node of an infix rule; the flag says
  whether the loop goes on.\<close>

definition combine ::
    "opcode \<Rightarrow> ast option \<Rightarrow> ast option \<Rightarrow> parser \<Rightarrow> (bool \<times> ast option \<times> parser) outcome" where
  "combine op h rhs p =
     (if op = XVR_OP_EOF then andThen (free_handle h p) (\<lambda>p. Done (False, rhs, p))
      else if op = XVR_OP_TERNARY then
        (case rhs of
           Some (NodeTernary c t e) \<Rightarrow> Done (True, Some (NodeTernary h t e), p)
         | _ \<Rightarrow> Undefined)
      else if op = XVR_OP_INDEX then
        (case rhs of
           Some (NodeIndex a b c) \<Rightarrow> Done (True, Some (NodeIndex h a b), p)
         | _ \<Rightarrow> Done (True, rhs, p))
      else
        andThen (if op = XVR_OP_DOT then
                   (case rhs of None \<Rightarrow> Undefined | Some node \<Rightarrow> andThen (dottify node) (\<lambda>n. Done (Some n)))
                 else Done rhs) (\<lambda>rhs.
          let node = Xvr_emitASTNodeBinary h rhs op
          in if pr_panic p then Done (True, Some node, p)
             else andThen (calcStaticBinaryArithmetic p node) (\<lambda>(ok, node, p).
                    if \<not> ok then Done (False, Some node, p)
                    else if pr_panic p then Done (True, Some node, p)
                    else andThen (calcStaticMathFn (Some node)) (\<lambda>h. Done (True, h, p)))))"

text \<open>The flag of the result says that the loop has come to its end, not to a \<open>return\<close>.\<close>

fun infix_loop :: "pp \<Rightarrow> nat \<Rightarrow> nat \<Rightarrow> prec \<Rightarrow> parser \<Rightarrow> ast option \<Rightarrow> (bool \<times> ast option \<times> parser) outcome" where
  "infix_loop pp n 0 prec p h = Unfinished"
| "infix_loop pp n (Suc m) prec p h =
     (if prec \<le> pl_precedence (getRule (cur_type p)) then
        (case pl_infix (getRule (cur_type p)) of
           None \<Rightarrow> andThen (error_at p (pr_current p) ''Expected operator'') (\<lambda>p. Done (False, NULL, p))
         | Some f \<Rightarrow>
             andThen (infix_rule pp n f p NULL) (\<lambda>(op, rhs, p).
               andThen (combine op h rhs p) (\<lambda>(continue, h, p).
                 if continue then infix_loop pp n m prec p h else Done (False, h, p))))
      else Done (True, h, p))"

definition parsePrecedence_step :: "pp \<Rightarrow> pd \<Rightarrow> nat \<Rightarrow> pp" where
  "parsePrecedence_step pp pd n p h prec =
     andThen (advance_parser p) (\<lambda>p.
       case pl_prefix (getRule (prev_type p)) of
         None \<Rightarrow> andThen (error_at p (pr_previous p) ''Expected expression'') (\<lambda>p. Done (NULL, p))
       | Some f \<Rightarrow>
           andThen (prefix_rule pp pd n f p h) (\<lambda>(_, h, p).
             andThen (infix_loop pp n n prec p h) (\<lambda>(ended, h, p).
               if ended \<and> prec \<le> PREC_ASSIGNMENT then
                 andThen (match_token p (MathTok XVR_TOKEN_ASSIGN)) (\<lambda>(assign, p).
                   if assign then andThen (error_at p (pr_current p) ''Invalid assignment target'') (\<lambda>p. Done (h, p))
                   else Done (h, p))
               else Done (h, p))))"

definition declaration_step :: "pp \<Rightarrow> pd \<Rightarrow> nat \<Rightarrow> pd" where
  "declaration_step pp pd n p h =
     first_match
       [(KeywordTok XVR_TOKEN_VAR, varDecl pp n), (TypeTok XVR_TOKEN_FUNCTION, fnDecl pd n)]
       (\<lambda>p. statement pp pd n p h) p"

fun parsePrecedence :: "nat \<Rightarrow> pp" and parse_declaration :: "nat \<Rightarrow> pd" where
  "parsePrecedence 0 p h prec = Unfinished"
| "parsePrecedence (Suc n) p h prec = parsePrecedence_step (parsePrecedence n) (parse_declaration n) n p h prec"
| "parse_declaration 0 p h = Unfinished"
| "parse_declaration (Suc n) p h = declaration_step (parsePrecedence n) (parse_declaration n) n p h"

text \<open>The node of the next line: None at the end of the input, \<open>NodeError\<close> for a line with an error.\<close>

definition Xvr_scanParser :: "nat \<Rightarrow> parser \<Rightarrow> (ast option \<times> parser) outcome" where
  "Xvr_scanParser n p =
     (if cur_type p = MetaTok XVR_TOKEN_EOF then Done (NULL, p)
      else andThen (parse_declaration n p NULL) (\<lambda>(node, p).
             if pr_panic p then
               andThen (synchronize n p) (\<lambda>p.
                 andThen (free_handle node p) (\<lambda>p. Done (Some NodeError, p)))
             else Done (node, p)))"

section \<open>A whole source\<close>

text \<open>
  \<open>parse_to_ast\<close> of src/compiler/compiler_tools.c: the nodes of all lines, or NULL when a line has an
  error; a source without a line gives NULL too.
\<close>

fun parse_loop :: "nat \<Rightarrow> nat \<Rightarrow> parser \<Rightarrow> ast list \<Rightarrow> ast list option outcome" where
  "parse_loop n 0 p nodes = Unfinished"
| "parse_loop n (Suc m) p nodes =
     andThen (Xvr_scanParser n p) (\<lambda>(node, p).
       case node of
         None \<Rightarrow> Done (if nodes = [] then None else Some nodes)
       | Some NodeError \<Rightarrow> andThen (freed nodes p) (\<lambda>p. Done None)
       | Some x \<Rightarrow> parse_loop n m p (nodes @ [x]))"

definition parse_to_ast :: "nat \<Rightarrow> string \<Rightarrow> ast list option outcome" where
  "parse_to_ast n source =
     andThen (Xvr_initParser (Xvr_initLexer source)) (\<lambda>p. parse_loop n n p [])"

end
