(* ===== verification/ParserContract.thy ===== *)
theory ParserContract
  imports Parser LexerProps
begin

text \<open>
  What every operation of the parser keeps to: the lexer stays sound, no token is put back, and errors
  are reported once until the parser synchronises. The locale \<open>parser_calls\<close> is the contract of the
  two recursive procedures, with the fuel they need for the tokens that are left; each handler is
  shown to keep to it for any procedures that do.
\<close>

section \<open>Total correctness\<close>

text \<open>An outcome with a value that satisfies \<open>Q\<close>, or undefined behaviour, but never none at all.\<close>

definition ensures :: "'a outcome \<Rightarrow> ('a \<Rightarrow> bool) \<Rightarrow> bool" where
  "ensures x Q \<longleftrightarrow> (case x of Done a \<Rightarrow> Q a | Undefined \<Rightarrow> True | Unfinished \<Rightarrow> False)"

lemma ensures_simps [simp]:
  "ensures (Done a) Q = Q a" "ensures Undefined Q" "\<not> ensures Unfinished Q"
  by (simp_all add: ensures_def)

lemma ensures_andThen: "ensures x (\<lambda>a. ensures (f a) Q) \<Longrightarrow> ensures (andThen x f) Q"
  by (cases x) simp_all

lemma ensures_mono: "ensures x P \<Longrightarrow> (\<And>a. P a \<Longrightarrow> Q a) \<Longrightarrow> ensures x Q"
  by (cases x) simp_all

lemma ensures_bind: "ensures x P \<Longrightarrow> (\<And>a. P a \<Longrightarrow> ensures (f a) Q) \<Longrightarrow> ensures (andThen x f) Q"
  by (cases x) simp_all

section \<open>Steps of the parser\<close>

definition lexer_good :: "lexer \<Rightarrow> bool" where
  "lexer_good lx \<longleftrightarrow> lx_inv lx \<and> no_nul (lx_source lx) \<and> closed_blocks (lx_source lx)"

definition good :: "parser \<Rightarrow> bool" where
  "good p \<longleftrightarrow> (case pr_lexer p of None \<Rightarrow> False | Some lx \<Rightarrow> lexer_good lx)"

abbreviation at_eof :: "parser \<Rightarrow> bool" where
  "at_eof p \<equiv> cur_type p = MetaTok XVR_TOKEN_EOF"

text \<open>A bound on the tokens left: the characters not scanned, and the current token.\<close>

definition left :: "parser \<Rightarrow> nat" where
  "left p =
     (case pr_lexer p of None \<Rightarrow> 0 | Some lx \<Rightarrow> length (lx_source lx) - lx_current lx) + (if at_eof p then 0 else 1)"

definition reports_once :: "parser \<Rightarrow> parser \<Rightarrow> bool" where
  "reports_once p p' \<longleftrightarrow>
     (if pr_panic p then pr_panic p' \<and> pr_reports p' = pr_reports p \<and> pr_error p' = pr_error p
      else if pr_panic p' then pr_error p' \<and> (\<exists>r. pr_reports p' = pr_reports p @ [r])
      else pr_reports p' = pr_reports p \<and> pr_error p' = pr_error p)"

definition after :: "parser \<Rightarrow> parser \<Rightarrow> bool" where
  "after p p' \<longleftrightarrow> good p' \<and> left p' \<le> left p \<and> reports_once p p'"

lemma after_refl: "good p \<Longrightarrow> after p p"
  by (simp add: after_def reports_once_def)

lemma after_trans [trans]: "after p q \<Longrightarrow> after q r \<Longrightarrow> after p r"
  by (auto simp: after_def reports_once_def split: if_splits)

lemma after_good: "after p q \<Longrightarrow> good q"
  by (simp add: after_def)

lemma after_left: "after p q \<Longrightarrow> left q \<le> left p"
  by (simp add: after_def)

lemma after_panic: "after p q \<Longrightarrow> pr_panic p \<Longrightarrow> pr_panic q"
  by (simp add: after_def reports_once_def split: if_splits)

lemma scan_forward:
  assumes "lexer_good lx" "Xvr_private_scanLexer lx = Some (t, lx')"
  shows "lexer_good lx' \<and> lx_source lx' = lx_source lx \<and> lx_current lx' \<le> length (lx_source lx) \<and>
    lx_current lx \<le> lx_current lx' \<and> (tok_type t \<noteq> MetaTok XVR_TOKEN_EOF \<longrightarrow> lx_current lx < lx_current lx')"
proof -
  obtain m where m: "lex_steps lx m" "scanToken m = (t, lx')" "scan_ok (at_start m) (t, lx')"
    using assms(2) by (rule scan_cases)
  have st: "lex_steps (at_start m) lx'" using m(3) by (simp add: scan_ok_def)
  have inv: "lx_inv lx'" using m(1) st assms(1) lex_steps_inv at_start_inv unfolding lexer_good_def by blast
  have src: "lx_source lx' = lx_source lx" "lx_current lx \<le> lx_current m" "lx_current m \<le> lx_current lx'"
    using lex_steps_frame [OF st] lex_steps_frame [OF m(1)] by simp_all
  have "lx_current m < lx_current lx'" if "tok_type t \<noteq> MetaTok XVR_TOKEN_EOF"
  proof -
    have "\<not> isAtEnd m" using m(2) that by (auto simp: scanToken_end makeToken_def)
    then show ?thesis using scanToken_forward [of m] m(2) by simp
  qed
  then show ?thesis using inv src assms(1) by (auto simp: lexer_good_def lx_inv_def)
qed

lemma error_at_ensures:
  "good p \<Longrightarrow> ensures (error_at p t msg) (\<lambda>p'. after p p' \<and> pr_panic p' \<and> left p' = left p \<and>
     pr_previous p' = pr_previous p \<and> pr_current p' = pr_current p)"
  by (simp add: error_at_def after_def reports_once_def good_def left_def)

lemma advance_ensures:
  assumes "good p"
  shows "ensures (advance_parser p) (\<lambda>p'. after p p' \<and> pr_previous p' = pr_current p \<and>
    (\<not> at_eof p \<longrightarrow> left p' < left p))"
proof -
  obtain lx where lx: "pr_lexer p = Some lx" "lexer_good lx"
    using assms by (auto simp: good_def split: option.splits)
  then obtain t lx' where s: "Xvr_private_scanLexer lx = Some (t, lx')"
    using scan_returns [of lx] by (auto simp: lexer_good_def)
  note f = scan_forward [OF lx(2) s]
  let ?p = "p\<lparr>pr_previous := pr_current p, pr_current := t, pr_lexer := Some lx'\<rparr>"
  have g: "good ?p" using f by (simp add: good_def)
  have l: "left ?p \<le> left p" "\<not> at_eof p \<longrightarrow> left ?p < left p"
    using f lx by (auto simp: left_def)
  have a: "after p ?p" using g l by (simp add: after_def reports_once_def)
  show ?thesis
  proof (cases "tok_type t = MetaTok XVR_TOKEN_ERROR")
    case True
    show ?thesis
      using lx s True l
      by (auto simp: advance_parser_def Let_def intro!: ensures_mono [OF error_at_ensures [OF g]] dest: after_trans [OF a])
  next
    case False
    then show ?thesis using lx s a l by (simp add: advance_parser_def Let_def)
  qed
qed

lemma match_ensures:
  assumes "good p"
  shows "ensures (match_token p ty) (\<lambda>(b, p'). after p p' \<and>
    (if b then cur_type p = ty \<and> pr_previous p' = pr_current p \<and> (\<not> at_eof p \<longrightarrow> left p' < left p)
     else cur_type p \<noteq> ty \<and> p' = p))"
  using assms
  by (auto simp: match_token_def after_refl intro!: ensures_andThen ensures_mono [OF advance_ensures])

lemma consume_ensures:
  assumes "good p"
  shows "ensures (consume p ty msg) (\<lambda>p'. after p p' \<and>
    (if cur_type p = ty then pr_previous p' = pr_current p \<and> (\<not> at_eof p \<longrightarrow> left p' < left p) else pr_panic p'))"
  using assms
  by (auto simp: consume_def intro: ensures_mono [OF advance_ensures] ensures_mono [OF error_at_ensures])

lemma andThen_assoc: "andThen (andThen x f) g = andThen x (\<lambda>a. andThen (f a) g)"
  by (cases x) simp_all

lemma andThen_if: "andThen (if b then x else y) f = (if b then andThen x f else andThen y f)"
  by simp

lemma ensures_if [intro]: "(b \<Longrightarrow> ensures x Q) \<Longrightarrow> (\<not> b \<Longrightarrow> ensures y Q) \<Longrightarrow> ensures (if b then x else y) Q"
  by simp

lemma consumeSemicolon_after: "good p \<Longrightarrow> ensures (consumeSemicolon p) (after p)"
  unfolding consumeSemicolon_def
  by (rule ensures_bind [OF match_ensures])
    (auto simp: after_refl split: if_splits intro: ensures_mono [OF error_at_ensures])

named_theorems step

text \<open>
  The operations from any state that a run from \<open>p0\<close> has come to. Each rule takes a goal about the
  operation and what follows it to a goal about what follows it.
\<close>

locale parser_run =
  fixes p0 :: parser
begin

lemma step_advance [step]:
  assumes "after p0 p" "\<And>q. after p0 q \<Longrightarrow> left q \<le> left p \<Longrightarrow> pr_previous q = pr_current p \<Longrightarrow> ensures (f q) Q"
  shows "ensures (andThen (advance_parser p) f) Q"
  by (rule ensures_bind [OF advance_ensures [OF after_good [OF assms(1)]]])
    (auto intro!: assms(2) dest: after_trans [OF assms(1)] after_left)

text \<open>When there is a token, the operation takes it.\<close>

lemma step_take:
  assumes "after p0 p" "\<not> at_eof p"
    and "\<And>q. after p0 q \<Longrightarrow> left q < left p \<Longrightarrow> pr_previous q = pr_current p \<Longrightarrow> ensures (f q) Q"
  shows "ensures (andThen (advance_parser p) f) Q"
  by (rule ensures_bind [OF advance_ensures [OF after_good [OF assms(1)]]])
    (use assms(2) in \<open>auto intro!: assms(3) dest: after_trans [OF assms(1)]\<close>)

lemma step_match [step]:
  assumes "after p0 p" "ty \<noteq> MetaTok XVR_TOKEN_EOF"
    and "\<And>q. after p0 q \<Longrightarrow> left q < left p \<Longrightarrow> ensures (f (True, q)) Q"
    and "ensures (f (False, p)) Q"
  shows "ensures (andThen (match_token p ty) f) Q"
  by (rule ensures_bind [OF match_ensures [OF after_good [OF assms(1)]]])
    (use assms(2) in \<open>auto intro!: assms(3,4) dest: after_trans [OF assms(1)] split: if_splits\<close>)

lemma step_consume [step]:
  assumes "after p0 p" "\<And>q. after p0 q \<Longrightarrow> left q \<le> left p \<Longrightarrow> ensures (f q) Q"
  shows "ensures (andThen (consume p ty msg) f) Q"
  by (rule ensures_bind [OF consume_ensures [OF after_good [OF assms(1)]]])
    (auto intro!: assms(2) dest: after_trans [OF assms(1)] after_left split: if_splits)

lemma step_error [step]:
  assumes "after p0 p"
    and "\<And>q. after p0 q \<Longrightarrow> left q = left p \<Longrightarrow> pr_panic q \<Longrightarrow> ensures (f q) Q"
  shows "ensures (andThen (error_at p t msg) f) Q"
  by (rule ensures_bind [OF error_at_ensures [OF after_good [OF assms(1)]]])
    (auto intro!: assms(2) dest: after_trans [OF assms(1)])

lemma step_consumeSemicolon [step]:
  assumes "after p0 p"
    and "\<And>q. after p0 q \<Longrightarrow> left q \<le> left p \<Longrightarrow> ensures (f q) Q"
  shows "ensures (andThen (consumeSemicolon p) f) Q"
  unfolding consumeSemicolon_def andThen_assoc split_def andThen_if fst_conv snd_conv
  using assms by (auto intro!: step_match step_error)

lemma step_free [step]:
  "ensures (f p) Q \<Longrightarrow> ensures (andThen (free_handle h p) f) Q"
  by (simp add: free_handle_def)

lemma step_freed [step]:
  "ensures (f p) Q \<Longrightarrow> ensures (andThen (freed xs p) f) Q"
  by (simp add: freed_def)

lemma step_chars [step]:
  "(\<And>s. ensures (f s) Q) \<Longrightarrow> ensures (andThen (token_chars p t n) f) Q"
  by (simp add: token_chars_def split: option.split)

lemma step_tail: "ensures (andThen x Done) Q \<Longrightarrow> ensures x Q"
  by (cases x) simp_all

abbreviation handled_ok :: "parser \<Rightarrow> opcode \<times> ast option \<times> parser \<Rightarrow> bool" where
  "handled_ok p r \<equiv> after p0 (snd (snd r)) \<and> left (snd (snd r)) \<le> left p"

lemma step_error_eof [step]:
  assumes "after p0 p" "\<And>q. after p0 q \<Longrightarrow> left q = left p \<Longrightarrow> Q (XVR_OP_EOF, h, q)"
  shows "ensures (error_eof p t msg h) Q"
  using assms by (auto simp: error_eof_def handled_def intro!: step_error)

lemma unescape_ok:
  "after p0 p \<Longrightarrow> ensures (unescape t cs n buffer p) (\<lambda>(b, q). after p0 q \<and> left q = left p)"
proof (induction n arbitrary: cs buffer p rule: less_induct)
  case (less n)
  show ?case
  proof (cases n)
    case (Suc m)
    have step: "ensures (unescape t cs' m' b p) (\<lambda>(b, q). after p0 q \<and> left q = left p)"
      if "m' \<le> m" for cs' m' b
      using less that Suc by simp
    have err: "ensures (andThen (error_at p t msg) (unescape t cs' (m - 1) b)) (\<lambda>(b, q). after p0 q \<and> left q = left p)"
      for msg cs' b
    proof (rule step_error [OF less.prems])
      fix q
      assume "after p0 q" "left q = left p"
      then show "ensures (unescape t cs' (m - 1) b q) (\<lambda>(b, q). after p0 q \<and> left q = left p)"
        using less.IH [of "m - 1" q cs' b] Suc by simp
    qed
    show ?thesis
      unfolding Suc unescape.simps Let_def by (intro ensures_if step err) simp_all
  qed (simp add: less.prems)
qed

lemma name_of_ok [step]:
  assumes "after p0 p" "\<And>l q. after p0 q \<Longrightarrow> left q = left p \<Longrightarrow> ensures (f (l, q)) Q"
  shows "ensures (andThen (name_of p t) f) Q"
  using assms by (auto simp: name_of_def andThen_assoc andThen_if intro!: step)

lemma identifier_ok [step]:
  assumes "after p0 p"
    and "\<And>h' q. after p0 q \<Longrightarrow> left q = left p \<Longrightarrow> ensures (f (XVR_OP_EOF, h', q)) Q"
  shows "ensures (andThen (identifier_rule p h) f) Q"
  using assms
  by (auto simp: identifier_rule_def andThen_assoc andThen_if Let_def error_eof_def handled_def intro!: step)

lemma string_literal_ok: "after p0 p \<Longrightarrow> ensures (string_literal p h) (handled_ok p)"
  by (auto simp: string_literal_def Let_def handled_def andThen_assoc andThen_if split: option.split
      intro!: step ensures_bind [OF unescape_ok])

lemma number_literal_finishes: "ensures (number_literal k s) (\<lambda>_. True)"
  by (cases k) (simp_all add: int_literal_def scan_int_def Let_def)

lemma step_number [step]:
  "(\<And>l. ensures (f l) Q) \<Longrightarrow> ensures (andThen (number_literal k s) f) Q"
  by (rule ensures_bind [OF number_literal_finishes])

lemma atomic_ok: "after p0 p \<Longrightarrow> ensures (atomic p h) (handled_ok p)"
  by (cases "prev_type p" rule: token_type.exhaust)
    (auto simp: atomic_def Let_def handled_def split: type_token.split keyword_token.split literal_token.split intro!: step
      simp del: number_literal.simps)

lemma identifierOrKeyword_ok: "after p0 p \<Longrightarrow> ensures (identifierOrKeyword p h) (handled_ok p)"
  by (auto simp: identifierOrKeyword_def handled_def Let_def intro!: step)

lemma readTypeToLiteral_ok:
  "after p0 p \<Longrightarrow> left p + 1 \<le> n \<Longrightarrow>
   ensures (readTypeToLiteral n p) (\<lambda>(l, q). after p0 q \<and> left q \<le> left p)"
proof (induction n arbitrary: p)
  case (Suc n)
  have sub: "ensures (andThen (readTypeToLiteral n q) f) Q"
    if "after p0 q" "left q < left p" "\<And>l r. after p0 r \<Longrightarrow> left r \<le> left q \<Longrightarrow> ensures (f (l, r)) Q"
    for q and f :: "literal \<times> parser \<Rightarrow> (literal \<times> parser) outcome" and Q
    by (rule ensures_bind [OF Suc.IH [of q]]) (use that Suc.prems in auto)
  show ?case
  proof (cases "at_eof p")
    case True
    then show ?thesis
      unfolding readTypeToLiteral.simps Let_def using Suc.prems
      by (auto simp: andThen_assoc andThen_if split: option.split intro!: step)
  next
    case False
    then show ?thesis
      unfolding readTypeToLiteral.simps Let_def using Suc.prems
      by - (rule step_take, auto simp: andThen_assoc andThen_if split: option.split intro!: step sub)
  qed
qed simp

lemma step_readType [step]:
  assumes "after p0 p" "left p + 1 \<le> n" "\<And>l q. after p0 q \<Longrightarrow> left q \<le> left p \<Longrightarrow> ensures (f (l, q)) Q"
  shows "ensures (andThen (readTypeToLiteral n p) f) Q"
  by (rule ensures_bind [OF readTypeToLiteral_ok]) (use assms in auto)

lemma asType_ok: "after p0 p \<Longrightarrow> left p + 1 \<le> n \<Longrightarrow> ensures (asType n p h) (handled_ok p)"
  by (auto simp: asType_def handled_def intro!: step)

lemma stepPrefix_ok: "after p0 p \<Longrightarrow> ensures (stepPrefix emit p h) (handled_ok p)"
  by (auto simp: stepPrefix_def handled_def split: option.split ast.split intro!: step)

lemma stepInfix_ok: "after p0 p \<Longrightarrow> ensures (stepInfix emit p h) (\<lambda>(op, h', q). after p0 q \<and> left q \<le> left p \<and> op = XVR_OP_EOF)"
  by (auto simp: stepInfix_def handled_def split: option.split ast.split intro!: step)

lemma castingInfix_ok:
  "after p0 p \<Longrightarrow> \<not> at_eof p \<Longrightarrow> ensures (castingInfix p h) (\<lambda>(op, h', q). after p0 q \<and> left q < left p)"
  unfolding castingInfix_def
  by (erule (1) step_take) (auto simp: handled_def intro!: step ensures_bind [OF atomic_ok])

lemma fold_node_ok:
  "after p0 p \<Longrightarrow> ensures (fold_node op l r p) (\<lambda>(b, n', q). after p0 q \<and> left q = left p)"
  by (auto simp: fold_node_def split: ast.split fold.split intro!: step)

lemma calcStatic_ok:
  "after p0 p \<Longrightarrow> ensures (calcStaticBinaryArithmetic p n) (\<lambda>(b, n', q). after p0 q \<and> left q = left p)"
proof (induction n arbitrary: p rule: measure_induct_rule [of size])
  case (less n)
  have sub: "ensures (andThen (if is_binary m then calcStaticBinaryArithmetic q m else Done (True, m, q)) f) Q"
    if "size m < size n" "after p0 q" "\<And>b m' r. after p0 r \<Longrightarrow> left r = left q \<Longrightarrow> ensures (f (b, m', r)) Q"
    for m q and f :: "bool \<times> ast \<times> parser \<Rightarrow> (bool \<times> ast \<times> parser) outcome" and Q
    using that by (auto intro!: ensures_bind [OF less.IH])
  show ?case
  proof (cases n)
    case (NodeBinary op l r)
    show ?thesis
    proof (cases "(l, r)")
      case lr: (Pair a b)
      show ?thesis
      proof (cases "\<exists>x y. l = Some x \<and> r = Some y")
        case True
        then obtain x y where xy: "l = Some x" "r = Some y" by blast
        show ?thesis
          using less.prems unfolding NodeBinary xy calcStaticBinaryArithmetic.simps
        proof (intro ensures_if, goal_cases)
          case 2
          show ?case
          proof (rule sub, goal_cases)
            case (3 b x' q)
            then show ?case
              unfolding split_conv
              by (intro sub) (auto simp: NodeBinary xy intro!: ensures_mono [OF fold_node_ok])
          qed (auto simp: NodeBinary xy less.prems)
        qed simp
      next
        case False
        have "ensures (andThen (calcStaticBinaryArithmetic p x) (\<lambda>_. Undefined :: (bool \<times> ast \<times> parser) outcome)) Q"
          if "l = Some x" for x Q
          by (rule ensures_bind [OF less.IH [of x p]]) (use that NodeBinary less.prems in auto)
        with False less.prems show ?thesis
          by (cases l; cases r) (auto simp: NodeBinary)
      qed
    qed
  qed simp_all
qed

end

end
