(* ===== verification/ParserCalls.thy ===== *)
theory ParserCalls
  imports ParserContract
begin

text \<open>
  The contract of the parser's two recursive procedures and the handlers of theory Parser under it:
  with fuel for the tokens that are left each of them ends, keeps to \<open>after\<close>, and takes a token or
  panics.
\<close>

section \<open>The contract\<close>

locale parser_calls = parser_run +
  fixes pp :: pp and pd :: pd and k :: nat
  assumes pp_ends: "good p \<Longrightarrow> 2 * left p + 1 \<le> k \<Longrightarrow>
      ensures (pp p h prec) (\<lambda>(h', q). after p q \<and>
        (if at_eof p then pr_panic q \<and> h' = NULL else left q < left p))"
    and pd_ends: "good p \<Longrightarrow> 2 * left p + 2 \<le> k \<Longrightarrow>
      ensures (pd p h) (\<lambda>(h', q). after p q \<and> (if at_eof p then pr_panic q else left q < left p))"
begin

lemma step_pp:
  assumes "after p0 p" "2 * left p + 1 \<le> k"
    and "\<And>h' q. after p0 q \<Longrightarrow> left q \<le> left p \<Longrightarrow> ensures (f (h', q)) Q"
  shows "ensures (andThen (pp p h prec) f) Q"
  by (rule ensures_bind [OF pp_ends [OF after_good [OF assms(1)] assms(2)]])
    (auto intro!: assms(3) dest: after_trans [OF assms(1)] after_left split: if_splits)

lemma step_pd:
  assumes "after p0 p" "2 * left p + 2 \<le> k"
    and "\<And>h' q. after p0 q \<Longrightarrow> left q \<le> left p \<Longrightarrow> ensures (f (h', q)) Q"
  shows "ensures (andThen (pd p h) f) Q"
  by (rule ensures_bind [OF pd_ends [OF after_good [OF assms(1)] assms(2)]])
    (auto intro!: assms(3) dest: after_trans [OF assms(1)] after_left split: if_splits)

text \<open>An expression that has a node, and a declaration that does not panic, took a token.\<close>

lemma step_pp_node:
  assumes "after p0 p" "2 * left p + 1 \<le> k"
    and "\<And>q. after p0 q \<Longrightarrow> left q \<le> left p \<Longrightarrow> ensures (f (None, q)) Q"
    and "\<And>x q. after p0 q \<Longrightarrow> left q < left p \<Longrightarrow> ensures (f (Some x, q)) Q"
  shows "ensures (andThen (pp p h prec) f) Q"
proof (rule ensures_bind [OF pp_ends [OF after_good [OF assms(1)] assms(2)]], clarify)
  fix h' q
  assume "after p q" "if at_eof p then pr_panic q \<and> h' = NULL else left q < left p"
  then show "ensures (f (h', q)) Q"
    using after_trans [OF assms(1)] by (cases h') (auto intro!: assms(3,4) dest: after_left split: if_splits)
qed

lemma step_pd_calm:
  assumes "after p0 p" "2 * left p + 2 \<le> k"
    and "\<And>h' q. after p0 q \<Longrightarrow> left q \<le> left p \<Longrightarrow> pr_panic q \<Longrightarrow> ensures (f (h', q)) Q"
    and "\<And>h' q. after p0 q \<Longrightarrow> left q < left p \<Longrightarrow> \<not> pr_panic q \<Longrightarrow> ensures (f (h', q)) Q"
  shows "ensures (andThen (pd p h) f) Q"
proof (rule ensures_bind [OF pd_ends [OF after_good [OF assms(1)] assms(2)]], clarify)
  fix h' q
  assume "after p q" "if at_eof p then pr_panic q else left q < left p"
  then show "ensures (f (h', q)) Q"
    using after_trans [OF assms(1)] by (cases "pr_panic q") (auto intro: assms(3,4) dest: after_left split: if_splits)
qed


lemma expressions_loop_ok:
  "after p0 p \<Longrightarrow> 2 * left p + 1 \<le> k \<Longrightarrow> left p + 1 \<le> n \<Longrightarrow>
   ensures (expressions_loop pp n msg xs c p) (\<lambda>(h, q). after p0 q \<and> left q \<le> left p)"
proof (induction n arbitrary: p xs c)
  case (Suc n)
  have again: "ensures (expressions_loop pp n msg ys d q) (\<lambda>(h, r). after p0 r \<and> left r \<le> left p)"
    if "after p0 q" "left q < left p" for ys d q
    by (rule ensures_mono [OF Suc.IH [of q]]) (use that Suc.prems in auto)
  show ?case
    unfolding expressions_loop.simps
    using Suc.prems by - (rule step_pp_node, auto split: option.split intro!: step again)
qed simp

lemma compound_loop_ok:
  "after p0 p \<Longrightarrow> 2 * left p + 1 \<le> k \<Longrightarrow> left p + 1 \<le> n \<Longrightarrow>
   ensures (compound_loop pp n b array dictionary p h) (handled_ok p)"
proof (induction n arbitrary: p b array dictionary)
  case (Suc n)
  have again: "ensures (compound_loop pp n b' array' dictionary' q h) (handled_ok p)"
    if "after p0 q" "left q < left p" for b' array' dictionary' q
    by (rule ensures_mono [OF Suc.IH [of q]]) (use that Suc.prems in auto)
  show ?case
    using Suc.prems
    by (auto simp: Let_def handled_def andThen_if split: option.split prod.split intro!: step again step_pp_node)
qed simp

lemma block_loop_ok:
  "after p0 p \<Longrightarrow> 2 * left p + 2 \<le> k \<Longrightarrow> left p + 1 \<le> n \<Longrightarrow>
   ensures (block_loop pd n xs c p) (\<lambda>(b, h, q). after p0 q \<and> left q \<le> left p)"
proof (induction n arbitrary: p xs c)
  case (Suc n)
  have again: "ensures (block_loop pd n ys d q) (\<lambda>(b, h, r). after p0 r \<and> left r \<le> left p)"
    if "after p0 q" "left q < left p" for ys d q
    by (rule ensures_mono [OF Suc.IH [of q]]) (use that Suc.prems in auto)
  show ?case
    using Suc.prems by (auto split: option.split intro!: step step_pd_calm again)
qed simp

declare step_pp [step] step_pd [step]

section \<open>Prefix rules\<close>

lemma typeOf_ok: "after p0 p \<Longrightarrow> 2 * left p + 2 \<le> k \<Longrightarrow> ensures (typeOf pp p h) (handled_ok p)"
  by (auto simp: typeOf_def handled_def intro!: step)

lemma grouping_ok: "after p0 p \<Longrightarrow> 2 * left p + 2 \<le> k \<Longrightarrow> ensures (grouping pp p h) (handled_ok p)"
  by (auto simp: grouping_def handled_def intro!: step)

lemma step_negated [step]: "(\<And>l'. ensures (f l') Q) \<Longrightarrow> ensures (andThen (negated l) f) Q"
  by (simp add: negated_def Let_def)

lemma unary_ok: "after p0 p \<Longrightarrow> 2 * left p + 2 \<le> k \<Longrightarrow> ensures (unary pp p h) (handled_ok p)"
  by (auto simp: unary_def handled_def split: option.split ast.split intro!: step)

lemma castingPrefix_ok: "after p0 p \<Longrightarrow> 2 * left p + 2 \<le> k \<Longrightarrow> ensures (castingPrefix pp p h) (handled_ok p)"
  by (auto simp: castingPrefix_def expression_def handled_def Let_def intro!: step)

section \<open>Infix rules\<close>

text \<open>The postcondition of an infix rule: it takes a token unless it returns \<open>XVR_OP_EOF\<close>.\<close>

abbreviation infix_ok :: "parser \<Rightarrow> opcode \<times> ast option \<times> parser \<Rightarrow> bool" where
  "infix_ok p r \<equiv> after p0 (snd (snd r)) \<and> left (snd (snd r)) < left p"

lemma binary_ok:
  "after p0 p \<Longrightarrow> \<not> at_eof p \<Longrightarrow> 2 * left p + 2 \<le> k \<Longrightarrow> ensures (binary pp p h) (infix_ok p)"
  unfolding binary_def by (erule (1) step_take) (auto split: option.split intro!: step)

lemma question_ok:
  "after p0 p \<Longrightarrow> \<not> at_eof p \<Longrightarrow> 2 * left p + 2 \<le> k \<Longrightarrow> ensures (question pp p h) (infix_ok p)"
  unfolding question_def by (erule (1) step_take) (auto intro!: step)

lemma dot_ok:
  "after p0 p \<Longrightarrow> \<not> at_eof p \<Longrightarrow> 2 * left p + 2 \<le> k \<Longrightarrow> ensures (dot pp p h) (infix_ok p)"
  unfolding dot_def by (erule (1) step_take) (auto simp: Let_def split: option.split bool.split intro!: step)

lemma step_index_part [step]:
  assumes "after p0 p" "2 * left p + 1 \<le> k"
    and "\<And>b h' q. after p0 q \<Longrightarrow> left q \<le> left p \<Longrightarrow> ensures (f (b, h', q)) Q"
  shows "ensures (andThen (index_part pp p) f) Q"
  using assms by (auto simp: index_part_def andThen_assoc andThen_if intro!: step)

lemma indexAccess_ok:
  "after p0 p \<Longrightarrow> \<not> at_eof p \<Longrightarrow> 2 * left p + 2 \<le> k \<Longrightarrow> ensures (indexAccess pp p h) (infix_ok p)"
  unfolding indexAccess_def by (erule (1) step_take) (auto intro!: step)

lemma fnCall_ok:
  "after p0 p \<Longrightarrow> \<not> at_eof p \<Longrightarrow> 2 * left p + 2 \<le> k \<Longrightarrow> left p + 1 \<le> n \<Longrightarrow> ensures (fnCall pp n p h) (infix_ok p)"
  unfolding fnCall_def
  by (erule (1) step_take)
    (auto simp: Let_def handled_def split: option.split intro!: step ensures_bind [OF expressions_loop_ok])

lemma step_block_loop [step]:
  assumes "after p0 p" "2 * left p + 2 \<le> k" "left p + 1 \<le> n"
    and "\<And>b h q. after p0 q \<Longrightarrow> left q \<le> left p \<Longrightarrow> ensures (f (b, h, q)) Q"
  shows "ensures (andThen (block_loop pd n xs c p) f) Q"
  by (rule ensures_bind [OF block_loop_ok]) (use assms in auto)

lemma step_if_branch [step]:
  assumes "after p0 p" "2 * left p + 2 \<le> k" "left p + 1 \<le> n"
    and "\<And>b h q. after p0 q \<Longrightarrow> left q \<le> left p \<Longrightarrow> ensures (f (b, h, q)) Q"
  shows "ensures (andThen (if_branch pd n p) f) Q"
  using assms by (auto simp: if_branch_def andThen_assoc andThen_if intro!: step)

lemma parseIfChain_ok:
  "after p0 p \<Longrightarrow> 2 * left p + 2 \<le> k \<Longrightarrow> left p + 1 \<le> n \<Longrightarrow> left p + 1 \<le> m \<Longrightarrow>
   ensures (parseIfChain pp pd n m p) (\<lambda>(h, q). after p0 q \<and> left q \<le> left p)"
proof (induction m arbitrary: p)
  case (Suc m)
  have again: "ensures (andThen (parseIfChain pp pd n m q) f) Q"
    if "after p0 q" "left q < left p" "\<And>h r. after p0 r \<Longrightarrow> left r \<le> left q \<Longrightarrow> ensures (f (h, r)) Q" for q f Q
    by (rule ensures_bind [OF Suc.IH [of q]]) (use that Suc.prems in auto)
  show ?case
    using Suc.prems by (auto simp: Let_def intro!: step again)
qed simp

lemma step_parseIfChain [step]:
  assumes "after p0 p" "2 * left p + 2 \<le> k" "left p + 1 \<le> n"
    and "\<And>h q. after p0 q \<Longrightarrow> left q \<le> left p \<Longrightarrow> ensures (f (h, q)) Q"
  shows "ensures (andThen (parseIfChain pp pd n n p) f) Q"
  by (rule ensures_bind [OF parseIfChain_ok]) (use assms in auto)

section \<open>Statements\<close>

text \<open>A statement whose keyword has been consumed.\<close>

abbreviation ran_ok :: "parser \<Rightarrow> ast option \<times> parser \<Rightarrow> bool" where
  "ran_ok p r \<equiv> after p0 (snd r) \<and> left (snd r) \<le> left p"

abbreviation fuelled :: "nat \<Rightarrow> parser \<Rightarrow> bool" where
  "fuelled n p \<equiv> after p0 p \<and> 2 * left p + 2 \<le> k \<and> left p + 1 \<le> n"

lemma blockStmt_ok: "fuelled n p \<Longrightarrow> ensures (blockStmt pd n p) (ran_ok p)"
  by (auto simp: blockStmt_def intro!: step)

lemma assertStmt_ok: "fuelled n p \<Longrightarrow> ensures (assertStmt pp p) (ran_ok p)"
  by (auto simp: assertStmt_def intro!: step)

lemma ifStmt_ok: "fuelled n p \<Longrightarrow> ensures (ifStmt pp pd n p) (ran_ok p)"
  unfolding ifStmt_def by (rule step_tail) (auto intro!: step)

lemma ifExpression_ok: "fuelled n p \<Longrightarrow> ensures (ifExpression pp pd n p h) (handled_ok p)"
  by (auto simp: ifExpression_def handled_def intro!: step)

lemma whileStmt_ok: "fuelled n p \<Longrightarrow> ensures (whileStmt pp pd p) (ran_ok p)"
  by (auto simp: whileStmt_def intro!: step)

lemma forStmt_ok: "fuelled n p \<Longrightarrow> ensures (forStmt pp pd p) (ran_ok p)"
  by (auto simp: forStmt_def andThen_assoc andThen_if intro!: step)

lemma breakStmt_ok: "fuelled n p \<Longrightarrow> ensures (breakStmt p) (ran_ok p)"
  by (auto simp: breakStmt_def intro!: step)

lemma continueStmt_ok: "fuelled n p \<Longrightarrow> ensures (continueStmt p) (ran_ok p)"
  by (auto simp: continueStmt_def intro!: step)

lemma returnStmt_ok: "fuelled n p \<Longrightarrow> ensures (returnStmt pp n p h) (ran_ok p)"
  by (auto simp: returnStmt_def intro!: step ensures_bind [OF expressions_loop_ok])

lemma importStmt_ok: "fuelled n p \<Longrightarrow> ensures (importStmt p h) (ran_ok p)"
  by (auto simp: importStmt_def andThen_assoc andThen_if split: option.split ast.split intro!: step)

text \<open>With a token left an expression statement takes it; without one it panics.\<close>

lemma expressionStmt_ok:
  assumes "after p0 p" "2 * left p + 1 \<le> k"
  shows "ensures (expressionStmt pp p h) (\<lambda>(h', q). after p0 q \<and> (if at_eof p then pr_panic q else left q < left p))"
proof -
  have "ensures (andThen (expression pp p NULL) (\<lambda>(node, p).
      andThen (consumeSemicolon p) (\<lambda>p. Done (if node = NULL then h else node, p))))
    (\<lambda>(h', q). after p0 q \<and> (if at_eof p then pr_panic q else left q < left p))"
    unfolding expression_def
  proof (rule ensures_bind [OF pp_ends [OF after_good [OF assms(1)] assms(2)]], clarsimp split del: if_split)
    fix h' q
    assume q: "after p q" "if at_eof p then pr_panic q \<and> h' = NULL else left q < left p"
    show "ensures (andThen (consumeSemicolon q) (\<lambda>p. Done (if h' = NULL then h else h', p)))
        (\<lambda>(h', q). after p0 q \<and> (if at_eof p then pr_panic q else left q < left p))"
      by (rule ensures_bind [OF consumeSemicolon_after [OF after_good [OF q(1)]]])
        (use q after_trans [OF after_trans [OF assms(1) q(1)]] in \<open>auto dest: after_left after_panic split: if_splits\<close>)
  qed
  then show ?thesis
    unfolding expressionStmt_def
    by (cases "at_eof p") (auto simp: match_token_def andThen_assoc intro!: step_take [OF assms(1)])
qed

lemma first_match_ok:
  assumes "after p0 p"
    and "\<forall>(t, f) \<in> set table. t \<noteq> MetaTok XVR_TOKEN_EOF \<and>
      (\<forall>q. after p0 q \<longrightarrow> left q < left p \<longrightarrow> ensures (f q) (ran_ok q))"
    and "ensures (other p) (\<lambda>(h', q). after p0 q \<and> (if at_eof p then pr_panic q else left q < left p))"
  shows "ensures (first_match table other p) (\<lambda>(h', q). after p0 q \<and> (if at_eof p then pr_panic q else left q < left p))"
  using assms(2)
proof (induction table)
  case Nil
  then show ?case using assms(3) by simp
next
  case (Cons row table)
  obtain t f where row: "row = (t, f)" by (cases row)
  have t: "t \<noteq> MetaTok XVR_TOKEN_EOF" and f: "\<And>q. after p0 q \<Longrightarrow> left q < left p \<Longrightarrow> ensures (f q) (ran_ok q)"
    using Cons.prems by (auto simp: row)
  show ?case
  proof (cases "cur_type p = t")
    case True
    have "ensures (andThen (advance_parser p) f) (\<lambda>(h', q). after p0 q \<and> left q < left p)"
    proof (rule step_take [OF assms(1)])
      show "\<not> at_eof p" using True t by simp
    next
      fix q
      assume q: "after p0 q" "left q < left p"
      show "ensures (f q) (\<lambda>(h', q). after p0 q \<and> left q < left p)"
        by (rule ensures_mono [OF f [of q]]) (use q in auto)
    qed
    then show ?thesis
      using True t row by (simp add: match_token_def andThen_assoc)
  next
    case False
    then show ?thesis
      unfolding row first_match.simps match_token_def using Cons by (simp add: split_def)
  qed
qed

section \<open>Declarations\<close>

lemma mark_if_finishes [step]: "(\<And>h. ensures (f h) Q) \<Longrightarrow> ensures (andThen (mark_if_as_expression node ty) f) Q"
  by (auto simp: mark_if_as_expression_def split: option.split ast.split)

lemma step_typed_name [step]:
  assumes "after p0 p" "left p + 1 \<le> n" "\<And>t l ty q. after p0 q \<Longrightarrow> left q \<le> left p \<Longrightarrow> ensures (f (t, l, ty, q)) Q"
  shows "ensures (andThen (typed_name n p) f) Q"
  using assms by (auto simp: typed_name_def Let_def andThen_assoc andThen_if intro!: step)

lemma varDecl_ok: "fuelled n p \<Longrightarrow> ensures (varDecl pp n p) (ran_ok p)"
  by (auto simp: varDecl_def expression_def andThen_assoc andThen_if intro!: step)

lemma returns_loop_ok:
  "after p0 p \<Longrightarrow> left p + 2 \<le> n \<Longrightarrow> ensures (returns_loop n xs c p) (\<lambda>(h, q). after p0 q \<and> left q \<le> left p)"
proof (induction n arbitrary: p xs c)
  case (Suc n)
  have again: "ensures (returns_loop n ys d q) (\<lambda>(h, r). after p0 r \<and> left r \<le> left p)"
    if "after p0 q" "left q < left p" for ys d q
    by (rule ensures_mono [OF Suc.IH [of q]]) (use that Suc.prems in auto)
  show ?case using Suc.prems by (auto simp: Let_def intro!: step again)
qed simp

lemma arguments_loop_ok:
  "after p0 p \<Longrightarrow> left p + 2 \<le> n \<Longrightarrow> ensures (arguments_loop n xs c p) (\<lambda>(h, q). after p0 q \<and> left q \<le> left p)"
proof (induction n arbitrary: p xs c)
  case (Suc n)
  have again: "ensures (arguments_loop n ys d q) (\<lambda>(h, r). after p0 r \<and> left r \<le> left p)"
    if "after p0 q" "left q < left p" for ys d q
    by (rule ensures_mono [OF Suc.IH [of q]]) (use that Suc.prems in auto)
  show ?case using Suc.prems by (auto simp: Let_def intro!: step again)
qed simp

lemma step_returns_loop [step]:
  assumes "after p0 p" "left p + 2 \<le> n" "\<And>h q. after p0 q \<Longrightarrow> left q \<le> left p \<Longrightarrow> ensures (f (h, q)) Q"
  shows "ensures (andThen (returns_loop n xs c p) f) Q"
  by (rule ensures_bind [OF returns_loop_ok]) (use assms in auto)

lemma step_arguments_loop [step]:
  assumes "after p0 p" "left p + 2 \<le> n" "\<And>h q. after p0 q \<Longrightarrow> left q \<le> left p \<Longrightarrow> ensures (f (h, q)) Q"
  shows "ensures (andThen (arguments_loop n xs c p) f) Q"
  by (rule ensures_bind [OF arguments_loop_ok]) (use assms in auto)

lemma fnDecl_ok: "fuelled n p \<Longrightarrow> left p + 2 \<le> n \<Longrightarrow> ensures (fnDecl pd n p) (ran_ok p)"
  by (auto simp: fnDecl_def blockStmt_def Let_def andThen_assoc andThen_if intro!: step)

section \<open>The recursion\<close>

lemma identifier_rule_ok: "after p0 p \<Longrightarrow> ensures (identifier_rule p h) (handled_ok p)"
  by (rule step_tail) (auto intro!: step)

lemma prefix_rule_ok: "fuelled n p \<Longrightarrow> ensures (prefix_rule pp pd n f p h) (handled_ok p)"
  by (cases f)
    (simp_all add: prefix_rule_def atomic_ok castingPrefix_ok ifExpression_ok identifierOrKeyword_ok asType_ok
      typeOf_ok string_literal_ok unary_ok stepPrefix_ok incrementPrefix_def decrementPrefix_def grouping_ok
      compound_def compound_loop_ok identifier_rule_ok)

abbreviation moved_ok :: "parser \<Rightarrow> opcode \<times> ast option \<times> parser \<Rightarrow> bool" where
  "moved_ok p r \<equiv> after p0 (snd (snd r)) \<and> left (snd (snd r)) \<le> left p \<and>
     (fst r \<noteq> XVR_OP_EOF \<longrightarrow> left (snd (snd r)) < left p)"

lemma infix_moved:
  "ensures x (infix_ok p) \<Longrightarrow> ensures x (moved_ok p)"
  by (erule ensures_mono) auto

lemma infix_rule_ok:
  assumes "fuelled n p" "\<not> at_eof p"
  shows "ensures (infix_rule pp n f p h) (moved_ok p)"
proof -
  have "ensures (stepInfix emit p h) (moved_ok p)" for emit
    by (rule ensures_mono [OF stepInfix_ok]) (use assms in auto)
  moreover have "ensures (castingInfix p h) (moved_ok p)"
    by (rule ensures_mono [OF castingInfix_ok]) (use assms in auto)
  ultimately show ?thesis
    using assms
    by (cases f)
      (simp_all add: infix_rule_def fnCall_ok binary_ok incrementInfix_def decrementInfix_def indexAccess_ok
        question_ok dot_ok infix_moved)
qed

lemma dottify_finishes: "ensures (dottify n) (\<lambda>_. True)"
proof (induction n)
  case (NodeBinary op l r)
  then show ?case
    by (cases l; cases r)
      (auto split: ast.split intro!: ensures_bind [where x = "dottify _" and P = "\<lambda>_. True"])
qed simp_all

lemma calcStaticMathFn_finishes: "ensures (calcStaticMathFn h) (\<lambda>_. True)"
  by (auto simp: calcStaticMathFn_def split: option.split ast.split)

lemma combine_ok:
  assumes "after p0 p"
  shows "ensures (combine op h rhs p) (\<lambda>(b, h', q). after p0 q \<and> left q = left p \<and> (op = XVR_OP_EOF \<longrightarrow> \<not> b))"
  using assms
  by (auto simp: combine_def Let_def andThen_assoc split: option.split ast.split
      intro!: step ensures_bind [OF calcStatic_ok] ensures_bind [OF dottify_finishes]
        ensures_bind [OF calcStaticMathFn_finishes])

lemma infix_loop_ok:
  "fuelled n p \<Longrightarrow> left p + 1 \<le> m \<Longrightarrow>
   ensures (infix_loop pp n m prec p h) (\<lambda>(b, h', q). after p0 q \<and> left q \<le> left p)"
proof (induction m arbitrary: p h)
  case (Suc m)
  have round: "ensures (andThen (infix_rule pp n f p NULL) (\<lambda>(op, rhs, p).
      andThen (combine op h rhs p) (\<lambda>(continue, h, p).
        if continue then infix_loop pp n m prec p h else Done (False, h, p))))
      (\<lambda>(b, h', q). after p0 q \<and> left q \<le> left p)"
    if f: "pl_infix (getRule (cur_type p)) = Some f" for f
  proof -
    have "\<not> at_eof p" using f by (auto simp: rule_def)
    note i = infix_rule_ok [OF Suc.prems(1) this, of f NULL]
    show ?thesis
    proof (rule ensures_bind [OF i], clarsimp)
      fix op rhs q
      assume q: "after p0 q" "left q \<le> left p" "op \<noteq> XVR_OP_EOF \<longrightarrow> left q < left p"
      show "ensures (andThen (combine op h rhs q) (\<lambda>(continue, h, p).
            if continue then infix_loop pp n m prec p h else Done (False, h, p)))
          (\<lambda>(b, h', q). after p0 q \<and> left q \<le> left p)"
      proof (rule ensures_bind [OF combine_ok [OF q(1)]], clarsimp, intro conjI impI)
        fix b h' r
        assume r: "after p0 r" "left r = left q" "op = XVR_OP_EOF \<longrightarrow> \<not> b"
        show "ensures (infix_loop pp n m prec r h') (\<lambda>(b, h', q). after p0 q \<and> left q \<le> left p)" if b
          by (rule ensures_mono [OF Suc.IH]) (use that q r Suc.prems in auto)
      qed (use q in simp)
    qed
  qed
  show ?case
    using Suc.prems round by (auto split: option.split intro!: step)
qed simp

lemma statement_ok:
  assumes "after p0 p" "2 * left p + 1 \<le> k"
  shows "ensures (statement pp pd k p h)
    (\<lambda>(h', q). after p0 q \<and> (if at_eof p then pr_panic q else left q < left p))"
  unfolding statement_def
  by (rule first_match_ok [OF assms(1)])
    (use assms expressionStmt_ok in \<open>auto intro!: blockStmt_ok assertStmt_ok ifStmt_ok whileStmt_ok forStmt_ok
      breakStmt_ok continueStmt_ok returnStmt_ok importStmt_ok\<close>)

lemma declaration_step_ok:
  assumes "good p0" "2 * left p0 + 1 \<le> k"
  shows "ensures (declaration_step pp pd k p0 h)
    (\<lambda>(h', q). after p0 q \<and> (if at_eof p0 then pr_panic q else left q < left p0))"
  unfolding declaration_step_def
  by (rule first_match_ok [OF after_refl [OF assms(1)]])
    (use assms statement_ok [OF after_refl] in \<open>auto intro!: varDecl_ok fnDecl_ok\<close>)

lemma parsePrecedence_step_ok:
  assumes "good p0" "2 * left p0 \<le> k"
  shows "ensures (parsePrecedence_step pp pd k p0 h prec) (\<lambda>(h', q). after p0 q \<and>
    (if at_eof p0 then pr_panic q \<and> h' = NULL else left q < left p0))"
proof (cases "at_eof p0")
  case True
  then show ?thesis
    unfolding parsePrecedence_step_def
    by - (rule step_advance [OF after_refl [OF assms(1)]], auto simp: rule_def intro!: step)
next
  case False
  show ?thesis
    unfolding parsePrecedence_step_def
  proof (rule step_take [OF after_refl [OF assms(1)] False], goal_cases)
    case (1 q)
    then have q: "fuelled k q" using assms by auto
    show ?case
      using 1 q
      by (auto simp: False split: option.split
          intro!: step ensures_bind [OF prefix_rule_ok [OF q]] ensures_bind [OF infix_loop_ok])
  qed
qed

end

lemma parser_calls_ok: "parser_calls (parsePrecedence n) (parse_declaration n) n"
proof (induction n)
  case (Suc n)
  show ?case
    by unfold_locales
      (simp_all add: parser_calls.parsePrecedence_step_ok [OF Suc] parser_calls.declaration_step_ok [OF Suc])
qed (simp add: parser_calls_def)

interpretation parsing: parser_calls p0 "parsePrecedence n" "parse_declaration n" n for p0 n
  by (rule parser_calls_ok)

end
