(* ===== verification/ParserFuel.thy ===== *)
theory ParserFuel
  imports ParserCalls
begin

text \<open>
  More fuel does not change a result: every handler is monotone in the two procedures and the number of
  rounds it is given, for the order in which \<open>Unfinished\<close> is below every outcome.
\<close>

definition below :: "'a outcome \<Rightarrow> 'a outcome \<Rightarrow> bool" where
  "below x y \<longleftrightarrow> x = Unfinished \<or> x = y"

named_theorems below

lemma below_refl [below]: "below x x"
  by (simp add: below_def)

lemma below_Unfinished [below]: "below Unfinished x"
  by (simp add: below_def)

lemma below_andThen [below]:
  assumes "below x y" "\<And>a. below (f a) (g a)"
  shows "below (andThen x f) (andThen y g)"
  using assms(1) assms(2) [of "case x of Done a \<Rightarrow> a"] by (cases x) (auto simp: below_def)

lemma below_if [below]: "(b \<Longrightarrow> below x y) \<Longrightarrow> (\<not> b \<Longrightarrow> below x' y') \<Longrightarrow> below (if b then x else x') (if b then y else y')"
  by simp

lemma below_pair [below]:
  "(\<And>a b. below (f a b) (g a b)) \<Longrightarrow> below (case z of (a, b) \<Rightarrow> f a b) (case z of (a, b) \<Rightarrow> g a b)"
  by (cases z) simp

lemma below_option [below]:
  "below x y \<Longrightarrow> (\<And>a. below (f a) (g a)) \<Longrightarrow>
   below (case z of None \<Rightarrow> x | Some a \<Rightarrow> f a) (case z of None \<Rightarrow> y | Some a \<Rightarrow> g a)"
  by (cases z) simp_all

lemma readType_fuel: "n \<le> m \<Longrightarrow> below (readTypeToLiteral n p) (readTypeToLiteral m p)"
proof (induction n arbitrary: m p)
  case (Suc n)
  then obtain k where k: "m = Suc k" "n \<le> k" by (cases m) auto
  show ?case
    unfolding k(1) readTypeToLiteral.simps Let_def by (auto intro!: below Suc.IH k(2))
qed (simp add: readTypeToLiteral.simps below)

lemma synchronize_fuel: "n \<le> m \<Longrightarrow> below (synchronize n p) (synchronize m p)"
proof (induction n arbitrary: m p)
  case (Suc n)
  then obtain k where "m = Suc k" "n \<le> k" by (cases m) auto
  then show ?case by (auto intro!: below Suc.IH)
qed (simp add: below)

lemma returns_loop_fuel: "n \<le> m \<Longrightarrow> below (returns_loop n xs c p) (returns_loop m xs c p)"
proof (induction n arbitrary: m xs c p)
  case (Suc n)
  then obtain k where "m = Suc k" "n \<le> k" by (cases m) auto
  then show ?case by (auto simp: Let_def intro!: below Suc.IH readType_fuel)
qed (simp add: below)

lemma typed_name_fuel: "n \<le> m \<Longrightarrow> below (typed_name n p) (typed_name m p)"
  by (auto simp: typed_name_def Let_def intro!: below readType_fuel)

lemma arguments_loop_fuel: "n \<le> m \<Longrightarrow> below (arguments_loop n xs c p) (arguments_loop m xs c p)"
proof (induction n arbitrary: m xs c p)
  case (Suc n)
  then obtain k where "m = Suc k" "n \<le> k" by (cases m) auto
  then show ?case by (auto simp: Let_def intro!: below Suc.IH typed_name_fuel)
qed (simp add: below)

locale wider =
  fixes pp pp' :: pp and pd pd' :: pd and n m :: nat
  assumes pp_below [below]: "below (pp p h prec) (pp' p h prec)"
    and pd_below [below]: "below (pd p h) (pd' p h)"
    and rounds: "n \<le> m"
begin

lemma prefix_below [below]:
  "below (typeOf pp p h) (typeOf pp' p h)" "below (grouping pp p h) (grouping pp' p h)"
  "below (unary pp p h) (unary pp' p h)" "below (castingPrefix pp p h) (castingPrefix pp' p h)"
  "below (expression pp p h) (expression pp' p h)"
     apply (auto simp: typeOf_def intro!: below)[1]
    apply (auto simp: grouping_def intro!: below)[1]
   apply (auto simp: unary_def split: ast.split intro!: below)[1]
  by (auto simp: castingPrefix_def Let_def expression_def intro!: below)

lemma infix_below [below]:
  "below (binary pp p h) (binary pp' p h)" "below (question pp p h) (question pp' p h)"
  "below (dot pp p h) (dot pp' p h)" "below (index_part pp p) (index_part pp' p)"
  "below (indexAccess pp p h) (indexAccess pp' p h)"
  by (auto simp: binary_def question_def dot_def index_part_def indexAccess_def Let_def intro!: below)

lemma expressions_loop_below: "i \<le> j \<Longrightarrow> below (expressions_loop pp i msg xs c p) (expressions_loop pp' j msg xs c p)"
proof (induction i arbitrary: j xs c p)
  case (Suc i)
  then obtain k where "j = Suc k" "i \<le> k" by (cases j) auto
  then show ?case by (auto intro!: below Suc.IH)
qed (simp add: below)

lemma compound_loop_below:
  "i \<le> j \<Longrightarrow> below (compound_loop pp i start array dictionary p h) (compound_loop pp' j start array dictionary p h)"
proof (induction i arbitrary: j start array dictionary p)
  case (Suc i)
  then obtain k where "j = Suc k" "i \<le> k" by (cases j) auto
  then show ?case by (auto simp: Let_def intro!: below Suc.IH)
qed (simp add: below)

lemma block_loop_below: "i \<le> j \<Longrightarrow> below (block_loop pd i xs c p) (block_loop pd' j xs c p)"
proof (induction i arbitrary: j xs c p)
  case (Suc i)
  then obtain k where "j = Suc k" "i \<le> k" by (cases j) auto
  then show ?case by (auto intro!: below Suc.IH)
qed (simp add: below)

lemmas loops_below [below] =
  expressions_loop_below [OF rounds] compound_loop_below [OF rounds] block_loop_below [OF rounds]
  readType_fuel [OF rounds] returns_loop_fuel [OF rounds] arguments_loop_fuel [OF rounds] typed_name_fuel [OF rounds]

lemma if_branch_below [below]: "below (if_branch pd n p) (if_branch pd' m p)"
  by (auto simp: if_branch_def intro!: below)

lemma parseIfChain_below: "i \<le> j \<Longrightarrow> below (parseIfChain pp pd n i p) (parseIfChain pp' pd' m j p)"
proof (induction i arbitrary: j p)
  case (Suc i)
  then obtain k where "j = Suc k" "i \<le> k" by (cases j) auto
  then show ?case by (auto simp: Let_def intro!: below Suc.IH)
qed (simp add: below)

lemmas chain_below [below] = parseIfChain_below [OF rounds]

lemma statement_below [below]: "below (statement pp pd n p h) (statement pp' pd' m p h)"
  by (auto simp: statement_def blockStmt_def assertStmt_def ifStmt_def whileStmt_def forStmt_def returnStmt_def
      expressionStmt_def intro!: below)

lemma declaration_step_below: "below (declaration_step pp pd n p h) (declaration_step pp' pd' m p h)"
  by (auto simp: declaration_step_def varDecl_def fnDecl_def blockStmt_def Let_def intro!: below)

lemma prefix_rule_below [below]: "below (prefix_rule pp pd n f p h) (prefix_rule pp' pd' m f p h)"
  by (cases f) (simp_all add: prefix_rule_def compound_def ifExpression_def asType_def below)

lemma infix_rule_below [below]: "below (infix_rule pp n f p h) (infix_rule pp' m f p h)"
  by (cases f) (auto simp: infix_rule_def fnCall_def Let_def intro!: below)

lemma infix_loop_below: "i \<le> j \<Longrightarrow> below (infix_loop pp n i prec p h) (infix_loop pp' m j prec p h)"
proof (induction i arbitrary: j p h)
  case (Suc i)
  then obtain k where "j = Suc k" "i \<le> k" by (cases j) auto
  then show ?case by (auto intro!: below Suc.IH)
qed (simp add: below)

lemma parsePrecedence_step_below: "below (parsePrecedence_step pp pd n p h prec) (parsePrecedence_step pp' pd' m p h prec)"
  by (auto simp: parsePrecedence_step_def intro!: below infix_loop_below [OF rounds])

end

lemma wider_ok: "n \<le> m \<Longrightarrow> wider (parsePrecedence n) (parsePrecedence m) (parse_declaration n) (parse_declaration m) n m"
proof (induction n arbitrary: m)
  case (Suc n)
  then obtain k where k: "m = Suc k" "n \<le> k" by (cases m) auto
  show ?case
    unfolding k(1)
    by unfold_locales
      (simp_all add: wider.parsePrecedence_step_below [OF Suc.IH [OF k(2)]] wider.declaration_step_below [OF Suc.IH [OF k(2)]] k(2))
qed (simp add: wider_def below)

interpretation more: wider "parsePrecedence n" "parsePrecedence (n + d)" "parse_declaration n" "parse_declaration (n + d)" n "n + d"
  for n d
  by (rule wider_ok) simp

lemma scan_fuel: "below (Xvr_scanParser n p) (Xvr_scanParser (n + d) p)"
  unfolding Xvr_scanParser_def by (auto intro!: below more.pd_below synchronize_fuel)

lemma parse_loop_Suc:
  "parse_loop n (Suc m) p nodes =
     andThen (Xvr_scanParser n p) (\<lambda>(node, p).
       if node = NULL then Done (if nodes = [] then None else Some nodes)
       else if node = Some NodeError then andThen (freed nodes p) (\<lambda>p. Done None)
       else parse_loop n m p (nodes @ [the node]))"
  unfolding parse_loop.simps
  by (rule arg_cong [where f = "andThen _"]) (auto intro!: ext split: option.split ast.split)

lemma parse_to_ast_fuel: "below (parse_to_ast n s) (parse_to_ast (n + d) s)"
proof -
  have "below (parse_loop n i p xs) (parse_loop (n + d) j p xs)" if "i \<le> j" for i j p xs
    using that
  proof (induction i arbitrary: j p xs)
    case (Suc i)
    then obtain k where k: "j = Suc k" "i \<le> k" by (cases j) auto
    show ?case unfolding k(1) parse_loop_Suc by (auto intro!: below scan_fuel Suc.IH k(2))
  qed (simp add: below)
  then show ?thesis
    unfolding parse_to_ast_def by (intro below) simp
qed

end
