(* ===== verification/ParserChains.thy ===== *)
theory ParserChains
  imports ParserFuel
begin

text \<open>
  The tree that \<open>parsePrecedence\<close> makes of a chain of operands and binary operators, described without
  the parser: a chain is split at the first operator of the least precedence.
\<close>

section \<open>The tree of a chain\<close>

abbreviation precedence :: "token_type \<Rightarrow> prec" where
  "precedence t \<equiv> pl_precedence (getRule t)"

definition opcode_of :: "token_type \<Rightarrow> opcode" where
  "opcode_of t = (case binary_operator t of Some (op, _) \<Rightarrow> op | None \<Rightarrow> XVR_OP_EOF)"

definition loosest :: "(token_type \<times> ast) list \<Rightarrow> prec" where
  "loosest ops = Min ((\<lambda>o'. precedence (fst o')) ` set ops)"

function chain :: "ast \<Rightarrow> (token_type \<times> ast) list \<Rightarrow> ast" where
  "chain x ops =
     (if ops = [] then x
      else case dropWhile (\<lambda>o'. precedence (fst o') \<noteq> loosest ops) ops of
             (t, y) # after_it \<Rightarrow>
               NodeBinary (opcode_of t)
                 (Some (chain x (takeWhile (\<lambda>o'. precedence (fst o') \<noteq> loosest ops) ops)))
                 (Some (chain y after_it))
           | [] \<Rightarrow> x)"
  by pat_completeness auto
termination
proof (relation "measure (length \<circ> snd)", goal_cases)
  case (2 x ops)
  then show ?case
    using takeWhile_dropWhile_id [of "\<lambda>o'. precedence (fst o') \<noteq> loosest ops" ops, THEN arg_cong, of length] by simp
next
  case (3 x ops)
  then show ?case
    using takeWhile_dropWhile_id [of "\<lambda>o'. precedence (fst o') \<noteq> loosest ops" ops, THEN arg_cong, of length] by simp
qed simp

declare chain.simps [simp del]

lemma chain_Nil [simp]: "chain x [] = x"
  by (simp add: chain.simps)

lemma loosest_in: "ops \<noteq> [] \<Longrightarrow> \<exists>o' \<in> set ops. precedence (fst o') = loosest ops"
proof -
  assume "ops \<noteq> []"
  then have "loosest ops \<in> (\<lambda>o'. precedence (fst o')) ` set ops"
    unfolding loosest_def by (intro Min_in) auto
  then show ?thesis by (metis (no_types, lifting) imageE)
qed

lemma loosest_le: "o' \<in> set ops \<Longrightarrow> loosest ops \<le> precedence (fst o')"
  by (simp add: loosest_def)

lemma loosest_eqI:
  "o' \<in> set ops \<Longrightarrow> (\<And>b. b \<in> set ops \<Longrightarrow> precedence (fst o') \<le> precedence (fst b)) \<Longrightarrow> loosest ops = precedence (fst o')"
  unfolding loosest_def by (rule Min_eqI) auto

text \<open>A chain whose first operator is followed by tighter operators \<open>a\<close>: they belong to its right operand.\<close>

lemma chain_step:
  assumes "\<And>o'. o' \<in> set a \<Longrightarrow> precedence t \<le> precedence (fst o')"
    and "b \<noteq> [] \<Longrightarrow> precedence (fst (hd b)) < precedence t"
  shows "chain x ((t, y) # a @ b) = chain (NodeBinary (opcode_of t) (Some x) (Some (chain y a))) b"
  using assms
proof (induction b rule: length_induct)
  case (1 b)
  let ?ops = "(t, y) # a @ b"
  show ?case
  proof (cases "b = []")
    case True
    have "loosest ?ops = precedence (fst (t, y))"
      by (rule loosest_eqI) (use 1(2) True in auto)
    then show ?thesis by (subst chain.simps) (simp add: True)
  next
    case False
    let ?m = "loosest b"
    let ?P = "\<lambda>o'. precedence (fst o') \<noteq> ?m"
    have hb: "hd b \<in> set b" using False by simp
    have lt: "?m < precedence t"
      using loosest_le [OF hb] 1(3) [OF False] by simp
    obtain w where w: "w \<in> set b" "precedence (fst w) = ?m" using loosest_in [OF False] by blast
    have "loosest ?ops = precedence (fst w)"
      by (rule loosest_eqI) (use w lt 1(2) loosest_le [of _ b] in \<open>auto intro: less_imp_le order_trans\<close>)
    then have m: "loosest ?ops = ?m" using w(2) by simp
    have P: "?P (t, y)" using lt by simp
    have Pa: "?P o'" if "o' \<in> set a" for o'
      using order.strict_trans2 [OF lt 1(2) [OF that]] by simp
    obtain u z post where d: "dropWhile ?P b = (u, z) # post"
      using w by (cases "dropWhile ?P b") (auto simp: dropWhile_eq_Nil_conv)
    have "takeWhile ?P (a @ b) = a @ takeWhile ?P b" "dropWhile ?P (a @ b) = dropWhile ?P b"
      using takeWhile_append2 [of a ?P b, OF Pa] dropWhile_append2 [of a ?P b, OF Pa] by simp_all
    then have tw: "takeWhile ?P ?ops = (t, y) # a @ takeWhile ?P b" "dropWhile ?P ?ops = (u, z) # post"
      using P by (simp_all only: takeWhile.simps dropWhile.simps if_True not_False_eq_True d)
    have len: "length (takeWhile ?P b) < length b"
    proof -
      have "length (takeWhile ?P b @ dropWhile ?P b) = length b" by (simp only: takeWhile_dropWhile_id)
      then show ?thesis by (simp only: d length_append) simp
    qed
    have hd': "takeWhile ?P b \<noteq> [] \<Longrightarrow> hd (takeWhile ?P b) = hd b"
      using False by (cases b) (simp_all split: if_splits)
    have IH: "chain x ((t, y) # a @ takeWhile ?P b) =
        chain (NodeBinary (opcode_of t) (Some x) (Some (chain y a))) (takeWhile ?P b)"
      using 1(1) len 1(2,3) hd' False by auto
    have "chain x ?ops = NodeBinary (opcode_of u) (Some (chain x (takeWhile ?P ?ops))) (Some (chain z post))"
      by (subst chain.simps) (simp only: m tw list.case prod.case list.distinct if_False)
    moreover have "chain x' b = NodeBinary (opcode_of u) (Some (chain x' (takeWhile ?P b))) (Some (chain z post))" for x'
      by (subst chain.simps) (simp add: d False)
    ultimately show ?thesis by (simp only: tw IH)
  qed
qed

section \<open>Tokens to come\<close>

fun scans :: "lexer \<Rightarrow> token list \<Rightarrow> bool" where
  "scans lx [] = True"
| "scans lx (t # ts) =
     (case Xvr_private_scanLexer lx of
        Some (t', lx') \<Rightarrow> t' = t \<and> tok_type t \<noteq> MetaTok XVR_TOKEN_ERROR \<and> scans lx' ts
      | None \<Rightarrow> False)"

text \<open>A parser that has not panicked and that has a sound lexer over \<open>s\<close>, with the next tokens.\<close>

definition reads :: "string \<Rightarrow> parser \<Rightarrow> token list \<Rightarrow> bool" where
  "reads s p ts \<longleftrightarrow> \<not> pr_panic p \<and>
     (case (pr_lexer p, ts) of
        (Some lx, t # us) \<Rightarrow> lexer_good lx \<and> lx_source lx = s \<and> pr_current p = t \<and> scans lx us
      | _ \<Rightarrow> False)"

definition name_in :: "string \<Rightarrow> token \<Rightarrow> string" where
  "name_in s t = (case tok_lexeme t of InSource k \<Rightarrow> take (tok_length t) (drop k s) | _ \<Rightarrow> [])"

definition names :: "token \<Rightarrow> bool" where
  "names t \<longleftrightarrow> tok_type t = LiteralTok XVR_TOKEN_IDENTIFIER \<and> tok_length t \<le> 256 \<and>
     (case tok_lexeme t of InSource k \<Rightarrow> True | _ \<Rightarrow> False)"

definition name_node :: "string \<Rightarrow> token \<Rightarrow> ast" where
  "name_node s t = Xvr_emitASTNodeLiteral (Xvr_private_toIdentifierLiteral (name_in s t))"

lemma reads_advance:
  assumes "reads s p (t # u # us)"
  shows "\<exists>q. advance_parser p = Done q \<and> reads s q (u # us) \<and> pr_previous q = t"
proof -
  obtain lx where lx: "pr_lexer p = Some lx" "lexer_good lx" "lx_source lx = s" "pr_current p = t" "scans lx (u # us)"
    using assms by (auto simp: reads_def split: option.splits)
  then obtain lx' where s: "Xvr_private_scanLexer lx = Some (u, lx')" "scans lx' us" "tok_type u \<noteq> MetaTok XVR_TOKEN_ERROR"
    by (auto split: option.splits)
  have "lexer_good lx'" "lx_source lx' = s"
    using scan_forward [OF lx(2) s(1)] lx(3) by simp_all
  then show ?thesis
    using assms lx s by (simp add: advance_parser_def reads_def)
qed

lemma reads_name:
  assumes "reads s p ts" "names (pr_previous p)"
  shows "identifier_rule p h = Done (XVR_OP_EOF, Some (name_node s (pr_previous p)), p)"
  using assms
  by (auto simp: identifier_rule_def names_def Let_def name_of_def token_chars_def token_text_def reads_def handled_def
      name_node_def name_in_def split: lexeme.splits option.splits list.splits)

section \<open>Trees that do not fold\<close>

fun unfolded :: "ast \<Rightarrow> bool" where
  "unfolded (NodeLiteral (Ident s h)) = True"
| "unfolded (NodeBinary op (Some l) (Some r)) = (unfolded l \<and> unfolded r)"
| "unfolded _ = False"

lemma unfolded_literal: "unfolded (NodeLiteral l) \<Longrightarrow> \<exists>s h. l = Ident s h"
  by (cases l) simp_all

lemma unfolded_name: "unfolded (name_node s t)"
  by (simp add: name_node_def Xvr_emitASTNodeLiteral_def Xvr_private_toIdentifierLiteral_def Xvr_copyLiteral_def)

lemma fold_names: "fold_literals op (Ident s h) (Ident s' h') = NotFolded"
  by (simp add: fold_literals_def is_string_def coerced_def Let_def is_integer_type_def is_float_type_def)

lemma fold_node_binary:
  "is_binary l \<or> is_binary r \<Longrightarrow> fold_node op l r p = Done (True, NodeBinary op (Some l) (Some r), p)"
  unfolding fold_node_def by (cases l; cases r; simp only: is_binary.simps prod.case ast.case simp_thms)

lemma unfolded_split: "unfolded n \<Longrightarrow> is_binary n \<or> (\<exists>s h. n = NodeLiteral (Ident s h))"
  by (cases n) (auto dest: unfolded_literal)

lemma fold_unfolded:
  assumes "unfolded l" "unfolded r"
  shows "fold_node op l r p = Done (True, NodeBinary op (Some l) (Some r), p)"
proof (cases "is_binary l \<or> is_binary r")
  case True
  then show ?thesis by (rule fold_node_binary)
next
  case False
  with assms [THEN unfolded_split] show ?thesis by (auto simp: fold_node_def fold_names)
qed

lemma calcStatic_unfolded:
  "unfolded n \<Longrightarrow> is_binary n \<Longrightarrow> calcStaticBinaryArithmetic p n = Done (True, n, p)"
proof (induction n rule: unfolded.induct)
  case (2 op l r)
  then show ?case by (simp add: fold_unfolded)
qed simp_all

section \<open>Chains of binary operators\<close>

definition operator :: "token \<Rightarrow> bool" where
  "operator t \<longleftrightarrow> binary_operator (tok_type t) \<noteq> None"

lemma operator_rule:
  assumes "binary_operator t = Some (op, prec)"
  shows "pl_infix (getRule t) = Some Fn_binary" "precedence t = prec" "opcode_of t = op"
    "op \<notin> {XVR_OP_EOF, XVR_OP_TERNARY, XVR_OP_INDEX, XVR_OP_DOT}"
  using assms by (cases t rule: binary_operator.cases; simp add: rule_def opcode_of_def; fail)+

text \<open>The tokens of a chain after its first operand, and its operators with their right operands.\<close>

definition chain_tokens :: "(token \<times> token) list \<Rightarrow> token list" where
  "chain_tokens ops = concat (map (\<lambda>(o', y). [o', y]) ops)"

definition chain_nodes :: "string \<Rightarrow> (token \<times> token) list \<Rightarrow> (token_type \<times> ast) list" where
  "chain_nodes s ops = map (\<lambda>(o', y). (tok_type o', name_node s y)) ops"

lemma chain_append:
  "chain_tokens (a @ b) = chain_tokens a @ chain_tokens b" "chain_nodes s (a @ b) = chain_nodes s a @ chain_nodes s b"
  by (simp_all add: chain_tokens_def chain_nodes_def)

lemma chain_Cons [simp]:
  "chain_tokens ((t, y) # ops) = t # y # chain_tokens ops"
  "chain_nodes s ((t, y) # ops) = (tok_type t, name_node s y) # chain_nodes s ops"
  by (simp_all add: chain_tokens_def chain_nodes_def)

lemma chain_empty [simp]: "chain_tokens [] = []" "chain_nodes s [] = []"
  by (simp_all add: chain_tokens_def chain_nodes_def)

lemma combine_binary:
  assumes "binary_operator t = Some (op, prec)" "\<not> pr_panic p" "unfolded l" "unfolded r"
  shows "combine op (Some l) (Some r) p = Done (True, Some (NodeBinary op (Some l) (Some r)), p)"
  using operator_rule(4) [OF assms(1)] assms
  by (simp add: combine_def Xvr_emitASTNodeBinary_def calcStatic_unfolded fold_unfolded calcStaticMathFn_def)

definition tighter :: "prec \<Rightarrow> (token \<times> token) list \<Rightarrow> bool" where
  "tighter prec ops \<longleftrightarrow> (\<forall>(o', y) \<in> set ops. operator o' \<and> prec \<le> precedence (tok_type o') \<and> names y)"

lemma unfolded_chain: "unfolded x \<Longrightarrow> \<forall>oy \<in> set ops. unfolded (snd oy) \<Longrightarrow> unfolded (chain x ops)"
proof (induction "length ops" arbitrary: x ops rule: less_induct)
  case less
  let ?P = "\<lambda>o'. precedence (fst o') \<noteq> loosest ops"
  have len: "length (takeWhile ?P ops) + length (dropWhile ?P ops) = length ops"
    by (simp only: length_append [symmetric] takeWhile_dropWhile_id)
  show ?case
  proof (cases "dropWhile ?P ops")
    case Nil
    then have "chain x ops = x" by (subst chain.simps) (simp only: list.case if_cancel)
    then show ?thesis using less.prems by simp
  next
    case (Cons w post)
    obtain t y where w: "w = (t, y)" by (cases w)
    have sub: "set (takeWhile ?P ops) \<subseteq> set ops" "set (w # post) \<subseteq> set ops"
      unfolding Cons [symmetric] by (auto dest: set_takeWhileD set_dropWhileD)
    have eq: "chain x ops = NodeBinary (opcode_of t) (Some (chain x (takeWhile ?P ops))) (Some (chain y post))"
      using Cons by (subst chain.simps) (cases ops; simp only: w list.case prod.case if_False list.distinct dropWhile.simps)
    have "length (takeWhile ?P ops) < length ops" "length post < length ops"
      using len unfolding Cons by simp_all
    then have "unfolded (chain x (takeWhile ?P ops))" "unfolded (chain y post)"
      using less.prems sub w by (auto intro!: less.hyps)
    then show ?thesis by (simp add: eq)
  qed
qed

text \<open>The loop of \<open>parsePrecedence\<close>, with the left operand in hand, when right operands are parsed as the
  assumption says.\<close>

lemma infix_loop_chain:
  assumes right: "\<And>ops' p' y prec' stop' rest'. length ops' < length all \<Longrightarrow>
      reads s p' (y # chain_tokens ops' @ stop' # rest') \<Longrightarrow> names y \<Longrightarrow> tighter prec' ops' \<Longrightarrow>
      precedence (tok_type stop') < prec' \<Longrightarrow>
      \<exists>q. pp p' NULL prec' = Done (Some (chain (name_node s y) (chain_nodes s ops')), q) \<and> reads s q (stop' # rest')"
  shows "length ops \<le> length all \<Longrightarrow> length ops < m \<Longrightarrow> reads s p (chain_tokens ops @ stop # rest) \<Longrightarrow>
    tighter prec ops \<Longrightarrow> precedence (tok_type stop) < prec \<Longrightarrow> unfolded h \<Longrightarrow>
    \<exists>q. infix_loop pp n m prec p (Some h) = Done (True, Some (chain h (chain_nodes s ops)), q) \<and> reads s q (stop # rest)"
proof (induction m arbitrary: ops p h)
  case (Suc m)
  show ?case
  proof (cases ops)
    case Nil
    then have "cur_type p = tok_type stop" using Suc.prems(3) by (auto simp: reads_def split: option.splits)
    then show ?thesis using Suc.prems(3,5) Nil by auto
  next
    case (Cons oy os)
    obtain t y where oy: "oy = (t, y)" by (cases oy)
    let ?P = "\<lambda>oy. precedence (tok_type t) \<le> precedence (tok_type (fst oy))"
    let ?a = "takeWhile ?P os" and ?b = "dropWhile ?P os"
    have t: "operator t" "prec \<le> precedence (tok_type t)" "names y"
      using Suc.prems(4) Cons oy by (auto simp: tighter_def)
    then obtain op where op: "binary_operator (tok_type t) = Some (op, precedence (tok_type t))"
      using operator_rule(2) by (fastforce simp: operator_def)
    obtain stop' rest' where stop': "chain_tokens ?b @ stop # rest = stop' # rest'"
      "precedence (tok_type stop') < precedence (tok_type t)"
    proof (cases ?b)
      case Nil
      then have "chain_tokens ?b @ stop # rest = stop # rest" by (simp only: chain_empty append_Nil)
      then show ?thesis using that order.strict_trans2 [OF Suc.prems(5) t(2)] by blast
    next
      case (Cons w b)
      then have "\<not> ?P w" by (metis hd_dropWhile list.distinct(1) list.sel(1))
      with Cons that show ?thesis by (cases w) (auto simp: not_le)
    qed
    have toks: "chain_tokens ops @ stop # rest = t # y # chain_tokens ?a @ stop' # rest'"
      using stop'(1) chain_append(1) [of ?a ?b] unfolding Cons oy by simp
    obtain q where q: "advance_parser p = Done q" "reads s q (y # chain_tokens ?a @ stop' # rest')" "pr_previous q = t"
      using reads_advance Suc.prems(3) unfolding toks by blast
    have la: "length ?a < length all" "length ?b < m" "length ?b \<le> length all"
      using Suc.prems(1,2) Cons length_takeWhile_le [of ?P os] length_dropWhile_le [of ?P os] by auto
    have ta: "tighter (precedence (tok_type t)) ?a" "tighter prec ?b"
      using Suc.prems(4) Cons by (auto simp: tighter_def dest: set_takeWhileD set_dropWhileD)
    obtain r where r: "pp q NULL (precedence (tok_type t)) = Done (Some (chain (name_node s y) (chain_nodes s ?a)), r)"
        "reads s r (stop' # rest')"
      using right [OF la(1) q(2) t(3) ta(1) stop'(2)] by blast
    let ?h = "NodeBinary op (Some h) (Some (chain (name_node s y) (chain_nodes s ?a)))"
    have u: "unfolded (chain (name_node s y) (chain_nodes s ?a))"
      by (rule unfolded_chain) (auto simp: unfolded_name chain_nodes_def)
    have cur: "cur_type p = tok_type t" using Suc.prems(3) unfolding toks by (auto simp: reads_def split: option.splits)
    have i: "infix_loop pp n (Suc m) prec p (Some h) = infix_loop pp n m prec r (Some ?h)"
      using operator_rule [OF op] t(2) q(1,3) r op combine_binary [OF op _ Suc.prems(6) u, of r]
      by (simp add: cur infix_rule_def binary_def reads_def)
    have b: "reads s r (chain_tokens ?b @ stop # rest)" using r(2) stop'(1) by simp
    have "chain h (chain_nodes s ops) = chain ?h (chain_nodes s ?b)"
    proof -
      have "chain_nodes s ops = (tok_type t, name_node s y) # chain_nodes s ?a @ chain_nodes s ?b"
        using chain_append(2) [of s ?a ?b] unfolding Cons oy by simp
      moreover have "precedence (fst (hd (chain_nodes s ?b))) < precedence (tok_type t)" if "chain_nodes s ?b \<noteq> []"
        using stop' that by (cases ?b) (auto simp: chain_nodes_def chain_tokens_def)
      moreover have "precedence (tok_type t) \<le> precedence (fst o')" if "o' \<in> set (chain_nodes s ?a)" for o'
        using that ta(1) by (auto simp: chain_nodes_def tighter_def)
      ultimately show ?thesis using chain_step [of "chain_nodes s ?a" "tok_type t" "chain_nodes s ?b"]
        operator_rule(3) [OF op] by simp
    qed
    then show ?thesis
      using Suc.IH [OF la(3,2) b ta(2) Suc.prems(5), of ?h] i Suc.prems(6) u by simp
  qed
qed simp

text \<open>C13: A chain of names and binary operators becomes the tree that is split at the first operator of
  the least precedence, for any operators of at least the precedence asked for, followed by a token that
  binds less; the chain is read up to that token and nothing is reported. So operators of one
  precedence group to the right: \<open>a - b - c\<close> is read as \<open>a - (b - c)\<close>.\<close>

theorem operators_group_right:
  assumes "reads s p (x # chain_tokens ops @ stop # rest)" "names x" "tighter prec ops"
    and "precedence (tok_type stop) < prec" "length ops + 2 \<le> n"
  shows "\<exists>q. parsePrecedence n p NULL prec = Done (Some (chain (name_node s x) (chain_nodes s ops)), q) \<and>
    reads s q (stop # rest)"
  using assms
proof (induction "length ops" arbitrary: ops n p x prec stop rest rule: less_induct)
  case less
  obtain k where n: "n = Suc k" "length ops < k" using less.prems(5) by (cases n) auto
  obtain u us where us: "chain_tokens ops @ stop # rest = u # us"
    by (cases ops) auto
  obtain q where q: "advance_parser p = Done q" "reads s q (chain_tokens ops @ stop # rest)" "pr_previous q = x"
    using reads_advance less.prems(1) unfolding us by blast
  have rule: "pl_prefix (getRule (prev_type q)) = Some Fn_identifier"
    using less.prems(2) by (simp add: q(3) names_def rule_def)
  have right: "\<exists>r. parsePrecedence k p' NULL prec' = Done (Some (chain (name_node s y) (chain_nodes s ops')), r) \<and>
      reads s r (stop' # rest')"
    if "length ops' < length ops" "reads s p' (y # chain_tokens ops' @ stop' # rest')" "names y" "tighter prec' ops'"
      "precedence (tok_type stop') < prec'" for ops' p' y prec' stop' rest'
    by (rule less.hyps [OF that(1-5)]) (use that(1) n(2) in simp)
  obtain r where r: "infix_loop (parsePrecedence k) k k prec q (Some (name_node s x)) =
      Done (True, Some (chain (name_node s x) (chain_nodes s ops)), r)" "reads s r (stop # rest)"
    using infix_loop_chain [where all = ops and s = s and pp = "parsePrecedence k" and n = k, OF right order.refl n(2) q(2)
        less.prems(3,4) unfolded_name [of s x]] by blast
  have "cur_type r = tok_type stop" using r(2) by (auto simp: reads_def split: option.splits)
  moreover have "tok_type stop \<noteq> MathTok XVR_TOKEN_ASSIGN" if "prec \<le> PREC_ASSIGNMENT"
    using less.prems(4) that by (auto simp: rule_def)
  ultimately show ?case
    using q rule r reads_name [OF q(2)] less.prems(2)
    by (auto simp: n(1) parsePrecedence_step_def prefix_rule_def match_token_def)
qed

lemma operators_group_right_witness:
  "\<exists>p q. Xvr_initParser (Xvr_initLexer ''a-b*c-d;'') = Done p \<and>
     parsePrecedence 5 p NULL PREC_TERM =
       Done (Some (NodeBinary XVR_OP_SUBTRACTION (Some (NodeLiteral (Xvr_private_toIdentifierLiteral ''a'')))
         (Some (NodeBinary XVR_OP_SUBTRACTION
           (Some (NodeBinary XVR_OP_MULTIPLICATION (Some (NodeLiteral (Xvr_private_toIdentifierLiteral ''b'')))
             (Some (NodeLiteral (Xvr_private_toIdentifierLiteral ''c'')))))
           (Some (NodeLiteral (Xvr_private_toIdentifierLiteral ''d'')))))), q) \<and>
     cur_type q = OtherTok XVR_TOKEN_SEMICOLON"
proof -
  define name where "name i = \<lparr>tok_type = LiteralTok XVR_TOKEN_IDENTIFIER, tok_lexeme = InSource i, tok_length = 1, tok_line = 1\<rparr>" for i
  define sign where "sign t i = \<lparr>tok_type = t, tok_lexeme = InSource i, tok_length = 1, tok_line = 1\<rparr>" for t i
  let ?ops = "[(sign (MathTok XVR_TOKEN_MINUS) 1, name 2), (sign (MathTok XVR_TOKEN_MULTIPLY) 3, name 4),
    (sign (MathTok XVR_TOKEN_MINUS) 5, name 6)]"
  let ?s = "''a-b*c-d;''"
  obtain p where p: "Xvr_initParser (Xvr_initLexer ?s) = Done p"
    "reads ?s p (name 0 # chain_tokens ?ops @ [sign (OtherTok XVR_TOKEN_SEMICOLON) 7])"
  proof -
    have "case Xvr_initParser (Xvr_initLexer ?s) of
        Done p \<Rightarrow> reads ?s p (name 0 # chain_tokens ?ops @ [sign (OtherTok XVR_TOKEN_SEMICOLON) 7]) | _ \<Rightarrow> False"
      unfolding name_def sign_def by code_simp
    then show ?thesis using that by (auto split: outcome.splits)
  qed
  have "names (name 0)" "tighter PREC_TERM ?ops" "precedence (tok_type (sign (OtherTok XVR_TOKEN_SEMICOLON) 7)) < PREC_TERM"
    unfolding name_def sign_def by code_simp+
  from operators_group_right [OF p(2) this, of 5] obtain q where
    "parsePrecedence 5 p NULL PREC_TERM = Done (Some (chain (name_node ?s (name 0)) (chain_nodes ?s ?ops)), q)"
    "reads ?s q [sign (OtherTok XVR_TOKEN_SEMICOLON) 7]"
    by auto
  moreover have "chain (name_node ?s (name 0)) (chain_nodes ?s ?ops) =
       NodeBinary XVR_OP_SUBTRACTION (Some (NodeLiteral (Xvr_private_toIdentifierLiteral ''a'')))
         (Some (NodeBinary XVR_OP_SUBTRACTION
           (Some (NodeBinary XVR_OP_MULTIPLICATION (Some (NodeLiteral (Xvr_private_toIdentifierLiteral ''b'')))
             (Some (NodeLiteral (Xvr_private_toIdentifierLiteral ''c'')))))
           (Some (NodeLiteral (Xvr_private_toIdentifierLiteral ''d'')))))"
    unfolding name_def sign_def by code_simp
  ultimately show ?thesis using p(1) by (auto simp: reads_def sign_def split: option.splits)
qed

end
