(* ===== verification/ParserProps.thy ===== *)
theory ParserProps
  imports ParserChains "HOL-Library.Signed_Division"
begin

text \<open>
  The parser as a whole: it recovers after a line with an error, it ends on every source whose block
  comments are closed, and folding constants keeps the value of an expression.
\<close>

section \<open>Recovery\<close>

definition recovered :: "parser \<Rightarrow> bool" where
  "recovered p \<longleftrightarrow> at_eof p \<or> starts_line (cur_type p) \<and> \<not> pr_panic p"

lemma synchronize_ok:
  assumes "good p" "pr_panic p" "left p + 1 \<le> n"
  shows "ensures (synchronize n p) (\<lambda>q. good q \<and> left q \<le> left p \<and> recovered q \<and>
    pr_reports q = pr_reports p \<and> pr_error q = pr_error p)"
  using assms
proof (induction n arbitrary: p)
  case (Suc n)
  have "ensures (andThen (advance_parser p) (synchronize n)) (\<lambda>q. good q \<and> left q \<le> left p \<and> recovered q \<and>
      pr_reports q = pr_reports p \<and> pr_error q = pr_error p)" if "\<not> at_eof p"
  proof (rule ensures_bind [OF advance_ensures [OF Suc.prems(1)]])
    fix q
    assume q: "after p q \<and> pr_previous q = pr_current p \<and> (\<not> at_eof p \<longrightarrow> left q < left p)"
    then have "good q" "pr_panic q" "pr_reports q = pr_reports p" "pr_error q = pr_error p" "left q < left p"
      using Suc.prems(2) that by (auto simp: after_def reports_once_def)
    then show "ensures (synchronize n q) (\<lambda>q. good q \<and> left q \<le> left p \<and> recovered q \<and>
        pr_reports q = pr_reports p \<and> pr_error q = pr_error p)"
      by (intro ensures_mono [OF Suc.IH [of q]]) (use Suc.prems in auto)
  qed
  then show ?case
    using Suc.prems by (auto simp: recovered_def good_def left_def)
qed simp

definition line_scanned :: "parser \<Rightarrow> ast option \<times> parser \<Rightarrow> bool" where
  "line_scanned p = (\<lambda>(node, q). good q \<and> left q < left p \<and>
     (pr_reports q = pr_reports p \<and> pr_error q = pr_error p \<and> \<not> pr_panic q \<or>
      (\<exists>r. pr_reports q = pr_reports p @ [r]) \<and> pr_error q \<and> node = Some NodeError \<and> recovered q))"

lemma scan_line:
  assumes "good p" "\<not> at_eof p" "\<not> pr_panic p" "2 * left p + 2 \<le> n"
  shows "ensures (Xvr_scanParser n p) (line_scanned p)"
proof -
  have "ensures (parse_declaration n p NULL) (\<lambda>(node, q). after p q \<and> left q < left p)"
    by (rule ensures_mono [OF parsing.pd_ends]) (use assms in auto)
  moreover have "ensures (if pr_panic q then
        andThen (synchronize n q) (\<lambda>r. andThen (free_handle node r) (\<lambda>r. Done (Some NodeError, r)))
      else Done (node, q)) (line_scanned p)"
    if q: "after p q" "left q < left p" for node q
  proof (cases "pr_panic q")
    case True
    have "ensures (synchronize n q) (\<lambda>r. good r \<and> left r \<le> left q \<and> recovered r \<and>
        pr_reports r = pr_reports q \<and> pr_error r = pr_error q)"
      by (rule synchronize_ok) (use q True assms in \<open>auto simp: after_def\<close>)
    then have "ensures (andThen (synchronize n q) (\<lambda>r. andThen (free_handle node r) (\<lambda>r. Done (Some NodeError, r))))
        (line_scanned p)"
      by (rule ensures_bind)
        (use q True assms(3) in \<open>auto simp: line_scanned_def free_handle_def after_def reports_once_def\<close>)
    with True show ?thesis by simp
  next
    case False
    with q assms(3) show ?thesis by (simp add: line_scanned_def after_def reports_once_def)
  qed
  ultimately show ?thesis
    unfolding Xvr_scanParser_def using assms(2) by (auto intro: ensures_bind)
qed

text \<open>Without the assumption that the parser has not panicked the line is still taken.\<close>

lemma scan_takes:
  assumes "good p" "2 * left p + 2 \<le> n"
  shows "ensures (Xvr_scanParser n p) (\<lambda>(node, q). good q \<and> (if at_eof p then node = NULL else left q < left p))"
proof (cases "at_eof p")
  case False
  have "ensures (parse_declaration n p NULL) (\<lambda>(node, q). after p q \<and> left q < left p)"
    by (rule ensures_mono [OF parsing.pd_ends]) (use assms False in auto)
  then have "ensures (andThen (parse_declaration n p NULL) (\<lambda>(node, q).
      if pr_panic q then andThen (synchronize n q) (\<lambda>r. andThen (free_handle node r) (\<lambda>r. Done (Some NodeError, r)))
      else Done (node, q))) (\<lambda>(node, q). good q \<and> left q < left p)"
    by (rule ensures_bind)
      (use assms in \<open>auto simp: after_def free_handle_def intro!: ensures_bind [OF synchronize_ok]\<close>)
  with False show ?thesis by (simp add: Xvr_scanParser_def)
qed (simp add: Xvr_scanParser_def assms(1))

section \<open>Termination\<close>

lemma parse_loop_ends:
  "good p \<Longrightarrow> 2 * left p + 2 \<le> n \<Longrightarrow> left p + 1 \<le> m \<Longrightarrow> ensures (parse_loop n m p nodes) (\<lambda>_. True)"
proof (induction m arbitrary: p nodes)
  case (Suc m)
  show ?case
    unfolding parse_loop_Suc
  proof (rule ensures_bind [OF scan_takes [OF Suc.prems(1,2)]], clarify)
    fix node q
    assume "good q" "if at_eof p then node = NULL else left q < left p"
    then show "ensures (if node = NULL then Done (if nodes = [] then None else Some nodes)
        else if node = Some NodeError then andThen (freed nodes q) (\<lambda>p. Done None)
        else parse_loop n m q (nodes @ [the node])) (\<lambda>_. True)"
      using Suc by (auto simp: freed_def split: if_splits)
  qed
qed simp

lemma init_good:
  assumes "no_nul s" "closed_blocks s"
  shows "ensures (Xvr_initParser (Xvr_initLexer s)) (\<lambda>p. good p \<and> left p \<le> length s)"
  unfolding Xvr_initParser_def
  by (rule ensures_mono [OF advance_ensures])
    (use assms in \<open>auto simp: good_def lexer_good_def lx_inv_def Xvr_initLexer_def cleanLexer_def after_def left_def null_token_def\<close>)

text \<open>C4: Parsing a whole source ends, and with a result that does not depend on the fuel: for every
  source without a NUL character and without a block comment that is left open, \<open>2 * length + 2\<close> levels
  of recursion and rounds of a loop are enough for \<open>parse_to_ast\<close> to come to an outcome, however
  wrong the source is, and any more give the same one. No statement, list, index, type or recovery loop
  runs on without taking a token.\<close>

theorem parser_terminates:
  assumes "no_nul s" "closed_blocks s"
  shows "\<exists>r. r \<noteq> Unfinished \<and> (\<forall>d. parse_to_ast (2 * length s + 2 + d) s = r)"
proof -
  have "ensures (parse_to_ast (2 * length s + 2) s) (\<lambda>_. True)"
    unfolding parse_to_ast_def
    by (rule ensures_bind [OF init_good [OF assms]], rule parse_loop_ends) auto
  then have "parse_to_ast (2 * length s + 2) s \<noteq> Unfinished" by auto
  then show ?thesis
    using parse_to_ast_fuel [of "2 * length s + 2" s] unfolding below_def by metis
qed

lemma parser_terminates_witness:
  "\<exists>r. r \<noteq> Unfinished \<and> (\<forall>d. parse_to_ast (2 * length ''while ( { fn 1;'' + 2 + d) ''while ( { fn 1;'' = r)"
  by (rule parser_terminates) (code_simp, code_simp)

text \<open>C9: A line is scanned to its end and its first error is the only one reported. From a state that
  has not panicked, with a token left, \<open>Xvr_scanParser\<close> takes at least one token; either nothing is
  reported and the parser has not panicked, or exactly one report is added, the result is
  \<open>NodeError\<close>, and the parser stands at the end of the source or, no longer in panic, at a keyword
  that starts a line.\<close>

theorem scan_recovers:
  assumes "good p" "\<not> at_eof p" "\<not> pr_panic p" "2 * left p + 2 \<le> n"
  shows "Xvr_scanParser n p \<noteq> Unfinished \<and> (\<forall>node q. Xvr_scanParser n p = Done (node, q) \<longrightarrow>
    good q \<and> left q < left p \<and>
    (pr_reports q = pr_reports p \<and> \<not> pr_panic q \<or>
     (\<exists>r. pr_reports q = pr_reports p @ [r]) \<and> pr_error q \<and> node = Some NodeError \<and>
       (at_eof q \<or> starts_line (cur_type q) \<and> \<not> pr_panic q)))"
  using scan_line [OF assms] by (auto simp: line_scanned_def recovered_def)

lemma scan_recovers_witness:
  "\<exists>p q r. Xvr_initParser (Xvr_initLexer ''x = ) 3 var y;'') = Done p \<and>
     Xvr_scanParser 40 p = Done (Some NodeError, q) \<and> pr_reports q = [r] \<and>
     cur_type q = KeywordTok XVR_TOKEN_VAR \<and> \<not> pr_panic q"
proof -
  let ?init = "Xvr_initParser (Xvr_initLexer ''x = ) 3 var y;'')"
  have "case ?init of Done p \<Rightarrow> good p \<and> \<not> at_eof p \<and> \<not> pr_panic p \<and> 2 * left p + 2 \<le> 40 \<and> pr_reports p = [] \<and>
      (case Xvr_scanParser 40 p of Done (node, q) \<Rightarrow> pr_error q \<and> node = Some NodeError \<and> pr_reports q \<noteq> [] \<and>
          cur_type q = KeywordTok XVR_TOKEN_VAR | _ \<Rightarrow> False) | _ \<Rightarrow> False"
    by code_simp
  then obtain p q where p: "?init = Done p" "good p" "\<not> at_eof p" "\<not> pr_panic p" "2 * left p + 2 \<le> 40" "pr_reports p = []"
      and q: "Xvr_scanParser 40 p = Done (Some NodeError, q)" "pr_reports q \<noteq> []" "cur_type q = KeywordTok XVR_TOKEN_VAR"
    by (auto split: outcome.splits)
  with scan_recovers [OF p(2-5)] show ?thesis by (auto simp: starts_line_def)
qed

section \<open>Folding keeps the value\<close>

text \<open>Integer arithmetic with 32 bits: no value when the result does not fit or the divisor is zero.\<close>

definition checked :: "int \<Rightarrow> int option" where
  "checked n = (if - (2 ^ 31) \<le> n \<and> n < 2 ^ 31 then Some n else None)"

fun arith :: "opcode \<Rightarrow> int \<Rightarrow> int \<Rightarrow> int option" where
  "arith XVR_OP_ADDITION a b = checked (a + b)"
| "arith XVR_OP_SUBTRACTION a b = checked (a - b)"
| "arith XVR_OP_MULTIPLICATION a b = checked (a * b)"
| "arith XVR_OP_DIVISION a b = (if b = 0 then None else checked (a sdiv b))"
| "arith XVR_OP_MODULO a b = (if b = 0 \<or> checked (a sdiv b) = None then None else checked (a smod b))"
| "arith _ a b = None"

text \<open>The value of an arithmetic expression over integer literals and names.\<close>

fun meaning :: "(string \<Rightarrow> int) \<Rightarrow> ast \<Rightarrow> int option" where
  "meaning env (NodeLiteral l) =
     (case l of
        Ident s h \<Rightarrow> Some (env s)
      | Bits t w \<Rightarrow> if t = XVR_LITERAL_INTEGER then Some (sint (XVR_AS_INTEGER l)) else None
      | _ \<Rightarrow> None)"
| "meaning env (NodeBinary op (Some l) (Some r)) =
     (case (meaning env l, meaning env r) of (Some a, Some b) \<Rightarrow> arith op a b | _ \<Rightarrow> None)"
| "meaning env _ = None"

fun nameless :: "ast \<Rightarrow> bool" where
  "nameless (NodeLiteral l) = (case l of Bits t w \<Rightarrow> True | _ \<Rightarrow> False)"
| "nameless (NodeBinary op (Some l) (Some r)) = (nameless l \<and> nameless r)"
| "nameless _ = False"

lemma trunc_div_sdiv: "b \<noteq> 0 \<Longrightarrow> trunc_div a b = a sdiv b"
  by (auto simp: trunc_div_def signed_divide_int_def sgn_if)

lemma checked_Some: "checked n = Some v \<longleftrightarrow> n = v \<and> in_int v"
  by (auto simp: checked_def in_int_def)

lemma fold_ints_arith:
  assumes "arith op a b = Some v"
  shows "folds op \<and> in_int v \<and> fold_ints op a b = Folded (Xvr_toIntegerLiteralCpp (word_of_int v))"
proof -
  have m: "a - b * (a sdiv b) = a smod b" by (rule minus_mult_sdiv_eq_smod)
  have "checked (a sdiv b) = None \<longleftrightarrow> \<not> in_int (a sdiv b)" by (simp add: checked_def in_int_def)
  with assms m show ?thesis
    by (cases "(op, a, b)" rule: arith.cases)
      (auto simp: checked_Some folds_def folded_int_def trunc_div_sdiv split: if_splits)
qed

lemma sint_integer: "in_int v \<Longrightarrow> sint (XVR_AS_INTEGER (Xvr_toIntegerLiteralCpp (word_of_int v))) = v"
proof -
  have "XVR_AS_INTEGER (Xvr_toIntegerLiteralCpp (word_of_int v)) = word_of_int v"
    unfolding XVR_AS_INTEGER_def Xvr_toIntegerLiteralCpp_def as_bits.simps
    by (rule bit_word_eqI) (simp add: bit_simps)
  moreover assume "in_int v"
  ultimately show ?thesis
    by (simp add: in_int_def signed_of_int signed_take_bit_int_eq_self)
qed

lemma fold_integers:
  assumes "arith op (sint (XVR_AS_INTEGER (Bits XVR_LITERAL_INTEGER w))) (sint (XVR_AS_INTEGER (Bits XVR_LITERAL_INTEGER u))) = Some v"
  shows "fold_literals op (Bits XVR_LITERAL_INTEGER w) (Bits XVR_LITERAL_INTEGER u) =
    Folded (Xvr_toIntegerLiteralCpp (word_of_int v))"
  using fold_ints_arith [OF assms]
  by (simp add: fold_literals_def is_string_def coerced_def Let_def is_integer_type_def is_float_type_def)

lemma fold_with_name:
  "fold_literals op (Ident s h) (Bits XVR_LITERAL_INTEGER w) = NotFolded"
  "fold_literals op (Bits XVR_LITERAL_INTEGER w) (Ident s h) = NotFolded"
  by (simp_all add: fold_literals_def is_string_def coerced_def Let_def is_integer_type_def is_float_type_def)

lemma meaning_split:
  "meaning env n = Some v \<Longrightarrow> is_binary n \<or> (\<exists>s h. n = NodeLiteral (Ident s h)) \<or> (\<exists>w. n = NodeLiteral (Bits XVR_LITERAL_INTEGER w))"
  by (cases "(env, n)" rule: meaning.cases) (auto split: literal.splits if_splits)

abbreviation integer_node :: "int \<Rightarrow> ast" where
  "integer_node v \<equiv> NodeLiteral (Xvr_toIntegerLiteralCpp (word_of_int v))"

lemma meaning_integer: "in_int v \<Longrightarrow> meaning env (integer_node v) = Some v"
  using sint_integer [of v] by (simp add: Xvr_toIntegerLiteralCpp_def)

lemma fold_node_meaning:
  assumes "meaning env l = Some a" "meaning env r = Some b" "arith op a b = Some v"
  shows "\<exists>n'. fold_node op l r p = Done (True, n', p) \<and> meaning env n' = Some v \<and>
    (\<not> is_binary l \<and> \<not> is_binary r \<and> nameless l \<and> nameless r \<longrightarrow> n' = integer_node v)"
proof (cases "is_binary l \<or> is_binary r")
  case True
  then show ?thesis using assms by (auto simp: fold_node_binary)
next
  case False
  note leaf = meaning_split [OF assms(1)] meaning_split [OF assms(2)]
  show ?thesis
  proof (cases "\<exists>w u. l = NodeLiteral (Bits XVR_LITERAL_INTEGER w) \<and> r = NodeLiteral (Bits XVR_LITERAL_INTEGER u)")
    case True
    with assms show ?thesis
      by (auto simp: fold_node_def fold_integers meaning_integer fold_ints_arith simp del: meaning.simps(1))
        (simp_all add: fold_integers)
  next
    case names: False
    with False leaf assms show ?thesis by (auto simp: fold_node_def fold_with_name fold_names)
  qed
qed

text \<open>C14: Constant folding keeps the value of an arithmetic expression. Whatever integers its names stand
  for, when every operation of the tree has a result in 32 bits and no divisor is zero, folding succeeds
  and reports nothing, the folded tree has the same value, with division and remainder that truncate
  toward zero, and a tree without names becomes the one literal with that value.\<close>

theorem folding_keeps_value:
  assumes "meaning env n = Some v" "is_binary n"
  shows "\<exists>n'. calcStaticBinaryArithmetic p n = Done (True, n', p) \<and> meaning env n' = Some v \<and>
    (nameless n \<longrightarrow> n' = NodeLiteral (Xvr_toIntegerLiteralCpp (word_of_int v)))"
  using assms
proof (induction n arbitrary: v)
  case (NodeBinary op l r)
  obtain x y a b where xy: "l = Some x" "r = Some y" "meaning env x = Some a" "meaning env y = Some b"
    and v: "arith op a b = Some v"
    using NodeBinary.prems(1) by (cases l; cases r) (auto split: option.splits)
  have part: "\<exists>x'. (if is_binary x then calcStaticBinaryArithmetic p x else Done (True, x, p)) = Done (True, x', p) \<and>
      meaning env x' = Some a \<and> (nameless x \<longrightarrow> nameless x' \<and> \<not> is_binary x')"
    if "meaning env x = Some a" "x \<in> set_option l \<or> x \<in> set_option r" for x a
  proof (cases "is_binary x")
    case True
    then show ?thesis
      using NodeBinary.IH that by (force simp: Xvr_toIntegerLiteralCpp_def)
  qed (use that in simp)
  obtain x' y' where x': "(if is_binary x then calcStaticBinaryArithmetic p x else Done (True, x, p)) = Done (True, x', p)"
      "meaning env x' = Some a" "nameless x \<longrightarrow> nameless x' \<and> \<not> is_binary x'"
    and y': "(if is_binary y then calcStaticBinaryArithmetic p y else Done (True, y, p)) = Done (True, y', p)"
      "meaning env y' = Some b" "nameless y \<longrightarrow> nameless y' \<and> \<not> is_binary y'"
    using part [OF xy(3)] part [OF xy(4)] xy(1,2) by auto
  show ?case
    using fold_node_meaning [OF x'(2) y'(2) v, of p] fold_ints_arith [OF v] x' y'
    unfolding xy(1,2) calcStaticBinaryArithmetic.simps by auto
qed simp_all

text \<open>\<open>(x - 7 / -2) * (2 + 3)\<close>: the constant parts fold, to -3 and 5.\<close>

lemma folding_keeps_value_witness:
  "\<exists>p n'. meaning (\<lambda>s. 10)
      (NodeBinary XVR_OP_MULTIPLICATION
        (Some (NodeBinary XVR_OP_SUBTRACTION (Some (NodeLiteral (Ident ''x'' 1)))
          (Some (NodeBinary XVR_OP_DIVISION (Some (integer_node 7)) (Some (integer_node (-2)))))))
        (Some (NodeBinary XVR_OP_ADDITION (Some (integer_node 2)) (Some (integer_node 3))))) = Some 65 \<and>
    calcStaticBinaryArithmetic p
      (NodeBinary XVR_OP_MULTIPLICATION
        (Some (NodeBinary XVR_OP_SUBTRACTION (Some (NodeLiteral (Ident ''x'' 1)))
          (Some (NodeBinary XVR_OP_DIVISION (Some (integer_node 7)) (Some (integer_node (-2)))))))
        (Some (NodeBinary XVR_OP_ADDITION (Some (integer_node 2)) (Some (integer_node 3))))) = Done (True, n', p) \<and>
    meaning (\<lambda>s. 10) n' = Some 65"
  (is "\<exists>p n'. meaning ?env ?n = Some 65 \<and> _ p n'")
proof -
  have m: "meaning ?env ?n = Some 65" by code_simp
  from folding_keeps_value [OF this, of undefined] show ?thesis using m by (auto simp del: calcStaticBinaryArithmetic.simps meaning.simps)
qed

end
