(* ===== verification/CommandLine.thy ===== *)
theory CommandLine
  imports CStrings
begin

text \<open>
  The command line of the compiler: src/src/xvr_common.cpp. The arguments are C strings without a NUL
  inside; a string field that is NULL is None. The texts that are printed are not kept.
\<close>

section \<open>State\<close>

record command_line =
  cl_error :: bool
  cl_help :: bool
  cl_version :: bool
  cl_sourceFile :: "string option"
  cl_compileFile :: "string option"
  cl_outFile :: "string option"
  cl_source :: "string option"
  cl_initialfile :: "string option"
  cl_enablePrintNewline :: bool
  cl_verbose :: bool
  cl_dumpTokens :: bool
  cl_dumpAST :: bool
  cl_dumpLLVM :: bool
  cl_compileOnly :: bool
  cl_compileAndRun :: bool
  cl_showTiming :: bool
  cl_emitType :: "string option"
  cl_asmSyntax :: string
  cl_optimizationLevel :: int

definition Xvr_commandLine :: command_line where
  "Xvr_commandLine =
     \<lparr>cl_error = False, cl_help = False, cl_version = False, cl_sourceFile = None, cl_compileFile = None,
      cl_outFile = None, cl_source = None, cl_initialfile = None, cl_enablePrintNewline = True,
      cl_verbose = False, cl_dumpTokens = False, cl_dumpAST = False, cl_dumpLLVM = False,
      cl_compileOnly = False, cl_compileAndRun = True, cl_showTiming = False, cl_emitType = None,
      cl_asmSyntax = ''att'', cl_optimizationLevel = 0\<rparr>"

section \<open>Helpers\<close>

text \<open>The loop copies up to the first NUL and at most 4097 bytes; a string of 4096 characters or more is
  copied without a terminator, and what follows it in memory is not known.\<close>

definition Xvr_strdup :: "string option \<Rightarrow> string option option" where
  "Xvr_strdup str =
     (case str of
        None \<Rightarrow> Some None
      | Some s \<Rightarrow> if cstr_scan s 4096 < 4096 then Some (Some (take (cstr_scan s 4096) s)) else None)"

definition is_space :: "char \<Rightarrow> bool" where
  "is_space c \<longleftrightarrow> c \<in> {CHR 0x20, CHR 0x09, CHR 0x0A, CHR 0x0B, CHR 0x0C, CHR 0x0D}"

definition decimal_number :: "string \<Rightarrow> int" where
  "decimal_number = foldl (\<lambda>n c. 10 * n + (of_char c - 48)) 0"

text \<open>\<open>strtol\<close> with base 10: the value, clamped to a \<open>long\<close>, and what is left of the string.\<close>

definition strtol :: "string \<Rightarrow> int \<times> string" where
  "strtol s =
     (let t = dropWhile is_space s;
          negative = (t \<noteq> [] \<and> hd t = CHR ''-'');
          u = (if t \<noteq> [] \<and> hd t \<in> {CHR ''-'', CHR ''+''} then tl t else t);
          digits = takeWhile is_digit_char u;
          n = (if negative then - decimal_number digits else decimal_number digits)
      in if digits = [] then (0, s)
         else (max (- (2 ^ 63)) (min (2 ^ 63 - 1) n), dropWhile is_digit_char u))"

text \<open>The last four of the first 256 characters.\<close>

definition names_source :: "string \<Rightarrow> bool" where
  "names_source a \<longleftrightarrow>
     (let len = xvr_safe_strlen_bounded (Some a) 256 in len \<ge> 4 \<and> take 4 (drop (len - 4) a) = ''.xvr'')"

section \<open>Parsing\<close>

text \<open>After an argument the loop goes on past \<open>n\<close> more, or returns.\<close>

datatype progress = Skip nat | Return

definition read_option :: "string \<Rightarrow> string list \<Rightarrow> command_line \<Rightarrow> command_line \<times> progress" where
  "read_option a rest cl0 =
     (let cl = cl0\<lparr>cl_error := True\<rparr>;
          fine = (\<lambda>c n. (c\<lparr>cl_error := False\<rparr>, Skip n))
      in if a \<in> {''-h'', ''--help''} then fine (cl\<lparr>cl_help := True\<rparr>) 0
         else if a = ''--version'' then fine (cl\<lparr>cl_version := True\<rparr>) 0
         else if a \<in> {''-v'', ''--verbose''} then fine (cl\<lparr>cl_verbose := True\<rparr>) 0
         else if a \<in> {''-d'', ''--debug''} then fine (cl\<lparr>cl_verbose := True\<rparr>) 0
         else if a \<in> {''-l'', ''--llvm''} then fine (cl\<lparr>cl_dumpLLVM := True\<rparr>) 0
         else if a \<in> {''-i'', ''--input''} \<and> rest \<noteq> [] then fine (cl\<lparr>cl_source := Some (hd rest)\<rparr>) 1
         else if a \<in> {''-c'', ''--compile''} then
           (let c = cl\<lparr>cl_compileOnly := True\<rparr>
            in if rest \<noteq> [] \<and> char_at (hd rest) 0 \<noteq> CHR ''-'' \<and>
                  \<not> xvr_safe_strlen_bounded (Some (hd rest)) 256 \<ge> 4
               then fine (c\<lparr>cl_outFile := Some (hd rest)\<rparr>) 1
               else fine c 0)
         else if a = ''-r'' then fine (cl\<lparr>cl_compileAndRun := True\<rparr>) 0
         else if a \<in> {''-o'', ''--output''} \<and> rest \<noteq> [] then fine (cl\<lparr>cl_outFile := Some (hd rest)\<rparr>) 1
         else if a \<in> {''-t'', ''--initial''} \<and> rest \<noteq> [] then fine (cl\<lparr>cl_initialfile := Some (hd rest)\<rparr>) 1
         else if a = ''-n'' then fine (cl\<lparr>cl_enablePrintNewline := False\<rparr>) 0
         else if a \<in> {''-e'', ''--emit''} \<and> rest \<noteq> [] then fine (cl\<lparr>cl_emitType := Some (hd rest)\<rparr>) 1
         else if a = ''--asm-syntax'' \<and> rest \<noteq> [] then
           (if hd rest \<in> {''intel'', ''att''} then fine (cl\<lparr>cl_asmSyntax := hd rest\<rparr>) 1 else (cl, Return))
         else if a = ''-S'' then fine (cl\<lparr>cl_dumpLLVM := True\<rparr>) 0
         else if xvr_safe_strlen_bounded (Some a) 256 \<ge> 2 \<and> take 2 a = ''-O'' then
           (let (level, left) = strtol (drop 2 a)
            in if left \<noteq> [] \<or> level < 0 \<or> level > 3 then (cl, Return)
               else fine (cl\<lparr>cl_optimizationLevel := level\<rparr>) 0)
         else if a \<in> {''--dump-tokens'', ''-Z''} then fine (cl\<lparr>cl_dumpTokens := True\<rparr>) 0
         else if a = ''--dump-ast'' then fine (cl\<lparr>cl_dumpAST := True\<rparr>) 0
         else if a = ''--timing'' then fine (cl\<lparr>cl_showTiming := True\<rparr>) 0
         else if names_source a then fine (cl\<lparr>cl_sourceFile := Some a\<rparr>) 0
         else (cl, Return))"

function read_arguments :: "string list \<Rightarrow> command_line \<Rightarrow> command_line" where
  "read_arguments [] cl = cl"
| "read_arguments (a # rest) cl =
     (case read_option a rest cl of
        (c, Skip n) \<Rightarrow> read_arguments (drop n rest) c
      | (c, Return) \<Rightarrow> c)"
  by pat_completeness auto
termination
  by (relation "measure (length \<circ> fst)") auto

text \<open>The arguments after the program's name.\<close>

definition Xvr_initCommandLine :: "string list \<Rightarrow> command_line" where
  "Xvr_initCommandLine args = read_arguments args Xvr_commandLine"

end
