(* ===== verification/Driver.thy ===== *)
theory Driver
  imports CommandLine Parser AstOptimizer UnusedCheck
begin

text \<open>
  The compiler driver: \<open>main\<close> of src/compiler/main_compiler.c and \<open>Xvr_readFile\<close> of
  src/compiler/compiler_tools.c, over the parser, the check for unused declarations and the optimiser of
  the other theories. The code generator, the file system, the environment and the processes it
  starts are parameters. What the driver does is a list of events; the texts of messages are kept where
  they tell outcomes apart. \<open>Undefined\<close> also stands for giving \<open>free\<close> a pointer that \<open>malloc\<close> did not
  return.
\<close>

section \<open>Names\<close>

definition is_safe_path_component :: "string option \<Rightarrow> bool" where
  "is_safe_path_component path =
     (case path of
        None \<Rightarrow> False
      | Some s \<Rightarrow> list_all (\<lambda>c. c \<notin> set '';|&<>$`()[]{}'' \<union> {DQUOTE, CHR 0x27, BACKSLASH, LF, CHR 0x0D}) s)"

text \<open>The part of a path after its last slash.\<close>

definition base_name :: "string \<Rightarrow> string" where
  "base_name path = rev (takeWhile (\<lambda>c. c \<noteq> CHR ''/'') (rev path))"

text \<open>
  \<open>get_filename_without_ext\<close>: when there is a slash the code moves to the part after it but keeps the
  length of the whole path, and reads on behind the end of the string. \<open>beyond\<close> is the memory after its
  NUL. What is read from the result ends at its first NUL. A path of fewer than four characters gives NULL.
\<close>

definition c_string :: "string \<Rightarrow> string" where
  "c_string = takeWhile (\<lambda>c. c \<noteq> NUL)"

definition get_filename_without_ext :: "string \<Rightarrow> string \<Rightarrow> string option" where
  "get_filename_without_ext beyond path =
     (let len = length path;
          memory = base_name path @ [NUL] @ beyond;
          len' = (if map (char_at memory) [len - 4..<len] = ''.xvr'' then len - 4 else len)
      in if len < 4 then None else Some (c_string (map (char_at memory) [0..<len'])))"

definition build_output_filename :: "string \<Rightarrow> string \<Rightarrow> string option \<Rightarrow> string option" where
  "build_output_filename beyond sourceFile extension =
     (case get_filename_without_ext beyond sourceFile of
        None \<Rightarrow> None
      | Some b \<Rightarrow> Some (case extension of None \<Rightarrow> b | Some e \<Rightarrow> b @ e))"

text \<open>\<open>strrchr\<close> for a dot: the rest of the string from the last one.\<close>

definition last_dot :: "string \<Rightarrow> string option" where
  "last_dot s =
     (if CHR ''.'' \<in> set s then Some (CHR ''.'' # rev (takeWhile (\<lambda>c. c \<noteq> CHR ''.'') (rev s))) else None)"

definition module_of :: "string \<Rightarrow> string" where
  "module_of sourceFile =
     (let name = take 255 (base_name sourceFile)
      in case last_dot name of None \<Rightarrow> name | Some e \<Rightarrow> take (length name - length e) name)"

section \<open>Parameters\<close>

text \<open>The code generator: creation, emission of a node, its error if it has one (with a message that
  may be missing), its level, the text of the module, and the writing of an object file.\<close>

record 'cg backend =
  bk_create :: "string \<Rightarrow> 'cg option"
  bk_emit :: "'cg \<Rightarrow> ast option \<Rightarrow> 'cg outcome"
  bk_error :: "'cg \<Rightarrow> string option option"
  bk_level :: "'cg \<Rightarrow> nat \<Rightarrow> 'cg"
  bk_ir :: "'cg \<Rightarrow> string option"
  bk_object :: "'cg \<Rightarrow> string \<Rightarrow> nat \<Rightarrow> bool"

text \<open>The files that can be read, with their contents, the directories, the files that can be opened for
  writing, the environment, and the exit status of the linker when it ends normally.\<close>

record world =
  wo_contents :: "string \<Rightarrow> string option"
  wo_directory :: "string \<Rightarrow> bool"
  wo_writable :: "string \<Rightarrow> bool"
  wo_variable :: "string \<Rightarrow> string option"
  wo_link :: "string list \<Rightarrow> int option"

datatype event =
    Usage | Help | Copyright | Banner
  | Complaint string string
  | AstDump "ast list"
  | UnusedReport report
  | Changes int
  | LevelNotice
  | IrPrinted string
  | IrWritten string string
  | ObjectWritten string nat
  | LinkerRun "string list"
  | LinkFailed
  | ProgramRun string
  | Unlinked string
  | Timing string

section \<open>Stages\<close>

text \<open>The source text, whether it was allocated, the module's name and the file that errors name.\<close>

record source =
  so_text :: string
  so_allocated :: bool
  so_module :: string

definition Xvr_readFile :: "world \<Rightarrow> string \<Rightarrow> string option" where
  "Xvr_readFile w path = wo_contents w path"

text \<open>The exit code and the events, or the source to compile.\<close>

definition choose_source :: "world \<Rightarrow> command_line \<Rightarrow> (int \<times> event list) + source" where
  "choose_source w cl =
     (case cl_source cl of
        Some s \<Rightarrow> Inr \<lparr>so_text = s, so_allocated = False, so_module = ''inline''\<rparr>
      | None \<Rightarrow>
          (case cl_sourceFile cl of
             None \<Rightarrow> Inl (0, [Help])
           | Some f \<Rightarrow>
               if last_dot f \<noteq> Some ''.xvr'' then Inl (-1, [Complaint f ''input file must have .xvr extension''])
               else (case Xvr_readFile w f of
                       None \<Rightarrow> Inl (1, [Complaint f ''could not read source file''])
                     | Some s \<Rightarrow> Inr \<lparr>so_text = s, so_allocated = True, so_module = module_of f\<rparr>)))"

text \<open>\<open>free(source)\<close>, always or when there is a source file.\<close>

definition free_source :: "source \<Rightarrow> unit outcome" where
  "free_source so = (if so_allocated so then Done () else Undefined)"

definition free_source_of_file :: "command_line \<Rightarrow> source \<Rightarrow> unit outcome" where
  "free_source_of_file cl so = (if cl_sourceFile cl \<noteq> None then free_source so else Done ())"

text \<open>The nodes after the optimiser, and the changes it counts.\<close>

definition optimise :: "((opt_pass \<Rightarrow> opt_pass \<Rightarrow> int) \<Rightarrow> opt_pass list \<Rightarrow> opt_pass list) \<Rightarrow>
    command_line \<Rightarrow> ast list \<Rightarrow> (handle list \<times> event list) outcome" where
  "optimise qsort cl nodes =
     (let level = cl_optimizationLevel cl;
          opt = Xvr_ASTOptimizerSetLevel (Some Xvr_ASTOptimizerCreate) (Xvr_OptimizationLevelFromInt level)
      in if level > 0 then
           (case Xvr_ASTOptimizerRun qsort (snd (Xvr_ASTOptimizerAddStandardPasses opt)) (Some (map Live nodes)) of
              Some (r, _, Some hs) \<Rightarrow>
                Done (hs, if cl_verbose cl \<and> or_changes r > 0 then [Changes (or_changes r)] else [])
            | _ \<Rightarrow> Undefined)
         else Done (map Live nodes, []))"

fun emit_nodes :: "'cg backend \<Rightarrow> 'cg \<Rightarrow> handle list \<Rightarrow> 'cg outcome" where
  "emit_nodes bk cg [] = Done cg"
| "emit_nodes bk cg (Null # hs) = andThen (bk_emit bk cg None) (\<lambda>cg. emit_nodes bk cg hs)"
| "emit_nodes bk cg (Live n # hs) = andThen (bk_emit bk cg (Some n)) (\<lambda>cg. emit_nodes bk cg hs)"
| "emit_nodes bk cg (Dangling # hs) = Undefined"

section \<open>Output\<close>

definition should_run :: "command_line \<Rightarrow> bool" where
  "should_run cl \<longleftrightarrow> \<not> cl_compileOnly cl \<and> \<not> cl_dumpLLVM cl \<and> cl_emitType cl = None"

definition emit_file_type :: "command_line \<Rightarrow> nat" where
  "emit_file_type cl = (if cl_emitType cl = Some ''asm'' then 1 else if cl_emitType cl = Some ''llvm-ir'' then 2 else 0)"

definition default_to :: "string \<Rightarrow> string option \<Rightarrow> string" where
  "default_to d s = (case s of None \<Rightarrow> d | Some t \<Rightarrow> t)"

definition object_extension :: "command_line \<Rightarrow> string option" where
  "object_extension cl =
     (if cl_emitType cl \<noteq> None then
        (if emit_file_type cl = 1 then Some ''.s'' else if emit_file_type cl = 2 then Some ''.ll'' else None)
      else if cl_compileOnly cl then Some ''.o'' else None)"

text \<open>The output file and the object file.\<close>

definition output_names :: "string \<Rightarrow> world \<Rightarrow> command_line \<Rightarrow> string \<times> string" where
  "output_names beyond w cl =
     (if should_run cl then
        ((case (cl_outFile cl, cl_sourceFile cl) of
            (Some f, _) \<Rightarrow> f
          | (None, Some s) \<Rightarrow>
              (let f = default_to ''a.out'' (get_filename_without_ext beyond s)
               in if wo_directory w f then ''xvr_out'' else f)
          | (None, None) \<Rightarrow> ''a.out''),
         ''/tmp/xvr_compile.o'')
      else
        (let f = (case (cl_outFile cl, cl_sourceFile cl) of
                    (Some f, _) \<Rightarrow> f
                  | (None, Some s) \<Rightarrow>
                      (let ext = object_extension cl; f = default_to ''a.out'' (build_output_filename beyond s ext)
                       in if wo_directory w f then ''xvr_'' @ default_to ''out'' ext else f)
                  | (None, None) \<Rightarrow> ''a.out'')
         in (f, f)))"

text \<open>\<open>gcc\<close> for the object file, the name of the executable, and the library where it is found.\<close>

definition search_paths :: "world \<Rightarrow> string list" where
  "search_paths w =
     map (take 4095)
       ((case wo_variable w ''XVR_BUILD_DIR'' of
           Some e \<Rightarrow> if is_safe_path_component (Some e) then [e] else []
         | None \<Rightarrow> []) @
        (case wo_variable w ''HOME'' of
           Some h \<Rightarrow>
             if is_safe_path_component (Some h)
             then [h @ ''/Documents/project/xvrlang/xvr/build'', h @ ''/project/xvrlang/xvr/build''] else []
         | None \<Rightarrow> []) @
        [''/home/arfyslowy/Documents/project/xvrlang/xvr/build'', ''/home/arfyslowy/project/xvrlang/xvr/build'',
         ''build'', ''../build'', ''./build'', ''../../build'', ''.'', ''..'', ''../..'', ''/usr/local/xvr/build'',
         ''/opt/xvr/build''])"

definition library_path :: "world \<Rightarrow> string option" where
  "library_path w =
     find (\<lambda>p. wo_contents w p \<noteq> None) (map (\<lambda>p. take 8191 (p @ ''/src/libxvr.a'')) (search_paths w))"

definition gcc_args :: "world \<Rightarrow> string \<Rightarrow> string \<Rightarrow> string list" where
  "gcc_args w objFile exe =
     [''gcc'', objFile, ''-o'', exe, ''-lm'', ''-lpthread'', ''-lxml2''] @
     (case library_path w of Some p \<Rightarrow> [p] | None \<Rightarrow> [])"

definition link_and_run :: "world \<Rightarrow> command_line \<Rightarrow> string \<times> string \<Rightarrow> event list" where
  "link_and_run w cl names =
     (let (outFile, objFile) = names; args = gcc_args w objFile outFile
      in LinkerRun args #
         (case wo_link w args of
            None \<Rightarrow> []
          | Some status \<Rightarrow>
              if status \<noteq> 0 then [LinkFailed]
              else (if cl_showTiming cl then [Timing outFile] else []) @ [ProgramRun outFile, Unlinked objFile]))"

text \<open>What is done with the module: the events, and whether it went well.\<close>

definition write_module :: "'cg backend \<Rightarrow> world \<Rightarrow> command_line \<Rightarrow> 'cg \<Rightarrow> string \<times> string \<Rightarrow> bool \<times> event list" where
  "write_module bk w cl cg names =
     (let (outFile, objFile) = names
      in if cl_dumpLLVM cl \<or> emit_file_type cl = 2 then
           (case bk_ir bk cg of
              None \<Rightarrow> (True, [])
            | Some ir \<Rightarrow>
                if emit_file_type cl = 2 then
                  (if wo_writable w outFile then (True, [IrWritten outFile ir])
                   else (False, [Complaint (default_to ''<inline>'' (cl_sourceFile cl)) ''failed to write LLVM IR file'']))
                else (True, [IrPrinted ir]))
         else if bk_object bk cg objFile (emit_file_type cl) then (True, [ObjectWritten objFile (emit_file_type cl)])
         else (False, [Complaint (default_to ''<inline>'' (cl_sourceFile cl)) ''failed to write output file'']))"

section \<open>The pipeline\<close>

definition llvm_level :: "int \<Rightarrow> nat" where
  "llvm_level n = (if n = 1 then 1 else if n = 2 then 2 else if n = 3 then 3 else 2)"

text \<open>The level that the code generator is given, its notice, and the output of the module.\<close>

definition tuned :: "command_line \<Rightarrow> bool" where
  "tuned cl \<longleftrightarrow> cl_optimizationLevel cl > 0 \<and> \<not> cl_dumpLLVM cl"

definition after_output :: "world \<Rightarrow> command_line \<Rightarrow> string \<times> string \<Rightarrow> event list" where
  "after_output w cl names =
     (if should_run cl then link_and_run w cl names else if cl_showTiming cl then [Timing (fst names)] else [])"

definition finish :: "string \<Rightarrow> 'cg backend \<Rightarrow> world \<Rightarrow> command_line \<Rightarrow> source \<Rightarrow> 'cg \<Rightarrow> (int \<times> event list) outcome" where
  "finish beyond bk w cl so cg0 =
     (let cg = (if tuned cl then bk_level bk cg0 (llvm_level (cl_optimizationLevel cl)) else cg0);
          notice = (if tuned cl \<and> cl_verbose cl then [LevelNotice] else []);
          names = output_names beyond w cl;
          written = write_module bk w cl cg names
      in andThen
           (if \<not> fst written \<and> (cl_dumpLLVM cl \<or> emit_file_type cl = 2) then Done ()
            else free_source_of_file cl so) (\<lambda>_.
           Done (if fst written then (0, notice @ snd written @ after_output w cl names) else (1, notice @ snd written))))"

text \<open>The back end, once the nodes have been checked and optimised.\<close>

definition generate :: "string \<Rightarrow> 'cg backend \<Rightarrow> world \<Rightarrow> command_line \<Rightarrow> source \<Rightarrow> handle list \<Rightarrow> (int \<times> event list) outcome" where
  "generate beyond bk w cl so handles =
     (let failed = (\<lambda>msg. andThen (free_source_of_file cl so) (\<lambda>_.
            Done (1, [Complaint (default_to ''<inline>'' (cl_sourceFile cl)) msg])))
      in case bk_create bk (so_module so) of
           None \<Rightarrow> failed ''failed to initialize code generator''
         | Some cg0 \<Rightarrow>
             andThen (emit_nodes bk cg0 handles) (\<lambda>cg.
               case bk_error bk cg of
                 Some msg \<Rightarrow> failed (default_to ''unknown compilation error'' msg)
               | None \<Rightarrow> finish beyond bk w cl so cg))"

definition compile_source :: "nat \<Rightarrow> ((opt_pass \<Rightarrow> opt_pass \<Rightarrow> int) \<Rightarrow> opt_pass list \<Rightarrow> opt_pass list) \<Rightarrow>
    string \<Rightarrow> 'cg backend \<Rightarrow> world \<Rightarrow> command_line \<Rightarrow> source \<Rightarrow> (int \<times> event list) outcome" where
  "compile_source n qsort beyond bk w cl so =
     andThen (parse_to_ast n (so_text so)) (\<lambda>parsed.
       case parsed of
         None \<Rightarrow>
           andThen (free_source so) (\<lambda>_.
             Done (1, [Complaint (default_to ''<inline>'' (cl_sourceFile cl)) ''parsing failed - check syntax'']))
       | Some nodes \<Rightarrow>
           (case check_program (map Some nodes) of
              None \<Rightarrow> Undefined
            | Some (ok, reports) \<Rightarrow>
                (let before = (if cl_dumpAST cl then [AstDump nodes] else []) @ map UnusedReport reports
                 in if \<not> ok then andThen (free_source_of_file cl so) (\<lambda>_. Done (1, before))
                    else andThen (optimise qsort cl nodes) (\<lambda>(handles, changes).
                           andThen (generate beyond bk w cl so handles) (\<lambda>(code, events).
                             Done (code, before @ changes @ events))))))"

definition xvr_main :: "nat \<Rightarrow> ((opt_pass \<Rightarrow> opt_pass \<Rightarrow> int) \<Rightarrow> opt_pass list \<Rightarrow> opt_pass list) \<Rightarrow>
    string \<Rightarrow> 'cg backend \<Rightarrow> world \<Rightarrow> string list \<Rightarrow> (int \<times> event list) outcome" where
  "xvr_main n qsort beyond bk w args =
     (let cl = Xvr_initCommandLine args
      in if cl_error cl then Done (0, [Usage])
         else if cl_help cl then Done (0, [Help])
         else if cl_version cl then Done (0, [Copyright])
         else
           (let banner = (if cl_verbose cl then [Banner] else [])
            in case choose_source w cl of
                 Inl (code, events) \<Rightarrow> Done (code, banner @ events)
               | Inr so \<Rightarrow>
                   andThen (compile_source n qsort beyond bk w cl so) (\<lambda>(code, events). Done (code, banner @ events))))"

end
