(* ===== verification/DriverProps.thy ===== *)
theory DriverProps
  imports Driver ParserFuel
begin

text \<open>
  The driver's contract: nothing is written before the source has been parsed and checked, and the name
  of the file it writes.
\<close>

section \<open>Order of the stages\<close>

fun output_event :: "event \<Rightarrow> bool" where
  "output_event (IrPrinted s) = True"
| "output_event (IrWritten f s) = True"
| "output_event (ObjectWritten f k) = True"
| "output_event (LinkerRun args) = True"
| "output_event (ProgramRun f) = True"
| "output_event _ = False"

definition quiet :: "event list \<Rightarrow> bool" where
  "quiet events \<longleftrightarrow> list_all (\<lambda>e. \<not> output_event e) events"

text \<open>A program that is run was linked, without an error, from an object file that was written.\<close>

definition runs_linked :: "world \<Rightarrow> event list \<Rightarrow> bool" where
  "runs_linked w events \<longleftrightarrow>
     (\<forall>f. ProgramRun f \<in> set events \<longrightarrow>
       (\<exists>obj. ObjectWritten obj 0 \<in> set events \<and> wo_link w (gcc_args w obj f) = Some 0))"

lemma quiet_runs_linked: "quiet events \<Longrightarrow> runs_linked w events"
  by (auto simp: quiet_def runs_linked_def list_all_iff)

lemma write_module_cases:
  assumes "write_module bk w cl cg names = (ok, events)"
  shows "(\<not> ok \<longrightarrow> quiet events) \<and> (\<forall>f. ProgramRun f \<notin> set events) \<and>
    (ok \<and> should_run cl \<longrightarrow> events = [ObjectWritten (snd names) 0])"
  using assms
  by (auto simp: write_module_def quiet_def should_run_def emit_file_type_def split: prod.splits option.splits if_splits)

lemma link_and_run_linked:
  "runs_linked w (pre @ [ObjectWritten (snd names) 0] @ link_and_run w cl names)" if "quiet pre"
  using that
  by (auto simp: runs_linked_def link_and_run_def quiet_def list_all_iff Let_def split: prod.splits option.splits if_splits)

definition disciplined :: "world \<Rightarrow> int \<times> event list \<Rightarrow> bool" where
  "disciplined w r \<longleftrightarrow> (fst r = 0 \<or> quiet (snd r)) \<and> runs_linked w (snd r)"

lemma free_source_finishes: "ensures (free_source_of_file cl so) (\<lambda>_. True)"
  by (simp add: free_source_of_file_def free_source_def)

lemma complaint_disciplined: "disciplined w (1, [Complaint f m])"
  by (simp add: disciplined_def quiet_def runs_linked_def)

lemma finish_ok: "ensures (finish beyond bk w cl so cg) (disciplined w)"
proof -
  let ?cg = "if tuned cl then bk_level bk cg (llvm_level (cl_optimizationLevel cl)) else cg"
  let ?notice = "if tuned cl \<and> cl_verbose cl then [LevelNotice] else []"
  let ?names = "output_names beyond w cl"
  obtain ok written where w: "write_module bk w cl ?cg ?names = (ok, written)" by fastforce
  have n: "quiet ?notice" by (simp add: quiet_def)
  note c = write_module_cases [OF w]
  have "disciplined w (if ok then (0, ?notice @ written @ after_output w cl ?names) else (1, ?notice @ written))"
    using c n link_and_run_linked [OF n, of w ?names cl]
    by (cases ok; cases "should_run cl")
      (auto simp: disciplined_def after_output_def quiet_def runs_linked_def list_all_iff split: if_splits)
  then show ?thesis
    unfolding finish_def Let_def w fst_conv snd_conv
    by (auto intro!: ensures_bind [OF free_source_finishes])
qed

text \<open>The back end may not return: from here on only results are described.\<close>

definition yields :: "'a outcome \<Rightarrow> ('a \<Rightarrow> bool) \<Rightarrow> bool" where
  "yields x Q \<longleftrightarrow> (\<forall>a. x = Done a \<longrightarrow> Q a)"

lemma yields_simps [simp]: "yields (Done a) Q = Q a" "yields Undefined Q" "yields Unfinished Q"
  by (simp_all add: yields_def)

lemma yields_bind: "yields x P \<Longrightarrow> (\<And>a. P a \<Longrightarrow> yields (f a) Q) \<Longrightarrow> yields (andThen x f) Q"
  by (cases x) simp_all

lemma yields_step: "(\<And>a. x = Done a \<Longrightarrow> yields (f a) Q) \<Longrightarrow> yields (andThen x f) Q"
  by (cases x) simp_all

lemma yields_any: "yields x (\<lambda>_. True)"
  by (simp add: yields_def)

lemma ensures_yields: "ensures x Q \<Longrightarrow> yields x Q"
  by (cases x) simp_all

lemma yields_mono: "yields x P \<Longrightarrow> (\<And>a. P a \<Longrightarrow> Q a) \<Longrightarrow> yields x Q"
  by (simp add: yields_def)

text \<open>The generator is made, takes all nodes, and has no error then.\<close>

definition generated :: "'cg backend \<Rightarrow> source \<Rightarrow> handle list \<Rightarrow> bool" where
  "generated bk so handles \<longleftrightarrow>
     (\<exists>cg0 cg. bk_create bk (so_module so) = Some cg0 \<and> emit_nodes bk cg0 handles = Done cg \<and> bk_error bk cg = None)"

lemma generate_ok: "yields (generate beyond bk w cl so handles) (\<lambda>r. disciplined w r \<and> (quiet (snd r) \<or> generated bk so handles))"
  unfolding generate_def Let_def
  by (auto split: option.split simp: generated_def quiet_def
      intro!: yields_step complaint_disciplined intro: yields_mono [OF ensures_yields [OF finish_ok]])

lemma optimise_finishes: "ensures (optimise qsort cl nodes) (\<lambda>(hs, events). quiet events)"
  by (auto simp: optimise_def Let_def quiet_def split: option.split prod.split)

lemma disciplined_before: "quiet pre \<Longrightarrow> disciplined w (code, events) \<Longrightarrow> disciplined w (code, pre @ events)"
  by (auto simp: disciplined_def quiet_def runs_linked_def list_all_iff)

definition checked_source ::
    "nat \<Rightarrow> ((opt_pass \<Rightarrow> opt_pass \<Rightarrow> int) \<Rightarrow> opt_pass list \<Rightarrow> opt_pass list) \<Rightarrow> 'cg backend \<Rightarrow> command_line \<Rightarrow> source \<Rightarrow> bool" where
  "checked_source n qsort bk cl so \<longleftrightarrow>
     (\<exists>nodes reports handles changes. parse_to_ast n (so_text so) = Done (Some nodes) \<and>
        check_program (map Some nodes) = Some (True, reports) \<and> optimise qsort cl nodes = Done (handles, changes) \<and>
        generated bk so handles)"

lemma quiet_complaint: "quiet [Complaint f m]"
  by (simp add: quiet_def)

lemma compile_ok:
  "yields (compile_source n qsort beyond bk w cl so) (\<lambda>r. disciplined w r \<and> (quiet (snd r) \<or> checked_source n qsort bk cl so))"
proof (cases "parse_to_ast n (so_text so)")
  case (Done parsed)
  show ?thesis
  proof (cases parsed)
    case None
    then show ?thesis
      using Done complaint_disciplined quiet_complaint by (auto simp: compile_source_def free_source_def)
  next
    case (Some nodes)
    show ?thesis
    proof (cases "check_program (map Some nodes)")
      case None
      then show ?thesis using Done Some by (simp add: compile_source_def)
    next
      case c: (Some r)
      obtain ok reports where r: "r = (ok, reports)" by (cases r)
      let ?before = "(if cl_dumpAST cl then [AstDump nodes] else []) @ map UnusedReport reports"
      have q: "quiet ?before" by (auto simp: quiet_def list_all_iff)
      have rest: "yields (andThen (optimise qsort cl nodes) (\<lambda>(handles, changes).
          andThen (generate beyond bk w cl so handles) (\<lambda>(code, events). Done (code, ?before @ changes @ events))))
          (\<lambda>r. disciplined w r \<and> (quiet (snd r) \<or> (\<exists>handles changes. optimise qsort cl nodes = Done (handles, changes) \<and>
             generated bk so handles)))"
      proof (rule yields_step, clarify)
        fix handles changes
        assume o: "optimise qsort cl nodes = Done (handles, changes)"
        then have c: "quiet changes" using optimise_finishes [of qsort cl nodes] by simp
        show "yields (andThen (generate beyond bk w cl so handles) (\<lambda>(code, events).
            Done (code, ?before @ changes @ events))) (\<lambda>r. disciplined w r \<and> (quiet (snd r) \<or>
              (\<exists>handles changes. optimise qsort cl nodes = Done (handles, changes) \<and> generated bk so handles)))"
        proof (rule yields_bind [OF generate_ok], clarify)
          fix code events
          assume d: "disciplined w (code, events)" and g: "quiet (snd (code, events)) \<or> generated bk so handles"
          then have "quiet (?before @ changes @ events) \<or> generated bk so handles"
            using q c by (auto simp: quiet_def)
          then show "yields (Done (code, ?before @ changes @ events)) (\<lambda>r. disciplined w r \<and> (quiet (snd r) \<or>
              (\<exists>handles changes. optimise qsort cl nodes = Done (handles, changes) \<and> generated bk so handles)))"
            using disciplined_before [OF q disciplined_before [OF c d]] o by auto
        qed
      qed
      have "disciplined w (1, ?before)" using q by (simp add: disciplined_def quiet_runs_linked)
      then show ?thesis
        using Done Some c r q rest
        by (auto simp: compile_source_def Let_def checked_source_def intro!: yields_bind [OF yields_any]
            elim!: yields_mono)
    qed
  qed
qed (simp_all add: compile_source_def)

text \<open>C30: Nothing leaves the compiler before the source has passed its checks. When the driver prints or
  writes code, links or runs a program, its exit code is 0, the chosen source was parsed, the check
  for unused declarations accepted it, and the code generator was made, took every node that the optimiser left
  and had no error at the end; and a program is only run after an object file was written and the
  linker, given that file and the program's name, ended with status 0.\<close>

theorem no_output_before_checks:
  assumes "xvr_main n qsort beyond bk w args = Done (code, events)" "e \<in> set events" "output_event e"
  shows "code = 0 \<and>
    (\<exists>so nodes reports handles changes cg0 cg. choose_source w (Xvr_initCommandLine args) = Inr so \<and>
       parse_to_ast n (so_text so) = Done (Some nodes) \<and> check_program (map Some nodes) = Some (True, reports) \<and>
       optimise qsort (Xvr_initCommandLine args) nodes = Done (handles, changes) \<and>
       bk_create bk (so_module so) = Some cg0 \<and> emit_nodes bk cg0 handles = Done cg \<and> bk_error bk cg = None) \<and>
    (\<forall>f. e = ProgramRun f \<longrightarrow> (\<exists>obj. ObjectWritten obj 0 \<in> set events \<and> wo_link w (gcc_args w obj f) = Some 0))"
proof -
  let ?cl = "Xvr_initCommandLine args"
  let ?banner = "if cl_verbose ?cl then [Banner] else []"
  have no: "\<not> quiet events" using assms(2,3) by (auto simp: quiet_def list_all_iff)
  have early: "quiet ev" if "choose_source w ?cl = Inl (c, ev)" for c ev
    using that by (auto simp: choose_source_def quiet_def split: option.splits if_splits)
  have b: "quiet ?banner" by (simp add: quiet_def)
  obtain so c ev where so: "choose_source w ?cl = Inr so" "compile_source n qsort beyond bk w ?cl so = Done (c, ev)"
    "code = c" "events = ?banner @ ev"
    using assms(1) no early
    by (auto simp: xvr_main_def Let_def andThen_eq_Done quiet_def split: if_splits sum.splits prod.splits)
  from compile_ok [of n qsort beyond bk w ?cl so] so have d: "disciplined w (c, ev)" "quiet ev \<or> checked_source n qsort bk ?cl so"
    by auto
  have "disciplined w (code, events)" unfolding so(3,4) by (rule disciplined_before [OF b d(1)])
  moreover have "\<not> quiet ev" using no b so(4) by (auto simp: quiet_def)
  ultimately show ?thesis
    using d(2) so(1) no assms(2) unfolding disciplined_def checked_source_def generated_def runs_linked_def by auto
qed

definition sample_backend :: "nat backend" where
  "sample_backend = \<lparr>bk_create = (\<lambda>_. Some 0), bk_emit = (\<lambda>cg _. Done (Suc cg)), bk_error = (\<lambda>_. None), bk_level = (\<lambda>cg _. cg),
     bk_ir = (\<lambda>_. Some ''code''), bk_object = (\<lambda>_ _ _. True)\<rparr>"

definition sample_world :: world where
  "sample_world = \<lparr>wo_contents = (\<lambda>_. None), wo_directory = (\<lambda>_. False), wo_writable = (\<lambda>_. True),
     wo_variable = (\<lambda>_. None), wo_link = (\<lambda>_. Some 0)\<rparr>"

lemma no_output_before_checks_witness:
  "\<exists>nodes events. xvr_main 40 insertion_sort '''' sample_backend sample_world [''-l'', ''-i'', ''print(1);''] = Done (0, events) \<and>
     IrPrinted ''code'' \<in> set events \<and> parse_to_ast 40 ''print(1);'' = Done (Some nodes)"
proof -
  let ?args = "[''-l'', ''-i'', ''print(1);'']"
  have "case xvr_main 40 insertion_sort '''' sample_backend sample_world ?args of
      Done (code, events) \<Rightarrow> IrPrinted ''code'' \<in> set events | _ \<Rightarrow> False"
    by code_simp
  then obtain code events where m: "xvr_main 40 insertion_sort '''' sample_backend sample_world ?args = Done (code, events)"
      "IrPrinted ''code'' \<in> set events"
    by (auto split: outcome.splits)
  have "case choose_source sample_world (Xvr_initCommandLine ?args) of Inr so \<Rightarrow> so_text so = ''print(1);'' | _ \<Rightarrow> False"
    by code_simp
  with no_output_before_checks [OF m] m show ?thesis by (auto split: sum.splits)
qed

section \<open>The name of the output\<close>

lemma base_name_append: "CHR ''/'' \<notin> set f \<Longrightarrow> base_name (d @ CHR ''/'' # f) = f" "CHR ''/'' \<notin> set f \<Longrightarrow> base_name f = f"
proof -
  assume "CHR ''/'' \<notin> set f"
  then have "\<forall>c \<in> set (rev f). c \<noteq> CHR ''/''" by auto
  then show "base_name (d @ CHR ''/'' # f) = f" "base_name f = f"
    by (simp_all add: base_name_def takeWhile_append takeWhile_eq_all_conv [THEN iffD2])
qed

lemma c_string_append: "NUL \<notin> set f \<Longrightarrow> c_string (f @ NUL # xs) = f"
  by (induction f) (auto simp: c_string_def)

lemma map_char_at_take: "n \<le> length s \<Longrightarrow> map (char_at s) [0..<n] = take n s"
  by (auto intro: nth_equalityI simp: char_at_def)

lemma matched_name:
  "base_name path @ [NUL] @ beyond = m \<Longrightarrow> length path = n + 4 \<Longrightarrow> map (char_at m) [n..<n + 4] = ''.xvr'' \<Longrightarrow>
   map (char_at m) [0..<n] = f \<Longrightarrow> get_filename_without_ext beyond path = Some (c_string f)"
  by (simp only: get_filename_without_ext_def Let_def add_diff_cancel_right' if_True) simp

lemma unmatched_name:
  "base_name path @ [NUL] @ beyond = m \<Longrightarrow> length path = n \<Longrightarrow> 4 \<le> n \<Longrightarrow> map (char_at m) [n - 4..<n] \<noteq> ''.xvr'' \<Longrightarrow>
   get_filename_without_ext beyond path = Some (c_string (map (char_at m) [0..<n]))"
  by (simp only: get_filename_without_ext_def Let_def if_False not_less [symmetric] simp_thms)

text \<open>When the terminator is among the bytes that are copied, the name is the file's. It is: the bytes are as many
  as the whole path has, or four fewer when the last four of them are the extension, and then the terminator is before these.\<close>

lemma copied_name:
  assumes "NUL \<notin> set f" "length f < n"
  shows "c_string (map (char_at (f @ NUL # beyond)) [0..<n]) = f"
proof -
  let ?m = "f @ NUL # beyond"
  have "map (char_at ?m) [0..<length f] = f" using map_char_at_take [of "length f" ?m] by simp
  moreover have "[0..<n] = [0..<length f] @ length f # [Suc (length f)..<n]"
    using upt_add_eq_append [of 0 "length f" "n - length f"] upt_conv_Cons [OF assms(2)] assms(2) by simp
  ultimately show ?thesis using c_string_append [OF assms(1)] by (simp add: char_at_def)
qed

lemma directory_name:
  assumes "CHR ''/'' \<notin> set f" "NUL \<notin> set f" "3 \<le> length d + length f"
  shows "get_filename_without_ext beyond (d @ CHR ''/'' # f) = Some f"
proof -
  let ?path = "d @ CHR ''/'' # f" and ?m = "f @ NUL # beyond"
  define n where "n = length d + length f - 3"
  have len: "length ?path = n + 4" using assms(3) by (simp add: n_def)
  have base: "base_name ?path @ [NUL] @ beyond = ?m" using base_name_append(1) [OF assms(1)] by simp
  show ?thesis
  proof (cases "map (char_at ?m) [n..<n + 4] = ''.xvr''")
    case True
    have "length f < n"
    proof (rule ccontr)
      assume "\<not> length f < n"
      then have "length f \<in> set [n..<n + 4]" using len by simp
      then have "char_at ?m (length f) \<in> set (map (char_at ?m) [n..<n + 4])" unfolding set_map by (rule imageI)
      then show False unfolding True by (simp add: char_at_def)
    qed
    then show ?thesis using matched_name [OF base len True refl] copied_name [OF assms(2)] by simp
  next
    case False
    then show ?thesis
      using unmatched_name [OF base len] copied_name [OF assms(2), of "n + 4" beyond] len by simp
  qed
qed

lemma plain_name:
  assumes "CHR ''/'' \<notin> set f" "NUL \<notin> set f"
  shows "get_filename_without_ext beyond (f @ ''.xvr'') = Some f"
proof -
  let ?m = "(f @ ''.xvr'') @ NUL # beyond"
  have "map (char_at ?m) [length f..<length f + 4] = ''.xvr''"
    by (simp add: upt_conv_Cons char_at_def nth_append)
  moreover have "map (char_at ?m) [0..<length f] = f" using map_char_at_take [of "length f" ?m] by simp
  moreover have "base_name (f @ ''.xvr'') = f @ ''.xvr''" using assms(1) by (intro base_name_append(2)) auto
  ultimately have "get_filename_without_ext beyond (f @ ''.xvr'') = Some (c_string f)"
    by (intro matched_name [where m = ?m and n = "length f"]) simp_all
  then show ?thesis using c_string_append [OF assms(2), of "[]"] assms(2) by (auto simp: c_string_def takeWhile_eq_all_conv)
qed

text \<open>C31: The name the compiler gives its output. For a source \<open>stem.xvr\<close> without a slash it is \<open>stem\<close>. For a
  source in a directory, such as \<open>./a.xvr\<close> or \<open>src/a.xvr\<close>, it is the whole file name with its extension, although the
  bytes that are compared with the extension and copied may be those of the memory behind the path: the name does not depend
  on that memory, and a file written gets its own extension behind the source's. Run as
  \<open>xvr ./a.xvr\<close>, the driver has the linker write the executable over the source file.\<close>

theorem output_name:
  assumes "CHR ''/'' \<notin> set f" "NUL \<notin> set f"
  shows "get_filename_without_ext beyond (f @ ''.xvr'') = Some f \<and>
    get_filename_without_ext beyond (d @ ''/'' @ f) = (if 3 \<le> length d + length f then Some f else None) \<and>
    (3 \<le> length d + length f \<longrightarrow>
       build_output_filename beyond (d @ ''/'' @ f) (Some extension) = Some (f @ extension) \<and>
       (should_run cl \<and> cl_outFile cl = None \<and> cl_sourceFile cl = Some (d @ ''/'' @ f) \<and> \<not> wo_directory w f \<longrightarrow>
          take 4 (gcc_args w (snd (output_names beyond w cl)) (fst (output_names beyond w cl))) =
            [''gcc'', ''/tmp/xvr_compile.o'', ''-o'', f]))"
proof -
  have name: "get_filename_without_ext beyond (d @ ''/'' @ f) = (if 3 \<le> length d + length f then Some f else None)"
  proof (cases "3 \<le> length d + length f")
    case True
    then show ?thesis using directory_name [OF assms] by simp
  qed (simp add: get_filename_without_ext_def)
  show ?thesis
    using name plain_name [OF assms] by (simp add: build_output_filename_def output_names_def default_to_def gcc_args_def Let_def)
qed

lemma output_name_witness:
  "get_filename_without_ext ''PATH=/bin'' (''hello'' @ ''.xvr'') = Some ''hello'' \<and>
   fst (output_names ''PATH=/bin'' sample_world (Xvr_initCommandLine [''./hello.xvr''])) = ''hello.xvr''"
proof -
  have cl: "should_run (Xvr_initCommandLine [''./hello.xvr''])" "cl_outFile (Xvr_initCommandLine [''./hello.xvr'']) = None"
    "cl_sourceFile (Xvr_initCommandLine [''./hello.xvr'']) = Some (''.'' @ ''/'' @ ''hello.xvr'')"
    by code_simp+
  show ?thesis
    using output_name [of "''hello''" "''PATH=/bin''"]
      output_name [where f = "''hello.xvr''" and d = "''.''" and beyond = "''PATH=/bin''" and w = sample_world
        and cl = "Xvr_initCommandLine [''./hello.xvr'']"] cl
    by (simp add: sample_world_def gcc_args_def)
qed

end
