(* ===== verification/FloatText.thy ===== *)
theory FloatText
  imports Floats Decimal
begin

text \<open>
  The text of a floating-point number: the conversions \<open>%g\<close> and \<open>%.1f\<close> of \<open>printf\<close> as
  src/src/xvr_literal.cpp uses them, on the exact value, and its reading of a half-precision number. A
  \<open>float\<close> is passed to \<open>printf\<close> as the \<open>double\<close> of the same value.
\<close>

unbundle bit_operations_syntax

section \<open>Values\<close>

text \<open>A sign, and for a finite number its mantissa and its power of two.\<close>

datatype number = NotANumber bool | Infinity bool | Finite bool int int

definition f32_number :: "32 word \<Rightarrow> number" where
  "f32_number w =
     (if f32_nan w then NotANumber (f32_sign w) else if f32_infinite w then Infinity (f32_sign w)
      else Finite (f32_sign w) (f32_mantissa w) (f32_exponent w))"

definition f64_number :: "64 word \<Rightarrow> number" where
  "f64_number w =
     (let s = bit w 63; f = uint (drop_bit 52 w AND 0x7FF); m = uint (w AND 0xFFFFFFFFFFFFF)
      in if f = 0x7FF then (if m = 0 then Infinity s else NotANumber s)
         else Finite s (m + (if f = 0 then 0 else 2 ^ 52)) (max 1 f - 1075))"

text \<open>The numerator and the denominator of a finite number without its sign.\<close>

definition ratio_of :: "int \<Rightarrow> int \<Rightarrow> int \<times> int" where
  "ratio_of m e = (m * 2 ^ nat e, 2 ^ nat (- e))"

text \<open>
  \<open>f - (int)f\<close> is not zero. A conversion out of the range of \<open>int\<close> is undefined in C++; it gives the
  least \<open>int\<close> on the target, the case that is modelled, and the difference is zero for whole numbers within the range only.
\<close>

fun has_fraction :: "number \<Rightarrow> bool" where
  "has_fraction (Finite s m e) =
     (let (n, d) = ratio_of m e; v = (if s then - (n div d) else n div d)
      in n mod d \<noteq> 0 \<or> v < - (2 ^ 31) \<or> v \<ge> 2 ^ 31)"
| "has_fraction _ = True"

section \<open>Conversions\<close>

definition signed_text :: "bool \<Rightarrow> string \<Rightarrow> string" where
  "signed_text s t = (if s then CHR ''-'' # t else t)"

text \<open>\<open>%.1f\<close> of a whole number.\<close>

fun printf_whole :: "number \<Rightarrow> string" where
  "printf_whole (Finite s m e) = (let (n, d) = ratio_of m e in signed_text s (dec_nat (nat (n div d)) @ ''.0''))"
| "printf_whole (Infinity s) = signed_text s ''inf''"
| "printf_whole (NotANumber s) = signed_text s ''nan''"

text \<open>The power of ten of the first digit of a positive rational.\<close>

definition decimal_exponent :: "int \<Rightarrow> int \<Rightarrow> int" where
  "decimal_exponent n d =
     (if n \<ge> d then int (length (dec_nat (nat (n div d)))) - 1
      else - int (length (dec_nat (nat ((d - 1) div n)))))"

text \<open>Six digits, to nearest, ties to even, and the power of ten of the first of them.\<close>

definition six_digits :: "int \<Rightarrow> int \<Rightarrow> string \<times> int" where
  "six_digits n d =
     (let x = decimal_exponent n d;
          q = round_ratio (n * 10 ^ nat (5 - x)) (d * 10 ^ nat (x - 5)) 0
      in if q = 10 ^ 6 then (''100000'', x + 1) else (dec_nat (nat q), x))"

definition stripped :: "string \<Rightarrow> string" where
  "stripped ds = rev (dropWhile (\<lambda>c. c = CHR ''0'') (rev ds))"

definition with_fraction :: "string \<Rightarrow> string \<Rightarrow> string" where
  "with_fraction ip fp = (if stripped fp = [] then ip else ip @ CHR ''.'' # stripped fp)"

definition exponent_text :: "int \<Rightarrow> string" where
  "exponent_text x =
     (if x < 0 then ''e-'' else ''e+'') @ (if \<bar>x\<bar> < 10 then ''0'' else []) @ dec_nat (nat \<bar>x\<bar>)"

text \<open>\<open>%g\<close>, with its precision of six digits.\<close>

definition general_text :: "string \<Rightarrow> int \<Rightarrow> string" where
  "general_text ds x =
     (if x < - 4 \<or> x \<ge> 6 then with_fraction (take 1 ds) (drop 1 ds) @ exponent_text x
      else if x < 0 then with_fraction ''0'' (replicate (nat (- x - 1)) CHR ''0'' @ ds)
      else with_fraction (take (nat (x + 1)) ds) (drop (nat (x + 1)) ds))"

fun printf_g :: "number \<Rightarrow> string" where
  "printf_g (Finite s m e) =
     signed_text s
       (if m = 0 then ''0''
        else (let (n, d) = ratio_of m e; (ds, x) = six_digits n d in general_text ds x))"
| "printf_g (Infinity s) = signed_text s ''inf''"
| "printf_g (NotANumber s) = signed_text s ''nan''"

definition number_text :: "number \<Rightarrow> string" where
  "number_text x = (if has_fraction x then printf_g x else printf_whole x)"

section \<open>Half precision\<close>

text \<open>The loop over the leading zeros of a denormal mantissa, which is positive and less than 1024: the
  mantissa and the count \<open>e\<close>.\<close>

function normalise :: "int \<Rightarrow> int \<Rightarrow> int \<times> int" where
  "normalise mantissa e =
     (let m = 2 * mantissa
      in if bit m 10 \<or> mantissa \<le> 0 \<or> mantissa \<ge> 1024 then (m, e + 1) else normalise m (e + 1))"
  by auto
termination
  by (relation "measure (\<lambda>(m, e). nat (1024 - m))") auto

declare normalise.simps [simp del]

definition halfToFloat :: "16 word \<Rightarrow> 32 word" where
  "halfToFloat half =
     (let sign = (drop_bit 15 half AND 1 \<noteq> 0);
          exp = uint (drop_bit 10 half AND 0x1F);
          mantissa = uint (half AND 0x3FF);
          bits = (\<lambda>x m. signed_f32 sign (word_of_int ((x + 127) * 2 ^ 23 + m * 2 ^ 13)))
      in if exp = 0 then
           (if mantissa = 0 then signed_f32 sign 0
            else (let (m, e) = normalise mantissa (- 1); x = e + 1 - 15
                  in bits (if x < - 126 then - 126 else x) (m mod 2 ^ 10)))
         else if exp = 0x1F then 0x7F800000
         else bits (exp - 15) mantissa)"

end
