(* ===== verification/LitPrint.thy ===== *)
theory LitPrint
  imports FloatText LitDictionary
begin

text \<open>
  Printing of literals: \<open>Xvr_printLiteralCustom\<close> and its buffers in src/src/xvr_literal.cpp. The print
  functions that are given as function pointers are the values of \<open>print_fn\<close>. An array, a dictionary
  or a type collects its text in a block of its own that is never terminated; \<open>behind\<close> is what memory
  holds after the text in such a block. None is undefined behaviour. The messages for the tags that
  cannot be printed are not kept. Counts and capacities are numbers here. The code keeps them in a
  \<open>size_t\<close>, saves them in an \<open>int\<close> around a nested text, and takes the size of a buffer of the
  caller's as an \<open>int\<close>: texts of 2^31 bytes, whose saved count is cut, and sizes that are negative
  are left out.
\<close>

section \<open>State\<close>

text \<open>The bytes in the print buffer, its capacity, whether strings are quoted, and the standard output.\<close>

record printing =
  pt_buffer :: string
  pt_capacity :: nat
  pt_quotes :: bool
  pt_output :: string

datatype print_fn = StdoutWrapper | PrintToBuffer | PrintToBufferSimple

definition stdoutWrapper :: "string \<Rightarrow> printing \<Rightarrow> printing" where
  "stdoutWrapper s st = st\<lparr>pt_output := pt_output st @ s\<rparr>"

text \<open>The capacity after the loop that grows the buffer to \<open>need\<close> bytes.\<close>

function grown_to :: "nat \<Rightarrow> nat \<Rightarrow> nat" where
  "grown_to need capacity = (if need > capacity then grown_to need (XVR_GROW_CAPACITY capacity) else capacity)"
  by auto
termination
  by (relation "measure (\<lambda>(n, c). n - c)") (auto simp: XVR_GROW_CAPACITY_def)

declare grown_to.simps [simp del]

definition printToBuffer :: "string \<Rightarrow> printing \<Rightarrow> printing" where
  "printToBuffer str st =
     (let str_len = xvr_safe_strlen (Some str) 4096;
          count = length (pt_buffer st);
          capacity = grown_to (str_len + count + 1) (pt_capacity st);
          copy_len = (if str_len > capacity - count then capacity - count else str_len)
      in st\<lparr>pt_capacity := capacity, pt_buffer := pt_buffer st @ take copy_len str\<rparr>)"

definition printToBufferSimple :: "string \<Rightarrow> printing \<Rightarrow> printing" where
  "printToBufferSimple str st =
     (let len = xvr_safe_strlen (Some str) 4096;
          count = length (pt_buffer st)
      in if count + len > pt_capacity st
         then st\<lparr>pt_buffer := pt_buffer st @ take (pt_capacity st - count) str\<rparr>
         else st\<lparr>pt_buffer := pt_buffer st @ take len str\<rparr>)"

fun printFn :: "print_fn \<Rightarrow> string \<Rightarrow> printing \<Rightarrow> printing" where
  "printFn StdoutWrapper = stdoutWrapper"
| "printFn PrintToBuffer = printToBuffer"
| "printFn PrintToBufferSimple = printToBufferSimple"

section \<open>Scalars\<close>

text \<open>The text of a C string ends at its first NUL.\<close>

definition up_to_nul :: "string \<Rightarrow> string" where
  "up_to_nul = takeWhile (\<lambda>c. c \<noteq> NUL)"

text \<open>The text of a scalar, unless its tag cannot be printed.\<close>

definition scalar_text :: "literal_type \<Rightarrow> 64 word \<Rightarrow> string option" where
  "scalar_text t w =
     (case t of
        XVR_LITERAL_NULL \<Rightarrow> Some ''null''
      | XVR_LITERAL_BOOLEAN \<Rightarrow> Some (if (ucast w :: 8 word) \<noteq> 0 then ''true'' else ''false'')
      | XVR_LITERAL_INTEGER \<Rightarrow> Some (dec_int (sint (ucast w :: 32 word)))
      | XVR_LITERAL_INT8 \<Rightarrow> Some (dec_int (sint (ucast w :: 8 word)))
      | XVR_LITERAL_INT16 \<Rightarrow> Some (dec_int (sint (ucast w :: 16 word)))
      | XVR_LITERAL_INT32 \<Rightarrow> Some (dec_int (sint (ucast w :: 32 word)))
      | XVR_LITERAL_INT64 \<Rightarrow> Some (dec_int (sint w))
      | XVR_LITERAL_UINT8 \<Rightarrow> Some (dec_int (uint (ucast w :: 8 word)))
      | XVR_LITERAL_UINT16 \<Rightarrow> Some (dec_int (uint (ucast w :: 16 word)))
      | XVR_LITERAL_UINT32 \<Rightarrow> Some (dec_int (uint (ucast w :: 32 word)))
      | XVR_LITERAL_UINT64 \<Rightarrow> Some (dec_int (uint w))
      | XVR_LITERAL_FLOAT \<Rightarrow> Some (number_text (f32_number (ucast w)))
      | XVR_LITERAL_FLOAT16 \<Rightarrow> Some (number_text (f32_number (halfToFloat (ucast w))))
      | XVR_LITERAL_FLOAT32 \<Rightarrow> Some (number_text (f32_number (ucast w)))
      | XVR_LITERAL_FLOAT64 \<Rightarrow> Some (number_text (f64_number w))
      | XVR_LITERAL_FUNCTION \<Rightarrow> Some ''(function)''
      | XVR_LITERAL_FUNCTION_NATIVE \<Rightarrow> Some ''(function)''
      | XVR_LITERAL_FUNCTION_HOOK \<Rightarrow> Some ''(function)''
      | XVR_LITERAL_TYPE_INTERMEDIATE \<Rightarrow> Some ''Unprintable literal found''
      | XVR_LITERAL_FUNCTION_INTERMEDIATE \<Rightarrow> Some ''Unprintable literal found''
      | XVR_LITERAL_ANY \<Rightarrow> Some ''(any)''
      | _ \<Rightarrow> None)"

text \<open>The buffer of a string has room for 4095 characters, quotes included.\<close>

definition string_text :: "bool \<Rightarrow> string \<Rightarrow> string" where
  "string_text quotes s =
     (let body = up_to_nul s in take 4095 (if quotes then DQUOTE # body @ [DQUOTE] else body))"

definition type_word :: "literal_type \<Rightarrow> string option" where
  "type_word t =
     (case t of
        XVR_LITERAL_NULL \<Rightarrow> Some ''null''
      | XVR_LITERAL_BOOLEAN \<Rightarrow> Some ''bool''
      | XVR_LITERAL_INTEGER \<Rightarrow> Some ''int''
      | XVR_LITERAL_INT8 \<Rightarrow> Some ''int8''
      | XVR_LITERAL_INT16 \<Rightarrow> Some ''int16''
      | XVR_LITERAL_INT32 \<Rightarrow> Some ''int32''
      | XVR_LITERAL_INT64 \<Rightarrow> Some ''int64''
      | XVR_LITERAL_UINT8 \<Rightarrow> Some ''uint8''
      | XVR_LITERAL_UINT16 \<Rightarrow> Some ''uint16''
      | XVR_LITERAL_UINT32 \<Rightarrow> Some ''uint32''
      | XVR_LITERAL_UINT64 \<Rightarrow> Some ''uint64''
      | XVR_LITERAL_FLOAT \<Rightarrow> Some ''float''
      | XVR_LITERAL_STRING \<Rightarrow> Some ''string''
      | XVR_LITERAL_FUNCTION \<Rightarrow> Some ''proc''
      | XVR_LITERAL_FUNCTION_NATIVE \<Rightarrow> Some ''native''
      | XVR_LITERAL_IDENTIFIER \<Rightarrow> Some ''identifier''
      | XVR_LITERAL_TYPE \<Rightarrow> Some ''type''
      | XVR_LITERAL_OPAQUE \<Rightarrow> Some ''opaque''
      | XVR_LITERAL_ANY \<Rightarrow> Some ''any''
      | _ \<Rightarrow> None)"

section \<open>Printing\<close>

definition maybe_print :: "print_fn \<Rightarrow> string option \<Rightarrow> printing \<Rightarrow> printing" where
  "maybe_print fn text st = (case text of None \<Rightarrow> st | Some s \<Rightarrow> printFn fn s st)"

text \<open>A new print buffer, and the return to the parent's buffer with the text of the block.\<close>

definition open_block :: "printing \<Rightarrow> printing" where
  "open_block st = st\<lparr>pt_buffer := [], pt_capacity := 0\<rparr>"

definition close_block :: "(string \<Rightarrow> string) \<Rightarrow> print_fn \<Rightarrow> printing \<Rightarrow> printing \<Rightarrow> printing" where
  "close_block behind fn parent st =
     (printFn fn (up_to_nul (pt_buffer st @ behind (pt_buffer st)))
        (st\<lparr>pt_buffer := pt_buffer parent, pt_capacity := pt_capacity parent\<rparr>))\<lparr>pt_quotes := False\<rparr>"

abbreviation quoted_on :: "printing \<Rightarrow> printing" where
  "quoted_on st \<equiv> st\<lparr>pt_quotes := True\<rparr>"

fun Xvr_printLiteralCustom :: "(string \<Rightarrow> string) \<Rightarrow> literal \<Rightarrow> print_fn \<Rightarrow> printing \<Rightarrow> printing option"
  and print_elements :: "(string \<Rightarrow> string) \<Rightarrow> literal list \<Rightarrow> printing \<Rightarrow> printing option"
  and print_slots :: "(string \<Rightarrow> string) \<Rightarrow> entry list \<Rightarrow> nat \<Rightarrow> printing \<Rightarrow> printing option"
  and print_subtypes :: "(string \<Rightarrow> string) \<Rightarrow> literal list \<Rightarrow> printing \<Rightarrow> printing option"
  and print_pairs :: "(string \<Rightarrow> string) \<Rightarrow> literal list \<Rightarrow> printing \<Rightarrow> printing option" where
  "Xvr_printLiteralCustom behind (Bits t w) fn st = Some (maybe_print fn (scalar_text t w) st)"
| "Xvr_printLiteralCustom behind (Str s) fn st = Some (printFn fn (string_text (pt_quotes st) s) st)"
| "Xvr_printLiteralCustom behind (Arr t xs cap) fn st =
     (if t = XVR_LITERAL_ARRAY then
        map_option (\<lambda>st1. close_block behind fn st (printToBuffer '']'' st1))
          (print_elements behind xs (printToBuffer ''['' (open_block st)))
      else Some (maybe_print fn (scalar_text t 0) st))"
| "Xvr_printLiteralCustom behind (Dict es contains k) fn st =
     map_option (\<lambda>st1. close_block behind fn st
         (printToBuffer '']'' (if k = 0 then printToBuffer '':'' st1 else st1)))
       (print_slots behind es 0 (printToBuffer ''['' (open_block st)))"
| "Xvr_printLiteralCustom behind (Ident s h) fn st = Some (printFn fn (take 255 (up_to_nul s)) st)"
| "Xvr_printLiteralCustom behind (Type t constant subtypes cap) fn st =
     (let opened = printToBuffer ''<'' (open_block st)
      in map_option (\<lambda>st1. close_block behind fn st
             (printToBuffer ''>'' (if constant then printToBuffer '' const'' st1 else st1)))
           (if t = XVR_LITERAL_ARRAY then
              map_option (printToBuffer '']'') (print_subtypes behind subtypes (printToBuffer ''['' opened))
            else if t = XVR_LITERAL_DICTIONARY then
              map_option (printToBuffer '']'') (print_pairs behind subtypes (printToBuffer ''['' opened))
            else Some (maybe_print PrintToBuffer (type_word t) opened)))"
| "Xvr_printLiteralCustom behind (Opaque p tag) fn st = Some (printFn fn ''(opaque)'' st)"
| "print_elements behind [] st = Some st"
| "print_elements behind (x # xs) st =
     (case Xvr_printLiteralCustom behind x PrintToBuffer (quoted_on st) of
        None \<Rightarrow> None
      | Some st1 \<Rightarrow> print_elements behind xs (if xs \<noteq> [] then printToBuffer '','' st1 else st1))"
| "print_slots behind [] n st = Some st"
| "print_slots behind (Entry k v # es) n st =
     (if is_null k then print_slots behind es n st
      else
        (case Xvr_printLiteralCustom behind k PrintToBuffer
                (quoted_on (if n > 0 then printToBuffer '','' st else st)) of
           None \<Rightarrow> None
         | Some st1 \<Rightarrow>
             (case Xvr_printLiteralCustom behind v PrintToBuffer (quoted_on (printToBuffer '':'' st1)) of
                None \<Rightarrow> None
              | Some st2 \<Rightarrow> print_slots behind es (Suc n) st2)))"
| "print_subtypes behind [] st = Some st"
| "print_subtypes behind (x # xs) st =
     (case Xvr_printLiteralCustom behind x PrintToBuffer st of
        None \<Rightarrow> None
      | Some st1 \<Rightarrow> print_subtypes behind xs st1)"
| "print_pairs behind [] st = Some st"
| "print_pairs behind [x] st = None"
| "print_pairs behind (x # y # xs) st =
     (case Xvr_printLiteralCustom behind x PrintToBuffer st of
        None \<Rightarrow> None
      | Some st1 \<Rightarrow>
          (case Xvr_printLiteralCustom behind y PrintToBuffer (printToBuffer '':'' st1) of
             None \<Rightarrow> None
           | Some st2 \<Rightarrow> print_pairs behind xs st2))"

definition Xvr_printLiteral :: "(string \<Rightarrow> string) \<Rightarrow> literal \<Rightarrow> printing \<Rightarrow> printing option" where
  "Xvr_printLiteral behind l st = Xvr_printLiteralCustom behind l StdoutWrapper st"

text \<open>The bytes of the buffer up to the NUL that ends them, their number and the state; a size of zero
  leaves no room for the NUL.\<close>

definition Xvr_printLiteralToBuffer ::
    "(string \<Rightarrow> string) \<Rightarrow> literal \<Rightarrow> nat \<Rightarrow> printing \<Rightarrow> (string \<times> nat \<times> printing) option" where
  "Xvr_printLiteralToBuffer behind l bufferSize st =
     (if bufferSize = 0 then None
      else
        (case Xvr_printLiteralCustom behind l PrintToBufferSimple (st\<lparr>pt_buffer := [], pt_capacity := bufferSize - 1\<rparr>) of
           None \<Rightarrow> None
         | Some st1 \<Rightarrow>
             Some (pt_buffer st1 @ [NUL], length (pt_buffer st1),
                   st1\<lparr>pt_buffer := pt_buffer st, pt_capacity := pt_capacity st\<rparr>)))"

end
