(* ===== verification/PrintProps.thy ===== *)
theory PrintProps
  imports LitPrint
begin

text \<open>
  What printing a literal writes: the text that the literal stands for, through buffers that grow, that
  are nested and given back, and within the size of a buffer of the caller's.
\<close>

section \<open>The text of a literal\<close>

fun joined :: "string \<Rightarrow> string list \<Rightarrow> string" where
  "joined sep [] = []"
| "joined sep [t] = t"
| "joined sep (t # u # ts) = t @ sep @ joined sep (u # ts)"

text \<open>A block is read to the first NUL, and a nested text is cut at 4096 characters.\<close>

definition block_text :: "(string \<Rightarrow> string) \<Rightarrow> string \<Rightarrow> string" where
  "block_text behind t = up_to_nul (t @ behind t)"

definition nested :: "string \<Rightarrow> string" where
  "nested = take 4096"

fun is_aggregate :: "literal \<Rightarrow> bool" where
  "is_aggregate (Arr t xs cap) \<longleftrightarrow> t = XVR_LITERAL_ARRAY"
| "is_aggregate (Dict es contains n) \<longleftrightarrow> True"
| "is_aggregate (Type t c ss cap) \<longleftrightarrow> True"
| "is_aggregate _ \<longleftrightarrow> False"

text \<open>Whether strings are quoted after a literal: an aggregate turns the quotes off.\<close>

definition quotes_after :: "literal \<Rightarrow> bool \<Rightarrow> bool" where
  "quotes_after l q \<longleftrightarrow> q \<and> \<not> is_aggregate l"

definition or_nothing :: "string option \<Rightarrow> string" where
  "or_nothing t = (case t of None \<Rightarrow> [] | Some s \<Rightarrow> s)"

text \<open>The text of a literal when strings are quoted or not; a dictionary type with a key and no value
  has none.\<close>

fun shown :: "(string \<Rightarrow> string) \<Rightarrow> bool \<Rightarrow> literal \<Rightarrow> string option"
  and shown_elements :: "(string \<Rightarrow> string) \<Rightarrow> literal list \<Rightarrow> string list option"
  and shown_slots :: "(string \<Rightarrow> string) \<Rightarrow> entry list \<Rightarrow> string list option"
  and shown_subtypes :: "(string \<Rightarrow> string) \<Rightarrow> bool \<Rightarrow> literal list \<Rightarrow> string option"
  and shown_pairs :: "(string \<Rightarrow> string) \<Rightarrow> bool \<Rightarrow> literal list \<Rightarrow> string option" where
  "shown b q (Bits t w) = Some (or_nothing (scalar_text t w))"
| "shown b q (Str s) = Some (string_text q s)"
| "shown b q (Arr t xs cap) =
     (if t = XVR_LITERAL_ARRAY then map_option (\<lambda>ts. block_text b (''['' @ joined '','' ts @ '']'')) (shown_elements b xs)
      else Some (or_nothing (scalar_text t 0)))"
| "shown b q (Dict es contains n) =
     map_option (\<lambda>ts. block_text b (''['' @ joined '','' ts @ (if n = 0 then '':'' else []) @ '']'')) (shown_slots b es)"
| "shown b q (Ident s h) = Some (take 255 (up_to_nul s))"
| "shown b q (Type t c ss cap) =
     map_option (\<lambda>s. block_text b (''<'' @ s @ (if c then '' const'' else []) @ ''>''))
       (if t = XVR_LITERAL_ARRAY then map_option (\<lambda>s. ''['' @ s @ '']'') (shown_subtypes b q ss)
        else if t = XVR_LITERAL_DICTIONARY then map_option (\<lambda>s. ''['' @ s @ '']'') (shown_pairs b q ss)
        else Some (or_nothing (type_word t)))"
| "shown b q (Opaque p tag) = Some ''(opaque)''"
| "shown_elements b [] = Some []"
| "shown_elements b (x # xs) =
     (case shown b True x of None \<Rightarrow> None | Some s \<Rightarrow> map_option ((#) (nested s)) (shown_elements b xs))"
| "shown_slots b [] = Some []"
| "shown_slots b (Entry k v # es) =
     (if is_null k then shown_slots b es
      else (case shown b True k of None \<Rightarrow> None | Some s \<Rightarrow>
             (case shown b True v of None \<Rightarrow> None | Some t \<Rightarrow>
                map_option ((#) (nested s @ '':'' @ nested t)) (shown_slots b es))))"
| "shown_subtypes b q [] = Some []"
| "shown_subtypes b q (x # xs) =
     (case shown b q x of None \<Rightarrow> None | Some s \<Rightarrow>
        map_option ((@) (nested s)) (shown_subtypes b (quotes_after x q) xs))"
| "shown_pairs b q [] = Some []"
| "shown_pairs b q [x] = None"
| "shown_pairs b q (x # y # xs) =
     (case shown b q x of None \<Rightarrow> None | Some s \<Rightarrow>
        (case shown b (quotes_after x q) y of None \<Rightarrow> None | Some t \<Rightarrow>
           map_option (\<lambda>r. nested s @ '':'' @ nested t @ r) (shown_pairs b (quotes_after y (quotes_after x q)) xs)))"

section \<open>Texts have no NUL\<close>

lemma no_nul_up_to_nul [simp]: "no_nul (up_to_nul s)"
  by (auto simp: up_to_nul_def dest: set_takeWhileD)

lemma no_nul_take [simp]: "no_nul s \<Longrightarrow> no_nul (take n s)"
  by (auto dest: in_set_takeD)

lemma no_nul_drop [simp]: "no_nul s \<Longrightarrow> no_nul (drop n s)"
  by (auto dest: in_set_dropD)

lemma no_nul_dec_nat [simp]: "no_nul (dec_nat n)"
  using dec_nat_digits [of n] by (auto simp: list_all_iff)

lemma no_nul_dec_int [simp]: "no_nul (dec_int i)"
  by (simp add: dec_int_def)

lemma no_nul_stripped [simp]: "no_nul s \<Longrightarrow> no_nul (stripped s)"
  unfolding stripped_def by (auto dest!: set_dropWhileD)

lemma no_nul_with_fraction [simp]: "no_nul s \<Longrightarrow> no_nul t \<Longrightarrow> no_nul (with_fraction s t)"
  by (simp add: with_fraction_def)

lemma no_nul_general_text [simp]: "no_nul ds \<Longrightarrow> no_nul (general_text ds x)"
  by (simp add: general_text_def exponent_text_def)

lemma no_nul_signed_text [simp]: "no_nul t \<Longrightarrow> no_nul (signed_text s t)"
  by (simp add: signed_text_def)

lemma no_nul_six_digits [simp]: "no_nul (fst (six_digits n d))"
  by (simp add: six_digits_def Let_def)

lemma no_nul_printf_g [simp]: "no_nul (printf_g x)"
  by (cases x) (simp_all add: Let_def case_prod_beta)

lemma no_nul_printf_whole [simp]: "no_nul (printf_whole x)"
  by (cases x) (simp_all add: Let_def case_prod_beta)

lemma no_nul_number_text [simp]: "no_nul (number_text x)"
  by (simp add: number_text_def)

lemma no_nul_scalar_text [simp]: "no_nul (or_nothing (scalar_text t w))"
  by (simp add: scalar_text_def or_nothing_def split: literal_type.split)

lemma no_nul_string_text [simp]: "no_nul (string_text q s)"
  by (simp add: string_text_def Let_def)

lemma no_nul_shown: "shown b q l = Some s \<Longrightarrow> no_nul s"
  by (cases "(b, q, l)" rule: shown.cases)
    (auto simp: block_text_def split: if_splits)

section \<open>One text\<close>

text \<open>What a print function does with a text.\<close>

definition appended :: "print_fn \<Rightarrow> string \<Rightarrow> printing \<Rightarrow> printing \<Rightarrow> bool" where
  "appended fn s st st' \<longleftrightarrow>
     (case fn of
        StdoutWrapper \<Rightarrow>
          pt_output st' = pt_output st @ s \<and> pt_buffer st' = pt_buffer st \<and> pt_capacity st' = pt_capacity st
      | PrintToBuffer \<Rightarrow> pt_output st' = pt_output st \<and> pt_buffer st' = pt_buffer st @ nested s
      | PrintToBufferSimple \<Rightarrow>
          pt_output st' = pt_output st \<and> pt_capacity st' = pt_capacity st \<and>
          pt_buffer st' = take (pt_capacity st) (pt_buffer st @ nested s))"

definition fits :: "print_fn \<Rightarrow> printing \<Rightarrow> bool" where
  "fits fn st \<longleftrightarrow> (fn = PrintToBufferSimple \<longrightarrow> length (pt_buffer st) \<le> pt_capacity st)"

lemma nested_short [simp]: "length s \<le> 4096 \<Longrightarrow> nested s = s"
  by (simp add: nested_def)

lemma no_nul_nested [simp]: "no_nul s \<Longrightarrow> no_nul (nested s)"
  by (simp add: nested_def)

lemma take_scan [simp]: "no_nul s \<Longrightarrow> take (cstr_scan s n) s = take n s"
  by (simp add: cstr_scan_no_nul min_def)

lemma grown_to_ge: "need \<le> grown_to need capacity"
  by (induction need capacity rule: grown_to.induct) (subst grown_to.simps, auto)

lemma printToBuffer_fields [simp]:
  "no_nul s \<Longrightarrow> pt_buffer (printToBuffer s st) = pt_buffer st @ nested s"
  "pt_output (printToBuffer s st) = pt_output st"
  "pt_quotes (printToBuffer s st) = pt_quotes st"
proof -
  let ?n = "cstr_scan s 4096 + length (pt_buffer st) + 1"
  have "?n \<le> grown_to ?n (pt_capacity st)" by (rule grown_to_ge)
  then show "no_nul s \<Longrightarrow> pt_buffer (printToBuffer s st) = pt_buffer st @ nested s"
    by (auto simp: printToBuffer_def Let_def xvr_safe_strlen_def nested_def)
qed (simp_all add: printToBuffer_def Let_def)

lemma printFn_quotes [simp]: "pt_quotes (printFn fn s st) = pt_quotes st"
  by (cases fn) (simp_all add: stdoutWrapper_def printToBufferSimple_def Let_def)

lemma length_nested [simp]: "length (nested s) = min 4096 (length s)"
  by (simp add: nested_def min.commute)

lemma printToBufferSimple_buffer:
  assumes "no_nul s" "length (pt_buffer st) \<le> pt_capacity st"
  shows "pt_buffer (printToBufferSimple s st) = take (pt_capacity st) (pt_buffer st @ nested s)"
proof (cases "length (pt_buffer st) + min 4096 (length s) > pt_capacity st")
  case True
  then show ?thesis using assms
    by (auto simp: printToBufferSimple_def Let_def xvr_safe_strlen_def cstr_scan_no_nul nested_def min_def
        split: if_splits)
next
  case False
  then have "take (pt_capacity st - length (pt_buffer st)) (nested s) = nested s" by simp
  with False assms show ?thesis
    by (simp add: printToBufferSimple_def Let_def xvr_safe_strlen_def cstr_scan_no_nul)
      (simp add: nested_def min_def)
qed

lemma printFn_appended [simp]: "no_nul s \<Longrightarrow> fits fn st \<Longrightarrow> appended fn s st (printFn fn s st)"
  by (cases fn)
    (auto simp: appended_def fits_def stdoutWrapper_def printToBufferSimple_buffer,
      simp_all add: printToBufferSimple_def Let_def)

lemma appended_nothing [simp]: "fits fn st \<Longrightarrow> appended fn [] st st"
  by (cases fn) (auto simp: appended_def fits_def)

lemma maybe_print_appended [simp]:
  "no_nul (or_nothing t) \<Longrightarrow> fits fn st \<Longrightarrow> appended fn (or_nothing t) st (maybe_print fn t st)"
  "pt_quotes (maybe_print fn t st) = pt_quotes st"
  by (simp_all add: maybe_print_def or_nothing_def split: option.split)

lemma close_block_appended [simp]:
  "fits fn parent \<Longrightarrow> pt_output st = pt_output parent \<Longrightarrow>
     appended fn (block_text behind (pt_buffer st)) parent (close_block behind fn parent st)"
  "pt_quotes (close_block behind fn parent st) = False"
proof -
  assume "fits fn parent" "pt_output st = pt_output parent"
  then have "fits fn (st\<lparr>pt_buffer := pt_buffer parent, pt_capacity := pt_capacity parent\<rparr>)"
    by (simp add: fits_def)
  from printFn_appended [OF _ this, of "block_text behind (pt_buffer st)"] \<open>pt_output st = _\<close>
  show "appended fn (block_text behind (pt_buffer st)) parent (close_block behind fn parent st)"
    by (cases fn) (simp_all add: appended_def close_block_def block_text_def)
qed (simp add: close_block_def)

section \<open>Printing writes the text\<close>

definition written :: "(string \<Rightarrow> string) \<Rightarrow> literal \<Rightarrow> print_fn \<Rightarrow> printing \<Rightarrow> printing option \<Rightarrow> bool" where
  "written b l fn st res \<longleftrightarrow>
     (case res of
        None \<Rightarrow> shown b (pt_quotes st) l = None
      | Some st' \<Rightarrow>
          (\<exists>s. shown b (pt_quotes st) l = Some s \<and> appended fn s st st') \<and>
          pt_quotes st' = quotes_after l (pt_quotes st))"

text \<open>The print buffer grows by a text, or undefined behaviour is met where there is none.\<close>

definition grows :: "string option \<Rightarrow> printing \<Rightarrow> printing option \<Rightarrow> bool" where
  "grows text st res \<longleftrightarrow>
     (case res of
        None \<Rightarrow> text = None
      | Some st' \<Rightarrow> pt_output st' = pt_output st \<and> (\<exists>s. text = Some s \<and> pt_buffer st' = pt_buffer st @ s))"

lemma fits_grown [simp]: "fits PrintToBuffer st"
  by (simp add: fits_def)

lemma appended_grown [simp]:
  "appended PrintToBuffer s st st' \<longleftrightarrow> pt_output st' = pt_output st \<and> pt_buffer st' = pt_buffer st @ nested s"
  by (simp add: appended_def)

lemma joined_Cons: "joined sep (t # ts) = t @ concat (map ((@) sep) ts)"
  by (induction ts arbitrary: t) simp_all

lemma open_block_fields [simp]: "pt_buffer (open_block st) = []" "pt_output (open_block st) = pt_output st"
  "pt_quotes (open_block st) = pt_quotes st"
  by (simp_all add: open_block_def)

lemma no_nul_type_name [simp]: "no_nul (or_nothing (type_word t))" "length (or_nothing (type_word t)) \<le> 4096"
  by (simp_all add: type_word_def or_nothing_def split: literal_type.split)

lemma maybe_print_type [simp]:
  "pt_buffer (maybe_print PrintToBuffer (type_word t) st) = pt_buffer st @ or_nothing (type_word t)"
  "pt_output (maybe_print PrintToBuffer (type_word t) st) = pt_output st"
  using maybe_print_appended(1) [of "type_word t" PrintToBuffer st] by simp_all

lemma close_block_of:
  "fits fn parent \<Longrightarrow> pt_output st = pt_output parent \<Longrightarrow> pt_buffer st = t \<Longrightarrow>
     appended fn (block_text behind t) parent (close_block behind fn parent st)"
  using close_block_appended(1) by blast

lemma print_written:
  "fits fn st \<Longrightarrow> written b l fn st (Xvr_printLiteralCustom b l fn st)"
  "grows (map_option (joined '','') (shown_elements b xs)) st (print_elements b xs st)"
  "grows (map_option (\<lambda>ts. if n = 0 then joined '','' ts else concat (map ((@) '','') ts)) (shown_slots b es)) st
     (print_slots b es n st)"
  "grows (shown_subtypes b (pt_quotes st) xs) st (print_subtypes b xs st)"
  "grows (shown_pairs b (pt_quotes st) xs) st (print_pairs b xs st)"
proof (induction b l fn st and b xs st and b es n st and b xs st and b xs st
    rule: Xvr_printLiteralCustom_print_elements_print_slots_print_subtypes_print_pairs.induct)
  case (1 behind t w fn st)
  then show ?case by (simp add: written_def quotes_after_def)
next
  case (2 behind s fn st)
  then show ?case by (simp add: written_def quotes_after_def)
next
  case (3 behind t xs cap fn st)
  show ?case
  proof (cases "t = XVR_LITERAL_ARRAY")
    case True
    with 3 show ?thesis
      by (auto simp: written_def grows_def quotes_after_def split: option.splits intro!: close_block_of)
  qed (use 3 in \<open>simp add: written_def quotes_after_def\<close>)
next
  case (4 behind es contains k fn st)
  then show ?case
    by (auto simp: written_def grows_def quotes_after_def split: option.splits intro!: close_block_of)
next
  case (5 behind s h fn st)
  then show ?case by (simp add: written_def quotes_after_def)
next
  case (6 behind t c ss cap fn st)
  then show ?case
    by (cases "t = XVR_LITERAL_ARRAY"; cases "t = XVR_LITERAL_DICTIONARY")
      (auto simp: written_def grows_def quotes_after_def Let_def split: option.splits intro!: close_block_of)
next
  case (7 behind p tag fn st)
  then show ?case by (simp add: written_def quotes_after_def)
next
  case (8 behind st)
  then show ?case by (simp add: grows_def)
next
  case (9 behind x xs st)
  then show ?case
    by (cases xs) (auto simp: written_def grows_def joined_Cons split: option.splits)
next
  case (10 behind n st)
  then show ?case by (simp add: grows_def)
next
  case (11 behind k v es n st)
  show ?case
  proof (cases "is_null k")
    case False
    let ?st = "quoted_on (if n > 0 then printToBuffer '','' st else st)"
    show ?thesis
    proof (cases "Xvr_printLiteralCustom behind k PrintToBuffer ?st")
      case None
      with 11(2) [OF False] False show ?thesis by (simp add: written_def grows_def)
    next
      case (Some st1)
      note key = 11(2) [OF False, unfolded written_def Some, simplified]
      let ?st1 = "quoted_on (printToBuffer '':'' st1)"
      show ?thesis
      proof (cases "Xvr_printLiteralCustom behind v PrintToBuffer ?st1")
        case None
        with 11(3) [OF False Some] key False Some show ?thesis by (auto simp: written_def grows_def)
      next
        case (Some st2)
        note first = \<open>Xvr_printLiteralCustom behind k PrintToBuffer ?st = Some st1\<close>
        note second = 11(3) [OF False first, unfolded written_def Some, simplified]
        from 11(4) [OF False first Some] key second False first Some show ?thesis
          by (cases "n > 0") (auto simp: grows_def joined_Cons split: option.splits)
      qed
    qed
  qed (use 11(1) in simp)
next
  case (12 behind st)
  then show ?case by (simp add: grows_def)
next
  case (13 behind x xs st)
  then show ?case
    by (auto simp: written_def grows_def split: option.splits)
next
  case (14 behind st)
  then show ?case by (simp add: grows_def)
next
  case (15 behind x st)
  then show ?case by (simp add: grows_def)
next
  case (16 behind x y xs st)
  show ?case
  proof (cases "Xvr_printLiteralCustom behind x PrintToBuffer st")
    case None
    with 16(1) show ?thesis by (simp add: written_def grows_def)
  next
    case (Some st1)
    note first = this
    note key = 16(1) [unfolded written_def Some, simplified]
    show ?thesis
    proof (cases "Xvr_printLiteralCustom behind y PrintToBuffer (printToBuffer '':'' st1)")
      case None
      with 16(2) [OF first] key first show ?thesis by (auto simp: written_def grows_def)
    next
      case (Some st2)
      note second = 16(2) [OF first, unfolded written_def Some, simplified]
      from 16(3) [OF first Some] key second first Some show ?thesis
        by (auto simp: grows_def split: option.splits)
    qed
  qed
qed

section \<open>Properties\<close>

lemma written_cases:
  assumes "written b l fn st res"
  obtains "res = None" "shown b (pt_quotes st) l = None"
  | st' s where "res = Some st'" "shown b (pt_quotes st) l = Some s" "appended fn s st st'"
      "pt_quotes st' = quotes_after l (pt_quotes st)"
  using assms by (auto simp: written_def split: option.splits)


text \<open>C34: Printing a literal into a buffer of the caller's. With room for \<open>n + 1\<close> bytes the buffer gets the
  first \<open>n\<close> characters of the literal's text, of which no more than 4096 are taken, and a NUL, the
  position is the number of characters, and the standard output and the print buffer are as before.\<close>

theorem printed_within_buffer:
  "Xvr_printLiteralToBuffer behind l (Suc n) st =
     map_option (\<lambda>s. (take n (take 4096 s) @ [NUL], min n (min 4096 (length s)),
         st\<lparr>pt_quotes := quotes_after l (pt_quotes st)\<rparr>))
       (shown behind (pt_quotes st) l)"
proof -
  let ?st = "st\<lparr>pt_buffer := [], pt_capacity := n\<rparr>"
  have "fits PrintToBufferSimple ?st" by (simp add: fits_def)
  from print_written(1) [OF this, of behind l] show ?thesis
  proof (cases rule: written_cases)
    case (2 st' s)
    then show ?thesis
      by (cases st; cases st') (simp add: appended_def Xvr_printLiteralToBuffer_def nested_def ac_simps)
  qed (simp add: Xvr_printLiteralToBuffer_def)
qed

end
