(* ===== verification/Modules.thy ===== *)
theory Modules
  imports Parser
begin

text \<open>
  Builtin functions and imported modules: src/src/sema/xvr_builtin.cpp. The registry and the resolver are
  pointers, NULL as None. Code addresses are the values of \<open>handler\<close>; the LLVM context that the
  registry creates and disposes is not kept. The file system is a parameter.
\<close>

section \<open>Builtin functions\<close>

datatype builtin_type = XVR_BUILTIN_NONE | XVR_BUILTIN_SIZEOF | XVR_BUILTIN_LEN | XVR_BUILTIN_PANIC

datatype handler = Handle_sizeof | Handle_len | Handle_panic

record builtin_info =
  bi_name :: string
  bi_type :: builtin_type
  bi_handler :: handler
  bi_llvm_name :: "string option"
  bi_min_args :: int
  bi_max_args :: int

definition XVR_BUILTIN_MAX :: nat where
  "XVR_BUILTIN_MAX = 64"

text \<open>The entries in the order they were registered.\<close>

type_synonym registry = "builtin_info list"

definition Xvr_BuiltinRegistryRegister ::
    "registry option \<Rightarrow> string option \<Rightarrow> builtin_type \<Rightarrow> handler option \<Rightarrow> string option \<Rightarrow> int \<Rightarrow> int \<Rightarrow>
     bool \<times> registry option" where
  "Xvr_BuiltinRegistryRegister registry name type handler llvm_name min_args max_args =
     (case (registry, name, handler) of
        (Some r, Some s, Some h) \<Rightarrow>
          if length r \<ge> XVR_BUILTIN_MAX then (False, Some r)
          else (True, Some (r @ [\<lparr>bi_name = s, bi_type = type, bi_handler = h, bi_llvm_name = llvm_name,
                  bi_min_args = min_args, bi_max_args = max_args\<rparr>]))
      | _ \<Rightarrow> (False, registry))"

fun registry_find :: "registry \<Rightarrow> string \<Rightarrow> builtin_info option" where
  "registry_find [] name = None"
| "registry_find (b # bs) name = (if bi_name b = name then Some b else registry_find bs name)"

definition Xvr_BuiltinRegistryLookup :: "registry option \<Rightarrow> string option \<Rightarrow> builtin_info option" where
  "Xvr_BuiltinRegistryLookup registry name =
     (case (registry, name) of (Some r, Some s) \<Rightarrow> registry_find r s | _ \<Rightarrow> None)"

definition Xvr_BuiltinRegistryIsBuiltin :: "registry option \<Rightarrow> string option \<Rightarrow> bool" where
  "Xvr_BuiltinRegistryIsBuiltin registry name \<longleftrightarrow> Xvr_BuiltinRegistryLookup registry name \<noteq> None"

definition Xvr_BuiltinRegistryInitDefaults :: "registry option \<Rightarrow> registry option" where
  "Xvr_BuiltinRegistryInitDefaults r0 =
     (let r1 = snd (Xvr_BuiltinRegistryRegister r0 (Some ''sizeof'') XVR_BUILTIN_SIZEOF (Some Handle_sizeof) None 1 1);
          r2 = snd (Xvr_BuiltinRegistryRegister r1 (Some ''len'') XVR_BUILTIN_LEN (Some Handle_len) None 1 1)
      in snd (Xvr_BuiltinRegistryRegister r2 (Some ''panic'') XVR_BUILTIN_PANIC (Some Handle_panic) None 1 1))"

definition Xvr_BuiltinRegistryCreate :: "registry option" where
  "Xvr_BuiltinRegistryCreate = Xvr_BuiltinRegistryInitDefaults (Some [])"

section \<open>Resolving a module\<close>

text \<open>The path of the standard library, NULL when it could not be copied.\<close>

record module_resolver =
  mr_stdlib_path :: "string option"

definition Xvr_ModuleResolverCreate :: "string option \<Rightarrow> module_resolver" where
  "Xvr_ModuleResolverCreate stdlib_path =
     \<lparr>mr_stdlib_path = Some (case stdlib_path of None \<Rightarrow> ''./lib/std'' | Some p \<Rightarrow> p)\<rparr>"

definition Xvr_ModuleResolverGetStdlibPath :: "module_resolver option \<Rightarrow> string option" where
  "Xvr_ModuleResolverGetStdlibPath resolver = Option.bind resolver mr_stdlib_path"

definition Xvr_ModuleResolverSetStdlibPath :: "string option \<Rightarrow> module_resolver \<Rightarrow> module_resolver" where
  "Xvr_ModuleResolverSetStdlibPath path resolver =
     resolver\<lparr>mr_stdlib_path := Some (case path of None \<Rightarrow> ''./lib/std'' | Some p \<Rightarrow> p)\<rparr>"

text \<open>The check of the character at position \<open>i\<close> of a name.\<close>

definition refused_char :: "string \<Rightarrow> nat \<Rightarrow> nat \<Rightarrow> bool" where
  "refused_char name name_len i \<longleftrightarrow>
     (let c = char_at name i
      in c = CHR ''/'' \<or> c = BACKSLASH \<or>
         c = CHR ''.'' \<and> (i = 0 \<or> char_at name (i - 1) = CHR ''/'' \<or> i = name_len - 1))"

text \<open>The path, unless it is refused. \<open>snprintf\<close> writes the whole strings, in \<open>path_len\<close> bytes.\<close>

definition Xvr_ModuleResolverResolve :: "module_resolver option \<Rightarrow> string option \<Rightarrow> string option" where
  "Xvr_ModuleResolverResolve resolver module_name =
     (case (resolver, module_name) of
        (Some r, Some name) \<Rightarrow>
          (let name_len = cstr_scan name 256
           in if name_len = 0 \<or> name_len \<ge> 256 then None
              else if \<exists>i \<in> set [0..<name_len]. refused_char name name_len i then None
              else
                (case mr_stdlib_path r of
                   None \<Rightarrow> None
                 | Some lib \<Rightarrow>
                     (let stdlib_len = cstr_scan lib 4096
                      in if char_at lib 0 = NUL then None
                         else if stdlib_len = 0 \<or> stdlib_len \<ge> 4096 then None
                         else
                           (let path_len = stdlib_len + name_len + 16;
                                text = lib @ ''/'' @ name @ ''.xvr''
                            in if length text \<ge> path_len then None else Some text))))
      | _ \<Rightarrow> None)"

section \<open>Loading a module\<close>

text \<open>The nodes of all lines, or None (the code returns false) when a line has an error.\<close>

fun load_loop :: "nat \<Rightarrow> nat \<Rightarrow> parser \<Rightarrow> ast list \<Rightarrow> ast list option outcome" where
  "load_loop n 0 p nodes = Unfinished"
| "load_loop n (Suc m) p nodes =
     andThen (Xvr_scanParser n p) (\<lambda>(node, p).
       case node of
         None \<Rightarrow> Done (Some nodes)
       | Some NodeError \<Rightarrow> andThen (freed nodes p) (\<lambda>p. Done None)
       | Some x \<Rightarrow> load_loop n m p (nodes @ [x]))"

definition Xvr_ModuleResolverLoadModule ::
    "nat \<Rightarrow> (string \<Rightarrow> string option) \<Rightarrow> module_resolver option \<Rightarrow> string option \<Rightarrow> ast list option outcome" where
  "Xvr_ModuleResolverLoadModule n files resolver module_path =
     (case (resolver, module_path) of
        (Some r, Some path) \<Rightarrow>
          (case files path of
             None \<Rightarrow> Done None
           | Some source \<Rightarrow>
               andThen (Xvr_initParser (Xvr_initLexer source)) (\<lambda>p. load_loop n n p []))
      | _ \<Rightarrow> Done None)"

end
