(* ===== verification/ModuleProps.thy ===== *)
theory ModuleProps
  imports Modules
begin

text \<open>
  The registry of builtin functions is a map whose first binding of a name stays, resolved paths are
  files of the standard library's directory, and a module is parsed as a program is.
\<close>

section \<open>Builtin functions\<close>

lemma registry_find_append:
  "registry_find (r @ [b]) name =
     (case registry_find r name of Some i \<Rightarrow> Some i | None \<Rightarrow> if bi_name b = name then Some b else None)"
  by (induction r) (auto split: option.split)

text \<open>The registry of builtin functions. Registering a function makes its name known, unless the
  name was known before, in which case the first registration stays, or 64 functions are registered
  already; no other name changes. The new registry knows \<open>sizeof\<close>, \<open>len\<close> and \<open>panic\<close>, of one argument each,
  and no other name.\<close>

theorem builtin_registry:
  "Xvr_BuiltinRegistryLookup
       (snd (Xvr_BuiltinRegistryRegister (Some r) (Some name) type (Some h) llvm_name lo hi)) (Some q) =
     (case Xvr_BuiltinRegistryLookup (Some r) (Some q) of
        Some i \<Rightarrow> Some i
      | None \<Rightarrow>
          if q = name \<and> length r < 64
          then Some \<lparr>bi_name = name, bi_type = type, bi_handler = h, bi_llvm_name = llvm_name,
            bi_min_args = lo, bi_max_args = hi\<rparr>
          else None) \<and>
   map_option (\<lambda>i. (bi_type i, bi_handler i, bi_min_args i, bi_max_args i))
       (Xvr_BuiltinRegistryLookup Xvr_BuiltinRegistryCreate (Some q)) =
     (if q = ''sizeof'' then Some (XVR_BUILTIN_SIZEOF, Handle_sizeof, 1, 1)
      else if q = ''len'' then Some (XVR_BUILTIN_LEN, Handle_len, 1, 1)
      else if q = ''panic'' then Some (XVR_BUILTIN_PANIC, Handle_panic, 1, 1) else None)"
  by (auto simp: Xvr_BuiltinRegistryLookup_def Xvr_BuiltinRegistryRegister_def XVR_BUILTIN_MAX_def
      registry_find_append Xvr_BuiltinRegistryCreate_def Xvr_BuiltinRegistryInitDefaults_def Let_def
      split: option.split)

section \<open>Paths\<close>

lemma refused_name:
  assumes "no_nul name" "name \<noteq> []"
  shows "(\<exists>i \<in> set [0..<length name]. refused_char name (length name) i) \<longleftrightarrow>
    CHR ''/'' \<in> set name \<or> BACKSLASH \<in> set name \<or> hd name = CHR ''.'' \<or> last name = CHR ''.''"
  (is "?l \<longleftrightarrow> ?r")
proof
  assume ?l
  then obtain i where i: "i < length name" "refused_char name (length name) i" by auto
  then have at: "char_at name i \<in> set name" "char_at name (i - 1) \<in> set name"
    by (simp_all add: char_at_in)
  have "hd name = char_at name 0" "last name = char_at name (length name - 1)"
    using assms(2) by (simp_all add: hd_conv_nth last_conv_nth char_at_in)
  then show ?r using i(2) at unfolding refused_char_def Let_def by metis
next
  have at: "refused_char name (length name) i" if "i < length name" "name ! i = c"
    "c = CHR ''/'' \<or> c = BACKSLASH \<or> c = CHR ''.'' \<and> (i = 0 \<or> i = length name - 1)" for i c
    using that by (auto simp: refused_char_def Let_def char_at_in)
  have pos: "0 < length name" "length name - 1 < length name" using assms(2) by auto
  assume ?r
  then consider i where "i < length name" "name ! i = CHR ''/''" | i where "i < length name" "name ! i = BACKSLASH"
    | "name ! 0 = CHR ''.''" | "name ! (length name - 1) = CHR ''.''"
    using assms(2) by (auto simp: in_set_conv_nth hd_conv_nth last_conv_nth)
  then obtain i where "i < length name" "refused_char name (length name) i"
    using at pos by cases (metis | blast)+
  then show ?l by auto
qed

text \<open>C33: An imported module is a file of the standard library's directory. The name resolves to the
  directory, a slash, the name and \<open>.xvr\<close>, whole, when the name has between 1 and 255 characters, no
  slash or backslash among them and no dot at its ends, and the directory has between 1 and 4095
  characters; any other name is refused, so that no path leads out of the directory.\<close>

theorem module_path_confined:
  assumes "no_nul name" "no_nul lib"
  shows "Xvr_ModuleResolverResolve (Some \<lparr>mr_stdlib_path = Some lib\<rparr>) (Some name) =
    (if name \<noteq> [] \<and> length name < 256 \<and> CHR ''/'' \<notin> set name \<and> BACKSLASH \<notin> set name \<and>
        hd name \<noteq> CHR ''.'' \<and> last name \<noteq> CHR ''.'' \<and> lib \<noteq> [] \<and> length lib < 4096
     then Some (lib @ ''/'' @ name @ ''.xvr'') else None)"
proof (cases "name \<noteq> [] \<and> length name < 256")
  case True
  moreover have "char_at lib 0 = NUL \<longleftrightarrow> lib = []"
    using assms(2) by (cases lib) auto
  ultimately show ?thesis
    using refused_name [OF assms(1)] assms
    by (auto simp: Xvr_ModuleResolverResolve_def cstr_scan_no_nul Let_def)
qed (use assms in \<open>auto simp: Xvr_ModuleResolverResolve_def cstr_scan_no_nul Let_def\<close>)

lemma module_path_confined_witness:
  "Xvr_ModuleResolverResolve (Some \<lparr>mr_stdlib_path = Some ''lib''\<rparr>) (Some ''io'') = Some ''lib/io.xvr'' \<and>
   Xvr_ModuleResolverResolve (Some \<lparr>mr_stdlib_path = Some ''lib''\<rparr>) (Some ''../io'') = None"
  using module_path_confined [of "''io''" "''lib''"] module_path_confined [of "''../io''" "''lib''"] by simp

section \<open>Loading\<close>

lemma parse_loop_load:
  "parse_loop n m p nodes = andThen (load_loop n m p nodes) (\<lambda>r. Done (if r = Some [] then None else r))"
proof (induction m arbitrary: p nodes)
  case (Suc m)
  show ?case
    by (cases "Xvr_scanParser n p") (auto simp: Suc freed_def split: option.split ast.split)
qed simp

text \<open>C35: An imported module is parsed as a program is: on the same source the loader and the driver's
  \<open>parse_to_ast\<close> come to the same outcome, except that a source without a line loads as a module without nodes
  while \<open>parse_to_ast\<close> gives NULL, as for an error. A file that cannot be read is refused.\<close>

theorem module_parsed_as_program:
  "parse_to_ast n source =
     andThen (Xvr_ModuleResolverLoadModule n (files(path \<mapsto> source)) (Some r) (Some path))
       (\<lambda>res. Done (if res = Some [] then None else res)) \<and>
   Xvr_ModuleResolverLoadModule n (files(path := None)) (Some r) (Some path) = Done None"
  by (cases "Xvr_initParser (Xvr_initLexer source)")
    (auto simp: parse_to_ast_def Xvr_ModuleResolverLoadModule_def parse_loop_load)

end
