(* ===== verification/LlvmState.thy ===== *)
theory LlvmState
  imports CommandLine Literals TypeSystem "HOL-Library.State_Monad"
begin

text \<open>
  The state of the code generator and its services: the context, the module manager, the type mapper, the
  builder and the table of local variables (src/src/adapters/llvm/xvr_llvm_context.cpp,
  xvr_llvm_module_manager.cpp, xvr_llvm_type_mapper.cpp, xvr_llvm_ir_builder.cpp and the first part of
  xvr_llvm_function_emitter.cpp). LLVM itself is a parameter: a call of its C interface is its name with
  its arguments, and what it returns is a function of all calls made so far. Values, types and blocks of
  LLVM are numbers, 0 for NULL; the one context, module and builder are not written as arguments, a real
  constant is passed as its bits. The state is threaded by the state monad. Objects of the code generator
  are never NULL, and \<open>calloc\<close> never fails.
\<close>

section \<open>The LLVM interface\<close>

datatype llvm_arg = Ref nat | Refs "nat list" | Num int | Text string

datatype llvm_call = Call string "llvm_arg list"

text \<open>The kinds of a type and of a value: enumerators of llvm-c/Core.h.\<close>

abbreviation LLVMVoidTypeKind :: nat where "LLVMVoidTypeKind \<equiv> 0"
abbreviation LLVMFloatTypeKind :: nat where "LLVMFloatTypeKind \<equiv> 2"
abbreviation LLVMDoubleTypeKind :: nat where "LLVMDoubleTypeKind \<equiv> 3"
abbreviation LLVMIntegerTypeKind :: nat where "LLVMIntegerTypeKind \<equiv> 8"
abbreviation LLVMArrayTypeKind :: nat where "LLVMArrayTypeKind \<equiv> 11"
abbreviation LLVMPointerTypeKind :: nat where "LLVMPointerTypeKind \<equiv> 12"
abbreviation LLVMGlobalVariableValueKind :: nat where "LLVMGlobalVariableValueKind \<equiv> 8"
abbreviation LLVMConstantDataArrayValueKind :: nat where "LLVMConstantDataArrayValueKind \<equiv> 16"

section \<open>State\<close>

record type_mapper =
  tm_void :: nat
  tm_int1 :: nat
  tm_int8 :: nat
  tm_int16 :: nat
  tm_int32 :: nat
  tm_int64 :: nat
  tm_float :: nat
  tm_double :: nat
  tm_int8_ptr :: nat
  tm_runtime :: nat

datatype asm_syntax = XVR_ASM_SYNTAX_INTEL | XVR_ASM_SYNTAX_ATT

record target_config =
  tc_triple :: "string option"
  tc_cpu :: "string option"
  tc_features :: "string option"
  tc_reloc :: "string option"
  tc_code_model :: "string option"
  tc_asm_syntax :: asm_syntax

datatype optimization_level =
    XVR_LLVM_OPT_NONE | XVR_LLVM_OPT_LEGACY | XVR_LLVM_OPT_O1 | XVR_LLVM_OPT_O2 | XVR_LLVM_OPT_O3
  | XVR_LLVM_OPT_OS | XVR_LLVM_OPT_OZ

text \<open>A variable keeps a pointer to its name, which belongs to the node that declares it; \<open>lv_owner\<close> says which: 0
  is the program, and the nodes of imported modules are numbered as they are emitted.\<close>

record local_var =
  lv_name :: string
  lv_value :: nat
  lv_type :: literal_type
  lv_array_count :: int
  lv_owner :: nat

text \<open>
  LLVM's answers and texts, the calls so far, the table of Xvr's types, the error of the context, the
  functions of the module with their types, the mapped types, the local variables with the counts saved
  for the open scopes and the current function, and the loops with their targets of break and continue,
  the last result and the error of the control flow, whether \<open>main\<close> was made, the error of the code
  generator, the target with its machine, and the level and the machine of the optimiser. \<open>be_owner\<close> is the
  owner of the names that are added now, \<open>be_owners\<close> the number of owners so far, and \<open>be_freed\<close> holds those whose nodes
  are freed. \<open>be_undefined\<close> is set once a NULL pointer is followed, freed memory is read
  or the code leaves a buffer, and \<open>be_unfinished\<close> when the bound of the model on the recursion of the emitter is met.
\<close>

record generator =
  be_answer :: "llvm_call list \<Rightarrow> nat"
  be_text :: "llvm_call list \<Rightarrow> string option"
  be_calls :: "llvm_call list"
  be_types :: type_state
  be_has_error :: bool
  be_error :: "string option"
  be_functions :: "(string \<times> nat) list"
  be_mapper :: type_mapper
  be_locals :: "local_var list"
  be_scopes :: "nat list"
  be_function :: nat
  be_loops :: "(nat \<times> nat) list"
  be_last_result :: nat
  be_flow_failed :: bool
  be_flow_message :: string
  be_flow_hint :: string
  be_main_created :: bool
  be_failure :: "string option"
  be_target_config :: target_config
  be_target_machine :: nat
  be_level :: optimization_level
  be_level_machine :: nat
  be_owner :: nat
  be_owners :: nat
  be_freed :: "nat list"
  be_undefined :: bool
  be_unfinished :: bool

type_synonym 'a emits = "(generator, 'a) state"

abbreviation give :: "'a \<Rightarrow> 'a emits" where
  "give \<equiv> State_Monad.return"

definition inspect :: "(generator \<Rightarrow> 'a) \<Rightarrow> 'a emits" where
  "inspect f = State (\<lambda>s. (f s, s))"

definition alter :: "(generator \<Rightarrow> generator) \<Rightarrow> unit emits" where
  "alter f = State (\<lambda>s. ((), f s))"

definition undefined_step :: "unit emits" where
  "undefined_step = alter (\<lambda>s. s\<lparr>be_undefined := True\<rparr>)"

definition unfinished_step :: "unit emits" where
  "unfinished_step = alter (\<lambda>s. s\<lparr>be_unfinished := True\<rparr>)"

text \<open>A call that returns a number, and one that returns a string.\<close>

definition llvm :: "string \<Rightarrow> llvm_arg list \<Rightarrow> nat emits" where
  "llvm f args = State (\<lambda>s. let cs = be_calls s @ [Call f args] in (be_answer s cs, s\<lparr>be_calls := cs\<rparr>))"

definition llvm_string :: "string \<Rightarrow> llvm_arg list \<Rightarrow> string option emits" where
  "llvm_string f args = State (\<lambda>s. let cs = be_calls s @ [Call f args] in (be_text s cs, s\<lparr>be_calls := cs\<rparr>))"

text \<open>Types and constants that the emitters ask for at many places.\<close>

definition int1_type :: "nat emits" where "int1_type = llvm ''LLVMInt1TypeInContext'' []"
definition int8_type :: "nat emits" where "int8_type = llvm ''LLVMInt8TypeInContext'' []"
definition int16_type :: "nat emits" where "int16_type = llvm ''LLVMInt16TypeInContext'' []"
definition int32_type :: "nat emits" where "int32_type = llvm ''LLVMInt32TypeInContext'' []"
definition int64_type :: "nat emits" where "int64_type = llvm ''LLVMInt64TypeInContext'' []"
definition float_type :: "nat emits" where "float_type = llvm ''LLVMFloatTypeInContext'' []"
definition double_type :: "nat emits" where "double_type = llvm ''LLVMDoubleTypeInContext'' []"

definition pointer_to :: "nat emits \<Rightarrow> nat emits" where
  "pointer_to m = do { t \<leftarrow> m; llvm ''LLVMPointerType'' [Ref t, Num 0] }"

definition const_int :: "nat emits \<Rightarrow> int \<Rightarrow> bool \<Rightarrow> nat emits" where
  "const_int m n is_signed = do { t \<leftarrow> m; llvm ''LLVMConstInt'' [Ref t, Num n, Num (if is_signed then 1 else 0)] }"

definition llvm_type_of :: "nat \<Rightarrow> nat emits" where
  "llvm_type_of v = llvm ''LLVMTypeOf'' [Ref v]"

definition kind_of_type :: "nat \<Rightarrow> nat emits" where
  "kind_of_type t = llvm ''LLVMGetTypeKind'' [Ref t]"

definition function_type :: "nat \<Rightarrow> nat list \<Rightarrow> bool \<Rightarrow> nat emits" where
  "function_type result params variadic =
     llvm ''LLVMFunctionType'' [Ref result, Refs params, Num (int (length params)), Num (if variadic then 1 else 0)]"

definition named_function :: "string \<Rightarrow> nat emits" where
  "named_function name = llvm ''LLVMGetNamedFunction'' [Text name]"

definition add_function :: "string \<Rightarrow> nat \<Rightarrow> nat emits" where
  "add_function name t = llvm ''LLVMAddFunction'' [Text name, Ref t]"

definition build_call :: "nat \<Rightarrow> nat \<Rightarrow> nat list \<Rightarrow> string \<Rightarrow> nat emits" where
  "build_call t fn args name =
     llvm ''LLVMBuildCall2'' [Ref t, Ref fn, Refs args, Num (int (length args)), Text name]"

definition global_string :: "string \<Rightarrow> string \<Rightarrow> nat emits" where
  "global_string s name = llvm ''LLVMBuildGlobalStringPtr'' [Text s, Text name]"

definition append_block :: "nat \<Rightarrow> string \<Rightarrow> nat emits" where
  "append_block fn name = llvm ''LLVMAppendBasicBlockInContext'' [Ref fn, Text name]"

definition position_at_end :: "nat \<Rightarrow> unit emits" where
  "position_at_end b = do { _ \<leftarrow> llvm ''LLVMPositionBuilderAtEnd'' [Ref b]; give () }"

section \<open>The context\<close>

definition Xvr_LLVMContextHasError :: "bool emits" where
  "Xvr_LLVMContextHasError = inspect be_has_error"

definition Xvr_LLVMContextGetErrorMessage :: "string option emits" where
  "Xvr_LLVMContextGetErrorMessage = inspect be_error"

definition Xvr_LLVMContextSetError :: "string option \<Rightarrow> unit emits" where
  "Xvr_LLVMContextSetError message =
     (case Xvr_strdup message of
        None \<Rightarrow> undefined_step
      | Some copy \<Rightarrow> alter (\<lambda>s. s\<lparr>be_error := copy, be_has_error := (copy \<noteq> None)\<rparr>))"

definition Xvr_LLVMContextClearError :: "unit emits" where
  "Xvr_LLVMContextClearError = alter (\<lambda>s. s\<lparr>be_error := None, be_has_error := False\<rparr>)"

text \<open>An error of the context, and NULL as the result.\<close>

definition fail_with :: "string \<Rightarrow> nat emits" where
  "fail_with message = do { Xvr_LLVMContextSetError (Some message); give 0 }"

section \<open>The module manager\<close>

definition MAX_FUNCTIONS :: nat where "MAX_FUNCTIONS = 256"

text \<open>The name in an entry's 128 bytes.\<close>

definition entry_name :: "string \<Rightarrow> string" where
  "entry_name name = take (let n = xvr_safe_strlen (Some name) 128 in if n < 128 then n else 127) name"

definition Xvr_LLVMModuleManagerAddFunction :: "string \<Rightarrow> nat \<Rightarrow> bool emits" where
  "Xvr_LLVMModuleManagerAddFunction name t =
     (if t = 0 then give False
      else do {
        fn \<leftarrow> named_function name;
        if fn \<noteq> 0 then give False
        else do {
          fn \<leftarrow> add_function name t;
          alter (\<lambda>s. if fn \<noteq> 0 \<and> length (be_functions s) < MAX_FUNCTIONS
                     then s\<lparr>be_functions := be_functions s @ [(entry_name name, t)]\<rparr> else s);
          give (fn \<noteq> 0)
        }
      })"

fun set_type :: "string \<Rightarrow> nat \<Rightarrow> (string \<times> nat) list \<Rightarrow> (string \<times> nat) list option" where
  "set_type name t [] = None"
| "set_type name t ((n, u) # fs) =
     (if n = name then Some ((n, t) # fs) else map_option ((#) (n, u)) (set_type name t fs))"

definition register_type :: "string \<Rightarrow> nat \<Rightarrow> (string \<times> nat) list \<Rightarrow> (string \<times> nat) list" where
  "register_type name t fs =
     (if length fs < MAX_FUNCTIONS
      then (case set_type name t fs of Some fs' \<Rightarrow> fs' | None \<Rightarrow> fs @ [(entry_name name, t)])
      else fs)"

definition Xvr_LLVMModuleManagerRegisterFunctionType :: "string \<Rightarrow> nat \<Rightarrow> unit emits" where
  "Xvr_LLVMModuleManagerRegisterFunctionType name t =
     (if t = 0 then give () else alter (\<lambda>s. s\<lparr>be_functions := register_type name t (be_functions s)\<rparr>))"

definition Xvr_LLVMModuleManagerGetFunction :: "string \<Rightarrow> nat emits" where
  "Xvr_LLVMModuleManagerGetFunction name = named_function name"

definition function_type_of :: "string \<Rightarrow> (string \<times> nat) list \<Rightarrow> nat" where
  "function_type_of name fs = (case map_of fs name of None \<Rightarrow> 0 | Some t \<Rightarrow> t)"

definition Xvr_LLVMModuleManagerGetFunctionType :: "string \<Rightarrow> nat emits" where
  "Xvr_LLVMModuleManagerGetFunctionType name = inspect (\<lambda>s. function_type_of name (be_functions s))"

definition Xvr_LLVMModuleManagerAddGlobal :: "string \<Rightarrow> nat \<Rightarrow> bool emits" where
  "Xvr_LLVMModuleManagerAddGlobal name t =
     (if t = 0 then give False
      else do {
        g \<leftarrow> llvm ''LLVMGetNamedGlobal'' [Text name];
        if g \<noteq> 0 then give False
        else do { g \<leftarrow> llvm ''LLVMAddGlobal'' [Ref t, Text name]; give (g \<noteq> 0) }
      })"

definition Xvr_LLVMModuleManagerGetGlobal :: "string \<Rightarrow> nat emits" where
  "Xvr_LLVMModuleManagerGetGlobal name = llvm ''LLVMGetNamedGlobal'' [Text name]"

text \<open>The text of the module and its length with the NUL: at most 4096 characters of it are copied, and an
  empty one gives NULL.\<close>

definition Xvr_LLVMModuleManagerPrintIR :: "(string option \<times> nat) emits" where
  "Xvr_LLVMModuleManagerPrintIR =
     do {
       ir \<leftarrow> llvm_string ''LLVMPrintModuleToString'' [];
       case ir of
         None \<Rightarrow> give (None, 0)
       | Some text \<Rightarrow>
           (let ir_len = xvr_safe_strlen (Some text) 4096
            in do {
              _ \<leftarrow> llvm ''LLVMDisposeMessage'' [];
              give (if ir_len > 0 then Some (take ir_len text) else None, ir_len + 1)
            })
     }"

definition Xvr_LLVMModuleManagerWriteBitcode :: "string \<Rightarrow> bool emits" where
  "Xvr_LLVMModuleManagerWriteBitcode path =
     do { r \<leftarrow> llvm ''LLVMWriteBitcodeToFile'' [Text path]; give (r = 0) }"

section \<open>The type mapper\<close>

definition Xvr_LLVMTypeMapperCreate :: "unit emits" where
  "Xvr_LLVMTypeMapperCreate =
     do {
       void \<leftarrow> llvm ''LLVMVoidTypeInContext'' [];
       i1 \<leftarrow> int1_type; i8 \<leftarrow> int8_type; i16 \<leftarrow> int16_type; i32 \<leftarrow> int32_type; i64 \<leftarrow> int64_type;
       f \<leftarrow> float_type; d \<leftarrow> double_type;
       p \<leftarrow> pointer_to int8_type;
       r \<leftarrow> llvm ''LLVMStructCreateNamed'' [Text ''XvrRuntimeValue''];
       q \<leftarrow> pointer_to int8_type; l \<leftarrow> int64_type;
       _ \<leftarrow> llvm ''LLVMStructSetBody'' [Ref r, Refs [q, l], Num 2, Num 0];
       alter (\<lambda>s. s\<lparr>be_mapper := \<lparr>tm_void = void, tm_int1 = i1, tm_int8 = i8, tm_int16 = i16, tm_int32 = i32,
         tm_int64 = i64, tm_float = f, tm_double = d, tm_int8_ptr = p, tm_runtime = r\<rparr>\<rparr>)
     }"

definition mapped_type :: "type_mapper \<Rightarrow> literal_type \<Rightarrow> nat" where
  "mapped_type m t =
     (case t of
        XVR_LITERAL_VOID \<Rightarrow> tm_void m
      | XVR_LITERAL_BOOLEAN \<Rightarrow> tm_int1 m
      | XVR_LITERAL_INTEGER \<Rightarrow> tm_int32 m
      | XVR_LITERAL_INT8 \<Rightarrow> tm_int8 m
      | XVR_LITERAL_INT16 \<Rightarrow> tm_int16 m
      | XVR_LITERAL_INT32 \<Rightarrow> tm_int32 m
      | XVR_LITERAL_INT64 \<Rightarrow> tm_int64 m
      | XVR_LITERAL_UINT8 \<Rightarrow> tm_int8 m
      | XVR_LITERAL_UINT16 \<Rightarrow> tm_int16 m
      | XVR_LITERAL_UINT32 \<Rightarrow> tm_int32 m
      | XVR_LITERAL_UINT64 \<Rightarrow> tm_int64 m
      | XVR_LITERAL_FLOAT \<Rightarrow> tm_float m
      | XVR_LITERAL_FLOAT16 \<Rightarrow> tm_int16 m
      | XVR_LITERAL_FLOAT32 \<Rightarrow> tm_float m
      | XVR_LITERAL_FLOAT64 \<Rightarrow> tm_double m
      | _ \<Rightarrow> tm_int8_ptr m)"

definition Xvr_LLVMTypeMapperGetType :: "literal_type \<Rightarrow> nat emits" where
  "Xvr_LLVMTypeMapperGetType t = inspect (\<lambda>s. mapped_type (be_mapper s) t)"

definition Xvr_LLVMTypeMapperGetPointerType :: "literal_type \<Rightarrow> nat emits" where
  "Xvr_LLVMTypeMapperGetPointerType t =
     do {
       e \<leftarrow> Xvr_LLVMTypeMapperGetType t;
       if e = 0 then give 0 else llvm ''LLVMPointerType'' [Ref e, Num 0]
     }"

definition Xvr_LLVMTypeMapperGetRuntimeType :: "nat emits" where
  "Xvr_LLVMTypeMapperGetRuntimeType = inspect (\<lambda>s. tm_runtime (be_mapper s))"

definition Xvr_LLVMTypeMapperIsSigned :: "literal_type \<Rightarrow> bool" where
  "Xvr_LLVMTypeMapperIsSigned t \<longleftrightarrow> t \<in>
     {XVR_LITERAL_INTEGER, XVR_LITERAL_INT8, XVR_LITERAL_INT16, XVR_LITERAL_INT32, XVR_LITERAL_INT64,
      XVR_LITERAL_FLOAT, XVR_LITERAL_FLOAT16, XVR_LITERAL_FLOAT32, XVR_LITERAL_FLOAT64}"

section \<open>The builder\<close>

definition or_default :: "string \<Rightarrow> string option \<Rightarrow> string" where
  "or_default d name = (case name of None \<Rightarrow> d | Some n \<Rightarrow> n)"

definition Xvr_LLVMIRBuilderGetInsertBlock :: "nat emits" where
  "Xvr_LLVMIRBuilderGetInsertBlock = llvm ''LLVMGetInsertBlock'' []"

definition Xvr_LLVMIRBuilderSetInsertPoint :: "nat \<Rightarrow> unit emits" where
  "Xvr_LLVMIRBuilderSetInsertPoint block = (if block = 0 then give () else position_at_end block)"

definition Xvr_LLVMIRBuilderCreateRet :: "nat \<Rightarrow> nat emits" where
  "Xvr_LLVMIRBuilderCreateRet v = (if v = 0 then give 0 else llvm ''LLVMBuildRet'' [Ref v])"

definition Xvr_LLVMIRBuilderCreateRetVoid :: "nat emits" where
  "Xvr_LLVMIRBuilderCreateRetVoid = llvm ''LLVMBuildRetVoid'' []"

definition Xvr_LLVMIRBuilderCreateBr :: "nat \<Rightarrow> nat emits" where
  "Xvr_LLVMIRBuilderCreateBr dest = (if dest = 0 then give 0 else llvm ''LLVMBuildBr'' [Ref dest])"

definition Xvr_LLVMIRBuilderCreateCondBr :: "nat \<Rightarrow> nat \<Rightarrow> nat \<Rightarrow> nat emits" where
  "Xvr_LLVMIRBuilderCreateCondBr condition t e =
     (if condition = 0 \<or> t = 0 \<or> e = 0 then give 0 else llvm ''LLVMBuildCondBr'' [Ref condition, Ref t, Ref e])"

text \<open>An instruction of two operands, and a comparison of integers.\<close>

definition create_binary :: "string \<Rightarrow> string \<Rightarrow> nat \<Rightarrow> nat \<Rightarrow> string option \<Rightarrow> nat emits" where
  "create_binary f d lhs rhs name =
     (if lhs = 0 \<or> rhs = 0 then give 0 else llvm f [Ref lhs, Ref rhs, Text (or_default d name)])"

definition create_compare :: "string \<Rightarrow> string \<Rightarrow> nat \<Rightarrow> nat \<Rightarrow> string option \<Rightarrow> nat emits" where
  "create_compare p d lhs rhs name =
     (if lhs = 0 \<or> rhs = 0 then give 0
      else llvm ''LLVMBuildICmp'' [Text p, Ref lhs, Ref rhs, Text (or_default d name)])"

definition Xvr_LLVMIRBuilderCreateAdd :: "nat \<Rightarrow> nat \<Rightarrow> string option \<Rightarrow> nat emits" where
  "Xvr_LLVMIRBuilderCreateAdd = create_binary ''LLVMBuildAdd'' ''add_tmp''"

definition Xvr_LLVMIRBuilderCreateSub :: "nat \<Rightarrow> nat \<Rightarrow> string option \<Rightarrow> nat emits" where
  "Xvr_LLVMIRBuilderCreateSub = create_binary ''LLVMBuildSub'' ''sub_tmp''"

definition Xvr_LLVMIRBuilderCreateMul :: "nat \<Rightarrow> nat \<Rightarrow> string option \<Rightarrow> nat emits" where
  "Xvr_LLVMIRBuilderCreateMul = create_binary ''LLVMBuildMul'' ''mul_tmp''"

definition Xvr_LLVMIRBuilderCreateSDiv :: "nat \<Rightarrow> nat \<Rightarrow> string option \<Rightarrow> nat emits" where
  "Xvr_LLVMIRBuilderCreateSDiv = create_binary ''LLVMBuildSDiv'' ''sdiv_tmp''"

definition Xvr_LLVMIRBuilderCreateSRem :: "nat \<Rightarrow> nat \<Rightarrow> string option \<Rightarrow> nat emits" where
  "Xvr_LLVMIRBuilderCreateSRem = create_binary ''LLVMBuildSRem'' ''srem_tmp''"

definition Xvr_LLVMIRBuilderCreateUDiv :: "nat \<Rightarrow> nat \<Rightarrow> string option \<Rightarrow> nat emits" where
  "Xvr_LLVMIRBuilderCreateUDiv = create_binary ''LLVMBuildUDiv'' ''udiv_tmp''"

definition Xvr_LLVMIRBuilderCreateICmpEQ :: "nat \<Rightarrow> nat \<Rightarrow> string option \<Rightarrow> nat emits" where
  "Xvr_LLVMIRBuilderCreateICmpEQ = create_compare ''LLVMIntEQ'' ''icmp_eq_tmp''"

definition Xvr_LLVMIRBuilderCreateICmpNE :: "nat \<Rightarrow> nat \<Rightarrow> string option \<Rightarrow> nat emits" where
  "Xvr_LLVMIRBuilderCreateICmpNE = create_compare ''LLVMIntNE'' ''icmp_ne_tmp''"

definition Xvr_LLVMIRBuilderCreateICmpSLT :: "nat \<Rightarrow> nat \<Rightarrow> string option \<Rightarrow> nat emits" where
  "Xvr_LLVMIRBuilderCreateICmpSLT = create_compare ''LLVMIntSLT'' ''icmp_slt_tmp''"

definition Xvr_LLVMIRBuilderCreateICmpSLE :: "nat \<Rightarrow> nat \<Rightarrow> string option \<Rightarrow> nat emits" where
  "Xvr_LLVMIRBuilderCreateICmpSLE = create_compare ''LLVMIntSLE'' ''icmp_sle_tmp''"

definition Xvr_LLVMIRBuilderCreateICmpSGT :: "nat \<Rightarrow> nat \<Rightarrow> string option \<Rightarrow> nat emits" where
  "Xvr_LLVMIRBuilderCreateICmpSGT = create_compare ''LLVMIntSGT'' ''icmp_sgt_tmp''"

definition Xvr_LLVMIRBuilderCreateICmpSGE :: "nat \<Rightarrow> nat \<Rightarrow> string option \<Rightarrow> nat emits" where
  "Xvr_LLVMIRBuilderCreateICmpSGE = create_compare ''LLVMIntSGE'' ''icmp_sge_tmp''"


definition Xvr_LLVMIRBuilderCreateAlloca :: "nat \<Rightarrow> string option \<Rightarrow> nat emits" where
  "Xvr_LLVMIRBuilderCreateAlloca t name =
     (if t = 0 then give 0 else llvm ''LLVMBuildAlloca'' [Ref t, Text (or_default ''alloca_tmp'' name)])"

definition Xvr_LLVMIRBuilderCreateLoad :: "nat \<Rightarrow> nat \<Rightarrow> string option \<Rightarrow> nat emits" where
  "Xvr_LLVMIRBuilderCreateLoad t p name =
     (if t = 0 \<or> p = 0 then give 0 else llvm ''LLVMBuildLoad2'' [Ref t, Ref p, Text (or_default ''load_tmp'' name)])"

definition Xvr_LLVMIRBuilderCreateStore :: "nat \<Rightarrow> nat \<Rightarrow> nat emits" where
  "Xvr_LLVMIRBuilderCreateStore v p = (if v = 0 \<or> p = 0 then give 0 else llvm ''LLVMBuildStore'' [Ref v, Ref p])"

text \<open>The array of arguments may be NULL, but not empty.\<close>

definition Xvr_LLVMIRBuilderCreateCall :: "nat \<Rightarrow> nat list option \<Rightarrow> string option \<Rightarrow> nat emits" where
  "Xvr_LLVMIRBuilderCreateCall fn args name =
     (case args of
        None \<Rightarrow> give 0
      | Some xs \<Rightarrow>
          if fn = 0 then give 0
          else do {
            t \<leftarrow> llvm_type_of fn;
            e \<leftarrow> llvm ''LLVMGetElementType'' [Ref t];
            build_call e fn xs (or_default ''call_tmp'' name)
          })"

definition Xvr_LLVMIRBuilderCreateCall0 :: "nat \<Rightarrow> string option \<Rightarrow> nat emits" where
  "Xvr_LLVMIRBuilderCreateCall0 fn name = Xvr_LLVMIRBuilderCreateCall fn None name"

definition Xvr_LLVMIRBuilderCreateCall1 :: "nat \<Rightarrow> nat \<Rightarrow> string option \<Rightarrow> nat emits" where
  "Xvr_LLVMIRBuilderCreateCall1 fn a name = Xvr_LLVMIRBuilderCreateCall fn (Some [a]) name"

definition Xvr_LLVMIRBuilderCreateCall2 :: "nat \<Rightarrow> nat \<Rightarrow> nat \<Rightarrow> string option \<Rightarrow> nat emits" where
  "Xvr_LLVMIRBuilderCreateCall2 fn a b name = Xvr_LLVMIRBuilderCreateCall fn (Some [a, b]) name"

definition Xvr_LLVMIRBuilderCreateSelect :: "nat \<Rightarrow> nat \<Rightarrow> nat \<Rightarrow> string option \<Rightarrow> nat emits" where
  "Xvr_LLVMIRBuilderCreateSelect c t e name =
     (if c = 0 \<or> t = 0 \<or> e = 0 then give 0
      else llvm ''LLVMBuildSelect'' [Ref c, Ref t, Ref e, Text (or_default ''select_tmp'' name)])"

definition Xvr_LLVMIRBuilderCreatePHI :: "nat \<Rightarrow> string option \<Rightarrow> nat emits" where
  "Xvr_LLVMIRBuilderCreatePHI t name =
     (if t = 0 then give 0 else llvm ''LLVMBuildPhi'' [Ref t, Text (or_default ''phi_tmp'' name)])"

definition Xvr_LLVMIRBuilderCreateBlock :: "string option \<Rightarrow> nat emits" where
  "Xvr_LLVMIRBuilderCreateBlock name = append_block 0 (or_default ''block'' name)"

definition Xvr_LLVMIRBuilderCreateBlockInFunction :: "nat \<Rightarrow> string option \<Rightarrow> nat emits" where
  "Xvr_LLVMIRBuilderCreateBlockInFunction fn name =
     (if fn = 0 then give 0 else append_block fn (or_default ''block'' name))"

section \<open>Local variables\<close>

definition MAX_LOCAL_VARS :: nat where "MAX_LOCAL_VARS = 64"

definition add_local_var :: "string \<Rightarrow> nat \<Rightarrow> literal_type \<Rightarrow> int \<Rightarrow> unit emits" where
  "add_local_var name value type array_count =
     alter (\<lambda>s. if length (be_locals s) \<ge> MAX_LOCAL_VARS then s
       else s\<lparr>be_locals := be_locals s @
         [\<lparr>lv_name = name, lv_value = value, lv_type = type, lv_array_count = array_count, lv_owner = be_owner s\<rparr>]\<rparr>)"

definition Xvr_LLVMFunctionEmitterAddLocalVar :: "string \<Rightarrow> nat \<Rightarrow> literal_type \<Rightarrow> int \<Rightarrow> unit emits" where
  "Xvr_LLVMFunctionEmitterAddLocalVar name alloca type array_count =
     (if alloca = 0 then give () else add_local_var name alloca type array_count)"

text \<open>The search from the last variable.\<close>

definition find_local :: "string \<Rightarrow> generator \<Rightarrow> local_var option" where
  "find_local name s = find (\<lambda>v. lv_name v = name) (rev (be_locals s))"

text \<open>Whether the search comes to a name whose node is freed: the name is compared all the same.\<close>

definition reads_freed :: "string \<Rightarrow> generator \<Rightarrow> bool" where
  "reads_freed name s =
     (case find (\<lambda>v. lv_name v = name \<or> lv_owner v \<in> set (be_freed s)) (rev (be_locals s)) of
        None \<Rightarrow> False
      | Some v \<Rightarrow> lv_owner v \<in> set (be_freed s))"

definition read_names :: "string \<Rightarrow> unit emits" where
  "read_names name = do { freed \<leftarrow> inspect (reads_freed name); if freed then undefined_step else give () }"

definition Xvr_LLVMFunctionEmitterLookupVar :: "string \<Rightarrow> nat emits" where
  "Xvr_LLVMFunctionEmitterLookupVar name =
     do {
       read_names name;
       inspect (\<lambda>s. case find_local name s of None \<Rightarrow> 0 | Some v \<Rightarrow> lv_value v)
     }"

text \<open>The value and the type; without a variable the caller's type stays, which is always ANY.\<close>

definition Xvr_LLVMFunctionEmitterLookupVarWithType :: "string \<Rightarrow> (nat \<times> literal_type) emits" where
  "Xvr_LLVMFunctionEmitterLookupVarWithType name =
     do {
       read_names name;
       inspect (\<lambda>s. case find_local name s of None \<Rightarrow> (0, XVR_LITERAL_ANY) | Some v \<Rightarrow> (lv_value v, lv_type v))
     }"

definition Xvr_LLVMFunctionEmitterLookupVarArrayCount :: "string \<Rightarrow> int emits" where
  "Xvr_LLVMFunctionEmitterLookupVarArrayCount name =
     do {
       read_names name;
       inspect (\<lambda>s. case find_local name s of None \<Rightarrow> 0 | Some v \<Rightarrow> lv_array_count v)
     }"

definition Xvr_LLVMFunctionEmitterGetCurrentFunction :: "nat emits" where
  "Xvr_LLVMFunctionEmitterGetCurrentFunction = inspect be_function"

definition Xvr_LLVMFunctionEmitterSetCurrentFunction :: "nat \<Rightarrow> unit emits" where
  "Xvr_LLVMFunctionEmitterSetCurrentFunction fn = alter (\<lambda>s. s\<lparr>be_function := fn\<rparr>)"

definition Xvr_LLVMFunctionEmitterEnterScope :: "unit emits" where
  "Xvr_LLVMFunctionEmitterEnterScope =
     alter (\<lambda>s. if length (be_scopes s) < 32 then s\<lparr>be_scopes := be_scopes s @ [length (be_locals s)]\<rparr> else s)"

text \<open>The saved counts do not decrease and are not above the present one, so leaving a scope only drops
  variables; the table is cleared only outside every scope.\<close>

definition Xvr_LLVMFunctionEmitterExitScope :: "unit emits" where
  "Xvr_LLVMFunctionEmitterExitScope =
     alter (\<lambda>s. if be_scopes s = [] then s
       else s\<lparr>be_locals := take (last (be_scopes s)) (be_locals s), be_scopes := butlast (be_scopes s)\<rparr>)"

definition clear_local_vars :: "unit emits" where
  "clear_local_vars = alter (\<lambda>s. s\<lparr>be_locals := [], be_function := 0\<rparr>)"

end
