(* ===== verification/LlvmValues.thy ===== *)
theory LlvmValues
  imports LlvmState AstNodes FormatStrings
begin

text \<open>
  Emission of values: casts (src/src/xvr_cast_emit.cpp), literals, operators, \<open>max\<close> and the functions of
  \<open>math\<close> (src/src/adapters/llvm/xvr_llvm_expression_emitter.cpp). The emission of a node is a parameter here; the
  recursion is tied in theory LlvmEmitter. The texts of literals and names have no NUL.
\<close>

section \<open>Casts\<close>

datatype llvm_cast =
    XVR_LLVM_CAST_INT_TO_INT | XVR_LLVM_CAST_INT_TO_FLOAT | XVR_LLVM_CAST_FLOAT_TO_INT
  | XVR_LLVM_CAST_FLOAT_TO_FLOAT | XVR_LLVM_CAST_INT_TO_PTR | XVR_LLVM_CAST_PTR_TO_INT
  | XVR_LLVM_CAST_PTR_TO_PTR | XVR_LLVM_CAST_BOOL_TO_INT | XVR_LLVM_CAST_INT_TO_BOOL
  | XVR_LLVM_CAST_BOOL_TO_FLOAT | XVR_LLVM_CAST_FLOAT_TO_BOOL | XVR_LLVM_CAST_INVALID

definition Xvr_CastEmitterClassify :: "xvr_type option \<Rightarrow> xvr_type option \<Rightarrow> llvm_cast" where
  "Xvr_CastEmitterClassify src dst =
     (if src = None \<or> dst = None then XVR_LLVM_CAST_INVALID
      else
        (let from_bool = (kind_of (the src) = XVR_KIND_BOOL); to_bool = (kind_of (the dst) = XVR_KIND_BOOL);
             from_int = Xvr_TypeIsInteger src; to_int = Xvr_TypeIsInteger dst;
             from_float = Xvr_TypeIsFloat src; to_float = Xvr_TypeIsFloat dst;
             from_ptr = Xvr_TypeIsPointer src; to_ptr = Xvr_TypeIsPointer dst
         in if from_bool \<and> to_int then XVR_LLVM_CAST_BOOL_TO_INT
            else if from_bool \<and> to_float then XVR_LLVM_CAST_BOOL_TO_FLOAT
            else if from_int \<and> to_bool then XVR_LLVM_CAST_INT_TO_BOOL
            else if from_float \<and> to_bool then XVR_LLVM_CAST_FLOAT_TO_BOOL
            else if from_int \<and> to_int then XVR_LLVM_CAST_INT_TO_INT
            else if from_int \<and> to_float then XVR_LLVM_CAST_INT_TO_FLOAT
            else if from_float \<and> to_int then XVR_LLVM_CAST_FLOAT_TO_INT
            else if from_float \<and> to_float then XVR_LLVM_CAST_FLOAT_TO_FLOAT
            else if from_int \<and> to_ptr then XVR_LLVM_CAST_INT_TO_PTR
            else if from_ptr \<and> to_int then XVR_LLVM_CAST_PTR_TO_INT
            else if from_ptr \<and> to_ptr then XVR_LLVM_CAST_PTR_TO_PTR
            else XVR_LLVM_CAST_INVALID))"

definition int_type :: "int \<Rightarrow> nat emits" where
  "int_type bits = llvm ''LLVMIntTypeInContext'' [Num bits]"

definition real_type :: "int \<Rightarrow> nat emits" where
  "real_type bits = (if bits = 64 then double_type else float_type)"

definition convert :: "string \<Rightarrow> nat \<Rightarrow> nat emits \<Rightarrow> string \<Rightarrow> nat emits" where
  "convert f v m name = do { t \<leftarrow> m; llvm f [Ref v, Ref t, Text name] }"

definition Xvr_EmitIntToInt :: "nat \<Rightarrow> xvr_type \<Rightarrow> xvr_type \<Rightarrow> string \<Rightarrow> nat emits" where
  "Xvr_EmitIntToInt v src dst name =
     (let from_bits = Xvr_TypeGetSizeBits (Some src); to_bits = Xvr_TypeGetSizeBits (Some dst)
      in if v = 0 then give 0
         else if from_bits = to_bits then give v
         else if to_bits > from_bits then
           convert (if Xvr_TypeGetSignedness (Some src) = XVR_SIGNEDNESS_UNSIGNED then ''LLVMBuildZExt'' else ''LLVMBuildSExt'')
             v (int_type to_bits) name
         else convert ''LLVMBuildTrunc'' v (int_type to_bits) name)"

definition Xvr_EmitIntToFloat :: "nat \<Rightarrow> xvr_type \<Rightarrow> xvr_type \<Rightarrow> string \<Rightarrow> nat emits" where
  "Xvr_EmitIntToFloat v src dst name =
     (if v = 0 then give 0
      else convert (if Xvr_TypeGetSignedness (Some src) = XVR_SIGNEDNESS_UNSIGNED then ''LLVMBuildUIToFP'' else ''LLVMBuildSIToFP'')
        v (real_type (Xvr_TypeGetSizeBits (Some dst))) name)"

definition Xvr_EmitFloatToInt :: "nat \<Rightarrow> xvr_type \<Rightarrow> xvr_type \<Rightarrow> string \<Rightarrow> nat emits" where
  "Xvr_EmitFloatToInt v src dst name =
     (if v = 0 then give 0
      else convert (if Xvr_TypeGetSignedness (Some dst) = XVR_SIGNEDNESS_UNSIGNED then ''LLVMBuildFPToUI'' else ''LLVMBuildFPToSI'')
        v (int_type (Xvr_TypeGetSizeBits (Some dst))) name)"

definition Xvr_EmitFloatToFloat :: "nat \<Rightarrow> xvr_type \<Rightarrow> xvr_type \<Rightarrow> string \<Rightarrow> nat emits" where
  "Xvr_EmitFloatToFloat v src dst name =
     (if v = 0 then give 0
      else if Xvr_TypeGetSizeBits (Some src) = Xvr_TypeGetSizeBits (Some dst) then give v
      else convert ''LLVMBuildFPCast'' v (real_type (Xvr_TypeGetSizeBits (Some dst))) name)"

definition Xvr_EmitIntToPtr :: "nat \<Rightarrow> string \<Rightarrow> nat emits" where
  "Xvr_EmitIntToPtr v name =
     (if v = 0 then give 0 else convert ''LLVMBuildIntToPtr'' v (pointer_to int8_type) name)"

definition Xvr_EmitPtrToInt :: "nat \<Rightarrow> xvr_type \<Rightarrow> string \<Rightarrow> nat emits" where
  "Xvr_EmitPtrToInt v dst name =
     (if v = 0 then give 0
      else convert ''LLVMBuildPtrToInt'' v (int_type (Xvr_TypeGetSizeBits (Some dst))) name)"

definition Xvr_EmitPtrToPtr :: "nat \<Rightarrow> string \<Rightarrow> nat emits" where
  "Xvr_EmitPtrToPtr v name =
     (if v = 0 then give 0 else convert ''LLVMBuildBitCast'' v (pointer_to int8_type) name)"

definition null_of :: "nat \<Rightarrow> nat emits" where
  "null_of v = do { t \<leftarrow> llvm_type_of v; llvm ''LLVMConstNull'' [Ref t] }"

definition Xvr_EmitBoolCast :: "nat \<Rightarrow> xvr_type \<Rightarrow> xvr_type \<Rightarrow> string \<Rightarrow> nat emits" where
  "Xvr_EmitBoolCast v src dst name =
     (let from_bool = (kind_of src = XVR_KIND_BOOL); to_bool = (kind_of dst = XVR_KIND_BOOL)
      in if v = 0 then give 0
         else if from_bool \<and> to_bool then give v
         else if from_bool \<and> Xvr_TypeIsInteger (Some dst) then
           convert ''LLVMBuildZExt'' v (int_type (Xvr_TypeGetSizeBits (Some dst))) name
         else if from_bool \<and> Xvr_TypeIsFloat (Some dst) then
           convert ''LLVMBuildUIToFP'' v (real_type (Xvr_TypeGetSizeBits (Some dst))) name
         else if Xvr_TypeIsInteger (Some src) \<and> to_bool then
           do { z \<leftarrow> null_of v; llvm ''LLVMBuildICmp'' [Text ''LLVMIntNE'', Ref v, Ref z, Text name] }
         else if Xvr_TypeIsFloat (Some src) \<and> to_bool then
           do { z \<leftarrow> null_of v; llvm ''LLVMBuildFCmp'' [Text ''LLVMRealONE'', Ref v, Ref z, Text name] }
         else give 0)"

definition Xvr_EmitCast :: "nat \<Rightarrow> xvr_type option \<Rightarrow> xvr_type option \<Rightarrow> string \<Rightarrow> nat emits" where
  "Xvr_EmitCast v src dst name =
     (if v = 0 then give 0
      else (case (src, dst) of
        (Some f, Some t) \<Rightarrow>
          (case Xvr_CastEmitterClassify src dst of
             XVR_LLVM_CAST_BOOL_TO_INT \<Rightarrow> Xvr_EmitBoolCast v f t name
           | XVR_LLVM_CAST_BOOL_TO_FLOAT \<Rightarrow> Xvr_EmitBoolCast v f t name
           | XVR_LLVM_CAST_INT_TO_BOOL \<Rightarrow> Xvr_EmitBoolCast v f t name
           | XVR_LLVM_CAST_FLOAT_TO_BOOL \<Rightarrow> Xvr_EmitBoolCast v f t name
           | XVR_LLVM_CAST_INT_TO_INT \<Rightarrow> Xvr_EmitIntToInt v f t name
           | XVR_LLVM_CAST_INT_TO_FLOAT \<Rightarrow> Xvr_EmitIntToFloat v f t name
           | XVR_LLVM_CAST_FLOAT_TO_INT \<Rightarrow> Xvr_EmitFloatToInt v f t name
           | XVR_LLVM_CAST_FLOAT_TO_FLOAT \<Rightarrow> Xvr_EmitFloatToFloat v f t name
           | XVR_LLVM_CAST_INT_TO_PTR \<Rightarrow> Xvr_EmitIntToPtr v name
           | XVR_LLVM_CAST_PTR_TO_INT \<Rightarrow> Xvr_EmitPtrToInt v t name
           | XVR_LLVM_CAST_PTR_TO_PTR \<Rightarrow> Xvr_EmitPtrToPtr v name
           | XVR_LLVM_CAST_INVALID \<Rightarrow> give 0)
      | _ \<Rightarrow> give 0))"

text \<open>The type that a cast takes its operand to have, from the LLVM type alone.\<close>

definition source_literal_type :: "nat \<Rightarrow> literal_type emits" where
  "source_literal_type v =
     do {
       t \<leftarrow> llvm_type_of v;
       k \<leftarrow> kind_of_type t;
       if k = LLVMIntegerTypeKind then
         do {
           bits \<leftarrow> llvm ''LLVMGetIntTypeWidth'' [Ref t];
           give (if bits = 1 then XVR_LITERAL_BOOLEAN else if bits = 8 then XVR_LITERAL_INT8
                 else if bits = 16 then XVR_LITERAL_INT16 else if bits = 32 then XVR_LITERAL_INT32
                 else if bits = 64 then XVR_LITERAL_INT64 else XVR_LITERAL_INTEGER)
         }
       else give (if k = LLVMFloatTypeKind then XVR_LITERAL_FLOAT32 else if k = LLVMDoubleTypeKind then XVR_LITERAL_FLOAT64
                  else if k = LLVMPointerTypeKind then XVR_LITERAL_STRING else XVR_LITERAL_INTEGER)
     }"

definition type_from_literal :: "literal_type \<Rightarrow> xvr_type option emits" where
  "type_from_literal t =
     State (\<lambda>s. let (r, ts) = Xvr_TypeGetFromLiteral t (be_types s) in (r, s\<lparr>be_types := ts\<rparr>))"

definition emit_cast_node :: "(ast option \<Rightarrow> nat emits) \<Rightarrow> literal \<Rightarrow> ast option \<Rightarrow> nat emits" where
  "emit_cast_node emit target x =
     do {
       v \<leftarrow> emit x;
       if v = 0 then give 0
       else do {
         source \<leftarrow> source_literal_type v;
         src \<leftarrow> type_from_literal source;
         dst \<leftarrow> type_from_literal (case target of Type t c ss k \<Rightarrow> t | _ \<Rightarrow> lit_type target);
         Xvr_EmitCast v src dst ''cast''
       }
     }"

section \<open>Variables and literals\<close>

definition Xvr_LLVMExpressionEmitterEmitIdentifier :: "string \<Rightarrow> nat emits" where
  "Xvr_LLVMExpressionEmitterEmitIdentifier name =
     do {
       (p, t) \<leftarrow> Xvr_LLVMFunctionEmitterLookupVarWithType name;
       if p = 0 then give 0
       else do {
         mapped \<leftarrow> (if t \<noteq> XVR_LITERAL_ANY \<and> t \<noteq> XVR_LITERAL_ARRAY then Xvr_LLVMTypeMapperGetType t else give 0);
         found \<leftarrow> (if mapped \<noteq> 0 then give mapped
                   else do {
                     pt \<leftarrow> llvm_type_of p;
                     a \<leftarrow> llvm ''LLVMGetAllocatedType'' [Ref p];
                     if a \<noteq> 0 then give a else llvm ''LLVMGetElementType'' [Ref pt]
                   });
         vt \<leftarrow> (if found \<noteq> 0 then give found else int32_type);
         k \<leftarrow> (if vt \<noteq> 0 then kind_of_type vt else give 0);
         if vt \<noteq> 0 \<and> k = LLVMArrayTypeKind then give p else llvm ''LLVMBuildLoad2'' [Ref vt, Ref p, Text name]
       }
     }"

text \<open>\<open>(unsigned long long)\<close> of a member of the union.\<close>

definition unsigned64 :: "literal_type \<Rightarrow> 64 word \<Rightarrow> int" where
  "unsigned64 t w =
     (case t of
        XVR_LITERAL_INTEGER \<Rightarrow> uint (scast (ucast w :: 32 word) :: 64 word)
      | XVR_LITERAL_INT8 \<Rightarrow> uint (scast (ucast w :: 8 word) :: 64 word)
      | XVR_LITERAL_INT16 \<Rightarrow> uint (scast (ucast w :: 16 word) :: 64 word)
      | XVR_LITERAL_INT32 \<Rightarrow> uint (scast (ucast w :: 32 word) :: 64 word)
      | XVR_LITERAL_UINT8 \<Rightarrow> uint (ucast w :: 8 word)
      | XVR_LITERAL_UINT16 \<Rightarrow> uint (ucast w :: 16 word)
      | XVR_LITERAL_UINT32 \<Rightarrow> uint (ucast w :: 32 word)
      | XVR_LITERAL_FLOAT16 \<Rightarrow> uint (ucast w :: 16 word)
      | _ \<Rightarrow> uint w)"

definition emit_bits :: "literal_type \<Rightarrow> 64 word \<Rightarrow> nat emits" where
  "emit_bits t w =
     (case t of
        XVR_LITERAL_NULL \<Rightarrow> do { p \<leftarrow> pointer_to int8_type; llvm ''LLVMConstNull'' [Ref p] }
      | XVR_LITERAL_BOOLEAN \<Rightarrow> const_int int1_type (if (ucast w :: 8 word) \<noteq> 0 then 1 else 0) False
      | XVR_LITERAL_INTEGER \<Rightarrow> const_int int32_type (unsigned64 t w) True
      | XVR_LITERAL_INT8 \<Rightarrow> const_int int8_type (unsigned64 t w) True
      | XVR_LITERAL_INT16 \<Rightarrow> const_int int16_type (unsigned64 t w) True
      | XVR_LITERAL_INT32 \<Rightarrow> const_int int32_type (unsigned64 t w) True
      | XVR_LITERAL_INT64 \<Rightarrow> const_int int64_type (unsigned64 t w) True
      | XVR_LITERAL_UINT8 \<Rightarrow> const_int int8_type (unsigned64 t w) False
      | XVR_LITERAL_UINT16 \<Rightarrow> const_int int16_type (unsigned64 t w) False
      | XVR_LITERAL_UINT32 \<Rightarrow> const_int int32_type (unsigned64 t w) False
      | XVR_LITERAL_UINT64 \<Rightarrow> const_int int64_type (unsigned64 t w) False
      | XVR_LITERAL_FLOAT \<Rightarrow> do { f \<leftarrow> float_type; llvm ''LLVMConstReal'' [Ref f, Num (uint (ucast w :: 32 word))] }
      | XVR_LITERAL_FLOAT16 \<Rightarrow> const_int int16_type (unsigned64 t w) False
      | XVR_LITERAL_FLOAT32 \<Rightarrow> do { f \<leftarrow> float_type; llvm ''LLVMConstReal'' [Ref f, Num (uint (ucast w :: 32 word))] }
      | XVR_LITERAL_FLOAT64 \<Rightarrow> do { d \<leftarrow> double_type; llvm ''LLVMConstReal'' [Ref d, Num (uint w)] }
      | _ \<Rightarrow> do { i \<leftarrow> int8_type; llvm ''LLVMConstNull'' [Ref i] })"

fun emit_literal_value :: "literal \<Rightarrow> nat emits" where
  "emit_literal_value (Bits t w) = emit_bits t w"
| "emit_literal_value (Str s) = global_string s ''str_literal''"
| "emit_literal_value (Ident s h) = Xvr_LLVMExpressionEmitterEmitIdentifier s"
| "emit_literal_value _ = do { i \<leftarrow> int8_type; llvm ''LLVMConstNull'' [Ref i] }"

definition Xvr_LLVMExpressionEmitterEmitLiteral :: "literal \<Rightarrow> nat emits" where
  "Xvr_LLVMExpressionEmitterEmitLiteral l = emit_literal_value l"

end
