(* ===== verification/LlvmOps.thy ===== *)
theory LlvmOps
  imports LlvmValues
begin

text \<open>
  Operators and builtin functions of the expression emitter: the unary and binary operators with the
  concatenation of strings, \<open>std::max\<close> and the functions of \<open>math\<close>.
\<close>

section \<open>Strings\<close>

definition is_pointer_type :: "nat \<Rightarrow> bool emits" where
  "is_pointer_type v =
     (if v = 0 then give False
      else do { t \<leftarrow> llvm_type_of v; k \<leftarrow> kind_of_type t; give (k = LLVMPointerTypeKind) })"

text \<open>The length of a constant string with its NUL, if the value is one. The kind is that of a global
  variable's initialiser, so the initialiser itself is never looked at afterwards.\<close>

definition constant_array_length :: "nat \<Rightarrow> nat option emits" where
  "constant_array_length v =
     do {
       t \<leftarrow> llvm_type_of v;
       k \<leftarrow> kind_of_type t;
       if k \<noteq> LLVMArrayTypeKind then give None
       else do {
         e \<leftarrow> llvm ''LLVMGetElementType'' [Ref t];
         ek \<leftarrow> kind_of_type e;
         if ek \<noteq> LLVMIntegerTypeKind then give None
         else do {
           bits \<leftarrow> llvm ''LLVMGetIntTypeWidth'' [Ref e];
           if bits \<noteq> 8 then give None
           else do {
             len \<leftarrow> llvm ''LLVMGetArrayLength'' [Ref t];
             give (if len = 0 \<or> len > 65536 then None else Some len)
           }
         }
       }
     }"

definition get_constant_string_data :: "nat \<Rightarrow> nat option emits" where
  "get_constant_string_data v =
     (if v = 0 then give None
      else do {
        k0 \<leftarrow> llvm ''LLVMGetValueKind'' [Ref v];
        k \<leftarrow> (if k0 = LLVMGlobalVariableValueKind then
                do {
                  i \<leftarrow> llvm ''LLVMGetInitializer'' [Ref v];
                  if i = 0 then give None
                  else do { k1 \<leftarrow> llvm ''LLVMGetValueKind'' [Ref i]; give (Some k1) }
                }
              else give (Some k0));
        if k \<noteq> Some LLVMConstantDataArrayValueKind then give None else constant_array_length v
      })"

text \<open>The bytes of a constant string that fit into a buffer; None is failure.\<close>

fun extract_bytes :: "nat \<Rightarrow> nat \<Rightarrow> nat \<Rightarrow> string \<Rightarrow> string option emits" where
  "extract_bytes 0 init i acc = give (Some acc)"
| "extract_bytes (Suc n) init i acc =
     do {
       operand \<leftarrow> llvm ''LLVMGetOperand'' [Ref init, Num (int i)];
       if operand = 0 then give None
       else do {
         c \<leftarrow> llvm ''LLVMConstIntGetSExtValue'' [Ref operand];
         extract_bytes n init (Suc i) (acc @ [char_of c])
       }
     }"

definition extract_constant_string :: "nat \<Rightarrow> nat \<Rightarrow> string option emits" where
  "extract_constant_string v room =
     (if v = 0 \<or> room = 0 then give None
      else do {
        k \<leftarrow> llvm ''LLVMGetValueKind'' [Ref v];
        init \<leftarrow> (if k = LLVMGlobalVariableValueKind then llvm ''LLVMGetInitializer'' [Ref v] else give v);
        if init = 0 then give None
        else do {
          ik \<leftarrow> llvm ''LLVMGetValueKind'' [Ref init];
          if ik \<noteq> LLVMConstantDataArrayValueKind then give None
          else do { n \<leftarrow> llvm ''LLVMGetNumOperands'' [Ref init]; extract_bytes (min n (room - 1)) init 0 [] }
        }
      })"

text \<open>
  The contents of the combined buffer of \<open>lhs_len + rhs_len\<close> bytes: the first text without its NUL and the
  second one, of which nothing is copied when both copies and the NUL do not fit; bytes that are not
  copied are those of fresh memory, here \<open>fresh\<close>.
\<close>

definition combined_text :: "(nat \<Rightarrow> char) \<Rightarrow> string \<Rightarrow> nat \<Rightarrow> string \<Rightarrow> nat \<Rightarrow> string" where
  "combined_text fresh l lhs_len r rhs_len =
     (let total = lhs_len + rhs_len - 1;
          at = (\<lambda>i. if i = total then NUL
                    else if i < lhs_len - 1 then (if i < length l then l ! i else fresh i)
                    else if rhs_len \<le> total \<and> lhs_len - 1 + rhs_len \<le> total
                    then (if i - (lhs_len - 1) < length r then r ! (i - (lhs_len - 1)) else fresh i)
                    else fresh i)
      in map at [0..<total + 1])"

definition string_concat_call :: "nat \<Rightarrow> nat \<Rightarrow> nat emits" where
  "string_concat_call lhs rhs =
     do {
       t0 \<leftarrow> Xvr_LLVMModuleManagerGetFunctionType ''xvr_string_concat'';
       t \<leftarrow> (if t0 \<noteq> 0 then give t0
             else do {
               p \<leftarrow> pointer_to int8_type;
               ft \<leftarrow> function_type p [p, p] False;
               Xvr_LLVMModuleManagerRegisterFunctionType ''xvr_string_concat'' ft;
               give ft
             });
       f0 \<leftarrow> named_function ''xvr_string_concat'';
       f \<leftarrow> (if f0 \<noteq> 0 then give f0 else add_function ''xvr_string_concat'' t);
       build_call t f [lhs, rhs] ''str_concat''
     }"

definition constant_concat :: "(nat \<Rightarrow> char) \<Rightarrow> nat \<Rightarrow> nat \<Rightarrow> nat \<Rightarrow> nat \<Rightarrow> nat emits" where
  "constant_concat fresh lhs lhs_len rhs rhs_len =
     do {
       l \<leftarrow> extract_constant_string lhs lhs_len;
       r \<leftarrow> (if l = None then give None else extract_constant_string rhs rhs_len);
       case (l, r) of
         (Some a, Some b) \<Rightarrow>
           (let total = lhs_len + rhs_len - 1; text = combined_text fresh a lhs_len b rhs_len
            in do {
              i8 \<leftarrow> int8_type;
              at \<leftarrow> llvm ''LLVMArrayType'' [Ref i8, Num (int total + 1)];
              g \<leftarrow> llvm ''LLVMAddGlobal'' [Ref at, Text []];
              _ \<leftarrow> llvm ''LLVMSetLinkage'' [Ref g, Text ''LLVMInternalLinkage''];
              _ \<leftarrow> llvm ''LLVMSetUnnamedAddr'' [Ref g, Num 1];
              c \<leftarrow> llvm ''LLVMConstStringInContext'' [Text text, Num (int total + 1), Num 1];
              _ \<leftarrow> llvm ''LLVMSetInitializer'' [Ref g, Ref c];
              _ \<leftarrow> llvm ''LLVMSetGlobalConstant'' [Ref g, Num 1];
              p \<leftarrow> pointer_to int8_type;
              llvm ''LLVMBuildPointerCast'' [Ref g, Ref p, Text ''const_str_concat'']
            })
       | _ \<Rightarrow> give 0
     }"

definition emit_string_concat :: "(nat \<Rightarrow> char) \<Rightarrow> nat \<Rightarrow> nat \<Rightarrow> nat emits" where
  "emit_string_concat fresh lhs rhs =
     do {
       l \<leftarrow> get_constant_string_data lhs;
       r \<leftarrow> get_constant_string_data rhs;
       case (l, r) of
         (Some m, Some n) \<Rightarrow> constant_concat fresh lhs m rhs n
       | _ \<Rightarrow> string_concat_call lhs rhs
     }"

section \<open>Operators\<close>

definition is_real_kind :: "nat \<Rightarrow> bool" where
  "is_real_kind k \<longleftrightarrow> k = LLVMFloatTypeKind \<or> k = LLVMDoubleTypeKind"

definition real_binary :: "string \<Rightarrow> nat \<Rightarrow> nat \<Rightarrow> string \<Rightarrow> nat emits" where
  "real_binary f lhs rhs name = llvm f [Ref lhs, Ref rhs, Text name]"

definition emit_addition :: "(nat \<Rightarrow> char) \<Rightarrow> bool \<Rightarrow> nat \<Rightarrow> nat \<Rightarrow> nat emits" where
  "emit_addition fresh isFloat lhs rhs =
     (if isFloat then real_binary ''LLVMBuildFAdd'' lhs rhs ''fadd''
      else do {
        pl \<leftarrow> is_pointer_type lhs;
        pr \<leftarrow> (if pl then is_pointer_type rhs else give False);
        if pr then emit_string_concat fresh lhs rhs else Xvr_LLVMIRBuilderCreateAdd lhs rhs (Some ''add'')
      })"

definition emit_binary_op :: "(nat \<Rightarrow> char) \<Rightarrow> opcode \<Rightarrow> nat \<Rightarrow> nat \<Rightarrow> nat emits" where
  "emit_binary_op fresh op lhs rhs =
     do {
       lt \<leftarrow> llvm_type_of lhs; lk \<leftarrow> kind_of_type lt;
       rt \<leftarrow> llvm_type_of rhs; rk \<leftarrow> kind_of_type rt;
       (let isFloat = (is_real_kind lk \<or> is_real_kind rk)
        in case op of
          XVR_OP_ADDITION \<Rightarrow> emit_addition fresh isFloat lhs rhs
        | XVR_OP_SUBTRACTION \<Rightarrow> if isFloat then real_binary ''LLVMBuildFSub'' lhs rhs ''fsub'' else Xvr_LLVMIRBuilderCreateSub lhs rhs (Some ''sub'')
        | XVR_OP_MULTIPLICATION \<Rightarrow> if isFloat then real_binary ''LLVMBuildFMul'' lhs rhs ''fmul'' else Xvr_LLVMIRBuilderCreateMul lhs rhs (Some ''mul'')
        | XVR_OP_DIVISION \<Rightarrow> if isFloat then real_binary ''LLVMBuildFDiv'' lhs rhs ''fdiv'' else Xvr_LLVMIRBuilderCreateSDiv lhs rhs (Some ''sdiv'')
        | XVR_OP_MODULO \<Rightarrow> if isFloat then real_binary ''LLVMBuildFRem'' lhs rhs ''frem'' else Xvr_LLVMIRBuilderCreateSRem lhs rhs (Some ''srem'')
        | XVR_OP_AND \<Rightarrow> real_binary ''LLVMBuildAnd'' lhs rhs ''and''
        | XVR_OP_OR \<Rightarrow> real_binary ''LLVMBuildOr'' lhs rhs ''or''
        | XVR_OP_COMPARE_LESS \<Rightarrow> Xvr_LLVMIRBuilderCreateICmpSLT lhs rhs (Some ''lt'')
        | XVR_OP_COMPARE_LESS_EQUAL \<Rightarrow> Xvr_LLVMIRBuilderCreateICmpSLE lhs rhs (Some ''le'')
        | XVR_OP_COMPARE_GREATER \<Rightarrow> Xvr_LLVMIRBuilderCreateICmpSGT lhs rhs (Some ''gt'')
        | XVR_OP_COMPARE_GREATER_EQUAL \<Rightarrow> Xvr_LLVMIRBuilderCreateICmpSGE lhs rhs (Some ''ge'')
        | XVR_OP_COMPARE_EQUAL \<Rightarrow> Xvr_LLVMIRBuilderCreateICmpEQ lhs rhs (Some ''eq'')
        | XVR_OP_COMPARE_NOT_EQUAL \<Rightarrow> Xvr_LLVMIRBuilderCreateICmpNE lhs rhs (Some ''ne'')
        | _ \<Rightarrow> give 0)
     }"

text \<open>The format of \<open>print\<close> for a value that is not an array, from its type: None for an array, which
  \<open>emit_array_print\<close> does not print.\<close>

definition array_format :: "nat \<Rightarrow> string option emits" where
  "array_format t =
     do {
       _ \<leftarrow> llvm ''LLVMGetArrayLength'' [Ref t];
       e \<leftarrow> llvm ''LLVMGetElementType'' [Ref t];
       _ \<leftarrow> kind_of_type e;
       give None
     }"

definition pointer_format :: "nat \<Rightarrow> nat \<Rightarrow> string option emits" where
  "pointer_format v t =
     do {
       p \<leftarrow> llvm ''LLVMGetElementType'' [Ref t];
       _ \<leftarrow> (if p \<noteq> 0 then kind_of_type p else give 0);
       if p = 0 then
         do {
           a \<leftarrow> llvm ''LLVMGetAllocatedType'' [Ref v];
           k \<leftarrow> (if a \<noteq> 0 then kind_of_type a else give 0);
           if a \<noteq> 0 \<and> k = LLVMArrayTypeKind then array_format a else give (Some ''%s'')
         }
       else
         do {
           k \<leftarrow> kind_of_type p;
           if k = LLVMArrayTypeKind then array_format p
           else if k = LLVMIntegerTypeKind then
             do { bits \<leftarrow> llvm ''LLVMGetIntTypeWidth'' [Ref p]; give (Some (if bits = 8 then ''%s'' else ''%p'')) }
           else give (Some ''%p'')
         }
     }"

definition print_format :: "nat \<Rightarrow> string option emits" where
  "print_format v =
     do {
       t \<leftarrow> llvm_type_of v;
       k \<leftarrow> kind_of_type t;
       if k = LLVMIntegerTypeKind then give (Some ''%d'')
       else if k = LLVMFloatTypeKind then give (Some ''%f'')
       else if k = LLVMDoubleTypeKind then give (Some ''%lf'')
       else if k = LLVMArrayTypeKind then array_format t
       else if k = LLVMPointerTypeKind then pointer_format v t
       else give (Some ''%p'')
     }"

definition emit_print :: "nat \<Rightarrow> nat emits" where
  "emit_print v =
     (if v = 0 then give 0
      else do {
        f0 \<leftarrow> named_function ''printf'';
        p \<leftarrow> pointer_to int8_type;
        i \<leftarrow> int32_type;
        t \<leftarrow> function_type i [p] True;
        f \<leftarrow> (if f0 \<noteq> 0 then give f0 else add_function ''printf'' t);
        fmt \<leftarrow> print_format v;
        case fmt of
          None \<Rightarrow> give 0
        | Some s \<Rightarrow> do { g \<leftarrow> global_string s ''print_fmt''; build_call t f [g, v] ''print_call'' }
      })"

definition emit_unary_op :: "opcode \<Rightarrow> nat \<Rightarrow> nat emits" where
  "emit_unary_op op v =
     (case op of
        XVR_OP_INVERT \<Rightarrow>
          do { t \<leftarrow> int1_type; z \<leftarrow> llvm ''LLVMConstNull'' [Ref t]; Xvr_LLVMIRBuilderCreateICmpNE v z (Some ''not'') }
      | XVR_OP_NEGATE \<Rightarrow>
          do { t \<leftarrow> int32_type; z \<leftarrow> llvm ''LLVMConstNull'' [Ref t]; Xvr_LLVMIRBuilderCreateSub z v (Some ''neg'') }
      | XVR_OP_PRINT \<Rightarrow> emit_print v
      | _ \<Rightarrow> give 0)"

definition Xvr_LLVMExpressionEmitterEmitUnary :: "(ast option \<Rightarrow> nat emits) \<Rightarrow> opcode \<Rightarrow> ast option \<Rightarrow> nat emits" where
  "Xvr_LLVMExpressionEmitterEmitUnary emit op child =
     do { v \<leftarrow> emit child; if v = 0 then give 0 else emit_unary_op op v }"

section \<open>Arguments\<close>

text \<open>The nodes of an argument list, if it is one.\<close>

definition argument_list :: "ast \<Rightarrow> ast list option" where
  "argument_list args =
     (case args of NodeCompound t xs c \<Rightarrow> Some xs | NodeFnCollection xs c \<Rightarrow> Some xs | _ \<Rightarrow> None)"

section \<open>max\<close>

text \<open>The first argument without a value stops.\<close>

fun emit_all :: "(ast option \<Rightarrow> nat emits) \<Rightarrow> ast list \<Rightarrow> nat list option emits" where
  "emit_all emit [] = give (Some [])"
| "emit_all emit (x # xs) =
     do {
       v \<leftarrow> emit (Some x);
       if v = 0 then give None
       else do { vs \<leftarrow> emit_all emit xs; give (map_option ((#) v) vs) }
     }"

text \<open>The maximum of the values so far, the values left, the number of the comparison and of the last
  one: three or four arguments number their comparisons.\<close>

fun max_chain :: "string \<Rightarrow> string \<Rightarrow> bool \<Rightarrow> nat \<Rightarrow> nat \<Rightarrow> nat list \<Rightarrow> nat emits" where
  "max_chain f p numbered i best [] = give best"
| "max_chain f p numbered i best (v # vs) =
     do {
       c \<leftarrow> llvm f [Text p, Ref best, Ref v, Text (if numbered then ''max_cmp'' @ dec_nat i else ''max_cmp'')];
       b \<leftarrow> llvm ''LLVMBuildSelect'' [Ref c, Ref best, Ref v,
         Text (if numbered \<and> vs \<noteq> [] then ''max_tmp'' @ dec_nat i else ''max_result'')];
       max_chain f p numbered (Suc i) b vs
     }"

definition max_of :: "string \<Rightarrow> string \<Rightarrow> nat list \<Rightarrow> nat emits" where
  "max_of f p vs = max_chain f p (length vs \<in> {3, 4}) 1 (hd vs) (tl vs)"

definition emit_max :: "(ast option \<Rightarrow> nat emits) \<Rightarrow> ast option \<Rightarrow> nat emits" where
  "emit_max emit args =
     (case args of
        None \<Rightarrow> give 0
      | Some a \<Rightarrow>
          (case argument_list a of
             None \<Rightarrow> fail_with ''max: invalid arguments''
           | Some xs \<Rightarrow>
               if length xs < 1 \<or> length xs > 8 then fail_with ''max: requires 1-8 arguments''
               else do {
                 vs \<leftarrow> emit_all emit xs;
                 case vs of
                   None \<Rightarrow> fail_with ''max: invalid argument''
                 | Some ys \<Rightarrow>
                     do {
                       t \<leftarrow> llvm_type_of (hd ys);
                       k \<leftarrow> kind_of_type t;
                       if k = LLVMIntegerTypeKind then max_of ''LLVMBuildICmp'' ''LLVMIntSGT'' ys
                       else if is_real_kind k then max_of ''LLVMBuildFCmp'' ''LLVMRealOGT'' ys
                       else fail_with ''max: unsupported type - only int and float are supported''
                     }
               }))"

section \<open>math\<close>

text \<open>The value of the first argument, 0 without one.\<close>

definition emit_first :: "(ast option \<Rightarrow> nat emits) \<Rightarrow> ast \<Rightarrow> nat emits" where
  "emit_first emit args =
     (case argument_list args of Some (x # xs) \<Rightarrow> emit (Some x) | _ \<Rightarrow> give 0)"

text \<open>The call of a library function whose parameters have the type of the first argument.\<close>

definition library_call :: "nat emits \<Rightarrow> nat \<Rightarrow> string \<Rightarrow> nat list \<Rightarrow> string \<Rightarrow> nat emits" where
  "library_call result t fn args name =
     do {
       r \<leftarrow> result;
       ft \<leftarrow> function_type r (replicate (length args) t) False;
       f0 \<leftarrow> named_function fn;
       f \<leftarrow> (if f0 \<noteq> 0 then give f0 else add_function fn ft);
       build_call ft f args name
     }"

definition math_call :: "string \<Rightarrow> string \<Rightarrow> string \<Rightarrow> nat list \<Rightarrow> nat emits" where
  "math_call name f32 f64 args =
     do {
       t \<leftarrow> llvm_type_of (hd args);
       k \<leftarrow> kind_of_type t;
       if k = LLVMFloatTypeKind then library_call float_type t f32 args (name @ ''_f32'')
       else if k = LLVMDoubleTypeKind then library_call double_type t f64 args (name @ ''_f64'')
       else fail_with (name @ '': only float32 and float64 are supported'')
     }"

definition emit_math1 :: "string \<Rightarrow> string \<Rightarrow> string \<Rightarrow> (ast option \<Rightarrow> nat emits) \<Rightarrow> ast option \<Rightarrow> nat emits" where
  "emit_math1 name f32 f64 emit args =
     (case args of
        None \<Rightarrow> give 0
      | Some a \<Rightarrow>
          do {
            v \<leftarrow> emit_first emit a;
            if v = 0 then fail_with (name @ '': invalid argument'') else math_call name f32 f64 [v]
          })"

definition emit_math2 :: "string \<Rightarrow> string \<Rightarrow> string \<Rightarrow> (ast option \<Rightarrow> nat emits) \<Rightarrow> ast option \<Rightarrow> nat emits" where
  "emit_math2 name f32 f64 emit args =
     (case args of
        None \<Rightarrow> give 0
      | Some a \<Rightarrow>
          (case argument_list a of
             Some (x # y # zs) \<Rightarrow>
               do {
                 v \<leftarrow> emit (Some x);
                 w \<leftarrow> emit (Some y);
                 if v = 0 \<or> w = 0 then fail_with (name @ '': requires 2 arguments'') else math_call name f32 f64 [v, w]
               }
           | _ \<Rightarrow> fail_with (name @ '': requires 2 arguments'')))"

end
