(* ===== verification/LlvmMath.thy ===== *)
theory LlvmMath
  imports LlvmOps
begin

text \<open>
  The functions of the namespace \<open>math\<close>: an intrinsic of LLVM or a function of the C library, by the type of the
  first argument (src/src/adapters/llvm/xvr_llvm_expression_emitter.cpp).
\<close>

section \<open>One argument\<close>

definition emit_math_sqrt :: "(ast option \<Rightarrow> nat emits) \<Rightarrow> ast option \<Rightarrow> nat emits" where
  "emit_math_sqrt = emit_math1 ''sqrt'' ''llvm.sqrt.f32'' ''llvm.sqrt.f64''"

definition emit_math_sin :: "(ast option \<Rightarrow> nat emits) \<Rightarrow> ast option \<Rightarrow> nat emits" where
  "emit_math_sin = emit_math1 ''sin'' ''llvm.sin.f32'' ''llvm.sin.f64''"

definition emit_math_cos :: "(ast option \<Rightarrow> nat emits) \<Rightarrow> ast option \<Rightarrow> nat emits" where
  "emit_math_cos = emit_math1 ''cos'' ''llvm.cos.f32'' ''llvm.cos.f64''"

definition emit_math_floor :: "(ast option \<Rightarrow> nat emits) \<Rightarrow> ast option \<Rightarrow> nat emits" where
  "emit_math_floor = emit_math1 ''floor'' ''llvm.floor.f32'' ''llvm.floor.f64''"

definition emit_math_ceil :: "(ast option \<Rightarrow> nat emits) \<Rightarrow> ast option \<Rightarrow> nat emits" where
  "emit_math_ceil = emit_math1 ''ceil'' ''llvm.ceil.f32'' ''llvm.ceil.f64''"

definition emit_math_round :: "(ast option \<Rightarrow> nat emits) \<Rightarrow> ast option \<Rightarrow> nat emits" where
  "emit_math_round = emit_math1 ''round'' ''llvm.round.f32'' ''llvm.round.f64''"

definition emit_math_log :: "(ast option \<Rightarrow> nat emits) \<Rightarrow> ast option \<Rightarrow> nat emits" where
  "emit_math_log = emit_math1 ''log'' ''llvm.log.f32'' ''llvm.log.f64''"

definition emit_math_exp :: "(ast option \<Rightarrow> nat emits) \<Rightarrow> ast option \<Rightarrow> nat emits" where
  "emit_math_exp = emit_math1 ''exp'' ''llvm.exp.f32'' ''llvm.exp.f64''"

definition emit_math_tan :: "(ast option \<Rightarrow> nat emits) \<Rightarrow> ast option \<Rightarrow> nat emits" where
  "emit_math_tan = emit_math1 ''tan'' ''llvm.tan.f32'' ''llvm.tan.f64''"

definition emit_math_atan :: "(ast option \<Rightarrow> nat emits) \<Rightarrow> ast option \<Rightarrow> nat emits" where
  "emit_math_atan = emit_math1 ''atan'' ''llvm.atan.f32'' ''llvm.atan.f64''"

definition emit_math_asin :: "(ast option \<Rightarrow> nat emits) \<Rightarrow> ast option \<Rightarrow> nat emits" where
  "emit_math_asin = emit_math1 ''asin'' ''asinf'' ''asin''"

definition emit_math_acos :: "(ast option \<Rightarrow> nat emits) \<Rightarrow> ast option \<Rightarrow> nat emits" where
  "emit_math_acos = emit_math1 ''acos'' ''acosf'' ''acos''"

definition emit_math_log10 :: "(ast option \<Rightarrow> nat emits) \<Rightarrow> ast option \<Rightarrow> nat emits" where
  "emit_math_log10 = emit_math1 ''log10'' ''log10f'' ''log10''"

definition emit_math_log2 :: "(ast option \<Rightarrow> nat emits) \<Rightarrow> ast option \<Rightarrow> nat emits" where
  "emit_math_log2 = emit_math1 ''log2'' ''log2f'' ''log2''"

definition emit_math_sinh :: "(ast option \<Rightarrow> nat emits) \<Rightarrow> ast option \<Rightarrow> nat emits" where
  "emit_math_sinh = emit_math1 ''sinh'' ''sinhf'' ''sinh''"

definition emit_math_cosh :: "(ast option \<Rightarrow> nat emits) \<Rightarrow> ast option \<Rightarrow> nat emits" where
  "emit_math_cosh = emit_math1 ''cosh'' ''coshf'' ''cosh''"

definition emit_math_tanh :: "(ast option \<Rightarrow> nat emits) \<Rightarrow> ast option \<Rightarrow> nat emits" where
  "emit_math_tanh = emit_math1 ''tanh'' ''tanhf'' ''tanh''"

definition emit_math_asinh :: "(ast option \<Rightarrow> nat emits) \<Rightarrow> ast option \<Rightarrow> nat emits" where
  "emit_math_asinh = emit_math1 ''asinh'' ''asinhf'' ''asinh''"

definition emit_math_acosh :: "(ast option \<Rightarrow> nat emits) \<Rightarrow> ast option \<Rightarrow> nat emits" where
  "emit_math_acosh = emit_math1 ''acosh'' ''acoshf'' ''acosh''"

definition emit_math_atanh :: "(ast option \<Rightarrow> nat emits) \<Rightarrow> ast option \<Rightarrow> nat emits" where
  "emit_math_atanh = emit_math1 ''atanh'' ''atanhf'' ''atanh''"

definition emit_math_trunc :: "(ast option \<Rightarrow> nat emits) \<Rightarrow> ast option \<Rightarrow> nat emits" where
  "emit_math_trunc = emit_math1 ''trunc'' ''llvm.trunc.f32'' ''llvm.trunc.f64''"

section \<open>Two arguments\<close>

definition emit_math_pow :: "(ast option \<Rightarrow> nat emits) \<Rightarrow> ast option \<Rightarrow> nat emits" where
  "emit_math_pow = emit_math2 ''pow'' ''llvm.pow.f32'' ''llvm.pow.f64''"

definition emit_math_atan2 :: "(ast option \<Rightarrow> nat emits) \<Rightarrow> ast option \<Rightarrow> nat emits" where
  "emit_math_atan2 = emit_math2 ''atan2'' ''llvm.atan2.f32'' ''llvm.atan2.f64''"

definition emit_math_fmod :: "(ast option \<Rightarrow> nat emits) \<Rightarrow> ast option \<Rightarrow> nat emits" where
  "emit_math_fmod = emit_math2 ''fmod'' ''fmodf'' ''fmod''"

section \<open>The absolute value\<close>

definition abs_of_integer :: "nat emits \<Rightarrow> nat \<Rightarrow> nat emits" where
  "abs_of_integer width v =
     do {
       z \<leftarrow> const_int width 0 True;
       negative \<leftarrow> llvm ''LLVMBuildICmp'' [Text ''LLVMIntSLT'', Ref v, Ref z, Text ''abs_neg''];
       opposite \<leftarrow> llvm ''LLVMBuildNeg'' [Ref v, Text ''abs_neg_val''];
       llvm ''LLVMBuildSelect'' [Ref negative, Ref opposite, Ref v, Text ''abs_result'']
     }"

definition abs_of :: "nat \<Rightarrow> nat emits" where
  "abs_of v =
     do {
       t \<leftarrow> llvm_type_of v;
       k \<leftarrow> kind_of_type t;
       if k = LLVMIntegerTypeKind then
         do {
           bits \<leftarrow> llvm ''LLVMGetIntTypeWidth'' [Ref t];
           if bits = 32 then abs_of_integer int32_type v
           else if bits = 64 then abs_of_integer int64_type v
           else fail_with ''abs: unsupported type''
         }
       else if k = LLVMFloatTypeKind then library_call float_type t ''llvm.fabs.f32'' [v] ''abs_f32''
       else if k = LLVMDoubleTypeKind then library_call double_type t ''llvm.fabs.f64'' [v] ''abs_f64''
       else fail_with ''abs: unsupported type''
     }"

definition emit_math_abs :: "(ast option \<Rightarrow> nat emits) \<Rightarrow> ast option \<Rightarrow> nat emits" where
  "emit_math_abs emit args =
     (case args of
        None \<Rightarrow> give 0
      | Some a \<Rightarrow> do { v \<leftarrow> emit_first emit a; if v = 0 then fail_with ''abs: invalid argument'' else abs_of v })"

section \<open>The namespace\<close>

definition math_functions :: "(string \<times> ((ast option \<Rightarrow> nat emits) \<Rightarrow> ast option \<Rightarrow> nat emits)) list" where
  "math_functions =
    [(''sqrt'', emit_math_sqrt),
     (''pow'', emit_math_pow),
     (''sin'', emit_math_sin),
     (''cos'', emit_math_cos),
     (''abs'', emit_math_abs),
     (''floor'', emit_math_floor),
     (''ceil'', emit_math_ceil),
     (''round'', emit_math_round),
     (''log'', emit_math_log),
     (''exp'', emit_math_exp),
     (''tan'', emit_math_tan),
     (''atan'', emit_math_atan),
     (''atan2'', emit_math_atan2),
     (''asin'', emit_math_asin),
     (''acos'', emit_math_acos),
     (''log10'', emit_math_log10),
     (''log2'', emit_math_log2),
     (''sinh'', emit_math_sinh),
     (''cosh'', emit_math_cosh),
     (''tanh'', emit_math_tanh),
     (''asinh'', emit_math_asinh),
     (''acosh'', emit_math_acosh),
     (''atanh'', emit_math_atanh),
     (''fmod'', emit_math_fmod),
     (''trunc'', emit_math_trunc)]"

end
