(* ===== verification/LlvmPrint.thy ===== *)
theory LlvmPrint
  imports LlvmMath
begin

text \<open>
  \<open>std::print\<close> and \<open>std::println\<close>, which become calls of \<open>printf\<close>: emit_printf and emit_printfln of
  src/src/adapters/llvm/xvr_llvm_expression_emitter.cpp, over the format strings of theory FormatStrings. Both
  have no value.
\<close>

section \<open>The parts of a call\<close>

text \<open>The function, declared without parameters when it is new.\<close>

definition printf_function :: "nat emits" where
  "printf_function =
     do {
       f \<leftarrow> named_function ''printf'';
       if f \<noteq> 0 then give f
       else do { i \<leftarrow> int32_type; t \<leftarrow> function_type i [] True; add_function ''printf'' t }
     }"

definition format_text :: "ast \<Rightarrow> string option" where
  "format_text x = (case x of NodeLiteral (Str s) \<Rightarrow> Some s | _ \<Rightarrow> None)"

definition is_array_literal :: "ast \<Rightarrow> bool" where
  "is_array_literal x = (case x of NodeCompound t xs c \<Rightarrow> t = XVR_LITERAL_ARRAY | _ \<Rightarrow> False)"

text \<open>Whether the only argument is an array literal, or the arguments themselves are one.\<close>

definition prints_array :: "ast \<Rightarrow> bool" where
  "prints_array args =
     (case args of NodeCompound t xs c \<Rightarrow> t = XVR_LITERAL_ARRAY
      | NodeFnCollection (x # xs) c \<Rightarrow> is_array_literal x
      | _ \<Rightarrow> False)"

text \<open>The arguments, with 0 for one that has no value.\<close>

fun emit_or_zero :: "(ast option \<Rightarrow> nat emits) \<Rightarrow> ast list \<Rightarrow> nat list emits" where
  "emit_or_zero emit [] = give []"
| "emit_or_zero emit (x # xs) =
     do {
       v \<leftarrow> emit (Some x);
       w \<leftarrow> (if v \<noteq> 0 then give v else const_int int32_type 0 False);
       vs \<leftarrow> emit_or_zero emit xs;
       give (w # vs)
     }"

text \<open>The types of the placeholders' arguments, None for an array.\<close>

definition format_arg_of :: "nat \<Rightarrow> format_arg" where
  "format_arg_of k =
     (if k = LLVMIntegerTypeKind then XVR_FORMAT_ARG_INT
      else if k = LLVMFloatTypeKind then XVR_FORMAT_ARG_FLOAT
      else if k = LLVMDoubleTypeKind then XVR_FORMAT_ARG_DOUBLE
      else XVR_FORMAT_ARG_STRING)"

fun format_args :: "nat list \<Rightarrow> format_arg list option emits" where
  "format_args [] = give (Some [])"
| "format_args (v # vs) =
     do {
       t \<leftarrow> llvm_type_of v;
       k \<leftarrow> kind_of_type t;
       if k = LLVMArrayTypeKind then give None
       else do { ts \<leftarrow> format_args vs; give (map_option ((#) (format_arg_of k)) ts) }
     }"

text \<open>The arguments and their types as \<open>printf\<close> takes them: a \<open>float\<close> becomes a \<open>double\<close>.\<close>

fun promoted :: "nat list \<Rightarrow> nat list emits" where
  "promoted [] = give []"
| "promoted (v # vs) =
     do {
       t \<leftarrow> llvm_type_of v;
       k \<leftarrow> kind_of_type t;
       w \<leftarrow> (if k = LLVMFloatTypeKind then convert ''LLVMBuildFPExt'' v double_type ''float_to_double'' else give v);
       ws \<leftarrow> promoted vs;
       give (w # ws)
     }"

fun promoted_types :: "nat list \<Rightarrow> nat list emits" where
  "promoted_types [] = give []"
| "promoted_types (v # vs) =
     do {
       t \<leftarrow> llvm_type_of v;
       k \<leftarrow> kind_of_type t;
       u \<leftarrow> (if k = LLVMFloatTypeKind then double_type else give t);
       us \<leftarrow> promoted_types vs;
       give (u # us)
     }"

definition printf_call :: "nat \<Rightarrow> nat list \<Rightarrow> nat list \<Rightarrow> nat emits" where
  "printf_call f params args =
     do { i \<leftarrow> int32_type; t \<leftarrow> function_type i params True; _ \<leftarrow> build_call t f args ''printf_call''; give 0 }"

definition print_text :: "nat \<Rightarrow> string \<Rightarrow> nat emits" where
  "print_text f s = do { g \<leftarrow> global_string s ''fmt_str''; printf_call f [] [g] }"

definition print_values :: "nat \<Rightarrow> string \<Rightarrow> nat list \<Rightarrow> nat emits" where
  "print_values f s vs =
     do {
       g \<leftarrow> global_string s ''fmt_str'';
       args \<leftarrow> promoted vs;
       p \<leftarrow> pointer_to int8_type;
       params \<leftarrow> promoted_types vs;
       printf_call f (p # params) (g # args)
     }"

section \<open>One argument that is no text\<close>

definition quoted_braces :: string where
  "quoted_braces = [DQUOTE] @ ''{}'' @ [DQUOTE]"

definition array_message :: "string \<Rightarrow> string" where
  "array_message who =
     who @ '': cannot print array directly. Use format string: std::'' @ who @ ''('' @ quoted_braces @ '', array)''"

definition value_message :: "string \<Rightarrow> string" where
  "value_message who =
     who @ '': use format string for non-string types: std::'' @ who @ ''('' @ quoted_braces @ '', value)''"

definition print_alone :: "string \<Rightarrow> string \<Rightarrow> (ast option \<Rightarrow> nat emits) \<Rightarrow> nat \<Rightarrow> ast \<Rightarrow> ast \<Rightarrow> nat emits" where
  "print_alone who end_of_line emit f args x =
     (if prints_array args then fail_with (array_message who)
      else do {
        v \<leftarrow> emit (Some x);
        if v = 0 then give 0
        else do {
          t \<leftarrow> llvm_type_of v;
          k \<leftarrow> kind_of_type t;
          if k = LLVMIntegerTypeKind \<or> is_real_kind k then fail_with (value_message who)
          else if k = LLVMArrayTypeKind then fail_with (array_message who)
          else do {
            g \<leftarrow> global_string (''%s'' @ end_of_line) ''fmt_str'';
            p \<leftarrow> pointer_to int8_type;
            printf_call f [p, t] [g, v]
          }
        }
      })"

section \<open>print\<close>

definition mixed_message :: "string \<Rightarrow> string" where
  "mixed_message who =
     who @ '': cannot use array with format string. Use std::'' @ who @
     ''(array) without format string, or print elements individually''"

text \<open>The values for the placeholders of a valid format.\<close>

definition print_formatted :: "string \<Rightarrow> string \<Rightarrow> nat \<Rightarrow> format_string \<Rightarrow> nat list \<Rightarrow> nat emits" where
  "print_formatted who end_of_line f fmt vs =
     do {
       types \<leftarrow> format_args vs;
       case types of
         None \<Rightarrow> fail_with (mixed_message who)
       | Some ts \<Rightarrow>
           (case XvrFormatStringBuildPrintfFormat (Some fmt) ts of
              Some (Some s) \<Rightarrow> print_values f (s @ end_of_line) vs
            | _ \<Rightarrow> do { undefined_step; give 0 })
     }"

definition emit_printf :: "(ast option \<Rightarrow> nat emits) \<Rightarrow> ast option \<Rightarrow> nat emits" where
  "emit_printf emit args =
     (case args of
        None \<Rightarrow> give 0
      | Some a \<Rightarrow>
          do {
            f \<leftarrow> printf_function;
            case argument_list a of
              Some (x # xs) \<Rightarrow>
                if format_text x = None \<and> xs = [] then print_alone ''print'' [] emit f a x
                else do {
                  vs \<leftarrow> emit_or_zero emit xs;
                  case format_text x of
                    None \<Rightarrow> print_values f ''%s'' vs
                  | Some s \<Rightarrow>
                      if vs = [] then print_text f s
                      else (case XvrFormatStringParse (Some s) (length vs) of
                        None \<Rightarrow> do { undefined_step; give 0 }
                      | Some (Some fmt) \<Rightarrow>
                          if fs_is_valid fmt then print_formatted ''print'' [] f fmt vs else print_text f ''%s''
                      | Some None \<Rightarrow> print_text f ''%s'')
                }
            | _ \<Rightarrow> give 0
          })"

section \<open>println\<close>

definition print_line :: "nat \<Rightarrow> string \<Rightarrow> nat list \<Rightarrow> nat emits" where
  "print_line f s vs =
     (case XvrFormatStringParse (Some s) (length vs) of
        None \<Rightarrow> do { undefined_step; give 0 }
      | Some None \<Rightarrow> fail_with ''println: failed to parse format string''
      | Some (Some fmt) \<Rightarrow>
          if \<not> fs_is_valid fmt then
            fail_with (take 255 (''println: invalid format string: '' @ or_default ''unknown error'' (fs_error_message fmt)))
          else if fs_placeholder_count fmt \<noteq> length vs then
            fail_with (take 255 (''println: format placeholder count ('' @ dec_nat (fs_placeholder_count fmt) @
              '') does not match argument count ('' @ dec_nat (length vs) @ '')''))
          else print_formatted ''println'' [LF] f fmt vs)"

definition emit_printfln :: "(ast option \<Rightarrow> nat emits) \<Rightarrow> ast option \<Rightarrow> nat emits" where
  "emit_printfln emit args =
     (case args of
        None \<Rightarrow> give 0
      | Some a \<Rightarrow>
          (case argument_list a of
             None \<Rightarrow> fail_with ''println: invalid argument type''
           | Some [] \<Rightarrow> fail_with ''println: requires at least one argument''
           | Some (x # xs) \<Rightarrow>
               do {
                 f \<leftarrow> printf_function;
                 if format_text x = None \<and> xs = [] then print_alone ''println'' [LF] emit f a x
                 else do {
                   vs \<leftarrow> emit_or_zero emit xs;
                   case format_text x of
                     None \<Rightarrow> fail_with ''println: format string required''
                   | Some s \<Rightarrow> if vs = [] then print_text f (s @ [LF]) else print_line f s vs
                 }
               }))"

end
