(* ===== verification/LlvmAccess.thy ===== *)
theory LlvmAccess
  imports LlvmPrint
begin

text \<open>
  Binary nodes of the expression emitter: the calls of functions and of the names the emitter treats itself,
  the members of \<open>std\<close> and \<open>math\<close>, methods of arrays, assignments, and the operators
  (Xvr_LLVMExpressionEmitterEmitBinary and Xvr_LLVMExpressionEmitterEmitFnCall of
  src/src/adapters/llvm/xvr_llvm_expression_emitter.cpp).
\<close>

section \<open>Names in nodes\<close>

definition named_node :: "ast option \<Rightarrow> string option" where
  "named_node x = (case x of Some (NodeLiteral (Ident s h)) \<Rightarrow> Some s | _ \<Rightarrow> None)"

text \<open>The arguments of a call node.\<close>

definition call_arguments :: "ast option \<Rightarrow> ast list option" where
  "call_arguments right =
     (case right of Some (NodeFnCall (Some (NodeFnCollection xs c)) n) \<Rightarrow> Some xs | _ \<Rightarrow> None)"

text \<open>A call on the right of a dot: the opcode, the name before it, if it is one, and the call's arguments.\<close>

definition member_call :: "ast option \<Rightarrow> (opcode \<times> string option \<times> ast option) option" where
  "member_call right =
     (case right of Some (NodeBinary op l (Some (NodeFnCall args n))) \<Rightarrow> Some (op, named_node l, args) | _ \<Rightarrow> None)"

section \<open>sizeof and len\<close>

definition size_in_bits :: "literal_type \<Rightarrow> int" where
  "size_in_bits t =
     (if t \<in> {XVR_LITERAL_BOOLEAN, XVR_LITERAL_INT8, XVR_LITERAL_UINT8} then 8
      else if t \<in> {XVR_LITERAL_INT16, XVR_LITERAL_UINT16, XVR_LITERAL_FLOAT16} then 16
      else if t \<in> {XVR_LITERAL_INTEGER, XVR_LITERAL_FLOAT, XVR_LITERAL_INT32, XVR_LITERAL_UINT32, XVR_LITERAL_FLOAT32} then 32
      else if t \<in> {XVR_LITERAL_INT64, XVR_LITERAL_UINT64, XVR_LITERAL_FLOAT64} then 64
      else 0)"

definition emit_sizeof :: "ast option \<Rightarrow> nat emits" where
  "emit_sizeof right =
     (case call_arguments right of
        Some [NodeLiteral (Type t c ss k)] \<Rightarrow> const_int int32_type (size_in_bits t) False
      | _ \<Rightarrow> fail_with ''sizeof expects a type argument'')"

text \<open>A function of the runtime, declared with its type when it is new.\<close>

definition declared_function :: "string \<Rightarrow> nat \<Rightarrow> nat emits" where
  "declared_function name t = do { f \<leftarrow> named_function name; if f \<noteq> 0 then give f else add_function name t }"

definition loaded_array :: "nat \<Rightarrow> string \<Rightarrow> nat emits" where
  "loaded_array p name = do { t \<leftarrow> pointer_to int32_type; llvm ''LLVMBuildLoad2'' [Ref t, Ref p, Text name] }"

definition counted :: "nat \<Rightarrow> nat emits" where
  "counted t = do { n \<leftarrow> llvm ''LLVMGetArrayLength'' [Ref t]; const_int int32_type (int n) False }"

text \<open>The length of a variable of an array type whose number of elements LLVM knows.\<close>

definition known_length :: "nat \<Rightarrow> nat option emits" where
  "known_length p =
     do {
       t \<leftarrow> llvm_type_of p;
       k \<leftarrow> (if t \<noteq> 0 then kind_of_type t else give 0);
       if t = 0 \<or> k \<noteq> LLVMPointerTypeKind then give None
       else do {
         e \<leftarrow> llvm ''LLVMGetElementType'' [Ref t];
         ek \<leftarrow> (if e \<noteq> 0 then kind_of_type e else give 0);
         if e \<noteq> 0 \<and> ek = LLVMArrayTypeKind then do { n \<leftarrow> counted e; give (Some n) }
         else do {
           a \<leftarrow> llvm ''LLVMGetAllocatedType'' [Ref p];
           ak \<leftarrow> (if a \<noteq> 0 then kind_of_type a else give 0);
           if a \<noteq> 0 \<and> ak = LLVMArrayTypeKind then do { n \<leftarrow> counted a; give (Some n) } else give None
         }
       }
     }"

definition array_length_call :: "nat \<Rightarrow> nat emits" where
  "array_length_call p =
     do {
       a \<leftarrow> loaded_array p ''array_ptr'';
       q \<leftarrow> pointer_to int32_type;
       i \<leftarrow> int32_type;
       t \<leftarrow> function_type i [q] False;
       f \<leftarrow> declared_function ''xvr_array_len'' t;
       build_call t f [a] ''array_len''
     }"

definition length_of_array :: "string \<Rightarrow> nat \<Rightarrow> nat emits" where
  "length_of_array name p =
     (if p = 0 then array_length_call p
      else do {
        n \<leftarrow> Xvr_LLVMFunctionEmitterLookupVarArrayCount name;
        if n > 0 then const_int int32_type n False
        else do {
          known \<leftarrow> known_length p;
          case known of Some r \<Rightarrow> give r | None \<Rightarrow> array_length_call p
        }
      })"

definition length_of_value :: "nat \<Rightarrow> nat emits" where
  "length_of_value v =
     do {
       t \<leftarrow> llvm_type_of v;
       k \<leftarrow> kind_of_type t;
       if k = LLVMPointerTypeKind then
         do {
           a \<leftarrow> llvm ''LLVMGetAllocatedType'' [Ref v];
           e \<leftarrow> (if a \<noteq> 0 then give a else llvm ''LLVMGetElementType'' [Ref t]);
           ek \<leftarrow> (if e \<noteq> 0 then kind_of_type e else give 0);
           if e \<noteq> 0 \<and> ek = LLVMArrayTypeKind then counted e
           else do {
             c \<leftarrow> int8_type;
             i \<leftarrow> int32_type;
             ft \<leftarrow> function_type i [c] False;
             f \<leftarrow> declared_function ''xvr_str_len'' ft;
             build_call ft f [v] []
           }
         }
       else if k = LLVMArrayTypeKind then counted t
       else fail_with ''len() only works on strings and arrays''
     }"

definition emit_len :: "(ast option \<Rightarrow> nat emits) \<Rightarrow> ast option \<Rightarrow> nat emits" where
  "emit_len emit right =
     (case call_arguments right of
        Some (x # xs) \<Rightarrow>
          do {
            (p, t) \<leftarrow> (case named_node (Some x) of
               None \<Rightarrow> give (0, XVR_LITERAL_ANY)
             | Some name \<Rightarrow> Xvr_LLVMFunctionEmitterLookupVarWithType name);
            case named_node (Some x) of
              Some name \<Rightarrow>
                if t = XVR_LITERAL_ARRAY then length_of_array name p
                else do { v \<leftarrow> emit (Some x); if v = 0 then give 0 else length_of_value v }
            | None \<Rightarrow> do { v \<leftarrow> emit (Some x); if v = 0 then give 0 else length_of_value v }
          }
      | _ \<Rightarrow> fail_with ''len() expects one argument'')"

section \<open>Calls\<close>

text \<open>A function that the module does not have is not called, without an error.\<close>

definition emit_named_call :: "(ast option \<Rightarrow> nat emits) \<Rightarrow> string \<Rightarrow> ast option \<Rightarrow> nat emits" where
  "emit_named_call emit name right =
     do {
       f \<leftarrow> named_function name;
       if f = 0 then give 0
       else do {
         args \<leftarrow> emit_or_zero emit
           (case right of
              Some (NodeCompound t xs c) \<Rightarrow> xs
            | _ \<Rightarrow> (case call_arguments right of Some xs \<Rightarrow> xs | None \<Rightarrow> []));
         t0 \<leftarrow> Xvr_LLVMModuleManagerGetFunctionType name;
         t \<leftarrow> (if t0 \<noteq> 0 then give t0 else llvm_type_of f);
         build_call t f args []
       }
     }"

definition emit_call :: "(ast option \<Rightarrow> nat emits) \<Rightarrow> ast option \<Rightarrow> ast option \<Rightarrow> nat emits" where
  "emit_call emit left right =
     (case named_node left of
        None \<Rightarrow> give 0
      | Some name \<Rightarrow>
          if name = ''print'' then fail_with ''print() is not supported, use std::print() instead''
          else if name = ''max'' then fail_with ''max() is not supported, use std::max() instead''
          else if name = ''sizeof'' then emit_sizeof right
          else if name = ''len'' then emit_len emit right
          else emit_named_call emit name right)"

definition is_call_node :: "ast \<Rightarrow> bool" where
  "is_call_node x = (case x of NodeBinary op l r \<Rightarrow> op = XVR_OP_FN_CALL | _ \<Rightarrow> False)"

fun call_values :: "(ast option \<Rightarrow> nat emits) \<Rightarrow> ast list \<Rightarrow> nat list emits" where
  "call_values emit [] = give []"
| "call_values emit (x # xs) =
     do {
       v \<leftarrow> (if is_call_node x then give 0 else emit (Some x));
       w \<leftarrow> (if v \<noteq> 0 then give v else const_int int32_type 0 False);
       vs \<leftarrow> call_values emit xs;
       give (w # vs)
     }"

text \<open>The name of a call node of its own is that of a call in its first argument; None follows a NULL pointer.\<close>

definition fn_call_name :: "ast \<Rightarrow> string option" where
  "fn_call_name args =
     (case args of
        NodeCompound t (NodeBinary op l r # xs) c \<Rightarrow>
          if op = XVR_OP_FN_CALL then
            (if l = None then None else Some (or_default ''unknown'' (named_node l)))
          else Some ''unknown''
      | _ \<Rightarrow> Some ''unknown'')"

definition Xvr_LLVMExpressionEmitterEmitFnCall :: "(ast option \<Rightarrow> nat emits) \<Rightarrow> ast option \<Rightarrow> nat emits" where
  "Xvr_LLVMExpressionEmitterEmitFnCall emit args =
     (case args of
        None \<Rightarrow> give 0
      | Some a \<Rightarrow>
          (case fn_call_name a of
             None \<Rightarrow> do { undefined_step; give 0 }
           | Some name \<Rightarrow>
               do {
                 f \<leftarrow> named_function name;
                 if f = 0 then give 0
                 else do {
                   vs \<leftarrow> call_values emit (case a of NodeCompound t xs c \<Rightarrow> xs | _ \<Rightarrow> []);
                   t \<leftarrow> llvm_type_of f;
                   build_call t f vs []
                 }
               }))"

section \<open>Members\<close>

text \<open>The function that a name of \<open>std\<close> or \<open>math\<close> stands for.\<close>

definition namespace_function :: "string \<Rightarrow> string \<Rightarrow> ((ast option \<Rightarrow> nat emits) \<Rightarrow> ast option \<Rightarrow> nat emits) option" where
  "namespace_function space name =
     (if space = ''std'' then
        map_of [(''print'', emit_printf), (''println'', emit_printfln), (''max'', emit_max)] name
      else if space = ''math'' then map_of math_functions name
      else None)"

definition namespace_call :: "(ast option \<Rightarrow> nat emits) \<Rightarrow> ast option \<Rightarrow> ast option \<Rightarrow> nat emits option" where
  "namespace_call emit left right =
     (case (named_node left, member_call right) of
        (Some space, Some (op, Some name, args)) \<Rightarrow>
          if op \<in> {XVR_OP_FN_CALL, XVR_OP_DOT}
          then map_option (\<lambda>f. f emit args) (namespace_function space name) else None
      | _ \<Rightarrow> None)"

text \<open>\<open>insert\<close>, a method of arrays: the value inserted, 0 when there is none.\<close>

definition emit_insert :: "(ast option \<Rightarrow> nat emits) \<Rightarrow> nat \<Rightarrow> ast option \<Rightarrow> nat emits" where
  "emit_insert emit p args =
     do {
       f0 \<leftarrow> named_function ''xvr_array_insert_int'';
       q \<leftarrow> pointer_to int32_type;
       i \<leftarrow> int32_type;
       r \<leftarrow> llvm ''LLVMVoidTypeInContext'' [];
       t \<leftarrow> function_type r [q, i] False;
       f \<leftarrow> (if f0 \<noteq> 0 then give f0 else add_function ''xvr_array_insert_int'' t);
       v \<leftarrow> (case args of Some (NodeFnCollection (x # xs) c) \<Rightarrow> emit (Some x) | _ \<Rightarrow> give 0);
       if v = 0 then give 0
       else do { a \<leftarrow> loaded_array p ''array_ptr''; _ \<leftarrow> build_call t f [a, v] []; give v }
     }"

section \<open>Assignments\<close>

text \<open>A function of the runtime with its type: that of the declaration, or a new one.\<close>

definition runtime_function :: "string \<Rightarrow> nat emits \<Rightarrow> (nat \<times> nat) emits" where
  "runtime_function name make_type =
     do {
       f0 \<leftarrow> named_function name;
       (t0, f) \<leftarrow> (if f0 = 0 then do { t \<leftarrow> make_type; f \<leftarrow> add_function name t; give (t, f) }
                   else do { tf \<leftarrow> llvm_type_of f0; t \<leftarrow> llvm ''LLVMGetElementType'' [Ref tf]; give (t, f0) });
       t \<leftarrow> (if t0 = 0 then make_type else give t0);
       give (t, f)
     }"

definition array_set_type :: "nat emits" where
  "array_set_type =
     do {
       q \<leftarrow> pointer_to int32_type; i \<leftarrow> int32_type; j \<leftarrow> int32_type;
       r \<leftarrow> llvm ''LLVMVoidTypeInContext'' [];
       function_type r [q, i, j] False
     }"

definition assign_element :: "(ast option \<Rightarrow> nat emits) \<Rightarrow> string \<Rightarrow> ast option \<Rightarrow> ast option \<Rightarrow> nat emits" where
  "assign_element emit name index right =
     do {
       (p, t) \<leftarrow> Xvr_LLVMFunctionEmitterLookupVarWithType name;
       if p = 0 \<or> t \<noteq> XVR_LITERAL_ARRAY then give 0
       else do {
         i \<leftarrow> emit index;
         if i = 0 then give 0
         else do {
           v \<leftarrow> emit right;
           if v = 0 then give 0
           else do {
             a \<leftarrow> loaded_array p ''array_ptr'';
             (ft, f) \<leftarrow> runtime_function ''xvr_array_set_int'' array_set_type;
             _ \<leftarrow> build_call ft f [a, i, v] [];
             give v
           }
         }
       }
     }"

definition is_assignment :: "opcode \<Rightarrow> bool" where
  "is_assignment op \<longleftrightarrow> op \<in> {XVR_OP_VAR_ASSIGN, XVR_OP_VAR_ADDITION_ASSIGN, XVR_OP_VAR_SUBTRACTION_ASSIGN,
     XVR_OP_VAR_MULTIPLICATION_ASSIGN, XVR_OP_VAR_DIVISION_ASSIGN, XVR_OP_VAR_MODULO_ASSIGN}"

definition combined_value :: "opcode \<Rightarrow> nat \<Rightarrow> nat \<Rightarrow> nat emits" where
  "combined_value op current rhs =
     (case op of
        XVR_OP_VAR_ADDITION_ASSIGN \<Rightarrow> Xvr_LLVMIRBuilderCreateAdd current rhs (Some ''add'')
      | XVR_OP_VAR_SUBTRACTION_ASSIGN \<Rightarrow> Xvr_LLVMIRBuilderCreateSub current rhs (Some ''sub'')
      | XVR_OP_VAR_MULTIPLICATION_ASSIGN \<Rightarrow> Xvr_LLVMIRBuilderCreateMul current rhs (Some ''mul'')
      | XVR_OP_VAR_DIVISION_ASSIGN \<Rightarrow> Xvr_LLVMIRBuilderCreateSDiv current rhs (Some ''sdiv'')
      | XVR_OP_VAR_MODULO_ASSIGN \<Rightarrow> Xvr_LLVMIRBuilderCreateSRem current rhs (Some ''mod'')
      | _ \<Rightarrow> give rhs)"

definition store_variable :: "(ast option \<Rightarrow> nat emits) \<Rightarrow> opcode \<Rightarrow> string \<Rightarrow> ast option \<Rightarrow> nat emits" where
  "store_variable emit op name right =
     do {
       p \<leftarrow> Xvr_LLVMFunctionEmitterLookupVar name;
       if p = 0 then give 0
       else do {
         rhs \<leftarrow> emit right;
         if rhs = 0 then give 0
         else do {
           v \<leftarrow> (if op = XVR_OP_VAR_ASSIGN then give rhs
                 else do {
                   pt \<leftarrow> llvm_type_of p;
                   e \<leftarrow> llvm ''LLVMGetElementType'' [Ref pt];
                   t \<leftarrow> (if e \<noteq> 0 then give e else int32_type);
                   current \<leftarrow> llvm ''LLVMBuildLoad2'' [Ref t, Ref p, Text name];
                   combined_value op current rhs
                 });
           _ \<leftarrow> Xvr_LLVMIRBuilderCreateStore v p;
           give v
         }
       }
     }"

text \<open>An element under a compound assignment: the value is stored as it is.\<close>

definition store_element :: "(ast option \<Rightarrow> nat emits) \<Rightarrow> string \<Rightarrow> ast option \<Rightarrow> ast option \<Rightarrow> nat emits" where
  "store_element emit name index right =
     do {
       p \<leftarrow> Xvr_LLVMFunctionEmitterLookupVar name;
       if p = 0 then give 0
       else do {
         v \<leftarrow> emit right;
         if v = 0 then give 0
         else do {
           i0 \<leftarrow> emit index;
           i \<leftarrow> (if i0 \<noteq> 0 then give i0 else const_int int32_type 0 False);
           pt \<leftarrow> llvm_type_of p;
           e \<leftarrow> llvm ''LLVMGetElementType'' [Ref pt];
           z \<leftarrow> const_int int32_type 0 False;
           q \<leftarrow> llvm ''LLVMBuildInBoundsGEP2'' [Ref e, Ref p, Refs [z, i], Num 2, Text ''array_idx''];
           _ \<leftarrow> Xvr_LLVMIRBuilderCreateStore v q;
           give v
         }
       }
     }"

definition emit_assignment :: "(ast option \<Rightarrow> nat emits) \<Rightarrow> opcode \<Rightarrow> ast option \<Rightarrow> ast option \<Rightarrow> nat emits" where
  "emit_assignment emit op left right =
     (case named_node left of
        Some name \<Rightarrow> store_variable emit op name right
      | None \<Rightarrow>
          (case left of
             Some (NodeIndex first second third) \<Rightarrow>
               (case named_node first of
                  Some name \<Rightarrow>
                    if op = XVR_OP_VAR_ASSIGN then assign_element emit name second right
                    else store_element emit name second right
                | None \<Rightarrow> give 0)
           | _ \<Rightarrow> give 0))"

section \<open>Binary nodes\<close>

definition emit_operands :: "(nat \<Rightarrow> char) \<Rightarrow> (ast option \<Rightarrow> nat emits) \<Rightarrow> opcode \<Rightarrow> ast option \<Rightarrow> ast option \<Rightarrow> nat emits" where
  "emit_operands fresh emit op left right =
     do {
       lhs \<leftarrow> emit left;
       if lhs = 0 then give 0
       else do {
         rhs \<leftarrow> emit right;
         if rhs = 0 then give 0 else emit_binary_op fresh op lhs rhs
       }
     }"

text \<open>The right side of a dot behind a name that is a variable: a method, or an operand.\<close>

definition emit_method :: "(nat \<Rightarrow> char) \<Rightarrow> (ast option \<Rightarrow> nat emits) \<Rightarrow> string \<Rightarrow> ast option \<Rightarrow> ast option \<Rightarrow> nat emits" where
  "emit_method fresh emit name left right =
     do {
       p \<leftarrow> Xvr_LLVMFunctionEmitterLookupVar name;
       if p = 0 then give 0
       else
         (case member_call right of
            Some (op, Some method, args) \<Rightarrow>
              if op = XVR_OP_DOT \<and> method = ''insert'' then
                do { v \<leftarrow> emit_insert emit p args;
                     if v \<noteq> 0 then give v else emit_operands fresh emit XVR_OP_DOT left right }
              else emit_operands fresh emit XVR_OP_DOT left right
          | _ \<Rightarrow> emit_operands fresh emit XVR_OP_DOT left right)
     }"

definition Xvr_LLVMExpressionEmitterEmitBinary ::
    "(nat \<Rightarrow> char) \<Rightarrow> (ast option \<Rightarrow> nat emits) \<Rightarrow> opcode \<Rightarrow> ast option \<Rightarrow> ast option \<Rightarrow> nat emits" where
  "Xvr_LLVMExpressionEmitterEmitBinary fresh emit op left right =
     (if op = XVR_OP_PRINTF then emit_printf emit left
      else if op = XVR_OP_FN_CALL then emit_call emit left right
      else if op = XVR_OP_DOT then
        (case namespace_call emit left right of
           Some m \<Rightarrow> m
         | None \<Rightarrow>
             (case named_node left of
                Some name \<Rightarrow> emit_method fresh emit name left right
              | None \<Rightarrow> emit_operands fresh emit op left right))
      else if is_assignment op then emit_assignment emit op left right
      else emit_operands fresh emit op left right)"

end
