(* ===== verification/LlvmFlow.thy ===== *)
theory LlvmFlow
  imports LlvmAccess
begin

text \<open>
  Control flow: conditions, loops and their targets (src/src/adapters/llvm/xvr_llvm_control_flow.cpp). The
  emission of a node is a parameter. Errors stay in the state of the control flow, which the rest of the code
  generator does not read. Nodes are not NULL.
\<close>

section \<open>Errors\<close>

definition MAX_LOOP_NESTING :: nat where "MAX_LOOP_NESTING = 64"

definition flow_error :: "string \<Rightarrow> unit emits" where
  "flow_error message = alter (\<lambda>s. s\<lparr>be_flow_message := take 511 message, be_flow_failed := True, be_flow_hint := []\<rparr>)"

definition set_error_hint :: "string \<Rightarrow> string \<Rightarrow> unit emits" where
  "set_error_hint message hint =
     alter (\<lambda>s. s\<lparr>be_flow_message := take 511 message, be_flow_hint := take 511 hint, be_flow_failed := True\<rparr>)"

definition Xvr_LLVMControlFlowHasError :: "bool emits" where
  "Xvr_LLVMControlFlowHasError = inspect be_flow_failed"

definition Xvr_LLVMControlFlowGetError :: "string option emits" where
  "Xvr_LLVMControlFlowGetError = inspect (\<lambda>s. if be_flow_failed s then Some (be_flow_message s) else None)"

definition Xvr_LLVMControlFlowClearError :: "unit emits" where
  "Xvr_LLVMControlFlowClearError = alter (\<lambda>s. s\<lparr>be_flow_failed := False, be_flow_message := [], be_flow_hint := []\<rparr>)"

definition Xvr_LLVMControlFlowGetLastExpressionResult :: "nat emits" where
  "Xvr_LLVMControlFlowGetLastExpressionResult =
     do { v \<leftarrow> inspect be_last_result; alter (\<lambda>s. s\<lparr>be_last_result := 0\<rparr>); give v }"

text \<open>A condition of another type than boolean: its type is printed, and where the code frees the text, freed.\<close>

definition is_boolean_type :: "nat \<Rightarrow> bool emits" where
  "is_boolean_type v =
     (if v = 0 then give False
      else do {
        t \<leftarrow> llvm_type_of v;
        k \<leftarrow> kind_of_type t;
        if k \<noteq> LLVMIntegerTypeKind then give False
        else do { bits \<leftarrow> llvm ''LLVMGetIntTypeWidth'' [Ref t]; give (bits = 1) }
      })"

definition not_boolean :: "string \<Rightarrow> string \<Rightarrow> nat \<Rightarrow> unit emits" where
  "not_boolean what example v =
     do {
       t \<leftarrow> llvm_type_of v;
       name \<leftarrow> llvm_string ''LLVMPrintTypeToString'' [Ref t];
       set_error_hint
         (''condition of '' @ what @ '' must be boolean, got '' @ [CHR 0x27] @ or_default ''(null)'' name @ [CHR 0x27])
         (''use a comparison operator (e.g., '' @ [CHR 0x27] @ example @ [CHR 0x27] @ '') or wrap the condition with ''
            @ [CHR 0x27] @ ''bool()'' @ [CHR 0x27])
     }"

section \<open>Loop targets\<close>

definition Xvr_LLVMControlFlowPushLoopTarget :: "nat \<Rightarrow> nat \<Rightarrow> unit emits" where
  "Xvr_LLVMControlFlowPushLoopTarget break_block continue_block =
     alter (\<lambda>s. if length (be_loops s) \<ge> MAX_LOOP_NESTING then s
       else s\<lparr>be_loops := be_loops s @ [(break_block, continue_block)]\<rparr>)"

definition Xvr_LLVMControlFlowPopLoopTarget :: "unit emits" where
  "Xvr_LLVMControlFlowPopLoopTarget = alter (\<lambda>s. s\<lparr>be_loops := butlast (be_loops s)\<rparr>)"

definition quoted_word :: "string \<Rightarrow> string" where
  "quoted_word w = [CHR 0x27] @ w @ [CHR 0x27]"

text \<open>The branch to a target of the innermost loop.\<close>

definition leave_loop :: "string \<Rightarrow> (nat \<times> nat \<Rightarrow> nat) \<Rightarrow> bool emits" where
  "leave_loop word target =
     do {
       Xvr_LLVMControlFlowClearError;
       loops \<leftarrow> inspect be_loops;
       if loops = [] then
         do {
           set_error_hint (word @ '' statement must be inside a loop'')
             (''place the '' @ quoted_word word @ '' statement inside a '' @ quoted_word ''while'' @ '' or '' @
               quoted_word ''for'' @ '' loop'');
           give False
         }
       else do { _ \<leftarrow> Xvr_LLVMIRBuilderCreateBr (target (last loops)); give True }
     }"

definition Xvr_LLVMControlFlowEmitBreak :: "bool emits" where
  "Xvr_LLVMControlFlowEmitBreak = leave_loop ''break'' fst"

definition Xvr_LLVMControlFlowEmitContinue :: "bool emits" where
  "Xvr_LLVMControlFlowEmitContinue = leave_loop ''continue'' snd"

section \<open>Conditions\<close>

fun emit_statements :: "(ast option \<Rightarrow> nat emits) \<Rightarrow> ast list \<Rightarrow> unit emits" where
  "emit_statements emit [] = give ()"
| "emit_statements emit (x # xs) = do { _ \<leftarrow> emit (Some x); emit_statements emit xs }"

fun emit_last :: "(ast option \<Rightarrow> nat emits) \<Rightarrow> ast list \<Rightarrow> nat emits" where
  "emit_last emit [] = give 0"
| "emit_last emit [x] = emit (Some x)"
| "emit_last emit (x # y # xs) = do { _ \<leftarrow> emit (Some x); emit_last emit (y # xs) }"

text \<open>The value of a path of an if expression: that of a block's last node.\<close>

definition emit_path :: "(ast option \<Rightarrow> nat emits) \<Rightarrow> ast option \<Rightarrow> nat emits" where
  "emit_path emit path =
     (case path of
        Some (NodeBlock (x # xs) c) \<Rightarrow> emit_last emit (x # xs)
      | _ \<Rightarrow> emit path)"

definition create_block :: "nat \<Rightarrow> string \<Rightarrow> nat emits" where
  "create_block fn name = Xvr_LLVMIRBuilderCreateBlockInFunction fn (Some name)"

definition null_or :: "nat \<Rightarrow> nat \<Rightarrow> nat emits" where
  "null_or t v = (if v \<noteq> 0 then give v else llvm ''LLVMConstNull'' [Ref t])"

definition add_incoming :: "nat \<Rightarrow> nat \<Rightarrow> nat \<Rightarrow> unit emits" where
  "add_incoming phi v block = do { _ \<leftarrow> llvm ''LLVMAddIncoming'' [Ref phi, Refs [v], Refs [block], Num 1]; give () }"

text \<open>The part of an if expression behind its condition: the two paths are emitted by the given computations.\<close>

definition emit_choice :: "nat \<Rightarrow> literal_type \<Rightarrow> nat \<Rightarrow> nat emits \<Rightarrow> nat emits \<Rightarrow> nat emits" where
  "emit_choice fn returnType condition then_path else_path =
     do {
       t \<leftarrow> Xvr_LLVMTypeMapperGetType returnType;
       then_block \<leftarrow> create_block fn ''then'';
       else_block \<leftarrow> create_block fn ''else'';
       merge_block \<leftarrow> create_block fn ''ifcont'';
       _ \<leftarrow> Xvr_LLVMIRBuilderCreateCondBr condition then_block else_block;
       Xvr_LLVMIRBuilderSetInsertPoint then_block;
       v \<leftarrow> then_path;
       _ \<leftarrow> Xvr_LLVMIRBuilderCreateBr merge_block;
       then_end \<leftarrow> Xvr_LLVMIRBuilderGetInsertBlock;
       Xvr_LLVMIRBuilderSetInsertPoint else_block;
       w \<leftarrow> else_path;
       _ \<leftarrow> Xvr_LLVMIRBuilderCreateBr merge_block;
       else_end \<leftarrow> Xvr_LLVMIRBuilderGetInsertBlock;
       Xvr_LLVMIRBuilderSetInsertPoint merge_block;
       v \<leftarrow> null_or t v;
       w \<leftarrow> null_or t w;
       phi \<leftarrow> llvm ''LLVMBuildPhi'' [Ref t, Text ''if_result''];
       add_incoming phi v then_end;
       add_incoming phi w else_end;
       alter (\<lambda>s. s\<lparr>be_last_result := phi\<rparr>);
       give phi
     }"

definition check_condition :: "string \<Rightarrow> string \<Rightarrow> nat \<Rightarrow> bool emits" where
  "check_condition what example v =
     (if v = 0 then do { flow_error (''failed to evaluate condition of '' @ what); give False }
      else do {
        ok \<leftarrow> is_boolean_type v;
        if ok then give True else do { not_boolean what example v; give False }
      })"

text \<open>An if expression; one in the else path is emitted in the same way, whether it is marked or not.\<close>

fun emit_if_expression :: "(ast option \<Rightarrow> nat emits) \<Rightarrow> ast option \<Rightarrow> nat emits" where
  "emit_if_expression emit (Some (NodeIf c t e r x)) =
     do {
       fn \<leftarrow> Xvr_LLVMFunctionEmitterGetCurrentFunction;
       if fn = 0 then give 0
       else do {
         v \<leftarrow> emit c;
         ok \<leftarrow> check_condition ''if expression'' ''x > 0'' v;
         if \<not> ok then give 0
         else emit_choice fn r v (emit_path emit t) (emit_if_expression emit e)
       }
     }"
| "emit_if_expression emit x = emit_path emit x"

text \<open>A path of a statement and the branch behind it, while the builder has a block.\<close>

definition emit_part :: "nat emits \<Rightarrow> nat \<Rightarrow> nat \<Rightarrow> unit emits" where
  "emit_part path block next_block =
     do {
       Xvr_LLVMIRBuilderSetInsertPoint block;
       _ \<leftarrow> path;
       here \<leftarrow> Xvr_LLVMIRBuilderGetInsertBlock;
       _ \<leftarrow> (if here \<noteq> 0 then Xvr_LLVMIRBuilderCreateBr next_block else give 0);
       give ()
     }"

definition Xvr_LLVMControlFlowEmitIf ::
    "(ast option \<Rightarrow> nat emits) \<Rightarrow> ast option \<Rightarrow> ast option \<Rightarrow> ast option \<Rightarrow> literal_type \<Rightarrow> bool \<Rightarrow> bool emits" where
  "Xvr_LLVMControlFlowEmitIf emit c t e r isExpression =
     do {
       Xvr_LLVMControlFlowClearError;
       if isExpression then
         do { v \<leftarrow> emit_if_expression emit (Some (NodeIf c t e r isExpression)); give (v \<noteq> 0) }
       else do {
         fn \<leftarrow> Xvr_LLVMFunctionEmitterGetCurrentFunction;
         if fn = 0 then do { flow_error ''internal error: no current function for if statement''; give False }
         else do {
           v \<leftarrow> emit c;
           ok \<leftarrow> check_condition ''if statement'' ''x > 0'' v;
           if \<not> ok then
             do { _ \<leftarrow> (if v \<noteq> 0 then llvm ''LLVMDisposeMessage'' [] else give 0); give False }
           else do {
             then_block \<leftarrow> create_block fn ''then'';
             else_block \<leftarrow> create_block fn ''else'';
             merge_block \<leftarrow> create_block fn ''ifcont'';
             _ \<leftarrow> Xvr_LLVMIRBuilderCreateCondBr v then_block else_block;
             emit_part (emit t) then_block merge_block;
             emit_part (emit e) else_block merge_block;
             Xvr_LLVMIRBuilderSetInsertPoint merge_block;
             give True
           }
         }
       }
     }"

section \<open>Loops\<close>

text \<open>The body of a loop under its targets, unless loops are nested too deeply.\<close>

definition emit_while_loop :: "(ast option \<Rightarrow> nat emits) \<Rightarrow> ast option \<Rightarrow> ast option \<Rightarrow> nat \<Rightarrow> bool emits" where
  "emit_while_loop emit c t fn =
     do {
       cond_block \<leftarrow> create_block fn ''while_cond'';
       body_block \<leftarrow> create_block fn ''while_body'';
       end_block \<leftarrow> create_block fn ''while_end'';
       Xvr_LLVMControlFlowPushLoopTarget end_block cond_block;
       _ \<leftarrow> Xvr_LLVMIRBuilderCreateBr cond_block;
       Xvr_LLVMIRBuilderSetInsertPoint cond_block;
       v \<leftarrow> emit c;
       ok \<leftarrow> check_condition ''while statement'' ''x > 0'' v;
       _ \<leftarrow> (if ok then
               do {
                 _ \<leftarrow> Xvr_LLVMIRBuilderCreateCondBr v body_block end_block;
                 emit_part (emit t) body_block cond_block;
                 Xvr_LLVMIRBuilderSetInsertPoint end_block
               }
             else give ());
       Xvr_LLVMControlFlowPopLoopTarget;
       give ok
     }"

definition enter_loop :: "string \<Rightarrow> (nat \<Rightarrow> bool emits) \<Rightarrow> bool emits" where
  "enter_loop word loop =
     do {
       Xvr_LLVMControlFlowClearError;
       fn \<leftarrow> Xvr_LLVMFunctionEmitterGetCurrentFunction;
       depth \<leftarrow> inspect (\<lambda>s. length (be_loops s));
       if fn = 0 then
         do { flow_error (''internal error: no current function for '' @ word @ '' statement''); give False }
       else if depth \<ge> MAX_LOOP_NESTING then
         do { flow_error (''maximum loop nesting depth ('' @ dec_nat MAX_LOOP_NESTING @ '') exceeded''); give False }
       else loop fn
     }"

definition Xvr_LLVMControlFlowEmitWhile :: "(ast option \<Rightarrow> nat emits) \<Rightarrow> ast option \<Rightarrow> ast option \<Rightarrow> bool emits" where
  "Xvr_LLVMControlFlowEmitWhile emit c t = enter_loop ''while'' (emit_while_loop emit c t)"

text \<open>A condition that has no value counts as true.\<close>

definition emit_for_loop ::
    "(ast option \<Rightarrow> nat emits) \<Rightarrow> ast option \<Rightarrow> ast option \<Rightarrow> ast option \<Rightarrow> ast option \<Rightarrow> nat \<Rightarrow> bool emits" where
  "emit_for_loop emit pre c post t fn =
     do {
       cond_block \<leftarrow> create_block fn ''for_cond'';
       body_block \<leftarrow> create_block fn ''for_body'';
       inc_block \<leftarrow> create_block fn ''for_inc'';
       end_block \<leftarrow> create_block fn ''for_end'';
       Xvr_LLVMControlFlowPushLoopTarget end_block inc_block;
       _ \<leftarrow> emit pre;
       _ \<leftarrow> Xvr_LLVMIRBuilderCreateBr cond_block;
       Xvr_LLVMIRBuilderSetInsertPoint cond_block;
       v \<leftarrow> emit c;
       ok \<leftarrow> (if v = 0 then give True else check_condition ''for statement'' ''i < 10'' v);
       _ \<leftarrow> (if ok then
               do {
                 v \<leftarrow> (if v \<noteq> 0 then give v else const_int int1_type 1 False);
                 _ \<leftarrow> Xvr_LLVMIRBuilderCreateCondBr v body_block end_block;
                 emit_part (emit t) body_block inc_block;
                 emit_part (emit post) inc_block cond_block;
                 Xvr_LLVMIRBuilderSetInsertPoint end_block
               }
             else give ());
       Xvr_LLVMControlFlowPopLoopTarget;
       give ok
     }"

definition Xvr_LLVMControlFlowEmitFor ::
    "(ast option \<Rightarrow> nat emits) \<Rightarrow> ast option \<Rightarrow> ast option \<Rightarrow> ast option \<Rightarrow> ast option \<Rightarrow> bool emits" where
  "Xvr_LLVMControlFlowEmitFor emit pre c post t = enter_loop ''for'' (emit_for_loop emit pre c post t)"

end
