(* ===== verification/LlvmEmitter.thy ===== *)
theory LlvmEmitter
  imports LlvmFlow
begin

text \<open>
  The emission of a node: Xvr_LLVMExpressionEmitterEmit of src/src/adapters/llvm/xvr_llvm_expression_emitter.cpp. One
  step emits a node with the emission of its parts as a parameter; the recursion is then bounded by the size of the
  node, which theory LlvmProps shows to be enough: a step without bound left sets \<open>be_unfinished\<close>, and none does. \<open>fresh\<close> is the contents of memory that was never written.
\<close>

section \<open>Variable declarations\<close>

definition declared_type :: "literal \<Rightarrow> literal_type" where
  "declared_type l = (case l of Type t c ss k \<Rightarrow> t | _ \<Rightarrow> XVR_LITERAL_INTEGER)"

text \<open>The elements of an array literal.\<close>

definition literal_elements :: "ast option \<Rightarrow> ast list option" where
  "literal_elements x =
     (case x of
        Some (NodeCompound t xs c) \<Rightarrow> if t = XVR_LITERAL_ARRAY \<or> t = XVR_LITERAL_ANY then Some xs else None
      | _ \<Rightarrow> None)"

definition array_create_type :: "nat emits" where
  "array_create_type = do { q \<leftarrow> pointer_to int32_type; function_type q [] False }"

definition array_insert_type :: "nat emits" where
  "array_insert_type =
     do {
       q \<leftarrow> pointer_to int32_type; i \<leftarrow> int32_type;
       r \<leftarrow> llvm ''LLVMVoidTypeInContext'' [];
       function_type r [q, i] False
     }"

text \<open>The insertion of the values that the elements have when they are emitted (again).\<close>

fun insert_elements :: "(ast option \<Rightarrow> nat emits) \<Rightarrow> nat \<Rightarrow> nat \<Rightarrow> nat \<Rightarrow> ast list \<Rightarrow> unit emits" where
  "insert_elements emit t f a [] = give ()"
| "insert_elements emit t f a (x # xs) =
     do {
       v \<leftarrow> emit (Some x);
       _ \<leftarrow> (if v \<noteq> 0 then build_call t f [a, v] [] else give 0);
       insert_elements emit t f a xs
     }"

definition create_array :: "(ast option \<Rightarrow> nat emits) \<Rightarrow> ast list \<Rightarrow> nat emits" where
  "create_array emit xs =
     do {
       (t, f) \<leftarrow> runtime_function ''xvr_array_create_int'' array_create_type;
       a \<leftarrow> build_call t f [] ''array_create'';
       _ \<leftarrow> (if xs = [] then give ()
             else do {
               f0 \<leftarrow> named_function ''xvr_array_insert_int'';
               (t0, g) \<leftarrow> (if f0 = 0 then
                   do { t \<leftarrow> array_insert_type; g \<leftarrow> add_function ''xvr_array_insert_int'' t; give (t, g) }
                 else do {
                   tf \<leftarrow> llvm_type_of f0;
                   t \<leftarrow> (if tf \<noteq> 0 then llvm ''LLVMGetElementType'' [Ref tf] else give 0);
                   give (t, f0)
                 });
               t \<leftarrow> (if t0 = 0 then array_insert_type else give t0);
               insert_elements emit t g a xs
             });
       give a
     }"

definition emit_declaration :: "(ast option \<Rightarrow> nat emits) \<Rightarrow> string \<Rightarrow> literal \<Rightarrow> ast option \<Rightarrow> unit emits" where
  "emit_declaration emit name typeLiteral expression =
     do {
       v0 \<leftarrow> emit expression;
       (let elements = (if v0 \<noteq> 0 then literal_elements expression else None);
            t = (if elements = None then declared_type typeLiteral else XVR_LITERAL_ARRAY);
            xs = (case elements of None \<Rightarrow> [] | Some xs \<Rightarrow> xs)
        in do {
          v \<leftarrow> (if t = XVR_LITERAL_ARRAY then create_array emit xs else give v0);
          at \<leftarrow> (if t = XVR_LITERAL_ARRAY then pointer_to int32_type
                 else if v \<noteq> 0 then llvm_type_of v else int32_type);
          p \<leftarrow> Xvr_LLVMIRBuilderCreateAlloca at (Some name);
          _ \<leftarrow> (if v \<noteq> 0 then Xvr_LLVMIRBuilderCreateStore v p else give 0);
          Xvr_LLVMFunctionEmitterAddLocalVar name p t (int (length xs))
        })
     }"

section \<open>Array literals and conditional expressions\<close>

definition emit_array :: "(ast option \<Rightarrow> nat emits) \<Rightarrow> ast list \<Rightarrow> nat emits" where
  "emit_array emit xs =
     (case xs of
        [] \<Rightarrow> give 0
      | x # ys \<Rightarrow>
          do {
            v \<leftarrow> emit (Some x);
            if v = 0 then give 0
            else do {
              t \<leftarrow> llvm_type_of v;
              k \<leftarrow> kind_of_type t;
              _ \<leftarrow> (if k = LLVMArrayTypeKind then give 0 else llvm ''LLVMArrayType'' [Ref t, Num (int (length xs))]);
              vs \<leftarrow> emit_all emit ys;
              case vs of
                None \<Rightarrow> give 0
              | Some ws \<Rightarrow> llvm ''LLVMConstArray'' [Ref t, Refs (v # ws), Num (int (length xs))]
            }
          })"

definition emit_ternary :: "(ast option \<Rightarrow> nat emits) \<Rightarrow> ast option \<Rightarrow> ast option \<Rightarrow> ast option \<Rightarrow> nat emits" where
  "emit_ternary emit c t e =
     (if c = None \<or> t = None \<or> e = None then give 0
      else do {
        condition \<leftarrow> emit c;
        ok \<leftarrow> is_boolean_type condition;
        if \<not> ok then give 0
        else do {
          v \<leftarrow> emit t;
          w \<leftarrow> emit e;
          fn \<leftarrow> Xvr_LLVMFunctionEmitterGetCurrentFunction;
          if v = 0 \<or> w = 0 \<or> fn = 0 then give 0
          else do {
            then_block \<leftarrow> append_block fn ''ternary_then'';
            else_block \<leftarrow> append_block fn ''ternary_else'';
            merge_block \<leftarrow> append_block fn ''ternary_cont'';
            _ \<leftarrow> llvm ''LLVMBuildCondBr'' [Ref condition, Ref then_block, Ref else_block];
            position_at_end then_block;
            _ \<leftarrow> llvm ''LLVMBuildBr'' [Ref merge_block];
            position_at_end else_block;
            _ \<leftarrow> llvm ''LLVMBuildBr'' [Ref merge_block];
            position_at_end merge_block;
            rt \<leftarrow> llvm_type_of v;
            phi \<leftarrow> llvm ''LLVMBuildPhi'' [Ref rt, Text ''ternary_result''];
            position_at_end then_block;
            add_incoming phi v then_block;
            position_at_end else_block;
            add_incoming phi w else_block;
            position_at_end merge_block;
            give phi
          }
        }
      })"

section \<open>Elements of arrays\<close>

definition array_get_type :: "nat emits" where
  "array_get_type =
     do { q \<leftarrow> pointer_to int32_type; i \<leftarrow> int32_type; r \<leftarrow> int32_type; function_type r [q, i] False }"

definition nested_element :: "(ast option \<Rightarrow> nat emits) \<Rightarrow> nat \<Rightarrow> ast option \<Rightarrow> nat emits" where
  "nested_element emit element third =
     do {
       i \<leftarrow> emit third;
       if i = 0 then give 0
       else do {
         t \<leftarrow> llvm_type_of element;
         p \<leftarrow> llvm ''LLVMBuildAlloca'' [Ref t, Text ''temp_elem''];
         _ \<leftarrow> llvm ''LLVMBuildStore'' [Ref element, Ref p];
         a \<leftarrow> loaded_array p ''temp_elem_ptr'';
         f0 \<leftarrow> named_function ''xvr_array_get_int'';
         (ft, f) \<leftarrow> (if f0 = 0 then
             do { t \<leftarrow> array_get_type; f \<leftarrow> add_function ''xvr_array_get_int'' t; give (t, f) }
           else do { tf \<leftarrow> llvm_type_of f0; t \<leftarrow> llvm ''LLVMGetElementType'' [Ref tf]; give (t, f0) });
         build_call ft f [a, i] ''nested_array_elem''
       }
     }"

definition element_of_variable ::
    "(ast option \<Rightarrow> nat emits) \<Rightarrow> string \<Rightarrow> ast option \<Rightarrow> ast option \<Rightarrow> nat emits" where
  "element_of_variable emit name second third =
     do {
       (p, t) \<leftarrow> Xvr_LLVMFunctionEmitterLookupVarWithType name;
       if p = 0 \<or> t \<noteq> XVR_LITERAL_ARRAY then give 0
       else do {
         i \<leftarrow> emit second;
         if i = 0 then give 0
         else do {
           pt \<leftarrow> llvm_type_of p;
           k \<leftarrow> (if pt \<noteq> 0 then kind_of_type pt else give 0);
           a \<leftarrow> (if pt \<noteq> 0 \<and> k = LLVMPointerTypeKind then loaded_array p ''array_ptr'' else give p);
           (ft, f) \<leftarrow> runtime_function ''xvr_array_get_int'' array_get_type;
           v \<leftarrow> build_call ft f [a, i] ''array_elem'';
           if third = None then give v else nested_element emit v third
         }
       }
     }"

definition element_of_pointer :: "nat \<Rightarrow> nat \<Rightarrow> nat \<Rightarrow> nat emits" where
  "element_of_pointer base t i =
     do {
       e \<leftarrow> llvm ''LLVMGetElementType'' [Ref t];
       if e = 0 then give 0
       else do {
         z \<leftarrow> const_int int32_type 0 False;
         p \<leftarrow> llvm ''LLVMBuildInBoundsGEP2'' [Ref e, Ref base, Refs [z, i], Num 2, Text ''array_idx''];
         ee \<leftarrow> llvm ''LLVMGetElementType'' [Ref e];
         Xvr_LLVMIRBuilderCreateLoad (if ee = 0 then e else ee) p (Some ''array_elem'')
       }
     }"

definition element_of_array :: "nat \<Rightarrow> nat \<Rightarrow> nat \<Rightarrow> nat emits" where
  "element_of_array base t i =
     do {
       e \<leftarrow> llvm ''LLVMGetElementType'' [Ref t];
       if e = 0 then give 0
       else do {
         a \<leftarrow> llvm ''LLVMBuildAlloca'' [Ref t, Text ''temp_array''];
         _ \<leftarrow> llvm ''LLVMBuildStore'' [Ref base, Ref a];
         _ \<leftarrow> const_int int32_type 0 False;
         p \<leftarrow> llvm ''LLVMBuildInBoundsGEP2'' [Ref e, Ref a, Refs [i], Num 1, Text ''array_idx''];
         Xvr_LLVMIRBuilderCreateLoad e p (Some ''array_elem'')
       }
     }"

definition emit_index :: "(ast option \<Rightarrow> nat emits) \<Rightarrow> ast option \<Rightarrow> ast option \<Rightarrow> ast option \<Rightarrow> nat emits" where
  "emit_index emit first second third =
     (if first = None \<or> second = None then give 0
      else (case named_node first of
        Some name \<Rightarrow> element_of_variable emit name second third
      | None \<Rightarrow>
          do {
            base \<leftarrow> emit first;
            if base = 0 then give 0
            else do {
              i \<leftarrow> emit second;
              if i = 0 then give 0
              else do {
                t \<leftarrow> llvm_type_of base;
                k \<leftarrow> kind_of_type t;
                if k = LLVMPointerTypeKind then element_of_pointer base t i else element_of_array base t i
              }
            }
          }))"

section \<open>Increments\<close>

text \<open>The old and the new value of a variable to which one is added or from which it is taken.\<close>

definition step_variable :: "string \<Rightarrow> string \<Rightarrow> literal \<Rightarrow> (nat \<times> nat) emits" where
  "step_variable f word l =
     (case identifier_text l of
        None \<Rightarrow> do { undefined_step; give (0, 0) }
      | Some None \<Rightarrow> give (0, 0)
      | Some (Some name) \<Rightarrow>
          do {
            (p, t) \<leftarrow> Xvr_LLVMFunctionEmitterLookupVarWithType name;
            if p = 0 then give (0, 0)
            else do {
              pt \<leftarrow> llvm_type_of p;
              a \<leftarrow> llvm ''LLVMGetAllocatedType'' [Ref p];
              e \<leftarrow> (if a \<noteq> 0 then give a else llvm ''LLVMGetElementType'' [Ref pt]);
              if e = 0 then give (0, 0)
              else do {
                old \<leftarrow> Xvr_LLVMIRBuilderCreateLoad e p (Some (word @ ''_old''));
                one \<leftarrow> const_int int32_type 1 False;
                new \<leftarrow> llvm f [Ref old, Ref one, Text (word @ ''_new'')];
                _ \<leftarrow> Xvr_LLVMIRBuilderCreateStore new p;
                give (old, new)
              }
            }
          })"

definition increment :: "literal \<Rightarrow> (nat \<times> nat) emits" where
  "increment = step_variable ''LLVMBuildAdd'' ''inc''"

definition decrement :: "literal \<Rightarrow> (nat \<times> nat) emits" where
  "decrement = step_variable ''LLVMBuildSub'' ''dec''"

section \<open>Nodes\<close>

definition emit_block :: "(ast option \<Rightarrow> nat emits) \<Rightarrow> ast list \<Rightarrow> nat emits" where
  "emit_block emit xs =
     (if xs = [] then give 0
      else do {
        Xvr_LLVMFunctionEmitterEnterScope;
        emit_statements emit xs;
        Xvr_LLVMFunctionEmitterExitScope;
        give 0
      })"

definition emit_node :: "(nat \<Rightarrow> char) \<Rightarrow> (ast option \<Rightarrow> nat emits) \<Rightarrow> ast \<Rightarrow> nat emits" where
  "emit_node fresh emit node =
     (case node of
        NodeLiteral l \<Rightarrow> Xvr_LLVMExpressionEmitterEmitLiteral l
      | NodeBinary op l r \<Rightarrow> Xvr_LLVMExpressionEmitterEmitBinary fresh emit op l r
      | NodeUnary op x \<Rightarrow> Xvr_LLVMExpressionEmitterEmitUnary emit op x
      | NodeFnCall args n \<Rightarrow> Xvr_LLVMExpressionEmitterEmitFnCall emit args
      | NodeCast l x \<Rightarrow> emit_cast_node emit l x
      | NodeIf c t e r isExpression \<Rightarrow> do { _ \<leftarrow> Xvr_LLVMControlFlowEmitIf emit c t e r isExpression; give 0 }
      | NodeWhile c t \<Rightarrow> do { _ \<leftarrow> Xvr_LLVMControlFlowEmitWhile emit c t; give 0 }
      | NodeFor pre c post t \<Rightarrow> do { _ \<leftarrow> Xvr_LLVMControlFlowEmitFor emit pre c post t; give 0 }
      | NodeBreak \<Rightarrow> do { _ \<leftarrow> Xvr_LLVMControlFlowEmitBreak; give 0 }
      | NodeContinue \<Rightarrow> do { _ \<leftarrow> Xvr_LLVMControlFlowEmitContinue; give 0 }
      | NodeBlock xs c \<Rightarrow> emit_block emit xs
      | NodeVarDecl l t x line \<Rightarrow>
          (case l of Ident name h \<Rightarrow> do { emit_declaration emit name t x; give 0 } | _ \<Rightarrow> give 0)
      | NodeCompound t xs c \<Rightarrow>
          if t = XVR_LITERAL_ARRAY \<or> t = XVR_LITERAL_ANY then emit_array emit xs else give 0
      | NodeTernary c t e \<Rightarrow> emit_ternary emit c t e
      | NodeGrouping x \<Rightarrow> emit x
      | NodeIndex first second third \<Rightarrow> emit_index emit first second third
      | NodePostfixIncrement l \<Rightarrow> do { (old, new) \<leftarrow> increment l; give old }
      | NodePostfixDecrement l \<Rightarrow> do { (old, new) \<leftarrow> decrement l; give old }
      | NodePrefixIncrement l \<Rightarrow> do { (old, new) \<leftarrow> increment l; give new }
      | NodePrefixDecrement l \<Rightarrow> do { (old, new) \<leftarrow> decrement l; give new }
      | _ \<Rightarrow> give 0)"

fun emit_upto :: "(nat \<Rightarrow> char) \<Rightarrow> nat \<Rightarrow> ast option \<Rightarrow> nat emits" where
  "emit_upto fresh n None = give 0"
| "emit_upto fresh 0 (Some node) = do { unfinished_step; give 0 }"
| "emit_upto fresh (Suc n) (Some node) = emit_node fresh (emit_upto fresh n) node"

definition Xvr_LLVMExpressionEmitterEmit :: "(nat \<Rightarrow> char) \<Rightarrow> ast option \<Rightarrow> nat emits" where
  "Xvr_LLVMExpressionEmitterEmit fresh node =
     emit_upto fresh (case node of None \<Rightarrow> 0 | Some x \<Rightarrow> Suc (size x)) node"

end
