(* ===== verification/LlvmTarget.thy ===== *)
theory LlvmTarget
  imports LlvmState
begin

text \<open>
  The target of the code generator and its optimiser: the configuration, the target machine and the output files
  (src/src/adapters/llvm/xvr_llvm_target.cpp, xvr_asm_config.cpp) and the run of LLVM's passes
  (xvr_llvm_optimizer.cpp). The functions of the C library for files and processes are called like those of LLVM;
  a file that was opened is a number, 0 for NULL. A target is known by the triple that it was found by.
\<close>

section \<open>Assembler syntax\<close>

definition Xvr_AsmSyntaxToString :: "asm_syntax \<Rightarrow> string" where
  "Xvr_AsmSyntaxToString s = (case s of XVR_ASM_SYNTAX_INTEL \<Rightarrow> ''intel'' | XVR_ASM_SYNTAX_ATT \<Rightarrow> ''att'')"

definition Xvr_AsmSyntaxFromString :: "string option \<Rightarrow> asm_syntax" where
  "Xvr_AsmSyntaxFromString s =
     (case s of None \<Rightarrow> XVR_ASM_SYNTAX_INTEL
      | Some t \<Rightarrow> if t = ''intel'' then XVR_ASM_SYNTAX_INTEL
          else if t = ''att'' then XVR_ASM_SYNTAX_ATT else XVR_ASM_SYNTAX_INTEL)"

record asm_config =
  ac_syntax :: asm_syntax
  ac_verbose :: bool

definition Xvr_AsmConfigCreate :: asm_config where
  "Xvr_AsmConfigCreate = \<lparr>ac_syntax = XVR_ASM_SYNTAX_INTEL, ac_verbose = False\<rparr>"

definition Xvr_AsmConfigSetSyntax :: "asm_config option \<Rightarrow> asm_syntax \<Rightarrow> asm_config option" where
  "Xvr_AsmConfigSetSyntax config s = map_option (\<lambda>c. c\<lparr>ac_syntax := s\<rparr>) config"

definition Xvr_AsmConfigGetSyntax :: "asm_config option \<Rightarrow> asm_syntax" where
  "Xvr_AsmConfigGetSyntax config = (case config of None \<Rightarrow> XVR_ASM_SYNTAX_INTEL | Some c \<Rightarrow> ac_syntax c)"

definition Xvr_AsmConfigSetVerbose :: "asm_config option \<Rightarrow> bool \<Rightarrow> asm_config option" where
  "Xvr_AsmConfigSetVerbose config v = map_option (\<lambda>c. c\<lparr>ac_verbose := v\<rparr>) config"

definition Xvr_AsmConfigIsVerbose :: "asm_config option \<Rightarrow> bool" where
  "Xvr_AsmConfigIsVerbose config = (case config of None \<Rightarrow> False | Some c \<Rightarrow> ac_verbose c)"

section \<open>Configuration\<close>

datatype emit_type = XVR_EMIT_OBJECT | XVR_EMIT_ASM | XVR_EMIT_LLVM_IR

definition Xvr_EmitTypeFromString :: "string option \<Rightarrow> emit_type" where
  "Xvr_EmitTypeFromString s =
     (if s = Some ''asm'' then XVR_EMIT_ASM else if s = Some ''llvm-ir'' then XVR_EMIT_LLVM_IR else XVR_EMIT_OBJECT)"

text \<open>\<open>(Xvr_EmitType)filetype\<close>: other numbers fall under the default of the switch, as objects.\<close>

definition emit_type_of :: "nat \<Rightarrow> emit_type" where
  "emit_type_of n = (if n = 1 then XVR_EMIT_ASM else if n = 2 then XVR_EMIT_LLVM_IR else XVR_EMIT_OBJECT)"

definition Xvr_LLVMTargetConfigCreate :: target_config where
  "Xvr_LLVMTargetConfigCreate =
     \<lparr>tc_triple = None, tc_cpu = None, tc_features = None, tc_reloc = None, tc_code_model = None,
      tc_asm_syntax = XVR_ASM_SYNTAX_INTEL\<rparr>"

text \<open>NULL leaves a field as it is and gives false.\<close>

definition set_string_field ::
    "((string option \<Rightarrow> string option) \<Rightarrow> target_config \<Rightarrow> target_config) \<Rightarrow> string option \<Rightarrow> target_config \<Rightarrow> bool \<times> target_config" where
  "set_string_field update v config = (case v of None \<Rightarrow> (False, config) | Some t \<Rightarrow> (True, update (\<lambda>_. Some t) config))"

definition Xvr_LLVMTargetConfigSetTriple :: "string option \<Rightarrow> target_config \<Rightarrow> bool \<times> target_config" where
  "Xvr_LLVMTargetConfigSetTriple = set_string_field tc_triple_update"

definition Xvr_LLVMTargetConfigSetCPU :: "string option \<Rightarrow> target_config \<Rightarrow> bool \<times> target_config" where
  "Xvr_LLVMTargetConfigSetCPU = set_string_field tc_cpu_update"

definition Xvr_LLVMTargetConfigSetFeatures :: "string option \<Rightarrow> target_config \<Rightarrow> bool \<times> target_config" where
  "Xvr_LLVMTargetConfigSetFeatures = set_string_field tc_features_update"

definition Xvr_LLVMTargetConfigSetReloc :: "string option \<Rightarrow> target_config \<Rightarrow> bool \<times> target_config" where
  "Xvr_LLVMTargetConfigSetReloc = set_string_field tc_reloc_update"

definition Xvr_LLVMTargetConfigSetCodeModel :: "string option \<Rightarrow> target_config \<Rightarrow> bool \<times> target_config" where
  "Xvr_LLVMTargetConfigSetCodeModel = set_string_field tc_code_model_update"

definition Xvr_LLVMTargetConfigSetAsmSyntax :: "asm_syntax \<Rightarrow> target_config \<Rightarrow> bool \<times> target_config" where
  "Xvr_LLVMTargetConfigSetAsmSyntax s config = (True, config\<lparr>tc_asm_syntax := s\<rparr>)"

definition Xvr_LLVMTargetConfigGetAsmSyntax :: "target_config \<Rightarrow> asm_syntax" where
  "Xvr_LLVMTargetConfigGetAsmSyntax config = tc_asm_syntax config"

section \<open>The target machine\<close>

definition initialize_targets :: "unit emits" where
  "initialize_targets =
     do {
       _ \<leftarrow> llvm ''LLVMInitializeAllTargetInfos'' [];
       _ \<leftarrow> llvm ''LLVMInitializeAllTargets'' [];
       _ \<leftarrow> llvm ''LLVMInitializeAllTargetMCs'' [];
       _ \<leftarrow> llvm ''LLVMInitializeAllAsmPrinters'' [];
       _ \<leftarrow> llvm ''LLVMInitializeAllAsmParsers'' [];
       give ()
     }"

text \<open>A target for a triple. LLVM returns 0 for success; the code takes that for failure when the triple is given, and goes
  on with a target that was not set, which is then read.\<close>

definition default_triple :: string where
  "default_triple = ''x86_64-pc-linux-gnu''"

definition target_lookup :: "string \<Rightarrow> nat emits" where
  "target_lookup triple = llvm ''LLVMGetTargetFromTriple'' [Text triple]"

definition choose_target :: "target_config \<Rightarrow> string option emits" where
  "choose_target config =
     do {
       initialize_targets;
       case tc_triple config of
         None \<Rightarrow>
           do {
             name \<leftarrow> llvm_string ''LLVMGetDefaultTargetTriple'' [];
             failed \<leftarrow> target_lookup (or_default [] name);
             again \<leftarrow> (if failed = 0 then give 0 else target_lookup default_triple);
             _ \<leftarrow> llvm ''LLVMDisposeMessage'' [];
             give (if failed = 0 then Some (or_default [] name) else if again = 0 then Some default_triple else None)
           }
       | Some triple \<Rightarrow>
           do {
             failed \<leftarrow> target_lookup triple;
             if failed = 0 then give None
             else do { undefined_step; give (Some triple) }
           }
     }"

definition reloc_mode :: "string \<Rightarrow> string" where
  "reloc_mode reloc =
     (if reloc = ''PIC'' then ''LLVMRelocPIC'' else if reloc = ''Static'' then ''LLVMRelocStatic'' else ''LLVMRelocDefault'')"

definition code_model_of :: "string \<Rightarrow> string" where
  "code_model_of model =
     (if model = ''small'' then ''LLVMCodeModelSmall'' else if model = ''kernel'' then ''LLVMCodeModelKernel''
      else if model = ''medium'' then ''LLVMCodeModelMedium'' else if model = ''large'' then ''LLVMCodeModelLarge''
      else ''LLVMCodeModelJITDefault'')"

text \<open>The machine, 0 for none.\<close>

definition Xvr_LLVMTargetMachineCreate :: "target_config \<Rightarrow> nat emits" where
  "Xvr_LLVMTargetMachineCreate config =
     do {
       chosen \<leftarrow> choose_target config;
       case chosen of
         None \<Rightarrow> give 0
       | Some t \<Rightarrow>
           llvm ''LLVMCreateTargetMachine''
             [Text t, Text (or_default default_triple (tc_triple config)), Text (or_default ''generic'' (tc_cpu config)),
              Text (or_default [] (tc_features config)), Text ''LLVMCodeGenLevelDefault'',
              Text (reloc_mode (or_default ''default'' (tc_reloc config))),
              Text (code_model_of (or_default ''jitdefault'' (tc_code_model config)))]
     }"

section \<open>Output files\<close>

text \<open>The text of the module in a file.\<close>

definition write_text :: "string \<Rightarrow> bool emits" where
  "write_text path =
     do {
       ir \<leftarrow> llvm_string ''LLVMPrintModuleToString'' [];
       case ir of
         None \<Rightarrow> give False
       | Some text \<Rightarrow>
           do {
             f \<leftarrow> llvm ''fopen'' [Text path, Text ''w''];
             if f = 0 then do { _ \<leftarrow> llvm ''LLVMDisposeMessage'' []; give False }
             else do {
               _ \<leftarrow> llvm ''fputs'' [Text text, Ref f];
               _ \<leftarrow> llvm ''fclose'' [Ref f];
               _ \<leftarrow> llvm ''LLVMDisposeMessage'' [];
               give True
             }
           }
     }"

text \<open>Assembler in Intel's syntax is made by \<open>llc\<close>, which a shell starts, from the text of the module.\<close>

definition assemble :: "string \<Rightarrow> bool emits" where
  "assemble filename =
     do {
       (let ir_file = take 511 (filename @ ''.ll'')
        in do {
          written \<leftarrow> write_text ir_file;
          if \<not> written then give False
          else do {
            rc \<leftarrow> llvm ''system'' [Text (take 1023 (''llc --x86-asm-syntax=intel -o '' @ filename @ '' '' @ ir_file))];
            _ \<leftarrow> llvm ''remove'' [Text ir_file];
            give (rc = 0)
          }
        })
     }"

definition machine_to_file :: "nat \<Rightarrow> string \<Rightarrow> string \<Rightarrow> bool emits" where
  "machine_to_file machine filename kind =
     do {
       failed \<leftarrow> llvm ''LLVMTargetMachineEmitToFile'' [Ref machine, Text filename, Text kind];
       give (failed = 0)
     }"

definition Xvr_LLVMTargetMachineEmitToFile :: "string \<Rightarrow> nat \<Rightarrow> bool emits" where
  "Xvr_LLVMTargetMachineEmitToFile filename filetype =
     do {
       machine \<leftarrow> inspect be_target_machine;
       config \<leftarrow> inspect be_target_config;
       if emit_type_of filetype = XVR_EMIT_ASM \<and> Xvr_LLVMTargetConfigGetAsmSyntax config = XVR_ASM_SYNTAX_INTEL
       then assemble filename
       else (case emit_type_of filetype of
               XVR_EMIT_ASM \<Rightarrow> machine_to_file machine filename ''LLVMAssemblyFile''
             | XVR_EMIT_LLVM_IR \<Rightarrow> write_text filename
             | XVR_EMIT_OBJECT \<Rightarrow> machine_to_file machine filename ''LLVMObjectFile'')
     }"

definition Xvr_LLVMTargetMachineGetDefaultTargetTriple :: string where
  "Xvr_LLVMTargetMachineGetDefaultTargetTriple = default_triple"

definition Xvr_LLVMTargetMachineGetDefaultCPU :: string where
  "Xvr_LLVMTargetMachineGetDefaultCPU = ''generic''"

section \<open>The optimiser\<close>

definition Xvr_LLVMOptimizerSetLevel :: "optimization_level \<Rightarrow> bool emits" where
  "Xvr_LLVMOptimizerSetLevel level = do { alter (\<lambda>s. s\<lparr>be_level := level\<rparr>); give True }"

definition Xvr_LLVMOptimizerSetTargetMachine :: "nat \<Rightarrow> bool emits" where
  "Xvr_LLVMOptimizerSetTargetMachine tm = do { alter (\<lambda>s. s\<lparr>be_level_machine := tm\<rparr>); give True }"

definition get_pass_pipeline :: "optimization_level \<Rightarrow> string" where
  "get_pass_pipeline level =
     (case level of
        XVR_LLVM_OPT_NONE \<Rightarrow> []
      | XVR_LLVM_OPT_LEGACY \<Rightarrow> ''default<O1>''
      | XVR_LLVM_OPT_O1 \<Rightarrow> ''default<O1>''
      | XVR_LLVM_OPT_O2 \<Rightarrow> ''default<O2>''
      | XVR_LLVM_OPT_O3 \<Rightarrow> ''default<O3>''
      | XVR_LLVM_OPT_OS \<Rightarrow> ''default<Os>''
      | XVR_LLVM_OPT_OZ \<Rightarrow> ''default<Oz>'')"

text \<open>A machine of the optimiser's own: once it was made it is destroyed, with its configuration twice, and used.\<close>

definition own_machine :: "nat emits" where
  "own_machine =
     do {
       tm \<leftarrow> Xvr_LLVMTargetMachineCreate
         (Xvr_LLVMTargetConfigCreate\<lparr>tc_triple := Some default_triple, tc_reloc := Some ''PIC'',
            tc_code_model := Some ''jitdefault''\<rparr>);
       _ \<leftarrow> (if tm \<noteq> 0 then do { undefined_step; llvm ''LLVMDisposeTargetMachine'' [Ref tm] } else give 0);
       give tm
     }"

definition run_llvm_passes :: "string \<Rightarrow> nat \<Rightarrow> bool emits" where
  "run_llvm_passes pipeline tm =
     do {
       opts \<leftarrow> llvm ''LLVMCreatePassBuilderOptions'' [];
       if opts = 0 then give False
       else do {
         _ \<leftarrow> llvm ''LLVMPassBuilderOptionsSetVerifyEach'' [Ref opts, Num 0];
         _ \<leftarrow> llvm ''LLVMPassBuilderOptionsSetDebugLogging'' [Ref opts, Num 0];
         _ \<leftarrow> llvm ''LLVMPassBuilderOptionsSetLoopInterleaving'' [Ref opts, Num 1];
         _ \<leftarrow> llvm ''LLVMPassBuilderOptionsSetLoopVectorization'' [Ref opts, Num 0];
         _ \<leftarrow> llvm ''LLVMPassBuilderOptionsSetSLPVectorization'' [Ref opts, Num 0];
         _ \<leftarrow> llvm ''LLVMPassBuilderOptionsSetLoopUnrolling'' [Ref opts, Num 1];
         _ \<leftarrow> llvm ''LLVMPassBuilderOptionsSetMergeFunctions'' [Ref opts, Num 0];
         _ \<leftarrow> llvm ''LLVMPassBuilderOptionsSetCallGraphProfile'' [Ref opts, Num 0];
         _ \<leftarrow> llvm ''LLVMPassBuilderOptionsSetInlinerThreshold'' [Ref opts, Num 225];
         err \<leftarrow> llvm ''LLVMRunPasses'' [Text pipeline, Ref tm, Ref opts];
         _ \<leftarrow> llvm ''LLVMDisposePassBuilderOptions'' [Ref opts];
         if err \<noteq> 0 then
           do {
             _ \<leftarrow> llvm_string ''LLVMGetErrorMessage'' [Ref err];
             _ \<leftarrow> llvm ''LLVMConsumeError'' [Ref err];
             give False
           }
         else give True
       }
     }"

definition Xvr_LLVMOptimizerRun :: "bool emits" where
  "Xvr_LLVMOptimizerRun =
     do {
       level \<leftarrow> inspect be_level;
       if get_pass_pipeline level = [] then give True
       else do {
         own \<leftarrow> inspect be_level_machine;
         tm \<leftarrow> (if own \<noteq> 0 then give own else own_machine);
         if tm = 0 then give False else run_llvm_passes (get_pass_pipeline level) tm
       }
     }"

definition Xvr_LLVMOptimizerAddPass :: "string \<Rightarrow> bool" where
  "Xvr_LLVMOptimizerAddPass pass_name = False"

definition Xvr_LLVMOptimizerAddStandardPasses :: bool where
  "Xvr_LLVMOptimizerAddStandardPasses = True"

end
