(* ===== verification/LlvmCodegen.thy ===== *)
theory LlvmCodegen
  imports LlvmEmitter LlvmTarget Modules
begin

text \<open>
  Functions and programs: xvr_llvm_function_emitter.cpp and xvr_llvm_codegen.cpp of src/src/adapters/llvm. The nodes
  of imported modules come from theory Modules; a module may import itself, so the emission of a program takes
  fuel.
\<close>

section \<open>Functions\<close>

definition literal_type_name :: "literal_type \<Rightarrow> string" where
  "literal_type_name t =
     (case t of
        XVR_LITERAL_INTEGER \<Rightarrow> ''int'' | XVR_LITERAL_INT8 \<Rightarrow> ''int8'' | XVR_LITERAL_INT16 \<Rightarrow> ''int16''
      | XVR_LITERAL_INT32 \<Rightarrow> ''int32'' | XVR_LITERAL_INT64 \<Rightarrow> ''int64'' | XVR_LITERAL_UINT8 \<Rightarrow> ''uint8''
      | XVR_LITERAL_UINT16 \<Rightarrow> ''uint16'' | XVR_LITERAL_UINT32 \<Rightarrow> ''uint32'' | XVR_LITERAL_UINT64 \<Rightarrow> ''uint64''
      | XVR_LITERAL_FLOAT \<Rightarrow> ''float'' | XVR_LITERAL_FLOAT16 \<Rightarrow> ''float16'' | XVR_LITERAL_FLOAT32 \<Rightarrow> ''float32''
      | XVR_LITERAL_FLOAT64 \<Rightarrow> ''float64'' | XVR_LITERAL_BOOLEAN \<Rightarrow> ''bool'' | XVR_LITERAL_STRING \<Rightarrow> ''string''
      | XVR_LITERAL_ARRAY \<Rightarrow> ''array'' | XVR_LITERAL_DICTIONARY \<Rightarrow> ''dict'' | XVR_LITERAL_VOID \<Rightarrow> ''void''
      | XVR_LITERAL_ANY \<Rightarrow> ''any'' | _ \<Rightarrow> ''unknown'')"

definition name_of_kind :: "nat \<Rightarrow> string emits" where
  "name_of_kind t =
     do {
       k \<leftarrow> kind_of_type t;
       if k = LLVMIntegerTypeKind then give ''int''
       else do {
         k \<leftarrow> kind_of_type t;
         if k = LLVMFloatTypeKind then give ''float''
         else do { k \<leftarrow> kind_of_type t; give (if k = LLVMPointerTypeKind then ''ptr'' else ''void'') }
       }
     }"

definition quoted_name :: "string \<Rightarrow> string" where
  "quoted_name s = [CHR 0x27] @ s @ [CHR 0x27]"

definition check_return_type_compatibility :: "nat \<Rightarrow> nat \<Rightarrow> string \<Rightarrow> bool emits" where
  "check_return_type_compatibility expected v fn_name =
     (if v = 0 then give True
      else do {
        actual \<leftarrow> llvm_type_of v;
        expected_kind \<leftarrow> kind_of_type expected;
        actual_kind \<leftarrow> kind_of_type actual;
        if expected_kind = LLVMVoidTypeKind \<or> expected_kind = actual_kind then give True
        else do {
          e \<leftarrow> name_of_kind expected;
          a \<leftarrow> name_of_kind actual;
          Xvr_LLVMContextSetError (Some (take 511 (''function '' @ quoted_name fn_name @
            '': return type mismatch: expected '' @ quoted_name e @ '', got '' @ quoted_name a)));
          give False
        }
      })"

text \<open>The declared type: the LLVM type and whether it is void, or None after an error.\<close>

definition declared_return :: "ast option \<Rightarrow> literal_type option" where
  "declared_return returns =
     (case returns of
        Some (NodeFnCollection (NodeLiteral (Type t c ss k) # xs) n) \<Rightarrow> Some t
      | _ \<Rightarrow> None)"

definition return_type :: "ast option \<Rightarrow> (nat \<times> bool) option emits" where
  "return_type returns =
     do {
       i \<leftarrow> int32_type;
       case declared_return returns of
         None \<Rightarrow> give (Some (i, False))
       | Some t \<Rightarrow>
           if t = XVR_LITERAL_VOID then do { v \<leftarrow> llvm ''LLVMVoidTypeInContext'' []; give (Some (v, True)) }
           else if t = XVR_LITERAL_ANY then do { j \<leftarrow> int32_type; give (Some (j, False)) }
           else do {
             u \<leftarrow> Xvr_LLVMTypeMapperGetType t;
             if u = 0 then
               do { Xvr_LLVMContextSetError (Some (take 255 (''unsupported return type: '' @ literal_type_name t))); give None }
             else give (Some (u, False))
           }
     }"

text \<open>The parameters of the first 32 arguments: name, declared type and LLVM type.\<close>

fun parameters :: "ast list \<Rightarrow> (string \<times> literal_type \<times> nat) list emits" where
  "parameters [] = give []"
| "parameters (NodeVarDecl l t x line # xs) =
     do {
       (let name = (case l of Ident s h \<Rightarrow> s | _ \<Rightarrow> ''arg'');
            declared = (case t of Type u c ss k \<Rightarrow> u | _ \<Rightarrow> XVR_LITERAL_ANY)
        in do {
          u \<leftarrow> Xvr_LLVMTypeMapperGetType declared;
          v \<leftarrow> (if u = 0 then int32_type else give u);
          ps \<leftarrow> parameters xs;
          give ((name, declared, v) # ps)
        })
     }"
| "parameters (x # xs) = parameters xs"

definition parameter_nodes :: "ast option \<Rightarrow> ast list" where
  "parameter_nodes arguments = (case arguments of Some (NodeFnCollection xs c) \<Rightarrow> take 32 xs | _ \<Rightarrow> [])"

text \<open>The parameters as variables of the function.\<close>

fun store_parameters :: "nat \<Rightarrow> nat \<Rightarrow> (string \<times> literal_type \<times> nat) list \<Rightarrow> unit emits" where
  "store_parameters fn i [] = give ()"
| "store_parameters fn i ((name, declared, t) # ps) =
     do {
       p \<leftarrow> llvm ''LLVMGetParam'' [Ref fn, Num (int i)];
       _ \<leftarrow> llvm ''LLVMSetValueName'' [Ref p, Text name];
       pt \<leftarrow> llvm_type_of p;
       a \<leftarrow> Xvr_LLVMIRBuilderCreateAlloca pt (Some name);
       _ \<leftarrow> Xvr_LLVMIRBuilderCreateStore p a;
       add_local_var name a declared 0;
       store_parameters fn (Suc i) ps
     }"

text \<open>The value of a return statement: the value before when the statement has none. None is an error.\<close>

definition emit_return :: "(ast option \<Rightarrow> nat emits) \<Rightarrow> nat \<Rightarrow> bool \<Rightarrow> string \<Rightarrow> ast option \<Rightarrow> nat \<Rightarrow> nat option emits" where
  "emit_return emit t is_void fn_name returns so_far =
     do {
       v \<leftarrow> (case returns of
               None \<Rightarrow> give so_far
             | Some (NodeFnCollection [] c) \<Rightarrow> give so_far
             | Some (NodeFnCollection (x # xs) c) \<Rightarrow> emit (Some x)
             | Some x \<Rightarrow> emit (Some x));
       failed \<leftarrow> (if returns = None then give False else Xvr_LLVMContextHasError);
       if failed then give None
       else if is_void \<and> v \<noteq> 0 then
         do { Xvr_LLVMContextSetError (Some ''void function cannot return a value''); give None }
       else do {
         ok \<leftarrow> check_return_type_compatibility t v fn_name;
         give (if ok then Some v else None)
       }
     }"

text \<open>The value of a last statement, which is returned when its type is of the kind of the function's.\<close>

definition emit_implicit :: "(ast option \<Rightarrow> nat emits) \<Rightarrow> nat \<Rightarrow> bool \<Rightarrow> ast \<Rightarrow> nat \<Rightarrow> nat option emits" where
  "emit_implicit emit t is_void x so_far =
     do {
       v \<leftarrow> emit (Some x);
       failed \<leftarrow> Xvr_LLVMContextHasError;
       if failed then give None
       else if v = 0 then give (Some so_far)
       else do {
         vt \<leftarrow> llvm_type_of v;
         k \<leftarrow> kind_of_type vt;
         rk \<leftarrow> kind_of_type t;
         give (Some (if k = rk \<and> \<not> is_void then v else so_far))
       }
     }"

text \<open>The statements of the body, with the value to return and whether a return statement was seen.\<close>

fun emit_body :: "(ast option \<Rightarrow> nat emits) \<Rightarrow> nat \<Rightarrow> bool \<Rightarrow> string \<Rightarrow> ast list \<Rightarrow> nat \<Rightarrow> bool \<Rightarrow> (nat \<times> bool) option emits" where
  "emit_body emit t is_void fn_name [] v seen = give (Some (v, seen))"
| "emit_body emit t is_void fn_name (x # xs) v seen =
     (case x of
        NodeFnReturn returns \<Rightarrow>
          do {
            r \<leftarrow> emit_return emit t is_void fn_name returns v;
            case r of None \<Rightarrow> give None | Some w \<Rightarrow> emit_body emit t is_void fn_name xs w True
          }
      | _ \<Rightarrow>
          if xs = [] \<and> \<not> seen then
            do {
              r \<leftarrow> emit_implicit emit t is_void x v;
              give (map_option (\<lambda>w. (w, seen)) r)
            }
          else do {
            _ \<leftarrow> emit (Some x);
            failed \<leftarrow> Xvr_LLVMContextHasError;
            if failed then give None else emit_body emit t is_void fn_name xs v seen
          })"

text \<open>The end of a function. A return statement without a value in a function that is not void ends it without a
  terminator.\<close>

definition end_function :: "bool \<Rightarrow> string \<Rightarrow> nat \<Rightarrow> bool \<Rightarrow> bool emits" where
  "end_function is_void fn_name v seen =
     (if is_void then
        (if v \<noteq> 0 then do { Xvr_LLVMContextSetError (Some ''void function cannot return a value''); give False }
         else do { _ \<leftarrow> llvm ''LLVMBuildRetVoid'' []; give True })
      else if v = 0 then
        (if seen then give True
         else do {
           Xvr_LLVMContextSetError (Some (take 511 (''function '' @ quoted_name fn_name @ '': missing return statement'')));
           give False
         })
      else do { _ \<leftarrow> llvm ''LLVMBuildRet'' [Ref v]; give True })"

definition start_function :: "string \<Rightarrow> nat \<Rightarrow> (string \<times> literal_type \<times> nat) list \<Rightarrow> unit emits" where
  "start_function fn_name t ps =
     do {
       ft \<leftarrow> function_type t (map (\<lambda>(name, declared, u). u) ps) False;
       fn \<leftarrow> add_function fn_name ft;
       Xvr_LLVMModuleManagerRegisterFunctionType fn_name ft;
       Xvr_LLVMFunctionEmitterSetCurrentFunction fn;
       entry \<leftarrow> append_block fn ''entry'';
       Xvr_LLVMIRBuilderSetInsertPoint entry;
       store_parameters fn 0 ps
     }"

definition emit_function_body ::
    "(ast option \<Rightarrow> nat emits) \<Rightarrow> literal \<Rightarrow> ast option \<Rightarrow> ast option \<Rightarrow> ast option \<Rightarrow> bool emits" where
  "emit_function_body emit l arguments returns block =
     (case block of
        None \<Rightarrow> do { Xvr_LLVMContextSetError (Some ''function has no body''); give False }
      | Some b \<Rightarrow>
          do {
            clear_local_vars;
            rt \<leftarrow> return_type returns;
            case rt of
              None \<Rightarrow> give False
            | Some (t, is_void) \<Rightarrow>
                do {
                  ps \<leftarrow> parameters (parameter_nodes arguments);
                  case (b, identifier_text l) of
                    (NodeBlock xs c, Some name) \<Rightarrow>
                      (let fn_name = or_default ''xvr_fn'' name
                       in do {
                         start_function fn_name t ps;
                         r \<leftarrow> emit_body emit t is_void fn_name xs 0 False;
                         case r of None \<Rightarrow> give False | Some (v, seen) \<Rightarrow> end_function is_void fn_name v seen
                       })
                  | _ \<Rightarrow> do { undefined_step; give False }
                }
          })"

definition Xvr_LLVMFunctionEmitterEmit :: "(ast option \<Rightarrow> nat emits) \<Rightarrow> ast option \<Rightarrow> bool emits" where
  "Xvr_LLVMFunctionEmitterEmit emit fn_decl =
     (case fn_decl of
        Some (NodeFnDecl l arguments returns block line) \<Rightarrow> emit_function_body emit l arguments returns block
      | _ \<Rightarrow> give False)"

fun emit_functions :: "(ast option \<Rightarrow> nat emits) \<Rightarrow> ast list \<Rightarrow> bool emits" where
  "emit_functions emit [] = give True"
| "emit_functions emit (x # xs) =
     do {
       ok \<leftarrow> Xvr_LLVMFunctionEmitterEmit emit (Some x);
       if ok then emit_functions emit xs else give False
     }"

definition Xvr_LLVMFunctionEmitterEmitCollection :: "(ast option \<Rightarrow> nat emits) \<Rightarrow> ast option \<Rightarrow> bool emits" where
  "Xvr_LLVMFunctionEmitterEmitCollection emit fn_collection =
     (case fn_collection of Some (NodeFnCollection xs c) \<Rightarrow> emit_functions emit xs | _ \<Rightarrow> give False)"

section \<open>The main function\<close>

definition position_in :: "nat \<Rightarrow> unit emits" where
  "position_in fn = do { entry \<leftarrow> append_block fn ''entry''; position_at_end entry }"

text \<open>Whether the builder was already in \<open>main\<close>, in which case nothing else is done.\<close>

definition enter_main :: "nat \<Rightarrow> bool emits" where
  "enter_main fn =
     do {
       entry \<leftarrow> llvm ''LLVMGetEntryBasicBlock'' [Ref fn];
       if entry = 0 then do { position_in fn; give False }
       else do {
         current \<leftarrow> Xvr_LLVMIRBuilderGetInsertBlock;
         parent \<leftarrow> (if current \<noteq> 0 then llvm ''LLVMGetBasicBlockParent'' [Ref current] else give 0);
         if current \<noteq> 0 \<and> parent = fn then give True
         else do {
           block_parent \<leftarrow> llvm ''LLVMGetBasicBlockParent'' [Ref entry];
           block \<leftarrow> (if block_parent = 0 then append_block fn ''entry'' else give entry);
           position_at_end block;
           give False
         }
       }
     }"

definition ensure_main_function :: "bool emits" where
  "ensure_main_function =
     do {
       f0 \<leftarrow> named_function ''main'';
       (fn, inside) \<leftarrow>
         (if f0 = 0 then
            do {
              i \<leftarrow> int32_type;
              t \<leftarrow> function_type i [] False;
              _ \<leftarrow> add_function ''main'' t;
              fn \<leftarrow> named_function ''main'';
              position_in fn;
              give (fn, False)
            }
          else do { inside \<leftarrow> enter_main f0; give (f0, inside) });
       _ \<leftarrow> (if inside then give ()
             else do {
               Xvr_LLVMFunctionEmitterSetCurrentFunction fn;
               alter (\<lambda>s. s\<lparr>be_main_created := True\<rparr>)
             });
       give True
     }"

definition finalize_main_function :: "unit emits" where
  "finalize_main_function =
     do {
       created \<leftarrow> inspect be_main_created;
       if created then do { c \<leftarrow> const_int int32_type 0 False; _ \<leftarrow> llvm ''LLVMBuildRet'' [Ref c]; give () } else give ()
     }"

definition emit_main_function :: "(ast option \<Rightarrow> nat emits) \<Rightarrow> ast \<Rightarrow> bool emits" where
  "emit_main_function emit x =
     do {
       _ \<leftarrow> ensure_main_function;
       _ \<leftarrow> emit (Some x);
       failed \<leftarrow> Xvr_LLVMContextHasError;
       give (\<not> failed)
     }"

section \<open>Programs\<close>

definition codegen_error :: "string option \<Rightarrow> unit emits" where
  "codegen_error message =
     (case Xvr_strdup message of
        None \<Rightarrow> undefined_step
      | Some copy \<Rightarrow> alter (\<lambda>s. s\<lparr>be_failure := copy\<rparr>))"

definition Xvr_LLVMCodegenHasError :: "bool emits" where
  "Xvr_LLVMCodegenHasError = inspect (\<lambda>s. be_failure s \<noteq> None)"

definition Xvr_LLVMCodegenGetError :: "string option emits" where
  "Xvr_LLVMCodegenGetError = inspect be_failure"

text \<open>A node that is no import. The error of a function does not become the code generator's.\<close>

definition emit_top_node :: "(ast option \<Rightarrow> nat emits) \<Rightarrow> ast \<Rightarrow> bool emits" where
  "emit_top_node emit x =
     (case x of
        NodeFnCollection xs c \<Rightarrow>
          do {
            ok \<leftarrow> Xvr_LLVMFunctionEmitterEmitCollection emit (Some x);
            _ \<leftarrow> (if ok then ensure_main_function else give True);
            give ok
          }
      | NodeFnDecl l arguments returns block line \<Rightarrow>
          do {
            ok \<leftarrow> Xvr_LLVMFunctionEmitterEmit emit (Some x);
            _ \<leftarrow> (if ok then ensure_main_function else give True);
            give ok
          }
      | _ \<Rightarrow>
          do {
            ok \<leftarrow> emit_main_function emit x;
            failed \<leftarrow> (if ok then give False else Xvr_LLVMContextHasError);
            _ \<leftarrow> (if failed then do { m \<leftarrow> Xvr_LLVMContextGetErrorMessage; codegen_error m } else give ());
            give ok
          })"

text \<open>
  The nodes of a module, each with an owner of its own for the names it adds; \<open>done\<close> are the owners before. All nodes
  are freed at the end. When one fails, it is freed with those behind it, and those before it are not freed at all.
\<close>

fun emit_each ::
    "(ast option \<Rightarrow> generator \<Rightarrow> (bool \<times> generator) outcome) \<Rightarrow> ast list \<Rightarrow> nat list \<Rightarrow> generator \<Rightarrow>
     (bool \<times> generator) outcome" where
  "emit_each f [] owners s = Done (True, s\<lparr>be_freed := owners @ be_freed s\<rparr>)"
| "emit_each f (x # xs) owners s =
     (let i = Suc (be_owners s)
      in andThen (f (Some x) (s\<lparr>be_owners := i, be_owner := i\<rparr>)) (\<lambda>(ok, t).
           if ok then emit_each f xs (i # owners) t else Done (False, t\<lparr>be_freed := i # be_freed t\<rparr>)))"

text \<open>The nodes of an imported module, none when it is not found or has an error.\<close>

definition imported :: "nat \<Rightarrow> (string \<Rightarrow> string option) \<Rightarrow> literal \<Rightarrow> ast list outcome" where
  "imported n files l =
     (let resolver = Some (Xvr_ModuleResolverCreate (Some ''./lib/std''))
      in case l of
           Ident name h \<Rightarrow>
             (case Xvr_ModuleResolverResolve resolver (Some name) of
                None \<Rightarrow> Done []
              | Some path \<Rightarrow>
                  andThen (Xvr_ModuleResolverLoadModule n files resolver (Some path)) (\<lambda>loaded.
                    Done (case loaded of None \<Rightarrow> [] | Some nodes \<Rightarrow> nodes)))
         | _ \<Rightarrow> Done [])"

fun Xvr_LLVMCodegenEmitAST ::
    "nat \<Rightarrow> (nat \<Rightarrow> char) \<Rightarrow> (string \<Rightarrow> string option) \<Rightarrow> nat \<Rightarrow> ast option \<Rightarrow> generator \<Rightarrow> (bool \<times> generator) outcome" where
  "Xvr_LLVMCodegenEmitAST n fresh files 0 node s = Unfinished"
| "Xvr_LLVMCodegenEmitAST n fresh files (Suc depth) node s =
     (case node of
        None \<Rightarrow> Done (False, s)
      | Some x \<Rightarrow>
          if be_has_error s then Done (False, snd (run_state (codegen_error (be_error s)) s))
          else (case x of
            NodeImport l alias \<Rightarrow>
              andThen (imported n files l) (\<lambda>nodes.
                andThen (emit_each (Xvr_LLVMCodegenEmitAST n fresh files depth) nodes [] s) (\<lambda>(ok, t).
                  Done (ok, t\<lparr>be_owner := be_owner s\<rparr>)))
          | _ \<Rightarrow> Done (run_state (emit_top_node (Xvr_LLVMExpressionEmitterEmit fresh) x) s)))"

text \<open>A new code generator for LLVM's answers and the table of types, with the syntax of the command line; None when no
  target machine can be made.\<close>

definition new_generator ::
    "(llvm_call list \<Rightarrow> nat) \<Rightarrow> (llvm_call list \<Rightarrow> string option) \<Rightarrow> type_state \<Rightarrow> generator" where
  "new_generator answer text types =
     \<lparr>be_answer = answer, be_text = text, be_calls = [], be_types = types, be_has_error = False, be_error = None,
      be_functions = [],
      be_mapper = \<lparr>tm_void = 0, tm_int1 = 0, tm_int8 = 0, tm_int16 = 0, tm_int32 = 0, tm_int64 = 0, tm_float = 0,
        tm_double = 0, tm_int8_ptr = 0, tm_runtime = 0\<rparr>,
      be_locals = [], be_scopes = [], be_function = 0, be_loops = [], be_last_result = 0, be_flow_failed = False,
      be_flow_message = [], be_flow_hint = [], be_main_created = False, be_failure = None,
      be_target_config = Xvr_LLVMTargetConfigCreate, be_target_machine = 0, be_level = XVR_LLVM_OPT_O2,
      be_level_machine = 0, be_owner = 0, be_owners = 0, be_freed = [], be_undefined = False, be_unfinished = False\<rparr>"

definition generator_config :: "string option \<Rightarrow> target_config" where
  "generator_config asmSyntax =
     (let c = snd (Xvr_LLVMTargetConfigSetCodeModel (Some ''jitdefault'')
                (snd (Xvr_LLVMTargetConfigSetReloc (Some ''PIC'') Xvr_LLVMTargetConfigCreate)))
      in case asmSyntax of
           None \<Rightarrow> c
         | Some syntax \<Rightarrow> snd (Xvr_LLVMTargetConfigSetAsmSyntax (Xvr_AsmSyntaxFromString asmSyntax) c))"

definition Xvr_LLVMCodegenCreate ::
    "(llvm_call list \<Rightarrow> nat) \<Rightarrow> (llvm_call list \<Rightarrow> string option) \<Rightarrow> type_state \<Rightarrow> string option \<Rightarrow> string option \<Rightarrow> generator option" where
  "Xvr_LLVMCodegenCreate answer text types asmSyntax module_name =
     (case module_name of
        None \<Rightarrow> None
      | Some name \<Rightarrow>
          (let config = generator_config asmSyntax;
               (machine, s) = run_state (do {
                 _ \<leftarrow> llvm ''LLVMContextCreate'' [];
                 _ \<leftarrow> llvm ''LLVMModuleCreateWithNameInContext'' [Text name];
                 _ \<leftarrow> llvm ''LLVMCreateBuilderInContext'' [];
                 Xvr_LLVMTypeMapperCreate;
                 Xvr_LLVMTargetMachineCreate config
               }) (new_generator answer text types)
           in if machine = 0 then None
              else Some (s\<lparr>be_target_config := config, be_target_machine := machine\<rparr>)))"

definition Xvr_LLVMCodegenSetOptimizationLevel :: "optimization_level \<Rightarrow> bool emits" where
  "Xvr_LLVMCodegenSetOptimizationLevel level = Xvr_LLVMOptimizerSetLevel level"

definition Xvr_LLVMCodegenSetTargetTriple :: "string option \<Rightarrow> bool" where
  "Xvr_LLVMCodegenSetTargetTriple triple = True"

definition Xvr_LLVMCodegenSetTargetCPU :: "string option \<Rightarrow> bool" where
  "Xvr_LLVMCodegenSetTargetCPU cpu = True"

definition Xvr_LLVMCodegenRunOptimizer :: "bool emits" where
  "Xvr_LLVMCodegenRunOptimizer =
     do {
       machine \<leftarrow> inspect be_target_machine;
       _ \<leftarrow> Xvr_LLVMOptimizerSetTargetMachine machine;
       Xvr_LLVMOptimizerRun
     }"

definition Xvr_LLVMCodegenPrintIR :: "(string option \<times> nat) emits" where
  "Xvr_LLVMCodegenPrintIR = do { finalize_main_function; Xvr_LLVMModuleManagerPrintIR }"

definition Xvr_LLVMCodegenWriteBitcode :: "string option \<Rightarrow> bool emits" where
  "Xvr_LLVMCodegenWriteBitcode filepath =
     (case filepath of None \<Rightarrow> give False | Some path \<Rightarrow> Xvr_LLVMModuleManagerWriteBitcode path)"

definition Xvr_LLVMCodegenWriteObjectFile :: "string option \<Rightarrow> nat \<Rightarrow> bool emits" where
  "Xvr_LLVMCodegenWriteObjectFile filepath filetype =
     (case filepath of
        None \<Rightarrow> give False
      | Some path \<Rightarrow> do { finalize_main_function; Xvr_LLVMTargetMachineEmitToFile path filetype })"

definition Xvr_LLVMCodegenExecuteJIT :: "bool emits" where
  "Xvr_LLVMCodegenExecuteJIT = give False"

end
