(* ===== verification/LlvmFrames.thy ===== *)
theory LlvmFrames
  imports LlvmCodegen
begin

text \<open>
  What every emission leaves as it found it: the loops and the current function; the open scopes with the variables
  before, when blocks are not nested too deeply for the 32 saved counts; the sizes of the fixed arrays; and that
  no return is emitted and the bound on the recursion is not met. \<open>framed d m\<close> says it of a computation in which at most \<open>d\<close> blocks are nested. The contract
  of the emission of nodes is the locale \<open>emission_contract\<close>: what holds of the parts of a node holds of the node.
\<close>

section \<open>Frames\<close>

named_theorems framed_rules

definition is_return :: "llvm_call \<Rightarrow> bool" where
  "is_return c = (case c of Call f args \<Rightarrow> f = ''LLVMBuildRet'' \<or> f = ''LLVMBuildRetVoid'')"

definition extends_calls :: "generator \<Rightarrow> generator \<Rightarrow> bool" where
  "extends_calls s t \<longleftrightarrow> (\<exists>cs. be_calls t = be_calls s @ cs \<and> list_all (\<lambda>c. \<not> is_return c) cs)"

definition within_tables :: "generator \<Rightarrow> bool" where
  "within_tables s \<longleftrightarrow> length (be_locals s) \<le> MAX_LOCAL_VARS \<and> length (be_scopes s) \<le> 32 \<and>
     length (be_loops s) \<le> MAX_LOOP_NESTING \<and> length (be_functions s) \<le> MAX_FUNCTIONS"

definition steady :: "nat \<Rightarrow> generator \<Rightarrow> generator \<Rightarrow> bool" where
  "steady d s t \<longleftrightarrow> be_function t = be_function s \<and> be_main_created t = be_main_created s \<and>
     be_failure t = be_failure s \<and> be_answer t = be_answer s \<and> be_text t = be_text s \<and>
     be_unfinished t = be_unfinished s \<and> extends_calls s t \<and>
     (length (be_locals s) \<le> MAX_LOCAL_VARS \<longrightarrow> length (be_locals t) \<le> MAX_LOCAL_VARS) \<and>
     (length (be_scopes s) \<le> 32 \<longrightarrow> length (be_scopes t) \<le> 32) \<and>
     (length (be_functions s) \<le> MAX_FUNCTIONS \<longrightarrow> length (be_functions t) \<le> MAX_FUNCTIONS) \<and>
     (length (be_scopes s) + d \<le> 32 \<longrightarrow> be_scopes t = be_scopes s \<and> (\<exists>vs. be_locals t = be_locals s @ vs))"

definition framed :: "nat \<Rightarrow> 'a emits \<Rightarrow> bool" where
  "framed d m \<longleftrightarrow> (\<forall>s. steady d s (snd (run_state m s)) \<and> be_loops (snd (run_state m s)) = be_loops s)"

lemma extends_calls_refl [simp]: "extends_calls s s"
  by (simp add: extends_calls_def)

lemma extends_calls_trans: "extends_calls s t \<Longrightarrow> extends_calls t u \<Longrightarrow> extends_calls s u"
  by (force simp: extends_calls_def)

lemma steady_refl [simp]: "steady d s s"
  by (simp add: steady_def)

lemma steady_trans: "steady d s t \<Longrightarrow> steady d t u \<Longrightarrow> steady d s u"
  unfolding steady_def by (auto intro: extends_calls_trans)

lemma steady_mono: "steady d s t \<Longrightarrow> d \<le> e \<Longrightarrow> steady e s t"
  by (auto simp: steady_def)

lemma framed_mono: "framed d m \<Longrightarrow> d \<le> e \<Longrightarrow> framed e m"
  by (auto simp: framed_def intro: steady_mono)

lemma run_bind: "run_state (State_Monad.bind m f) s = run_state (f (fst (run_state m s))) (snd (run_state m s))"
  by (simp add: State_Monad.bind_def case_prod_beta)

lemma run_basic [simp]:
  "run_state (give x) s = (x, s)" "run_state (inspect f) s = (f s, s)" "run_state (alter g) s = ((), g s)"
  by (simp_all add: State_Monad.return_def inspect_def alter_def)

lemma run_llvm [simp]:
  "run_state (llvm f args) s = (be_answer s (be_calls s @ [Call f args]), s\<lparr>be_calls := be_calls s @ [Call f args]\<rparr>)"
  "run_state (llvm_string f args) s = (be_text s (be_calls s @ [Call f args]), s\<lparr>be_calls := be_calls s @ [Call f args]\<rparr>)"
  by (simp_all add: llvm_def llvm_string_def Let_def)

lemma framed_bind [framed_rules]: "framed d m \<Longrightarrow> (\<And>x. framed d (f x)) \<Longrightarrow> framed d (State_Monad.bind m f)"
  unfolding framed_def run_bind by (metis steady_trans)

lemma framed_give [framed_rules]: "framed d (give x)"
  by (simp add: framed_def)

lemma framed_inspect [framed_rules]: "framed d (inspect f)"
  by (simp add: framed_def)

lemma framed_if [framed_rules]: "(c \<Longrightarrow> framed d m) \<Longrightarrow> (\<not> c \<Longrightarrow> framed d n) \<Longrightarrow> framed d (if c then m else n)"
  by simp

lemma framed_prod [framed_rules]: "(\<And>a b. framed d (f a b)) \<Longrightarrow> framed d (case p of (a, b) \<Rightarrow> f a b)"
  by (simp split: prod.split)

lemma framed_option [framed_rules]:
  "(x = None \<Longrightarrow> framed d m) \<Longrightarrow> (\<And>y. x = Some y \<Longrightarrow> framed d (f y)) \<Longrightarrow>
     framed d (case x of None \<Rightarrow> m | Some y \<Rightarrow> f y)"
  by (simp split: option.split)

lemma framed_list [framed_rules]:
  "(x = [] \<Longrightarrow> framed d m) \<Longrightarrow> (\<And>y ys. x = y # ys \<Longrightarrow> framed d (f y ys)) \<Longrightarrow>
     framed d (case x of [] \<Rightarrow> m | y # ys \<Rightarrow> f y ys)"
  by (simp split: list.split)

lemma framed_let [framed_rules]: "framed d (f x) \<Longrightarrow> framed d (let y = x in f y)"
  by simp

lemma framed_llvm [framed_rules]:
  "f \<noteq> ''LLVMBuildRet'' \<and> f \<noteq> ''LLVMBuildRetVoid'' \<Longrightarrow> framed d (llvm f args)"
  "f \<noteq> ''LLVMBuildRet'' \<and> f \<noteq> ''LLVMBuildRetVoid'' \<Longrightarrow> framed d (llvm_string f args)"
  by (auto simp: framed_def steady_def extends_calls_def is_return_def)

lemma framed_alter: "(\<And>s. steady d s (f s) \<and> be_loops (f s) = be_loops s) \<Longrightarrow> framed d (alter f)"
  by (simp add: framed_def)

lemma framed_undefined [framed_rules]: "framed d undefined_step"
  by (simp add: undefined_step_def framed_alter steady_def extends_calls_def)

lemma framed_read_names [framed_rules]: "framed d (read_names name)"
  unfolding read_names_def by (intro framed_rules)

section \<open>Services\<close>

lemma framed_types [framed_rules]:
  "framed d int1_type" "framed d int8_type" "framed d int16_type" "framed d int32_type" "framed d int64_type"
  "framed d float_type" "framed d double_type" "framed d (int_type n)" "framed d (real_type n)"
  by (auto simp: int1_type_def int8_type_def int16_type_def int32_type_def int64_type_def float_type_def
    double_type_def int_type_def real_type_def intro!: framed_rules)

lemma framed_queries [framed_rules]:
  "framed d m \<Longrightarrow> framed d (pointer_to m)" "framed d m \<Longrightarrow> framed d (const_int m i c)"
  "framed d (llvm_type_of v)" "framed d (kind_of_type t)" "framed d (function_type t ts c)"
  "framed d (named_function name)" "framed d (add_function name t)" "framed d (build_call t f args name)"
  "framed d (global_string x name)" "framed d (append_block f name)" "framed d (position_at_end b)"
  by (auto simp: pointer_to_def const_int_def llvm_type_of_def kind_of_type_def function_type_def named_function_def
    add_function_def build_call_def global_string_def append_block_def position_at_end_def intro!: framed_rules)

lemma framed_set_error [framed_rules]: "framed d (Xvr_LLVMContextSetError m)"
  unfolding Xvr_LLVMContextSetError_def
  by (auto intro!: framed_rules framed_alter simp: steady_def extends_calls_def)

lemma framed_fail [framed_rules]: "framed d (fail_with m)"
  by (auto simp: fail_with_def intro!: framed_rules)

lemma framed_has_error [framed_rules]: "framed d Xvr_LLVMContextHasError"
  by (simp add: Xvr_LLVMContextHasError_def framed_inspect)

lemma set_type_length: "set_type name t fs = Some gs \<Longrightarrow> length gs = length fs"
  by (induction fs arbitrary: gs) (auto split: if_splits)

lemma register_type_length: "length fs \<le> MAX_FUNCTIONS \<Longrightarrow> length (register_type name t fs) \<le> MAX_FUNCTIONS"
  by (auto simp: register_type_def split: option.split dest: set_type_length)

lemma framed_module [framed_rules]:
  "framed d (Xvr_LLVMModuleManagerRegisterFunctionType name t)" "framed d (Xvr_LLVMModuleManagerGetFunctionType name)"
  by (auto simp: Xvr_LLVMModuleManagerRegisterFunctionType_def Xvr_LLVMModuleManagerGetFunctionType_def steady_def
    extends_calls_def register_type_length intro!: framed_rules framed_alter)

lemma framed_mapper [framed_rules]: "framed d (Xvr_LLVMTypeMapperGetType t)"
  by (simp add: Xvr_LLVMTypeMapperGetType_def framed_inspect)

lemma framed_binary: "f \<noteq> ''LLVMBuildRet'' \<and> f \<noteq> ''LLVMBuildRetVoid'' \<Longrightarrow> framed d (create_binary f e v w name)"
  by (auto simp: create_binary_def intro!: framed_rules)

lemma framed_compare: "framed d (create_compare f e v w name)"
  by (auto simp: create_compare_def intro!: framed_rules)

lemma framed_builder [framed_rules]:
  "framed d (Xvr_LLVMIRBuilderCreateAdd v w n)" "framed d (Xvr_LLVMIRBuilderCreateSub v w n)"
  "framed d (Xvr_LLVMIRBuilderCreateMul v w n)" "framed d (Xvr_LLVMIRBuilderCreateSDiv v w n)"
  "framed d (Xvr_LLVMIRBuilderCreateSRem v w n)" "framed d (Xvr_LLVMIRBuilderCreateICmpEQ v w n)"
  "framed d (Xvr_LLVMIRBuilderCreateICmpNE v w n)" "framed d (Xvr_LLVMIRBuilderCreateICmpSLT v w n)"
  "framed d (Xvr_LLVMIRBuilderCreateICmpSLE v w n)" "framed d (Xvr_LLVMIRBuilderCreateICmpSGT v w n)"
  "framed d (Xvr_LLVMIRBuilderCreateICmpSGE v w n)" "framed d Xvr_LLVMIRBuilderGetInsertBlock"
  "framed d (Xvr_LLVMIRBuilderSetInsertPoint b)" "framed d (Xvr_LLVMIRBuilderCreateBr b)"
  "framed d (Xvr_LLVMIRBuilderCreateCondBr c b e)" "framed d (Xvr_LLVMIRBuilderCreateAlloca t n)"
  "framed d (Xvr_LLVMIRBuilderCreateLoad t p n)" "framed d (Xvr_LLVMIRBuilderCreateStore v p)"
  "framed d (create_block fn name)"
  by (auto simp: Xvr_LLVMIRBuilderCreateAdd_def Xvr_LLVMIRBuilderCreateSub_def Xvr_LLVMIRBuilderCreateMul_def
    Xvr_LLVMIRBuilderCreateSDiv_def Xvr_LLVMIRBuilderCreateSRem_def Xvr_LLVMIRBuilderCreateICmpEQ_def
    Xvr_LLVMIRBuilderCreateICmpNE_def Xvr_LLVMIRBuilderCreateICmpSLT_def Xvr_LLVMIRBuilderCreateICmpSLE_def
    Xvr_LLVMIRBuilderCreateICmpSGT_def Xvr_LLVMIRBuilderCreateICmpSGE_def Xvr_LLVMIRBuilderGetInsertBlock_def
    Xvr_LLVMIRBuilderSetInsertPoint_def Xvr_LLVMIRBuilderCreateBr_def Xvr_LLVMIRBuilderCreateCondBr_def
    Xvr_LLVMIRBuilderCreateAlloca_def Xvr_LLVMIRBuilderCreateLoad_def Xvr_LLVMIRBuilderCreateStore_def
    create_block_def Xvr_LLVMIRBuilderCreateBlockInFunction_def intro!: framed_rules framed_binary framed_compare)

lemma framed_lookups [framed_rules]:
  "framed d (Xvr_LLVMFunctionEmitterLookupVar name)" "framed d (Xvr_LLVMFunctionEmitterLookupVarWithType name)"
  "framed d (Xvr_LLVMFunctionEmitterLookupVarArrayCount name)" "framed d Xvr_LLVMFunctionEmitterGetCurrentFunction"
  by (auto simp: Xvr_LLVMFunctionEmitterLookupVar_def Xvr_LLVMFunctionEmitterLookupVarWithType_def
    Xvr_LLVMFunctionEmitterLookupVarArrayCount_def Xvr_LLVMFunctionEmitterGetCurrentFunction_def intro!: framed_rules)

lemma framed_add_local [framed_rules]: "framed d (Xvr_LLVMFunctionEmitterAddLocalVar name p t n)"
  by (auto simp: Xvr_LLVMFunctionEmitterAddLocalVar_def add_local_var_def steady_def extends_calls_def
    intro!: framed_rules framed_alter)

section \<open>Values and operators\<close>

lemma framed_undef_type [framed_rules]: "framed d (type_from_literal t)"
  by (auto simp: type_from_literal_def framed_def steady_def extends_calls_def split: prod.split)

lemma framed_convert: "f \<noteq> ''LLVMBuildRet'' \<and> f \<noteq> ''LLVMBuildRetVoid'' \<Longrightarrow> framed d m \<Longrightarrow> framed d (convert f v m name)"
  by (auto simp: convert_def intro!: framed_rules)

lemma framed_casts [framed_rules]:
  "framed d (Xvr_EmitIntToInt v x y name)" "framed d (Xvr_EmitIntToFloat v x y name)"
  "framed d (Xvr_EmitFloatToInt v x y name)" "framed d (Xvr_EmitFloatToFloat v x y name)"
  "framed d (Xvr_EmitIntToPtr v name)" "framed d (Xvr_EmitPtrToInt v y name)" "framed d (Xvr_EmitPtrToPtr v name)"
  "framed d (null_of v)"
  unfolding Xvr_EmitIntToInt_def Xvr_EmitIntToFloat_def Xvr_EmitFloatToInt_def
    Xvr_EmitFloatToFloat_def Xvr_EmitIntToPtr_def Xvr_EmitPtrToInt_def Xvr_EmitPtrToPtr_def null_of_def Let_def
  by (intro framed_rules framed_convert; simp)+

lemma framed_bool_cast [framed_rules]: "framed d (Xvr_EmitBoolCast v x y name)"
  unfolding Xvr_EmitBoolCast_def Let_def by (intro framed_rules framed_convert; simp)

lemma framed_cast [framed_rules]: "framed d (Xvr_EmitCast v x y name)"
  unfolding Xvr_EmitCast_def
  by (cases x; cases y; cases "Xvr_CastEmitterClassify x y") (simp_all add: framed_rules)

lemma framed_source_type [framed_rules]: "framed d (source_literal_type v)"
  by (auto simp: source_literal_type_def intro!: framed_rules)

lemma framed_identifier [framed_rules]: "framed d (Xvr_LLVMExpressionEmitterEmitIdentifier name)"
  by (auto simp: Xvr_LLVMExpressionEmitterEmitIdentifier_def intro!: framed_rules)

lemma framed_bits [framed_rules]: "framed d (emit_bits t w)"
  by (cases t) (auto simp: emit_bits_def intro!: framed_rules)

lemma framed_literal [framed_rules]: "framed d (Xvr_LLVMExpressionEmitterEmitLiteral l)"
  by (cases l) (auto simp: Xvr_LLVMExpressionEmitterEmitLiteral_def intro!: framed_rules)

lemma framed_bytes [framed_rules]: "framed d (extract_bytes n v i acc)"
  by (induction n arbitrary: i acc) (auto intro!: framed_rules)

lemma framed_constants [framed_rules]:
  "framed d (is_pointer_type v)" "framed d (get_constant_string_data v)" "framed d (extract_constant_string v n)"
  by (auto simp: is_pointer_type_def get_constant_string_data_def constant_array_length_def extract_constant_string_def
    intro!: framed_rules)

lemma framed_concat [framed_rules]: "framed d (emit_string_concat fresh v w)"
  by (auto simp: emit_string_concat_def string_concat_call_def constant_concat_def Let_def intro!: framed_rules)

lemma framed_real: "f \<noteq> ''LLVMBuildRet'' \<and> f \<noteq> ''LLVMBuildRetVoid'' \<Longrightarrow> framed d (real_binary f v w name)"
  by (auto simp: real_binary_def intro!: framed_rules)

lemma framed_binary_op [framed_rules]: "framed d (emit_binary_op fresh op v w)"
  unfolding emit_binary_op_def
  by (cases op) (auto simp: emit_addition_def Let_def intro!: framed_rules framed_real)

lemma framed_array_format [framed_rules]: "framed d (array_format t)"
  by (auto simp: array_format_def intro!: framed_rules)

lemma framed_print_format [framed_rules]: "framed d (print_format v)"
  by (auto simp: print_format_def pointer_format_def intro!: framed_rules)

lemma framed_print [framed_rules]: "framed d (emit_print v)"
  by (auto simp: emit_print_def intro!: framed_rules)

lemma framed_unary_op [framed_rules]: "framed d (emit_unary_op op v)"
  unfolding emit_unary_op_def by (cases op) (auto intro!: framed_rules)

lemma framed_max_chain [framed_rules]:
  "f \<noteq> ''LLVMBuildRet'' \<and> f \<noteq> ''LLVMBuildRetVoid'' \<Longrightarrow> framed d (max_chain f p b i v vs)"
  by (induction f p b i v vs rule: max_chain.induct) (auto intro!: framed_rules)

lemma framed_max_of [framed_rules]:
  "f \<noteq> ''LLVMBuildRet'' \<and> f \<noteq> ''LLVMBuildRetVoid'' \<Longrightarrow> framed d (max_of f p vs)"
  by (simp add: max_of_def framed_max_chain)

lemma framed_math [framed_rules]:
  "framed d m \<Longrightarrow> framed d (library_call m t f args name)" "framed d (math_call name f32 f64 args)" "framed d (abs_of v)"
  by (auto simp: library_call_def math_call_def abs_of_def abs_of_integer_def intro!: framed_rules)

lemma framed_printing [framed_rules]:
  "framed d printf_function" "framed d (format_args vs)" "framed d (promoted vs)" "framed d (promoted_types vs)"
  "framed d (printf_call f ts args)"
  subgoal by (auto simp: printf_function_def intro!: framed_rules)
  subgoal by (induction vs) (auto intro!: framed_rules)
  subgoal by (induction vs) (auto intro!: framed_rules framed_convert)
  subgoal by (induction vs) (auto intro!: framed_rules)
  subgoal by (auto simp: printf_call_def intro!: framed_rules)
  done

lemma framed_print_values [framed_rules]:
  "framed d (print_text f s)" "framed d (print_values f s vs)" "framed d (print_formatted who nl f fmt vs)"
  "framed d (print_line f s vs)"
  by (auto simp: print_text_def print_values_def print_formatted_def print_line_def intro!: framed_rules split: option.split)

lemma framed_runtime [framed_rules]:
  "framed d (declared_function name t)" "framed d (loaded_array p name)" "framed d (counted t)" "framed d (known_length p)"
  "framed d (array_length_call p)" "framed d (length_of_array name p)" "framed d (length_of_value v)"
  "framed d m \<Longrightarrow> framed d (runtime_function name m)" "framed d array_set_type" "framed d array_create_type"
  "framed d array_insert_type" "framed d array_get_type" "framed d (combined_value op v w)" "framed d (emit_sizeof x)"
  by (auto simp: declared_function_def loaded_array_def counted_def known_length_def array_length_call_def
    length_of_array_def length_of_value_def runtime_function_def array_set_type_def array_create_type_def
    array_insert_type_def array_get_type_def combined_value_def emit_sizeof_def
    intro!: framed_rules split: opcode.split option.split list.split ast.split literal.split)

end
