(* ===== verification/LlvmScopes.thy ===== *)
theory LlvmScopes
  imports LlvmFrames
begin

text \<open>
  The frames of the emission of nodes. The parts of a node are emitted by a parameter; the locale \<open>emission_contract\<close> is
  the contract that the parameter keeps frames, and shows that a step of the emitter keeps them as well.
\<close>

section \<open>The nesting of blocks\<close>

fun highest :: "nat list \<Rightarrow> nat" where
  "highest [] = 0"
| "highest (n # ns) = max n (highest ns)"

definition nest_or :: "nat option \<Rightarrow> nat" where
  "nest_or n = (case n of None \<Rightarrow> 0 | Some k \<Rightarrow> k)"

text \<open>The blocks that are open at once while a node is emitted; the body of a function is not emitted here.\<close>

primrec nest :: "ast \<Rightarrow> nat" where
  "nest NodeError = 0"
| "nest (NodeLiteral l) = 0"
| "nest (NodeUnary op x) = nest_or (map_option nest x)"
| "nest (NodeBinary op x y) = max (nest_or (map_option nest x)) (nest_or (map_option nest y))"
| "nest (NodeTernary c x y) =
     max (nest_or (map_option nest c)) (max (nest_or (map_option nest x)) (nest_or (map_option nest y)))"
| "nest (NodeGrouping x) = nest_or (map_option nest x)"
| "nest (NodeBlock xs n) = Suc (highest (map nest xs))"
| "nest (NodeCompound t xs n) = highest (map nest xs)"
| "nest (NodePair x y) = 0"
| "nest (NodeIndex x y z) =
     max (nest_or (map_option nest x)) (max (nest_or (map_option nest y)) (nest_or (map_option nest z)))"
| "nest (NodeVarDecl l t x n) = nest_or (map_option nest x)"
| "nest (NodeFnDecl l a r b n) = 0"
| "nest (NodeFnCollection xs n) = highest (map nest xs)"
| "nest (NodeFnCall x n) = nest_or (map_option nest x)"
| "nest (NodeFnReturn x) = nest_or (map_option nest x)"
| "nest (NodeIf c x y t e) =
     max (nest_or (map_option nest c)) (max (nest_or (map_option nest x)) (nest_or (map_option nest y)))"
| "nest (NodeWhile c x) = max (nest_or (map_option nest c)) (nest_or (map_option nest x))"
| "nest (NodeFor p c q x) =
     max (max (nest_or (map_option nest p)) (nest_or (map_option nest c)))
         (max (nest_or (map_option nest q)) (nest_or (map_option nest x)))"
| "nest NodeBreak = 0"
| "nest NodeContinue = 0"
| "nest (NodePrefixIncrement l) = 0"
| "nest (NodePostfixIncrement l) = 0"
| "nest (NodePrefixDecrement l) = 0"
| "nest (NodePostfixDecrement l) = 0"
| "nest (NodeCast l x) = nest_or (map_option nest x)"
| "nest (NodeImport l m) = 0"
| "nest NodePass = 0"

abbreviation nesting :: "ast option \<Rightarrow> nat" where
  "nesting x \<equiv> nest_or (map_option nest x)"

abbreviation nesting_list :: "ast list \<Rightarrow> nat" where
  "nesting_list xs \<equiv> highest (map nest xs)"

lemma nest_or_simps [simp]: "nest_or None = 0" "nest_or (Some n) = n"
  by (simp_all add: nest_or_def)

section \<open>Loops and blocks\<close>

text \<open>As \<open>framed\<close>, but the innermost loop is left.\<close>

definition popped :: "nat \<Rightarrow> 'a emits \<Rightarrow> bool" where
  "popped d m \<longleftrightarrow> (\<forall>s. steady d s (snd (run_state m s)) \<and> be_loops (snd (run_state m s)) = butlast (be_loops s))"

lemma popped_bind: "framed d m \<Longrightarrow> (\<And>x. popped d (f x)) \<Longrightarrow> popped d (State_Monad.bind m f)"
  unfolding framed_def popped_def run_bind by (metis steady_trans)

lemma popped_end: "popped d (State_Monad.bind Xvr_LLVMControlFlowPopLoopTarget (\<lambda>_. give ok))"
  by (simp add: popped_def run_bind Xvr_LLVMControlFlowPopLoopTarget_def steady_def extends_calls_def)

definition shallow :: "nat \<Rightarrow> 'a emits \<Rightarrow> bool" where
  "shallow d m \<longleftrightarrow> (\<forall>s. length (be_loops s) < MAX_LOOP_NESTING \<longrightarrow>
     steady d s (snd (run_state m s)) \<and> be_loops (snd (run_state m s)) = be_loops s)"

lemma shallow_bind: "framed d m \<Longrightarrow> (\<And>x. shallow d (f x)) \<Longrightarrow> shallow d (State_Monad.bind m f)"
  unfolding framed_def shallow_def run_bind by (metis steady_trans)

lemma shallow_push:
  assumes "\<And>u. popped d (f u)"
  shows "shallow d (State_Monad.bind (Xvr_LLVMControlFlowPushLoopTarget b c) f)"
  unfolding shallow_def run_bind
proof (intro allI impI)
  fix s :: generator assume room: "length (be_loops s) < MAX_LOOP_NESTING"
  define t where "t = snd (run_state (Xvr_LLVMControlFlowPushLoopTarget b c) s)"
  have t: "steady d s t" "be_loops t = be_loops s @ [(b, c)]"
    using room by (auto simp: t_def Xvr_LLVMControlFlowPushLoopTarget_def steady_def extends_calls_def)
  show "steady d s (snd (run_state (f (fst (run_state (Xvr_LLVMControlFlowPushLoopTarget b c) s)))
            (snd (run_state (Xvr_LLVMControlFlowPushLoopTarget b c) s)))) \<and>
        be_loops (snd (run_state (f (fst (run_state (Xvr_LLVMControlFlowPushLoopTarget b c) s)))
            (snd (run_state (Xvr_LLVMControlFlowPushLoopTarget b c) s)))) = be_loops s"
    using assms t steady_trans [OF t(1)] by (auto simp: popped_def t_def [symmetric])
qed

lemma framed_flow [framed_rules]:
  "framed d (flow_error m)" "framed d (set_error_hint m h)" "framed d Xvr_LLVMControlFlowClearError"
  "framed d (is_boolean_type v)" "framed d (add_incoming p v b)" "framed d (null_or t v)"
  by (auto simp: flow_error_def set_error_hint_def Xvr_LLVMControlFlowClearError_def is_boolean_type_def add_incoming_def
    null_or_def steady_def extends_calls_def intro!: framed_rules framed_alter)

lemma framed_condition [framed_rules]: "framed d (check_condition what example v)"
  by (auto simp: check_condition_def not_boolean_def intro!: framed_rules)

lemma framed_leave [framed_rules]: "framed d (leave_loop w f)"
  by (auto simp: leave_loop_def intro!: framed_rules)

lemma framed_last_result [framed_rules]: "framed d (alter (\<lambda>s. s\<lparr>be_last_result := phi\<rparr>))"
  by (rule framed_alter) (simp add: steady_def extends_calls_def)

lemma framed_choice [framed_rules]:
  "framed d m \<Longrightarrow> framed d n \<Longrightarrow> framed d (emit_choice fn t v m n)"
  unfolding emit_choice_def by (intro framed_rules; simp)

lemma framed_part [framed_rules]: "framed d m \<Longrightarrow> framed d (emit_part m b c)"
  unfolding emit_part_def by (intro framed_rules; simp)

lemma framed_enter_loop:
  assumes "\<And>fn. shallow d (loop fn)"
  shows "framed d (enter_loop word loop)"
proof -
  have "shallow d (State_Monad.bind Xvr_LLVMFunctionEmitterGetCurrentFunction loop)"
    by (intro shallow_bind framed_rules assms)
  then have loop: "length (be_loops s) < MAX_LOOP_NESTING \<Longrightarrow>
      steady d s (snd (run_state (loop (be_function s)) s)) \<and>
      be_loops (snd (run_state (loop (be_function s)) s)) = be_loops s" for s
    by (simp add: shallow_def run_bind Xvr_LLVMFunctionEmitterGetCurrentFunction_def)
  have failing: "framed d (do { flow_error m; give False })" for m
    by (intro framed_rules)
  have "framed d (State (\<lambda>s. run_state (if be_function s = 0 then do { flow_error m; give False }
      else if length (be_loops s) \<ge> MAX_LOOP_NESTING then do { flow_error n; give False } else loop (be_function s)) s))"
    for m n
    using failing loop by (auto simp: framed_def not_le)
  then have body: "framed d (do { fn \<leftarrow> Xvr_LLVMFunctionEmitterGetCurrentFunction; depth \<leftarrow> inspect (\<lambda>s. length (be_loops s));
      if fn = 0 then do { flow_error m; give False }
      else if depth \<ge> MAX_LOOP_NESTING then do { flow_error n; give False } else loop fn })" for m n
    by (simp add: framed_def run_bind Xvr_LLVMFunctionEmitterGetCurrentFunction_def cong: if_cong)
  show ?thesis
    unfolding enter_loop_def by (rule framed_bind [OF framed_flow(3)]) (rule body)
qed

lemma enter_exit:
  fixes s :: generator and x :: nat
  assumes "framed d m"
  defines "t \<equiv> snd (run_state (do { Xvr_LLVMFunctionEmitterEnterScope; m; Xvr_LLVMFunctionEmitterExitScope; give x }) s)"
  shows "steady (Suc d) s t" and "be_loops t = be_loops s"
    and "length (be_scopes s) + Suc d \<le> 32 \<Longrightarrow> be_locals t = be_locals s"
proof -
  define s1 where "s1 = (if length (be_scopes s) < 32 then s\<lparr>be_scopes := be_scopes s @ [length (be_locals s)]\<rparr> else s)"
  define s2 where "s2 = snd (run_state m s1)"
  have run: "t = (if be_scopes s2 = [] then s2
       else s2\<lparr>be_locals := take (last (be_scopes s2)) (be_locals s2), be_scopes := butlast (be_scopes s2)\<rparr>)"
    by (simp add: t_def run_bind case_prod_beta Xvr_LLVMFunctionEmitterEnterScope_def
      Xvr_LLVMFunctionEmitterExitScope_def s1_def s2_def)
  have m: "steady d s1 s2" "be_loops s2 = be_loops s1"
    using assms(1) by (simp_all add: framed_def s2_def)
  have enter: "be_function s1 = be_function s" "be_main_created s1 = be_main_created s" "be_failure s1 = be_failure s"
    "be_answer s1 = be_answer s" "be_text s1 = be_text s" "be_calls s1 = be_calls s" "be_locals s1 = be_locals s"
    "be_functions s1 = be_functions s" "be_loops s1 = be_loops s" "be_unfinished s1 = be_unfinished s"
    by (simp_all add: s1_def)
  have leave: "be_function t = be_function s2" "be_main_created t = be_main_created s2" "be_failure t = be_failure s2"
    "be_answer t = be_answer s2" "be_text t = be_text s2" "be_calls t = be_calls s2" "be_functions t = be_functions s2"
    "be_loops t = be_loops s2" "be_unfinished t = be_unfinished s2" "length (be_locals t) \<le> length (be_locals s2)"
    "length (be_scopes t) \<le> length (be_scopes s2)"
    by (simp_all add: run)
  have restored: "be_scopes t = be_scopes s \<and> be_locals t = be_locals s" if "length (be_scopes s) + Suc d \<le> 32"
  proof -
    have "be_scopes s1 = be_scopes s @ [length (be_locals s)]" "length (be_scopes s1) + d \<le> 32"
      using that by (auto simp: s1_def)
    then show ?thesis
      using m(1) enter by (auto simp: steady_def run)
  qed
  then show "steady (Suc d) s t"
    using m enter leave by (auto simp: steady_def extends_calls_def s1_def split: if_splits)
  show "be_loops t = be_loops s"
    using m enter leave by simp
  show "length (be_scopes s) + Suc d \<le> 32 \<Longrightarrow> be_locals t = be_locals s"
    using restored by simp
qed

lemma framed_scope:
  fixes x :: nat
  assumes "framed d m"
  shows "framed (Suc d) (do { Xvr_LLVMFunctionEmitterEnterScope; m; Xvr_LLVMFunctionEmitterExitScope; give x })"
  unfolding framed_def using enter_exit [OF assms] by blast

end
