(* ===== verification/LlvmEmission.thy ===== *)
theory LlvmEmission
  imports LlvmScopes
begin

text \<open>
  The contract of the emission of nodes: a locale over the emission of the parts of a node, which keeps frames. The
  lemmas of the locale show the same of each emitter and of one step of the recursion. Theory LlvmFuel interprets it.
\<close>

locale emission_contract =
  fixes emit :: "ast option \<Rightarrow> nat emits"
  assumes emit_framed: "nesting x \<le> d \<Longrightarrow> framed d (emit x)"
begin

section \<open>Lists of nodes\<close>

lemma framed_emit_some: "nest x \<le> d \<Longrightarrow> framed d (emit (Some x))"
  by (rule emit_framed) simp

lemma framed_lists:
  "nesting_list xs \<le> d \<Longrightarrow> framed d (emit_statements emit xs)" "nesting_list xs \<le> d \<Longrightarrow> framed d (emit_last emit xs)"
  "nesting_list xs \<le> d \<Longrightarrow> framed d (emit_all emit xs)" "nesting_list xs \<le> d \<Longrightarrow> framed d (emit_or_zero emit xs)"
  "nesting_list xs \<le> d \<Longrightarrow> framed d (call_values emit xs)" "nesting_list xs \<le> d \<Longrightarrow> framed d (insert_elements emit t f a xs)"
  subgoal by (induction xs) (auto intro!: framed_rules framed_emit_some)
  subgoal by (induction xs rule: induct_list012) (auto intro!: framed_rules framed_emit_some)
  subgoal by (induction xs) (auto intro!: framed_rules framed_emit_some)
  subgoal by (induction xs) (auto intro!: framed_rules framed_emit_some)
  subgoal by (induction xs) (auto intro!: framed_rules framed_emit_some)
  subgoal by (induction xs) (auto intro!: framed_rules framed_emit_some)
  done

lemma arguments_nesting:
  "argument_list a = Some xs \<Longrightarrow> nest a \<le> d \<Longrightarrow> nesting_list xs \<le> d"
  "call_arguments x = Some xs \<Longrightarrow> nesting x \<le> d \<Longrightarrow> nesting_list xs \<le> d"
  "member_call x = Some (op, name, args) \<Longrightarrow> nesting x \<le> d \<Longrightarrow> nesting args \<le> d"
  "literal_elements x = Some xs \<Longrightarrow> nesting x \<le> d \<Longrightarrow> nesting_list xs \<le> d"
  subgoal by (auto simp: argument_list_def split: ast.splits)
  subgoal by (auto simp: call_arguments_def split: ast.splits option.splits)
  subgoal by (auto simp: member_call_def split: ast.splits option.splits)
  subgoal by (auto simp: literal_elements_def split: ast.splits option.splits if_splits)
  done

section \<open>Control flow\<close>

lemma framed_path: "nesting x \<le> d \<Longrightarrow> framed d (emit_path emit x)"
  unfolding emit_path_def
  by (auto split: option.split ast.split list.split intro!: framed_lists emit_framed)

lemma framed_if_expression: "nesting x \<le> d \<Longrightarrow> framed d (emit_if_expression emit x)"
  by (induction e\<equiv>emit x rule: emit_if_expression.induct) (auto intro!: framed_rules emit_framed framed_path)

lemma framed_emit_if:
  assumes "nesting c \<le> d" "nesting t \<le> d" "nesting e \<le> d"
  shows "framed d (Xvr_LLVMControlFlowEmitIf emit c t e r isExpression)"
  unfolding Xvr_LLVMControlFlowEmitIf_def
  using assms by (auto intro!: framed_rules emit_framed framed_path framed_if_expression)

lemma framed_emit_while:
  assumes "nesting c \<le> d" "nesting t \<le> d"
  shows "framed d (Xvr_LLVMControlFlowEmitWhile emit c t)"
  unfolding Xvr_LLVMControlFlowEmitWhile_def emit_while_loop_def
  by (rule framed_enter_loop, (rule shallow_push popped_end popped_bind shallow_bind | intro framed_rules | simp add: assms emit_framed)+)

lemma framed_emit_for:
  assumes "nesting p \<le> d" "nesting c \<le> d" "nesting q \<le> d" "nesting t \<le> d"
  shows "framed d (Xvr_LLVMControlFlowEmitFor emit p c q t)"
  unfolding Xvr_LLVMControlFlowEmitFor_def emit_for_loop_def
  by (rule framed_enter_loop, (rule shallow_push popped_end popped_bind shallow_bind | intro framed_rules | simp add: assms emit_framed)+)

section \<open>Calls\<close>

lemma framed_len: "nesting x \<le> d \<Longrightarrow> framed d (emit_len emit x)"
  unfolding emit_len_def
  by (auto intro!: framed_rules framed_emit_some dest: arguments_nesting(2))

lemma framed_named_call: "nesting x \<le> d \<Longrightarrow> framed d (emit_named_call emit name x)"
  unfolding emit_named_call_def
  by (auto intro!: framed_rules framed_lists dest: arguments_nesting(2) split: option.split ast.split)

lemma framed_call: "nesting x \<le> d \<Longrightarrow> framed d (emit_call emit left x)"
  unfolding emit_call_def by (auto intro!: framed_rules framed_len framed_named_call)

lemma framed_fn_call: "nesting x \<le> d \<Longrightarrow> framed d (Xvr_LLVMExpressionEmitterEmitFnCall emit x)"
  unfolding Xvr_LLVMExpressionEmitterEmitFnCall_def
  by (auto intro!: framed_rules framed_lists split: ast.split)

lemma framed_first: "nest x \<le> d \<Longrightarrow> framed d (emit_first emit x)"
  unfolding emit_first_def
  by (auto intro!: framed_rules framed_emit_some dest: arguments_nesting(1))

lemma framed_math_function:
  "nesting x \<le> d \<Longrightarrow> framed d (emit_math1 name f32 f64 emit x)"
  "nesting x \<le> d \<Longrightarrow> framed d (emit_math2 name f32 f64 emit x)"
  "nesting x \<le> d \<Longrightarrow> framed d (emit_math_abs emit x)"
  "nesting x \<le> d \<Longrightarrow> framed d (emit_max emit x)"
  unfolding emit_math1_def emit_math2_def emit_math_abs_def emit_max_def
  by (auto intro!: framed_rules framed_first framed_emit_some framed_lists dest: arguments_nesting(1))

section \<open>Printing\<close>

lemma framed_alone: "nest x \<le> d \<Longrightarrow> framed d (print_alone who nl emit f a x)"
  unfolding print_alone_def by (auto intro!: framed_rules framed_emit_some)

lemma framed_printf: "nesting x \<le> d \<Longrightarrow> framed d (emit_printf emit x)"
  unfolding emit_printf_def
  by (auto intro!: framed_rules framed_alone framed_lists dest: arguments_nesting(1))

lemma framed_printfln: "nesting x \<le> d \<Longrightarrow> framed d (emit_printfln emit x)"
  unfolding emit_printfln_def
  by (auto intro!: framed_rules framed_alone framed_lists dest: arguments_nesting(1))

section \<open>Members\<close>

lemma framed_math_table:
  "list_all (\<lambda>(name, f). \<forall>x. nesting x \<le> d \<longrightarrow> framed d (f emit x)) math_functions"
  unfolding math_functions_def emit_math_sqrt_def emit_math_sin_def emit_math_cos_def emit_math_floor_def
    emit_math_ceil_def emit_math_round_def emit_math_log_def emit_math_exp_def emit_math_tan_def emit_math_atan_def
    emit_math_asin_def emit_math_acos_def emit_math_log10_def emit_math_log2_def emit_math_sinh_def emit_math_cosh_def
    emit_math_tanh_def emit_math_asinh_def emit_math_acosh_def emit_math_atanh_def emit_math_trunc_def emit_math_pow_def
    emit_math_atan2_def emit_math_fmod_def
  by (simp add: framed_math_function)

lemma framed_namespace:
  assumes "namespace_call emit left right = Some m" and "nesting right \<le> d"
  shows "framed d m"
proof -
  obtain space name args f where m: "m = f emit args" and args: "nesting args \<le> d"
    and f: "namespace_function space name = Some f"
    using assms by (auto simp: namespace_call_def arguments_nesting(3) split: option.splits if_splits)
  have "(name, f) \<in> set math_functions" if "space = ''math''"
    using that f by (auto simp: namespace_function_def dest: map_of_SomeD)
  then show ?thesis
    using m args f framed_math_table [of d]
    by (auto simp: namespace_function_def list_all_iff framed_printf framed_printfln framed_math_function split: if_splits)
qed

lemma framed_insert: "nesting x \<le> d \<Longrightarrow> framed d (emit_insert emit p x)"
  unfolding emit_insert_def
  by (auto intro!: framed_rules framed_emit_some split: option.split ast.split list.split)

lemma framed_operands:
  "nesting x \<le> d \<Longrightarrow> nesting y \<le> d \<Longrightarrow> framed d (emit_operands fresh emit op x y)"
  unfolding emit_operands_def by (auto intro!: framed_rules emit_framed)

lemma framed_method:
  "nesting x \<le> d \<Longrightarrow> nesting y \<le> d \<Longrightarrow> framed d (emit_method fresh emit name x y)"
  unfolding emit_method_def
  by (auto intro!: framed_rules framed_insert framed_operands dest: arguments_nesting(3) split: option.split)

section \<open>Assignments\<close>

lemma framed_store:
  "nesting x \<le> d \<Longrightarrow> nesting y \<le> d \<Longrightarrow> framed d (assign_element emit name x y)"
  "nesting y \<le> d \<Longrightarrow> framed d (store_variable emit op name y)"
  "nesting x \<le> d \<Longrightarrow> nesting y \<le> d \<Longrightarrow> framed d (store_element emit name x y)"
  unfolding assign_element_def store_variable_def store_element_def by (auto intro!: framed_rules emit_framed)

lemma framed_assignment:
  "nesting x \<le> d \<Longrightarrow> nesting y \<le> d \<Longrightarrow> framed d (emit_assignment emit op x y)"
  unfolding emit_assignment_def
  by (auto intro!: framed_rules framed_store split: option.split ast.split)

lemma framed_emit_binary:
  assumes "nesting x \<le> d" "nesting y \<le> d"
  shows "framed d (Xvr_LLVMExpressionEmitterEmitBinary fresh emit op x y)"
  unfolding Xvr_LLVMExpressionEmitterEmitBinary_def using assms
  by (auto intro!: framed_printf framed_call framed_namespace framed_method framed_operands framed_assignment
    split: option.split)

section \<open>Declarations and elements\<close>

lemma framed_create_array: "nesting_list xs \<le> d \<Longrightarrow> framed d (create_array emit xs)"
  unfolding create_array_def by (auto intro!: framed_rules framed_lists)

lemma framed_declaration:
  assumes "nesting x \<le> d"
  shows "framed d (emit_declaration emit name t x)"
proof -
  have "framed d (create_array emit (case (if c then literal_elements x else None) of None \<Rightarrow> [] | Some xs \<Rightarrow> xs))" for c
    using assms arguments_nesting(4) [of x] by (auto intro!: framed_create_array split: option.split)
  then show ?thesis
    unfolding emit_declaration_def Let_def using assms by (intro framed_rules emit_framed; simp)
qed

lemma framed_emit_array: "nesting_list xs \<le> d \<Longrightarrow> framed d (emit_array emit xs)"
  unfolding emit_array_def by (auto intro!: framed_rules framed_emit_some framed_lists split: list.split)

lemma framed_ternary:
  "nesting x \<le> d \<Longrightarrow> nesting y \<le> d \<Longrightarrow> nesting z \<le> d \<Longrightarrow> framed d (emit_ternary emit x y z)"
  unfolding emit_ternary_def by (auto intro!: framed_rules emit_framed)

lemma framed_nested: "nesting z \<le> d \<Longrightarrow> framed d (nested_element emit v z)"
  unfolding nested_element_def by (auto intro!: framed_rules emit_framed)

lemma framed_index:
  assumes "nesting x \<le> d" "nesting y \<le> d" "nesting z \<le> d"
  shows "framed d (emit_index emit x y z)"
  unfolding emit_index_def element_of_variable_def element_of_pointer_def element_of_array_def
  using assms by (auto intro!: framed_rules emit_framed framed_nested split: option.split)

section \<open>Nodes\<close>

lemma framed_step: "f \<noteq> ''LLVMBuildRet'' \<and> f \<noteq> ''LLVMBuildRetVoid'' \<Longrightarrow> framed d (step_variable f word l)"
  unfolding step_variable_def by (auto intro!: framed_rules split: option.split)

lemma framed_steps: "framed d (increment l)" "framed d (decrement l)"
  unfolding increment_def decrement_def by (simp_all add: framed_step)

lemma framed_block:
  assumes "Suc (nesting_list xs) \<le> d"
  shows "framed d (emit_block emit xs)"
proof -
  have "framed (Suc (d - 1)) (do { Xvr_LLVMFunctionEmitterEnterScope; emit_statements emit xs;
      Xvr_LLVMFunctionEmitterExitScope; give (0::nat) })"
    using assms by (intro framed_scope framed_lists) simp
  then show ?thesis
    unfolding emit_block_def using assms by (auto intro: framed_rules)
qed

lemma framed_cast_node: "nesting x \<le> d \<Longrightarrow> framed d (emit_cast_node emit l x)"
  unfolding emit_cast_node_def by (intro framed_rules emit_framed; simp)

lemma framed_unary: "nesting x \<le> d \<Longrightarrow> framed d (Xvr_LLVMExpressionEmitterEmitUnary emit op x)"
  unfolding Xvr_LLVMExpressionEmitterEmitUnary_def by (auto intro!: framed_rules emit_framed)

lemma framed_node: "nest node \<le> d \<Longrightarrow> framed d (emit_node fresh emit node)"
  unfolding emit_node_def
  by (cases node)
    (auto simp: Xvr_LLVMControlFlowEmitBreak_def Xvr_LLVMControlFlowEmitContinue_def
      intro!: framed_rules framed_emit_binary framed_unary framed_fn_call framed_cast_node framed_emit_if
        framed_emit_while framed_emit_for framed_block framed_declaration framed_emit_array framed_ternary emit_framed
        framed_index framed_steps split: literal.split)

end

end
