(* ===== verification/LlvmFuel.thy ===== *)
theory LlvmFuel
  imports LlvmEmission
begin

text \<open>
  The recursion of the emitter ends: a step emits smaller nodes only, so the bound of
  Xvr_LLVMExpressionEmitterEmit is never met. The locale \<open>agreement\<close> holds two emissions of the parts of a node
  that agree on small nodes; every emitter then does the same with both. The contract of theory LlvmEmission is interpreted at the end.
\<close>

lemmas branch_cong = if_cong option.case_cong list.case_cong ast.case_cong prod.case_cong

abbreviation node_size :: "ast option \<Rightarrow> nat" where
  "node_size x \<equiv> size_option size x"

locale agreement =
  fixes e :: "ast option \<Rightarrow> nat emits" and e' :: "ast option \<Rightarrow> nat emits" and m :: nat
  assumes none_agree: "e None = e' None"
    and some_agree: "size x < m \<Longrightarrow> e (Some x) = e' (Some x)"
begin

section \<open>Lists of nodes\<close>

lemma option_agree: "node_size x \<le> m \<Longrightarrow> e x = e' x"
  by (cases x) (auto simp: none_agree some_agree)

lemma lists_agree:
  "size_list size xs \<le> m \<Longrightarrow> emit_statements e xs = emit_statements e' xs"
  "size_list size xs \<le> m \<Longrightarrow> emit_last e xs = emit_last e' xs"
  "size_list size xs \<le> m \<Longrightarrow> emit_all e xs = emit_all e' xs"
  "size_list size xs \<le> m \<Longrightarrow> emit_or_zero e xs = emit_or_zero e' xs"
  "size_list size xs \<le> m \<Longrightarrow> call_values e xs = call_values e' xs"
  "size_list size xs \<le> m \<Longrightarrow> insert_elements e t f a xs = insert_elements e' t f a xs"
  subgoal by (induction xs) (auto simp: some_agree)
  subgoal by (induction xs rule: induct_list012) (auto simp: some_agree)
  subgoal by (induction xs) (auto simp: some_agree cong: if_cong)
  subgoal by (induction xs) (auto simp: some_agree cong: if_cong)
  subgoal by (induction xs) (auto simp: some_agree cong: if_cong)
  subgoal by (induction xs) (auto simp: some_agree cong: if_cong)
  done

lemma arguments_size:
  "argument_list a = Some xs \<Longrightarrow> size a < m \<Longrightarrow> size_list size xs \<le> m"
  "call_arguments x = Some xs \<Longrightarrow> node_size x \<le> m \<Longrightarrow> size_list size xs \<le> m"
  "member_call x = Some (op, name, args) \<Longrightarrow> node_size x \<le> m \<Longrightarrow> node_size args \<le> m"
  "literal_elements x = Some xs \<Longrightarrow> node_size x \<le> m \<Longrightarrow> size_list size xs \<le> m"
  subgoal by (auto simp: argument_list_def split: ast.splits)
  subgoal by (auto simp: call_arguments_def split: ast.splits option.splits)
  subgoal by (auto simp: member_call_def split: ast.splits option.splits)
  subgoal by (auto simp: literal_elements_def split: ast.splits option.splits if_splits)
  done

section \<open>Control flow\<close>

lemma path_agree: "node_size x \<le> m \<Longrightarrow> emit_path e x = emit_path e' x"
  unfolding emit_path_def
  by (auto simp: none_agree some_agree intro!: lists_agree split: option.split ast.split list.split)

lemma if_expression_agree: "node_size x \<le> m \<Longrightarrow> emit_if_expression e x = emit_if_expression e' x"
proof (induction f\<equiv>e x rule: emit_if_expression.induct)
  case (1 c t x r b)
  then have "emit_if_expression e x = emit_if_expression e' x"
    using 1(1) [of 1 True] by simp
  then show ?case
    using 1(2) by (simp add: option_agree path_agree cong: if_cong)
qed (simp_all add: path_agree)

lemma emit_if_agree:
  assumes "node_size c \<le> m" "node_size t \<le> m" "node_size x \<le> m"
  shows "Xvr_LLVMControlFlowEmitIf e c t x r b = Xvr_LLVMControlFlowEmitIf e' c t x r b"
  unfolding Xvr_LLVMControlFlowEmitIf_def
  using assms by (simp add: option_agree path_agree if_expression_agree cong: if_cong)

lemma emit_while_agree:
  "node_size c \<le> m \<Longrightarrow> node_size t \<le> m \<Longrightarrow> Xvr_LLVMControlFlowEmitWhile e c t = Xvr_LLVMControlFlowEmitWhile e' c t"
  unfolding Xvr_LLVMControlFlowEmitWhile_def emit_while_loop_def by (simp add: option_agree cong: if_cong)

lemma emit_for_agree:
  "node_size p \<le> m \<Longrightarrow> node_size c \<le> m \<Longrightarrow> node_size q \<le> m \<Longrightarrow> node_size t \<le> m \<Longrightarrow>
     Xvr_LLVMControlFlowEmitFor e p c q t = Xvr_LLVMControlFlowEmitFor e' p c q t"
  unfolding Xvr_LLVMControlFlowEmitFor_def emit_for_loop_def by (simp add: option_agree cong: if_cong)

section \<open>Calls\<close>

lemma len_agree: "node_size x \<le> m \<Longrightarrow> emit_len e x = emit_len e' x"
  using arguments_size(2) [of x] unfolding emit_len_def
  by (cases "call_arguments x") (auto simp: some_agree split: list.split cong: branch_cong)

lemma named_call_agree:
  assumes "node_size x \<le> m"
  shows "emit_named_call e name x = emit_named_call e' name x"
proof -
  have "emit_or_zero e (case x of Some (NodeCompound t xs c) \<Rightarrow> xs
          | _ \<Rightarrow> (case call_arguments x of Some xs \<Rightarrow> xs | None \<Rightarrow> [])) =
        emit_or_zero e' (case x of Some (NodeCompound t xs c) \<Rightarrow> xs
          | _ \<Rightarrow> (case call_arguments x of Some xs \<Rightarrow> xs | None \<Rightarrow> []))"
    using assms arguments_size(2) [of x] by (intro lists_agree) (auto split: option.split ast.split)
  then show ?thesis
    unfolding emit_named_call_def by (simp cong: if_cong)
qed

lemma call_agree: "node_size x \<le> m \<Longrightarrow> emit_call e left x = emit_call e' left x"
  unfolding emit_call_def by (simp add: len_agree named_call_agree cong: branch_cong)

lemma fn_call_agree:
  assumes "node_size x \<le> m"
  shows "Xvr_LLVMExpressionEmitterEmitFnCall e x = Xvr_LLVMExpressionEmitterEmitFnCall e' x"
proof -
  have "call_values e (case a of NodeCompound t xs c \<Rightarrow> xs | _ \<Rightarrow> []) =
      call_values e' (case a of NodeCompound t xs c \<Rightarrow> xs | _ \<Rightarrow> [])" if "x = Some a" for a
    using assms that by (intro lists_agree) (auto split: ast.split)
  then show ?thesis
    unfolding Xvr_LLVMExpressionEmitterEmitFnCall_def by (simp cong: if_cong split: option.split)
qed

lemma first_agree: "size a < m \<Longrightarrow> emit_first e a = emit_first e' a"
  using arguments_size(1) [of a] unfolding emit_first_def
  by (auto simp: some_agree split: option.split list.split)

lemma math1_agree: "node_size x \<le> m \<Longrightarrow> emit_math1 name f32 f64 e x = emit_math1 name f32 f64 e' x"
  unfolding emit_math1_def by (auto simp: first_agree split: option.split)

lemma math2_agree: "node_size x \<le> m \<Longrightarrow> emit_math2 name f32 f64 e x = emit_math2 name f32 f64 e' x"
  unfolding emit_math2_def
  by (auto simp: some_agree dest!: arguments_size(1) split: option.split list.split)

lemma abs_agree: "node_size x \<le> m \<Longrightarrow> emit_math_abs e x = emit_math_abs e' x"
  unfolding emit_math_abs_def by (auto simp: first_agree split: option.split)

lemma max_agree: "node_size x \<le> m \<Longrightarrow> emit_max e x = emit_max e' x"
  unfolding emit_max_def
  by (auto simp: lists_agree dest!: arguments_size(1) split: option.split cong: if_cong)

section \<open>Printing\<close>

lemma alone_agree: "size x < m \<Longrightarrow> print_alone who nl e f a x = print_alone who nl e' f a x"
  unfolding print_alone_def by (simp add: some_agree)

lemma printf_agree: "node_size x \<le> m \<Longrightarrow> emit_printf e x = emit_printf e' x"
  unfolding emit_printf_def using arguments_size(1) [of "the x"]
  by (cases x; cases "argument_list (the x)"; cases "the (argument_list (the x))")
    (auto simp: lists_agree alone_agree cong: if_cong)

lemma printfln_agree: "node_size x \<le> m \<Longrightarrow> emit_printfln e x = emit_printfln e' x"
  unfolding emit_printfln_def using arguments_size(1) [of "the x"]
  by (cases x; cases "argument_list (the x)"; cases "the (argument_list (the x))")
    (auto simp: lists_agree alone_agree cong: if_cong)

section \<open>Members\<close>

lemma math_table_agree:
  "list_all (\<lambda>(name, f). \<forall>x. node_size x \<le> m \<longrightarrow> f e x = f e' x) math_functions"
  unfolding math_functions_def emit_math_sqrt_def emit_math_sin_def emit_math_cos_def emit_math_floor_def
    emit_math_ceil_def emit_math_round_def emit_math_log_def emit_math_exp_def emit_math_tan_def emit_math_atan_def
    emit_math_asin_def emit_math_acos_def emit_math_log10_def emit_math_log2_def emit_math_sinh_def emit_math_cosh_def
    emit_math_tanh_def emit_math_asinh_def emit_math_acosh_def emit_math_atanh_def emit_math_trunc_def emit_math_pow_def
    emit_math_atan2_def emit_math_fmod_def
  by (simp add: math1_agree math2_agree abs_agree)

lemma namespace_function_agree:
  assumes "namespace_function space name = Some f" and "node_size x \<le> m"
  shows "f e x = f e' x"
proof -
  have "(name, f) \<in> set math_functions" if "space = ''math''"
    using that assms by (auto simp: namespace_function_def dest: map_of_SomeD)
  then show ?thesis
    using assms math_table_agree
    by (auto simp: namespace_function_def list_all_iff printf_agree printfln_agree max_agree split: if_splits)
qed

lemma namespace_agree:
  assumes "node_size right \<le> m"
  shows "namespace_call e left right = namespace_call e' left right"
proof (cases "member_call right")
  case None
  then show ?thesis
    by (simp add: namespace_call_def split: option.split)
next
  case (Some call)
  obtain op name args where call: "call = (op, name, args)"
    by (cases call)
  then have "node_size args \<le> m"
    using Some assms by (auto dest: arguments_size(3))
  then show ?thesis
    using Some call
    by (auto simp: namespace_call_def namespace_function_agree split: option.split intro!: option.map_cong0)
qed

lemma insert_agree: "node_size x \<le> m \<Longrightarrow> emit_insert e p x = emit_insert e' p x"
  unfolding emit_insert_def
  by (auto simp: some_agree split: option.split ast.split list.split)

lemma operands_agree:
  "node_size x \<le> m \<Longrightarrow> node_size y \<le> m \<Longrightarrow> emit_operands fresh e op x y = emit_operands fresh e' op x y"
  unfolding emit_operands_def by (simp add: option_agree cong: if_cong)

lemma method_agree:
  assumes "node_size x \<le> m" "node_size y \<le> m"
  shows "emit_method fresh e name x y = emit_method fresh e' name x y"
  using assms arguments_size(3) [of y] unfolding emit_method_def
  by (cases "member_call y") (auto simp: operands_agree insert_agree cong: branch_cong)

section \<open>Assignments\<close>

lemma store_agree:
  "node_size x \<le> m \<Longrightarrow> node_size y \<le> m \<Longrightarrow> assign_element e name x y = assign_element e' name x y"
  "node_size y \<le> m \<Longrightarrow> store_variable e op name y = store_variable e' op name y"
  "node_size x \<le> m \<Longrightarrow> node_size y \<le> m \<Longrightarrow> store_element e name x y = store_element e' name x y"
  unfolding assign_element_def store_variable_def store_element_def by (simp_all add: option_agree cong: if_cong)

lemma assignment_agree:
  "node_size x \<le> m \<Longrightarrow> node_size y \<le> m \<Longrightarrow> emit_assignment e op x y = emit_assignment e' op x y"
  unfolding emit_assignment_def by (auto simp: store_agree split: option.split ast.split)

lemma emit_binary_agree:
  assumes "node_size x \<le> m" "node_size y \<le> m"
  shows "Xvr_LLVMExpressionEmitterEmitBinary fresh e op x y = Xvr_LLVMExpressionEmitterEmitBinary fresh e' op x y"
  unfolding Xvr_LLVMExpressionEmitterEmitBinary_def using assms
  by (simp add: printf_agree call_agree namespace_agree method_agree operands_agree assignment_agree cong: branch_cong)

section \<open>Declarations and elements\<close>

lemma create_array_agree: "size_list size xs \<le> m \<Longrightarrow> create_array e xs = create_array e' xs"
  unfolding create_array_def by (simp add: lists_agree cong: if_cong)

lemma declaration_agree:
  assumes "node_size x \<le> m"
  shows "emit_declaration e name t x = emit_declaration e' name t x"
proof -
  have "create_array e (case (if c then literal_elements x else None) of None \<Rightarrow> [] | Some xs \<Rightarrow> xs) =
      create_array e' (case (if c then literal_elements x else None) of None \<Rightarrow> [] | Some xs \<Rightarrow> xs)" for c
    using assms arguments_size(4) [of x] by (intro create_array_agree) (auto split: option.split)
  then show ?thesis
    unfolding emit_declaration_def Let_def using assms by (simp add: option_agree cong: if_cong)
qed

lemma emit_array_agree: "size_list size xs \<le> m \<Longrightarrow> emit_array e xs = emit_array e' xs"
  unfolding emit_array_def by (auto simp: some_agree lists_agree split: list.split cong: if_cong)

lemma ternary_agree:
  "node_size x \<le> m \<Longrightarrow> node_size y \<le> m \<Longrightarrow> node_size z \<le> m \<Longrightarrow> emit_ternary e x y z = emit_ternary e' x y z"
  unfolding emit_ternary_def by (simp add: option_agree cong: if_cong)

lemma index_agree:
  assumes "node_size x \<le> m" "node_size y \<le> m" "node_size z \<le> m"
  shows "emit_index e x y z = emit_index e' x y z"
  unfolding emit_index_def element_of_variable_def nested_element_def
  using assms by (simp add: option_agree cong: branch_cong)

section \<open>Nodes\<close>

lemma block_agree: "size_list size xs \<le> m \<Longrightarrow> emit_block e xs = emit_block e' xs"
  unfolding emit_block_def by (simp add: lists_agree)

lemma cast_node_agree: "node_size x \<le> m \<Longrightarrow> emit_cast_node e l x = emit_cast_node e' l x"
  unfolding emit_cast_node_def by (simp add: option_agree)

lemma unary_agree:
  "node_size x \<le> m \<Longrightarrow> Xvr_LLVMExpressionEmitterEmitUnary e op x = Xvr_LLVMExpressionEmitterEmitUnary e' op x"
  unfolding Xvr_LLVMExpressionEmitterEmitUnary_def by (simp add: option_agree)

lemma node_agree: "size node \<le> m \<Longrightarrow> emit_node fresh e node = emit_node fresh e' node"
  unfolding emit_node_def
  by (cases node)
    (auto simp: emit_binary_agree unary_agree fn_call_agree cast_node_agree emit_if_agree emit_while_agree emit_for_agree
      block_agree declaration_agree emit_array_agree ternary_agree option_agree index_agree split: literal.split)

end

section \<open>Enough fuel\<close>

lemma upto_agree: "node_size x \<le> n \<Longrightarrow> emit_upto fresh n x = emit_upto fresh (n + k) x"
proof (induction n arbitrary: x)
  case 0
  then show ?case
    by (cases x) auto
next
  case (Suc n)
  have parts: "agreement (emit_upto fresh n) (emit_upto fresh (n + k)) n"
    by (rule agreement.intro) (auto intro: Suc.IH)
  show ?case
    using Suc.prems agreement.node_agree [OF parts] by (cases x) auto
qed

interpretation enough: agreement "emit_upto fresh n" "Xvr_LLVMExpressionEmitterEmit fresh" n
proof
  show "emit_upto fresh n None = Xvr_LLVMExpressionEmitterEmit fresh None"
    by (simp add: Xvr_LLVMExpressionEmitterEmit_def)
  show "emit_upto fresh n (Some x) = Xvr_LLVMExpressionEmitterEmit fresh (Some x)" if "size x < n" for x
    using that upto_agree [of "Some x" "Suc (size x)" fresh "n - Suc (size x)"]
    by (simp add: Xvr_LLVMExpressionEmitterEmit_def)
qed

lemma emit_None [simp]: "Xvr_LLVMExpressionEmitterEmit fresh None = give 0"
  by (simp add: Xvr_LLVMExpressionEmitterEmit_def)

lemma emit_unfold:
  "Xvr_LLVMExpressionEmitterEmit fresh (Some x) = emit_node fresh (Xvr_LLVMExpressionEmitterEmit fresh) x"
  using enough.node_agree [of x "size x"]
  by (simp add: Xvr_LLVMExpressionEmitterEmit_def)

section \<open>Frames of the recursion\<close>

text \<open>With enough fuel the emission keeps frames: on the parts of the node it agrees with one that does nothing where the
  fuel would not suffice.\<close>

lemma framed_upto: "node_size x \<le> n \<Longrightarrow> nesting x \<le> d \<Longrightarrow> framed d (emit_upto fresh n x)"
proof (induction n arbitrary: x d)
  case 0
  then show ?case
    by (cases x) (auto intro: framed_rules)
next
  case (Suc n)
  define e where "e x = (if node_size x \<le> n then emit_upto fresh n x else give 0)" for x
  have parts: "emission_contract e" "agreement (emit_upto fresh n) e n"
    by unfold_locales (auto simp: e_def intro: Suc.IH framed_rules)
  show ?case
  proof (cases x)
    case None
    then show ?thesis
      by (simp add: framed_give)
  next
    case (Some y)
    then have "framed d (emit_node fresh e y)" "emit_node fresh (emit_upto fresh n) y = emit_node fresh e y"
      using Suc.prems emission_contract.framed_node [OF parts(1)] agreement.node_agree [OF parts(2)] by simp_all
    then show ?thesis
      using Some by simp
  qed
qed

interpretation emitter: emission_contract "Xvr_LLVMExpressionEmitterEmit fresh"
proof
  show "framed d (Xvr_LLVMExpressionEmitterEmit fresh x)" if "nesting x \<le> d" for x d
    unfolding Xvr_LLVMExpressionEmitterEmit_def using that framed_upto [of x "Suc (size (the x))" d fresh]
    by (cases x) (simp_all add: framed_give del: emit_upto.simps(3))
qed

end
