(* ===== verification/LlvmFunctions.thy ===== *)
theory LlvmFunctions
  imports LlvmFuel
begin

text \<open>
  What the emission of functions and programs keeps: the error of the code generator, LLVM's answers, and
  the sizes of the fixed tables; and that a function ends in at most one return. \<open>calm\<close> says it of a
  computation that builds no return.
\<close>

section \<open>Calm computations\<close>

definition calm_step :: "generator \<Rightarrow> generator \<Rightarrow> bool" where
  "calm_step s t \<longleftrightarrow> extends_calls s t \<and> be_failure t = be_failure s \<and> be_answer t = be_answer s \<and>
     be_text t = be_text s \<and> be_unfinished t = be_unfinished s \<and> (within_tables s \<longrightarrow> within_tables t)"

definition calm :: "'a emits \<Rightarrow> bool" where
  "calm m \<longleftrightarrow> (\<forall>s. calm_step s (snd (run_state m s)))"

named_theorems calm_rules

lemma calm_step_refl [simp]: "calm_step s s"
  by (simp add: calm_step_def)

lemma calm_step_trans: "calm_step s t \<Longrightarrow> calm_step t u \<Longrightarrow> calm_step s u"
  by (auto simp: calm_step_def intro: extends_calls_trans)

lemma framed_quiet: "framed d m \<Longrightarrow> calm m"
  unfolding framed_def calm_def calm_step_def steady_def within_tables_def by metis

lemma calm_bind [calm_rules]: "calm m \<Longrightarrow> (\<And>x. calm (f x)) \<Longrightarrow> calm (State_Monad.bind m f)"
  unfolding calm_def run_bind by (metis calm_step_trans)

lemma calm_if [calm_rules]: "(c \<Longrightarrow> calm m) \<Longrightarrow> (\<not> c \<Longrightarrow> calm n) \<Longrightarrow> calm (if c then m else n)"
  by simp

lemma calm_prod [calm_rules]: "(\<And>a b. calm (f a b)) \<Longrightarrow> calm (case p of (a, b) \<Rightarrow> f a b)"
  by (simp split: prod.split)

lemma calm_option [calm_rules]:
  "(x = None \<Longrightarrow> calm m) \<Longrightarrow> (\<And>y. x = Some y \<Longrightarrow> calm (f y)) \<Longrightarrow> calm (case x of None \<Rightarrow> m | Some y \<Rightarrow> f y)"
  by (simp split: option.split)

lemma calm_alter: "(\<And>s. calm_step s (f s)) \<Longrightarrow> calm (alter f)"
  by (simp add: calm_def)

lemma calm_llvm [calm_rules]: "f \<noteq> ''LLVMBuildRet'' \<and> f \<noteq> ''LLVMBuildRetVoid'' \<Longrightarrow> calm (llvm f args)"
  by (rule framed_quiet [of 0]) (rule framed_llvm)

lemma calm_framed [calm_rules]:
  "calm (give x)" "calm (inspect g)" "calm undefined_step" "calm (Xvr_LLVMContextSetError m)"
  "calm Xvr_LLVMContextHasError" "calm int32_type" "calm (llvm_type_of v)" "calm (kind_of_type t)"
  "calm (function_type t ts c)" "calm (named_function name)" "calm (add_function name t)" "calm (append_block fn name)"
  "calm (position_at_end b)" "calm (Xvr_LLVMTypeMapperGetType u)" "calm (Xvr_LLVMIRBuilderCreateAlloca t n)"
  "calm (Xvr_LLVMIRBuilderCreateStore v p)" "calm (Xvr_LLVMIRBuilderSetInsertPoint b)" "calm Xvr_LLVMIRBuilderGetInsertBlock"
  "calm (Xvr_LLVMModuleManagerRegisterFunctionType name t)" "calm (const_int int32_type k c)"
  by (rule framed_quiet [of 0], intro framed_rules)+

lemma calm_tables [calm_rules]:
  "calm (add_local_var name p t n)" "calm (Xvr_LLVMFunctionEmitterSetCurrentFunction fn)" "calm clear_local_vars"
  by (auto simp: add_local_var_def Xvr_LLVMFunctionEmitterSetCurrentFunction_def clear_local_vars_def calm_step_def
    extends_calls_def within_tables_def intro!: calm_alter)

lemma calm_emit [calm_rules]: "calm (Xvr_LLVMExpressionEmitterEmit fresh x)"
  by (rule framed_quiet [OF emitter.emit_framed [OF order_refl]])

section \<open>Functions\<close>

lemma calm_checks [calm_rules]:
  "calm (name_of_kind t)" "calm (check_return_type_compatibility t v name)" "calm (return_type r)"
  unfolding name_of_kind_def check_return_type_compatibility_def return_type_def
  by (auto intro!: calm_rules)

lemma calm_parameters [calm_rules]: "calm (parameters xs)"
  by (induction xs rule: parameters.induct) (auto simp: Let_def intro!: calm_rules)

lemma calm_store_parameters [calm_rules]: "calm (store_parameters fn i ps)"
  by (induction fn i ps rule: store_parameters.induct) (auto intro!: calm_rules)

lemma calm_start [calm_rules]: "calm (start_function name t ps)"
  unfolding start_function_def by (intro calm_rules; simp)

lemma calm_value [calm_rules]:
  "calm (emit_return (Xvr_LLVMExpressionEmitterEmit fresh) t b name returns v)"
  "calm (emit_implicit (Xvr_LLVMExpressionEmitterEmit fresh) t b x v)"
  unfolding emit_return_def emit_implicit_def
  by (auto intro!: calm_rules split: option.split ast.split list.split)

lemma calm_body [calm_rules]: "calm (emit_body (Xvr_LLVMExpressionEmitterEmit fresh) t b name xs v seen)"
proof (induction xs arbitrary: v seen)
  case Nil
  then show ?case
    by (auto intro: calm_rules)
next
  case (Cons x xs)
  have "calm (State_Monad.bind m (\<lambda>r. case r of None \<Rightarrow> give None
      | Some w \<Rightarrow> emit_body (Xvr_LLVMExpressionEmitterEmit fresh) t b name xs w True))" if "calm m" for m
    using that Cons.IH by (auto intro!: calm_rules)
  then show ?case
    using Cons.IH by (cases x) (auto intro!: calm_rules)
qed

lemma end_function_trace:
  "\<exists>rs. be_calls (snd (run_state (end_function b name v seen) s)) = be_calls s @ rs \<and> length rs \<le> 1 \<and> list_all is_return rs \<and>
     be_failure (snd (run_state (end_function b name v seen) s)) = be_failure s \<and>
     be_unfinished (snd (run_state (end_function b name v seen) s)) = be_unfinished s"
proof -
  have "be_calls (snd (run_state (Xvr_LLVMContextSetError m) s)) = be_calls s \<and>
      be_failure (snd (run_state (Xvr_LLVMContextSetError m) s)) = be_failure s \<and>
      be_unfinished (snd (run_state (Xvr_LLVMContextSetError m) s)) = be_unfinished s" for m
    by (auto simp: Xvr_LLVMContextSetError_def undefined_step_def split: option.split)
  then show ?thesis
    by (auto simp: end_function_def run_bind case_prod_beta is_return_def)
qed

section \<open>The type of the value returned\<close>

text \<open>The documented behaviour of LLVM that this rests on: the type of a value and the kind of a type do not change.\<close>

definition types_fixed :: "(nat \<Rightarrow> nat) \<Rightarrow> (nat \<Rightarrow> nat) \<Rightarrow> (llvm_call list \<Rightarrow> nat) \<Rightarrow> bool" where
  "types_fixed ty kind answer \<longleftrightarrow>
     (\<forall>cs v. answer (cs @ [Call ''LLVMTypeOf'' [Ref v]]) = ty v) \<and>
     (\<forall>cs t. answer (cs @ [Call ''LLVMGetTypeKind'' [Ref t]]) = kind t)"

lemma types_fixed_simps:
  assumes "types_fixed ty kind answer"
  shows "answer (cs @ [Call ''LLVMTypeOf'' [Ref v]]) = ty v"
    and "answer (cs @ [Call ''LLVMGetTypeKind'' [Ref t]]) = kind t"
    and "answer (cs @ [a, Call ''LLVMGetTypeKind'' [Ref t]]) = kind t"
    and "answer (cs @ [a, b, Call ''LLVMGetTypeKind'' [Ref t]]) = kind t"
  using assms by (auto simp: types_fixed_def dest: spec [of _ "cs @ [a]"] spec [of _ "cs @ [a, b]"])

definition returnable :: "(nat \<Rightarrow> nat) \<Rightarrow> (nat \<Rightarrow> nat) \<Rightarrow> nat \<Rightarrow> nat \<Rightarrow> bool" where
  "returnable ty kind t v \<longleftrightarrow> v = 0 \<or> kind (ty v) = kind t \<or> kind t = LLVMVoidTypeKind"

lemma calm_answer: "calm m \<Longrightarrow> be_answer (snd (run_state m s)) = be_answer s"
  by (simp add: calm_def calm_step_def)

lemma compatible_value:
  assumes "types_fixed ty kind (be_answer s)"
    and "fst (run_state (check_return_type_compatibility t v name) s)"
  shows "returnable ty kind t v"
  using assms types_fixed_simps [OF assms(1)]
  by (auto simp: check_return_type_compatibility_def returnable_def run_bind llvm_type_of_def
    kind_of_type_def case_prod_beta split: if_splits)

lemma returned_value:
  assumes "types_fixed ty kind (be_answer s)"
    and "fst (run_state (emit_return (Xvr_LLVMExpressionEmitterEmit fresh) t is_void name returns v) s) = Some w"
  shows "returnable ty kind t w"
proof -
  define m where "m = (case returns of
               None \<Rightarrow> give v
             | Some (NodeFnCollection [] c) \<Rightarrow> give v
             | Some (NodeFnCollection (x # xs) c) \<Rightarrow> Xvr_LLVMExpressionEmitterEmit fresh (Some x)
             | Some x \<Rightarrow> Xvr_LLVMExpressionEmitterEmit fresh (Some x))"
  define n where "n = (if returns = None then give False else Xvr_LLVMContextHasError)"
  have calm: "calm m" "calm n"
    unfolding m_def n_def by (auto intro!: calm_rules split: option.split ast.split list.split)
  define u where "u = snd (run_state n (snd (run_state m s)))"
  have "be_answer u = be_answer s"
    by (simp add: u_def calm_answer calm)
  then show ?thesis
    using assms compatible_value [of ty kind u t w name]
    by (auto simp: emit_return_def m_def [symmetric] n_def [symmetric] u_def run_bind case_prod_beta split: if_splits)
qed

lemma implicit_value:
  assumes "types_fixed ty kind (be_answer s)" "returnable ty kind t v"
    and "fst (run_state (emit_implicit (Xvr_LLVMExpressionEmitterEmit fresh) t is_void x v) s) = Some w"
  shows "returnable ty kind t w"
proof -
  define u where "u = snd (run_state (Xvr_LLVMExpressionEmitterEmit fresh (Some x)) s)"
  have "types_fixed ty kind (be_answer u)"
    using assms(1) by (simp add: u_def calm_answer calm_emit)
  then show ?thesis
    using assms(2,3) types_fixed_simps [of ty kind "be_answer u"]
    by (auto simp: emit_implicit_def u_def [symmetric] run_bind Xvr_LLVMContextHasError_def
      returnable_def llvm_type_of_def kind_of_type_def case_prod_beta split: if_splits)
qed

lemma body_value:
  assumes "types_fixed ty kind (be_answer s)" "returnable ty kind t v"
    and "fst (run_state (emit_body (Xvr_LLVMExpressionEmitterEmit fresh) t is_void name xs v seen) s) = Some (w, seen')"
  shows "returnable ty kind t w"
  using assms
proof (induction xs arbitrary: s v seen)
  case Nil
  then show ?case
    by simp
next
  case (Cons x xs)
  note answer = calm_answer [OF calm_value(1)] calm_answer [OF calm_emit] calm_answer [OF calm_framed(5)]
  show ?case
  proof (cases "\<exists>returns. x = NodeFnReturn returns")
    case True
    then obtain returns where x: "x = NodeFnReturn returns" ..
    let ?r = "run_state (emit_return (Xvr_LLVMExpressionEmitterEmit fresh) t is_void name returns v) s"
    obtain u where u: "fst ?r = Some u"
        "fst (run_state (emit_body (Xvr_LLVMExpressionEmitterEmit fresh) t is_void name xs u True) (snd ?r)) = Some (w, seen')"
      using Cons.prems(3) x by (auto simp: run_bind case_prod_beta split: option.splits)
    show ?thesis
      using Cons.IH [OF _ _ u(2)] Cons.prems(1) returned_value [OF Cons.prems(1) u(1)] by (simp add: answer)
  next
    case False
    let ?e = "run_state (Xvr_LLVMExpressionEmitterEmit fresh (Some x)) s"
    show ?thesis
    proof (cases "xs = [] \<and> \<not> seen")
      case True
      then show ?thesis
        using False Cons.prems implicit_value [OF Cons.prems(1,2)]
        by (cases x) (auto simp: run_bind case_prod_beta)
    next
      case more: False
      then have "fst (run_state (emit_body (Xvr_LLVMExpressionEmitterEmit fresh) t is_void name xs v seen) (snd ?e)) =
          Some (w, seen')"
        using False Cons.prems(3)
        by (cases x) (auto simp: run_bind case_prod_beta Xvr_LLVMContextHasError_def split: if_splits)
      then show ?thesis
        using Cons.IH [of "snd ?e" v seen] Cons.prems(1,2) by (simp add: answer)
    qed
  qed
qed

section \<open>The run of a function declaration\<close>

text \<open>Either nothing is returned, or the body ends with the value and the type given.\<close>

definition ends_with :: "(nat \<Rightarrow> char) \<Rightarrow> ast option \<Rightarrow> generator \<Rightarrow> bool \<times> generator \<Rightarrow> nat \<Rightarrow> bool \<Rightarrow> nat \<Rightarrow> bool" where
  "ends_with fresh returns s r t is_void v \<longleftrightarrow>
     fst (run_state (return_type returns) (snd (run_state clear_local_vars s))) = Some (t, is_void) \<and>
     (\<exists>name seen u. calm_step s u \<and> r = run_state (end_function is_void name v seen) u \<and>
        (\<forall>ty kind. types_fixed ty kind (be_answer s) \<longrightarrow> returnable ty kind t v))"

lemma calm_run: "calm m \<Longrightarrow> calm_step s u \<Longrightarrow> calm_step s (snd (run_state m u))"
  by (auto simp: calm_def intro: calm_step_trans)

lemma function_run:
  fixes fresh :: "nat \<Rightarrow> char"
  defines "emit \<equiv> Xvr_LLVMExpressionEmitterEmit fresh"
  shows "calm_step s (snd (run_state (emit_function_body emit l arguments returns block) s)) \<or>
    (\<exists>t is_void v. ends_with fresh returns s (run_state (emit_function_body emit l arguments returns block) s) t is_void v)"
    (is "calm_step s (snd ?r) \<or> _")
proof (cases block)
  case None
  then show ?thesis
    by (simp add: emit_function_body_def run_bind case_prod_beta calm_run [OF calm_framed(4)])
next
  case (Some b)
  define s1 where "s1 = snd (run_state clear_local_vars s)"
  define s2 where "s2 = snd (run_state (return_type returns) s1)"
  define ps where "ps = fst (run_state (parameters (parameter_nodes arguments)) s2)"
  define s3 where "s3 = snd (run_state (parameters (parameter_nodes arguments)) s2)"
  have s3: "calm_step s s1" "calm_step s s2" "calm_step s s3"
    unfolding s1_def s2_def s3_def by (intro calm_run calm_rules calm_step_refl)+
  show ?thesis
  proof (cases "fst (run_state (return_type returns) s1)")
    case None
    then have "?r = (False, s2)"
      using Some by (simp add: emit_function_body_def run_bind case_prod_beta s1_def s2_def)
    then show ?thesis
      using s3 by simp
  next
    case (Some rt)
    then obtain t is_void where rt: "fst (run_state (return_type returns) s1) = Some (t, is_void)"
      by (cases rt) auto
    show ?thesis
    proof (cases "\<exists>xs c name. b = NodeBlock xs c \<and> identifier_text l = Some name")
      case False
      then have "?r = (False, snd (run_state undefined_step s3))"
        using \<open>block = Some b\<close> rt
        by (auto simp: emit_function_body_def run_bind s1_def s2_def s3_def case_prod_beta split: ast.split option.split)
      then show ?thesis
        using s3 calm_run [OF calm_framed(3)] by simp
    next
      case True
      then obtain xs c name where b: "b = NodeBlock xs c" "identifier_text l = Some name"
        by blast
      let ?name = "or_default ''xvr_fn'' name"
      define s4 where "s4 = snd (run_state (start_function ?name t ps) s3)"
      define r where "r = run_state (emit_body emit t is_void ?name xs 0 False) s4"
      have s4: "calm_step s s4" "calm_step s (snd r)"
        unfolding s4_def r_def emit_def using s3 by (intro calm_run calm_rules; simp)+
      have run: "?r = (case fst r of None \<Rightarrow> (False, snd r)
          | Some (v, seen) \<Rightarrow> run_state (end_function is_void ?name v seen) (snd r))"
        using \<open>block = Some b\<close> rt b
        by (simp add: emit_function_body_def run_bind s1_def s2_def s3_def s4_def ps_def r_def case_prod_beta Let_def
          split: option.split)
      show ?thesis
      proof (cases "fst r")
        case None
        then show ?thesis
          using run s4 by simp
      next
        case (Some p)
        then obtain v seen where v: "fst r = Some (v, seen)"
          by (cases p) auto
        have "returnable ty kind t v" if "types_fixed ty kind (be_answer s)" for ty kind
        proof (rule body_value [of ty kind s4 t 0])
          show "types_fixed ty kind (be_answer s4)"
            using that s4 by (simp add: calm_step_def)
        qed (use v in \<open>auto simp: r_def emit_def returnable_def\<close>)
        then have "ends_with fresh returns s ?r t is_void v"
          using run v s4 rt by (auto simp: ends_with_def s1_def)
        then show ?thesis
          by blast
      qed
    qed
  qed
qed

lemma function_keeps:
  "be_failure (snd (run_state (Xvr_LLVMFunctionEmitterEmit (Xvr_LLVMExpressionEmitterEmit fresh) node) s)) = be_failure s"
  "be_unfinished (snd (run_state (Xvr_LLVMFunctionEmitterEmit (Xvr_LLVMExpressionEmitterEmit fresh) node) s)) = be_unfinished s"
proof -
  have kept: "be_failure (snd (run_state (emit_function_body (Xvr_LLVMExpressionEmitterEmit fresh) l a r b) s)) = be_failure s \<and>
      be_unfinished (snd (run_state (emit_function_body (Xvr_LLVMExpressionEmitterEmit fresh) l a r b) s)) = be_unfinished s" for l a r b
  proof -
    have "be_failure (snd (run_state (end_function v name w seen) u)) = be_failure u \<and>
        be_unfinished (snd (run_state (end_function v name w seen) u)) = be_unfinished u" for v name w seen u
      using end_function_trace [of v name w seen u] by blast
    then show ?thesis
      using function_run [of s fresh l a r b] by (auto simp: calm_step_def ends_with_def)
  qed
  then show "be_failure (snd (run_state (Xvr_LLVMFunctionEmitterEmit (Xvr_LLVMExpressionEmitterEmit fresh) node) s)) = be_failure s"
    "be_unfinished (snd (run_state (Xvr_LLVMFunctionEmitterEmit (Xvr_LLVMExpressionEmitterEmit fresh) node) s)) = be_unfinished s"
    by (auto simp: Xvr_LLVMFunctionEmitterEmit_def split: option.split ast.split)
qed

end
