(* ===== verification/LlvmProps.thy ===== *)
theory LlvmProps
  imports LlvmFunctions
begin

text \<open>
  Properties of the emission of nodes: the recursion, what it leaves as it was, the scopes of blocks, the targets of
  loops, and what becomes of conditions that are no booleans.
\<close>

text \<open>A state of the code generator and a block for the concrete runs: LLVM answers every call with 5.\<close>

definition sample_generator :: "(llvm_call list \<Rightarrow> nat) \<Rightarrow> generator" where
  "sample_generator answer = (new_generator answer (\<lambda>_. None) no_types)\<lparr>be_function := 1\<rparr>"

definition sample_block :: ast where
  "sample_block = NodeBlock
     [NodeVarDecl (Ident ''x'' 0) (Type XVR_LITERAL_INTEGER False [] 0) (Some (NodeLiteral (Bits XVR_LITERAL_INTEGER 1))) 1,
      NodeFnReturn None, NodeBreak] 8"

lemma sample_state:
  "be_scopes (sample_generator f) = []" "be_locals (sample_generator f) = []" "be_function (sample_generator f) = 1"
  "be_loops (sample_generator f) = []" "be_calls (sample_generator f) = []" "be_answer (sample_generator f) = f"
  "be_has_error (sample_generator f) = False" "be_failure (sample_generator f) = None" "within_tables (sample_generator f)"
  by (simp_all add: sample_generator_def new_generator_def within_tables_def)

abbreviation sample_run :: "ast \<Rightarrow> nat \<times> generator" where
  "sample_run x \<equiv> run_state (Xvr_LLVMExpressionEmitterEmit (\<lambda>_. CHR ''x'') (Some x)) (sample_generator (\<lambda>_. 5))"

section \<open>The recursion\<close>

text \<open>C12: The emission of a node ends, and so does that of a function. The emission bounded by the size of the node is
  the emission, every larger bound gives the same, and \<open>be_unfinished\<close>, which a step whose bound is met would set, stays as
  it was: each step of the emitter emits only parts of its node.\<close>

theorem emission_ends:
  fixes s :: generator
  shows "run_state (emit_upto fresh (Suc (size x) + k) (Some x)) s = run_state (Xvr_LLVMExpressionEmitterEmit fresh (Some x)) s \<and>
    be_unfinished (snd (run_state (Xvr_LLVMExpressionEmitterEmit fresh (Some x)) s)) = be_unfinished s \<and>
    be_unfinished (snd (run_state (Xvr_LLVMFunctionEmitterEmit (Xvr_LLVMExpressionEmitterEmit fresh) node) s)) = be_unfinished s"
proof -
  have "be_unfinished (snd (run_state (Xvr_LLVMExpressionEmitterEmit fresh (Some x)) s)) = be_unfinished s"
    using emitter.emit_framed [of "Some x" "nesting (Some x)" fresh] by (simp add: framed_def steady_def)
  moreover have "emit_upto fresh (Suc (size x) + k) (Some x) = Xvr_LLVMExpressionEmitterEmit fresh (Some x)"
    using upto_agree [of "Some x" "Suc (size x)" fresh k] by (simp add: Xvr_LLVMExpressionEmitterEmit_def)
  ultimately show ?thesis
    by (simp add: function_keeps(2))
qed

section \<open>The frame\<close>

text \<open>C5: Emitting a node leaves the current function, the loops and the code generator's error as they are, keeps
  the tables of variables, scopes, loops and functions within their fixed sizes, and adds LLVM calls of which none
  builds a return: a return statement below the body of a function has no effect.\<close>

theorem emission_frame:
  fixes s :: generator
  assumes "run_state (Xvr_LLVMExpressionEmitterEmit fresh node) s = (v, t)"
  shows "be_function t = be_function s \<and> be_loops t = be_loops s \<and> be_failure t = be_failure s \<and> (within_tables s \<longrightarrow> within_tables t) \<and>
    (\<exists>cs. be_calls t = be_calls s @ cs \<and> list_all (\<lambda>c. \<not> is_return c) cs)"
  using emitter.emit_framed [of node "nesting node" fresh] assms
  by (auto simp: framed_def steady_def extends_calls_def within_tables_def dest!: spec [of _ s])

lemma emission_frame_witness:
  "within_tables (snd (sample_run sample_block)) \<and> be_function (snd (sample_run sample_block)) = 1 \<and>
   be_loops (snd (sample_run sample_block)) = []"
  using emission_frame [OF prod.collapse [of "sample_run sample_block", symmetric]] by (simp add: sample_state)

section \<open>Scopes\<close>

definition is_block :: "ast option \<Rightarrow> bool" where
  "is_block x = (case x of Some (NodeBlock xs n) \<Rightarrow> True | _ \<Rightarrow> False)"

text \<open>C11: While blocks are not nested beyond the 32 saved counts, emitting a node leaves the open scopes and the
  variables declared before as they are and adds new variables at the end; a block leaves none, so every name
  stands for the same variable before and after it.\<close>

theorem block_scoping:
  fixes s :: generator
  assumes "length (be_scopes s) + nesting node \<le> 32"
    and "run_state (Xvr_LLVMExpressionEmitterEmit fresh node) s = (v, t)"
  shows "be_scopes t = be_scopes s \<and>
    (\<exists>vs. be_locals t = be_locals s @ vs \<and> (is_block node \<longrightarrow> vs = [] \<and> (\<forall>name. find_local name t = find_local name s)))"
proof -
  have frame: "be_scopes t = be_scopes s" "\<exists>vs. be_locals t = be_locals s @ vs"
    using emitter.emit_framed [of node "nesting node" fresh] assms
    by (auto simp: framed_def steady_def dest!: spec [of _ s])
  have "be_locals t = be_locals s" if block: "is_block node"
  proof -
    obtain xs n where node: "node = Some (NodeBlock xs n)"
      using block by (auto simp: is_block_def split: option.splits ast.splits)
    then have "length (be_scopes s) + Suc (nesting_list xs) \<le> 32"
      using assms(1) by simp
    then show ?thesis
      using assms(2) node enter_exit(3) [OF emitter.framed_lists(1) [of xs "nesting_list xs" fresh], of s 0]
      by (auto simp: emit_unfold emit_node_def emit_block_def split: if_splits)
  qed
  then show ?thesis
    using frame by (auto simp: find_local_def)
qed

lemma block_scoping_witness:
  "be_scopes (snd (sample_run sample_block)) = [] \<and> be_locals (snd (sample_run sample_block)) = []"
  using block_scoping [OF _ prod.collapse [of "sample_run sample_block", symmetric]]
  by (simp add: sample_state sample_block_def is_block_def)

section \<open>Loops\<close>

definition jump_to :: "(nat \<times> nat) list \<Rightarrow> (nat \<times> nat \<Rightarrow> nat) \<Rightarrow> llvm_call list" where
  "jump_to loops target =
     (if loops = [] \<or> target (last loops) = 0 then [] else [Call ''LLVMBuildBr'' [Ref (target (last loops))]])"

lemma leave_loop_trace:
  "fst (run_state (leave_loop word target) s) = (be_loops s \<noteq> []) \<and>
   be_calls (snd (run_state (leave_loop word target) s)) = be_calls s @ jump_to (be_loops s) target \<and>
   be_flow_failed (snd (run_state (leave_loop word target) s)) = (be_loops s = []) \<and>
   be_has_error (snd (run_state (leave_loop word target) s)) = be_has_error s"
  by (auto simp: leave_loop_def run_bind case_prod_beta Xvr_LLVMControlFlowClearError_def set_error_hint_def
    jump_to_def Xvr_LLVMIRBuilderCreateBr_def)

text \<open>C26: A break and a continue build one branch, to the end of the innermost loop or to the place where it goes
  on, and nothing else; outside of loops they build nothing and only set the error of the control flow, not the one
  that stops the compiler.\<close>

theorem jumps_to_innermost_loop:
  fixes s :: generator
  shows "\<exists>t u. run_state (Xvr_LLVMExpressionEmitterEmit fresh (Some NodeBreak)) s = (0, t) \<and>
    be_calls t = be_calls s @ jump_to (be_loops s) fst \<and> be_flow_failed t = (be_loops s = []) \<and>
    be_has_error t = be_has_error s \<and>
    run_state (Xvr_LLVMExpressionEmitterEmit fresh (Some NodeContinue)) s = (0, u) \<and>
    be_calls u = be_calls s @ jump_to (be_loops s) snd \<and> be_flow_failed u = (be_loops s = []) \<and>
    be_has_error u = be_has_error s"
  using leave_loop_trace [of "''break''" fst s] leave_loop_trace [of "''continue''" snd s]
  by (simp add: emit_unfold emit_node_def Xvr_LLVMControlFlowEmitBreak_def Xvr_LLVMControlFlowEmitContinue_def run_bind
    case_prod_beta)

section \<open>Conditions\<close>

text \<open>What LLVM is asked about a condition: its type with its kind and width, and then, for the message, its type
  and the type's text.\<close>

definition asks_type :: "llvm_call \<Rightarrow> bool" where
  "asks_type c = (case c of Call f args \<Rightarrow> f \<in> {''LLVMTypeOf'', ''LLVMGetTypeKind'', ''LLVMGetIntTypeWidth'',
     ''LLVMPrintTypeToString'', ''LLVMDisposeMessage''})"

lemma check_condition_trace:
  "\<exists>cs. be_calls (snd (run_state (check_condition what example v) s)) = be_calls s @ cs \<and> list_all asks_type cs \<and>
    be_has_error (snd (run_state (check_condition what example v) s)) = be_has_error s \<and>
    (fst (run_state (check_condition what example v) s) \<or> be_flow_failed (snd (run_state (check_condition what example v) s)))"
  by (auto simp: check_condition_def is_boolean_type_def not_boolean_def run_bind case_prod_beta flow_error_def
    set_error_hint_def asks_type_def llvm_type_of_def kind_of_type_def)

lemma check_condition_result:
  assumes "types_fixed ty kind (be_answer s)" "\<forall>cs t. be_answer s (cs @ [Call ''LLVMGetIntTypeWidth'' [Ref t]]) = width t"
  shows "fst (run_state (check_condition what example v) s) \<longleftrightarrow>
    v \<noteq> 0 \<and> kind (ty v) = LLVMIntegerTypeKind \<and> width (ty v) = 1"
proof -
  have "be_answer s (cs @ [a, b, Call ''LLVMGetIntTypeWidth'' [Ref t]]) = width t" for cs a b t
    using assms(2) [rule_format, of "cs @ [a, b]"] by simp
  then show ?thesis
    using types_fixed_simps [OF assms(1)]
    by (auto simp: check_condition_def is_boolean_type_def run_bind llvm_type_of_def kind_of_type_def case_prod_beta)
qed

text \<open>The statement behind a condition that is accepted: the branch to the two paths, and their code.\<close>

definition both_paths :: "nat emits \<Rightarrow> nat emits \<Rightarrow> nat \<Rightarrow> nat \<Rightarrow> bool emits" where
  "both_paths x y fn v =
     do {
       then_block \<leftarrow> create_block fn ''then'';
       else_block \<leftarrow> create_block fn ''else'';
       merge_block \<leftarrow> create_block fn ''ifcont'';
       _ \<leftarrow> Xvr_LLVMIRBuilderCreateCondBr v then_block else_block;
       emit_part x then_block merge_block;
       emit_part y else_block merge_block;
       Xvr_LLVMIRBuilderSetInsertPoint merge_block;
       give True
     }"

lemma accepted_condition:
  fixes u :: generator
  assumes "fn \<noteq> 0" "v \<noteq> 0"
  defines "block name \<equiv> Call ''LLVMAppendBasicBlockInContext'' [Ref fn, Text name]"
  shows "\<exists>ds. be_calls (snd (run_state
      (both_paths (Xvr_LLVMExpressionEmitterEmit fresh x) (Xvr_LLVMExpressionEmitterEmit fresh y) fn v) u)) = be_calls u @ [block ''then'', block ''else'', block ''ifcont''] @
    (let b = be_answer u (be_calls u @ [block ''then'']); e = be_answer u (be_calls u @ [block ''then'', block ''else''])
     in if b = 0 \<or> e = 0 then [] else [Call ''LLVMBuildCondBr'' [Ref v, Ref b, Ref e]]) @ ds"
proof -
  define rest where "rest b e c = (do {
      emit_part (Xvr_LLVMExpressionEmitterEmit fresh x) b c;
      emit_part (Xvr_LLVMExpressionEmitterEmit fresh y) e c;
      Xvr_LLVMIRBuilderSetInsertPoint c;
      give True })" for b e c
  have "framed (max (nesting x) (nesting y)) (rest b e c)" for b e c
    unfolding rest_def by (intro framed_rules emitter.emit_framed) simp_all
  then have extends: "\<exists>ds. be_calls (snd (run_state (rest b e c) w)) = be_calls w @ ds" for b e c w
    by (fastforce simp: framed_def steady_def extends_calls_def)
  define b where "b = be_answer u (be_calls u @ [block ''then''])"
  define e where "e = be_answer u (be_calls u @ [block ''then'', block ''else''])"
  define c where "c = be_answer u (be_calls u @ [block ''then'', block ''else'', block ''ifcont''])"
  define pre where "pre = [block ''then'', block ''else'', block ''ifcont''] @
    (if b = 0 \<or> e = 0 then [] else [Call ''LLVMBuildCondBr'' [Ref v, Ref b, Ref e]])"
  have "run_state (both_paths (Xvr_LLVMExpressionEmitterEmit fresh x) (Xvr_LLVMExpressionEmitterEmit fresh y) fn v) u =
      run_state (rest b e c) (u\<lparr>be_calls := be_calls u @ pre\<rparr>)"
    using assms(1,2)
    by (simp add: both_paths_def rest_def [symmetric] run_bind block_def create_block_def b_def e_def c_def pre_def
      Xvr_LLVMIRBuilderCreateBlockInFunction_def append_block_def or_default_def Xvr_LLVMIRBuilderCreateCondBr_def)
  then show ?thesis
    using extends [of b e c "u\<lparr>be_calls := be_calls u @ pre\<rparr>"] by (auto simp: pre_def b_def [symmetric] e_def [symmetric] Let_def)
qed

text \<open>C18: An if statement follows the type of its condition, given that LLVM's answers about types do not change. A
  condition that is a value of one bit gets a branch to blocks for the two paths and a block behind them. A condition
  without a value, or of any other type, leaves no trace but its own code and questions about its type: both
  branches are dropped, the error stays in the control flow, and the context, which decides whether the compiler
  stops, has no error that emitting the condition did not set.\<close>

theorem if_condition_checked:
  fixes s :: generator
  assumes "be_function s \<noteq> 0"
    and "run_state (Xvr_LLVMExpressionEmitterEmit fresh c) (snd (run_state Xvr_LLVMControlFlowClearError s)) = (v, u)"
    and "types_fixed ty kind (be_answer s)"
    and "\<forall>cs t. be_answer s (cs @ [Call ''LLVMGetIntTypeWidth'' [Ref t]]) = width t"
  shows "\<exists>t cs ds. run_state (Xvr_LLVMExpressionEmitterEmit fresh (Some (NodeIf c x y r False))) s = (0, t) \<and>
    list_all asks_type cs \<and>
    (if v \<noteq> 0 \<and> kind (ty v) = LLVMIntegerTypeKind \<and> width (ty v) = 1
     then (let block = (\<lambda>name. Call ''LLVMAppendBasicBlockInContext'' [Ref (be_function s), Text name]);
               b = be_answer s (be_calls u @ cs @ [block ''then'']);
               e = be_answer s (be_calls u @ cs @ [block ''then'', block ''else''])
           in be_calls t = be_calls u @ cs @ [block ''then'', block ''else'', block ''ifcont''] @
                (if b = 0 \<or> e = 0 then [] else [Call ''LLVMBuildCondBr'' [Ref v, Ref b, Ref e]]) @ ds)
     else be_calls t = be_calls u @ cs \<and> be_has_error t = be_has_error u \<and> be_flow_failed t)"
proof -
  define q where "q = run_state (check_condition ''if statement'' ''x > 0'' v) u"
  have cleared: "be_function (snd (run_state Xvr_LLVMControlFlowClearError s)) = be_function s"
      "be_answer (snd (run_state Xvr_LLVMControlFlowClearError s)) = be_answer s"
    by (simp_all add: Xvr_LLVMControlFlowClearError_def)
  have u: "be_function u = be_function s" "be_answer u = be_answer s"
    using emitter.emit_framed [of c "nesting c" fresh, OF order_refl] assms(2) cleared
    by (auto simp: framed_def steady_def dest: spec [of _ "snd (run_state Xvr_LLVMControlFlowClearError s)"])
  have "framed 0 (check_condition ''if statement'' ''x > 0'' v)"
    by (rule framed_condition)
  then have q: "be_function (snd q) = be_function s" "be_answer (snd q) = be_answer s"
    using u by (auto simp: q_def framed_def steady_def)
  obtain cs where cs: "be_calls (snd q) = be_calls u @ cs" "list_all asks_type cs" "be_has_error (snd q) = be_has_error u"
    "fst q \<or> be_flow_failed (snd q)"
    unfolding q_def using check_condition_trace [of "''if statement''" "''x > 0''" v u] by blast
  have run: "run_state (Xvr_LLVMExpressionEmitterEmit fresh (Some (NodeIf c x y r False))) s =
      (0, snd (run_state (if fst q then both_paths (Xvr_LLVMExpressionEmitterEmit fresh x) (Xvr_LLVMExpressionEmitterEmit fresh y)
             (be_function s) v
           else do { _ \<leftarrow> (if v \<noteq> 0 then llvm ''LLVMDisposeMessage'' [] else give 0); give False }) (snd q)))"
    using assms(1,2) cleared
    by (simp add: emit_unfold [of fresh "NodeIf c x y r False"] emit_node_def Xvr_LLVMControlFlowEmitIf_def run_bind
      case_prod_beta Xvr_LLVMFunctionEmitterGetCurrentFunction_def q_def [symmetric] both_paths_def)
  have ok: "fst q \<longleftrightarrow> v \<noteq> 0 \<and> kind (ty v) = LLVMIntegerTypeKind \<and> width (ty v) = 1"
    unfolding q_def using assms(3,4) u by (intro check_condition_result) simp_all
  show ?thesis
  proof (cases "fst q")
    case True
    then have "v \<noteq> 0"
      using ok by simp
    then show ?thesis
      using run True ok cs accepted_condition [of "be_function s" v fresh x y "snd q"] assms(1) q by (auto simp: Let_def)
  next
    case False
    then show ?thesis
      using run ok cs by (cases "v = 0") (auto simp: run_bind asks_type_def)
  qed
qed

text \<open>An LLVM that gives every value a type of the kind and the width given.\<close>

definition typed :: "nat \<Rightarrow> nat \<Rightarrow> llvm_call list \<Rightarrow> nat" where
  "typed kind width cs =
     (case last cs of Call f args \<Rightarrow>
        if f = ''LLVMGetTypeKind'' then kind else if f = ''LLVMGetIntTypeWidth'' then width else 5)"

definition sample_if :: ast where
  "sample_if = NodeIf (Some (NodeLiteral (Bits XVR_LITERAL_INTEGER 1))) (Some sample_block) None XVR_LITERAL_VOID False"

lemma if_condition_checked_witness:
  "(\<exists>t. run_state (Xvr_LLVMExpressionEmitterEmit (\<lambda>_. CHR ''x'') (Some sample_if)) (sample_generator (typed 8 32)) = (0, t) \<and>
      \<not> be_has_error t \<and> be_flow_failed t) \<and>
   Call ''LLVMBuildCondBr'' [Ref 5, Ref 5, Ref 5] \<in> set (be_calls (snd (run_state
     (Xvr_LLVMExpressionEmitterEmit (\<lambda>_. CHR ''x'') (Some sample_if)) (sample_generator (typed 8 1)))))"
proof -
  define s where "s w = snd (run_state Xvr_LLVMControlFlowClearError (sample_generator (typed 8 w)))" for w
  have s: "be_answer (s w) = typed 8 w" "\<not> be_has_error (s w)" for w
    by (simp_all add: s_def Xvr_LLVMControlFlowClearError_def sample_state)
  define r where "r w = run_state (Xvr_LLVMExpressionEmitterEmit (\<lambda>_. CHR ''x'')
    (Some (NodeLiteral (Bits XVR_LITERAL_INTEGER 1)))) (s w)" for w
  have r: "fst (r w) = 5" "\<not> be_has_error (snd (r w))" for w
    using s [of w] by (simp_all add: r_def emit_unfold emit_node_def Xvr_LLVMExpressionEmitterEmitLiteral_def emit_bits_def
      run_bind const_int_def int32_type_def Let_def typed_def)
  have fixed: "types_fixed (\<lambda>_. 5) (\<lambda>_. 8) (typed 8 w)"
      "\<forall>cs t. typed 8 w (cs @ [Call ''LLVMGetIntTypeWidth'' [Ref t]]) = w" for w
    by (simp_all add: types_fixed_def typed_def)
  have applied: "\<exists>t cs ds. run_state (Xvr_LLVMExpressionEmitterEmit (\<lambda>_. CHR ''x'') (Some sample_if)) (sample_generator (typed 8 w)) = (0, t) \<and>
    list_all asks_type cs \<and>
    (if w = 1 then be_calls t = be_calls (snd (r w)) @ cs @ map (\<lambda>name. Call ''LLVMAppendBasicBlockInContext'' [Ref 1, Text name])
         [''then'', ''else'', ''ifcont''] @ [Call ''LLVMBuildCondBr'' [Ref 5, Ref 5, Ref 5]] @ ds
     else be_calls t = be_calls (snd (r w)) @ cs \<and> be_has_error t = be_has_error (snd (r w)) \<and> be_flow_failed t)" for w
  proof -
    have given: "be_function (sample_generator (typed 8 w)) \<noteq> 0"
      "run_state (Xvr_LLVMExpressionEmitterEmit (\<lambda>_. CHR ''x'') (Some (NodeLiteral (Bits XVR_LITERAL_INTEGER 1))))
        (snd (run_state Xvr_LLVMControlFlowClearError (sample_generator (typed 8 w)))) = (fst (r w), snd (r w))"
      "types_fixed (\<lambda>_. 5) (\<lambda>_. 8) (be_answer (sample_generator (typed 8 w)))"
      "\<forall>cs t. be_answer (sample_generator (typed 8 w)) (cs @ [Call ''LLVMGetIntTypeWidth'' [Ref t]]) = (\<lambda>_. w) t"
      using fixed [of w] by (simp_all add: sample_state r_def s_def)
    show ?thesis
      using if_condition_checked [OF given, of "Some sample_block" None XVR_LITERAL_VOID] r [of w]
      by (cases "w = 1") (fastforce simp: sample_state sample_if_def Let_def typed_def)+
  qed
  show ?thesis
    using applied [of 32] applied [of 1] r(2) [of 32] by auto
qed

section \<open>Functions\<close>

text \<open>C16: A function declaration builds at most one return, as the last thing, whatever return statements its body
  has; and whether it succeeds or fails, the code generator's own error, which the compiler looks at, stays as
  it is.\<close>

theorem function_returns_once:
  fixes s :: generator
  shows "\<exists>t ok cs rs. run_state (Xvr_LLVMFunctionEmitterEmit (Xvr_LLVMExpressionEmitterEmit fresh) node) s = (ok, t) \<and>
    be_calls t = be_calls s @ cs @ rs \<and> list_all (\<lambda>c. \<not> is_return c) cs \<and> length rs \<le> 1 \<and> list_all is_return rs \<and>
    be_failure t = be_failure s"
proof -
  let ?run = "\<lambda>m. run_state m s"
  define good :: "bool \<times> generator \<Rightarrow> bool" where
    "good r \<longleftrightarrow> (\<exists>cs rs. be_calls (snd r) = be_calls s @ cs @ rs \<and> list_all (\<lambda>c. \<not> is_return c) cs \<and>
       length rs \<le> 1 \<and> list_all is_return rs \<and> be_failure (snd r) = be_failure s)" for r
  have calm: "good r" if "calm_step s (snd r)" for r
    using that unfolding good_def calm_step_def extends_calls_def by (metis append_Nil2 le0 list.pred_inject(1) list.size(3))
  have ended: "good r" if ends: "ends_with fresh returns s r t is_void v" for returns r t is_void v
  proof -
    obtain name seen u where u: "calm_step s u" "r = run_state (end_function is_void name v seen) u"
      using ends unfolding ends_with_def by blast
    then show ?thesis
      using end_function_trace [of is_void name v seen u] unfolding good_def calm_step_def extends_calls_def by fastforce
  qed
  have "good (?run (emit_function_body (Xvr_LLVMExpressionEmitterEmit fresh) l a r b))" for l a r b
    using function_run [of s fresh l a r b] calm ended by blast
  then have "good (?run (Xvr_LLVMFunctionEmitterEmit (Xvr_LLVMExpressionEmitterEmit fresh) node))"
    using calm by (auto simp: Xvr_LLVMFunctionEmitterEmit_def split: option.split ast.split)
  then show ?thesis
    unfolding good_def by (metis prod.collapse)
qed

text \<open>C17: A value that a function returns has a type of the same kind as the declared one, given that the type of an
  LLVM value and the kind of a type do not change (unless LLVM has no kind but void for the declared type).\<close>

theorem returned_value_typed:
  fixes s :: generator
  assumes "types_fixed ty kind (be_answer s)"
    and "run_state (Xvr_LLVMFunctionEmitterEmit (Xvr_LLVMExpressionEmitterEmit fresh) (Some (NodeFnDecl l a returns b n))) s = (ok, t)"
    and "be_calls t = be_calls s @ cs @ [Call ''LLVMBuildRet'' [Ref v]]"
  shows "\<exists>rt. fst (run_state (return_type returns) (snd (run_state clear_local_vars s))) = Some (rt, False) \<and>
    v \<noteq> 0 \<and> (kind (ty v) = kind rt \<or> kind rt = LLVMVoidTypeKind)"
proof -
  have run: "run_state (emit_function_body (Xvr_LLVMExpressionEmitterEmit fresh) l a returns b) s = (ok, t)"
    using assms(2) by (simp add: Xvr_LLVMFunctionEmitterEmit_def)
  have "\<not> calm_step s t"
    using assms(3) by (auto simp: calm_step_def extends_calls_def is_return_def)
  then obtain rt is_void w where w: "ends_with fresh returns s (ok, t) rt is_void w"
    using function_run [of s fresh l a returns b] run by auto
  then obtain name seen u where u: "calm_step s u" "(ok, t) = run_state (end_function is_void name w seen) u"
      "returnable ty kind rt w"
      "fst (run_state (return_type returns) (snd (run_state clear_local_vars s))) = Some (rt, is_void)"
    using assms(1) by (auto simp: ends_with_def)
  obtain ds where ds: "be_calls u = be_calls s @ ds" "list_all (\<lambda>c. \<not> is_return c) ds"
    using u(1) by (auto simp: calm_step_def extends_calls_def)
  have "t = snd (run_state (end_function is_void name w seen) u)"
    using u(2) by (metis snd_conv)
  then have "be_calls t = be_calls u \<or> (is_void \<and> be_calls t = be_calls u @ [Call ''LLVMBuildRetVoid'' []]) \<or>
      (\<not> is_void \<and> w \<noteq> 0 \<and> be_calls t = be_calls u @ [Call ''LLVMBuildRet'' [Ref w]])"
    by (auto simp: end_function_def run_bind case_prod_beta Xvr_LLVMContextSetError_def undefined_step_def split: option.split)
  moreover have "be_calls t \<noteq> be_calls u"
    using assms(3) ds by (auto simp: is_return_def)
  ultimately show ?thesis
    using assms(3) ds u(3,4) by (auto simp: returnable_def)
qed

definition sample_function :: ast where
  "sample_function = NodeFnDecl (Ident ''f'' 0) None None
     (Some (NodeBlock [NodeFnReturn (Some (NodeLiteral (Bits XVR_LITERAL_INTEGER 1)))] 8)) 1"

lemma returned_value_typed_witness:
  "\<exists>rt. fst (run_state (return_type None) (snd (run_state clear_local_vars (sample_generator (\<lambda>_. 5))))) = Some (rt, False) \<and>
     be_answer (sample_generator (\<lambda>_. 5)) [Call ''LLVMTypeOf'' [Ref rt]] = 5"
proof -
  let ?s = "sample_generator (\<lambda>_. 5)"
  have fixed: "types_fixed (\<lambda>_. 5) (\<lambda>_. 5) (be_answer ?s)"
    by (simp add: types_fixed_def sample_state)
  let ?r = "run_state (Xvr_LLVMFunctionEmitterEmit (Xvr_LLVMExpressionEmitterEmit (\<lambda>_. CHR ''x'')) (Some sample_function)) ?s"
  have "last (be_calls (snd ?r)) = Call ''LLVMBuildRet'' [Ref 5]" "be_calls (snd ?r) \<noteq> []"
    by code_simp+
  then have "be_calls (snd ?r) = be_calls ?s @ butlast (be_calls (snd ?r)) @ [Call ''LLVMBuildRet'' [Ref 5]]"
    by (metis append_butlast_last_id append_Nil sample_state(5))
  from returned_value_typed [OF fixed prod.collapse [symmetric, of ?r, unfolded sample_function_def]
      this [unfolded sample_function_def]] show ?thesis
    by (simp add: sample_state)
qed

end
