(* ===== verification/LlvmFormats.thy ===== *)
theory LlvmFormats
  imports LlvmProps FormatProps
begin

text \<open>
  Printing with a format: \<open>std::println\<close> of a text with placeholders, from the template of theory FormatProps to the call
  of \<open>printf\<close>.
\<close>

section \<open>The node\<close>


section \<open>The function\<close>



section \<open>Values\<close>










section \<open>The call\<close>




section \<open>Errors\<close>



section \<open>A line\<close>







end
