(* ===== verification/LlvmMeaning.thy ===== *)
theory LlvmMeaning
  imports LlvmProps ParserProps
begin

text \<open>
  The code of arithmetic expressions computes their value. What the instructions compute is LLVM's documentation of
  them, as a hypothesis on its answers: \<open>val\<close> gives the handles that stand for 32-bit integers their value,
  \<open>mem\<close> the addresses that hold one.
\<close>

definition wrapped :: "int \<Rightarrow> int" where
  "wrapped n = signed_take_bit 31 n"

text \<open>The instruction of an operator.\<close>

fun llvm_instruction :: "opcode \<Rightarrow> string" where
  "llvm_instruction XVR_OP_ADDITION = ''LLVMBuildAdd''"
| "llvm_instruction XVR_OP_SUBTRACTION = ''LLVMBuildSub''"
| "llvm_instruction XVR_OP_MULTIPLICATION = ''LLVMBuildMul''"
| "llvm_instruction XVR_OP_DIVISION = ''LLVMBuildSDiv''"
| "llvm_instruction XVR_OP_MODULO = ''LLVMBuildSRem''"
| "llvm_instruction _ = []"

definition computes :: "nat \<Rightarrow> (nat \<Rightarrow> int option) \<Rightarrow> (nat \<Rightarrow> int option) \<Rightarrow> (llvm_call list \<Rightarrow> nat) \<Rightarrow> bool" where
  "computes i32 val mem answer \<longleftrightarrow> i32 \<noteq> 0 \<and>
     (\<forall>cs. answer (cs @ [Call ''LLVMInt32TypeInContext'' []]) = i32) \<and>
     (\<forall>cs. answer (cs @ [Call ''LLVMGetTypeKind'' [Ref i32]]) = LLVMIntegerTypeKind) \<and>
     (\<forall>cs v n. val v = Some n \<longrightarrow> v \<noteq> 0 \<and> answer (cs @ [Call ''LLVMTypeOf'' [Ref v]]) = i32) \<and>
     (\<forall>cs n k. val (answer (cs @ [Call ''LLVMConstInt'' [Ref i32, Num n, Num k]])) = Some (wrapped n)) \<and>
     (\<forall>cs p n name. mem p = Some n \<longrightarrow> val (answer (cs @ [Call ''LLVMBuildLoad2'' [Ref i32, Ref p, Text name]])) = Some n) \<and>
     (\<forall>cs op v w m n r name. val v = Some m \<and> val w = Some n \<and> arith op m n = Some r \<longrightarrow>
        val (answer (cs @ [Call (llvm_instruction op) [Ref v, Ref w, Text name]])) = Some r)"

text \<open>The names of an expression are variables that hold ints; the search for one does not read a freed name.\<close>

fun int_names :: "ast \<Rightarrow> string set" where
  "int_names (NodeLiteral l) = (case l of Ident s h \<Rightarrow> {s} | _ \<Rightarrow> {})"
| "int_names (NodeBinary op (Some x) (Some y)) = int_names x \<union> int_names y"
| "int_names _ = {}"

definition int_variable :: "(nat \<Rightarrow> int option) \<Rightarrow> (string \<Rightarrow> int) \<Rightarrow> generator \<Rightarrow> string \<Rightarrow> bool" where
  "int_variable mem env s name \<longleftrightarrow> \<not> reads_freed name s \<and>
     (\<exists>v. find_local name s = Some v \<and> lv_value v \<noteq> 0 \<and> lv_type v = XVR_LITERAL_INTEGER \<and> mem (lv_value v) = Some (env name))"

text \<open>Only calls are added.\<close>

definition emits_value :: "(nat \<Rightarrow> int option) \<Rightarrow> int \<Rightarrow> nat emits \<Rightarrow> generator \<Rightarrow> bool" where
  "emits_value val n m s \<longleftrightarrow>
     (\<exists>v cs. run_state m s = (v, s\<lparr>be_calls := be_calls s @ cs\<rparr>) \<and> val v = Some n)"

lemma emits_valueI:
  "run_state m s = (v, s\<lparr>be_calls := be_calls s @ cs\<rparr>) \<Longrightarrow> val v = Some n \<Longrightarrow> emits_value val n m s"
  by (auto simp: emits_value_def)

lemma computes_simps:
  assumes "computes i32 val mem answer"
  shows "i32 \<noteq> 0" and "answer (cs @ [Call ''LLVMInt32TypeInContext'' []]) = i32"
    and "answer (cs @ [a, Call ''LLVMGetTypeKind'' [Ref i32]]) = LLVMIntegerTypeKind"
    and "answer (cs @ [Call ''LLVMGetTypeKind'' [Ref i32]]) = LLVMIntegerTypeKind"
    and "val (answer (cs @ [a, Call ''LLVMConstInt'' [Ref i32, Num n, Num k]])) = Some (wrapped n)"
    and "mem p = Some n \<Longrightarrow> val (answer (cs @ [a, Call ''LLVMBuildLoad2'' [Ref i32, Ref p, Text name]])) = Some n"
  using assms unfolding computes_def by (auto dest: spec [of _ "cs @ [a]"])

lemma wrapped_literal: "wrapped (unsigned64 XVR_LITERAL_INTEGER w) = sint (XVR_AS_INTEGER (Bits XVR_LITERAL_INTEGER w))"
proof -
  have "signed_take_bit 31 (uint (scast (v :: 32 word) :: 64 word)) = sint v" for v
    by (rule bit_eqI) (auto simp: bit_simps min_def not_less)
  then show ?thesis
    by (simp add: wrapped_def unsigned64_def XVR_AS_INTEGER_def)
qed

lemma emits_literal:
  assumes "computes i32 val mem (be_answer s)"
  shows "emits_value val (sint (XVR_AS_INTEGER (Bits XVR_LITERAL_INTEGER w)))
    (Xvr_LLVMExpressionEmitterEmit fresh (Some (NodeLiteral (Bits XVR_LITERAL_INTEGER w)))) s"
proof (rule emits_valueI)
  let ?c = "Call ''LLVMConstInt'' [Ref i32, Num (unsigned64 XVR_LITERAL_INTEGER w), Num 1]"
  let ?cs = "[Call ''LLVMInt32TypeInContext'' [], ?c]"
  show "run_state (Xvr_LLVMExpressionEmitterEmit fresh (Some (NodeLiteral (Bits XVR_LITERAL_INTEGER w)))) s =
      (be_answer s (be_calls s @ ?cs), s\<lparr>be_calls := be_calls s @ ?cs\<rparr>)"
    using computes_simps(2) [OF assms]
    by (simp add: emit_unfold emit_node_def Xvr_LLVMExpressionEmitterEmitLiteral_def emit_bits_def const_int_def
      int32_type_def run_bind)
  show "val (be_answer s (be_calls s @ ?cs)) = Some (sint (XVR_AS_INTEGER (Bits XVR_LITERAL_INTEGER w)))"
    using computes_simps(5) [OF assms] wrapped_literal [of w] by simp
qed

lemma emits_variable:
  assumes "computes i32 val mem (be_answer s)" "int_variable mem env s name" "tm_int32 (be_mapper s) = i32"
  shows "emits_value val (env name) (Xvr_LLVMExpressionEmitterEmit fresh (Some (NodeLiteral (Ident name h)))) s"
proof -
  obtain v where v: "find_local name s = Some v" "lv_value v \<noteq> 0" "lv_type v = XVR_LITERAL_INTEGER"
      "mem (lv_value v) = Some (env name)" "\<not> reads_freed name s"
    using assms(2) by (auto simp: int_variable_def)
  let ?cs = "[Call ''LLVMGetTypeKind'' [Ref i32], Call ''LLVMBuildLoad2'' [Ref i32, Ref (lv_value v), Text name]]"
  show ?thesis
  proof (rule emits_valueI)
    show "run_state (Xvr_LLVMExpressionEmitterEmit fresh (Some (NodeLiteral (Ident name h)))) s =
        (be_answer s (be_calls s @ ?cs), s\<lparr>be_calls := be_calls s @ ?cs\<rparr>)"
      using v computes_simps(1,4) [OF assms(1)] assms(3)
      by (simp add: emit_unfold emit_node_def Xvr_LLVMExpressionEmitterEmitLiteral_def
        Xvr_LLVMExpressionEmitterEmitIdentifier_def Xvr_LLVMFunctionEmitterLookupVarWithType_def read_names_def
        Xvr_LLVMTypeMapperGetType_def mapped_type_def kind_of_type_def run_bind)
    show "val (be_answer s (be_calls s @ ?cs)) = Some (env name)"
      using computes_simps(6) [OF assms(1) v(4)] by simp
  qed
qed

lemma computes_type:
  assumes "computes i32 val mem answer" "val v = Some n"
  shows "v \<noteq> 0" and "answer (cs @ [Call ''LLVMTypeOf'' [Ref v]]) = i32"
    and "answer (cs @ [a, b, Call ''LLVMTypeOf'' [Ref v]]) = i32"
    and "answer (cs @ [a, b, c, d, Call ''LLVMTypeOf'' [Ref v]]) = i32"
  using assms unfolding computes_def by (auto dest: spec [of _ "cs @ [a, b]"] spec [of _ "cs @ [a, b, c, d]"])

lemma computes_kind:
  assumes "computes i32 val mem answer"
  shows "answer (cs @ [a, b, c, Call ''LLVMGetTypeKind'' [Ref i32]]) = LLVMIntegerTypeKind"
    and "answer (cs @ [a, b, c, d, e, Call ''LLVMGetTypeKind'' [Ref i32]]) = LLVMIntegerTypeKind"
  using assms unfolding computes_def by (auto dest: spec [of _ "cs @ [a, b, c]"] spec [of _ "cs @ [a, b, c, d, e]"])

lemma computes_result:
  assumes "computes i32 val mem answer" "val v = Some m" "val w = Some n" "arith op m n = Some r"
  shows "val (answer (cs @ [Call (llvm_instruction op) [Ref v, Ref w, Text name]])) = Some r"
  using assms unfolding computes_def by blast

lemma emits_operator:
  assumes "computes i32 val mem (be_answer s)" "val v = Some m" "val w = Some n" "arith op m n = Some r"
  shows "emits_value val r (emit_binary_op fresh op v w) s"
proof -
  let ?ks = "[Call ''LLVMTypeOf'' [Ref v], Call ''LLVMGetTypeKind'' [Ref i32], Call ''LLVMTypeOf'' [Ref w],
    Call ''LLVMGetTypeKind'' [Ref i32]]"
  let ?ps = "if op = XVR_OP_ADDITION then [Call ''LLVMTypeOf'' [Ref v], Call ''LLVMGetTypeKind'' [Ref i32]] else []"
  have "\<exists>name. run_state (emit_binary_op fresh op v w) s =
      (be_answer s ((be_calls s @ ?ks @ ?ps) @ [Call (llvm_instruction op) [Ref v, Ref w, Text name]]),
       s\<lparr>be_calls := be_calls s @ ?ks @ ?ps @ [Call (llvm_instruction op) [Ref v, Ref w, Text name]]\<rparr>)"
    using assms(4) computes_type [OF assms(1,2)] computes_type [OF assms(1,3)] computes_simps [OF assms(1)]
      computes_kind [OF assms(1)]
    by (cases op) (auto simp: emit_binary_op_def emit_addition_def is_pointer_type_def is_real_kind_def run_bind llvm_type_of_def
      kind_of_type_def Let_def create_binary_def or_default_def Xvr_LLVMIRBuilderCreateAdd_def Xvr_LLVMIRBuilderCreateSub_def
      Xvr_LLVMIRBuilderCreateMul_def Xvr_LLVMIRBuilderCreateSDiv_def Xvr_LLVMIRBuilderCreateSRem_def)
  then obtain name where run: "run_state (emit_binary_op fresh op v w) s =
      (be_answer s ((be_calls s @ ?ks @ ?ps) @ [Call (llvm_instruction op) [Ref v, Ref w, Text name]]),
       s\<lparr>be_calls := be_calls s @ ?ks @ ?ps @ [Call (llvm_instruction op) [Ref v, Ref w, Text name]]\<rparr>)"
    by blast
  show ?thesis
    by (rule emits_valueI [OF run]) (rule computes_result [OF assms])
qed

lemma emits_operands:
  assumes "computes i32 val mem (be_answer s)" "arith op a b = Some n"
    and "emits_value val a (Xvr_LLVMExpressionEmitterEmit fresh (Some x)) s"
    and "\<And>cs. emits_value val b (Xvr_LLVMExpressionEmitterEmit fresh (Some y)) (s\<lparr>be_calls := be_calls s @ cs\<rparr>)"
  shows "emits_value val n (Xvr_LLVMExpressionEmitterEmit fresh (Some (NodeBinary op (Some x) (Some y)))) s"
proof -
  obtain v cs where v: "run_state (Xvr_LLVMExpressionEmitterEmit fresh (Some x)) s = (v, s\<lparr>be_calls := be_calls s @ cs\<rparr>)"
      "val v = Some a"
    using assms(3) by (auto simp: emits_value_def)
  obtain w ds where w: "run_state (Xvr_LLVMExpressionEmitterEmit fresh (Some y)) (s\<lparr>be_calls := be_calls s @ cs\<rparr>) =
      (w, s\<lparr>be_calls := be_calls s @ cs @ ds\<rparr>)" "val w = Some b"
    using assms(4) [of cs] by (auto simp: emits_value_def)
  have "emits_value val n (emit_binary_op fresh op v w) (s\<lparr>be_calls := be_calls s @ cs @ ds\<rparr>)"
    by (rule emits_operator [OF _ v(2) w(2) assms(2), where mem = mem]) (use assms(1) in simp)
  then obtain r es where r: "run_state (emit_binary_op fresh op v w) (s\<lparr>be_calls := be_calls s @ cs @ ds\<rparr>) =
      (r, s\<lparr>be_calls := be_calls s @ cs @ ds @ es\<rparr>)" "val r = Some n"
    by (auto simp: emits_value_def)
  have "op \<notin> {XVR_OP_PRINTF, XVR_OP_FN_CALL, XVR_OP_DOT}" "\<not> is_assignment op"
    using assms(2) by (cases op; simp add: is_assignment_def)+
  then have "run_state (Xvr_LLVMExpressionEmitterEmit fresh (Some (NodeBinary op (Some x) (Some y)))) s =
      (r, s\<lparr>be_calls := be_calls s @ cs @ ds @ es\<rparr>)"
    using v w r computes_type(1) [OF assms(1) v(2)] computes_type(1) [OF assms(1) w(2)]
    by (simp add: emit_unfold [of fresh "NodeBinary op (Some x) (Some y)"] emit_node_def
      Xvr_LLVMExpressionEmitterEmitBinary_def emit_operands_def run_bind)
  then show ?thesis
    by (rule emits_valueI) (rule r(2))
qed

text \<open>C2: The code of an arithmetic expression computes its value. Given what LLVM documents of the instructions, and
  that its names are variables that hold ints, an expression of literals, names and the five operators
  whose operations all have results in 32 bits gives a handle of an integer with the expression's value, and
  emitting it only adds calls.\<close>

theorem arithmetic_compiled:
  fixes s :: generator
  assumes "meaning env x = Some n" and "computes i32 val mem (be_answer s)" and "tm_int32 (be_mapper s) = i32"
    and "\<forall>name \<in> int_names x. int_variable mem env s name"
  shows "\<exists>v cs. run_state (Xvr_LLVMExpressionEmitterEmit fresh (Some x)) s = (v, s\<lparr>be_calls := be_calls s @ cs\<rparr>) \<and> val v = Some n"
  using assms
proof (induction env x arbitrary: n s rule: meaning.induct)
  case (1 env l)
  then show ?case
    using emits_literal [of i32 val mem s] emits_variable [of i32 val mem s env]
    by (auto simp: emits_value_def split: literal.splits if_splits)
next
  case (2 env op x y)
  obtain a b where ab: "meaning env x = Some a" "meaning env y = Some b" "arith op a b = Some n"
    using 2(3) by (auto split: option.splits)
  have keep: "int_variable mem env (s\<lparr>be_calls := cs\<rparr>) = int_variable mem env s" for cs
    by (rule ext) (simp add: int_variable_def find_local_def reads_freed_def cong: option.case_cong)
  have "emits_value val a (Xvr_LLVMExpressionEmitterEmit fresh (Some x)) s"
    using 2(1) [OF ab(1)] 2(4-6) by (auto simp: emits_value_def)
  moreover have "emits_value val b (Xvr_LLVMExpressionEmitterEmit fresh (Some y)) (s\<lparr>be_calls := be_calls s @ cs\<rparr>)" for cs
    using 2(2) [OF ab(2), of "s\<lparr>be_calls := be_calls s @ cs\<rparr>"] 2(4-6) by (auto simp: emits_value_def keep)
  ultimately show ?case
    using emits_operands [OF 2(4) ab(3)] unfolding emits_value_def by blast
qed simp_all

text \<open>An LLVM whose handles of integers are their values, from 2 on; 1 is the type of ints, and the one address holds 10.\<close>

definition handle_of :: "int \<Rightarrow> nat" where
  "handle_of n = nat (n + 2 ^ 31) + 2"

definition value_of :: "nat \<Rightarrow> int option" where
  "value_of v = (if 2 \<le> v \<and> v < 2 ^ 32 + 2 then Some (int v - 2 - 2 ^ 31) else None)"

definition integer_of :: "nat \<Rightarrow> int" where
  "integer_of v = int v - 2 - 2 ^ 31"

definition calculator :: "llvm_call list \<Rightarrow> nat" where
  "calculator cs =
     (case last cs of
        Call f [Ref v, Ref w, Text name] \<Rightarrow>
          if f = ''LLVMBuildAdd'' then handle_of (integer_of v + integer_of w)
          else if f = ''LLVMBuildSub'' then handle_of (integer_of v - integer_of w)
          else if f = ''LLVMBuildMul'' then handle_of (integer_of v * integer_of w)
          else if f = ''LLVMBuildSDiv'' then handle_of (integer_of v sdiv integer_of w)
          else if f = ''LLVMBuildSRem'' then handle_of (integer_of v smod integer_of w)
          else handle_of 10
      | Call f [Ref t, Num n, Num k] \<Rightarrow> handle_of (wrapped n)
      | Call f args \<Rightarrow> if f = ''LLVMGetTypeKind'' then LLVMIntegerTypeKind else 1)"

lemma value_of_handle: "in_int n \<Longrightarrow> value_of (handle_of n) = Some n"
  by (auto simp: value_of_def handle_of_def in_int_def)

lemma calculator_computes: "computes 1 value_of (\<lambda>p. if p = 3 then Some 10 else None) calculator"
proof -
  have literal: "value_of (handle_of (wrapped n)) = Some (wrapped n)" for n
  proof (rule value_of_handle)
    show "in_int (wrapped n)"
      using signed_take_bit_int_greater_eq_minus_exp [of 31 n] signed_take_bit_int_less_exp [of 31 n]
      by (simp add: wrapped_def in_int_def)
  qed
  have result: "value_of (calculator (cs @ [Call (llvm_instruction op) [Ref v, Ref w, Text name]])) = Some r"
    if "value_of v = Some m" "value_of w = Some n" "arith op m n = Some r" for cs op v w m n r name
  proof -
    have vw: "integer_of v = m" "integer_of w = n"
      using that(1,2) by (auto simp: value_of_def integer_of_def split: if_splits)
    show ?thesis
      using that(3)
      by (cases op) (auto simp: calculator_def vw checked_Some value_of_handle split: if_splits option.splits)
  qed
  have nonzero: "value_of v = Some n \<Longrightarrow> 0 < v" for v n
    by (simp add: value_of_def split: if_splits)
  show ?thesis
    unfolding computes_def
  proof (intro conjI allI impI)
    fix cs op v w m n r name
    assume "value_of v = Some m \<and> value_of w = Some n \<and> arith op m n = Some r"
    then show "value_of (calculator (cs @ [Call (llvm_instruction op) [Ref v, Ref w, Text name]])) = Some r"
      using result by blast
  qed (use nonzero in \<open>auto simp: calculator_def literal value_of_handle in_int_def split: if_splits\<close>)
qed

definition sample_expression :: ast where
  "sample_expression = NodeBinary XVR_OP_MULTIPLICATION
     (Some (NodeBinary XVR_OP_SUBTRACTION (Some (NodeLiteral (Ident ''x'' 1))) (Some (NodeLiteral (Bits XVR_LITERAL_INTEGER 3)))))
     (Some (NodeLiteral (Ident ''x'' 1)))"

definition sample_memory :: generator where
  "sample_memory = (new_generator calculator (\<lambda>_. None) no_types)
     \<lparr>be_locals := [\<lparr>lv_name = ''x'', lv_value = 3, lv_type = XVR_LITERAL_INTEGER, lv_array_count = 0, lv_owner = 0\<rparr>],
      be_mapper := (be_mapper (new_generator calculator (\<lambda>_. None) no_types))\<lparr>tm_int32 := 1\<rparr>\<rparr>"

lemma arithmetic_compiled_witness:
  "value_of (fst (run_state (Xvr_LLVMExpressionEmitterEmit (\<lambda>_. CHR ''x'') (Some sample_expression)) sample_memory)) = Some 70"
proof -
  have "meaning (\<lambda>_. 10) sample_expression = Some 70"
    by code_simp
  moreover have "computes 1 value_of (\<lambda>p. if p = 3 then Some 10 else None) (be_answer sample_memory)"
    using calculator_computes by (simp add: sample_memory_def new_generator_def)
  moreover have "tm_int32 (be_mapper sample_memory) = 1"
    by (simp add: sample_memory_def)
  moreover have "\<forall>name \<in> int_names sample_expression. int_variable (\<lambda>p. if p = 3 then Some 10 else None) (\<lambda>_. 10) sample_memory name"
    by (simp add: sample_expression_def int_variable_def find_local_def reads_freed_def new_generator_def sample_memory_def)
  ultimately obtain v cs where "run_state (Xvr_LLVMExpressionEmitterEmit (\<lambda>_. CHR ''x'') (Some sample_expression)) sample_memory =
      (v, sample_memory\<lparr>be_calls := be_calls sample_memory @ cs\<rparr>)" "value_of v = Some 70"
    using arithmetic_compiled [of "\<lambda>_. 10" sample_expression 70 1 value_of "\<lambda>p. if p = 3 then Some 10 else None"
      sample_memory "\<lambda>_. CHR ''x''"] by blast
  then show ?thesis
    by simp
qed

end
