(* ===== verification/Compiler.thy ===== *)
theory Compiler
  imports Driver LlvmCodegen
begin

text \<open>
  The compiler: the driver of theory Driver with the LLVM code generator as its back end, as main of
  src/compiler/main_compiler.c puts them together. Once a step of the generator is undefined, so is the compiler.
\<close>

definition level_of_number :: "nat \<Rightarrow> optimization_level" where
  "level_of_number k = (if k = 1 then XVR_LLVM_OPT_O1 else if k = 3 then XVR_LLVM_OPT_O3 else XVR_LLVM_OPT_O2)"

definition defined_state :: "bool \<times> generator \<Rightarrow> generator outcome" where
  "defined_state r = (if be_undefined (snd r) then Undefined else Done (snd r))"

definition llvm_backend ::
    "nat \<Rightarrow> (nat \<Rightarrow> char) \<Rightarrow> (string \<Rightarrow> string option) \<Rightarrow> nat \<Rightarrow> (llvm_call list \<Rightarrow> nat) \<Rightarrow>
     (llvm_call list \<Rightarrow> string option) \<Rightarrow> type_state \<Rightarrow> string \<Rightarrow> generator backend" where
  "llvm_backend n fresh files depth answer text types asmSyntax =
     \<lparr>bk_create = (\<lambda>name. Xvr_LLVMCodegenCreate answer text types (Some asmSyntax) (Some name)),
      bk_emit = (\<lambda>cg node. andThen (Xvr_LLVMCodegenEmitAST n fresh files depth node cg) defined_state),
      bk_error = (\<lambda>cg. if fst (run_state Xvr_LLVMCodegenHasError cg) then Some (fst (run_state Xvr_LLVMCodegenGetError cg)) else None),
      bk_level = (\<lambda>cg k. snd (run_state (Xvr_LLVMCodegenSetOptimizationLevel (level_of_number k)) cg)),
      bk_ir = (\<lambda>cg. fst (fst (run_state Xvr_LLVMCodegenPrintIR cg))),
      bk_object = (\<lambda>cg path kind. fst (run_state (Xvr_LLVMCodegenWriteObjectFile (Some path) kind) cg))\<rparr>"

definition xvr_compiler ::
    "nat \<Rightarrow> ((opt_pass \<Rightarrow> opt_pass \<Rightarrow> int) \<Rightarrow> opt_pass list \<Rightarrow> opt_pass list) \<Rightarrow> string \<Rightarrow> (nat \<Rightarrow> char) \<Rightarrow> nat \<Rightarrow>
     (llvm_call list \<Rightarrow> nat) \<Rightarrow> (llvm_call list \<Rightarrow> string option) \<Rightarrow> type_state \<Rightarrow> world \<Rightarrow> string list \<Rightarrow>
     (int \<times> event list) outcome" where
  "xvr_compiler n qsort beyond fresh depth answer text types w args =
     xvr_main n qsort beyond
       (llvm_backend n fresh (wo_contents w) depth answer text types (cl_asmSyntax (Xvr_initCommandLine args))) w args"

end
