(* ===== verification/CompilerProps.thy ===== *)
theory CompilerProps
  imports Compiler LlvmFunctions DriverProps
begin

text \<open>Errors of the back end on their way to the driver.\<close>

lemma emit_nodes_append:
  "emit_nodes bk cg (hs @ hs') = andThen (emit_nodes bk cg hs) (\<lambda>cg. emit_nodes bk cg hs')"
proof (induction bk cg hs rule: emit_nodes.induct)
  case (2 bk cg hs)
  then show ?case
    by (cases "bk_emit bk cg None") simp_all
next
  case (3 bk cg n hs)
  then show ?case
    by (cases "bk_emit bk cg (Some n)") simp_all
qed simp_all

lemma backend_after_error:
  assumes "be_has_error cg" "be_error cg = Some m" "Xvr_strdup (Some m) = Some (Some m')" "\<not> be_undefined cg"
  shows "bk_emit (llvm_backend n fresh files (Suc depth) answer message types syntax) cg (Some x) = Done (cg\<lparr>be_failure := Some m'\<rparr>)"
  using assms by (simp add: llvm_backend_def codegen_error_def defined_state_def)

lemma backend_function:
  assumes "\<not> be_has_error cg" "\<not> be_undefined cg1"
    and "run_state (Xvr_LLVMFunctionEmitterEmit (Xvr_LLVMExpressionEmitterEmit fresh) (Some (NodeFnDecl l a r b line))) cg = (False, cg1)"
  shows "bk_emit (llvm_backend n fresh files (Suc depth) answer message types syntax) cg (Some (NodeFnDecl l a r b line)) = Done cg1"
  using assms by (simp add: llvm_backend_def emit_top_node_def run_bind case_prod_beta defined_state_def)

text \<open>C10: The error of a function declaration reaches the driver one node late. When the emission of a function
  declaration fails, the node after it, whatever it is, makes the driver stop with the message; but when it
  is the last node, the driver goes on to write and link the module as if nothing had happened.\<close>

theorem function_error_reported_late:
  assumes bk: "bk = llvm_backend n fresh files (Suc depth) answer message types syntax"
    and "bk_create bk (so_module so) = Some cg0" and "emit_nodes bk cg0 hs = Done cg"
    and "\<not> be_has_error cg" and "be_failure cg = None"
    and "run_state (Xvr_LLVMFunctionEmitterEmit (Xvr_LLVMExpressionEmitterEmit fresh) (Some (NodeFnDecl l a r b line))) cg = (False, cg1)"
    and "be_has_error cg1" and "be_error cg1 = Some m" and "Xvr_strdup (Some m) = Some (Some m')" and "\<not> be_undefined cg1"
  shows "generate beyond bk w cl so (hs @ [Live (NodeFnDecl l a r b line)]) = finish beyond bk w cl so cg1 \<and>
    generate beyond bk w cl so (hs @ [Live (NodeFnDecl l a r b line), Live x]) =
      andThen (free_source_of_file cl so) (\<lambda>_. Done (1, [Complaint (default_to ''<inline>'' (cl_sourceFile cl)) m']))"
proof -
  have failure: "be_failure cg1 = None"
    using function_keeps(1) [of fresh "Some (NodeFnDecl l a r b line)" cg] assms(5,6) by simp
  have first: "bk_emit bk cg (Some (NodeFnDecl l a r b line)) = Done cg1"
    unfolding bk by (rule backend_function) (use assms in auto)
  have second: "bk_emit bk cg1 (Some x) = Done (cg1\<lparr>be_failure := Some m'\<rparr>)"
    unfolding bk by (rule backend_after_error) (use assms in auto)
  have error: "bk_error bk u = (if be_failure u = None then None else Some (be_failure u))" for u
    by (simp add: bk llvm_backend_def Xvr_LLVMCodegenHasError_def Xvr_LLVMCodegenGetError_def)
  have "generate beyond bk w cl so (hs @ [Live (NodeFnDecl l a r b line)]) = finish beyond bk w cl so cg1"
    using assms(2,3) first failure by (simp add: generate_def emit_nodes_append error)
  moreover have "generate beyond bk w cl so (hs @ [Live (NodeFnDecl l a r b line), Live x]) =
      andThen (free_source_of_file cl so) (\<lambda>_. Done (1, [Complaint (default_to ''<inline>'' (cl_sourceFile cl)) m']))"
    using assms(2,3) first second by (simp add: generate_def emit_nodes_append error default_to_def)
  ultimately show ?thesis
    by simp
qed

section \<open>A new code generator\<close>

definition clean :: "generator \<Rightarrow> bool" where
  "clean s \<longleftrightarrow> \<not> be_has_error s \<and> be_failure s = None \<and> \<not> be_undefined s"

definition keeps_clean :: "'a emits \<Rightarrow> bool" where
  "keeps_clean m \<longleftrightarrow> (\<forall>s. (clean s \<longrightarrow> clean (snd (run_state m s))) \<and> be_answer (snd (run_state m s)) = be_answer s)"

lemma keeps_clean_rules:
  "keeps_clean m \<Longrightarrow> (\<And>x. keeps_clean (f x)) \<Longrightarrow> keeps_clean (State_Monad.bind m f)"
  "keeps_clean (llvm w args)" "keeps_clean (llvm_string w args)" "keeps_clean (give x)"
  "keeps_clean (alter (\<lambda>s. s\<lparr>be_mapper := mapper\<rparr>))"
  unfolding keeps_clean_def by (simp_all add: case_prod_beta clean_def)

lemma keeps_clean_create:
  "keeps_clean Xvr_LLVMTypeMapperCreate" "tc_triple c = None \<Longrightarrow> keeps_clean (Xvr_LLVMTargetMachineCreate c)"
  unfolding Xvr_LLVMTypeMapperCreate_def Xvr_LLVMTargetMachineCreate_def choose_target_def initialize_targets_def
    target_lookup_def int1_type_def int8_type_def int16_type_def int32_type_def int64_type_def float_type_def
    double_type_def pointer_to_def
  by (auto intro!: keeps_clean_rules split: option.split)

lemma default_config: "tc_triple (generator_config syntax) = None"
  by (simp add: generator_config_def Let_def Xvr_LLVMTargetConfigCreate_def Xvr_LLVMTargetConfigSetCodeModel_def
    Xvr_LLVMTargetConfigSetReloc_def Xvr_LLVMTargetConfigSetAsmSyntax_def set_string_field_def split: option.split)

text \<open>A code generator is made when LLVM finds the target and makes the machine; it has no error.\<close>

definition called :: "string \<Rightarrow> llvm_call list \<Rightarrow> bool" where
  "called f cs = (case last cs of Call g args \<Rightarrow> g = f)"

lemma create_outcome:
  assumes found: "\<And>cs. called ''LLVMGetTargetFromTriple'' cs \<Longrightarrow> answer cs = 0"
    and made: "\<And>cs. called ''LLVMCreateTargetMachine'' cs \<Longrightarrow> answer cs \<noteq> 0"
  shows "\<exists>s. Xvr_LLVMCodegenCreate answer message types syntax (Some name) = Some s \<and> clean s"
proof -
  define s0 where "s0 = new_generator answer message types"
  define c where "c = generator_config syntax"
  have triple: "tc_triple c = None"
    by (simp add: c_def default_config)
  define start where "start = (do {
                 _ \<leftarrow> llvm ''LLVMContextCreate'' [];
                 _ \<leftarrow> llvm ''LLVMModuleCreateWithNameInContext'' [Text name];
                 _ \<leftarrow> llvm ''LLVMCreateBuilderInContext'' [];
                 Xvr_LLVMTypeMapperCreate })"
  define r where "r = run_state (Xvr_LLVMTargetMachineCreate c) (snd (run_state start s0))"
  have s0: "clean s0" "be_answer s0 = answer"
    by (simp_all add: s0_def new_generator_def clean_def)
  have "keeps_clean start"
    unfolding start_def by (intro keeps_clean_rules keeps_clean_create)
  then have s1: "clean (snd (run_state start s0))" "be_answer (snd (run_state start s0)) = answer"
    using s0 by (simp_all add: keeps_clean_def)
  have clean: "clean (snd r)"
    using keeps_clean_create(2) [OF triple] s1(1) by (simp add: keeps_clean_def r_def)
  have "fst r \<noteq> 0"
    using s1(2) found made triple
    by (simp add: called_def r_def initialize_targets_def Xvr_LLVMTargetMachineCreate_def choose_target_def run_bind case_prod_beta target_lookup_def)
  then show ?thesis
    using clean
    by (simp add: Xvr_LLVMCodegenCreate_def s0_def [symmetric] c_def [symmetric] r_def start_def run_bind case_prod_beta Let_def
      clean_def)
qed

section \<open>A run\<close>

definition sample_answer :: "llvm_call list \<Rightarrow> nat" where
  "sample_answer cs = (case last cs of Call f args \<Rightarrow> if f = ''LLVMGetTargetFromTriple'' then 0 else 5)"

definition sample_llvm :: "generator backend" where
  "sample_llvm = llvm_backend 3 (\<lambda>_. CHR ''x'') (\<lambda>_. None) (Suc 2) sample_answer (\<lambda>_. Some ''code'') no_types ''att''"

definition sample_source :: source where
  "sample_source = \<lparr>so_text = [], so_allocated = False, so_module = ''m''\<rparr>"

definition bodiless :: ast where
  "bodiless = NodeFnDecl (Ident ''f'' 0) None None None 1"

lemma function_error_reported_late_witness:
  "\<exists>cg. be_has_error cg \<and>
     generate [] sample_llvm sample_world Xvr_commandLine sample_source [Live bodiless] =
       finish [] sample_llvm sample_world Xvr_commandLine sample_source cg \<and>
     generate [] sample_llvm sample_world Xvr_commandLine sample_source [Live bodiless, Live NodePass] =
       Done (1, [Complaint ''<inline>'' ''function has no body''])"
proof -
  have "called ''LLVMGetTargetFromTriple'' cs \<Longrightarrow> sample_answer cs = 0"
    "called ''LLVMCreateTargetMachine'' cs \<Longrightarrow> sample_answer cs \<noteq> 0" for cs
    by (simp_all add: called_def sample_answer_def split: llvm_call.splits)
  then obtain cg where "bk_create sample_llvm (so_module sample_source) = Some cg" "clean cg"
    using create_outcome [of sample_answer "\<lambda>_. Some ''code''" no_types "Some ''att''" "''m''"]
    by (auto simp: sample_llvm_def llvm_backend_def sample_source_def)
  then have cg: "bk_create sample_llvm (so_module sample_source) = Some cg" "\<not> be_has_error cg"
      "be_failure cg = None" "\<not> be_undefined cg"
    by (simp_all add: clean_def)
  define cg1 where "cg1 = cg\<lparr>be_error := Some ''function has no body'', be_has_error := True\<rparr>"
  have copy: "Xvr_strdup (Some ''function has no body'') = Some (Some ''function has no body'')"
    by code_simp
  have run: "run_state (Xvr_LLVMFunctionEmitterEmit (Xvr_LLVMExpressionEmitterEmit (\<lambda>_. CHR ''x'')) (Some bodiless)) cg = (False, cg1)"
    by (simp add: bodiless_def Xvr_LLVMFunctionEmitterEmit_def emit_function_body_def run_bind Xvr_LLVMContextSetError_def
      copy cg1_def case_prod_beta)
  note applied = function_error_reported_late [OF sample_llvm_def cg(1) emit_nodes.simps(1) cg(2,3)
      run [unfolded bodiless_def] _ _ copy, of "[]" sample_world Xvr_commandLine NodePass, folded bodiless_def]
  show ?thesis
    using applied cg(4) by (intro exI [of _ cg1]) (simp add: cg1_def Xvr_commandLine_def default_to_def free_source_of_file_def)
qed

end
