(* ===== verification/Runtime.thy ===== *)
theory Runtime
  imports XvrPrelude "HOL-Library.Word"
begin

text \<open>
  The functions that compiled programs call: arrays of ints and the concatenation of strings
  (src/src/xvr_runtime.cpp), under the names that the expression emitter declares. An array is NULL or a block
  of \<open>capacity\<close> cells of which the first \<open>size\<close> hold elements. \<open>room\<close> says for which numbers of bytes the
  C library finds memory, \<open>garbage\<close> is what a new cell holds. A call returns, ends the program with SIGABRT, or is
  undefined, when the capacity leaves the range of int.
\<close>

section \<open>Arrays\<close>

datatype 'a running = Returned 'a | Aborted | Overflow

record runtime_array =
  ra_data :: "32 word list"
  ra_size :: nat
  ra_capacity :: nat

definition xvr_array_create_int :: "(nat \<Rightarrow> bool) \<Rightarrow> runtime_array option" where
  "xvr_array_create_int room = (if room 16 then Some \<lparr>ra_data = [], ra_size = 0, ra_capacity = 0\<rparr> else None)"

definition grown_capacity :: "nat \<Rightarrow> nat" where
  "grown_capacity c = (if c = 0 then 4 else c * 2)"

text \<open>The array with room for one element more, if memory for it is found.\<close>

definition grow_array :: "(nat \<Rightarrow> bool) \<Rightarrow> (nat \<Rightarrow> 32 word) \<Rightarrow> runtime_array \<Rightarrow> runtime_array option running" where
  "grow_array room garbage a =
     (if ra_size a < ra_capacity a then Returned (Some a)
      else (let c = grown_capacity (ra_capacity a)
            in if c \<ge> 2 ^ 31 then Overflow
               else if room (4 * c) then
                 Returned (Some (a\<lparr>ra_data := ra_data a @ map garbage [ra_capacity a..<c], ra_capacity := c\<rparr>))
               else Returned None))"

definition xvr_array_insert_int ::
    "(nat \<Rightarrow> bool) \<Rightarrow> (nat \<Rightarrow> 32 word) \<Rightarrow> runtime_array option \<Rightarrow> 32 word \<Rightarrow> runtime_array option running" where
  "xvr_array_insert_int room garbage arr v =
     (case arr of
        None \<Rightarrow> Returned None
      | Some a \<Rightarrow>
          (case grow_array room garbage a of
             Returned None \<Rightarrow> Returned (Some a)
           | Returned (Some b) \<Rightarrow> Returned (Some (b\<lparr>ra_data := (ra_data b)[ra_size b := v], ra_size := Suc (ra_size b)\<rparr>))
           | Aborted \<Rightarrow> Aborted
           | Overflow \<Rightarrow> Overflow))"

definition xvr_array_len :: "runtime_array option \<Rightarrow> nat" where
  "xvr_array_len arr = (case arr of None \<Rightarrow> 0 | Some a \<Rightarrow> ra_size a)"

text \<open>Whether an index is one of an element; the program is aborted otherwise.\<close>

definition valid_index :: "runtime_array \<Rightarrow> 32 word \<Rightarrow> bool" where
  "valid_index a i \<longleftrightarrow> ra_size a \<noteq> 0 \<and> \<not> sint i < 0 \<and> \<not> sint i \<ge> int (ra_size a)"

definition xvr_array_get_int :: "runtime_array option \<Rightarrow> 32 word \<Rightarrow> 32 word running" where
  "xvr_array_get_int arr i =
     (case arr of
        None \<Rightarrow> Returned 0
      | Some a \<Rightarrow> if valid_index a i then Returned (ra_data a ! nat (sint i)) else Aborted)"

definition xvr_array_set_int :: "runtime_array option \<Rightarrow> 32 word \<Rightarrow> 32 word \<Rightarrow> runtime_array option running" where
  "xvr_array_set_int arr i v =
     (case arr of
        None \<Rightarrow> Returned None
      | Some a \<Rightarrow>
          if valid_index a i then Returned (Some (a\<lparr>ra_data := (ra_data a)[nat (sint i) := v]\<rparr>)) else Aborted)"

section \<open>Strings\<close>

definition XVR_MAX_STRING_LENGTH :: nat where "XVR_MAX_STRING_LENGTH = 1048576"

definition text_or_empty :: "string option \<Rightarrow> string" where
  "text_or_empty s = (case s of None \<Rightarrow> [] | Some t \<Rightarrow> t)"

definition xvr_string_concat :: "(nat \<Rightarrow> bool) \<Rightarrow> string option \<Rightarrow> string option \<Rightarrow> string option" where
  "xvr_string_concat room lhs rhs =
     (let l = text_or_empty lhs; r = text_or_empty rhs
      in if length l + length r > XVR_MAX_STRING_LENGTH then None
         else if room (length l + length r + 1) then Some (l @ r) else None)"

section \<open>Arrays are lists\<close>

text \<open>The elements of an array, and what is true of every array of a program.\<close>

definition elements :: "runtime_array \<Rightarrow> 32 word list" where
  "elements a = take (ra_size a) (ra_data a)"

definition array_ok :: "runtime_array \<Rightarrow> bool" where
  "array_ok a \<longleftrightarrow> ra_size a \<le> ra_capacity a \<and> length (ra_data a) = ra_capacity a \<and> ra_capacity a < 2 ^ 31"

inductive program_array :: "(nat \<Rightarrow> bool) \<Rightarrow> (nat \<Rightarrow> 32 word) \<Rightarrow> runtime_array \<Rightarrow> 32 word list \<Rightarrow> bool" for room garbage where
  created: "xvr_array_create_int room = Some a \<Longrightarrow> program_array room garbage a []"
| inserted: "\<lbrakk>program_array room garbage a xs; xvr_array_insert_int room garbage (Some a) v = Returned (Some b); b \<noteq> a\<rbrakk> \<Longrightarrow>
    program_array room garbage b (xs @ [v])"
| assigned: "\<lbrakk>program_array room garbage a xs; xvr_array_set_int (Some a) i v = Returned (Some b)\<rbrakk> \<Longrightarrow>
    program_array room garbage b (xs[nat (sint i) := v])"

lemma length_elements: "array_ok a \<Longrightarrow> length (elements a) = ra_size a"
  by (simp add: array_ok_def elements_def)

lemma insert_appends:
  assumes "array_ok a" and "xvr_array_insert_int room garbage (Some a) v = Returned (Some b)"
  shows "b = a \<or> (array_ok b \<and> elements b = elements a @ [v])"
proof (cases "ra_size a < ra_capacity a")
  case True
  then show ?thesis
    using assms by (auto simp: xvr_array_insert_int_def grow_array_def array_ok_def elements_def take_Suc_conv_app_nth)
next
  case False
  then have "ra_size a = ra_capacity a"
    using assms(1) by (simp add: array_ok_def)
  then show ?thesis
    using assms
    by (auto simp: xvr_array_insert_int_def grow_array_def array_ok_def elements_def grown_capacity_def Let_def
      take_Suc_conv_app_nth list_update_append split: if_splits)
qed

lemma set_updates:
  assumes "array_ok a" and "xvr_array_set_int (Some a) i v = Returned (Some b)"
  shows "array_ok b \<and> elements b = (elements a)[nat (sint i) := v]"
  using assms by (auto simp: xvr_array_set_int_def array_ok_def elements_def valid_index_def take_update_swap split: if_splits)

lemma program_array_ok: "program_array room garbage a xs \<Longrightarrow> array_ok a \<and> elements a = xs"
proof (induction rule: program_array.induct)
  case (created a)
  then show ?case
    by (auto simp: xvr_array_create_int_def array_ok_def elements_def split: if_splits)
next
  case (inserted a xs v b)
  then show ?case
    using insert_appends by blast
next
  case (assigned a xs i v b)
  then show ?case
    using set_updates by blast
qed

text \<open>C6: An array that a program builds by creation, insertions and assignments behaves as the list of its elements:
  its length is the list's, a read of an index of the list gives the element, an assignment changes that one, and
  any other index ends the program. An insertion appends whenever the array has room or memory is found for four
  elements at first and then for twice as many as before; without that memory it leaves the array as it is, and it
  is undefined when twice the capacity is no int.\<close>

theorem runtime_arrays_are_lists:
  assumes "program_array room garbage a xs"
  shows "xvr_array_len (Some a) = length xs \<and>
    xvr_array_get_int (Some a) i =
      (if 0 \<le> sint i \<and> sint i < int (length xs) then Returned (xs ! nat (sint i)) else Aborted) \<and>
    (if 0 \<le> sint i \<and> sint i < int (length xs)
     then \<exists>b. xvr_array_set_int (Some a) i v = Returned (Some b) \<and> program_array room garbage b (xs[nat (sint i) := v])
     else xvr_array_set_int (Some a) i v = Aborted) \<and>
    length xs \<le> ra_capacity a \<and>
    (let full = (length xs = ra_capacity a); more = (if xs = [] \<and> full then 4 else 2 * ra_capacity a)
     in if full \<and> 2 ^ 31 \<le> more then xvr_array_insert_int room garbage (Some a) v = Overflow
        else if full \<and> \<not> room (4 * more) then xvr_array_insert_int room garbage (Some a) v = Returned (Some a)
        else \<exists>b. xvr_array_insert_int room garbage (Some a) v = Returned (Some b) \<and>
               program_array room garbage b (xs @ [v]) \<and> ra_capacity b = (if full then more else ra_capacity a))"
proof -
  have ok: "array_ok a" "elements a = xs" "ra_size a = length xs"
    using program_array_ok [OF assms] length_elements by auto
  have index: "valid_index a i \<longleftrightarrow> 0 \<le> sint i \<and> sint i < int (length xs)"
    using ok(3) by (auto simp: valid_index_def)
  have "ra_data a ! nat (sint i) = xs ! nat (sint i)" if "0 \<le> sint i" "sint i < int (length xs)"
    using that ok nth_take [of "nat (sint i)" "length xs" "ra_data a"] by (simp add: elements_def nat_less_iff)
  moreover have "\<exists>b. xvr_array_set_int (Some a) i v = Returned (Some b)" if "valid_index a i"
    using that by (simp add: xvr_array_set_int_def)
  moreover have "program_array room garbage b (xs @ [v])"
    if "xvr_array_insert_int room garbage (Some a) v = Returned (Some b)" "ra_size b = Suc (length xs)" for b
    using inserted [OF assms that(1)] that(2) ok(3) by fastforce
  moreover have "length xs \<le> ra_capacity a"
    using ok by (simp add: array_ok_def)
  ultimately show ?thesis
    using ok index assigned [OF assms]
    by (auto simp: xvr_array_len_def xvr_array_get_int_def xvr_array_set_int_def xvr_array_insert_int_def grow_array_def
      grown_capacity_def Let_def mult.commute)
qed

lemma runtime_arrays_are_lists_witness:
  "xvr_array_get_int (xvr_array_create_int (\<lambda>_. True)) 0 = Aborted \<and>
   (\<exists>b. xvr_array_insert_int (\<lambda>_. True) (\<lambda>_. 0) (xvr_array_create_int (\<lambda>_. True)) 7 = Returned (Some b) \<and>
      program_array (\<lambda>_. True) (\<lambda>_. 0) b [7])"
  using runtime_arrays_are_lists [OF created [of "\<lambda>_. True" "the (xvr_array_create_int (\<lambda>_. True))" "\<lambda>_. 0"], of 0 7]
  by (auto simp: xvr_array_create_int_def)

end
