(* ===== verification/PrintHandler.thy ===== *)
theory PrintHandler
  imports XvrPrelude
begin

text \<open>
  Print handlers (src/src/xvr_print_handler.cpp): an output function, possibly missing, over the state 'w of the
  output, and whether a line feed follows every message. A message has no NUL. With a line feed only the first 1023
  characters fit the buffer.
\<close>

record 'w print_handler =
  ph_output :: "(string \<Rightarrow> 'w \<Rightarrow> 'w) option"
  ph_newline :: bool

definition Xvr_printHandlerInit :: "(string \<Rightarrow> 'w \<Rightarrow> 'w) option \<Rightarrow> bool \<Rightarrow> 'w print_handler" where
  "Xvr_printHandlerInit out newline = \<lparr>ph_output = out, ph_newline = newline\<rparr>"

definition Xvr_printHandlerSetOutput :: "(string \<Rightarrow> 'w \<Rightarrow> 'w) option \<Rightarrow> 'w print_handler \<Rightarrow> 'w print_handler" where
  "Xvr_printHandlerSetOutput out h = h\<lparr>ph_output := out\<rparr>"

definition Xvr_printHandlerSetNewline :: "bool \<Rightarrow> 'w print_handler \<Rightarrow> 'w print_handler" where
  "Xvr_printHandlerSetNewline newline h = h\<lparr>ph_newline := newline\<rparr>"

definition Xvr_printHandlerPrint :: "'w print_handler \<Rightarrow> string \<Rightarrow> 'w \<Rightarrow> 'w" where
  "Xvr_printHandlerPrint h message w =
     (case ph_output h of
        None \<Rightarrow> w
      | Some out \<Rightarrow> out (if ph_newline h then take 1023 (message @ [LF]) else message) w)"

text \<open>A file is the text written to it; None is NULL.\<close>

definition Xvr_printHandlerFile :: "string option \<Rightarrow> string \<Rightarrow> string option" where
  "Xvr_printHandlerFile file message = map_option (\<lambda>t. t @ message) file"

definition Xvr_printHandlerStdout :: "string \<Rightarrow> string \<Rightarrow> string" where
  "Xvr_printHandlerStdout message out = out @ message"

definition Xvr_printHandlerStderr :: "string \<Rightarrow> string \<Rightarrow> string" where
  "Xvr_printHandlerStderr message err = err @ message"

text \<open>A long message loses its line feed: the next one continues its line.\<close>

lemma long_line_unfinished:
  assumes "ph_newline h" "ph_output h = Some Xvr_printHandlerStdout" "length message \<ge> 1023"
  shows "Xvr_printHandlerPrint h message out = out @ take 1023 message"
  using assms by (simp add: Xvr_printHandlerPrint_def Xvr_printHandlerStdout_def)

end
