(* ===== verification/Memory.thy ===== *)
theory Memory
  imports XvrPrelude "HOL-Library.Word"
begin

text \<open>
  The allocator (src/src/xvr_memory.cpp) with the counts it keeps in debug builds, and the faster growth of capacities
  of xvr_memory.h; \<open>XVR_GROW_CAPACITY\<close> is in LitDictionary. The C library's \<open>realloc\<close> is a parameter, from a pointer and
  a size to a pointer; None is NULL.
  A call that ends the process is None. A program may set its own allocator, a parameter as well.
\<close>

section \<open>State\<close>

datatype allocator = DefaultAllocator | Reallocate | OwnAllocator nat

record memory =
  me_allocs :: "64 word"
  me_frees :: "64 word"
  me_current :: "64 word"
  me_peak :: "64 word"
  me_initialized :: bool
  me_allocator :: allocator
  me_refstrings :: allocator

type_synonym 'p allocation = "'p option \<Rightarrow> 64 word \<Rightarrow> 64 word \<Rightarrow> memory \<Rightarrow> ('p option \<times> memory) option"

definition Xvr_debugGetAllocCount :: "memory \<Rightarrow> 64 word" where "Xvr_debugGetAllocCount m = me_allocs m"
definition Xvr_debugGetFreeCount :: "memory \<Rightarrow> 64 word" where "Xvr_debugGetFreeCount m = me_frees m"
definition Xvr_debugGetCurrentMemory :: "memory \<Rightarrow> 64 word" where "Xvr_debugGetCurrentMemory m = me_current m"

definition Xvr_debugResetMemoryStats :: "memory \<Rightarrow> memory" where
  "Xvr_debugResetMemoryStats m =
     m\<lparr>me_allocs := 0, me_frees := 0, me_current := 0, me_peak := 0, me_initialized := True\<rparr>"

section \<open>Allocation\<close>

definition Xvr_private_defaultMemoryAllocator :: "('p option \<Rightarrow> 64 word \<Rightarrow> 'p option) \<Rightarrow> 'p allocation" where
  "Xvr_private_defaultMemoryAllocator realloc pointer oldSize newSize m0 =
     (let m = m0\<lparr>me_initialized := True\<rparr>
      in if newSize = 0 \<and> oldSize = 0 then Some (None, m)
         else if newSize = 0 then Some (None, m\<lparr>me_frees := me_frees m + 1, me_current := me_current m - oldSize\<rparr>)
         else case realloc pointer newSize of
           None \<Rightarrow> None
         | Some p \<Rightarrow>
             (let current = (if pointer = None then me_current m + newSize else me_current m + (newSize - oldSize))
              in Some (Some p, m\<lparr>me_allocs := me_allocs m + (if pointer = None then 1 else 0), me_current := current,
                   me_peak := max (me_peak m) current\<rparr>)))"

text \<open>Calls of the allocator that is set; \<open>Xvr_reallocate\<close> itself cannot be. The reference strings are given it as well.\<close>

definition Xvr_reallocate :: "('p option \<Rightarrow> 64 word \<Rightarrow> 'p option) \<Rightarrow> (nat \<Rightarrow> 'p allocation) \<Rightarrow> 'p allocation" where
  "Xvr_reallocate realloc own pointer oldSize newSize m =
     (case me_allocator m of
        OwnAllocator i \<Rightarrow> own i pointer oldSize newSize m
      | _ \<Rightarrow> Xvr_private_defaultMemoryAllocator realloc pointer oldSize newSize m)"

definition Xvr_setMemoryAllocator :: "allocator option \<Rightarrow> memory \<Rightarrow> memory option" where
  "Xvr_setMemoryAllocator fn m =
     (case fn of
        None \<Rightarrow> None
      | Some f \<Rightarrow> if f = Reallocate then None else Some (m\<lparr>me_allocator := f, me_refstrings := f\<rparr>))"

definition XVR_GROW_CAPACITY_FAST :: "int \<Rightarrow> int" where
  "XVR_GROW_CAPACITY_FAST capacity = (if capacity < 32 then 32 else capacity * 2)"

section \<open>The counts\<close>

text \<open>A program that passes the true size of every block: the sizes of the blocks it holds after a run.\<close>

inductive holds :: "('p option \<Rightarrow> 64 word \<Rightarrow> 'p option) \<Rightarrow> memory \<Rightarrow> (nat \<times> 64 word) list \<Rightarrow> bool" for realloc where
  started: "me_current m = 0 \<Longrightarrow> me_allocs m = 0 \<Longrightarrow> me_frees m = 0 \<Longrightarrow> holds realloc m []"
| allocated: "\<lbrakk>holds realloc m bs; n \<noteq> 0; Xvr_private_defaultMemoryAllocator realloc None 0 n m = Some (Some p, m')\<rbrakk> \<Longrightarrow>
    holds realloc m' ((i, n) # bs)"
| resized: "\<lbrakk>holds realloc m (as @ (i, k) # bs); k \<noteq> 0; n \<noteq> 0;
    Xvr_private_defaultMemoryAllocator realloc (Some q) k n m = Some (Some p, m')\<rbrakk> \<Longrightarrow> holds realloc m' (as @ (i, n) # bs)"
| released: "\<lbrakk>holds realloc m (as @ (i, k) # bs); k \<noteq> 0;
    Xvr_private_defaultMemoryAllocator realloc (Some q) k 0 m = Some (None, m')\<rbrakk> \<Longrightarrow> holds realloc m' (as @ bs)"

text \<open>The current memory is the sum of the sizes held, and the blocks held are the allocations less the releases,
  modulo the size of the counters; so a leak shows as a difference.\<close>

lemma counts_exact:
  "holds realloc m bs \<Longrightarrow> me_current m = sum_list (map snd bs) \<and> me_allocs m = me_frees m + of_nat (length bs)"
  by (induction rule: holds.induct)
    (auto simp: Xvr_private_defaultMemoryAllocator_def Let_def algebra_simps split: option.splits if_splits)

end
