(* ===== verification/Spec2Isabelle.thy ===== *)
theory Spec2Isabelle
  imports LexerProps RefStrings LitProps Scopes TypeSystem AstOptimizer IrProps UnusedProps FormatProps ParserProps DriverProps PrintProps ModuleProps LlvmFormats LlvmMeaning CompilerProps Runtime PrintHandler Memory
begin

text \<open>
  A model of the Xvr compiler with its theorems. The sources are those of src/src and src/compiler; names of
  functions and types are kept, with a suffix or a new name where Isabelle has no room for them.

  \<^bold>\<open>The program.\<close> The driver (src/compiler/main_compiler.c) reads the command line and a source, calls the parser for the
  top-level nodes, refuses programs with unused or repeated declarations, runs the AST optimiser, gives the nodes one
  by one to the LLVM code generator, and writes the module as text, assembler or object file, which it links and
  runs. The parser pulls tokens from the lexer and builds literals from them; literals hold reference-counted
  strings, arrays and dictionaries. The code generator uses format strings for printing, the type table for casts, the
  module resolver for imports, and declares functions of the runtime. Scopes, the IR with its generator and the
  semantic analyzer are libraries beside this pipeline.

  \<^bold>\<open>Theories and sources\<close> (under src/src unless given otherwise).
  \<^item> XvrPrelude holds collections, C strings as character lists and shared lemmas; CStrings is xvr_string_utils.cpp.
  \<^item> Tokens and Lexer are xvr_token_types.h, xvr_keyword_types.cpp and xvr_lexer.cpp; the state \<open>Xvr_Lexer\<close> is a record,
    a lexeme an offset or a constant. Properties: LexerProps.
  \<^item> RefStrings is xvr_refstring.cpp on a heap of counted blocks; Scopes is xvr_scope.cpp on a heap of chained scopes.
  \<^item> Literals, LitDictionary, LitOps are xvr_literal.cpp, xvr_literal_array.cpp and xvr_literal_dictionary.cpp: tagged
    unions with their eight bytes, the hash table with tombstones, copying and equality. Properties: LitProps.
    LitPrint, Decimal and FloatText are their text, with printf's number formats. Properties: PrintProps.
  \<^item> TypeSystem is core/types/xvr_type.cpp and core/semantic/xvr_semantic.cpp.
  \<^item> AstNodes and AstOptimizer are core/ast and optimizer/xvr_ast_optimizer.cpp. IrModule and IrGenerator are core/ir.
    Properties of the translation: IrProps.
  \<^item> UnusedCheck is xvr_unused.cpp, with the reference definition and its equivalence in UnusedProps.
  \<^item> FormatStrings is xvr_format_string.cpp; FormatProps has the templates and the bound of the buffer.
    LlvmFormats has the format of println in the code that is generated.
  \<^item> ParserState, ParserValues, ParserFold, Floats and Parser are xvr_parser.cpp: token primitives and panic mode, values, the
    rewriting of operators, IEEE numbers, and the Pratt table with statements, declarations and parse_to_ast. ParserContract and
    ParserCalls hold the contract of every procedure (locale \<open>parser_calls\<close>), ParserFuel that fuel does not change
    results, ParserChains the trees of operator chains, and ParserProps the theorems.
  \<^item> CommandLine is xvr_common.cpp; Modules is sema/xvr_builtin.cpp, the registry of builtins and the module resolver;
    Driver is main_compiler.c over a back end that is a record of functions. Properties: ModuleProps, DriverProps.
  \<^item> The code generator is adapters/llvm and xvr_cast_emit.cpp. LlvmState has its state, the record \<open>generator\<close>, with the
    context, the module manager, the type mapper, the builder and the local variables; LlvmValues, LlvmOps, LlvmMath,
    LlvmPrint, LlvmAccess and LlvmEmitter have the expression emitter; LlvmFlow has conditions and loops; LlvmTarget
    the target, the output files and the optimiser; LlvmCodegen functions, the main function and programs. Compiler makes
    it the back end of the driver.
  \<^item> LlvmFrames, LlvmScopes and LlvmEmission show what an emission leaves as it was (locale \<open>emission_contract\<close>),
    LlvmFuel that the bound of the recursion is never met (locale \<open>agreement\<close>), with the interpretation of the contract, LlvmFunctions what functions
    keep and return. LlvmMeaning has the code of arithmetic expressions against their values, under the documented meaning
    of the instructions. Other properties: LlvmProps and CompilerProps.
  \<^item> Runtime is xvr_runtime.cpp, the functions that compiled programs call; PrintHandler is xvr_print_handler.cpp;
    Memory is the allocator of xvr_memory.cpp.

  \<^bold>\<open>Conventions.\<close> A C string is the list of its characters before the NUL, a NULL pointer is None. Machine integers are words,
  or ints with the range written out. A C function that may follow a dangling or NULL pointer, leave a buffer or
  overflow has the value None, an error, or \<open>Undefined\<close> of the type \<open>outcome\<close> there; the code generator sets
  \<open>be_undefined\<close>. Output on the terminal is a list of events or reports. Loops along pointers are
  \<open>partial_function\<close>s, and that they return is a theorem. Memory is always found, except in Runtime and Memory.
  The counts and capacities of containers, scopes and buffers are numbers: they leave the range of \<open>int\<close> only with 2^30 elements
  or 2^31 bytes in memory at once. The count of a reference string grows without memory, so it is bounded and has its overflow
  (\<open>CountOverflow\<close>). A local variable of the code generator points into the nodes it was declared by; the model keeps
  which module owns them, and a search that meets a name of a freed module sets \<open>be_undefined\<close>.

  \<^bold>\<open>Fuel.\<close> The parser takes fuel for its mutual recursion and is \<open>Unfinished\<close> without; twice the length of the source and two
  more are enough when the block comments of the source are closed (ParserProps), and a scan that does not return is described in
  LexerProps. Copying and comparing literals use their depth. The emission of nodes is bounded by the size of the node;
  at the bound the mark \<open>be_unfinished\<close> is set, and no emission sets it (\<open>emission_ends\<close> in LlvmProps). The emission of programs takes fuel for imports only: a module that imports
  itself is emitted without end. The fixed tables of the code generator have 64 variables, 32 scopes, 64 loops
  and 256 functions, as in the source.

  \<^bold>\<open>LLVM\<close> is not modelled. A call of its interface is recorded by name with its arguments, and its answers are an arbitrary
  function of the calls made so far; theorems hold for every such function, or name what they assume of it
  (\<open>types_fixed\<close>: the type of a value and the kind of a type do not change; \<open>computes\<close>: what the instructions for
  integers compute). The module, context and
  builder of the single generator are left out of the arguments. So the theorems speak of the instructions that are
  asked for and their order, not of what LLVM makes of them.

  \<^bold>\<open>What the lemmas show.\<close> Invariants of the states (lexer cursor, reference counts, scope counts, type table, instruction
  numbers, tables and loops of the code generator), refinement of maps, lists, operator trees and arithmetic, equivalence with reference
  definitions (unused declarations, constant folding, module loading), termination, bounds of buffers, the paths of errors,
  and the text that is printed. Several theorems describe what the code does where that is not what it means to do:
  a return below the body of a function has no effect, a condition that is no boolean drops its statement, and an error
  in the last function is not reported.

  \<^bold>\<open>Not modelled.\<close> xvr_builtin.cpp of src/src, which is not built and includes a header that does not exist;
  the C++ wrappers, which only forward; texts of usage and help, colours and debug output; the bodies of the
  handlers in the builtin registry, which all return NULL; the converter of assembler syntax and the emission to memory in
  xvr_llvm_target.cpp, which nothing calls; tests and fuzzers.
\<close>

end
